(* ===== verification/Prelude.thy ===== *)
theory Prelude
  imports Complex_Main "HOL-Library.Multiset"
begin

text \<open>
  Shared vocabulary of the development: the exceptions the Python code raises, the result
  type of a read that may raise (\<open>'a res\<close>), the type of a database transaction
  (\<open>('s, 'a) tx\<close>) with its sequencing combinators, a Hoare-style relation for
  transactions, and the generic lemmas on tables (lists of rows with a key) the components
  share.
\<close>

section \<open>Exceptions\<close>

text \<open>
  One constructor per exception class the modelled code raises. The string is a key for the
  message; the wording shown to people (gettext) is not modelled.
\<close>

datatype err =
    InvalidInput string        \<comment> \<open>apps.core.errors.InvalidInputError\<close>
  | AccessDenied string        \<comment> \<open>apps.core.errors.AccessDeniedError, EntryOwnershipError\<close>
  | Conflict string            \<comment> \<open>apps.core.errors.ConflictError and its subclasses\<close>
  | Validation string          \<comment> \<open>django ValidationError\<close>
  | ValueErr string            \<comment> \<open>ValueError\<close>
  | TypeErr string             \<comment> \<open>TypeError\<close>
  | DoesNotExist string        \<comment> \<open>Model.DoesNotExist, LookupError\<close>
  | Integrity string           \<comment> \<open>django.db.IntegrityError, a database constraint refused the row\<close>
  | DecimalInvalid string      \<comment> \<open>decimal.InvalidOperation\<close>
  | Misconfigured string       \<comment> \<open>ImproperlyConfigured\<close>
  | HttpErr int string         \<comment> \<open>ninja HttpError, Http404, the authentication errors: a status\<close>

type_synonym 'a res = "err + 'a"

section \<open>Reads that may raise\<close>

definition bindR :: "'a res \<Rightarrow> ('a \<Rightarrow> 'b res) \<Rightarrow> 'b res" where
  "bindR r f = (case r of Inl e \<Rightarrow> Inl e | Inr x \<Rightarrow> f x)"

lemma bindR_simps [simp]:
  "bindR (Inl e) f = Inl e"
  "bindR (Inr x) f = f x"
  by (simp_all add: bindR_def)

lemma bindR_eq_Inr: "bindR r f = Inr y \<longleftrightarrow> (\<exists>x. r = Inr x \<and> f x = Inr y)"
  by (cases r) simp_all

fun mapR :: "('a \<Rightarrow> 'b res) \<Rightarrow> 'a list \<Rightarrow> 'b list res" where
  "mapR f [] = Inr []"
| "mapR f (x # xs) = bindR (f x) (\<lambda>y. bindR (mapR f xs) (\<lambda>ys. Inr (y # ys)))"

lemma mapR_length: "mapR f xs = Inr ys \<Longrightarrow> length ys = length xs"
  by (induction xs arbitrary: ys) (auto simp: bindR_eq_Inr)

lemma mapR_total: "(\<And>x. x \<in> set xs \<Longrightarrow> f x = Inr (g x)) \<Longrightarrow> mapR f xs = Inr (map g xs)"
  by (induction xs) auto

lemma mapR_nth: "mapR f xs = Inr ys \<Longrightarrow> i < length xs \<Longrightarrow> f (xs ! i) = Inr (ys ! i)"
  by (induction xs arbitrary: ys i) (auto simp: bindR_eq_Inr nth_Cons split: nat.splits)

text \<open>Every element of a successful \<open>mapR\<close> comes from an element of its input.\<close>

lemma mapR_in: "mapR f xs = Inr ys \<Longrightarrow> y \<in> set ys \<Longrightarrow> \<exists>x \<in> set xs. f x = Inr y"
  by (induction xs arbitrary: ys) (auto simp: bindR_eq_Inr)

fun filterR :: "('a \<Rightarrow> bool res) \<Rightarrow> 'a list \<Rightarrow> 'a list res" where
  "filterR f [] = Inr []"
| "filterR f (x # xs) =
     bindR (f x) (\<lambda>b. bindR (filterR f xs) (\<lambda>ys. Inr (if b then x # ys else ys)))"

lemma filterR_subset: "filterR f xs = Inr ys \<Longrightarrow> set ys \<subseteq> set xs"
  by (induction xs arbitrary: ys) (auto simp: bindR_eq_Inr split: if_splits)

definition requireR :: "bool \<Rightarrow> err \<Rightarrow> unit res" where
  "requireR b e = (if b then Inr () else Inl e)"

lemma requireR_simps [simp]:
  "requireR True e = Inr ()" "requireR False e = Inl e"
  by (simp_all add: requireR_def)

lemma requireR_eq_Inr [simp]: "requireR b e = Inr u \<longleftrightarrow> b"
  by (simp add: requireR_def)

definition of_option :: "err \<Rightarrow> 'a option \<Rightarrow> 'a res" where
  "of_option e x = (case x of None \<Rightarrow> Inl e | Some y \<Rightarrow> Inr y)"

lemma of_option_simps [simp]:
  "of_option e None = Inl e" "of_option e (Some x) = Inr x"
  by (simp_all add: of_option_def)

lemma of_option_eq_Inr [simp]: "of_option e x = Inr y \<longleftrightarrow> x = Some y"
  by (cases x) simp_all

section \<open>Transactions\<close>

text \<open>
  A handler runs in a database transaction: it takes the state and either raises, and then
  nothing it wrote is kept (no state is returned), or returns its value and the new state.
  Row locks (\<open>select_for_update\<close>, advisory locks, \<open>lock_costing_jobs\<close>) order concurrent
  transactions and change nothing in a sequential run, so they have no term of their own.
\<close>

type_synonym ('s, 'a) tx = "'s \<Rightarrow> err + ('a \<times> 's)"

definition ret :: "'a \<Rightarrow> ('s, 'a) tx" where
  "ret x = (\<lambda>s. Inr (x, s))"

definition throw :: "err \<Rightarrow> ('s, 'a) tx" where
  "throw e = (\<lambda>s. Inl e)"

definition bindT :: "('s, 'a) tx \<Rightarrow> ('a \<Rightarrow> ('s, 'b) tx) \<Rightarrow> ('s, 'b) tx" where
  "bindT m f = (\<lambda>s. case m s of Inl e \<Rightarrow> Inl e | Inr (x, s') \<Rightarrow> f x s')"

definition seqT :: "('s, 'a) tx \<Rightarrow> ('s, 'b) tx \<Rightarrow> ('s, 'b) tx" where
  "seqT m n = bindT m (\<lambda>_. n)"

definition readT :: "('s \<Rightarrow> 'a res) \<Rightarrow> ('s, 'a) tx" where
  "readT f = (\<lambda>s. case f s of Inl e \<Rightarrow> Inl e | Inr x \<Rightarrow> Inr (x, s))"

definition getT :: "('s \<Rightarrow> 'a) \<Rightarrow> ('s, 'a) tx" where
  "getT f = (\<lambda>s. Inr (f s, s))"

definition putT :: "('s \<Rightarrow> 's) \<Rightarrow> ('s, unit) tx" where
  "putT f = (\<lambda>s. Inr ((), f s))"

definition catchT :: "('s, 'a) tx \<Rightarrow> (err \<Rightarrow> err) \<Rightarrow> ('s, 'a) tx" where
  "catchT m f = (\<lambda>s. case m s of Inl e \<Rightarrow> Inl (f e) | Inr r \<Rightarrow> Inr r)"

definition requireT :: "bool \<Rightarrow> err \<Rightarrow> ('s, unit) tx" where
  "requireT b e = (if b then ret () else throw e)"

definition whenT :: "bool \<Rightarrow> ('s, unit) tx \<Rightarrow> ('s, unit) tx" where
  "whenT b m = (if b then m else ret ())"

fun forT :: "'a list \<Rightarrow> ('a \<Rightarrow> ('s, unit) tx) \<Rightarrow> ('s, unit) tx" where
  "forT [] f = ret ()"
| "forT (x # xs) f = seqT (f x) (forT xs f)"

fun foldT :: "('a \<Rightarrow> 'b \<Rightarrow> ('s, 'b) tx) \<Rightarrow> 'a list \<Rightarrow> 'b \<Rightarrow> ('s, 'b) tx" where
  "foldT f [] b = ret b"
| "foldT f (x # xs) b = bindT (f x b) (foldT f xs)"

named_theorems tx_simps \<open>equations that run a transaction on a state\<close>

lemma ret_run [tx_simps]: "ret x s = Inr (x, s)" by (simp add: ret_def)
lemma throw_run [tx_simps]: "throw e s = Inl e" by (simp add: throw_def)
lemma getT_run [tx_simps]: "getT f s = Inr (f s, s)" by (simp add: getT_def)
lemma putT_run [tx_simps]: "putT f s = Inr ((), f s)" by (simp add: putT_def)
lemma bindT_run [tx_simps]:
  "bindT m f s = (case m s of Inl e \<Rightarrow> Inl e | Inr (x, s') \<Rightarrow> f x s')"
  by (simp add: bindT_def)
lemma seqT_run [tx_simps]:
  "seqT m n s = (case m s of Inl e \<Rightarrow> Inl e | Inr (x, s') \<Rightarrow> n s')"
  by (simp add: seqT_def bindT_def)
lemma readT_run [tx_simps]:
  "readT f s = (case f s of Inl e \<Rightarrow> Inl e | Inr x \<Rightarrow> Inr (x, s))"
  by (simp add: readT_def)
lemma requireT_run [tx_simps]: "requireT b e s = (if b then Inr ((), s) else Inl e)"
  by (simp add: requireT_def ret_def throw_def)
lemma whenT_run [tx_simps]: "whenT b m s = (if b then m s else Inr ((), s))"
  by (simp add: whenT_def ret_def)

lemma bindT_eq_Inr:
  "bindT m f s = Inr r \<longleftrightarrow> (\<exists>x s'. m s = Inr (x, s') \<and> f x s' = Inr r)"
  by (auto simp: bindT_def split: sum.splits prod.splits)

lemma seqT_eq_Inr:
  "seqT m n s = Inr r \<longleftrightarrow> (\<exists>x s'. m s = Inr (x, s') \<and> n s' = Inr r)"
  by (auto simp: seqT_def bindT_eq_Inr)

lemma readT_eq_Inr: "readT f s = Inr (x, s') \<longleftrightarrow> f s = Inr x \<and> s' = s"
  by (auto simp: readT_def split: sum.splits)

lemmas tx_Inr = bindT_eq_Inr seqT_eq_Inr readT_eq_Inr

lemma requireT_eq_Inr: "requireT b e s = Inr (u, s') \<longleftrightarrow> b \<and> s' = s"
  by (auto simp: requireT_def ret_def throw_def)

lemmas tx_prims = ret_run throw_run getT_run putT_run requireT_eq_Inr whenT_run

text \<open>
  Unfolding the combinators in code equations leaves case expressions, whose branches are
  evaluated only once their scrutinee is a value.
\<close>

lemmas tx_code [code_unfold] =
  bindR_def ret_def throw_def bindT_def seqT_def readT_def getT_def putT_def requireT_def whenT_def

text \<open>
  \<open>hoare P m Q\<close>: from a state with \<open>P\<close>, a run of \<open>m\<close> that does not raise ends with \<open>Q\<close> of its
  value and the new state. \<open>keeps I m\<close>: \<open>m\<close> preserves \<open>I\<close>.
\<close>

definition hoare :: "('s \<Rightarrow> bool) \<Rightarrow> ('s, 'a) tx \<Rightarrow> ('a \<Rightarrow> 's \<Rightarrow> bool) \<Rightarrow> bool" where
  "hoare P m Q \<longleftrightarrow> (\<forall>s x s'. P s \<longrightarrow> m s = Inr (x, s') \<longrightarrow> Q x s')"

definition keeps :: "('s \<Rightarrow> bool) \<Rightarrow> ('s, 'a) tx \<Rightarrow> bool" where
  "keeps I m \<longleftrightarrow> hoare I m (\<lambda>_. I)"

named_theorems keeps_intros \<open>rules that show a composed transaction preserves an invariant\<close>

lemma keepsI: "(\<And>s x s'. I s \<Longrightarrow> m s = Inr (x, s') \<Longrightarrow> I s') \<Longrightarrow> keeps I m"
  by (auto simp: keeps_def hoare_def)

lemma keepsD: "keeps I m \<Longrightarrow> I s \<Longrightarrow> m s = Inr (x, s') \<Longrightarrow> I s'"
  by (auto simp: keeps_def hoare_def)

lemma keeps_ret [keeps_intros]: "keeps I (ret x)"
  by (rule keepsI) (simp add: ret_def)

lemma keeps_throw [keeps_intros]: "keeps I (throw e)"
  by (rule keepsI) (simp add: throw_def)

lemma keeps_getT [keeps_intros]: "keeps I (getT f)"
  by (rule keepsI) (simp add: getT_def)

lemma keeps_readT [keeps_intros]: "keeps I (readT f)"
  by (rule keepsI) (simp add: readT_eq_Inr)

lemma catchT_eq_Inr [simp]: "catchT m f s = Inr r \<longleftrightarrow> m s = Inr r"
  by (auto simp: catchT_def split: sum.splits)

lemma keeps_catchT [keeps_intros]: "keeps I m \<Longrightarrow> keeps I (catchT m f)"
  by (rule keepsI) (auto dest: keepsD)

lemma keeps_requireT [keeps_intros]: "keeps I (requireT b e)"
  by (rule keepsI) (simp add: requireT_run split: if_splits)

lemma keeps_bindT [keeps_intros]:
  "keeps I m \<Longrightarrow> (\<And>x. keeps I (f x)) \<Longrightarrow> keeps I (bindT m f)"
  by (rule keepsI) (auto simp: bindT_eq_Inr dest: keepsD)

lemma keeps_seqT [keeps_intros]: "keeps I m \<Longrightarrow> keeps I n \<Longrightarrow> keeps I (seqT m n)"
  by (rule keepsI) (auto simp: seqT_eq_Inr dest: keepsD)

lemma keeps_whenT [keeps_intros]: "(b \<Longrightarrow> keeps I m) \<Longrightarrow> keeps I (whenT b m)"
  by (auto simp: whenT_def intro: keeps_ret)

lemma keeps_if [keeps_intros]:
  "(b \<Longrightarrow> keeps I m) \<Longrightarrow> (\<not> b \<Longrightarrow> keeps I n) \<Longrightarrow> keeps I (if b then m else n)"
  by simp

lemma keeps_case_option [keeps_intros]:
  "(x = None \<Longrightarrow> keeps I m) \<Longrightarrow> (\<And>y. x = Some y \<Longrightarrow> keeps I (f y)) \<Longrightarrow>
     keeps I (case x of None \<Rightarrow> m | Some y \<Rightarrow> f y)"
  by (cases x) simp_all

lemma keeps_case_prod [keeps_intros]:
  "(\<And>a b. x = (a, b) \<Longrightarrow> keeps I (f a b)) \<Longrightarrow> keeps I (case x of (a, b) \<Rightarrow> f a b)"
  by (cases x) simp

lemma keeps_let [keeps_intros]: "(\<And>y. y = x \<Longrightarrow> keeps I (f y)) \<Longrightarrow> keeps I (let y = x in f y)"
  by (simp add: Let_def)

lemma keeps_forT [keeps_intros]: "(\<And>x. x \<in> set xs \<Longrightarrow> keeps I (f x)) \<Longrightarrow> keeps I (forT xs f)"
  by (induction xs) (auto intro: keeps_intros)

lemma keeps_foldT [keeps_intros]:
  "(\<And>x b. x \<in> set xs \<Longrightarrow> keeps I (f x b)) \<Longrightarrow> keeps I (foldT f xs b)"
  by (induction xs arbitrary: b) (auto intro: keeps_intros)

lemma keeps_putT: "(\<And>s. I s \<Longrightarrow> I (f s)) \<Longrightarrow> keeps I (putT f)"
  by (rule keepsI) (auto simp: putT_def)

section \<open>Tables\<close>

text \<open>
  A database table is the list of its rows in the order they were inserted, with a key
  function. A read by key finds the first row with it; an update replaces the row in place;
  a delete takes every row with the key off.
\<close>

definition row_get :: "('r \<Rightarrow> 'k) \<Rightarrow> 'k \<Rightarrow> 'r list \<Rightarrow> 'r option" where
  "row_get key k rows = find (\<lambda>r. key r = k) rows"

definition row_put :: "('r \<Rightarrow> 'k) \<Rightarrow> 'r \<Rightarrow> 'r list \<Rightarrow> 'r list" where
  "row_put key r rows = map (\<lambda>x. if key x = key r then r else x) rows"

definition row_del :: "('r \<Rightarrow> 'k) \<Rightarrow> 'k \<Rightarrow> 'r list \<Rightarrow> 'r list" where
  "row_del key k rows = filter (\<lambda>r. key r \<noteq> k) rows"

lemma row_get_Some: "row_get key k rows = Some r \<Longrightarrow> r \<in> set rows \<and> key r = k"
  by (auto simp: row_get_def find_Some_iff)

lemma row_get_None: "row_get key k rows = None \<longleftrightarrow> k \<notin> key ` set rows"
  by (auto simp: row_get_def find_None_iff)

lemma row_get_distinct:
  "distinct (map key rows) \<Longrightarrow> r \<in> set rows \<Longrightarrow> row_get key (key r) rows = Some r"
  by (induction rows) (auto simp: row_get_def image_iff)

lemma row_put_keys [simp]: "map key (row_put key r rows) = map key rows"
  by (simp add: row_put_def)

lemma row_put_length [simp]: "length (row_put key r rows) = length rows"
  by (simp add: row_put_def)

lemma row_get_put_same:
  "k = key r \<Longrightarrow> k \<in> key ` set rows \<Longrightarrow> row_get key k (row_put key r rows) = Some r"
  by (induction rows) (auto simp: row_get_def row_put_def)

lemma row_get_put_other:
  "k \<noteq> key r \<Longrightarrow> row_get key k (row_put key r rows) = row_get key k rows"
  by (induction rows) (auto simp: row_get_def row_put_def)

lemma row_put_absent: "key r \<notin> key ` set rows \<Longrightarrow> row_put key r rows = rows"
  by (induction rows) (auto simp: row_put_def)

lemma row_put_in: "x \<in> set (row_put key r rows) \<Longrightarrow> x = r \<or> x \<in> set rows"
  by (auto simp: row_put_def)

lemma row_del_in: "x \<in> set (row_del key k rows) \<longleftrightarrow> x \<in> set rows \<and> key x \<noteq> k"
  by (auto simp: row_del_def)

lemma row_del_distinct: "distinct (map key rows) \<Longrightarrow> distinct (map key (row_del key k rows))"
  by (simp add: row_del_def distinct_map_filter)

lemma row_get_append:
  "row_get key k (xs @ ys) = (case row_get key k xs of None \<Rightarrow> row_get key k ys | Some r \<Rightarrow> Some r)"
  by (induction xs) (auto simp: row_get_def)

lemma row_get_del_same: "row_get key k (row_del key k rows) = None"
  by (auto simp: row_get_None row_del_def)

lemma row_get_del_other: "k \<noteq> j \<Longrightarrow> row_get key k (row_del key j rows) = row_get key k rows"
  by (induction rows) (auto simp: row_get_def row_del_def)

end
