(* ===== verification/Decimals.thy ===== *)
theory Decimals
  imports Prelude
begin

text \<open>
  Python's \<open>decimal.Decimal\<close> as the modelled code uses it. A finite Decimal is its exact
  value, a rational: sums, differences and products of the money and hour columns (at most
  12 digits, at most 3 places) are exact in the 28 digit context, and the two divisions the
  code makes are quantized straight after, at a place where their 28 digit value and their
  exact value round alike. \<open>Decimal.quantize\<close> is rounding to a multiple of a unit: to
  even on a tie by default (\<open>ROUND_HALF_EVEN\<close>), away from zero where the code says
  \<open>ROUND_HALF_UP\<close>. What the rest of the development uses of a rounding is stated by the
  locale \<open>rounding\<close>, which both roundings interpret.
\<close>

definition round_half_even :: "rat \<Rightarrow> int" where
  "round_half_even x =
     (let f = \<lfloor>x\<rfloor>; d = x - of_int f
      in if d < 1 / 2 then f else if d > 1 / 2 then f + 1 else if even f then f else f + 1)"

definition round_half_up :: "rat \<Rightarrow> int" where
  "round_half_up x = (if 0 \<le> x then \<lfloor>x + 1 / 2\<rfloor> else - \<lfloor>1 / 2 - x\<rfloor>)"

definition quantize :: "(rat \<Rightarrow> int) \<Rightarrow> rat \<Rightarrow> rat \<Rightarrow> rat" where
  "quantize rnd u x = of_int (rnd (x / u)) * u"

definition on_grid :: "rat \<Rightarrow> rat \<Rightarrow> bool" where
  "on_grid u x \<longleftrightarrow> x / u \<in> \<int>"

lemma floor_rat_numeral [simp]:
  "\<lfloor>(numeral a / numeral b :: rat)\<rfloor> = numeral a div numeral b"
  "\<lfloor>(1 / numeral b :: rat)\<rfloor> = 1 div numeral b"
  "\<lfloor>(- numeral a / numeral b :: rat)\<rfloor> = - numeral a div numeral b"
  by (metis floor_divide_of_int_eq of_int_numeral,
      metis floor_divide_of_int_eq of_int_numeral of_int_1,
      metis floor_divide_of_int_eq of_int_numeral of_int_minus)

section \<open>What a rounding promises\<close>

locale rounding =
  fixes rnd :: "rat \<Rightarrow> int"
  assumes near: "\<bar>of_int (rnd x) - x\<bar> \<le> 1 / 2"
    and mono: "x \<le> y \<Longrightarrow> rnd x \<le> rnd y"
begin

lemma of_int_id: "rnd (of_int n) = n"
proof -
  have "\<bar>(of_int (rnd (of_int n) - n) :: rat)\<bar> \<le> 1 / 2"
    using near [of "of_int n"] by simp
  then have "\<bar>(of_int (rnd (of_int n) - n) :: rat)\<bar> < of_int 1" by linarith
  then have "\<bar>rnd (of_int n) - n\<bar> < 1"
    by (metis of_int_abs of_int_less_iff)
  then show ?thesis by linarith
qed

lemma nonneg: "0 \<le> x \<Longrightarrow> 0 \<le> rnd x"
  using mono [of 0 x] of_int_id [of 0] by simp

lemma fixes_grid: "0 < u \<Longrightarrow> on_grid u x \<Longrightarrow> quantize rnd u x = x"
  by (auto simp: quantize_def on_grid_def elim!: Ints_cases simp: of_int_id field_simps)

lemma grid: "0 < u \<Longrightarrow> on_grid u (quantize rnd u x)"
  by (simp add: quantize_def on_grid_def)

lemma idem: "0 < u \<Longrightarrow> quantize rnd u (quantize rnd u x) = quantize rnd u x"
  by (rule fixes_grid [OF _ grid])

lemma error: "0 < u \<Longrightarrow> \<bar>quantize rnd u x - x\<bar> \<le> u / 2"
proof -
  assume u: "0 < u"
  have "\<bar>quantize rnd u x - x\<bar> = \<bar>of_int (rnd (x / u)) - x / u\<bar> * u"
    using u by (simp add: quantize_def abs_mult_pos left_diff_distrib)
  also have "\<dots> \<le> 1 / 2 * u"
    using near [of "x / u"] u by (intro mult_right_mono) auto
  finally show ?thesis by simp
qed

lemma quantize_mono: "0 < u \<Longrightarrow> x \<le> y \<Longrightarrow> quantize rnd u x \<le> quantize rnd u y"
  by (simp add: quantize_def mono divide_right_mono)

lemma quantize_nonneg: "0 < u \<Longrightarrow> 0 \<le> x \<Longrightarrow> 0 \<le> quantize rnd u x"
  by (simp add: quantize_def nonneg)

lemma quantize_zero: "0 < u \<Longrightarrow> quantize rnd u 0 = 0"
  using of_int_id [of 0] by (simp add: quantize_def)

end

lemma round_half_even_near: "\<bar>of_int (round_half_even x) - x\<bar> \<le> 1 / 2"
proof -
  have "of_int \<lfloor>x\<rfloor> \<le> x" "x < of_int \<lfloor>x\<rfloor> + 1" by linarith+
  then show ?thesis by (auto simp: round_half_even_def Let_def)
qed

lemma round_half_even_floor:
  "\<lfloor>x\<rfloor> \<le> round_half_even x" "round_half_even x \<le> \<lfloor>x\<rfloor> + 1"
  by (auto simp: round_half_even_def Let_def)

lemma round_half_even_mono: "x \<le> y \<Longrightarrow> round_half_even x \<le> round_half_even y"
proof (cases "\<lfloor>x\<rfloor> < \<lfloor>y\<rfloor>")
  case True
  then show ?thesis using round_half_even_floor [of x] round_half_even_floor [of y] by linarith
next
  case False
  assume "x \<le> y"
  moreover from this False have "\<lfloor>x\<rfloor> = \<lfloor>y\<rfloor>" using floor_mono [of x y] by linarith
  ultimately show ?thesis by (auto simp: round_half_even_def Let_def)
qed

lemma round_half_up_near: "\<bar>of_int (round_half_up x) - x\<bar> \<le> 1 / 2"
proof -
  have "of_int \<lfloor>x + 1 / 2\<rfloor> \<le> x + 1 / 2" "x + 1 / 2 < of_int \<lfloor>x + 1 / 2\<rfloor> + 1"
    "of_int \<lfloor>1 / 2 - x\<rfloor> \<le> 1 / 2 - x" "1 / 2 - x < of_int \<lfloor>1 / 2 - x\<rfloor> + 1"
    by linarith+
  then show ?thesis unfolding round_half_up_def abs_le_iff by (cases "0 \<le> x"; simp; linarith)
qed

lemma round_half_up_mono: "x \<le> y \<Longrightarrow> round_half_up x \<le> round_half_up y"
proof -
  assume "x \<le> y"
  then have "\<lfloor>x + 1 / 2\<rfloor> \<le> \<lfloor>y + 1 / 2\<rfloor>" "\<lfloor>1 / 2 - y\<rfloor> \<le> \<lfloor>1 / 2 - x\<rfloor>"
    by (intro floor_mono; simp)+
  moreover have "0 \<le> y \<Longrightarrow> 0 \<le> \<lfloor>y + 1 / 2\<rfloor>" "\<not> 0 \<le> x \<Longrightarrow> 0 \<le> \<lfloor>1 / 2 - x\<rfloor>"
    by (auto simp: le_floor_iff)
  then have "\<not> 0 \<le> x \<Longrightarrow> 0 \<le> y \<Longrightarrow> - \<lfloor>1 / 2 - x\<rfloor> \<le> \<lfloor>y + 1 / 2\<rfloor>" by linarith
  ultimately show ?thesis using \<open>x \<le> y\<close> by (simp add: round_half_up_def)
qed

interpretation half_even: rounding round_half_even
  by unfold_locales (fact round_half_even_near, fact round_half_even_mono)

interpretation half_up: rounding round_half_up
  by unfold_locales (fact round_half_up_near, fact round_half_up_mono)

lemma round_ints [simp]:
  "round_half_even (of_int n) = n" "round_half_up (of_int n) = n"
  "round_half_even 0 = 0" "round_half_up 0 = 0" "round_half_even 1 = 1" "round_half_up 1 = 1"
  "round_half_even (numeral k) = numeral k" "round_half_up (numeral k) = numeral k"
  using half_even.of_int_id [of n] half_up.of_int_id [of n]
    half_even.of_int_id [of 0] half_up.of_int_id [of 0] half_even.of_int_id [of 1] half_up.of_int_id [of 1]
    half_even.of_int_id [of "numeral k"] half_up.of_int_id [of "numeral k"]
  by simp_all

text \<open>The two units the code quantizes to: cents (\<open>CENT\<close>, \<open>MONEY\<close>) and mills (\<open>HOURS\<close>).\<close>

definition cent :: rat where "cent = 1 / 100"

definition to_cents :: "rat \<Rightarrow> rat" where
  "to_cents x = quantize round_half_even cent x"

lemma cent_pos [simp]: "0 < cent" by (simp add: cent_def)

lemma to_cents_idem [simp]: "to_cents (to_cents x) = to_cents x"
  by (simp add: to_cents_def half_even.idem)

lemma to_cents_nonneg: "0 \<le> x \<Longrightarrow> 0 \<le> to_cents x"
  by (simp add: to_cents_def half_even.quantize_nonneg)

lemma to_cents_mono: "x \<le> y \<Longrightarrow> to_cents x \<le> to_cents y"
  by (simp add: to_cents_def half_even.quantize_mono)

lemma to_cents_error: "\<bar>to_cents x - x\<bar> \<le> 1 / 200"
  using half_even.error [of cent x] by (simp add: to_cents_def cent_def)

lemma to_cents_zero [simp]: "to_cents 0 = 0"
  by (simp add: to_cents_def half_even.quantize_zero)

end
