(* ===== verification/Clock.thy ===== *)
theory Clock
  imports Decimals
begin

text \<open>
  Times of day and dates, as \<open>datetime.time\<close> and \<open>datetime.date\<close>. A time keeps its hour,
  minute, second and microsecond and is ordered by them in turn, as Python orders naive
  times; a date is its proleptic ordinal (\<open>date.toordinal\<close>), so adding a \<open>timedelta\<close> of
  days is integer addition and \<open>weekday()\<close> is a remainder. \<open>Window\<close> is
  \<open>attendance.Window\<close>, a stretch of a day.
\<close>

section \<open>Times of day\<close>

datatype clock = Clock (hour: int) (minute: int) (sec: int) (micro: int)

definition clock_ok :: "clock \<Rightarrow> bool" where
  "clock_ok t \<longleftrightarrow> 0 \<le> hour t \<and> hour t < 24 \<and> 0 \<le> minute t \<and> minute t < 60
     \<and> 0 \<le> sec t \<and> sec t < 60 \<and> 0 \<le> micro t \<and> micro t < 1000000"

instantiation clock :: linorder
begin

definition less_eq_clock :: "clock \<Rightarrow> clock \<Rightarrow> bool" where
  "less_eq_clock a b \<longleftrightarrow> hour a < hour b \<or> hour a = hour b \<and> (minute a < minute b \<or>
     minute a = minute b \<and> (sec a < sec b \<or> sec a = sec b \<and> micro a \<le> micro b))"

definition less_clock :: "clock \<Rightarrow> clock \<Rightarrow> bool" where
  "less_clock a b \<longleftrightarrow> hour a < hour b \<or> hour a = hour b \<and> (minute a < minute b \<or>
     minute a = minute b \<and> (sec a < sec b \<or> sec a = sec b \<and> micro a < micro b))"

instance
  by standard (auto simp: less_eq_clock_def less_clock_def intro: clock.expand)

end

definition minutes :: "clock \<Rightarrow> int" where
  "minutes t = hour t * 60 + minute t"

text \<open>\<open>time(m // 60, m % 60)\<close>: the constructor raises for an hour outside 0..23.\<close>

definition clock_at :: "int \<Rightarrow> clock" where
  "clock_at m = Clock (m div 60) (m mod 60) 0 0"

definition time_of :: "int \<Rightarrow> clock res" where
  "time_of m = (if 0 \<le> m div 60 \<and> m div 60 < 24 then Inr (clock_at m)
                else Inl (ValueErr ''hour must be in 0..23''))"

definition to_the_minute :: "clock \<Rightarrow> clock" where
  "to_the_minute t = Clock (hour t) (minute t) 0 0"

definition on_the_minute :: "clock \<Rightarrow> bool" where
  "on_the_minute t \<longleftrightarrow> sec t = 0 \<and> micro t = 0"

lemma minutes_clock_at [simp]: "minutes (clock_at m) = m"
  by (simp add: minutes_def clock_at_def)

lemma minutes_to_the_minute [simp]: "minutes (to_the_minute t) = minutes t"
  by (simp add: minutes_def to_the_minute_def)

lemma to_the_minute_on [simp]: "on_the_minute (to_the_minute t)"
  by (simp add: on_the_minute_def to_the_minute_def)

lemma to_the_minute_ok: "clock_ok t \<Longrightarrow> clock_ok (to_the_minute t)"
  by (simp add: clock_ok_def to_the_minute_def)

lemma to_the_minute_le: "clock_ok t \<Longrightarrow> to_the_minute t \<le> t"
  by (auto simp: clock_ok_def to_the_minute_def less_eq_clock_def)

lemma clock_at_on [simp]: "on_the_minute (clock_at m)"
  by (simp add: on_the_minute_def clock_at_def)

lemma clock_at_ok [simp]: "clock_ok (clock_at m) \<longleftrightarrow> 0 \<le> m \<and> m < 1440"
  by (auto simp: clock_ok_def clock_at_def)

lemma time_of_eq: "0 \<le> m \<Longrightarrow> m < 1440 \<Longrightarrow> time_of m = Inr (clock_at m)"
  by (auto simp: time_of_def)

lemma time_of_Inr: "time_of m = Inr t \<longleftrightarrow> 0 \<le> m \<and> m < 1440 \<and> t = clock_at m"
  by (auto simp: time_of_def)

lemma minutes_range: "clock_ok t \<Longrightarrow> 0 \<le> minutes t \<and> minutes t < 1440"
  by (auto simp: clock_ok_def minutes_def)

lemma clock_at_minutes: "clock_ok t \<Longrightarrow> on_the_minute t \<Longrightarrow> clock_at (minutes t) = t"
  by (cases t) (auto simp: clock_ok_def on_the_minute_def minutes_def clock_at_def)

lemma minutes_mono: "clock_ok a \<Longrightarrow> clock_ok b \<Longrightarrow> a \<le> b \<Longrightarrow> minutes a \<le> minutes b"
  by (auto simp: clock_ok_def minutes_def less_eq_clock_def)

lemma minutes_less: "clock_ok a \<Longrightarrow> clock_ok b \<Longrightarrow> minutes a < minutes b \<Longrightarrow> a < b"
  using minutes_mono [of b a] by (meson not_less)

lemma minutes_less_iff:
  assumes "clock_ok a" "clock_ok b" "on_the_minute a" "on_the_minute b"
  shows "a < b \<longleftrightarrow> minutes a < minutes b"
  using assms minutes_less [of a b] by (auto simp: clock_ok_def on_the_minute_def minutes_def less_clock_def)

lemma minutes_le_iff:
  assumes "clock_ok a" "clock_ok b" "on_the_minute a" "on_the_minute b"
  shows "a \<le> b \<longleftrightarrow> minutes a \<le> minutes b"
  using minutes_less_iff [of b a] assms by (auto simp: not_less [symmetric])

section \<open>Dates\<close>

type_synonym date = int

definition weekday :: "date \<Rightarrow> int" where
  "weekday d = (d + 6) mod 7"

lemma weekday_range: "0 \<le> weekday d" "weekday d < 7"
  by (simp_all add: weekday_def)

record moment =
  m_date :: date
  m_time :: clock

section \<open>Stretches of a day\<close>

datatype window = Window (w_start: clock) (w_end: clock)

definition window_ok :: "window \<Rightarrow> bool" where
  "window_ok w \<longleftrightarrow> clock_ok (w_start w) \<and> clock_ok (w_end w) \<and> w_start w \<le> w_end w"

definition overlaps :: "window \<Rightarrow> window list \<Rightarrow> bool" where
  "overlaps w others \<longleftrightarrow> list_ex (\<lambda>x. w_start w < w_end x \<and> w_start x < w_end w) others"

definition span_minutes :: "window \<Rightarrow> int \<times> int" where
  "span_minutes w = (minutes (w_start w), minutes (w_end w))"

lemma span_minutes_ok:
  "window_ok w \<Longrightarrow> 0 \<le> fst (span_minutes w) \<and> fst (span_minutes w) \<le> snd (span_minutes w)
     \<and> snd (span_minutes w) < 1440"
  by (auto simp: window_ok_def span_minutes_def dest: minutes_range minutes_mono)

section \<open>How lengths of time are said\<close>

fun show_digits :: "nat \<Rightarrow> string" where
  "show_digits n =
     (if n < 10 then [char_of (48 + n)] else show_digits (n div 10) @ [char_of (48 + n mod 10)])"

declare show_digits.simps [simp del]

definition duration_words :: "rat \<Rightarrow> string" where
  "duration_words hours =
     (let mins = round_half_up (hours * 60); whole = mins div 60; rest = mins mod 60
      in if whole = 0 then show_digits (nat rest) @ ''m''
         else if rest = 0 then show_digits (nat whole) @ ''h''
         else show_digits (nat whole) @ ''h '' @ show_digits (nat rest) @ ''m'')"

end
