(* ===== verification/Placement.thy ===== *)
theory Placement
  imports Clock "HOL-Library.Product_Lexorder"
begin

text \<open>
  Placing hours in a day around its breaks (\<open>apps/timesheet/services/attendance.py\<close>):
  joining overlapping stretches, counting the minutes a stretch loses to breaks, finding
  where work of a given length ends, rounding to quarter hours. The abstract view is a set
  of minutes of the day: \<open>covered\<close> is the minutes the breaks take, and what the code
  computes by walking a sorted list is stated and proved as facts of that set.
\<close>

section \<open>The code\<close>

fun merge_sorted :: "(int \<times> int) list \<Rightarrow> (int \<times> int) list" where
  "merge_sorted [] = []"
| "merge_sorted [p] = [p]"
| "merge_sorted ((a, b) # (c, d) # rest) =
     (if c \<le> b then merge_sorted ((a, max b d) # rest)
      else (a, b) # merge_sorted ((c, d) # rest))"

definition merged_minutes :: "window list \<Rightarrow> (int \<times> int) list" where
  "merged_minutes ws = merge_sorted (sort (map span_minutes ws))"

definition inside_spans :: "int \<Rightarrow> int \<Rightarrow> (int \<times> int) list \<Rightarrow> int" where
  "inside_spans first final spans =
     sum_list (map (\<lambda>(b, e). max (min final e - max first b) 0) spans)"

definition minutes_inside :: "int \<Rightarrow> int \<Rightarrow> window list \<Rightarrow> int" where
  "minutes_inside first final breaks = inside_spans first final (merged_minutes breaks)"

definition break_minutes_in :: "window \<Rightarrow> window list \<Rightarrow> int" where
  "break_minutes_in w breaks = minutes_inside (minutes (w_start w)) (minutes (w_end w)) breaks"

definition quarter_hour_minutes :: int where "quarter_hour_minutes = 15"

definition last_quarter_minute :: int where "last_quarter_minute = 24 * 60 - quarter_hour_minutes"

definition last_minute :: int where "last_minute = 24 * 60 - 1"

definition paid_span_hours :: "clock \<Rightarrow> clock \<Rightarrow> window list \<Rightarrow> rat" where
  "paid_span_hours start finish unpaid =
     (let first = minutes start; final = minutes finish;
          mins = final - first - minutes_inside first final unpaid;
          quarters = quantize round_half_up 1 (of_int mins / of_int quarter_hour_minutes)
      in quarters * of_int quarter_hour_minutes / 60)"

definition to_quarter :: "clock \<Rightarrow> clock" where
  "to_quarter t =
     (let quarters = round_half_up (of_int (minutes t) / of_int quarter_hour_minutes);
          m = min (quarters * quarter_hour_minutes) last_quarter_minute
      in clock_at m)"

text \<open>The loop of \<open>finish_in_the_day\<close>: its two variables \<open>cursor\<close> and \<open>remaining\<close> at its end.\<close>

fun step_over :: "int \<Rightarrow> int \<Rightarrow> (int \<times> int) list \<Rightarrow> int \<times> int" where
  "step_over cursor remaining [] = (cursor, remaining)"
| "step_over cursor remaining ((b, e) # rest) =
     (if e \<le> cursor then step_over cursor remaining rest
      else if b \<le> cursor then step_over e remaining rest
      else if cursor + remaining \<le> b then (cursor, remaining)
      else step_over e (remaining - (b - cursor)) rest)"

text \<open>
  Hours are never negative here (\<open>_refuse_bad_hours\<close> lets only positive hours in), so the
  finish is a minute of the day whenever it is not past midnight.
\<close>

definition finish_in_the_day :: "clock \<Rightarrow> rat \<Rightarrow> window list \<Rightarrow> clock option" where
  "finish_in_the_day start hours breaks =
     (case step_over (minutes start) (round_half_up (hours * 60)) (merged_minutes breaks) of
        (cursor, remaining) \<Rightarrow>
          if cursor + remaining > last_minute then None else Some (clock_at (cursor + remaining)))"

definition start_after_breaks :: "clock \<Rightarrow> window list \<Rightarrow> clock res" where
  "start_after_breaks start breaks =
     of_option (ValueErr ''Stepping past the breaks left the day.'') (finish_in_the_day start 0 breaks)"

definition hours_for :: "clock \<Rightarrow> clock \<Rightarrow> window list \<Rightarrow> rat res" where
  "hours_for start finish breaks =
     (let first = minutes start; final = minutes finish
      in if final \<le> first then Inl (InvalidInput ''The finish has to be after the start.'')
         else Inr (to_cents (of_int (final - first - minutes_inside first final breaks) / 60)))"

section \<open>Stretches as sets of minutes\<close>

definition cover :: "(int \<times> int) list \<Rightarrow> int set" where
  "cover ps = (\<Union>(a, b) \<in> set ps. {a..<b})"

definition covered :: "window list \<Rightarrow> int set" where
  "covered ws = cover (map span_minutes ws)"

definition worked_minutes :: "int set \<Rightarrow> int \<Rightarrow> int \<Rightarrow> int" where
  "worked_minutes away s f = int (card ({s..<f} - away))"

definition separated :: "(int \<times> int) list \<Rightarrow> bool" where
  "separated ps \<longleftrightarrow> (\<forall>(a, b) \<in> set ps. a \<le> b) \<and> sorted_wrt (\<lambda>p q. snd p < fst q) ps"

lemma cover_simps [simp]:
  "cover [] = {}" "cover ((a, b) # ps) = {a..<b} \<union> cover ps"
  by (auto simp: cover_def)

lemma cover_set: "set ps = set qs \<Longrightarrow> cover ps = cover qs"
  by (simp add: cover_def)

lemma separated_Cons:
  "separated ((a, b) # ps) \<longleftrightarrow> a \<le> b \<and> (\<forall>(c, d) \<in> set ps. b < c) \<and> separated ps"
  by (auto simp: separated_def)

lemma separated_after: "separated ((a, b) # ps) \<Longrightarrow> (c, d) \<in> set ps \<Longrightarrow> b < c \<and> c \<le> d"
  by (auto simp: separated_def)

lemma merge_sorted_starts: "fst ` set (merge_sorted ps) \<subseteq> fst ` set ps"
  by (induction ps rule: merge_sorted.induct) auto

lemma merge_sorted_separated:
  "sorted (map fst ps) \<Longrightarrow> \<forall>(a, b) \<in> set ps. a \<le> b \<Longrightarrow> separated (merge_sorted ps)"
proof (induction ps rule: merge_sorted.induct)
  case (3 a b c d rest)
  show ?case
  proof (cases "c \<le> b")
    case True
    with 3 show ?thesis by (auto simp: le_max_iff_disj)
  next
    case False
    have "\<forall>x \<in> fst ` set (merge_sorted ((c, d) # rest)). c \<le> x"
      using merge_sorted_starts [of "(c, d) # rest"] "3.prems" by fastforce
    with False 3 show ?thesis by (fastforce simp: separated_Cons)
  qed
qed (auto simp: separated_def)

lemma merge_sorted_cover:
  "sorted (map fst ps) \<Longrightarrow> \<forall>(a, b) \<in> set ps. a \<le> b \<Longrightarrow> cover (merge_sorted ps) = cover ps"
proof (induction ps rule: merge_sorted.induct)
  case (3 a b c d rest)
  then have le: "a \<le> c" "a \<le> b" "c \<le> d" by auto
  show ?case
  proof (cases "c \<le> b")
    case True
    with le have "{a..<max b d} = {a..<b} \<union> {c..<d}" by auto
    with True 3 le show ?thesis by (auto simp: le_max_iff_disj)
  next
    case False
    with 3 show ?thesis by auto
  qed
qed auto

lemma spans_ordered:
  "list_all window_ok ws \<Longrightarrow> \<forall>(a, b) \<in> set (map span_minutes ws). a \<le> b \<and> 0 \<le> a \<and> b < 1440"
  by (auto simp: list_all_iff dest!: span_minutes_ok)

lemma sorted_fst_sort: "sorted (map fst (sort (ps :: (int \<times> int) list)))"
proof -
  have "sorted (sort ps)" by simp
  then show ?thesis
    unfolding sorted_map by (rule sorted_wrt_mono_rel [rotated]) (auto simp: less_eq_prod_def)
qed

lemma merged_separated: "list_all window_ok ws \<Longrightarrow> separated (merged_minutes ws)"
  unfolding merged_minutes_def
  by (rule merge_sorted_separated [OF sorted_fst_sort]) (use spans_ordered in fastforce)

lemma merged_cover: "list_all window_ok ws \<Longrightarrow> cover (merged_minutes ws) = covered ws"
proof -
  assume ok: "list_all window_ok ws"
  have "cover (merged_minutes ws) = cover (sort (map span_minutes ws))"
    unfolding merged_minutes_def
    by (rule merge_sorted_cover [OF sorted_fst_sort]) (use spans_ordered [OF ok] in fastforce)
  then show ?thesis by (simp add: covered_def cover_set [of "sort (map span_minutes ws)"])
qed

section \<open>Walking the list computes the set\<close>

lemma finite_cover [simp]: "finite (cover ps)"
  by (auto simp: cover_def)

lemma finite_covered [simp]: "finite (covered ws)"
  by (simp add: covered_def)

lemma inside_spans_simps [simp]:
  "inside_spans s f [] = 0"
  "inside_spans s f ((b, e) # ps) = max (min f e - max s b) 0 + inside_spans s f ps"
  by (simp_all add: inside_spans_def)

lemma inside_spans_nonneg: "0 \<le> inside_spans s f ps"
  by (induction ps) auto

lemma inside_spans_card:
  "separated ps \<Longrightarrow> inside_spans s f ps = int (card (cover ps \<inter> {s..<f}))"
proof (induction ps)
  case Nil
  then show ?case by simp
next
  case (Cons p ps)
  obtain b e where p: "p = (b, e)" by (cases p)
  have disj: "{max s b..<min f e} \<inter> (cover ps \<inter> {s..<f}) = {}"
    using Cons.prems p by (fastforce simp: cover_def separated_Cons)
  have "cover (p # ps) \<inter> {s..<f} = {max s b..<min f e} \<union> (cover ps \<inter> {s..<f})"
    using p by auto
  then have "int (card (cover (p # ps) \<inter> {s..<f})) = max (min f e - max s b) 0 + int (card (cover ps \<inter> {s..<f}))"
    using card_Un_disjoint [OF _ _ disj] by (simp only: card_atLeastLessThan_int finite_Int
        finite_cover finite_atLeastLessThan_int of_nat_add simp_thms)
  moreover have "inside_spans s f ps = int (card (cover ps \<inter> {s..<f}))"
    using Cons p by (simp add: separated_Cons)
  ultimately show ?case using p by simp
qed

lemma worked_minutes_inside:
  "s \<le> f \<Longrightarrow> finite away \<Longrightarrow> worked_minutes away s f = f - s - int (card (away \<inter> {s..<f}))"
proof -
  assume le: "s \<le> f" and fin: "finite away"
  have "{s..<f} - away = {s..<f} - (away \<inter> {s..<f})" by auto
  then have "card ({s..<f} - away) = card {s..<f} - card (away \<inter> {s..<f})"
    by (metis card_Diff_subset fin finite_Int inf_le2)
  moreover have "card (away \<inter> {s..<f}) \<le> card {s..<f}" by (intro card_mono) auto
  ultimately show ?thesis using le by (simp add: worked_minutes_def of_nat_diff)
qed

lemma inside_spans_shift:
  "\<forall>(b, e) \<in> set ps. d < b \<Longrightarrow> c \<le> d \<Longrightarrow> inside_spans c f ps = inside_spans d f ps"
  by (induction ps) (auto simp: max_def)

lemma inside_spans_none:
  "\<forall>(b, e) \<in> set ps. f \<le> b \<Longrightarrow> inside_spans c f ps = 0"
  by (induction ps) auto

lemma step_over_spec:
  assumes "separated ps" "0 \<le> r" "step_over c r ps = (c', r')"
  shows "c \<le> c' + r' \<and> c' + r' - c - inside_spans c (c' + r') ps = r
    \<and> (0 < r \<longrightarrow> c' + r' - 1 \<notin> cover ps) \<and> (r = 0 \<longrightarrow> c' + r' \<notin> cover ps)
    \<and> (\<forall>(b, e) \<in> set ps. b \<le> c \<and> c < e \<longrightarrow> e \<le> c' + r')"
  using assms
proof (induction c r ps rule: step_over.induct)
  case (1 c r)
  then show ?case by simp
next
  case (2 c r b e ps)
  have sep: "separated ps" "b \<le> e" and after: "\<forall>(x, y) \<in> set ps. e < x"
    using "2.prems"(1) by (auto simp: separated_Cons)
  consider "e \<le> c" | "b \<le> c" "c < e" | "c < b" "c < e" "c + r \<le> b" | "c < b" "c < e" "b < c + r"
    by linarith
  then show ?case
  proof cases
    case 1
    moreover have "0 < r \<Longrightarrow> c < c' + r'"
      using "2.IH"(1) [OF 1 sep(1) "2.prems"(2)] "2.prems"(3) 1 inside_spans_nonneg [of c "c' + r'" ps]
      by auto
    ultimately show ?thesis using "2.IH"(1) "2.prems" sep by auto
  next
    case 2
    then have run: "step_over e r ps = (c', r')" using "2.prems" by simp
    have IH: "e \<le> c' + r' \<and> c' + r' - e - inside_spans e (c' + r') ps = r
        \<and> (0 < r \<longrightarrow> c' + r' - 1 \<notin> cover ps) \<and> (r = 0 \<longrightarrow> c' + r' \<notin> cover ps)"
      using "2.IH"(2) [OF _ _ sep(1) "2.prems"(2) run] 2 by auto
    have "inside_spans c (c' + r') ps = inside_spans e (c' + r') ps"
      using after 2 by (intro inside_spans_shift) auto
    moreover have "0 < r \<Longrightarrow> e < c' + r'"
      using IH inside_spans_nonneg [of e "c' + r'" ps] by linarith
    ultimately show ?thesis using IH 2 after by auto
  next
    case 3
    then have eq: "c' = c" "r' = r" using "2.prems" by auto
    have "inside_spans c (c + r) ps = 0"
      using after 3 sep by (intro inside_spans_none) auto
    moreover have "c + r - 1 \<notin> cover ps" "c + r \<notin> cover ps"
      using after 3 sep by (auto simp: cover_def)
    ultimately show ?thesis using 3 eq "2.prems" after by auto
  next
    case 4
    then have run: "step_over e (r - (b - c)) ps = (c', r')" using "2.prems" by simp
    have IH: "e \<le> c' + r' \<and> c' + r' - e - inside_spans e (c' + r') ps = r - (b - c)
        \<and> (0 < r - (b - c) \<longrightarrow> c' + r' - 1 \<notin> cover ps)"
      using "2.IH"(3) [OF _ _ _ sep(1) _ run] 4 by auto
    have "inside_spans c (c' + r') ps = inside_spans e (c' + r') ps"
      using after 4 by (intro inside_spans_shift) auto
    moreover have "e < c' + r'"
      using IH 4 inside_spans_nonneg [of e "c' + r'" ps] by linarith
    ultimately show ?thesis using IH 4 after sep(2) by auto
  qed
qed

section \<open>What the code promises about minutes\<close>

lemma minutes_inside_covered:
  "list_all window_ok ws \<Longrightarrow> minutes_inside first final ws = int (card (covered ws \<inter> {first..<final}))"
  by (simp add: minutes_inside_def inside_spans_card merged_separated merged_cover)

text \<open>C38: Overlapping breaks count once. For well-formed breaks, the minutes the code says fall
  between two minutes of the day are exactly the number of distinct minutes of that stretch
  that some break covers, whatever the order of the breaks and however they overlap.\<close>

theorem breaks_count_once:
  assumes "list_all window_ok breaks"
  shows "minutes_inside first final breaks
    = int (card {m. first \<le> m \<and> m < final \<and>
        (\<exists>w \<in> set breaks. minutes (w_start w) \<le> m \<and> m < minutes (w_end w))})"
proof -
  have "{m. first \<le> m \<and> m < final \<and>
      (\<exists>w \<in> set breaks. minutes (w_start w) \<le> m \<and> m < minutes (w_end w))}
    = covered breaks \<inter> {first..<final}"
    by (auto simp: covered_def cover_def span_minutes_def)
  then show ?thesis using minutes_inside_covered [OF assms] by simp
qed

theorem breaks_count_once_witness:
  "minutes_inside 600 780 [Window (Clock 12 0 0 0) (Clock 12 30 0 0), Window (Clock 12 10 0 0) (Clock 12 40 0 0)]
    = int (card {m. 600 \<le> m \<and> m < 780 \<and>
        (\<exists>w \<in> set [Window (Clock 12 0 0 0) (Clock 12 30 0 0), Window (Clock 12 10 0 0) (Clock 12 40 0 0)].
           minutes (w_start w) \<le> m \<and> m < minutes (w_end w))})"
  by (rule breaks_count_once) (simp add: window_ok_def clock_ok_def less_eq_clock_def minutes_def)

text \<open>C39: The joined stretches are in order, do not overlap or touch, and hold exactly the
  minutes of the windows they were joined from.\<close>

theorem merged_minutes_spec:
  assumes "list_all window_ok ws"
  shows "separated (merged_minutes ws) \<and> cover (merged_minutes ws) = covered ws"
  using assms by (simp add: merged_separated merged_cover)

theorem merged_minutes_spec_witness:
  "separated (merged_minutes [Window (Clock 12 0 0 0) (Clock 12 30 0 0), Window (Clock 12 10 0 0) (Clock 12 40 0 0)])
    \<and> cover (merged_minutes [Window (Clock 12 0 0 0) (Clock 12 30 0 0), Window (Clock 12 10 0 0) (Clock 12 40 0 0)])
        = covered [Window (Clock 12 0 0 0) (Clock 12 30 0 0), Window (Clock 12 10 0 0) (Clock 12 40 0 0)]"
  by (rule merged_minutes_spec) (simp add: window_ok_def clock_ok_def less_eq_clock_def minutes_def)

lemma finish_reached:
  assumes "list_all window_ok breaks" "0 \<le> hours"
  obtains t where "minutes start \<le> t"
    "worked_minutes (covered breaks) (minutes start) t = round_half_up (hours * 60)"
    "0 < round_half_up (hours * 60) \<Longrightarrow> t - 1 \<notin> covered breaks"
    "round_half_up (hours * 60) = 0 \<Longrightarrow> t \<notin> covered breaks"
    "finish_in_the_day start hours breaks = (if t > last_minute then None else Some (clock_at t))"
proof -
  obtain c r where run: "step_over (minutes start) (round_half_up (hours * 60)) (merged_minutes breaks) = (c, r)"
    by (cases "step_over (minutes start) (round_half_up (hours * 60)) (merged_minutes breaks)")
  have nn: "0 \<le> round_half_up (hours * 60)" using assms(2) by (simp add: half_up.nonneg)
  have spec: "minutes start \<le> c + r
      \<and> c + r - minutes start - inside_spans (minutes start) (c + r) (merged_minutes breaks) = round_half_up (hours * 60)
      \<and> (0 < round_half_up (hours * 60) \<longrightarrow> c + r - 1 \<notin> covered breaks)
      \<and> (round_half_up (hours * 60) = 0 \<longrightarrow> c + r \<notin> covered breaks)"
    using step_over_spec [OF merged_separated [OF assms(1)] nn run] merged_cover [OF assms(1)] by simp
  moreover have "inside_spans (minutes start) (c + r) (merged_minutes breaks)
      = int (card (covered breaks \<inter> {minutes start..<c + r}))"
    using minutes_inside_covered [OF assms(1)] by (simp add: minutes_inside_def)
  ultimately show ?thesis
    using run by (intro that [of "c + r"]) (simp_all add: worked_minutes_inside finish_in_the_day_def)
qed

lemma finish_spec:
  assumes "list_all window_ok breaks" "0 \<le> hours"
    and "finish_in_the_day start hours breaks = Some f"
  shows "minutes start \<le> minutes f
    \<and> worked_minutes (covered breaks) (minutes start) (minutes f) = round_half_up (hours * 60)
    \<and> (0 < round_half_up (hours * 60) \<longrightarrow> minutes f - 1 \<notin> covered breaks)
    \<and> (round_half_up (hours * 60) = 0 \<longrightarrow> minutes f \<notin> covered breaks)
    \<and> minutes f \<le> last_minute \<and> f = clock_at (minutes f)"
  by (rule finish_reached [OF assms(1,2), of start]) (use assms(3) in \<open>auto split: if_splits\<close>)

text \<open>
  The set of minutes away determines the finish: two finishes that both end on a minute
  worked and hold the same number of minutes worked are the same, and the work is not done a
  minute earlier.
\<close>

lemma worked_minutes_strict:
  assumes "s \<le> f" "f < g" "g - 1 \<notin> away" "finite away"
  shows "worked_minutes away s f < worked_minutes away s g"
proof -
  have "{s..<f} - away \<subset> {s..<g} - away"
    using assms by (auto intro!: psubsetI bexI [of _ "g - 1"] dest: equalityD2 [THEN subsetD, of _ _ "g - 1"])
  then show ?thesis by (simp add: worked_minutes_def psubset_card_mono)
qed

lemma not_done_before:
  assumes "minutes start \<le> m" "m < t" "worked_minutes (covered breaks) (minutes start) t = n"
    and "0 < n \<Longrightarrow> t - 1 \<notin> covered breaks" "0 \<le> n"
  shows "worked_minutes (covered breaks) (minutes start) m < n \<or> n = 0 \<and> m \<in> covered breaks"
proof (cases "n = 0")
  case True
  then have "{minutes start..<t} \<subseteq> covered breaks" using assms(3) by (simp add: worked_minutes_def)
  with True assms(1,2) show ?thesis by auto
next
  case False
  with assms show ?thesis using worked_minutes_strict [of "minutes start" m t "covered breaks"] by simp
qed

text \<open>C24: Hours are the truth and the times are the picture. Where work of \<open>hours\<close> begun at
  \<open>start\<close> is placed in the day, the stretch from start to finish holds exactly the hours'
  minutes (rounded half up) outside the breaks and ends by 23:59 on a minute worked; hours that
  round to no minute at all end at once, or where the break they would start in ends. The finish is
  the earliest such minute, and where none is given the day has none: the work is not done by 23:59.\<close>

theorem finish_holds_the_hours:
  assumes "list_all window_ok breaks" "0 \<le> hours"
  shows "case finish_in_the_day start hours breaks of
      Some f \<Rightarrow> worked_minutes (covered breaks) (minutes start) (minutes f) = round_half_up (hours * 60)
        \<and> minutes start \<le> minutes f \<and> minutes f \<le> last_minute
        \<and> (0 < round_half_up (hours * 60) \<longrightarrow> minutes f - 1 \<notin> covered breaks)
        \<and> (round_half_up (hours * 60) = 0 \<longrightarrow> minutes f \<notin> covered breaks)
        \<and> (\<forall>m. minutes start \<le> m \<and> m < minutes f \<longrightarrow>
             worked_minutes (covered breaks) (minutes start) m < round_half_up (hours * 60)
             \<or> round_half_up (hours * 60) = 0 \<and> m \<in> covered breaks)
    | None \<Rightarrow> \<forall>m. minutes start \<le> m \<and> m \<le> last_minute \<longrightarrow>
             worked_minutes (covered breaks) (minutes start) m < round_half_up (hours * 60)
             \<or> round_half_up (hours * 60) = 0 \<and> m \<in> covered breaks"
proof -
  have nn: "0 \<le> round_half_up (hours * 60)" using assms(2) by (simp add: half_up.nonneg)
  obtain t where t: "minutes start \<le> t"
    "worked_minutes (covered breaks) (minutes start) t = round_half_up (hours * 60)"
    "0 < round_half_up (hours * 60) \<Longrightarrow> t - 1 \<notin> covered breaks"
    "round_half_up (hours * 60) = 0 \<Longrightarrow> t \<notin> covered breaks"
    "finish_in_the_day start hours breaks = (if t > last_minute then None else Some (clock_at t))"
    by (rule finish_reached [OF assms, of start]) (blast intro: that)
  note before = not_done_before [OF _ _ t(2,3) nn]
  show ?thesis
  proof (cases "t > last_minute")
    case True
    with t(5) show ?thesis using before by auto
  next
    case False
    with t(5) show ?thesis using before t(1-4) by auto
  qed
qed

theorem finish_holds_the_hours_witness:
  "finish_in_the_day (Clock 7 0 0 0) 6 [Window (Clock 10 0 0 0) (Clock 10 15 0 0),
     Window (Clock 12 0 0 0) (Clock 12 30 0 0), Window (Clock 12 15 0 0) (Clock 12 45 0 0)]
     = Some (Clock 14 0 0 0)
   \<and> worked_minutes (covered [Window (Clock 10 0 0 0) (Clock 10 15 0 0),
       Window (Clock 12 0 0 0) (Clock 12 30 0 0), Window (Clock 12 15 0 0) (Clock 12 45 0 0)])
       (minutes (Clock 7 0 0 0)) (minutes (Clock 14 0 0 0)) = 360"
proof -
  let ?b = "[Window (Clock 10 0 0 0) (Clock 10 15 0 0),
     Window (Clock 12 0 0 0) (Clock 12 30 0 0), Window (Clock 12 15 0 0) (Clock 12 45 0 0)]"
  have ok: "list_all window_ok ?b" by (simp add: window_ok_def clock_ok_def less_eq_clock_def)
  have f: "finish_in_the_day (Clock 7 0 0 0) 6 ?b = Some (Clock 14 0 0 0)"
    by (simp add: finish_in_the_day_def merged_minutes_def span_minutes_def minutes_def
        less_eq_prod_def less_prod_def last_minute_def clock_at_def)
  show ?thesis using finish_holds_the_hours [OF ok, of 6 "Clock 7 0 0 0"] unfolding f by simp
qed

lemma worked_minutes_unique:
  assumes "s \<le> f" "s \<le> g" "f - 1 \<notin> away" "g - 1 \<notin> away" "finite away"
    and "worked_minutes away s f = worked_minutes away s g"
  shows "f = g"
  using worked_minutes_strict [of s f g away] worked_minutes_strict [of s g f away] assms
  by (cases f g rule: linorder_cases) auto

text \<open>
  Rounding whole minutes to hundredths of an hour and back loses nothing: the error of the
  hours is at most 0.005, which is 0.3 of a minute.
\<close>

lemma minutes_from_hours: "round_half_up (to_cents (of_int m / 60) * 60) = m"
proof -
  let ?h = "to_cents (of_int m / 60)"
  have "\<bar>?h - of_int m / 60\<bar> \<le> 1 / 200" by (rule to_cents_error)
  moreover have "\<bar>of_int (round_half_up (?h * 60)) - ?h * 60\<bar> \<le> 1 / 2" by (rule half_up.near)
  ultimately have "of_int (round_half_up (?h * 60)) - of_int m < (1 :: rat)"
    "of_int m - of_int (round_half_up (?h * 60)) < (1 :: rat)"
    by linarith+
  then have "\<bar>(of_int (round_half_up (?h * 60) - m) :: rat)\<bar> < of_int 1"
    by (simp add: abs_less_iff)
  then have "\<bar>round_half_up (?h * 60) - m\<bar> < 1" by (metis of_int_abs of_int_less_iff)
  then show ?thesis by linarith
qed

lemma hours_for_worked:
  assumes "list_all window_ok breaks" "hours_for start finish breaks = Inr h"
  shows "minutes start < minutes finish"
    and "h = to_cents (of_int (worked_minutes (covered breaks) (minutes start) (minutes finish)) / 60)"
proof -
  show lt: "minutes start < minutes finish"
    using assms(2) by (auto simp: hours_for_def Let_def split: if_splits)
  then show "h = to_cents (of_int (worked_minutes (covered breaks) (minutes start) (minutes finish)) / 60)"
    using assms by (auto simp: hours_for_def Let_def minutes_inside_covered worked_minutes_inside)
qed

lemma finish_exists:
  assumes "list_all window_ok breaks" "0 \<le> hours" "minutes start \<le> g" "g \<le> last_minute" "g - 1 \<notin> covered breaks"
    and "worked_minutes (covered breaks) (minutes start) g = round_half_up (hours * 60)"
    and "0 < round_half_up (hours * 60)"
  shows "finish_in_the_day start hours breaks = Some (clock_at g)"
proof -
  obtain c r where run: "step_over (minutes start) (round_half_up (hours * 60)) (merged_minutes breaks) = (c, r)"
    by (cases "step_over (minutes start) (round_half_up (hours * 60)) (merged_minutes breaks)")
  have spec: "minutes start \<le> c + r
      \<and> c + r - minutes start - inside_spans (minutes start) (c + r) (merged_minutes breaks) = round_half_up (hours * 60)
      \<and> c + r - 1 \<notin> covered breaks"
    using step_over_spec [OF merged_separated [OF assms(1)] _ run] merged_cover [OF assms(1)] assms(7) by simp
  moreover have "inside_spans (minutes start) (c + r) (merged_minutes breaks)
      = int (card (covered breaks \<inter> {minutes start..<c + r}))"
    using minutes_inside_covered [OF assms(1)] by (simp add: minutes_inside_def)
  ultimately have "worked_minutes (covered breaks) (minutes start) (c + r) = round_half_up (hours * 60)"
    by (simp add: worked_minutes_inside)
  then have "c + r = g"
    using worked_minutes_unique [of "minutes start" "c + r" g "covered breaks"] spec assms by simp
  then show ?thesis using run assms(4) by (simp add: finish_in_the_day_def)
qed

text \<open>Laying out the hours read off two times gives the finish back: where a stretch ends on a
  minute worked, the hours the code reads off it (rounded to hundredths) placed from its start
  end at the same finish.\<close>

theorem hours_finish_roundtrip:
  assumes "list_all window_ok breaks" "clock_ok finish" "on_the_minute finish"
    and "minutes finish - 1 \<notin> covered breaks"
    and "hours_for start finish breaks = Inr h"
  shows "finish_in_the_day start h breaks = Some finish"
proof -
  let ?w = "worked_minutes (covered breaks) (minutes start) (minutes finish)"
  have lt: "minutes start < minutes finish" and h: "h = to_cents (of_int ?w / 60)"
    using hours_for_worked [OF assms(1,5)] by auto
  have "worked_minutes (covered breaks) (minutes start) (minutes start) < ?w"
    using worked_minutes_strict [of "minutes start" "minutes start" "minutes finish"] lt assms(4) by simp
  then have pos: "0 < ?w" by (simp add: worked_minutes_def)
  have r: "round_half_up (h * 60) = ?w" by (simp add: h minutes_from_hours)
  have "0 \<le> h" using pos by (simp add: h to_cents_nonneg)
  moreover have "minutes finish \<le> last_minute" using minutes_range [OF assms(2)] by (simp add: last_minute_def)
  ultimately have "finish_in_the_day start h breaks = Some (clock_at (minutes finish))"
    using finish_exists [OF assms(1)] lt pos r assms(4) by simp
  then show ?thesis using clock_at_minutes [OF assms(2,3)] by simp
qed

theorem hours_finish_roundtrip_witness:
  "hours_for (Clock 7 0 0 0) (Clock 10 35 0 0) [Window (Clock 10 0 0 0) (Clock 10 15 0 0)] = Inr (333 / 100)
   \<and> finish_in_the_day (Clock 7 0 0 0) (333 / 100) [Window (Clock 10 0 0 0) (Clock 10 15 0 0)]
       = Some (Clock 10 35 0 0)"
proof -
  let ?b = "[Window (Clock 10 0 0 0) (Clock 10 15 0 0)]"
  have ok: "list_all window_ok ?b" by (simp add: window_ok_def clock_ok_def less_eq_clock_def)
  have h: "hours_for (Clock 7 0 0 0) (Clock 10 35 0 0) ?b = Inr (333 / 100)"
    by (simp add: hours_for_def minutes_inside_def merged_minutes_def span_minutes_def minutes_def
        to_cents_def quantize_def cent_def round_half_even_def)
  have nc: "minutes (Clock 10 35 0 0) - 1 \<notin> covered ?b"
    by (simp add: covered_def span_minutes_def minutes_def)
  show ?thesis
    using hours_finish_roundtrip [OF ok _ _ nc h] h by (simp add: clock_ok_def on_the_minute_def)
qed

lemma start_after_breaks_in_day:
  assumes "list_all window_ok breaks" "clock_ok start"
  shows "\<exists>t. start_after_breaks start breaks = Inr t \<and> clock_ok t \<and> minutes start \<le> minutes t
    \<and> minutes t \<notin> covered breaks
    \<and> {minutes start..<minutes t} \<subseteq> covered breaks"
proof -
  obtain c r where run: "step_over (minutes start) 0 (merged_minutes breaks) = (c, r)"
    by (cases "step_over (minutes start) 0 (merged_minutes breaks)")
  have spec: "minutes start \<le> c + r" "c + r \<notin> covered breaks"
    "c + r - minutes start = inside_spans (minutes start) (c + r) (merged_minutes breaks)"
    using step_over_spec [OF merged_separated [OF assms(1)] _ run] merged_cover [OF assms(1)] by simp_all
  then have "worked_minutes (covered breaks) (minutes start) (c + r) = 0"
    using minutes_inside_covered [OF assms(1)] by (simp add: worked_minutes_inside minutes_inside_def)
  then have sub: "{minutes start..<c + r} \<subseteq> covered breaks"
    by (auto simp: worked_minutes_def)
  have day: "covered breaks \<subseteq> {0..<1439}"
    using assms(1) by (fastforce simp: covered_def cover_def list_all_iff dest!: span_minutes_ok)
  have "c + r \<le> last_minute"
  proof (rule ccontr)
    assume late: "\<not> c + r \<le> last_minute"
    then have "c + r - 1 \<in> {minutes start..<c + r}"
      using minutes_range [OF assms(2)] by (simp add: last_minute_def)
    then have "c + r - 1 \<in> {0..<1439}" using sub day by blast
    then show False using late by (simp add: last_minute_def)
  qed
  moreover have "0 \<le> c + r" using spec(1) minutes_range [OF assms(2)] by simp
  ultimately have "start_after_breaks start breaks = Inr (clock_at (c + r))" "clock_ok (clock_at (c + r))"
    using run by (simp_all add: start_after_breaks_def finish_in_the_day_def last_minute_def)
  then show ?thesis using spec sub by fastforce
qed

text \<open>C40: Stepping past the breaks cannot leave the day, as the code's comment claims: for
  well-formed breaks and a start that is a time of day the \<open>ValueError\<close> is never raised,
  and the answer is not inside any break and is the start itself unless that is.\<close>

theorem start_after_breaks_total:
  assumes "list_all window_ok breaks" "clock_ok start"
  shows "\<exists>t. start_after_breaks start breaks = Inr t \<and> clock_ok t \<and> minutes start \<le> minutes t
    \<and> minutes t \<notin> covered breaks
    \<and> {minutes start..<minutes t} \<subseteq> covered breaks"
  using assms by (rule start_after_breaks_in_day)

theorem start_after_breaks_total_witness:
  "\<exists>t. start_after_breaks (Clock 23 50 0 0) [Window (Clock 23 45 0 0) (Clock 23 59 0 0)] = Inr t \<and> clock_ok t
    \<and> minutes (Clock 23 50 0 0) \<le> minutes t \<and> minutes t \<notin> covered [Window (Clock 23 45 0 0) (Clock 23 59 0 0)]
    \<and> {minutes (Clock 23 50 0 0)..<minutes t} \<subseteq> covered [Window (Clock 23 45 0 0) (Clock 23 59 0 0)]"
  by (rule start_after_breaks_total) (simp_all add: window_ok_def clock_ok_def less_eq_clock_def)

section \<open>Quarter hours\<close>

lemma quarter_near:
  "\<bar>round_half_up (of_int m / of_int quarter_hour_minutes) * quarter_hour_minutes - m\<bar> \<le> 7"
proof -
  let ?q = "round_half_up (of_int m / of_int quarter_hour_minutes)"
  have "\<bar>of_int ?q - of_int m / 15\<bar> \<le> (1 / 2 :: rat)"
    using half_up.near [of "of_int m / 15"] by (simp add: quarter_hour_minutes_def)
  then have "of_int (?q * 15 - m) \<le> (15 / 2 :: rat)" "of_int (m - ?q * 15) \<le> (15 / 2 :: rat)"
    by (simp_all only: of_int_diff of_int_mult of_int_numeral)
  then have "of_int (?q * 15 - m) < (of_int 8 :: rat)" "of_int (m - ?q * 15) < (of_int 8 :: rat)"
    by linarith+
  then have "?q * 15 - m < 8" "m - ?q * 15 < 8" unfolding of_int_less_iff by simp_all
  then show ?thesis by (simp add: quarter_hour_minutes_def)
qed

lemma minutes_to_quarter:
  "minutes (to_quarter t)
     = min (round_half_up (of_int (minutes t) / of_int quarter_hour_minutes) * quarter_hour_minutes) 1425"
  by (simp add: to_quarter_def Let_def last_quarter_minute_def quarter_hour_minutes_def)

lemma to_quarter_in_day:
  assumes "0 \<le> minutes t"
  shows "0 \<le> minutes (to_quarter t)" "minutes (to_quarter t) \<le> 1425" "clock_ok (to_quarter t)"
proof -
  have "0 \<le> round_half_up (of_int (minutes t) / of_int quarter_hour_minutes)"
    using assms by (intro half_up.nonneg) (simp add: quarter_hour_minutes_def)
  then show "0 \<le> minutes (to_quarter t)" "minutes (to_quarter t) \<le> 1425" "clock_ok (to_quarter t)"
    by (simp_all add: to_quarter_def Let_def last_quarter_minute_def quarter_hour_minutes_def)
qed

text \<open>The one rounding rule for an entry's start and stop. A time of day rounds to a
  quarter hour of the same day: a multiple of 15 minutes, at most 7 minutes away, except that
  a time after 23:52 rounds back to 23:45 since the day has no 24:00. A time already on a
  quarter stays, and rounding keeps order, so a stop never rounds before its start.\<close>

theorem to_quarter_spec:
  assumes "clock_ok t"
  shows "clock_ok (to_quarter t) \<and> minutes (to_quarter t) mod 15 = 0
    \<and> (minutes t \<le> 1432 \<longrightarrow> \<bar>minutes (to_quarter t) - minutes t\<bar> \<le> 7)
    \<and> (1432 < minutes t \<longrightarrow> minutes (to_quarter t) = 1425)
    \<and> to_quarter (to_quarter t) = to_quarter t
    \<and> (\<forall>u. minutes t \<le> minutes u \<longrightarrow> minutes (to_quarter t) \<le> minutes (to_quarter u))"
proof -
  let ?r = "\<lambda>m. round_half_up (of_int m / of_int quarter_hour_minutes)"
  let ?m = "minutes t"
  have near: "?r ?m * 15 - ?m \<le> 7" "?m - ?r ?m * 15 \<le> 7"
    using quarter_near [of ?m] by (auto simp: quarter_hour_minutes_def abs_le_iff)
  have m: "0 \<le> ?m" "?m < 1440" using minutes_range [OF assms] by auto
  have r: "0 \<le> ?r ?m" using m by (intro half_up.nonneg) (simp add: quarter_hour_minutes_def)
  have q: "minutes (to_quarter t) = min (?r ?m * 15) 1425"
    by (simp add: minutes_to_quarter) (simp add: quarter_hour_minutes_def)
  have mono: "?m \<le> minutes u \<Longrightarrow> ?r ?m \<le> ?r (minutes u)" for u
    by (intro half_up.mono) (simp add: quarter_hour_minutes_def divide_right_mono)
  have "min (?r ?m * 15) 1425 = 15 * min (?r ?m) 95" by simp
  moreover from this have "to_quarter (to_quarter t) = to_quarter t"
    unfolding to_quarter_def Let_def by (simp add: quarter_hour_minutes_def last_quarter_minute_def mult.commute)
  moreover have "clock_ok (to_quarter t)"
    using q m r by (simp add: to_quarter_def Let_def last_quarter_minute_def quarter_hour_minutes_def)
  moreover have "1432 < ?m \<longrightarrow> min (?r ?m * 15) 1425 = 1425" using near by linarith
  moreover have "?m \<le> 1432 \<longrightarrow> \<bar>min (?r ?m * 15) 1425 - ?m\<bar> \<le> 7" using near by (auto simp: min_def)
  moreover have "\<forall>u. ?m \<le> minutes u \<longrightarrow> min (?r ?m * 15) 1425 \<le> minutes (to_quarter u)"
  proof (intro allI impI)
    fix u assume "?m \<le> minutes u"
    from mono [OF this] have "?r ?m * 15 \<le> ?r (minutes u) * 15" by simp
    then show "min (?r ?m * 15) 1425 \<le> minutes (to_quarter u)"
      unfolding minutes_to_quarter quarter_hour_minutes_def by linarith
  qed
  ultimately show ?thesis unfolding q by simp
qed

theorem to_quarter_spec_witness:
  "to_quarter (Clock 23 53 10 0) = Clock 23 45 0 0
   \<and> minutes (to_quarter (Clock 23 53 10 0)) mod 15 = 0
   \<and> minutes (to_quarter (Clock 23 53 10 0)) = 1425"
proof -
  have "clock_ok (Clock 23 53 10 0)" by (simp add: clock_ok_def)
  from to_quarter_spec [OF this] have "minutes (to_quarter (Clock 23 53 10 0)) = 1425"
    by (simp add: minutes_def)
  moreover have "to_quarter (Clock 23 53 10 0) = clock_at (minutes (to_quarter (Clock 23 53 10 0)))"
    by (simp add: to_quarter_def Let_def)
  ultimately show ?thesis by (simp add: clock_at_def)
qed

lemma paid_span_hours_minutes:
  "list_all window_ok unpaid \<Longrightarrow> minutes start \<le> minutes finish \<Longrightarrow>
     paid_span_hours start finish unpaid
     = of_int (round_half_up (of_int (worked_minutes (covered unpaid) (minutes start) (minutes finish)) / 15)) / 4"
  by (simp add: paid_span_hours_def Let_def quantize_def quarter_hour_minutes_def minutes_inside_covered
      worked_minutes_inside)

text \<open>The hours to fill are quarter hours: between two clock times the paid span is a
  whole number of quarters, never negative, at most 7.5 minutes (an eighth of an hour) from
  the minutes he was there outside his unpaid breaks, and never more than the clocked span
  rounded to its quarter.\<close>

theorem paid_span_quarters:
  assumes "list_all window_ok unpaid" "minutes start \<le> minutes finish"
  shows "\<exists>k. paid_span_hours start finish unpaid = of_int k / 4 \<and> 0 \<le> k
      \<and> \<bar>paid_span_hours start finish unpaid
          - of_int (worked_minutes (covered unpaid) (minutes start) (minutes finish)) / 60\<bar> \<le> 1 / 8
      \<and> k \<le> round_half_up (of_int (minutes finish - minutes start) / 15)"
proof -
  let ?w = "worked_minutes (covered unpaid) (minutes start) (minutes finish)"
  let ?k = "round_half_up (of_int ?w / 15)"
  have eq: "paid_span_hours start finish unpaid = of_int ?k / 4"
    using paid_span_hours_minutes [OF assms] .
  have "0 \<le> ?w" by (simp add: worked_minutes_def)
  then have "0 \<le> ?k" by (intro half_up.nonneg) simp
  moreover have "\<bar>of_int ?k - of_int ?w / 15\<bar> \<le> (1 / 2 :: rat)" by (rule half_up.near)
  then have "of_int ?k / 4 - of_int ?w / 60 \<le> (1 / 8 :: rat)" "of_int ?w / 60 - of_int ?k / 4 \<le> (1 / 8 :: rat)"
    by linarith+
  then have "\<bar>of_int ?k / 4 - of_int ?w / 60\<bar> \<le> (1 / 8 :: rat)" unfolding abs_le_iff by simp
  moreover have "?w \<le> minutes finish - minutes start"
    using worked_minutes_inside [OF assms(2) finite_covered] by simp
  then have "?k \<le> round_half_up (of_int (minutes finish - minutes start) / 15)"
    by (intro half_up.mono divide_right_mono) (simp_all only: of_int_le_iff)
  ultimately show ?thesis unfolding eq by (intro exI [of _ ?k] conjI) auto
qed

theorem paid_span_quarters_witness:
  "\<exists>k. paid_span_hours (Clock 6 28 0 0) (Clock 15 4 0 0) [Window (Clock 12 0 0 0) (Clock 12 30 0 0)] = of_int k / 4
      \<and> 0 \<le> k
      \<and> \<bar>paid_span_hours (Clock 6 28 0 0) (Clock 15 4 0 0) [Window (Clock 12 0 0 0) (Clock 12 30 0 0)]
          - of_int (worked_minutes (covered [Window (Clock 12 0 0 0) (Clock 12 30 0 0)])
              (minutes (Clock 6 28 0 0)) (minutes (Clock 15 4 0 0))) / 60\<bar> \<le> 1 / 8
      \<and> k \<le> round_half_up (of_int (minutes (Clock 15 4 0 0) - minutes (Clock 6 28 0 0)) / 15)"
  by (rule paid_span_quarters) (simp_all add: window_ok_def clock_ok_def less_eq_clock_def minutes_def)

end
