(* ===== verification/Records.thy ===== *)
theory Records
  imports Placement "HOL-Library.AList" "HOL-Library.List_Lexorder" "HOL-Library.Char_ord"
begin

text \<open>
  The rows the timesheet and costing code reads and writes, one record per Django model, and
  the database state they live in. Columns no modelled operation reads or writes (timestamps
  other than a job's \<open>updated_at\<close>, Xero sync columns, free text of jobs, icons, passwords)
  are left out. A nullable column is an option; a foreign key is the id it holds.
\<close>

type_synonym uuid = nat

section \<open>JSON columns\<close>

text \<open>
  A JSON value. A string that \<open>isoformat\<close> wrote is kept as the time or date it encodes
  (\<open>JTime\<close>, \<open>JDate\<close>): \<open>isoformat\<close> and \<open>fromisoformat\<close> are inverse. Any other string is a
  \<open>JStr\<close>. A JSON number is its value: \<open>float(d)\<close> of the two-place Decimals stored here,
  read back with \<open>Decimal(str(x))\<close>, is the same number.
\<close>

datatype json =
    JNull | JBool bool | JNum rat | JStr string | JTime clock | JDate date
  | JArr "json list" | JObj "(string \<times> json) list"

type_synonym meta = "(string \<times> json) list"

text \<open>\<open>meta.get(key)\<close>, \<open>meta[key] = value\<close>, \<open>meta.pop(key, None)\<close> and \<open>meta.update(other)\<close>.\<close>

definition meta_get :: "meta \<Rightarrow> string \<Rightarrow> json" where
  "meta_get m k = (case map_of m k of None \<Rightarrow> JNull | Some v \<Rightarrow> v)"

definition meta_set :: "string \<Rightarrow> json \<Rightarrow> meta \<Rightarrow> meta" where
  "meta_set k v m = AList.update k v m"

definition meta_pop :: "string \<Rightarrow> meta \<Rightarrow> meta" where
  "meta_pop k m = AList.delete k m"

definition meta_update :: "meta \<Rightarrow> meta \<Rightarrow> meta" where
  "meta_update m other = fold (\<lambda>(k, v). meta_set k v) other m"

definition has_key :: "meta \<Rightarrow> string \<Rightarrow> bool" where
  "has_key m k \<longleftrightarrow> map_of m k \<noteq> None"

lemma meta_get_set [simp]: "meta_get (meta_set k v m) j = (if j = k then v else meta_get m j)"
  by (simp add: meta_get_def meta_set_def update_conv)

lemma has_key_set [simp]: "has_key (meta_set k v m) j \<longleftrightarrow> j = k \<or> has_key m j"
  by (simp add: has_key_def meta_set_def update_conv)

lemma meta_get_pop [simp]: "meta_get (meta_pop k m) j = (if j = k then JNull else meta_get m j)"
  by (simp add: meta_get_def meta_pop_def delete_conv)

lemma has_key_pop [simp]: "has_key (meta_pop k m) j \<longleftrightarrow> j \<noteq> k \<and> has_key m j"
  by (auto simp: has_key_def meta_pop_def delete_conv)

lemma meta_update_simps [simp]:
  "meta_update m [] = m"
  "meta_update m ((k, v) # other) = meta_update (meta_set k v m) other"
  by (simp_all add: meta_update_def)

fun truthy :: "json \<Rightarrow> bool" where
  "truthy JNull = False"
| "truthy (JBool b) = b"
| "truthy (JNum x) = (x \<noteq> 0)"
| "truthy (JStr s) = (s \<noteq> [])"
| "truthy (JTime _) = True"
| "truthy (JDate _) = True"
| "truthy (JArr xs) = (xs \<noteq> [])"
| "truthy (JObj xs) = (xs \<noteq> [])"

text \<open>\<open>isinstance(value, str)\<close>.\<close>

fun is_str :: "json \<Rightarrow> bool" where
  "is_str (JStr _) = True"
| "is_str (JTime _) = True"
| "is_str (JDate _) = True"
| "is_str _ = False"

text \<open>
  \<open>meta[key]\<close> of a start or end time read as a time: None when it is not a string,
  \<open>time.fromisoformat\<close> raising on a string that is not a time.
\<close>

fun json_time :: "json \<Rightarrow> clock option res" where
  "json_time (JTime t) = Inr (Some t)"
| "json_time (JStr _) = Inl (ValueErr ''Invalid isoformat string'')"
| "json_time (JDate _) = Inl (ValueErr ''Invalid isoformat string'')"
| "json_time _ = Inr None"

section \<open>People and company\<close>

datatype pay_basis = Hourly | Salary

record staff_row =
  st_id :: uuid
  first_name :: string
  last_name :: string
  preferred_name :: "string option"
  xero_user_id :: "string option"
  base_wage_rate :: rat
  wage_rate :: rat
  employment_start_date :: date
  st_pay_basis :: "pay_basis option"
  date_left :: "date option"
  is_office_staff :: bool
  is_superuser :: bool
  password_needs_reset :: bool
  default_labour_subtype :: "uuid option"
  hours_mon :: rat
  hours_tue :: rat
  hours_wed :: rat
  hours_thu :: rat
  hours_fri :: rat
  hours_sat :: rat
  hours_sun :: rat

definition is_active_on :: "staff_row \<Rightarrow> date \<Rightarrow> bool" where
  "is_active_on s d =
     (if employment_start_date s > d then False
      else case date_left s of None \<Rightarrow> True | Some left \<Rightarrow> left > d)"

definition get_scheduled_hours :: "staff_row \<Rightarrow> date \<Rightarrow> rat" where
  "get_scheduled_hours s d =
     [hours_mon s, hours_tue s, hours_wed s, hours_thu s, hours_fri s, hours_sat s, hours_sun s]
       ! nat (weekday d)"

record payroll_term =
  pt_id :: uuid
  pt_staff :: uuid
  effective_from :: date
  pt_pay_basis :: "pay_basis option"
  annual_salary :: "rat option"
  working_weeks :: json

record company_defaults =
  xero_tenant_id :: "string option"
  labour_cost_loading :: rat
  weekend_timesheets_enabled :: bool
  mon_start :: clock
  mon_end :: clock
  tue_start :: clock
  tue_end :: clock
  wed_start :: clock
  wed_end :: clock
  thu_start :: clock
  thu_end :: clock
  fri_start :: clock
  fri_end :: clock
  morning_break_start :: clock
  morning_break_minutes :: int
  lunch_start :: clock
  lunch_minutes :: int
  afternoon_break_start :: clock
  afternoon_break_minutes :: int
  latitude :: "rat option"
  longitude :: "rat option"
  shop_company :: uuid
  break_job :: "uuid option"
  general_work_job :: "uuid option"

section \<open>Jobs, labour and pay items\<close>

record labour_subtype_row =
  ls_id :: uuid
  ls_name :: string

record job_labour_rate =
  lr_job :: uuid
  lr_subtype :: uuid
  charge_out_rate :: rat

record pay_item =
  pi_id :: uuid
  xero_id :: "string option"
  pi_tenant :: "string option"
  pi_name :: string
  uses_leave_api :: bool
  multiplier :: "rat option"

record job_row =
  job_id :: uuid
  job_number :: nat
  job_name :: string
  job_company :: "uuid option"
  job_status :: string
  is_urgent :: bool
  default_xero_pay_item :: "uuid option"
  latest_actual :: "uuid option"
  job_updated_at :: moment

datatype leave_code = Annual | Sick | Unpaid | Bereavement | PublicHoliday

datatype posting_surface = TimesheetApi | LeaveApi | XeroComputed

record leave_type_row =
  lt_code :: leave_code
  display_name :: string
  lt_job :: "uuid option"

datatype leave_source = LeaveScreen | OfficeClosure

record leave_request =
  rq_id :: uuid
  rq_staff :: uuid
  rq_type :: leave_code
  rq_start :: date
  rq_end :: date
  rq_note :: "string option"
  rq_source :: leave_source
  rq_batch :: "uuid option"
  rq_created :: moment

record leave_day =
  ld_id :: uuid
  ld_request :: uuid
  ld_staff :: uuid
  ld_date :: date
  ld_hours :: rat
  ld_line :: uuid

section \<open>Costs\<close>

datatype cost_set_kind = Estimate | Quote | Actual

record cost_summary =
  sum_cost :: rat
  sum_rev :: rat
  sum_hours :: rat

record cost_set_row =
  cs_id :: uuid
  cs_job :: uuid
  cs_kind :: cost_set_kind
  cs_rev :: int
  summary :: cost_summary

datatype line_kind = Time | Material | Adjust

datatype owner = OwnedByLeave | OwnedByStocktake | OwnedByStock

record cost_line =
  line_id :: uuid
  cost_set :: uuid
  kind :: line_kind
  desc :: "string option"
  quantity :: rat
  unit_cost :: rat
  unit_rev :: rat
  ext_refs :: meta
  line_meta :: meta
  accounting_date :: date
  approved :: bool
  line_staff :: "uuid option"
  entry_seq :: "int option"
  xero_pay_item :: "uuid option"
  labour_subtype :: "uuid option"
  managed_by :: "owner option"

definition total_cost :: "cost_line \<Rightarrow> rat" where
  "total_cost l = quantity l * unit_cost l"

definition total_rev :: "cost_line \<Rightarrow> rat" where
  "total_rev l = quantity l * unit_rev l"

section \<open>Attendance and its trail\<close>

record attendance_day =
  ad_staff :: uuid
  ad_date :: date
  ad_clock_in :: clock
  ad_clock_out :: "clock option"
  submitted_at :: "moment option"
  breaks_generated :: bool
  general_work_fill :: bool

type_synonym snapshot = "(string \<times> json) list"

record field_change =
  field_name :: string
  old_value :: json
  new_value :: json

record timesheet_event =
  ev_staff :: uuid
  ev_worker :: uuid
  ev_date :: date
  ev_line :: "uuid option"
  ev_type :: string
  delta_before :: "snapshot option"
  delta_after :: "snapshot option"
  ev_changes :: "field_change list"
  trusted :: bool

section \<open>The database\<close>

text \<open>
  \<open>now\<close> is \<open>timezone.localtime()\<close>, set by the environment; \<open>next_id\<close> stands for
  \<open>uuid.uuid4()\<close>; \<open>pdf_refresh\<close> records that a job-summary PDF refresh was requested of the
  task queue. The company settings are the singleton row \<open>CompanyDefaults.get_solo()\<close> reads.
\<close>

record db =
  now :: moment
  next_id :: uuid
  company :: company_defaults
  staffs :: "staff_row list"
  payroll_terms :: "payroll_term list"
  labour_subtypes :: "labour_subtype_row list"
  labour_rates :: "job_labour_rate list"
  pay_items :: "pay_item list"
  leave_types :: "leave_type_row list"
  jobs :: "job_row list"
  cost_sets :: "cost_set_row list"
  cost_lines :: "cost_line list"
  attendance_days :: "attendance_day list"
  leave_requests :: "leave_request list"
  leave_days :: "leave_day list"
  events :: "timesheet_event list"
  pdf_refresh :: bool

definition today :: "db \<Rightarrow> date" where
  "today s = m_date (now s)"

definition get_staff :: "db \<Rightarrow> uuid \<Rightarrow> staff_row res" where
  "get_staff s i = of_option (DoesNotExist ''Staff'') (row_get st_id i (staffs s))"

definition get_job :: "db \<Rightarrow> uuid \<Rightarrow> job_row res" where
  "get_job s i = of_option (DoesNotExist ''Job'') (row_get job_id i (jobs s))"

definition get_line :: "db \<Rightarrow> uuid \<Rightarrow> cost_line option" where
  "get_line s i = row_get line_id i (cost_lines s)"

definition get_cost_set :: "db \<Rightarrow> uuid \<Rightarrow> cost_set_row option" where
  "get_cost_set s i = row_get cs_id i (cost_sets s)"

definition get_pay_item :: "db \<Rightarrow> uuid \<Rightarrow> pay_item option" where
  "get_pay_item s i = row_get pi_id i (pay_items s)"

definition get_subtype :: "db \<Rightarrow> uuid \<Rightarrow> labour_subtype_row res" where
  "get_subtype s i = of_option (DoesNotExist ''LabourSubtype'') (row_get ls_id i (labour_subtypes s))"

definition line_pay_item :: "db \<Rightarrow> cost_line \<Rightarrow> pay_item option" where
  "line_pay_item s l = Option.bind (xero_pay_item l) (get_pay_item s)"

text \<open>\<open>line.cost_set.job_id\<close> and \<open>line.cost_set.kind\<close>; the foreign key makes them exist.\<close>

definition line_job_id :: "db \<Rightarrow> cost_line \<Rightarrow> uuid option" where
  "line_job_id s l = map_option cs_job (get_cost_set s (cost_set l))"

definition line_set_kind :: "db \<Rightarrow> cost_line \<Rightarrow> cost_set_kind option" where
  "line_set_kind s l = map_option cs_kind (get_cost_set s (cost_set l))"

definition line_job :: "db \<Rightarrow> cost_line \<Rightarrow> job_row res" where
  "line_job s l = bindR (of_option (DoesNotExist ''CostSet'') (get_cost_set s (cost_set l)))
     (\<lambda>c. get_job s (cs_job c))"

definition shop_job :: "db \<Rightarrow> job_row \<Rightarrow> bool" where
  "shop_job s j = (case job_company j of None \<Rightarrow> False | Some c \<Rightarrow> c = shop_company (company s))"

definition is_actual_time :: "db \<Rightarrow> cost_line \<Rightarrow> bool" where
  "is_actual_time s l \<longleftrightarrow> kind l = Time \<and> line_set_kind s l = Some Actual"

text \<open>\<open>day_time_lines\<close>: a person's time lines for one date, in entry order.\<close>

definition day_time_lines :: "db \<Rightarrow> uuid \<Rightarrow> date \<Rightarrow> cost_line list" where
  "day_time_lines s who day =
     filter (\<lambda>l. is_actual_time s l \<and> line_staff l = Some who \<and> accounting_date l = day) (cost_lines s)"

definition attendance_row :: "db \<Rightarrow> uuid \<Rightarrow> date \<Rightarrow> attendance_day option" where
  "attendance_row s who day = find (\<lambda>r. ad_staff r = who \<and> ad_date r = day) (attendance_days s)"

section \<open>Leave categories\<close>

text \<open>\<open>LeaveType.surface_for\<close> and \<open>LeaveType.is_paid\<close>: derived from the code, never stored.\<close>

definition surface_for :: "leave_code \<Rightarrow> posting_surface" where
  "surface_for c = (if c = PublicHoliday then XeroComputed else LeaveApi)"

definition leave_is_paid :: "leave_code \<Rightarrow> bool" where
  "leave_is_paid c \<longleftrightarrow> c \<noteq> Unpaid"

text \<open>\<open>LeaveType.for_pay_item\<close>: Xero-computed categories are excluded, and the first by the model's
  ordering, its display name, answers.\<close>

definition for_pay_item :: "db \<Rightarrow> uuid \<Rightarrow> leave_type_row option" where
  "for_pay_item s item =
     find (\<lambda>t. surface_for (lt_code t) \<noteq> XeroComputed \<and>
            (case lt_job t of None \<Rightarrow> False
             | Some j \<Rightarrow> (case row_get job_id j (jobs s) of None \<Rightarrow> False
                        | Some job \<Rightarrow> default_xero_pay_item job = Some item)))
       (sort_key display_name (leave_types s))"

definition leave_type_of_job :: "db \<Rightarrow> uuid \<Rightarrow> leave_type_row option" where
  "leave_type_of_job s j = find (\<lambda>t. lt_job t = Some j) (leave_types s)"

text \<open>\<open>LeaveType.clean\<close>: a configured job must fit the category's posting surface.\<close>

definition leave_type_clean :: "db \<Rightarrow> leave_type_row \<Rightarrow> unit res" where
  "leave_type_clean s t =
     (case lt_job t of None \<Rightarrow> Inr ()
      | Some j \<Rightarrow> bindR (get_job s j) (\<lambda>job.
          if job_status job \<noteq> ''special'' then Inl (Validation ''Leave types must use a special DocketWorks job.'')
          else if surface_for (lt_code t) = XeroComputed then Inr ()
          else case Option.bind (default_xero_pay_item job) (get_pay_item s) of
              None \<Rightarrow> Inl (Validation ''The selected job must have a Xero payroll item.'')
            | Some item \<Rightarrow> requireR (uses_leave_api item)
                  (Validation ''This leave type requires a Xero leave type.'')))"

definition leave_job_ids :: "db \<Rightarrow> uuid list" where
  "leave_job_ids s = List.map_filter lt_job (leave_types s)"

text \<open>The marks of a generated line in \<open>meta["source"]\<close> and \<open>mark_break_edited\<close>.\<close>

definition untouched_standard_break :: string where "untouched_standard_break = ''standard_breaks''"
definition edited_standard_break :: string where "edited_standard_break = ''standard_breaks_edited''"
definition swept_general_work :: string where "swept_general_work = ''general_work_sweep''"

definition mark_break_edited :: "meta \<Rightarrow> meta" where
  "mark_break_edited m =
     (if meta_get m ''source'' = JStr untouched_standard_break
      then meta_set ''source'' (JStr edited_standard_break) m else m)"

lemma leave_surface: "surface_for c = XeroComputed \<longleftrightarrow> c = PublicHoliday"
  by (simp add: surface_for_def)

lemma for_pay_item_posts:
  "for_pay_item s item = Some t \<Longrightarrow> t \<in> set (leave_types s) \<and> surface_for (lt_code t) = LeaveApi"
proof -
  assume "for_pay_item s item = Some t"
  then have "t \<in> set (sort_key display_name (leave_types s)) \<and> surface_for (lt_code t) \<noteq> XeroComputed"
    unfolding for_pay_item_def find_Some_iff by (metis nth_mem)
  then show ?thesis by (auto simp: surface_for_def split: if_splits)
qed

end
