(* ===== verification/Sample.thy ===== *)
theory Sample
  imports Records
begin

text \<open>
  A small workshop the witnesses run on: an hourly worker (1), a salaried one (2), the office
  (3); a customer job (10), the shop's own break job (11) and general-work job (14), an
  annual-leave job (12) and the public-holiday job (13); pay items for ordinary time, time
  and a half, unpaid work and annual leave. Day 739000 is a Wednesday.
\<close>

definition sample_company :: company_defaults where
  "sample_company = \<lparr>xero_tenant_id = Some ''t'', labour_cost_loading = 20, weekend_timesheets_enabled = False,
     mon_start = Clock 8 0 0 0, mon_end = Clock 17 0 0 0, tue_start = Clock 8 0 0 0, tue_end = Clock 17 0 0 0,
     wed_start = Clock 8 0 0 0, wed_end = Clock 17 0 0 0, thu_start = Clock 8 0 0 0, thu_end = Clock 17 0 0 0,
     fri_start = Clock 8 0 0 0, fri_end = Clock 17 0 0 0,
     morning_break_start = Clock 10 0 0 0, morning_break_minutes = 10,
     lunch_start = Clock 12 0 0 0, lunch_minutes = 30,
     afternoon_break_start = Clock 15 0 0 0, afternoon_break_minutes = 10,
     latitude = None, longitude = None, shop_company = 900,
     break_job = Some 11, general_work_job = Some 14\<rparr>"

definition sample_staff :: "uuid \<Rightarrow> rat \<Rightarrow> pay_basis option \<Rightarrow> bool \<Rightarrow> staff_row" where
  "sample_staff i w basis office = \<lparr>st_id = i, first_name = ''Sam'', last_name = ''Lee'', preferred_name = None,
     xero_user_id = Some ''0123456789abcdef0123456789abcdef'', base_wage_rate = w,
     wage_rate = w, employment_start_date = 700000, st_pay_basis = basis, date_left = None,
     is_office_staff = office, is_superuser = office, password_needs_reset = False, default_labour_subtype = Some 50,
     hours_mon = 8, hours_tue = 8, hours_wed = 8, hours_thu = 8, hours_fri = 8, hours_sat = 0, hours_sun = 0\<rparr>"

definition sample_week :: "rat \<Rightarrow> json" where
  "sample_week h = JObj [(''monday'', JNum h), (''tuesday'', JNum h), (''wednesday'', JNum h),
     (''thursday'', JNum h), (''friday'', JNum h), (''saturday'', JNum 0), (''sunday'', JNum 0)]"

definition sample_term :: payroll_term where
  "sample_term = \<lparr>pt_id = 70, pt_staff = 2, effective_from = 738000, pt_pay_basis = Some Salary,
     annual_salary = Some 83200, working_weeks = JArr [sample_week 8]\<rparr>"

definition sample_item :: "uuid \<Rightarrow> string \<Rightarrow> bool \<Rightarrow> rat option \<Rightarrow> pay_item" where
  "sample_item i n leave m =
     \<lparr>pi_id = i, xero_id = Some ''x'', pi_tenant = Some ''t'', pi_name = n, uses_leave_api = leave, multiplier = m\<rparr>"

definition sample_job :: "uuid \<Rightarrow> nat \<Rightarrow> uuid \<Rightarrow> string \<Rightarrow> uuid \<Rightarrow> uuid \<Rightarrow> job_row" where
  "sample_job i n c st item actual = \<lparr>job_id = i, job_number = n, job_name = ''job'', job_company = Some c,
     job_status = st, is_urgent = False, default_xero_pay_item = Some item, latest_actual = Some actual,
     job_updated_at = \<lparr>m_date = 738999, m_time = Clock 9 0 0 0\<rparr>\<rparr>"

definition sample_set :: "uuid \<Rightarrow> uuid \<Rightarrow> cost_set_row" where
  "sample_set i j = \<lparr>cs_id = i, cs_job = j, cs_kind = Actual, cs_rev = 1,
     summary = \<lparr>sum_cost = 0, sum_rev = 0, sum_hours = 0\<rparr>\<rparr>"

definition sample_db :: db where
  "sample_db = \<lparr>now = \<lparr>m_date = 739000, m_time = Clock 9 30 0 0\<rparr>, next_id = 1000, company = sample_company,
     staffs = [sample_staff 1 36 (Some Hourly) False, sample_staff 2 0 (Some Salary) False,
               sample_staff 3 40 (Some Hourly) True],
     payroll_terms = [sample_term],
     labour_subtypes = [\<lparr>ls_id = 50, ls_name = ''Workshop''\<rparr>],
     labour_rates = map (\<lambda>j. \<lparr>lr_job = j, lr_subtype = 50, charge_out_rate = if j = 10 then 110 else 0\<rparr>)
       [10, 11, 12, 13, 14],
     pay_items = [sample_item 60 ''Ordinary Time'' False (Some 1),
                  sample_item 61 ''Time and one half'' False (Some (3/2)),
                  sample_item 62 ''Unpaid Work'' False (Some 0),
                  sample_item 63 ''Annual Leave'' True None],
     leave_types = [\<lparr>lt_code = Annual, display_name = ''Annual'', lt_job = Some 12\<rparr>,
                    \<lparr>lt_code = PublicHoliday, display_name = ''Public holiday'', lt_job = Some 13\<rparr>],
     jobs = [sample_job 10 1 901 ''in_progress'' 60 20, sample_job 11 2 900 ''special'' 62 21,
             sample_job 12 3 900 ''special'' 63 22, sample_job 13 4 900 ''special'' 60 23,
             sample_job 14 5 900 ''special'' 60 24],
     cost_sets = [sample_set 20 10, sample_set 21 11, sample_set 22 12, sample_set 23 13, sample_set 24 14],
     cost_lines = [], attendance_days = [], leave_requests = [], leave_days = [], events = [], pdf_refresh = False\<rparr>"

text \<open>An unsaved two-hour entry of the hourly worker on the customer's job.\<close>

definition sample_line :: cost_line where
  "sample_line = \<lparr>line_id = 500, cost_set = 20, kind = Time, desc = Some ''welding'', quantity = 2,
     unit_cost = 36, unit_rev = 110, ext_refs = [],
     line_meta = [(''start_time'', JTime (Clock 8 0 0 0)), (''end_time'', JTime (Clock 10 0 0 0)),
       (''wage_rate_multiplier'', JNum 1), (''is_billable'', JBool True)],
     accounting_date = 739000, approved = False, line_staff = Some 1, entry_seq = None,
     xero_pay_item = Some 60, labour_subtype = Some 50, managed_by = None\<rparr>"

lemma sample_db_parts [simp]:
  "payroll_terms sample_db = [sample_term]"
  "attendance_days sample_db = []" "cost_lines sample_db = []" "events sample_db = []"
  "company sample_db = sample_company"
  by (simp_all add: sample_db_def)

lemmas sample_defs = sample_company_def sample_staff_def sample_week_def sample_term_def
  sample_item_def sample_job_def sample_set_def sample_db_def sample_line_def

end
