(* ===== verification/Payroll_Terms.thy ===== *)
theory Payroll_Terms
  imports Sample
begin

text \<open>
  \<open>apps/accounts/services/payroll_terms.py\<close>: the payroll terms in force on a date, the hours
  they contract and the hourly cost a salary comes to; and \<open>loaded_wage_rate\<close> of
  \<open>apps/core/models.py\<close>. The working weeks are a JSON column, so reading one includes
  \<open>Decimal(str(value))\<close>, whose text grammar is written out.
\<close>

section \<open>Decimal text\<close>

text \<open>\<open>Decimal(text)\<close>: a finite number, a NaN or infinity, or \<open>InvalidOperation\<close>.\<close>

datatype decimal_text = Finite rat | NotFinite | NotDecimal

fun digits_value :: "string \<Rightarrow> nat \<Rightarrow> nat option" where
  "digits_value [] acc = Some acc"
| "digits_value (c # cs) acc =
     (if 48 \<le> (of_char c :: nat) \<and> of_char c \<le> (57 :: nat)
      then digits_value cs (acc * 10 + (of_char c - 48)) else None)"

definition lower_char :: "char \<Rightarrow> char" where
  "lower_char c = (if 65 \<le> (of_char c :: nat) \<and> of_char c \<le> (90 :: nat)
     then char_of (of_char c + 32 :: nat) else c)"

definition strip :: "string \<Rightarrow> string" where
  "strip t = (let blank = (\<lambda>c :: char. c = CHR '' '' \<or> (9 \<le> (of_char c :: nat) \<and> of_char c \<le> (13 :: nat)))
     in rev (dropWhile blank (rev (dropWhile blank t))))"

definition split_at_char :: "char \<Rightarrow> string \<Rightarrow> string \<times> string option" where
  "split_at_char c t = (case dropWhile (\<lambda>x. x \<noteq> c) t of
     [] \<Rightarrow> (t, None) | _ # rest \<Rightarrow> (takeWhile (\<lambda>x. x \<noteq> c) t, Some rest))"

definition read_sign :: "string \<Rightarrow> int \<times> string" where
  "read_sign t = (case t of
     c # rest \<Rightarrow> if c = CHR ''-'' then (-1, rest) else if c = CHR ''+'' then (1, rest) else (1, t)
   | [] \<Rightarrow> (1, t))"

definition read_exponent :: "string option \<Rightarrow> int option" where
  "read_exponent e = (case e of None \<Rightarrow> Some 0
     | Some t \<Rightarrow> (case read_sign t of (sign, ds) \<Rightarrow>
         if ds = [] then None else map_option (\<lambda>n. sign * int n) (digits_value ds 0)))"

definition scale_ten :: "rat \<Rightarrow> int \<Rightarrow> rat" where
  "scale_ten x e = (if 0 \<le> e then x * 10 ^ nat e else x / 10 ^ nat (- e))"

definition is_nan_text :: "string \<Rightarrow> bool" where
  "is_nan_text t \<longleftrightarrow> (take 3 t = ''nan'' \<and> digits_value (drop 3 t) 0 \<noteq> None)
     \<or> (take 4 t = ''snan'' \<and> digits_value (drop 4 t) 0 \<noteq> None)"

definition read_decimal :: "string \<Rightarrow> decimal_text" where
  "read_decimal text =
     (case read_sign (map lower_char (filter (\<lambda>c. c \<noteq> CHR ''_'') (strip text))) of (sign, body) \<Rightarrow>
       if body = ''inf'' \<or> body = ''infinity'' \<or> is_nan_text body then NotFinite
       else case split_at_char (CHR ''e'') body of (mantissa, ex) \<Rightarrow>
         case split_at_char (CHR ''.'') mantissa of (whole, fraction) \<Rightarrow>
           let places = (case fraction of None \<Rightarrow> [] | Some f \<Rightarrow> f)
           in if whole = [] \<and> places = [] then NotDecimal
              else case (digits_value (whole @ places) 0, read_exponent ex) of
                (Some n, Some e) \<Rightarrow> Finite (of_int sign * scale_ten (of_nat n) (e - int (length places)))
              | _ \<Rightarrow> NotDecimal)"

text \<open>
  \<open>Decimal(str(value))\<close> of a JSON value: \<open>str\<close> of a boolean, null, array, object, time or date
  is no number.
\<close>

fun json_decimal :: "json \<Rightarrow> decimal_text" where
  "json_decimal (JNum x) = Finite x"
| "json_decimal (JStr t) = read_decimal t"
| "json_decimal _ = NotDecimal"

section \<open>The terms in force\<close>

text \<open>Latest first; a person has one term per effective date.\<close>

definition term_on :: "db \<Rightarrow> staff_row \<Rightarrow> date \<Rightarrow> payroll_term option" where
  "term_on s st day =
     (case rev (sort_key effective_from
             (filter (\<lambda>t. pt_staff t = st_id st \<and> effective_from t \<le> day) (payroll_terms s))) of
        [] \<Rightarrow> None | t # _ \<Rightarrow> Some t)"

definition salary_term_on :: "db \<Rightarrow> staff_row \<Rightarrow> date \<Rightarrow> payroll_term res" where
  "salary_term_on s st day =
     (case term_on s st day of
        None \<Rightarrow> Inl (Validation ''pay details haven't come across from Xero yet'')
      | Some t \<Rightarrow> if pt_pay_basis t \<noteq> Some Salary then Inl (Validation ''was not salaried'') else Inr t)"

section \<open>The working pattern\<close>

definition weekday_names :: "string list" where
  "weekday_names = [''monday'', ''tuesday'', ''wednesday'', ''thursday'', ''friday'', ''saturday'', ''sunday'']"

text \<open>
  One week's hours, Monday first. A week that stores the text of a NaN or an infinity would be
  taken by the code; the Xero sync writes numbers, and here it is refused like other text.
\<close>

definition week_hours :: "json \<Rightarrow> rat list res" where
  "week_hours w =
     (case w of JObj days \<Rightarrow>
        if \<not> list_all (has_key days) weekday_names
        then Inl (Validation ''Xero working pattern is missing days'')
        else mapR (\<lambda>d. case json_decimal (meta_get days d) of
                          Finite x \<Rightarrow> Inr x | _ \<Rightarrow> Inl (DecimalInvalid ''ConversionSyntax'')) weekday_names
      | _ \<Rightarrow> Inl (Validation ''Xero returned an invalid working pattern''))"

definition pattern_weeks :: "payroll_term \<Rightarrow> rat list list res" where
  "pattern_weeks t =
     (case working_weeks t of
        JArr weeks \<Rightarrow> if weeks = [] then Inl (Validation ''Xero working pattern is not configured'')
                      else mapR week_hours weeks
      | _ \<Rightarrow> Inl (Validation ''Xero working pattern is not configured''))"

definition contracted_hours_on :: "db \<Rightarrow> staff_row \<Rightarrow> date \<Rightarrow> rat res" where
  "contracted_hours_on s st day =
     (case term_on s st day of
        None \<Rightarrow> if st_pay_basis st = Some Salary
                 then Inl (Validation ''pay details haven't come across from Xero yet'')
                 else Inr (get_scheduled_hours st day)
      | Some t \<Rightarrow>
          if pt_pay_basis t \<noteq> Some Salary then Inr (get_scheduled_hours st day)
          else bindR (pattern_weeks t) (\<lambda>weeks.
            Inr (weeks ! nat ((day - effective_from t) div 7 mod int (length weeks)) ! nat (weekday day))))"

definition average_weekly_hours :: "payroll_term \<Rightarrow> rat res" where
  "average_weekly_hours t = bindR (pattern_weeks t) (\<lambda>weeks.
     let average = sum_list (map sum_list weeks) / of_nat (length weeks)
     in if average \<le> 0 then Inl (Validation ''Xero working pattern has no contracted hours'')
        else Inr average)"

definition salary_cost_rate :: "db \<Rightarrow> payroll_term \<Rightarrow> bool \<Rightarrow> rat res" where
  "salary_cost_rate s t loaded =
     (case annual_salary t of
        None \<Rightarrow> Inl (Validation ''Xero holds no annual salary'')
      | Some salary \<Rightarrow>
          if salary = 0 then Inl (Validation ''Xero holds no annual salary'')
          else bindR (average_weekly_hours t) (\<lambda>weekly.
            let rate = salary / 52 / weekly
            in Inr (to_cents (if loaded then rate * (1 + labour_cost_loading (company s) / 100) else rate))))"

section \<open>The loaded wage rate\<close>

definition loaded_wage_rate :: "rat \<Rightarrow> rat \<Rightarrow> rat" where
  "loaded_wage_rate base loading =
     (if base = 0 then 0 else quantize round_half_up cent (base * (1 + loading / 100)))"

section \<open>Facts\<close>

lemma length_weekday_names: "length weekday_names = 7"
  by (simp add: weekday_names_def)

lemma week_hours_length: "week_hours w = Inr hs \<Longrightarrow> length hs = 7"
  using mapR_length [of _ weekday_names hs]
  by (auto simp: week_hours_def length_weekday_names split: json.splits if_splits)

lemma pattern_weeks_shape:
  assumes "pattern_weeks t = Inr weeks"
  shows "weeks \<noteq> []" "\<And>w. w \<in> set weeks \<Longrightarrow> length w = 7"
proof -
  from assms obtain ws where ws: "ws \<noteq> []" "mapR week_hours ws = Inr weeks"
    by (auto simp: pattern_weeks_def split: json.splits if_splits)
  show "weeks \<noteq> []" using mapR_length [OF ws(2)] ws(1) by auto
  show "length w = 7" if "w \<in> set weeks" for w
    using mapR_in [OF ws(2) that] week_hours_length by blast
qed

lemma term_on_Some:
  assumes "term_on s st day = Some t"
  shows "t \<in> set (payroll_terms s)" "pt_staff t = st_id st" "effective_from t \<le> day"
proof -
  let ?ts = "filter (\<lambda>t. pt_staff t = st_id st \<and> effective_from t \<le> day) (payroll_terms s)"
  obtain rest where "rev (sort_key effective_from ?ts) = t # rest"
    using assms by (auto simp: term_on_def split: list.splits)
  then have "t \<in> set (rev (sort_key effective_from ?ts))" by simp
  then show "t \<in> set (payroll_terms s)" "pt_staff t = st_id st" "effective_from t \<le> day" by auto
qed

lemma term_on_latest:
  assumes "term_on s st day = Some t" "u \<in> set (payroll_terms s)" "pt_staff u = st_id st" "effective_from u \<le> day"
  shows "effective_from u \<le> effective_from t"
proof -
  let ?ts = "filter (\<lambda>t. pt_staff t = st_id st \<and> effective_from t \<le> day) (payroll_terms s)"
  obtain rest where eq: "rev (sort_key effective_from ?ts) = t # rest"
    using assms(1) by (auto simp: term_on_def split: list.splits)
  have "sort_key effective_from ?ts = rev rest @ [t]" using arg_cong [OF eq, of rev] by simp
  then have "sorted (map effective_from (rev rest @ [t]))" and mem: "set (rev rest @ [t]) = set ?ts"
    by (metis sorted_sort_key, metis set_sort)
  moreover have "u \<in> set (rev rest @ [t])" using assms(2-4) mem by auto
  ultimately show ?thesis by (auto simp: sorted_append)
qed

text \<open>The terms in force on a date are the person's latest ones effective by then; there are
  none exactly when the person has none that early.\<close>

theorem term_on_is_latest:
  "case term_on s st day of
     None \<Rightarrow> \<forall>u \<in> set (payroll_terms s). pt_staff u = st_id st \<longrightarrow> day < effective_from u
   | Some t \<Rightarrow> t \<in> set (payroll_terms s) \<and> pt_staff t = st_id st \<and> effective_from t \<le> day
       \<and> (\<forall>u \<in> set (payroll_terms s). pt_staff u = st_id st \<and> effective_from u \<le> day
            \<longrightarrow> effective_from u \<le> effective_from t)"
proof (cases "term_on s st day")
  case None
  then have "filter (\<lambda>t. pt_staff t = st_id st \<and> effective_from t \<le> day) (payroll_terms s) = []"
    by (auto simp: term_on_def split: list.splits dest: arg_cong [of _ _ set])
  with None show ?thesis by (auto simp: filter_empty_conv)
next
  case (Some t)
  then show ?thesis using term_on_Some [OF Some] term_on_latest [OF Some] by auto
qed

lemma term_on_is_latest_witness:
  "pt_staff sample_term = 2 \<and> list_all (\<lambda>u. pt_staff u = 2 \<and> effective_from u \<le> 739000
     \<longrightarrow> effective_from u \<le> 738000) (payroll_terms sample_db)"
proof -
  have "term_on sample_db (sample_staff 2 0 (Some Salary) False) 739000 = Some sample_term" by code_simp
  with term_on_is_latest [of sample_db "sample_staff 2 0 (Some Salary) False" 739000]
  show ?thesis by (simp add: sample_staff_def sample_term_def)
qed

lemma weekday_shift: "weekday (d + int i) = (weekday d + int i) mod 7"
proof -
  have "((d + 6) mod 7 + int i) mod 7 = (d + 6 + int i) mod 7" by (rule mod_add_left_eq)
  then show ?thesis by (simp add: weekday_def ac_simps)
qed

lemma weekday_period: "weekday (d + k * 7) = weekday d"
  unfolding weekday_def by presburger

lemma sum_weekdays:
  fixes w :: "rat list"
  assumes "length w = 7"
  shows "(\<Sum>i<7. w ! nat (weekday (d + int i))) = sum_list w"
proof -
  obtain a b c e f g h where w: "w = [a, b, c, e, f, g, h]"
    using assms by (auto simp: numeral_eq_Suc length_Suc_conv)
  have "weekday d \<in> {0, 1, 2, 3, 4, 5, 6}" using weekday_range [of d] by auto
  moreover have "(\<Sum>i<7. w ! nat ((k + int i) mod 7)) = sum_list w" if "k \<in> {0, 1, 2, 3, 4, 5, 6}" for k
    using that unfolding w by (auto simp: numeral_eq_Suc lessThan_Suc)
  ultimately show ?thesis by (simp only: weekday_shift)
qed

lemma contracted_in_pattern:
  assumes "term_on s st d = Some t" "pt_pay_basis t = Some Salary" "pattern_weeks t = Inr weeks"
  shows "contracted_hours_on s st d =
    Inr (weeks ! nat ((d - effective_from t) div 7 mod int (length weeks)) ! nat (weekday d))"
  using assms by (simp add: contracted_hours_on_def)

lemma sum_weeks:
  fixes weeks :: "rat list list"
  assumes "\<And>w. w \<in> set weeks \<Longrightarrow> length w = 7"
  shows "(\<Sum>i<7 * length weeks. weeks ! (i div 7) ! nat (weekday (d + int i))) = sum_list (map sum_list weeks)"
  using assms
proof (induction weeks rule: rev_induct)
  case (snoc w weeks)
  let ?n = "length weeks"
  have split: "{..<7 * length (weeks @ [w])} = {..<7 * ?n} \<union> {7 * ?n..<7 * ?n + 7}" by auto
  have old: "(\<Sum>i<7 * ?n. (weeks @ [w]) ! (i div 7) ! nat (weekday (d + int i)))
      = (\<Sum>i<7 * ?n. weeks ! (i div 7) ! nat (weekday (d + int i)))"
    by (rule sum.cong) (auto simp: nth_append less_mult_imp_div_less mult.commute)
  have "(\<Sum>i\<in>{7 * ?n..<7 * ?n + 7}. (weeks @ [w]) ! (i div 7) ! nat (weekday (d + int i)))
      = (\<Sum>i<7. (weeks @ [w]) ! ((i + 7 * ?n) div 7) ! nat (weekday (d + int (i + 7 * ?n))))"
    using sum.shift_bounds_nat_ivl [of "\<lambda>i. (weeks @ [w]) ! (i div 7) ! nat (weekday (d + int i))" 0 "7 * ?n" 7]
    by (simp add: atLeast0LessThan add.commute)
  also have "\<dots> = (\<Sum>i<7. w ! nat (weekday ((d + 7 * int ?n) + int i)))"
    by (rule sum.cong) (auto simp: nth_append ac_simps)
  also have "\<dots> = sum_list w" by (rule sum_weekdays) (simp add: snoc.prems)
  finally show ?case
    unfolding split by (subst sum.union_disjoint) (auto simp: old snoc)
qed simp

text \<open>While a salaried person's terms are in force, the hours contracted day by day over one
  cycle of the working pattern from its effective date come to the pattern's number of weeks
  times the average the hourly cost is derived from, and the pattern then repeats.\<close>

theorem contracted_cycle:
  assumes "pt_pay_basis t = Some Salary" and "pattern_weeks t = Inr weeks"
    and "average_weekly_hours t = Inr average"
    and "\<And>d. effective_from t \<le> d \<Longrightarrow> term_on s st d = Some t"
  shows "\<exists>hours. (\<forall>i. contracted_hours_on s st (effective_from t + int i) = Inr (hours i)
        \<and> hours (i + 7 * length weeks) = hours i)
      \<and> (\<Sum>i<7 * length weeks. hours i) = of_nat (length weeks) * average"
proof -
  let ?n = "length weeks"
  define hours where "hours i = weeks ! (i div 7 mod ?n) ! nat (weekday (effective_from t + int i))" for i
  note shape = pattern_weeks_shape [OF assms(2)]
  have "contracted_hours_on s st (effective_from t + int i) = Inr (hours i)" for i
    using contracted_in_pattern [OF assms(4) assms(1,2), of "effective_from t + int i"]
    by (simp add: hours_def nat_mod_as_int nat_div_as_int)
  moreover have "hours (i + 7 * ?n) = hours i" for i
  proof -
    have "(i + 7 * ?n) div 7 = i div 7 + ?n" by simp
    moreover have "weekday (effective_from t + int (i + 7 * ?n)) = weekday (effective_from t + int i)"
    proof -
      have "int (i + 7 * ?n) = int i + int ?n * 7" by simp
      then show ?thesis by (simp only: add.assoc [symmetric] weekday_period)
    qed
    ultimately show ?thesis by (simp add: hours_def)
  qed
  moreover have "(\<Sum>i<7 * ?n. hours i) = sum_list (map sum_list weeks)"
  proof -
    have "hours i = weeks ! (i div 7) ! nat (weekday (effective_from t + int i))" if "i < 7 * ?n" for i
      using that by (simp add: hours_def less_mult_imp_div_less mult.commute)
    then show ?thesis
      using sum_weeks [of weeks "effective_from t", OF shape(2)] by simp
  qed
  moreover have "sum_list (map sum_list weeks) = of_nat ?n * average"
    using assms(2,3) shape(1) by (auto simp: average_weekly_hours_def Let_def split: if_splits)
  ultimately show ?thesis by (intro exI [of _ hours]) auto
qed

lemma sample_term_in_force:
  assumes "738000 \<le> d"
  shows "term_on sample_db (sample_staff 2 0 (Some Salary) False) d = Some sample_term"
  using assms by (simp add: term_on_def sample_staff_def sample_term_def)

lemma contracted_cycle_witness:
  "\<exists>hours. (\<forall>i. contracted_hours_on sample_db (sample_staff 2 0 (Some Salary) False)
       (effective_from sample_term + int i) = Inr (hours i)
       \<and> hours (i + 7 * length [[8, 8, 8, 8, 8, 0, 0 :: rat]]) = hours i)
     \<and> (\<Sum>i<7 * length [[8, 8, 8, 8, 8, 0, 0 :: rat]]. hours i) = of_nat (length [[8, 8, 8, 8, 8, 0, 0 :: rat]]) * 40"
proof (rule contracted_cycle)
  show "pt_pay_basis sample_term = Some Salary"
    "pattern_weeks sample_term = Inr [[8, 8, 8, 8, 8, 0, 0]]" "average_weekly_hours sample_term = Inr 40"
    by code_simp+
  show "term_on sample_db (sample_staff 2 0 (Some Salary) False) d = Some sample_term"
    if "effective_from sample_term \<le> d" for d
    using that by (intro sample_term_in_force) (simp add: sample_term_def)
qed

text \<open>C26: A salaried person's hourly cost, charged for the contracted hours of a year, allocates the
  annual cost of employing that person to within half a cent per hour: the salary itself where the
  rate is asked for unloaded, and, as the job costing asks for it, the salary with the company's
  labour cost loading on top.\<close>

theorem salary_cost_rate_allocates_salary:
  assumes "annual_salary t = Some salary" and "average_weekly_hours t = Inr weekly"
    and "salary_cost_rate s t loaded = Inr rate"
  shows "0 < weekly
    \<and> \<bar>rate * (52 * weekly) - salary * (if loaded then 1 + labour_cost_loading (company s) / 100 else 1)\<bar>
        \<le> 52 * weekly / 200"
proof -
  let ?f = "if loaded then 1 + labour_cost_loading (company s) / 100 else 1"
  have pos: "0 < weekly" using assms(2) by (auto simp: average_weekly_hours_def bindR_eq_Inr Let_def split: if_splits)
  have rate: "rate = to_cents (salary / 52 / weekly * ?f)"
    using assms by (auto simp: salary_cost_rate_def Let_def split: if_splits)
  have "\<bar>rate * (52 * weekly) - salary * ?f\<bar> = \<bar>rate - salary / 52 / weekly * ?f\<bar> * (52 * weekly)"
    using pos by (simp add: abs_mult_pos left_diff_distrib)
  also have "\<dots> \<le> 1 / 200 * (52 * weekly)"
    using to_cents_error [of "salary / 52 / weekly * ?f"] pos rate by (intro mult_right_mono) auto
  finally show ?thesis using pos by simp
qed

lemma salary_cost_rate_allocates_salary_witness:
  "\<exists>rate. salary_cost_rate sample_db sample_term True = Inr rate
     \<and> \<bar>rate * (52 * 40) - 83200 * (1 + labour_cost_loading (company sample_db) / 100)\<bar> \<le> (52 * 40 / 200 :: rat)"
proof -
  have "annual_salary sample_term = Some 83200" "average_weekly_hours sample_term = Inr 40" by code_simp+
  moreover obtain rate where "salary_cost_rate sample_db sample_term True = Inr rate"
    using calculation by (auto simp: salary_cost_rate_def)
  ultimately show ?thesis
    using salary_cost_rate_allocates_salary [of sample_term 83200 40 sample_db True rate] by auto
qed

end
