(* ===== verification/Pricing.thy ===== *)
theory Pricing
  imports Payroll_Terms "HOL-Library.List_Lexorder" "HOL-Library.Char_ord"
begin

text \<open>
  \<open>apps/job/services/time_entry_rates.py\<close>: what an hour costs, what it bills and which Xero
  pay item it is paid under. Every time entry goes through \<open>price_time_entry\<close>.
  \<open>XeroPayItem.get_by_multiplier\<close> (\<open>apps/xero/models/xero_pay_item.py\<close>) is here too; names
  are ordered by code point.
\<close>

section \<open>Rates in stored metadata\<close>

definition rate_from_meta :: "meta \<Rightarrow> string \<Rightarrow> rat option res" where
  "rate_from_meta m key =
     (case meta_get m key of
        JNull \<Rightarrow> Inr None
      | v \<Rightarrow> (case json_decimal v of
            Finite x \<Rightarrow> Inr (Some x)
          | NotFinite \<Rightarrow> Inl (Validation ''must be a finite number'')
          | NotDecimal \<Rightarrow> Inl (Validation ''must be a number'')))"

definition normalize_multiplier :: "rat \<Rightarrow> rat" where
  "normalize_multiplier x = to_cents x"

definition get_bill_rate_multiplier :: "meta \<Rightarrow> rat \<Rightarrow> rat res" where
  "get_bill_rate_multiplier m wage_multiplier =
     bindR (rate_from_meta m ''bill_rate_multiplier'') (\<lambda>explicit.
       case explicit of
         Some x \<Rightarrow> Inr (normalize_multiplier x)
       | None \<Rightarrow> if meta_get m ''is_billable'' = JBool False then Inr 0
                 else Inr (normalize_multiplier wage_multiplier))"

section \<open>Pay items\<close>

definition first_by_name :: "pay_item list \<Rightarrow> pay_item option" where
  "first_by_name items = (case sort_key pi_name items of [] \<Rightarrow> None | i # _ \<Rightarrow> Some i)"

definition get_by_multiplier :: "db \<Rightarrow> rat \<Rightarrow> pay_item option" where
  "get_by_multiplier s m =
     (let q = filter (\<lambda>i. \<not> uses_leave_api i \<and> multiplier i = Some m) (pay_items s);
          named = (\<lambda>n. find (\<lambda>i. pi_name i = n \<and> xero_id i \<noteq> None) q);
          other = (case first_by_name (filter (\<lambda>i. xero_id i \<noteq> None) q) of
                     Some i \<Rightarrow> Some i | None \<Rightarrow> first_by_name q)
      in if m = 1 then (case named ''Ordinary Time'' of Some i \<Rightarrow> Some i | None \<Rightarrow> other)
         else if m = 3 / 2 then (case named ''Time and one half'' of Some i \<Rightarrow> Some i | None \<Rightarrow> other)
         else other)"

definition resolve_xero_pay_item :: "db \<Rightarrow> rat \<Rightarrow> pay_item res" where
  "resolve_xero_pay_item s m =
     of_option (Validation ''No Xero pay item found for wage_rate_multiplier'')
       (get_by_multiplier s (normalize_multiplier m))"

definition is_unpaid_time :: "db \<Rightarrow> cost_line \<Rightarrow> bool" where
  "is_unpaid_time s l =
     (case line_pay_item s l of None \<Rightarrow> False
      | Some i \<Rightarrow> \<not> uses_leave_api i \<and> multiplier i = Some 0)"

definition is_leave_pay_item :: "pay_item option \<Rightarrow> bool" where
  "is_leave_pay_item i = (case i of None \<Rightarrow> False | Some p \<Rightarrow> uses_leave_api p)"

definition leave_wage_rate_multiplier :: "db \<Rightarrow> pay_item \<Rightarrow> rat res" where
  "leave_wage_rate_multiplier s p =
     (case for_pay_item s (pi_id p) of
        None \<Rightarrow> Inl (Validation ''is not mapped to a DocketWorks leave category'')
      | Some t \<Rightarrow> Inr (if leave_is_paid (lt_code t) then 1 else 0))"

text \<open>\<open>not pay_item.xero_id\<close>: NULL or blank.\<close>

definition has_xero_id :: "pay_item \<Rightarrow> bool" where
  "has_xero_id p = (case xero_id p of None \<Rightarrow> False | Some t \<Rightarrow> t \<noteq> [])"

definition resolve_xero_pay_item_for_job :: "db \<Rightarrow> job_row \<Rightarrow> rat \<Rightarrow> pay_item option res" where
  "resolve_xero_pay_item_for_job s j m =
     (let xero_pays = (case leave_type_of_job s (job_id j) of
                         None \<Rightarrow> False | Some t \<Rightarrow> surface_for (lt_code t) = XeroComputed);
          job_item = Option.bind (default_xero_pay_item j) (get_pay_item s)
      in if xero_pays then Inr None
         else if is_leave_pay_item job_item then
           (case job_item of
              None \<Rightarrow> Inl (Validation ''lost its pay item mid-resolution'')
            | Some p \<Rightarrow> if \<not> has_xero_id p then Inl (Validation ''Leave job has a pay item with no xero_id'')
                        else Inr (Some p))
         else bindR (resolve_xero_pay_item s m) (\<lambda>p. Inr (Some p)))"

section \<open>Rates\<close>

record time_unit_rates =
  tu_unit_cost :: rat
  tu_unit_rev :: rat
  tu_wage_rate :: rat
  tu_charge_out_rate :: rat

definition calculate_time_unit_rates :: "rat \<Rightarrow> rat \<Rightarrow> rat \<Rightarrow> rat \<Rightarrow> time_unit_rates" where
  "calculate_time_unit_rates wage charge wage_multiplier bill_multiplier =
     (let base_wage = to_cents wage; base_charge = to_cents charge
      in \<lparr>tu_unit_cost = to_cents (base_wage * normalize_multiplier wage_multiplier),
          tu_unit_rev = to_cents (base_charge * normalize_multiplier bill_multiplier),
          tu_wage_rate = base_wage, tu_charge_out_rate = base_charge\<rparr>)"

record pricing =
  tp_unit_cost :: rat
  tp_unit_rev :: rat
  tp_wage_rate :: rat
  tp_charge_out_rate :: rat
  tp_wage_multiplier :: rat
  tp_bill_multiplier :: rat
  tp_is_billable :: bool
  tp_pay_item :: "pay_item option"
  tp_labour_subtype :: uuid
  tp_salary_term :: "uuid option"

definition pricing_pay_item_id :: "pricing \<Rightarrow> uuid option" where
  "pricing_pay_item_id p = map_option pi_id (tp_pay_item p)"

definition pricing_meta_updates :: "pricing \<Rightarrow> meta" where
  "pricing_meta_updates p =
     [(''wage_rate_multiplier'', JNum (tp_wage_multiplier p)),
      (''bill_rate_multiplier'', JNum (tp_bill_multiplier p)),
      (''is_billable'', JBool (tp_is_billable p)),
      (''wage_rate'', JNum (tp_wage_rate p)),
      (''charge_out_rate'', JNum (tp_charge_out_rate p))]
     @ (case tp_salary_term p of None \<Rightarrow> []
        | Some t \<Rightarrow> [(''salary_term_id'', JStr (show_digits t)), (''pay_basis'', JStr ''salary'')])"

definition resolve_labour_subtype :: "staff_row \<Rightarrow> uuid option \<Rightarrow> uuid res" where
  "resolve_labour_subtype st explicit =
     (case explicit of Some t \<Rightarrow> Inr t
      | None \<Rightarrow> of_option (Validation ''labour_subtype is required for time entries'') (default_labour_subtype st))"

definition job_charge_out_rate :: "db \<Rightarrow> job_row \<Rightarrow> uuid \<Rightarrow> rat res" where
  "job_charge_out_rate s j subtype =
     (case find (\<lambda>r. lr_job r = job_id j \<and> lr_subtype r = subtype) (labour_rates s) of
        None \<Rightarrow> Inl (Validation ''has no labour rate for subtype'')
      | Some r \<Rightarrow> Inr (charge_out_rate r))"

definition staff_wage_rate :: "db \<Rightarrow> staff_row \<Rightarrow> rat option \<Rightarrow> payroll_term option \<Rightarrow> rat res" where
  "staff_wage_rate s st override term =
     (if st_pay_basis st = Some Salary \<and> override = None then
        (case term of None \<Rightarrow> Inl (Validation ''cannot be costed without their Xero payroll terms'')
         | Some t \<Rightarrow> salary_cost_rate s t True)
      else
        let rate = (case override of Some x \<Rightarrow> x | None \<Rightarrow> wage_rate st)
        in if rate = 0 then Inl (Validation ''Wage rate is not configured'') else Inr rate)"

section \<open>Pricing an entry\<close>

text \<open>The salaried person's term, from the work date the metadata carries.\<close>

definition entry_salary_term :: "db \<Rightarrow> staff_row \<Rightarrow> meta \<Rightarrow> payroll_term option res" where
  "entry_salary_term s st m =
     (if st_pay_basis st \<noteq> Some Salary then Inr None
      else case meta_get m ''date'' of
        JDate d \<Rightarrow> bindR (salary_term_on s st d) (\<lambda>t. Inr (Some t))
      | _ \<Rightarrow> Inl (Validation ''Timesheet metadata must contain an ISO work date.''))"

text \<open>The multipliers once the pay item is known: the four branches after its resolution.\<close>

definition entry_multipliers ::
  "db \<Rightarrow> meta \<Rightarrow> rat \<Rightarrow> rat \<Rightarrow> pay_item option \<Rightarrow> pay_item option \<Rightarrow> (rat \<times> rat) res" where
  "entry_multipliers s m requested wage override item =
     (case item of
        None \<Rightarrow> Inr (1, 0)
      | Some p \<Rightarrow>
          if \<not> has_xero_id p then Inl (Validation ''Xero pay item has no xero_id'')
          else if is_leave_pay_item item then bindR (leave_wage_rate_multiplier s p) (\<lambda>w. Inr (w, 0))
          else if override \<noteq> None then
            (case multiplier p of
               None \<Rightarrow> Inl (Validation ''Xero earnings rate has no multiplier'')
             | Some x \<Rightarrow> Inr (normalize_multiplier x, 0))
          else bindR (get_bill_rate_multiplier m requested) (\<lambda>b. Inr (wage, b)))"

definition price_time_entry ::
  "db \<Rightarrow> job_row \<Rightarrow> staff_row \<Rightarrow> meta \<Rightarrow> uuid option \<Rightarrow> rat option \<Rightarrow> pay_item option \<Rightarrow> pricing res" where
  "price_time_entry s j st m subtype wage_override item_override =
     bindR (rate_from_meta m ''wage_rate_multiplier'') (\<lambda>raw.
     bindR (of_option (Validation ''Rate multiplier must be provided'') raw) (\<lambda>raw_multiplier.
     bindR (entry_salary_term s st m) (\<lambda>term.
     bindR (resolve_labour_subtype st subtype) (\<lambda>labour.
     bindR (staff_wage_rate s st wage_override term) (\<lambda>wage_rate.
     let requested = normalize_multiplier raw_multiplier;
         wage0 = (if st_pay_basis st = Some Salary \<and> requested \<noteq> 0 then 1 else requested)
     in bindR (case item_override of Some p \<Rightarrow> Inr (Some p)
               | None \<Rightarrow> resolve_xero_pay_item_for_job s j wage0) (\<lambda>item.
     bindR (entry_multipliers s m requested wage0 item_override item) (\<lambda>(wage, bill).
     bindR (job_charge_out_rate s j labour) (\<lambda>charge.
     let rates = calculate_time_unit_rates wage_rate charge wage bill
     in Inr \<lparr>tp_unit_cost = tu_unit_cost rates, tp_unit_rev = tu_unit_rev rates,
         tp_wage_rate = tu_wage_rate rates, tp_charge_out_rate = tu_charge_out_rate rates,
         tp_wage_multiplier = wage, tp_bill_multiplier = bill, tp_is_billable = bill > 0,
         tp_pay_item = item, tp_labour_subtype = labour,
         tp_salary_term = map_option pt_id term\<rparr>))))))))"

section \<open>Facts\<close>

lemma first_by_name_in: "first_by_name items = Some i \<Longrightarrow> i \<in> set items"
  by (metis first_by_name_def list.case_eq_if list.set_sel(1) option.distinct(1) option.inject set_sort)

lemma get_by_multiplier_in:
  assumes "get_by_multiplier s m = Some i"
  shows "i \<in> set (pay_items s)" "\<not> uses_leave_api i" "multiplier i = Some m"
proof -
  let ?q = "filter (\<lambda>i. \<not> uses_leave_api i \<and> multiplier i = Some m) (pay_items s)"
  have "i \<in> set ?q"
    using assms unfolding get_by_multiplier_def Let_def
    by (auto simp: find_Some_iff split: if_splits option.splits dest!: first_by_name_in
        simp del: set_filter) (auto dest: nth_mem)
  then show "i \<in> set (pay_items s)" "\<not> uses_leave_api i" "multiplier i = Some m" by auto
qed

lemma price_time_entry_parts:
  assumes "price_time_entry s j st m subtype wo io = Inr p"
  obtains raw pterm w requested wage0 charge where
    "rate_from_meta m ''wage_rate_multiplier'' = Inr (Some raw)" "entry_salary_term s st m = Inr pterm"
    "staff_wage_rate s st wo pterm = Inr w" "requested = normalize_multiplier raw"
    "wage0 = (if st_pay_basis st = Some Salary \<and> requested \<noteq> 0 then 1 else requested)"
    "(case io of Some i \<Rightarrow> Inr (Some i) | None \<Rightarrow> resolve_xero_pay_item_for_job s j wage0) = Inr (tp_pay_item p)"
    "entry_multipliers s m requested wage0 io (tp_pay_item p) = Inr (tp_wage_multiplier p, tp_bill_multiplier p)"
    "job_charge_out_rate s j (tp_labour_subtype p) = Inr charge"
    "resolve_labour_subtype st subtype = Inr (tp_labour_subtype p)"
    "tp_unit_cost p = to_cents (to_cents w * normalize_multiplier (tp_wage_multiplier p))"
    "tp_unit_rev p = to_cents (to_cents charge * normalize_multiplier (tp_bill_multiplier p))"
    "tp_wage_rate p = to_cents w" "tp_charge_out_rate p = to_cents charge"
    "tp_is_billable p \<longleftrightarrow> tp_bill_multiplier p > 0" "tp_salary_term p = map_option pt_id pterm"
  using assms
  by (auto simp: price_time_entry_def bindR_eq_Inr Let_def calculate_time_unit_rates_def split_def)


lemma multipliers_leave:
  "entry_multipliers s m r w io (Some i) = Inr (wm, bm) \<Longrightarrow> uses_leave_api i \<Longrightarrow> bm = 0 \<and>
    (\<exists>t. for_pay_item s (pi_id i) = Some t \<and> wm = (if lt_code t = Unpaid then 0 else 1))"
  by (force simp: entry_multipliers_def is_leave_pay_item_def bindR_eq_Inr leave_wage_rate_multiplier_def
      leave_is_paid_def split: if_splits option.splits)

lemma priced_figures:
  assumes "price_time_entry s j st m subtype wo io = Inr p"
  shows "tp_unit_cost p = to_cents (tp_wage_rate p * to_cents (tp_wage_multiplier p))"
    "tp_unit_rev p = to_cents (tp_charge_out_rate p * to_cents (tp_bill_multiplier p))"
    "to_cents (tp_wage_rate p) = tp_wage_rate p" "to_cents (tp_charge_out_rate p) = tp_charge_out_rate p"
    "tp_is_billable p \<longleftrightarrow> tp_bill_multiplier p > 0"
  using assms by (elim price_time_entry_parts; simp add: normalize_multiplier_def)+

lemma priced_multipliers:
  assumes "price_time_entry s j st m subtype wo io = Inr p"
  obtains raw wage0 where "rate_from_meta m ''wage_rate_multiplier'' = Inr (Some raw)"
    "wage0 = (if st_pay_basis st = Some Salary \<and> to_cents raw \<noteq> 0 then 1 else to_cents raw)"
    "(case io of Some i \<Rightarrow> Inr (Some i) | None \<Rightarrow> resolve_xero_pay_item_for_job s j wage0) = Inr (tp_pay_item p)"
    "entry_multipliers s m (to_cents raw) wage0 io (tp_pay_item p) = Inr (tp_wage_multiplier p, tp_bill_multiplier p)"
  using assms
proof (rule price_time_entry_parts)
  fix raw pterm w requested wage0 charge
  assume "rate_from_meta m ''wage_rate_multiplier'' = Inr (Some raw)" "requested = normalize_multiplier raw"
    "wage0 = (if st_pay_basis st = Some Salary \<and> requested \<noteq> 0 then 1 else requested)"
    "(case io of Some i \<Rightarrow> Inr (Some i) | None \<Rightarrow> resolve_xero_pay_item_for_job s j wage0) = Inr (tp_pay_item p)"
    "entry_multipliers s m requested wage0 io (tp_pay_item p) = Inr (tp_wage_multiplier p, tp_bill_multiplier p)"
  then show thesis using that [of raw wage0] unfolding normalize_multiplier_def by metis
qed

lemma priced_term:
  assumes "price_time_entry s j st m subtype wo io = Inr p"
  shows "\<exists>pterm w. entry_salary_term s st m = Inr pterm \<and> tp_salary_term p = map_option pt_id pterm
    \<and> staff_wage_rate s st wo pterm = Inr w \<and> tp_wage_rate p = to_cents w"
  using assms by (rule price_time_entry_parts) blast

lemma to_cents_one [simp]: "to_cents 1 = 1" by (simp add: to_cents_def quantize_def cent_def)

text \<open>Leave is never billed and is costed at the ordinary rate, or at nothing when the category its
  pay item posts is Unpaid; a leave item no category claims is refused.\<close>

theorem leave_is_priced_by_its_category:
  assumes priced: "price_time_entry s j st m subtype wo io = Inr p"
    and item: "tp_pay_item p = Some i" "uses_leave_api i"
  shows "tp_bill_multiplier p = 0 \<and> \<not> tp_is_billable p \<and> tp_unit_rev p = 0 \<and>
    (\<exists>t. for_pay_item s (pi_id i) = Some t \<and> surface_for (lt_code t) = LeaveApi \<and>
       (if lt_code t = Unpaid then tp_wage_multiplier p = 0 \<and> tp_unit_cost p = 0
        else tp_wage_multiplier p = 1 \<and> tp_unit_cost p = tp_wage_rate p))"
proof -
  have "tp_bill_multiplier p = 0 \<and> (\<exists>t. for_pay_item s (pi_id i) = Some t
      \<and> tp_wage_multiplier p = (if lt_code t = Unpaid then 0 else 1))"
    using priced by (rule priced_multipliers) (use item multipliers_leave in fastforce)
  then obtain t where t: "for_pay_item s (pi_id i) = Some t"
      "tp_wage_multiplier p = (if lt_code t = Unpaid then 0 else 1)" and bill: "tp_bill_multiplier p = 0"
    by blast
  then show ?thesis using priced_figures [OF priced] for_pay_item_posts [OF t(1)]
    by (intro conjI exI [of _ t]) simp_all
qed

lemma multipliers_ordinary:
  "entry_multipliers s m r w None (Some i) = Inr (wm, bm) \<Longrightarrow> \<not> uses_leave_api i \<Longrightarrow> wm = w"
  "entry_multipliers s m r w (Some i) (Some i) = Inr (wm, bm) \<Longrightarrow> \<not> uses_leave_api i \<Longrightarrow>
     bm = 0 \<and> (\<exists>x. multiplier i = Some x \<and> wm = to_cents x)"
  by (auto simp: entry_multipliers_def is_leave_pay_item_def bindR_eq_Inr normalize_multiplier_def
      split: if_splits option.splits)

lemma resolve_for_job_multiplier:
  "resolve_xero_pay_item_for_job s j w = Inr (Some i) \<Longrightarrow> \<not> uses_leave_api i \<Longrightarrow>
     i \<in> set (pay_items s) \<and> multiplier i = Some (to_cents w)"
  by (auto simp: resolve_xero_pay_item_for_job_def resolve_xero_pay_item_def Let_def bindR_eq_Inr
      is_leave_pay_item_def normalize_multiplier_def dest: get_by_multiplier_in split: if_splits option.splits)

lemma resolve_for_job_leave:
  "resolve_xero_pay_item_for_job s j w = Inr (Some i) \<Longrightarrow> uses_leave_api i \<Longrightarrow>
     default_xero_pay_item j \<noteq> None \<and> get_pay_item s (the (default_xero_pay_item j)) = Some i"
  by (auto simp: resolve_xero_pay_item_for_job_def resolve_xero_pay_item_def Let_def bindR_eq_Inr
      is_leave_pay_item_def bind_eq_Some_conv dest: get_by_multiplier_in split: if_splits option.splits)

text \<open>C33: What a worker is paid by is what the job is costed at: time on an earnings rate is
  costed at exactly that rate's multiplier, whether the rate was looked up or chosen.\<close>

theorem earnings_rate_is_the_costed_multiplier:
  assumes priced: "price_time_entry s j st m subtype wo io = Inr p"
    and item: "tp_pay_item p = Some i" "\<not> uses_leave_api i"
  shows "\<exists>x. multiplier i = Some x \<and> tp_wage_multiplier p = to_cents x
    \<and> tp_unit_cost p = to_cents (tp_wage_rate p * to_cents x)"
  using priced
proof (rule priced_multipliers)
  fix raw wage0
  assume w0: "wage0 = (if st_pay_basis st = Some Salary \<and> to_cents raw \<noteq> 0 then 1 else to_cents raw)"
    and res: "(case io of Some i \<Rightarrow> Inr (Some i) | None \<Rightarrow> resolve_xero_pay_item_for_job s j wage0) = Inr (tp_pay_item p)"
    and mult: "entry_multipliers s m (to_cents raw) wage0 io (tp_pay_item p) = Inr (tp_wage_multiplier p, tp_bill_multiplier p)"
  have w0': "to_cents wage0 = wage0" using w0 by simp
  show ?thesis
  proof (cases io)
    case None
    then show ?thesis
      using res mult item resolve_for_job_multiplier [of s j wage0 i] multipliers_ordinary(1) w0' priced_figures(1) [OF priced]
      by fastforce
  next
    case (Some k)
    then show ?thesis
      using res mult item multipliers_ordinary(2) priced_figures(1) [OF priced] by fastforce
  qed
qed

text \<open>On a job whose category Xero pays by its own calculation, no pay item is named
  unless one was chosen: the hours are costed once at the ordinary rate and never billed.\<close>

theorem xero_computed_is_costed_once:
  assumes priced: "price_time_entry s j st m subtype wo None = Inr p"
    and leave: "leave_type_of_job s (job_id j) = Some t" "lt_code t = PublicHoliday"
  shows "tp_pay_item p = None \<and> tp_wage_multiplier p = 1 \<and> tp_unit_cost p = tp_wage_rate p
    \<and> tp_bill_multiplier p = 0 \<and> \<not> tp_is_billable p \<and> tp_unit_rev p = 0"
proof -
  have "tp_pay_item p = None \<and> tp_wage_multiplier p = 1 \<and> tp_bill_multiplier p = 0"
    using priced by (rule priced_multipliers)
      (simp add: resolve_xero_pay_item_for_job_def leave leave_surface entry_multipliers_def)
  then show ?thesis using priced_figures [OF priced] by simp
qed

text \<open>A salary is a fixed cost: with no pay item chosen, a salaried person's time is costed
  at one times their rate or at nothing, never at an overtime multiple; and a person paid by
  the hour without a wage rate is refused rather than costed at nothing.\<close>

theorem salaried_time_never_costs_more:
  assumes priced: "price_time_entry s j st m subtype None None = Inr p"
  shows "(st_pay_basis st = Some Salary \<longrightarrow> tp_wage_multiplier p \<in> {0, 1} \<and> tp_salary_term p \<noteq> None
       \<and> tp_unit_cost p \<in> {0, tp_wage_rate p})
    \<and> (st_pay_basis st \<noteq> Some Salary \<longrightarrow> wage_rate st \<noteq> 0 \<and> tp_wage_rate p = to_cents (wage_rate st))"
proof (intro conjI impI)
  assume sal: "st_pay_basis st = Some Salary"
  have "tp_wage_multiplier p \<in> {0, 1}"
    using priced
  proof (rule priced_multipliers)
    fix raw wage0
    assume w0: "wage0 = (if st_pay_basis st = Some Salary \<and> to_cents raw \<noteq> 0 then 1 else to_cents raw)"
      and mult: "entry_multipliers s m (to_cents raw) wage0 None (tp_pay_item p) = Inr (tp_wage_multiplier p, tp_bill_multiplier p)"
    show ?thesis
    proof (cases "tp_pay_item p")
      case None
      then show ?thesis using mult by (simp add: entry_multipliers_def)
    next
      case (Some i)
      note mult' = mult [unfolded Some]
      show ?thesis
      proof (cases "uses_leave_api i")
        case True
        show ?thesis using multipliers_leave [OF mult' True] by (auto split: if_splits)
      next
        case False
        have "wage0 \<in> {0, 1}" using w0 sal by simp
        then show ?thesis by (simp only: multipliers_ordinary(1) [OF mult' False])
      qed
    qed
  qed
  moreover have "tp_salary_term p \<noteq> None"
    using priced_term [OF priced] by (auto simp: entry_salary_term_def sal bindR_eq_Inr split: json.splits)
  moreover from calculation have "tp_unit_cost p \<in> {0, tp_wage_rate p}"
    unfolding priced_figures(1) [OF priced] by (auto simp: priced_figures(3) [OF priced])
  ultimately show "tp_wage_multiplier p \<in> {0, 1}" "tp_salary_term p \<noteq> None" "tp_unit_cost p \<in> {0, tp_wage_rate p}"
    by blast+
next
  assume "st_pay_basis st \<noteq> Some Salary"
  then have "wage_rate st \<noteq> 0 \<and> tp_wage_rate p = to_cents (wage_rate st)"
    using priced_term [OF priced] by (auto simp: staff_wage_rate_def Let_def split: if_splits)
  then show "wage_rate st \<noteq> 0" "tp_wage_rate p = to_cents (wage_rate st)" by auto
qed

section \<open>The properties on the sample workshop\<close>

definition sample_hourly :: staff_row where
  "sample_hourly = sample_staff 1 36 (Some Hourly) False"

definition sample_salaried :: staff_row where
  "sample_salaried = sample_staff 2 0 (Some Salary) False"

definition sample_meta :: meta where
  "sample_meta = [(''wage_rate_multiplier'', JNum (3 / 2)), (''date'', JDate 739000)]"

lemma to_cents_sample [simp]: "to_cents (numeral n) = numeral n" "to_cents (3 / 2) = 3 / 2"
  by (simp_all add: to_cents_def quantize_def cent_def)

lemma priced_on_customer_job:
  "price_time_entry sample_db (sample_job 10 1 901 ''in_progress'' 60 20) sample_hourly sample_meta None None None =
     Inr \<lparr>tp_unit_cost = 54, tp_unit_rev = 165, tp_wage_rate = 36, tp_charge_out_rate = 110,
       tp_wage_multiplier = 3 / 2, tp_bill_multiplier = 3 / 2, tp_is_billable = True,
       tp_pay_item = Some (sample_item 61 ''Time and one half'' False (Some (3 / 2))),
       tp_labour_subtype = 50, tp_salary_term = None\<rparr>"
proof -
  let ?j = "sample_job 10 1 901 ''in_progress'' 60 20" and ?i = "sample_item 61 ''Time and one half'' False (Some (3 / 2))"
  have "rate_from_meta sample_meta ''wage_rate_multiplier'' = Inr (Some (3 / 2))"
    "entry_salary_term sample_db sample_hourly sample_meta = Inr None"
    "resolve_labour_subtype sample_hourly None = Inr 50"
    "staff_wage_rate sample_db sample_hourly None None = Inr 36" "st_pay_basis sample_hourly = Some Hourly"
    "resolve_xero_pay_item_for_job sample_db ?j (3 / 2) = Inr (Some ?i)"
    "entry_multipliers sample_db sample_meta (3 / 2) (3 / 2) None (Some ?i) = Inr (3 / 2, 3 / 2)"
    "job_charge_out_rate sample_db ?j 50 = Inr 110" by code_simp+
  then show ?thesis
    by (simp add: price_time_entry_def normalize_multiplier_def calculate_time_unit_rates_def Let_def)
qed

lemma priced_on_leave_job:
  "price_time_entry sample_db (sample_job 12 3 900 ''special'' 63 22) sample_hourly sample_meta None None None =
     Inr \<lparr>tp_unit_cost = 36, tp_unit_rev = 0, tp_wage_rate = 36, tp_charge_out_rate = 0,
       tp_wage_multiplier = 1, tp_bill_multiplier = 0, tp_is_billable = False,
       tp_pay_item = Some (sample_item 63 ''Annual Leave'' True None),
       tp_labour_subtype = 50, tp_salary_term = None\<rparr>"
proof -
  let ?j = "sample_job 12 3 900 ''special'' 63 22" and ?i = "sample_item 63 ''Annual Leave'' True None"
  have "rate_from_meta sample_meta ''wage_rate_multiplier'' = Inr (Some (3 / 2))"
    "entry_salary_term sample_db sample_hourly sample_meta = Inr None"
    "resolve_labour_subtype sample_hourly None = Inr 50"
    "staff_wage_rate sample_db sample_hourly None None = Inr 36" "st_pay_basis sample_hourly = Some Hourly"
    "resolve_xero_pay_item_for_job sample_db ?j (3 / 2) = Inr (Some ?i)"
    "entry_multipliers sample_db sample_meta (3 / 2) (3 / 2) None (Some ?i) = Inr (1, 0)"
    "job_charge_out_rate sample_db ?j 50 = Inr 0" by code_simp+
  then show ?thesis
    by (simp add: price_time_entry_def normalize_multiplier_def calculate_time_unit_rates_def Let_def)
qed

lemma priced_on_holiday_job:
  "price_time_entry sample_db (sample_job 13 4 900 ''special'' 60 23) sample_hourly sample_meta None None None =
     Inr \<lparr>tp_unit_cost = 36, tp_unit_rev = 0, tp_wage_rate = 36, tp_charge_out_rate = 0,
       tp_wage_multiplier = 1, tp_bill_multiplier = 0, tp_is_billable = False, tp_pay_item = None,
       tp_labour_subtype = 50, tp_salary_term = None\<rparr>"
proof -
  let ?j = "sample_job 13 4 900 ''special'' 60 23"
  have "rate_from_meta sample_meta ''wage_rate_multiplier'' = Inr (Some (3 / 2))"
    "entry_salary_term sample_db sample_hourly sample_meta = Inr None"
    "resolve_labour_subtype sample_hourly None = Inr 50"
    "staff_wage_rate sample_db sample_hourly None None = Inr 36" "st_pay_basis sample_hourly = Some Hourly"
    "resolve_xero_pay_item_for_job sample_db ?j (3 / 2) = Inr None"
    "entry_multipliers sample_db sample_meta (3 / 2) (3 / 2) None None = Inr (1, 0)"
    "job_charge_out_rate sample_db ?j 50 = Inr 0" by code_simp+
  then show ?thesis
    by (simp add: price_time_entry_def normalize_multiplier_def calculate_time_unit_rates_def Let_def)
qed

lemma priced_on_salary:
  "price_time_entry sample_db (sample_job 10 1 901 ''in_progress'' 60 20) sample_salaried sample_meta None None None =
     Inr \<lparr>tp_unit_cost = 48, tp_unit_rev = 165, tp_wage_rate = 48, tp_charge_out_rate = 110,
       tp_wage_multiplier = 1, tp_bill_multiplier = 3 / 2, tp_is_billable = True,
       tp_pay_item = Some (sample_item 60 ''Ordinary Time'' False (Some 1)),
       tp_labour_subtype = 50, tp_salary_term = Some 70\<rparr>"
proof -
  let ?j = "sample_job 10 1 901 ''in_progress'' 60 20" and ?i = "sample_item 60 ''Ordinary Time'' False (Some 1)"
  have "rate_from_meta sample_meta ''wage_rate_multiplier'' = Inr (Some (3 / 2))"
    "entry_salary_term sample_db sample_salaried sample_meta = Inr (Some sample_term)"
    "resolve_labour_subtype sample_salaried None = Inr 50"
    "staff_wage_rate sample_db sample_salaried None (Some sample_term) = Inr 48"
    "st_pay_basis sample_salaried = Some Salary" "pt_id sample_term = 70"
    "resolve_xero_pay_item_for_job sample_db ?j 1 = Inr (Some ?i)"
    "entry_multipliers sample_db sample_meta (3 / 2) 1 None (Some ?i) = Inr (1, 3 / 2)"
    "job_charge_out_rate sample_db ?j 50 = Inr 110" by code_simp+
  then show ?thesis
    by (simp add: price_time_entry_def normalize_multiplier_def calculate_time_unit_rates_def Let_def)
qed

lemma leave_is_priced_by_its_category_witness:
  "\<exists>p. price_time_entry sample_db (sample_job 12 3 900 ''special'' 63 22) sample_hourly sample_meta None None None = Inr p
    \<and> tp_bill_multiplier p = 0 \<and> for_pay_item sample_db 63 \<noteq> None"
  using leave_is_priced_by_its_category [OF priced_on_leave_job, of "sample_item 63 ''Annual Leave'' True None"]
    priced_on_leave_job
  by (auto simp: sample_item_def split: if_splits)

lemma earnings_rate_is_the_costed_multiplier_witness: "to_cents (36 * to_cents (3 / 2)) = 54"
  using earnings_rate_is_the_costed_multiplier [OF priced_on_customer_job,
      of "sample_item 61 ''Time and one half'' False (Some (3 / 2))"]
  by (auto simp: sample_item_def)

lemma xero_computed_is_costed_once_witness:
  "\<exists>p. price_time_entry sample_db (sample_job 13 4 900 ''special'' 60 23) sample_hourly sample_meta None None None = Inr p
    \<and> tp_pay_item p = None \<and> tp_unit_cost p = tp_wage_rate p"
proof -
  let ?t = "\<lparr>lt_code = PublicHoliday, display_name = ''Public holiday'', lt_job = Some 13\<rparr>"
  have "leave_type_of_job sample_db (job_id (sample_job 13 4 900 ''special'' 60 23)) = Some ?t"
    "lt_code ?t = PublicHoliday" by code_simp+
  from xero_computed_is_costed_once [OF priced_on_holiday_job this]
  show ?thesis using priced_on_holiday_job by blast
qed

lemma salaried_time_never_costs_more_witness:
  "\<exists>p. price_time_entry sample_db (sample_job 10 1 901 ''in_progress'' 60 20) sample_salaried sample_meta None None None = Inr p
    \<and> tp_wage_multiplier p \<in> {0, 1} \<and> tp_unit_cost p \<in> {0, tp_wage_rate p}"
proof -
  have "st_pay_basis sample_salaried = Some Salary" by code_simp
  with salaried_time_never_costs_more [OF priced_on_salary]
  show ?thesis using priced_on_salary by blast
qed

end
