(* ===== verification/Costing.thy ===== *)
theory Costing
  imports Sample
begin

text \<open>
  \<open>apps/job/models/costing.py\<close> and \<open>costline_validators.py\<close>: a cost line and the cached
  summary of its cost set. A full save numbers a worked entry within its day, checks the
  line, writes it and applies the difference it makes to the summaries of the cost sets it
  left and joined; a delete applies the opposite. That the cache equals the recomputed
  totals is the invariant \<open>ledger_ok\<close>. The incremental bookkeeping is stated as the
  interface \<open>ledger\<close>.
\<close>

section \<open>The shape of a line's JSON\<close>

datatype field_type = StringOrNull | NumberOrNull | BooleanOrNull | ClockTimeOrNull

fun field_ok :: "field_type \<Rightarrow> json \<Rightarrow> bool" where
  "field_ok _ JNull = True"
| "field_ok StringOrNull v = is_str v"
| "field_ok NumberOrNull v = (case v of JNum _ \<Rightarrow> True | _ \<Rightarrow> False)"
| "field_ok BooleanOrNull v = (case v of JBool _ \<Rightarrow> True | _ \<Rightarrow> False)"
| "field_ok ClockTimeOrNull v = (case v of JTime _ \<Rightarrow> True | _ \<Rightarrow> False)"

type_synonym schema = "(string \<times> field_type) list"

definition time_meta_schema :: schema where
  "time_meta_schema =
    [(''staff_id'', StringOrNull), (''date'', StringOrNull), (''is_billable'', BooleanOrNull),
     (''start_time'', ClockTimeOrNull), (''end_time'', ClockTimeOrNull),
     (''wage_rate_multiplier'', NumberOrNull), (''bill_rate_multiplier'', NumberOrNull),
     (''note'', StringOrNull), (''created_from_timesheet'', BooleanOrNull),
     (''wage_rate'', NumberOrNull), (''charge_out_rate'', NumberOrNull),
     (''labour_minutes'', NumberOrNull), (''consumed_by'', StringOrNull),
     (''comments'', StringOrNull), (''source'', StringOrNull),
     (''salary_term_id'', StringOrNull), (''pay_basis'', StringOrNull)]"

definition material_meta_schema :: schema where
  "material_meta_schema =
    [(''item_code'', StringOrNull), (''comments'', StringOrNull), (''source'', StringOrNull),
     (''retail_rate'', NumberOrNull), (''po_number'', StringOrNull), (''consumed_by'', StringOrNull)]"

definition adjustment_meta_schema :: schema where
  "adjustment_meta_schema = [(''comments'', StringOrNull), (''source'', StringOrNull)]"

fun costline_meta_schemas :: "line_kind \<Rightarrow> schema" where
  "costline_meta_schemas Time = time_meta_schema"
| "costline_meta_schemas Material = material_meta_schema"
| "costline_meta_schemas Adjust = adjustment_meta_schema"

definition costline_extrefs_schema :: schema where
  "costline_extrefs_schema =
    [(''time_entry_id'', StringOrNull), (''material_entry_id'', StringOrNull),
     (''adjustment_entry_id'', StringOrNull), (''stock_id'', StringOrNull),
     (''purchase_order_id'', StringOrNull), (''purchase_order_line_id'', StringOrNull),
     (''source_row'', StringOrNull), (''source_sheet'', StringOrNull), (''staff_id'', StringOrNull)]"

text \<open>\<open>additionalProperties: False\<close>: a key the schema does not name is refused.\<close>

definition run_schema_validation :: "meta \<Rightarrow> schema \<Rightarrow> string \<Rightarrow> unit res" where
  "run_schema_validation m schema label =
     requireR (list_all (\<lambda>(k, v). case map_of schema k of None \<Rightarrow> False | Some t \<Rightarrow> field_ok t v) m)
       (Validation label)"

definition validate_costline_meta :: "meta \<Rightarrow> line_kind \<Rightarrow> unit res" where
  "validate_costline_meta m k = run_schema_validation m (costline_meta_schemas k) ''meta''"

definition validate_costline_ext_refs :: "meta \<Rightarrow> unit res" where
  "validate_costline_ext_refs m = run_schema_validation m costline_extrefs_schema ''ext_refs''"

section \<open>Totals and the summary cache\<close>

definition line_hours :: "cost_line \<Rightarrow> rat" where
  "line_hours l = (if kind l = Time then quantity l else 0)"

definition measure_in :: "uuid \<Rightarrow> (cost_line \<Rightarrow> rat) \<Rightarrow> cost_line list \<Rightarrow> rat" where
  "measure_in o' f ls = sum_list (map f (filter (\<lambda>l. cost_set l = o') ls))"

text \<open>\<open>_TOTALS_SQL\<close>: the totals of a cost set's lines, zero for an empty set.\<close>

definition totals_of :: "uuid \<Rightarrow> cost_line list \<Rightarrow> cost_summary" where
  "totals_of o' ls = \<lparr>sum_cost = measure_in o' total_cost ls, sum_rev = measure_in o' total_rev ls,
     sum_hours = measure_in o' line_hours ls\<rparr>"

definition signed :: "uuid \<Rightarrow> (cost_line \<Rightarrow> rat) \<Rightarrow> cost_line option \<Rightarrow> cost_line option \<Rightarrow> rat" where
  "signed o' f was after =
     (case after of Some l \<Rightarrow> if cost_set l = o' then f l else 0 | None \<Rightarrow> 0)
     - (case was of Some l \<Rightarrow> if cost_set l = o' then f l else 0 | None \<Rightarrow> 0)"

text \<open>One owner's turn in \<open>CostSet._record_line_change\<close>: a change of nothing writes nothing.\<close>

definition apply_change :: "uuid \<Rightarrow> cost_line option \<Rightarrow> cost_line option \<Rightarrow> cost_summary \<Rightarrow> cost_summary" where
  "apply_change o' was after s =
     (let cost = signed o' total_cost was after; revenue = signed o' total_rev was after;
          hours = signed o' line_hours was after
      in if cost = 0 \<and> revenue = 0 \<and> hours = 0 then s
         else \<lparr>sum_cost = sum_cost s + cost, sum_rev = sum_rev s + revenue, sum_hours = sum_hours s + hours\<rparr>)"

definition touch_costing_jobs :: "uuid list \<Rightarrow> db \<Rightarrow> db" where
  "touch_costing_jobs ids s =
     s\<lparr>jobs := map (\<lambda>j. if job_id j \<in> set ids then j\<lparr>job_updated_at := now s\<rparr> else j) (jobs s),
       pdf_refresh := True\<rparr>"

definition owners :: "cost_line option \<Rightarrow> cost_line option \<Rightarrow> uuid list" where
  "owners was after = remdups (List.map_filter (map_option cost_set) [was, after])"

definition record_line_change :: "cost_line option \<Rightarrow> cost_line option \<Rightarrow> db \<Rightarrow> db" where
  "record_line_change was after s =
     (let ids = owners was after;
          s' = s\<lparr>cost_sets := map (\<lambda>c. if cs_id c \<in> set ids
                    then c\<lparr>summary := apply_change (cs_id c) was after (summary c)\<rparr> else c) (cost_sets s)\<rparr>
      in if ids = [] then s'
         else touch_costing_jobs (map cs_job (filter (\<lambda>c. cs_id c \<in> set ids) (cost_sets s))) s')"

section \<open>What incremental bookkeeping promises\<close>

definition row_write :: "('r \<Rightarrow> 'k) \<Rightarrow> 'r \<Rightarrow> 'r list \<Rightarrow> 'r list" where
  "row_write key r rows =
     (if row_get key (key r) rows = None then rows @ [r] else row_put key r rows)"

datatype ('r, 'k) row_op = Write 'r | Remove 'k

fun row_op_run :: "('r \<Rightarrow> 'k) \<Rightarrow> ('r, 'k) row_op \<Rightarrow> 'r list \<Rightarrow> 'r list" where
  "row_op_run key (Write r) rows = row_write key r rows"
| "row_op_run key (Remove k) rows = row_del key k rows"

text \<open>
  The provider keeps a cache of type \<open>'c\<close>: \<open>totals\<close> recomputes it from the rows and \<open>change\<close>
  applies what one row's going from \<open>was\<close> to \<open>after\<close> makes of it. The laws are the three
  kinds of write; the client may then mix writes and removals freely.
\<close>

locale ledger =
  fixes totals :: "'r list \<Rightarrow> 'c"
    and change :: "'r option \<Rightarrow> 'r option \<Rightarrow> 'c \<Rightarrow> 'c"
    and key :: "'r \<Rightarrow> 'k"
  assumes add: "totals (rows @ [r]) = change None (Some r) (totals rows)"
    and put: "distinct (map key rows) \<Longrightarrow> row_get key (key r) rows = Some b \<Longrightarrow>
      totals (row_put key r rows) = change (Some b) (Some r) (totals rows)"
    and del: "distinct (map key rows) \<Longrightarrow> row_get key k rows = Some b \<Longrightarrow>
      totals (row_del key k rows) = change (Some b) None (totals rows)"
begin

lemma write_total:
  "distinct (map key rows) \<Longrightarrow>
     totals (row_write key r rows) = change (row_get key (key r) rows) (Some r) (totals rows)"
  by (cases "row_get key (key r) rows") (simp_all add: row_write_def add put)

lemma write_distinct: "distinct (map key rows) \<Longrightarrow> distinct (map key (row_write key r rows))"
  by (auto simp: row_write_def row_get_None)

fun cached :: "('r, 'k) row_op list \<Rightarrow> 'r list \<times> 'c \<Rightarrow> 'r list \<times> 'c" where
  "cached [] st = st"
| "cached (Write r # ops) (rows, c) =
     cached ops (row_write key r rows, change (row_get key (key r) rows) (Some r) c)"
| "cached (Remove k # ops) (rows, c) =
     cached ops (row_del key k rows,
       case row_get key k rows of None \<Rightarrow> c | Some b \<Rightarrow> change (Some b) None c)"

lemma remove_absent: "row_get key k rows = None \<Longrightarrow> row_del key k rows = rows"
  by (auto simp: row_get_None row_del_def filter_id_conv)

text \<open>However writes and removals are mixed, the cache stays what recomputing would give.\<close>

lemma cached_sound:
  "distinct (map key rows) \<Longrightarrow> cached ops (rows, totals rows) = (rows', c) \<Longrightarrow> c = totals rows'"
proof (induction ops arbitrary: rows)
  case (Cons op ops)
  show ?case
  proof (cases op)
    case (Write r)
    then show ?thesis
      using Cons.prems Cons.IH [OF write_distinct [OF Cons.prems(1), of r]] by (simp add: write_total)
  next
    case (Remove k)
    then show ?thesis
      using Cons.prems Cons.IH [OF row_del_distinct [OF Cons.prems(1), of k]]
      by (cases "row_get key k rows") (simp_all add: del remove_absent)
  qed
qed simp

end

lemma sum_row_put:
  "distinct (map key rows) \<Longrightarrow> row_get key (key r) rows = Some b \<Longrightarrow>
     sum_list (map g (row_put key r rows)) = sum_list (map g rows) - g b + (g r :: rat)"
proof (induction rows)
  case (Cons x rows)
  show ?case
  proof (cases "key x = key r")
    case True
    with Cons.prems have "key r \<notin> key ` set rows" by auto
    then have "row_put key r rows = rows" by (rule row_put_absent)
    with True Cons.prems show ?thesis by (simp add: row_get_def row_put_def)
  next
    case False
    with Cons show ?thesis by (simp add: row_get_def row_put_def)
  qed
qed (simp add: row_get_def)

lemma sum_row_del:
  "distinct (map key rows) \<Longrightarrow> row_get key k rows = Some b \<Longrightarrow>
     sum_list (map g (row_del key k rows)) = sum_list (map g rows) - (g b :: rat)"
proof (induction rows)
  case (Cons x rows)
  show ?case
  proof (cases "key x = k")
    case True
    with Cons.prems have "k \<notin> key ` set rows" by auto
    then have "row_del key k rows = rows" by (auto simp: row_del_def filter_id_conv)
    with True Cons.prems show ?thesis by (simp add: row_get_def row_del_def)
  next
    case False
    with Cons show ?thesis by (simp add: row_get_def row_del_def)
  qed
qed (simp add: row_get_def)

lemma measure_in_sum:
  "measure_in o' f ls = sum_list (map (\<lambda>l. if cost_set l = o' then f l else 0) ls)"
  by (induction ls) (auto simp: measure_in_def)

lemma measure_in_change:
  "measure_in o' f (ls @ [l]) = measure_in o' f ls + signed o' f None (Some l)"
  "distinct (map line_id ls) \<Longrightarrow> row_get line_id (line_id l) ls = Some b \<Longrightarrow>
     measure_in o' f (row_put line_id l ls) = measure_in o' f ls + signed o' f (Some b) (Some l)"
  "distinct (map line_id ls) \<Longrightarrow> row_get line_id k ls = Some b \<Longrightarrow>
     measure_in o' f (row_del line_id k ls) = measure_in o' f ls + signed o' f (Some b) None"
  by (simp_all add: measure_in_sum signed_def sum_row_put sum_row_del)

lemma apply_change_adds:
  "apply_change o' b a s = \<lparr>sum_cost = sum_cost s + signed o' total_cost b a,
     sum_rev = sum_rev s + signed o' total_rev b a, sum_hours = sum_hours s + signed o' line_hours b a\<rparr>"
  by (cases s) (simp add: apply_change_def Let_def)

interpretation summaries: ledger "totals_of o'" "apply_change o'" line_id for o'
  by unfold_locales (simp_all add: totals_of_def apply_change_adds measure_in_change)

section \<open>Checks of a save\<close>

text \<open>A DecimalField's validators: at most \<open>places\<close> decimals and \<open>digits\<close> digits in all.\<close>

definition decimal_fits :: "nat \<Rightarrow> nat \<Rightarrow> rat \<Rightarrow> bool" where
  "decimal_fits digits places x \<longleftrightarrow>
     of_int \<lfloor>x * 10 ^ places\<rfloor> = x * 10 ^ places \<and> \<bar>x\<bar> < 10 ^ (digits - places)"

definition clean_actual_time_pay_item :: "db \<Rightarrow> cost_line \<Rightarrow> unit res" where
  "clean_actual_time_pay_item s l =
     (case Option.bind (line_job_id s l) (leave_type_of_job s) of
        Some t \<Rightarrow>
          if surface_for (lt_code t) = XeroComputed
          then requireR (xero_pay_item l = None)
                 (Validation ''paid by Xero's own calculation: must not name a Xero pay item'')
          else requireR (line_pay_item s l \<noteq> None) (Validation ''must have xero_pay_item set'')
      | None \<Rightarrow> requireR (line_pay_item s l \<noteq> None) (Validation ''must have xero_pay_item set''))"

definition line_clean :: "db \<Rightarrow> cost_line \<Rightarrow> unit res" where
  "line_clean s l =
     bindR (if is_actual_time s l then clean_actual_time_pay_item s l else Inr ()) (\<lambda>_.
     bindR (requireR (is_actual_time s l \<longrightarrow> line_staff l \<noteq> None)
              (Validation ''Actual time entries must have staff set.'')) (\<lambda>_.
     bindR (requireR (is_actual_time s l \<longrightarrow> entry_seq l \<noteq> None)
              (Validation ''Actual time entries must have entry_seq set.'')) (\<lambda>_.
     bindR (requireR (kind l = Time \<longrightarrow> labour_subtype l \<noteq> None)
              (Validation ''Time lines must have labour_subtype set.'')) (\<lambda>_.
     bindR (requireR (kind l \<noteq> Time \<longrightarrow> labour_subtype l = None)
              (Validation ''Only time lines may have labour_subtype set.'')) (\<lambda>_.
     bindR (validate_costline_meta (line_meta l) (kind l)) (\<lambda>_.
     validate_costline_ext_refs (ext_refs l)))))))"

definition seq_taken :: "db \<Rightarrow> cost_line \<Rightarrow> bool" where
  "seq_taken s l \<longleftrightarrow> kind l = Time \<and> line_staff l \<noteq> None \<and> entry_seq l \<noteq> None \<and>
     list_ex (\<lambda>x. line_id x \<noteq> line_id l \<and> kind x = Time \<and> line_staff x = line_staff l
       \<and> accounting_date x = accounting_date l \<and> entry_seq x = entry_seq l) (cost_lines s)"

definition full_clean :: "db \<Rightarrow> cost_line \<Rightarrow> unit res" where
  "full_clean s l =
     bindR (requireR (decimal_fits 10 3 (quantity l) \<and> decimal_fits 10 2 (unit_cost l)
         \<and> decimal_fits 10 2 (unit_rev l) \<and> (case desc l of None \<Rightarrow> True | Some d \<Rightarrow> length d \<le> 255))
         (Validation ''field'')) (\<lambda>_.
     bindR (line_clean s l) (\<lambda>_.
     bindR (requireR (\<not> seq_taken s l) (Validation ''unique_time_entry_staff_day_seq'')) (\<lambda>_.
     bindR (requireR (line_staff l = None \<longleftrightarrow> entry_seq l = None)
              (Validation ''costline_staff_entry_seq_pair'')) (\<lambda>_.
     requireR (desc l \<noteq> Some []) (Validation ''desc_not_blank'')))))"

definition save_checks :: "db \<Rightarrow> cost_line \<Rightarrow> unit res" where
  "save_checks s l =
     bindR (line_job s l) (\<lambda>job.
       if shop_job s job \<and> unit_rev l \<noteq> 0
       then Inl (Validation ''Shop jobs cannot have revenue.'')
       else if shop_job s job \<and> kind l = Time \<and> truthy (meta_get (line_meta l) ''is_billable'')
       then Inl (Validation ''Shop job time entries cannot be billable.'')
       else full_clean s l)"

section \<open>Numbering a day's entries\<close>

definition sequence_group_changed :: "db \<Rightarrow> cost_line \<Rightarrow> bool" where
  "sequence_group_changed s l =
     (case get_line s (line_id l) of None \<Rightarrow> True
      | Some previous \<Rightarrow> line_staff previous \<noteq> line_staff l \<or> accounting_date previous \<noteq> accounting_date l)"

definition day_seqs :: "db \<Rightarrow> cost_line \<Rightarrow> int list" where
  "day_seqs s l = List.map_filter entry_seq
     (filter (\<lambda>x. kind x = Time \<and> line_staff x = line_staff l \<and> accounting_date x = accounting_date l
        \<and> line_id x \<noteq> line_id l) (cost_lines s))"

text \<open>\<open>entry_seq\<close> is a positive integer, so the largest of none is \<open>previous_max or 0\<close>.\<close>

definition assign_entry_seq :: "db \<Rightarrow> cost_line \<Rightarrow> cost_line" where
  "assign_entry_seq s l =
     (if \<not> is_actual_time s l then l
      else if line_staff l = None then l
      else if \<not> (entry_seq l = None \<or> sequence_group_changed s l) then l
      else l\<lparr>entry_seq := Some (foldr max (day_seqs s l) 0 + 1)\<rparr>)"

section \<open>Saving and deleting a line\<close>

definition write_line :: "cost_line \<Rightarrow> db \<Rightarrow> db" where
  "write_line l s = s\<lparr>cost_lines := row_write line_id l (cost_lines s)\<rparr>"

definition save_line :: "cost_line \<Rightarrow> (db, cost_line) tx" where
  "save_line l s =
     (let was = get_line s (line_id l); l' = assign_entry_seq s l
      in case save_checks s l' of Inl e \<Rightarrow> Inl e
         | Inr _ \<Rightarrow> Inr (l', record_line_change was (Some l') (write_line l' s)))"

text \<open>A save of \<open>approved\<close> alone: no figure changes, the job is touched.\<close>

definition save_approved :: "cost_line \<Rightarrow> (db, unit) tx" where
  "save_approved l s =
     (case get_line s (line_id l) of
        None \<Rightarrow> Inl (DoesNotExist ''CostLine'')
      | Some stored \<Rightarrow> Inr ((), touch_costing_jobs (case line_job_id s l of None \<Rightarrow> [] | Some j \<Rightarrow> [j])
          (s\<lparr>cost_lines := row_put line_id (stored\<lparr>approved := approved l\<rparr>) (cost_lines s)\<rparr>)))"

text \<open>The row of a leave day protects its line (\<open>on_delete=PROTECT\<close>).\<close>

definition delete_line :: "cost_line \<Rightarrow> (db, unit) tx" where
  "delete_line l s =
     (let was = get_line s (line_id l)
      in if line_id l \<in> ld_line ` set (leave_days s) then Inl (Integrity ''ProtectedError'')
         else Inr ((), record_line_change was None (s\<lparr>cost_lines := row_del line_id (line_id l) (cost_lines s)\<rparr>)))"

definition summary_is_current :: "db \<Rightarrow> uuid \<Rightarrow> bool res" where
  "summary_is_current s i =
     (case get_cost_set s i of None \<Rightarrow> Inl (DoesNotExist ''CostSet'')
      | Some c \<Rightarrow> Inr (summary c = totals_of i (cost_lines s)))"

definition recalculate_summary :: "uuid \<Rightarrow> (db, bool) tx" where
  "recalculate_summary i s =
     (case get_cost_set s i of None \<Rightarrow> Inl (DoesNotExist ''CostSet'')
      | Some c \<Rightarrow>
          if summary c = totals_of i (cost_lines s) then Inr (False, s)
          else Inr (True, touch_costing_jobs [cs_job c]
            (s\<lparr>cost_sets := row_put cs_id (c\<lparr>summary := totals_of i (cost_lines s)\<rparr>) (cost_sets s)\<rparr>)))"

section \<open>The ledger invariant\<close>

definition ledger_ok :: "db \<Rightarrow> bool" where
  "ledger_ok s \<longleftrightarrow> distinct (map line_id (cost_lines s)) \<and> distinct (map cs_id (cost_sets s))
     \<and> (\<forall>l \<in> set (cost_lines s). cost_set l \<in> cs_id ` set (cost_sets s))
     \<and> (\<forall>c \<in> set (cost_sets s). cs_id c < next_id s)
     \<and> (\<forall>c \<in> set (cost_sets s). summary c = totals_of (cs_id c) (cost_lines s))"

lemma ledger_okI:
  assumes "distinct (map line_id (cost_lines s))" "distinct (map cs_id (cost_sets s))"
    and "\<And>l. l \<in> set (cost_lines s) \<Longrightarrow> cost_set l \<in> cs_id ` set (cost_sets s)"
    and "\<And>c. c \<in> set (cost_sets s) \<Longrightarrow> cs_id c < next_id s"
    and "\<And>c. c \<in> set (cost_sets s) \<Longrightarrow> summary c = totals_of (cs_id c) (cost_lines s)"
  shows "ledger_ok s"
  using assms by (auto simp: ledger_ok_def)

lemma touch_costing_jobs_frame [simp]:
  "cost_lines (touch_costing_jobs ids s) = cost_lines s"
  "cost_sets (touch_costing_jobs ids s) = cost_sets s"
  "attendance_days (touch_costing_jobs ids s) = attendance_days s"
  "events (touch_costing_jobs ids s) = events s"
  "company (touch_costing_jobs ids s) = company s"
  "next_id (touch_costing_jobs ids s) = next_id s"
  "now (touch_costing_jobs ids s) = now s"
  "staffs (touch_costing_jobs ids s) = staffs s"
  "pay_items (touch_costing_jobs ids s) = pay_items s"
  "leave_types (touch_costing_jobs ids s) = leave_types s"
  "labour_rates (touch_costing_jobs ids s) = labour_rates s"
  "labour_subtypes (touch_costing_jobs ids s) = labour_subtypes s"
  "payroll_terms (touch_costing_jobs ids s) = payroll_terms s"
  by (simp_all add: touch_costing_jobs_def)

lemma apply_change_other:
  "o' \<notin> set (owners b a) \<Longrightarrow> apply_change o' b a c = c"
  by (cases c; cases b; cases a) (auto simp: apply_change_adds signed_def owners_def List.map_filter_simps)

lemma record_line_change_sets:
  "cost_sets (record_line_change b a s)
     = map (\<lambda>c. c\<lparr>summary := apply_change (cs_id c) b a (summary c)\<rparr>) (cost_sets s)"
  by (auto simp: record_line_change_def Let_def apply_change_other)

lemma record_line_change_frame [simp]:
  "cost_lines (record_line_change b a s) = cost_lines s"
  "attendance_days (record_line_change b a s) = attendance_days s"
  "events (record_line_change b a s) = events s"
  "company (record_line_change b a s) = company s"
  "next_id (record_line_change b a s) = next_id s"
  "now (record_line_change b a s) = now s"
  "staffs (record_line_change b a s) = staffs s"
  "pay_items (record_line_change b a s) = pay_items s"
  "leave_types (record_line_change b a s) = leave_types s"
  "labour_rates (record_line_change b a s) = labour_rates s"
  "labour_subtypes (record_line_change b a s) = labour_subtypes s"
  "payroll_terms (record_line_change b a s) = payroll_terms s"
  by (simp_all add: record_line_change_def Let_def)

lemma record_keeps_ledger:
  assumes ok: "ledger_ok s"
    and lines: "distinct (map line_id ls)" "\<And>l. l \<in> set ls \<Longrightarrow> cost_set l \<in> cs_id ` set (cost_sets s)"
    and totals: "\<And>o'. totals_of o' ls = apply_change o' b a (totals_of o' (cost_lines s))"
  shows "ledger_ok (record_line_change b a (s\<lparr>cost_lines := ls\<rparr>))"
  using ok by (intro ledger_okI)
    (auto simp: record_line_change_sets comp_def lines totals ledger_ok_def image_image
      dest!: lines(2))

lemma assign_entry_seq_frame [simp]:
  "line_id (assign_entry_seq s l) = line_id l" "cost_set (assign_entry_seq s l) = cost_set l"
  "kind (assign_entry_seq s l) = kind l" "quantity (assign_entry_seq s l) = quantity l"
  "unit_cost (assign_entry_seq s l) = unit_cost l" "unit_rev (assign_entry_seq s l) = unit_rev l"
  "line_meta (assign_entry_seq s l) = line_meta l" "approved (assign_entry_seq s l) = approved l"
  "accounting_date (assign_entry_seq s l) = accounting_date l"
  "line_staff (assign_entry_seq s l) = line_staff l" "managed_by (assign_entry_seq s l) = managed_by l"
  "xero_pay_item (assign_entry_seq s l) = xero_pay_item l" "desc (assign_entry_seq s l) = desc l"
  "labour_subtype (assign_entry_seq s l) = labour_subtype l" "ext_refs (assign_entry_seq s l) = ext_refs l"
  by (simp_all add: assign_entry_seq_def)

lemma save_checks_cost_set:
  "save_checks s l = Inr u \<Longrightarrow> cost_set l \<in> cs_id ` set (cost_sets s)"
  by (auto simp: save_checks_def line_job_def bindR_eq_Inr get_cost_set_def dest!: row_get_Some
      intro: rev_image_eqI)

lemma row_write_in: "x \<in> set (row_write key r rows) \<Longrightarrow> x = r \<or> x \<in> set rows"
  by (auto simp: row_write_def dest: row_put_in split: if_splits)

lemma save_line_Inr:
  "save_line l s = Inr (l', s') \<longleftrightarrow> l' = assign_entry_seq s l \<and> save_checks s l' = Inr ()
     \<and> s' = record_line_change (get_line s (line_id l)) (Some l') (write_line l' s)"
  by (auto simp: save_line_def Let_def split: sum.splits)

lemma save_line_keeps_ledger: "keeps ledger_ok (save_line l)"
proof (rule keepsI)
  fix s l' s'
  assume ok: "ledger_ok s" and run: "save_line l s = Inr (l', s')"
  let ?ls = "row_write line_id l' (cost_lines s)"
  have l': "l' = assign_entry_seq s l" "save_checks s l' = Inr ()"
    and s': "s' = record_line_change (get_line s (line_id l')) (Some l') (s\<lparr>cost_lines := ?ls\<rparr>)"
    using run by (auto simp: save_line_Inr write_line_def)
  have d: "distinct (map line_id (cost_lines s))" using ok by (simp add: ledger_ok_def)
  show "ledger_ok s'"
    unfolding s' get_line_def
  proof (rule record_keeps_ledger [OF ok])
    show "distinct (map line_id ?ls)" by (rule summaries.write_distinct [OF d])
    show "cost_set x \<in> cs_id ` set (cost_sets s)" if "x \<in> set ?ls" for x
      using row_write_in [OF that] save_checks_cost_set [OF l'(2)] ok by (auto simp: ledger_ok_def)
    show "totals_of o' ?ls = apply_change o' (row_get line_id (line_id l') (cost_lines s)) (Some l')
        (totals_of o' (cost_lines s))" for o'
      by (rule summaries.write_total [OF d])
  qed
qed

lemma delete_line_keeps_ledger: "keeps ledger_ok (delete_line l)"
proof (rule keepsI)
  fix s u s'
  assume ok: "ledger_ok s" and run: "delete_line l s = Inr (u, s')"
  let ?ls = "row_del line_id (line_id l) (cost_lines s)"
  have s': "s' = record_line_change (row_get line_id (line_id l) (cost_lines s)) None (s\<lparr>cost_lines := ?ls\<rparr>)"
    using run by (auto simp: delete_line_def Let_def get_line_def split: if_splits)
  have d: "distinct (map line_id (cost_lines s))" using ok by (simp add: ledger_ok_def)
  show "ledger_ok s'"
    unfolding s'
  proof (rule record_keeps_ledger [OF ok])
    show "distinct (map line_id ?ls)" by (rule row_del_distinct [OF d])
    show "cost_set x \<in> cs_id ` set (cost_sets s)" if "x \<in> set ?ls" for x
      using that ok by (auto simp: row_del_in ledger_ok_def)
    show "totals_of o' ?ls = apply_change o' (row_get line_id (line_id l) (cost_lines s)) None
        (totals_of o' (cost_lines s))" for o'
    proof (cases "row_get line_id (line_id l) (cost_lines s)")
      case None
      then show ?thesis by (simp add: summaries.remove_absent apply_change_other owners_def List.map_filter_simps)
    next
      case (Some b)
      then show ?thesis by (simp add: summaries.del [OF d])
    qed
  qed
qed

lemma totals_approved:
  assumes "distinct (map line_id ls)" "row_get line_id (line_id l) ls = Some b"
    and "l = b\<lparr>approved := a\<rparr>"
  shows "totals_of o' (row_put line_id l ls) = totals_of o' ls"
proof -
  have "signed o' f (Some b) (Some l) = 0" if "f b = f l" for f :: "cost_line \<Rightarrow> rat"
    using that assms(3) by (simp add: signed_def)
  then show ?thesis
    using summaries.put [OF assms(1,2)] assms(3)
    by (simp add: apply_change_adds total_cost_def total_rev_def line_hours_def)
qed

lemma save_approved_keeps_ledger: "keeps ledger_ok (save_approved l)"
proof (rule keepsI)
  fix s u s'
  assume ok: "ledger_ok s" and run: "save_approved l s = Inr (u, s')"
  then obtain b where b: "row_get line_id (line_id l) (cost_lines s) = Some b"
    and cl: "cost_lines s' = row_put line_id (b\<lparr>approved := approved l\<rparr>) (cost_lines s)"
    and cs: "cost_sets s' = cost_sets s" and ni: "next_id s' = next_id s"
    by (auto simp: save_approved_def get_line_def split: option.splits)
  have d: "distinct (map line_id (cost_lines s))" using ok by (simp add: ledger_ok_def)
  have idb: "line_id b = line_id l" "b \<in> set (cost_lines s)" using row_get_Some [OF b] by auto
  have "totals_of o' (cost_lines s') = totals_of o' (cost_lines s)" for o'
    unfolding cl by (rule totals_approved [OF d, of _ b "approved l"]) (use b idb in auto)
  then show "ledger_ok s'"
    using ok idb by (intro ledger_okI) (auto simp: cl cs ni ledger_ok_def dest!: row_put_in)
qed

lemmas costing_keeps_ledger [keeps_intros] =
  save_line_keeps_ledger delete_line_keeps_ledger save_approved_keeps_ledger

section \<open>What a history of writes leaves\<close>

datatype costing_step = SaveLine cost_line | DeleteLine cost_line | ApproveLine cost_line

fun costing_call :: "costing_step \<Rightarrow> (db, unit) tx" where
  "costing_call (SaveLine l) = seqT (save_line l) (ret ())"
| "costing_call (DeleteLine l) = delete_line l"
| "costing_call (ApproveLine l) = save_approved l"

lemma costing_call_keeps: "keeps ledger_ok (costing_call c)"
  by (cases c) (auto intro: keeps_intros)

lemma ledger_current:
  "ledger_ok s \<Longrightarrow> get_cost_set s i = Some c \<Longrightarrow> summary c = totals_of i (cost_lines s)"
  by (auto simp: ledger_ok_def get_cost_set_def dest!: row_get_Some)

text \<open>C15: However saves, approvals and deletions of cost lines are mixed, lines moving between
  cost sets included, every cost set's cached summary stays what its lines add up to: the
  check answers yes and a rebuild finds nothing to write.\<close>

theorem summaries_stay_current:
  assumes "ledger_ok s" and "forT calls costing_call s = Inr ((), s')"
    and "get_cost_set s' i = Some c"
  shows "summary_is_current s' i = Inr True \<and> recalculate_summary i s' = Inr (False, s')"
proof -
  have "ledger_ok s'"
    using assms keepsD [OF keeps_forT [of calls ledger_ok costing_call, OF costing_call_keeps]] by blast
  then have "summary c = totals_of i (cost_lines s')" using assms(3) by (rule ledger_current)
  then show ?thesis using assms(3) by (simp add: summary_is_current_def recalculate_summary_def)
qed

lemma sample_ledger_ok: "ledger_ok sample_db"
  by (simp add: ledger_ok_def sample_defs totals_of_def measure_in_def)

definition sample_saved :: db where
  "sample_saved = (case save_line sample_line sample_db of Inr (_, s) \<Rightarrow> s | Inl _ \<Rightarrow> sample_db)"

lemma foldr_max_upper: "(m :: int) \<in> set ms \<Longrightarrow> m \<le> foldr max ms 0"
  by (induction ms) (auto simp: le_max_iff_disj)

lemma foldr_max_nonneg: "(0 :: int) \<le> foldr max ms 0"
  by (induction ms) (auto simp: le_max_iff_disj)

lemma day_seqs_in:
  "x \<in> set (cost_lines s) \<Longrightarrow> kind x = Time \<Longrightarrow> line_staff x = line_staff l
    \<Longrightarrow> accounting_date x = accounting_date l \<Longrightarrow> line_id x \<noteq> line_id l \<Longrightarrow> entry_seq x = Some m
    \<Longrightarrow> m \<in> set (day_seqs s l)"
  by (force simp: day_seqs_def List.map_filter_def)

text \<open>C32: An actual time entry saved as new, or moved to another person or date, is numbered
  after every other entry of its day, so the uniqueness constraint on the numbers can never
  refuse it.\<close>

theorem new_entry_is_last_of_its_day:
  assumes "is_actual_time s l" and "line_staff l \<noteq> None"
    and "entry_seq l = None \<or> sequence_group_changed s l"
  shows "\<not> seq_taken s (assign_entry_seq s l) \<and>
    (\<exists>n > 0. entry_seq (assign_entry_seq s l) = Some n \<and>
      (\<forall>x \<in> set (cost_lines s). kind x = Time \<and> line_staff x = line_staff l
         \<and> accounting_date x = accounting_date l \<and> line_id x \<noteq> line_id l \<longrightarrow>
         (case entry_seq x of None \<Rightarrow> True | Some m \<Rightarrow> m < n)))"
proof -
  let ?n = "foldr max (day_seqs s l) 0 + 1"
  have seq: "entry_seq (assign_entry_seq s l) = Some ?n" using assms by (auto simp: assign_entry_seq_def)
  have less: "m < ?n" if "x \<in> set (cost_lines s)" "kind x = Time" "line_staff x = line_staff l"
    "accounting_date x = accounting_date l" "line_id x \<noteq> line_id l" "entry_seq x = Some m" for x m
    using foldr_max_upper [OF day_seqs_in [OF that]] by simp
  have "\<not> seq_taken s (assign_entry_seq s l)"
    by (auto simp: seq_taken_def list_ex_iff seq dest: less)
  moreover have "0 < ?n" using foldr_max_nonneg [of "day_seqs s l"] by simp
  ultimately show ?thesis
    using seq less by (intro conjI exI [of _ ?n]) (auto split: option.splits)
qed

lemma new_entry_is_last_of_its_day_witness:
  "\<not> seq_taken sample_saved (assign_entry_seq sample_saved (sample_line\<lparr>line_id := 501\<rparr>))"
proof -
  let ?l = "sample_line\<lparr>line_id := 501\<rparr>"
  have "is_actual_time sample_saved ?l" "line_staff ?l \<noteq> None"
    "entry_seq ?l = None \<or> sequence_group_changed sample_saved ?l" by code_simp+
  from new_entry_is_last_of_its_day [OF this] show ?thesis by blast
qed

lemma decimal_fits_iff:
  assumes "places \<le> digits"
  shows "decimal_fits digits places x \<longleftrightarrow> (\<exists>n :: int. x = of_int n / 10 ^ places) \<and> \<bar>x\<bar> < 10 ^ (digits - places)"
proof -
  have "of_int \<lfloor>x * 10 ^ places\<rfloor> = x * 10 ^ places \<longleftrightarrow> (\<exists>n :: int. x = of_int n / 10 ^ places)"
    by (metis floor_of_int nonzero_eq_divide_eq power_eq_0_iff zero_neq_numeral)
  then show ?thesis by (simp add: decimal_fits_def)
qed

lemma run_schema_validation_iff:
  "run_schema_validation m schema label = Inr () \<longleftrightarrow> (\<forall>(k, v) \<in> set m. \<exists>t. map_of schema k = Some t \<and> field_ok t v)"
  by (force simp: run_schema_validation_def requireR_eq_Inr list_all_iff split: option.splits)

lemma not_taken_iff:
  "\<not> seq_taken s l \<longleftrightarrow> (kind l = Time \<and> line_staff l \<noteq> None \<and> entry_seq l \<noteq> None \<longrightarrow>
     (\<forall>x \<in> set (cost_lines s). kind x = Time \<and> line_id x \<noteq> line_id l \<and> line_staff x = line_staff l
        \<and> accounting_date x = accounting_date l \<longrightarrow> entry_seq x \<noteq> entry_seq l))"
  by (auto simp: seq_taken_def list_ex_iff)

lemma pay_item_clean_iff:
  assumes "line_job s l = Inr j"
  shows "clean_actual_time_pay_item s l = Inr () \<longleftrightarrow>
    (if map_option lt_code (leave_type_of_job s (job_id j)) = Some PublicHoliday then xero_pay_item l = None
     else line_pay_item s l \<noteq> None)"
proof -
  have "line_job_id s l = Some (job_id j)"
    using assms by (auto simp: line_job_def line_job_id_def bindR_eq_Inr get_job_def dest: row_get_Some)
  then show ?thesis
    by (cases "leave_type_of_job s (job_id j)") (simp_all add: clean_actual_time_pay_item_def leave_surface requireR_eq_Inr)
qed

lemma save_checks_iff:
  "save_checks s l = Inr () \<longleftrightarrow> (\<exists>j. line_job s l = Inr j
     \<and> \<not> (shop_job s j \<and> unit_rev l \<noteq> 0)
     \<and> \<not> (shop_job s j \<and> kind l = Time \<and> truthy (meta_get (line_meta l) ''is_billable''))
     \<and> full_clean s l = Inr ())"
  by (auto simp: save_checks_def bindR_eq_Inr)

lemma full_clean_iff:
  "full_clean s l = Inr () \<longleftrightarrow>
     (\<exists>q c r :: int. quantity l = of_int q / 1000 \<and> unit_cost l = of_int c / 100 \<and> unit_rev l = of_int r / 100)
     \<and> \<bar>quantity l\<bar> < 10 ^ 7 \<and> \<bar>unit_cost l\<bar> < 10 ^ 8 \<and> \<bar>unit_rev l\<bar> < 10 ^ 8
     \<and> (\<forall>d. desc l = Some d \<longrightarrow> d \<noteq> [] \<and> length d \<le> 255)
     \<and> line_clean s l = Inr () \<and> \<not> seq_taken s l \<and> (line_staff l = None \<longleftrightarrow> entry_seq l = None)"
  by (cases "desc l") (auto simp: full_clean_def bindR_eq_Inr decimal_fits_iff)

lemma line_clean_iff:
  "line_clean s l = Inr () \<longleftrightarrow> (is_actual_time s l \<longrightarrow> clean_actual_time_pay_item s l = Inr ())
     \<and> (is_actual_time s l \<longrightarrow> line_staff l \<noteq> None) \<and> (is_actual_time s l \<longrightarrow> entry_seq l \<noteq> None)
     \<and> (kind l = Time \<longleftrightarrow> labour_subtype l \<noteq> None)
     \<and> (\<forall>(k, v) \<in> set (line_meta l). \<exists>t. map_of (costline_meta_schemas (kind l)) k = Some t \<and> field_ok t v)
     \<and> (\<forall>(k, v) \<in> set (ext_refs l). \<exists>t. map_of costline_extrefs_schema k = Some t \<and> field_ok t v)"
  by (auto simp: line_clean_def bindR_eq_Inr validate_costline_meta_def validate_costline_ext_refs_def run_schema_validation_iff)

lemma save_line_stored:
  assumes "save_line l s = Inr (l', s')"
  shows "get_line s' (line_id l') = Some l'"
proof -
  have lines: "cost_lines s' = row_write line_id l' (cost_lines s)"
    using assms unfolding save_line_Inr by (simp add: write_line_def)
  show ?thesis
  proof (cases "row_get line_id (line_id l') (cost_lines s)")
    case None
    then show ?thesis using lines by (simp add: get_line_def row_write_def row_get_append row_get_def [of _ _ "[l']"])
  next
    case (Some x)
    then have "line_id l' \<in> line_id ` set (cost_lines s)" by (metis image_eqI row_get_Some)
    with Some lines show ?thesis by (simp add: get_line_def row_write_def row_get_put_same)
  qed
qed



lemma summaries_stay_current_witness:
  "summary_is_current sample_saved 20 = Inr True"
proof -
  have "forT [SaveLine sample_line] costing_call sample_db = Inr ((), sample_saved)"
    "get_cost_set sample_saved 20 = Some ((sample_set 20 10)\<lparr>summary := \<lparr>sum_cost = 72, sum_rev = 220, sum_hours = 2\<rparr>\<rparr>)"
    by code_simp+
  from summaries_stay_current [OF sample_ledger_ok this] show ?thesis by blast
qed

end
