(* ===== verification/Hour_Categories.thy ===== *)
theory Hour_Categories
  imports Pricing Costing
begin

text \<open>
  \<open>apps/timesheet/services/hour_categories.py\<close>: how the daily and weekly screens and payroll
  split a set of time lines, by customer, by pay and by the surface each hour reaches
  payroll through. \<open>HourCategories\<close> is the record \<open>categories\<close>; the loop of \<open>categorise\<close>
  adds one line at a time and stops at the first line it cannot classify.
\<close>

section \<open>The configured categories\<close>

record leave_catalogue =
  code_by_pay_item :: "(uuid \<times> leave_code) list"
  code_by_job :: "(uuid \<times> leave_code) list"

text \<open>A later row of a dict comprehension replaces an earlier one with its key.\<close>

definition load_catalogue :: "db \<Rightarrow> leave_catalogue" where
  "load_catalogue s =
     (let rows = filter (\<lambda>t. lt_job t \<noteq> None) (leave_types s);
          item_of = (\<lambda>t. Option.bind (Option.bind (lt_job t) (\<lambda>j. row_get job_id j (jobs s))) default_xero_pay_item)
      in \<lparr>code_by_pay_item = rev (List.map_filter (\<lambda>t.
             if surface_for (lt_code t) = LeaveApi then map_option (\<lambda>i. (i, lt_code t)) (item_of t) else None) rows),
          code_by_job = rev (List.map_filter (\<lambda>t.
             if surface_for (lt_code t) = XeroComputed then map_option (\<lambda>j. (j, lt_code t)) (lt_job t) else None) rows)\<rparr>)"

definition code_for :: "db \<Rightarrow> leave_catalogue \<Rightarrow> cost_line \<Rightarrow> leave_code option res" where
  "code_for s c l =
     (case Option.bind (line_job_id s l) (map_of (code_by_job c)) of
        Some code \<Rightarrow> Inr (Some code)
      | None \<Rightarrow>
          if xero_pay_item l = None then Inl (ValueErr ''Time line has no xero_pay_item'')
          else case line_pay_item s l of
              None \<Rightarrow> Inr None
            | Some item \<Rightarrow>
                if \<not> uses_leave_api item then Inr None
                else (case map_of (code_by_pay_item c) (pi_id item) of
                        None \<Rightarrow> Inl (ValueErr ''Xero leave type is not mapped to a DocketWorks leave category'')
                      | Some code \<Rightarrow> Inr (Some code)))"

definition posting_surface_of :: "db \<Rightarrow> leave_catalogue \<Rightarrow> cost_line \<Rightarrow> posting_surface res" where
  "posting_surface_of s c l = bindR (code_for s c l)
     (\<lambda>code. Inr (case code of None \<Rightarrow> TimesheetApi | Some x \<Rightarrow> surface_for x))"

section \<open>What a line carries\<close>

definition required_meta :: "cost_line \<Rightarrow> string \<Rightarrow> json res" where
  "required_meta l key =
     (if \<not> has_key (line_meta l) key then Inl (ValueErr ''Time line has no such meta key'')
      else Inr (meta_get (line_meta l) key))"

definition bills_customer :: "cost_line \<Rightarrow> bool res" where
  "bills_customer l = bindR (required_meta l ''is_billable'') (\<lambda>v. Inr (truthy v))"

text \<open>\<open>Decimal\<close> would also take the text of a NaN or infinity; as a multiplier it is refused here.\<close>

definition line_wage_multiplier :: "cost_line \<Rightarrow> rat res" where
  "line_wage_multiplier l = bindR (required_meta l ''wage_rate_multiplier'') (\<lambda>v.
     case json_decimal v of Finite x \<Rightarrow> Inr x | _ \<Rightarrow> Inl (DecimalInvalid ''ConversionSyntax''))"

definition is_leave :: "db \<Rightarrow> leave_catalogue \<Rightarrow> cost_line \<Rightarrow> bool res" where
  "is_leave s c l = bindR (code_for s c l) (\<lambda>code. Inr (code \<noteq> None))"

definition scheduled_hours :: "db \<Rightarrow> staff_row \<Rightarrow> date \<Rightarrow> bool \<Rightarrow> rat res" where
  "scheduled_hours s st day weekend_enabled =
     (if \<not> weekend_enabled \<and> weekday day \<ge> 5 then Inr 0 else contracted_hours_on s st day)"

definition day_status :: "rat \<Rightarrow> rat \<Rightarrow> bool \<Rightarrow> string" where
  "day_status hours scheduled has_leave =
     (if has_leave then ''Leave''
      else if scheduled = 0 then if hours > 0 then ''Unscheduled'' else ''Off''
      else if hours = 0 then ''No Entry''
      else if hours \<ge> scheduled then ''Complete''
      else ''Partial'')"

section \<open>The split\<close>

record categories =
  c_billable :: rat
  c_non_billable :: rat
  c_billed :: rat
  c_unbilled :: rat
  c_overtime_1_5x :: rat
  c_overtime_2x :: rat
  c_sick_leave :: rat
  c_annual_leave :: rat
  c_bereavement_leave :: rat
  c_other_leave :: rat
  c_leave_api :: rat
  c_xero_computed :: rat

definition no_hours :: categories where
  "no_hours = \<lparr>c_billable = 0, c_non_billable = 0, c_billed = 0, c_unbilled = 0, c_overtime_1_5x = 0,
     c_overtime_2x = 0, c_sick_leave = 0, c_annual_leave = 0, c_bereavement_leave = 0, c_other_leave = 0,
     c_leave_api = 0, c_xero_computed = 0\<rparr>"

text \<open>\<open>COLUMN_BY_CODE\<close>.\<close>

fun add_to_column :: "leave_code \<Rightarrow> rat \<Rightarrow> categories \<Rightarrow> categories" where
  "add_to_column Sick h t = t\<lparr>c_sick_leave := c_sick_leave t + h\<rparr>"
| "add_to_column Annual h t = t\<lparr>c_annual_leave := c_annual_leave t + h\<rparr>"
| "add_to_column Bereavement h t = t\<lparr>c_bereavement_leave := c_bereavement_leave t + h\<rparr>"
| "add_to_column Unpaid h t = t\<lparr>c_other_leave := c_other_leave t + h\<rparr>"
| "add_to_column PublicHoliday h t = t\<lparr>c_other_leave := c_other_leave t + h\<rparr>"

definition categorise_line :: "db \<Rightarrow> leave_catalogue \<Rightarrow> cost_line \<Rightarrow> categories \<Rightarrow> categories res" where
  "categorise_line s c l t =
     (let h = quantity l in
      bindR (bills_customer l) (\<lambda>bills.
      let t1 = (if bills then t\<lparr>c_billable := c_billable t + h\<rparr> else t\<lparr>c_non_billable := c_non_billable t + h\<rparr>) in
      bindR (code_for s c l) (\<lambda>leave.
        case leave of
          Some code \<Rightarrow>
            (let t2 = add_to_column code h t1
             in Inr (if surface_for code = XeroComputed then t2\<lparr>c_xero_computed := c_xero_computed t2 + h\<rparr>
                     else t2\<lparr>c_leave_api := c_leave_api t2 + h\<rparr>))
        | None \<Rightarrow>
            bindR (line_wage_multiplier l) (\<lambda>m.
            let t2 = (if bills then t1\<lparr>c_billed := c_billed t1 + h\<rparr> else t1\<lparr>c_unbilled := c_unbilled t1 + h\<rparr>)
            in Inr (if m = 3 / 2 then t2\<lparr>c_overtime_1_5x := c_overtime_1_5x t2 + h\<rparr>
                    else if m = 2 then t2\<lparr>c_overtime_2x := c_overtime_2x t2 + h\<rparr> else t2)))))"

fun categorise_lines :: "db \<Rightarrow> leave_catalogue \<Rightarrow> cost_line list \<Rightarrow> categories \<Rightarrow> categories res" where
  "categorise_lines s c [] t = Inr t"
| "categorise_lines s c (l # ls) t = bindR (categorise_line s c l t) (categorise_lines s c ls)"

definition categorise :: "db \<Rightarrow> cost_line list \<Rightarrow> leave_catalogue option \<Rightarrow> categories res" where
  "categorise s ls c =
     categorise_lines s (case c of Some x \<Rightarrow> x | None \<Rightarrow> load_catalogue s)
       (filter (\<lambda>l. \<not> is_unpaid_time s l) ls) no_hours"

definition c_overtime :: "categories \<Rightarrow> rat" where
  "c_overtime t = c_overtime_1_5x t + c_overtime_2x t"

definition c_leave :: "categories \<Rightarrow> rat" where
  "c_leave t = c_sick_leave t + c_annual_leave t + c_bereavement_leave t + c_other_leave t"

definition c_total :: "categories \<Rightarrow> rat" where
  "c_total t = c_billable t + c_non_billable t"

definition c_timesheet :: "categories \<Rightarrow> rat" where
  "c_timesheet t = c_total t - c_leave_api t - c_xero_computed t"

section \<open>Facts\<close>

definition add_categories :: "categories \<Rightarrow> categories \<Rightarrow> categories" where
  "add_categories a b = \<lparr>c_billable = c_billable a + c_billable b, c_non_billable = c_non_billable a + c_non_billable b,
     c_billed = c_billed a + c_billed b, c_unbilled = c_unbilled a + c_unbilled b,
     c_overtime_1_5x = c_overtime_1_5x a + c_overtime_1_5x b, c_overtime_2x = c_overtime_2x a + c_overtime_2x b,
     c_sick_leave = c_sick_leave a + c_sick_leave b, c_annual_leave = c_annual_leave a + c_annual_leave b,
     c_bereavement_leave = c_bereavement_leave a + c_bereavement_leave b,
     c_other_leave = c_other_leave a + c_other_leave b, c_leave_api = c_leave_api a + c_leave_api b,
     c_xero_computed = c_xero_computed a + c_xero_computed b\<rparr>"

lemma add_categories_assoc: "add_categories (add_categories a b) d = add_categories a (add_categories b d)"
  by (simp add: add_categories_def)

lemma add_categories_none [simp]: "add_categories t no_hours = t" "add_categories no_hours t = t"
  by (simp_all add: add_categories_def no_hours_def)

text \<open>What one line adds depends on the line alone.\<close>

lemma add_to_column_split:
  "add_to_column code h t = add_categories t (add_to_column code h no_hours)"
  by (cases code) (simp_all add: add_categories_def no_hours_def)

lemma categorise_line_adds:
  "categorise_line s c l t = bindR (categorise_line s c l no_hours) (\<lambda>d. Inr (add_categories t d))"
proof (cases "bills_customer l")
  case (Inr bills)
  show ?thesis
  proof (cases "code_for s c l")
    case (Inr leave)
    show ?thesis
    proof (cases leave)
      case None
      then show ?thesis
        using Inr \<open>bills_customer l = Inr bills\<close>
        by (cases "line_wage_multiplier l"; simp add: categorise_line_def Let_def add_categories_def no_hours_def)
    next
      case (Some code)
      then show ?thesis
        using Inr \<open>bills_customer l = Inr bills\<close>
        by (cases code; simp add: categorise_line_def Let_def add_categories_def no_hours_def surface_for_def)
    qed
  qed (simp add: categorise_line_def Let_def Inr)
qed (simp add: categorise_line_def Let_def)

text \<open>What every split keeps true: each hour is in one customer column, reaches payroll by one
  of three routes, and leave in its columns is leave on its surfaces.\<close>

definition balanced :: "rat \<Rightarrow> categories \<Rightarrow> bool" where
  "balanced h t \<longleftrightarrow> c_total t = h \<and> c_leave t = c_leave_api t + c_xero_computed t
     \<and> c_billed t + c_unbilled t = c_timesheet t"

lemma balanced_add: "balanced g a \<Longrightarrow> balanced h b \<Longrightarrow> balanced (g + h) (add_categories a b)"
  by (simp add: balanced_def add_categories_def c_total_def c_leave_def c_timesheet_def)

lemma categorise_line_balanced_alone:
  assumes "categorise_line s c l no_hours = Inr d"
  shows "balanced (quantity l) d"
proof -
  obtain bills leave where steps: "bills_customer l = Inr bills" "code_for s c l = Inr leave"
    using assms by (auto simp: categorise_line_def Let_def bindR_eq_Inr)
  note defs = categorise_line_def Let_def no_hours_def balanced_def c_total_def c_leave_def c_timesheet_def surface_for_def
  show ?thesis
  proof (cases leave)
    case None
    with assms steps obtain m where "line_wage_multiplier l = Inr m"
      by (auto simp: categorise_line_def Let_def bindR_eq_Inr)
    with None steps assms
    have "d = (let t1 = (if bills then no_hours\<lparr>c_billable := quantity l, c_billed := quantity l\<rparr>
                else no_hours\<lparr>c_non_billable := quantity l, c_unbilled := quantity l\<rparr>)
        in if m = 3 / 2 then t1\<lparr>c_overtime_1_5x := quantity l\<rparr>
           else if m = 2 then t1\<lparr>c_overtime_2x := quantity l\<rparr> else t1)"
      by (cases bills) (simp_all add: categorise_line_def Let_def no_hours_def split: if_splits)
    then show ?thesis by (simp add: defs)
  next
    case (Some code)
    with steps assms show ?thesis by (cases bills; cases code) (auto simp: defs)
  qed
qed

lemma categorise_line_balanced:
  assumes "balanced h t" and "categorise_line s c l t = Inr t'"
  shows "balanced (h + quantity l) t'"
  using assms categorise_line_adds [of s c l t]
  by (auto simp: bindR_eq_Inr intro: balanced_add categorise_line_balanced_alone)

lemma categorise_lines_balanced:
  "balanced h t \<Longrightarrow> categorise_lines s c ls t = Inr t' \<Longrightarrow> balanced (h + sum_list (map quantity ls)) t'"
proof (induction ls arbitrary: h t)
  case (Cons l ls)
  then obtain u where u: "categorise_line s c l t = Inr u" "categorise_lines s c ls u = Inr t'"
    by (auto simp: bindR_eq_Inr)
  from Cons.IH [OF categorise_line_balanced [OF Cons.prems(1) u(1)] u(2)]
  show ?case by (simp add: add.assoc)
qed simp

text \<open>C27: A split that succeeds accounts for every hour that is not logged unpaid time exactly
  once: the customer split totals them, leave by column is leave by surface, and the worked
  hours, billed or not, are what reaches Xero's Timesheets API.\<close>

theorem categorise_accounts_for_every_hour:
  assumes "categorise s ls c = Inr t"
  shows "c_total t = sum_list (map quantity (filter (\<lambda>l. \<not> is_unpaid_time s l) ls))
    \<and> c_leave t = c_leave_api t + c_xero_computed t
    \<and> c_billed t + c_unbilled t = c_timesheet t"
proof -
  have "balanced 0 no_hours" by (simp add: balanced_def no_hours_def c_total_def c_leave_def c_timesheet_def)
  from categorise_lines_balanced [OF this assms [unfolded categorise_def]]
  show ?thesis by (simp add: balanced_def)
qed

lemma categorise_accounts_for_every_hour_witness:
  "\<exists>t. categorise sample_db [sample_line, sample_line\<lparr>quantity := 1, xero_pay_item := Some 62\<rparr>] None = Inr t \<and> c_total t = 2"
proof -
  let ?ls = "[sample_line, sample_line\<lparr>quantity := 1, xero_pay_item := Some 62\<rparr>]"
  have run: "categorise sample_db ?ls None = Inr (no_hours\<lparr>c_billable := 2, c_billed := 2\<rparr>)"
    and unpaid: "sum_list (map quantity (filter (\<lambda>l. \<not> is_unpaid_time sample_db l) ?ls)) = 2"
    by code_simp+
  show ?thesis using categorise_accounts_for_every_hour [OF run] run unfolding unpaid by blast
qed

end
