(* ===== verification/Day.thy ===== *)
theory Day
  imports Pricing Costing
begin

text \<open>
  The reads of \<open>apps/timesheet/services/attendance.py\<close>: where a day stands, its standard
  hours and breaks, its fill figures, the stretches still to account for and the bounds of
  the calendar. Nothing here writes; the clock and the company settings are parts of the
  state \<open>db\<close>.
\<close>

section \<open>Where a day stands\<close>

datatype day_state = NotClockedIn | AtWork | ClockedOut | Sent

definition day_state :: "attendance_day option \<Rightarrow> day_state" where
  "day_state row =
     (case row of None \<Rightarrow> NotClockedIn
      | Some r \<Rightarrow> if ad_clock_out r = None then AtWork
                  else if submitted_at r = None then ClockedOut else Sent)"

text \<open>\<open>round(minutes / 60, 2)\<close>: no number of minutes is half way between two hundredths of an hour.\<close>

definition here_hours :: "attendance_day \<Rightarrow> rat option" where
  "here_hours r = map_option (\<lambda>out. to_cents (of_int (minutes out - minutes (ad_clock_in r)) / 60)) (ad_clock_out r)"

record attendance_data =
  a_state :: day_state
  a_clock_in :: "clock option"
  a_clock_out :: "clock option"
  a_here_hours :: "rat option"
  a_general_work_fill :: bool

definition attendance_data :: "attendance_day option \<Rightarrow> attendance_data" where
  "attendance_data row =
     (case row of
        None \<Rightarrow> \<lparr>a_state = NotClockedIn, a_clock_in = None, a_clock_out = None, a_here_hours = None,
                  a_general_work_fill = False\<rparr>
      | Some r \<Rightarrow> \<lparr>a_state = day_state row, a_clock_in = Some (ad_clock_in r), a_clock_out = ad_clock_out r,
                  a_here_hours = here_hours r, a_general_work_fill = general_work_fill r\<rparr>)"

section \<open>The standard day\<close>

definition standard_day :: "db \<Rightarrow> date \<Rightarrow> window option" where
  "standard_day s day =
     (let c = company s;
          by_weekday = [Window (mon_start c) (mon_end c), Window (tue_start c) (tue_end c),
            Window (wed_start c) (wed_end c), Window (thu_start c) (thu_end c), Window (fri_start c) (fri_end c)];
          w = weekday day
      in if w \<ge> int (length by_weekday) then None else Some (by_weekday ! nat w))"

definition calendar_weekend_span :: window where
  "calendar_weekend_span = Window (Clock 7 0 0 0) (Clock 15 0 0 0)"

definition standard_entry_start :: "db \<Rightarrow> date \<Rightarrow> clock" where
  "standard_entry_start s day =
     (case standard_day s day of None \<Rightarrow> w_start calendar_weekend_span | Some w \<Rightarrow> w_start w)"

definition day_span :: "db \<Rightarrow> date \<Rightarrow> attendance_day option \<Rightarrow> window option" where
  "day_span s day row =
     (let standard = standard_day s day in
      case row of
        None \<Rightarrow> standard
      | Some r \<Rightarrow>
          (case ad_clock_out r of
             Some out \<Rightarrow> Some (Window (ad_clock_in r) out)
           | None \<Rightarrow>
               if day \<ge> today s then None
               else (case standard of None \<Rightarrow> None
                     | Some w \<Rightarrow> if w_end w \<le> ad_clock_in r then None
                                 else Some (Window (ad_clock_in r) (w_end w)))))"

definition pending_day :: "db \<Rightarrow> uuid \<Rightarrow> date \<Rightarrow> (date \<times> day_state) option" where
  "pending_day s who today' =
     (case sort_key ad_date (filter (\<lambda>r. ad_staff r = who \<and> ad_date r < today' \<and> submitted_at r = None)
             (attendance_days s)) of
        [] \<Rightarrow> None | r # _ \<Rightarrow> Some (ad_date r, day_state (Some r)))"

section \<open>Breaks\<close>

record standard_break =
  sb_window :: window
  sb_paid :: bool
  sb_description :: string

record break_data =
  b_id :: "uuid option"
  b_name :: string
  b_start :: clock
  b_end :: clock
  b_paid :: bool
  b_planned :: bool
  b_approved :: "bool option"

definition b_window :: "break_data \<Rightarrow> window" where
  "b_window b = Window (b_start b) (b_end b)"

definition required_break_job_id :: "db \<Rightarrow> uuid res" where
  "required_break_job_id s = of_option (Conflict ''Breaks are not set up. Tell the office.'') (break_job (company s))"

definition line_window :: "cost_line \<Rightarrow> window option res" where
  "line_window l =
     (let a = meta_get (line_meta l) ''start_time''; b = meta_get (line_meta l) ''end_time''
      in if \<not> is_str a \<or> \<not> is_str b then Inr None
         else bindR (json_time a) (\<lambda>x. bindR (json_time b) (\<lambda>y.
                Inr (case x of None \<Rightarrow> None | Some st \<Rightarrow>
                  (case y of None \<Rightarrow> None | Some en \<Rightarrow> Some (Window st en))))))"

text \<open>\<open>time(end // 60, end % 60)\<close> raises for a break that would end past midnight.\<close>

definition default_break :: "clock \<Rightarrow> int \<Rightarrow> bool \<Rightarrow> string \<Rightarrow> standard_break list res" where
  "default_break start mins paid description =
     (if mins = 0 then Inr []
      else bindR (time_of (minutes start + mins)) (\<lambda>en.
        Inr [\<lparr>sb_window = Window start en, sb_paid = paid, sb_description = description\<rparr>]))"

definition default_breaks :: "db \<Rightarrow> standard_break list res" where
  "default_breaks s =
     (let c = company s in
      bindR (default_break (morning_break_start c) (morning_break_minutes c) True ''Paid break'') (\<lambda>a.
      bindR (default_break (lunch_start c) (lunch_minutes c) False ''Lunch'') (\<lambda>b.
      bindR (default_break (afternoon_break_start c) (afternoon_break_minutes c) True ''Paid break'') (\<lambda>d.
      Inr (a @ b @ d)))))"

definition planned_breaks :: "db \<Rightarrow> date \<Rightarrow> break_data list res" where
  "planned_breaks s day =
     (case standard_day s day of
        None \<Rightarrow> Inr []
      | Some standard \<Rightarrow> bindR (default_breaks s) (\<lambda>bs.
          Inr (map (\<lambda>b. \<lparr>b_id = None, b_name = sb_description b, b_start = w_start (sb_window b),
                  b_end = w_end (sb_window b), b_paid = sb_paid b, b_planned = True, b_approved = None\<rparr>)
            (filter (\<lambda>b. w_start (sb_window b) \<ge> w_start standard \<and> w_end (sb_window b) \<le> w_end standard) bs))))"

definition is_paid_break :: "db \<Rightarrow> cost_line \<Rightarrow> bool" where
  "is_paid_break s l \<longleftrightarrow> \<not> is_unpaid_time s l"

definition taken_break :: "db \<Rightarrow> cost_line \<Rightarrow> break_data list res" where
  "taken_break s l = bindR (line_window l) (\<lambda>w.
     Inr (case w of None \<Rightarrow> []
       | Some x \<Rightarrow> [\<lparr>b_id = Some (line_id l),
            b_name = (case desc l of None \<Rightarrow> (if is_paid_break s l then ''Paid break'' else ''Unpaid break'')
                      | Some d \<Rightarrow> if d = [] then (if is_paid_break s l then ''Paid break'' else ''Unpaid break'') else d),
            b_start = w_start x, b_end = w_end x, b_paid = is_paid_break s l, b_planned = False,
            b_approved = Some (approved l)\<rparr>]))"

definition day_breaks :: "db \<Rightarrow> date \<Rightarrow> attendance_day option \<Rightarrow> cost_line list \<Rightarrow> break_data list res" where
  "day_breaks s day row break_lines =
     bindR (mapR (taken_break s) break_lines) (\<lambda>ts.
     let taken = concat ts; taken_windows = map b_window taken in
     bindR (if row = None
            then bindR (planned_breaks s day) (\<lambda>ps. Inr (filter (\<lambda>p. \<not> overlaps (b_window p) taken_windows) ps))
            else Inr []) (\<lambda>planned.
     Inr (sort_key (\<lambda>b. (b_start b, b_end b)) (taken @ planned))))"

definition break_windows :: "db \<Rightarrow> date \<Rightarrow> attendance_day option \<Rightarrow> cost_line list \<Rightarrow> window list res" where
  "break_windows s day row break_lines = bindR (day_breaks s day row break_lines) (\<lambda>bs. Inr (map b_window bs))"

definition split_breaks :: "db \<Rightarrow> cost_line list \<Rightarrow> cost_line list \<times> cost_line list" where
  "split_breaks s ls =
     (filter (\<lambda>l. line_job_id s l \<noteq> break_job (company s)) ls,
      filter (\<lambda>l. line_job_id s l = break_job (company s)) ls)"

section \<open>What there is to account for\<close>

record fill_data =
  to_fill_hours :: rat
  fill_break_hours :: rat
  entered_hours :: rat
  to_go_hours :: rat

definition fill_figures ::
  "db \<Rightarrow> date \<Rightarrow> attendance_day option \<Rightarrow> rat \<Rightarrow> cost_line list \<Rightarrow> fill_data option res" where
  "fill_figures s day row entered break_lines =
     (case day_span s day row of
        None \<Rightarrow> Inr None
      | Some w \<Rightarrow>
          bindR (day_breaks s day row break_lines) (\<lambda>breaks.
          bindR (mapR (\<lambda>b. hours_for (b_start b) (b_end b) []) (filter b_paid breaks)) (\<lambda>hs.
          let on_breaks = sum_list hs;
              to_fill = paid_span_hours (w_start w) (w_end w) (map b_window (filter (\<lambda>b. \<not> b_paid b) breaks))
          in Inr (Some \<lparr>to_fill_hours = to_fill, fill_break_hours = on_breaks, entered_hours = entered,
               to_go_hours = to_fill - on_breaks - entered\<rparr>))))"

text \<open>Entries kept without times, laid out end to end from the day's start.\<close>

fun lay_untimed :: "clock \<Rightarrow> window list \<Rightarrow> cost_line list \<Rightarrow> window list res" where
  "lay_untimed cursor occupied [] = Inr occupied"
| "lay_untimed cursor occupied (l # ls) =
     bindR (start_after_breaks cursor occupied) (\<lambda>begins.
     let laid_end = (case finish_in_the_day begins (quantity l) occupied of
                       Some t \<Rightarrow> t | None \<Rightarrow> Clock 23 59 0 0)
     in lay_untimed laid_end (occupied @ [Window begins laid_end]) ls)"

text \<open>The loop over the taken stretches: \<open>free_from\<close> and \<open>low\<close> are its two variables.\<close>

fun gap_windows :: "int \<Rightarrow> int \<Rightarrow> int \<Rightarrow> (int \<times> int) list \<Rightarrow> window list res" where
  "gap_windows final free_from low [] = Inr []"
| "gap_windows final free_from low ((taken_start, taken_end) # rest) =
     bindR (time_of free_from) (\<lambda>f.
     bindR (time_of (max (minutes (to_quarter f)) low)) (\<lambda>start.
     bindR (time_of (min taken_start final)) (\<lambda>t.
     bindR (time_of (min (minutes (to_quarter t)) taken_start)) (\<lambda>en.
     bindR (gap_windows final (max free_from taken_end) (max low taken_end) rest) (\<lambda>ws.
     Inr (Window start en # ws))))))"

definition unallocated_windows ::
  "db \<Rightarrow> date \<Rightarrow> attendance_day option \<Rightarrow> cost_line list \<Rightarrow> cost_line list \<Rightarrow> window list option res" where
  "unallocated_windows s day row entries break_lines =
     (case day_span s day row of
        None \<Rightarrow> Inr None
      | Some w \<Rightarrow>
          (let worked = (if row = None then entries
                         else filter (\<lambda>l. managed_by l \<noteq> Some OwnedByLeave) entries) in
           bindR (mapR line_window worked) (\<lambda>tws.
           bindR (break_windows s day row break_lines) (\<lambda>bws.
           let untimed = map fst (filter (\<lambda>(l, t). t = None) (zip worked tws)) in
           bindR (lay_untimed (w_start w) (bws @ List.map_filter (\<lambda>t. t) tws) untimed) (\<lambda>occupied.
           bindR (gap_windows (minutes (w_end w)) (minutes (w_start w)) 0
                    (merged_minutes occupied @ [(24 * 60, 24 * 60)])) (\<lambda>ws.
           Inr (Some (filter (\<lambda>x. w_end x > w_start x) ws))))))))"

section \<open>The calendar\<close>

text \<open>The margin is an hour, and the first hour is whole.\<close>

definition calendar_bounds :: "attendance_day option \<Rightarrow> window option \<Rightarrow> window list \<Rightarrow> window res" where
  "calendar_bounds row standard entry_times =
     (let base = (case standard of Some w \<Rightarrow> w | None \<Rightarrow> calendar_weekend_span);
          start = (case row of None \<Rightarrow> w_start base | Some r \<Rightarrow> min (w_start base) (ad_clock_in r));
          finish = (case row of None \<Rightarrow> w_end base
                    | Some r \<Rightarrow> max (w_end base) (case ad_clock_out r of None \<Rightarrow> ad_clock_in r | Some t \<Rightarrow> t));
          first = Min (set (minutes start # map (\<lambda>w. minutes (w_start w)) entry_times));
          final = Max (set (minutes finish # map (\<lambda>w. minutes (w_end w)) entry_times));
          first' = max (first - 60) 0 div 60 * 60;
          final' = min (final + 60) (24 * 60 - 1)
      in bindR (time_of first') (\<lambda>a. bindR (time_of final') (\<lambda>b. Inr (Window a b))))"

section \<open>The day the clocks change\<close>

text \<open>
  \<open>utc_offset day t\<close> is the offset, in minutes, of the instance's time zone at a wall-clock
  time of a date (\<open>ZoneInfo\<close>, data outside the program).
\<close>

definition micros :: "clock \<Rightarrow> int" where
  "micros t = (minutes t * 60 + sec t) * 1000000 + micro t"

definition clock_change_minutes :: "(date \<Rightarrow> clock \<Rightarrow> int) \<Rightarrow> date \<Rightarrow> clock \<Rightarrow> clock \<Rightarrow> int" where
  "clock_change_minutes utc_offset day start finish =
     (let utc = (\<lambda>t. micros t - utc_offset day t * 60000000);
          elapsed = utc finish - utc start
      in elapsed div 60000000 - (minutes finish - minutes start))"


section \<open>The stretches still to account for\<close>

lemma gap_windows_spec:
  assumes "separated ps" "\<forall>(a, b) \<in> set ps. 0 \<le> a \<and> low \<le> a" "\<forall>(a, b) \<in> set (butlast ps). b < 1440"
    and "ps \<noteq> [] \<Longrightarrow> 0 \<le> free \<and> free < 1440 \<and> 0 \<le> low \<and> low < 1440" "0 \<le> final" "final < 1440"
  shows "\<exists>ws. gap_windows final free low ps = Inr ws
    \<and> (\<forall>w \<in> set ws. low \<le> minutes (w_start w) \<and> covered [w] \<inter> cover ps = {}
         \<and> clock_ok (w_start w) \<and> clock_ok (w_end w) \<and> on_the_minute (w_start w) \<and> on_the_minute (w_end w))
    \<and> sorted_wrt (\<lambda>x y. minutes (w_end x) \<le> minutes (w_start y)) ws"
  using assms
proof (induction ps arbitrary: free low)
  case (Cons p ps)
  obtain ts te where p: "p = (ts, te)" by (cases p)
  have bounds: "0 \<le> ts" "low \<le> ts" "ts \<le> te" "0 \<le> free" "free < 1440" "0 \<le> low" "low < 1440"
    using Cons.prems p by (auto simp: separated_Cons)
  have after: "\<forall>(a, b) \<in> set ps. te < a" using Cons.prems(1) p by (auto simp: separated_Cons)
  let ?start = "max (minutes (to_quarter (clock_at free))) low"
  let ?t = "clock_at (min ts final)"
  let ?en = "min (minutes (to_quarter ?t)) ts"
  let ?w = "Window (clock_at ?start) (clock_at ?en)"
  have q: "0 \<le> minutes (to_quarter (clock_at free))" "minutes (to_quarter (clock_at free)) \<le> 1425"
    "0 \<le> minutes (to_quarter ?t)" "minutes (to_quarter ?t) \<le> 1425"
    using to_quarter_in_day [of "clock_at free"] to_quarter_in_day [of ?t] bounds Cons.prems(5) by simp_all
  have times: "time_of free = Inr (clock_at free)" "time_of ?start = Inr (clock_at ?start)"
    "time_of (min ts final) = Inr ?t" "time_of ?en = Inr (clock_at ?en)"
    using bounds q Cons.prems(5,6) by (auto intro!: time_of_eq)
  have low': "\<forall>(a, b) \<in> set ps. 0 \<le> a \<and> max low te \<le> a" using after bounds Cons.prems(2) by auto
  have te: "te < 1440" if "ps \<noteq> []" using Cons.prems(3) p that by auto
  have "\<exists>ws. gap_windows final (max free te) (max low te) ps = Inr ws
    \<and> (\<forall>w \<in> set ws. max low te \<le> minutes (w_start w) \<and> covered [w] \<inter> cover ps = {}
         \<and> clock_ok (w_start w) \<and> clock_ok (w_end w) \<and> on_the_minute (w_start w) \<and> on_the_minute (w_end w))
    \<and> sorted_wrt (\<lambda>x y. minutes (w_end x) \<le> minutes (w_start y)) ws"
  proof (rule Cons.IH)
    show "separated ps" using Cons.prems(1) p by (simp add: separated_Cons)
    show "\<forall>(a, b) \<in> set (butlast ps). b < 1440"
      using Cons.prems(3) by (auto split: if_splits)
    show "0 \<le> max free te \<and> max free te < 1440 \<and> 0 \<le> max low te \<and> max low te < 1440" if "ps \<noteq> []"
      using bounds te [OF that] by auto
  qed (use low' Cons.prems in auto)
  then obtain ws where ws: "gap_windows final (max free te) (max low te) ps = Inr ws"
    "\<And>w. w \<in> set ws \<Longrightarrow> max low te \<le> minutes (w_start w) \<and> covered [w] \<inter> cover ps = {}
         \<and> clock_ok (w_start w) \<and> clock_ok (w_end w) \<and> on_the_minute (w_start w) \<and> on_the_minute (w_end w)"
    "sorted_wrt (\<lambda>x y. minutes (w_end x) \<le> minutes (w_start y)) ws" by blast
  have run: "gap_windows final free low (p # ps) = Inr (?w # ws)"
    by (simp add: p times ws(1))
  have head: "covered [?w] \<inter> cover (p # ps) = {}"
    using after bounds by (fastforce simp: covered_def cover_def p span_minutes_def)
  have tail: "covered [w] \<inter> cover (p # ps) = {}" if "w \<in> set ws" for w
    using ws(2) [OF that] by (auto simp: covered_def p span_minutes_def)
  have "clock_ok (clock_at ?start)" "clock_ok (clock_at ?en)" using bounds q by (auto simp: max_def min_def)
  moreover have "\<forall>w \<in> set ws. minutes (w_end ?w) \<le> minutes (w_start w)" using ws(2) bounds by fastforce
  ultimately show ?case
    using head tail ws(2,3) by (intro exI [of _ "?w # ws"]) (auto simp: run)
qed simp

definition well_placed :: "cost_line \<Rightarrow> bool" where
  "well_placed l \<longleftrightarrow> 0 \<le> quantity l \<and>
     (case line_window l of Inl _ \<Rightarrow> False | Inr None \<Rightarrow> True | Inr (Some w) \<Rightarrow> window_ok w)"

lemma lay_untimed_ok:
  "list_all window_ok occ \<Longrightarrow> clock_ok cursor \<Longrightarrow> \<forall>l \<in> set ls. 0 \<le> quantity l \<Longrightarrow>
    \<exists>laid. lay_untimed cursor occ ls = Inr (occ @ laid) \<and> list_all window_ok laid"
proof (induction ls arbitrary: occ cursor)
  case (Cons l ls)
  from start_after_breaks_in_day [OF Cons.prems(1,2)] obtain t where
    t: "start_after_breaks cursor occ = Inr t" "clock_ok t" "on_the_minute t"
    by (auto simp: start_after_breaks_def finish_in_the_day_def split: prod.splits if_splits)
  define e where "e = (case finish_in_the_day t (quantity l) occ of Some t \<Rightarrow> t | None \<Rightarrow> Clock 23 59 0 0)"
  have e: "clock_ok e \<and> t \<le> e"
  proof (cases "finish_in_the_day t (quantity l) occ")
    case None
    have "minutes t \<le> minutes (Clock 23 59 0 0)" using minutes_range [OF t(2)] by (simp add: minutes_def)
    with None t show ?thesis
      using minutes_le_iff [of t "Clock 23 59 0 0"] by (simp add: e_def clock_ok_def on_the_minute_def)
  next
    case (Some f)
    have f: "minutes t \<le> minutes f" "minutes f \<le> last_minute" "f = clock_at (minutes f)"
      using finish_spec [OF Cons.prems(1) _ Some] Cons.prems(3) by auto
    have "clock_ok (clock_at (minutes f))" "on_the_minute (clock_at (minutes f))"
      using f(1,2) minutes_range [OF t(2)] by (simp_all add: last_minute_def)
    then have "clock_ok f" "on_the_minute f" using f(3) by metis+
    then show ?thesis using Some f(1) t minutes_le_iff [of t f] by (simp add: e_def)
  qed
  have "window_ok (Window t e)" using t e by (simp add: window_ok_def)
  then have ok: "list_all window_ok (occ @ [Window t e])" using Cons.prems(1) by simp
  from Cons.IH [OF ok] e Cons.prems(3) obtain laid where
    "lay_untimed e (occ @ [Window t e]) ls = Inr ((occ @ [Window t e]) @ laid)" "list_all window_ok laid" by auto
  with t e show ?case
    by (intro exI [of _ "Window t e # laid"]) (use \<open>window_ok (Window t e)\<close> in \<open>simp add: e_def [symmetric]\<close>)
qed simp


lemma covered_append [simp]: "covered (xs @ ys) = covered xs \<union> covered ys"
  by (simp add: covered_def cover_def)

lemma line_windows_ok:
  "list_all well_placed ls \<Longrightarrow> \<exists>tws. mapR line_window ls = Inr tws
     \<and> list_all window_ok (List.map_filter (\<lambda>t. t) tws)
     \<and> (\<forall>l \<in> set ls. \<forall>w. line_window l = Inr (Some w) \<longrightarrow> w \<in> set (List.map_filter (\<lambda>t. t) tws))"
proof (induction ls)
  case (Cons l ls)
  then obtain tws where tws: "mapR line_window ls = Inr tws" "list_all window_ok (List.map_filter (\<lambda>t. t) tws)"
    "\<forall>l \<in> set ls. \<forall>w. line_window l = Inr (Some w) \<longrightarrow> w \<in> set (List.map_filter (\<lambda>t. t) tws)" by auto
  from Cons.prems obtain t where "line_window l = Inr t" "\<forall>w. t = Some w \<longrightarrow> window_ok w"
    by (auto simp: well_placed_def split: sum.splits option.splits)
  with tws show ?case by (cases t) (auto simp: List.map_filter_simps)
qed (simp add: List.map_filter_simps)

lemma covered_in: "w \<in> set ws \<Longrightarrow> covered [w] \<subseteq> covered ws"
  by (auto simp: covered_def cover_def)

lemma merged_bounds:
  assumes "list_all window_ok ws"
  shows "\<forall>(a, b) \<in> set (merged_minutes ws). 0 \<le> a \<and> b < 1440"
proof -
  have "set (merge_sorted ps) \<subseteq> {(a, b). a \<in> fst ` set ps \<and> b \<in> snd ` set ps}" for ps
    by (induction ps rule: merge_sorted.induct) (auto simp: max_def split: if_splits)
  then have "set (merged_minutes ws) \<subseteq> {(a, b). a \<in> fst ` span_minutes ` set ws \<and> b \<in> snd ` span_minutes ` set ws}"
    unfolding merged_minutes_def by (metis (no_types) list.set_map set_sort)
  then show ?thesis using assms by (fastforce simp: list_all_iff dest: span_minutes_ok)
qed

text \<open>The stretches offered as still to account for are always found, in order, and none of
  them shares a minute with a break or with an entry that has times (leave apart, on a day
  that was clocked), however many entries without times were laid out among them.\<close>

theorem unallocated_windows_are_free:
  assumes "day_span s day row = Some sp" "clock_ok (w_start sp)" "clock_ok (w_end sp)"
    and "break_windows s day row break_lines = Inr bws" "list_all window_ok bws"
    and "list_all well_placed entries"
  shows "\<exists>ws. unallocated_windows s day row entries break_lines = Inr (Some ws)
    \<and> sorted_wrt (\<lambda>x y. minutes (w_end x) \<le> minutes (w_start y)) ws
    \<and> (\<forall>w \<in> set ws. minutes (w_start w) < minutes (w_end w) \<and> covered [w] \<inter> covered bws = {}
        \<and> (\<forall>l \<in> set entries. \<forall>x. line_window l = Inr (Some x) \<and> (row = None \<or> managed_by l \<noteq> Some OwnedByLeave)
             \<longrightarrow> covered [w] \<inter> covered [x] = {}))"
proof -
  define worked where "worked = (if row = None then entries
    else filter (\<lambda>l. managed_by l \<noteq> Some OwnedByLeave) entries)"
  have "list_all well_placed worked" using assms(6) by (auto simp: worked_def list_all_iff)
  from line_windows_ok [OF this] obtain tws where
    tws: "mapR line_window worked = Inr tws" "list_all window_ok (List.map_filter (\<lambda>t. t) tws)"
      "\<forall>l \<in> set worked. \<forall>w. line_window l = Inr (Some w) \<longrightarrow> w \<in> set (List.map_filter (\<lambda>t. t) tws)" by blast
  let ?timed = "List.map_filter (\<lambda>t. t) tws"
  define untimed where "untimed = map fst (filter (\<lambda>(l, t). t = None) (zip worked tws))"
  have "\<forall>l \<in> set untimed. 0 \<le> quantity l"
    using \<open>list_all well_placed worked\<close>
    by (auto simp: untimed_def list_all_iff well_placed_def dest: set_zip_leftD)
  with lay_untimed_ok [of "bws @ ?timed" "w_start sp" untimed] assms(2,5) tws(2)
  obtain laid where laid: "lay_untimed (w_start sp) (bws @ ?timed) untimed = Inr ((bws @ ?timed) @ laid)"
    "list_all window_ok laid" by auto
  define occ where "occ = (bws @ ?timed) @ laid"
  have ok: "list_all window_ok occ" using assms(5) tws(2) laid(2) by (simp add: occ_def)
  let ?ps = "merged_minutes occ @ [(24 * 60, 24 * 60)]"
  have sep: "separated ?ps"
    using merged_separated [OF ok] merged_bounds [OF ok] by (fastforce simp: separated_def sorted_wrt_append)
  have bounds: "\<forall>(a, b) \<in> set ?ps. 0 \<le> a \<and> 0 \<le> a" "\<forall>(a, b) \<in> set (butlast ?ps). b < 1440"
    using merged_bounds [OF ok] by auto
  have "\<exists>ws. gap_windows (minutes (w_end sp)) (minutes (w_start sp)) 0 ?ps = Inr ws
    \<and> (\<forall>w \<in> set ws. 0 \<le> minutes (w_start w) \<and> covered [w] \<inter> cover ?ps = {}
         \<and> clock_ok (w_start w) \<and> clock_ok (w_end w) \<and> on_the_minute (w_start w) \<and> on_the_minute (w_end w))
    \<and> sorted_wrt (\<lambda>x y. minutes (w_end x) \<le> minutes (w_start y)) ws"
    using minutes_range [OF assms(2)] minutes_range [OF assms(3)]
    by (intro gap_windows_spec [OF sep bounds]) auto
  then obtain ws where ws: "gap_windows (minutes (w_end sp)) (minutes (w_start sp)) 0 ?ps = Inr ws"
    "\<And>w. w \<in> set ws \<Longrightarrow> covered [w] \<inter> cover ?ps = {}"
    "\<And>w. w \<in> set ws \<Longrightarrow> clock_ok (w_start w) \<and> clock_ok (w_end w) \<and> on_the_minute (w_start w) \<and> on_the_minute (w_end w)"
    "sorted_wrt (\<lambda>x y. minutes (w_end x) \<le> minutes (w_start y)) ws" by blast
  have cov: "cover ?ps = covered occ" using merged_cover [OF ok] by (simp add: cover_def)
  note ws2 = ws(2) [unfolded cov]
  have run: "unallocated_windows s day row entries break_lines = Inr (Some (filter (\<lambda>x. w_end x > w_start x) ws))"
    by (simp add: unallocated_windows_def assms(1,4) worked_def [symmetric] tws(1) untimed_def [symmetric]
        laid(1) ws(1) [unfolded occ_def, simplified] Let_def occ_def)
  have free: "covered [w] \<inter> covered bws = {}" if "w \<in> set ws" for w
    using ws2 [OF that] by (auto simp: occ_def)
  have apart: "covered [w] \<inter> covered [x] = {}"
    if "w \<in> set ws" "l \<in> set entries" "line_window l = Inr (Some x)" "row = None \<or> managed_by l \<noteq> Some OwnedByLeave" for w l x
  proof -
    have "l \<in> set worked" using that by (auto simp: worked_def)
    then have "covered [x] \<subseteq> covered ?timed" using tws(3) that(3) covered_in by blast
    then show ?thesis using ws2 [OF that(1)] by (auto simp: occ_def)
  qed
  have "minutes (w_start w) < minutes (w_end w)" if "w \<in> set ws" "w_start w < w_end w" for w
    using ws(3) [OF that(1)] that(2) minutes_less_iff by blast
  then show ?thesis
    using free apart ws(4) by (intro exI [of _ "filter (\<lambda>x. w_end x > w_start x) ws"]) (auto simp: run sorted_wrt_filter)
qed

text \<open>The calendar always opens: its bounds are times of the day, they hold the working
  day, the clocked span and every entry, and it starts on a whole hour.\<close>

theorem calendar_holds_the_day:
  assumes "clock_ok (w_start base)" "clock_ok (w_end base)" "list_all window_ok entry_times"
    and "clock_ok (ad_clock_in r)" "case ad_clock_out r of None \<Rightarrow> True | Some t \<Rightarrow> clock_ok t"
  shows "\<exists>w. calendar_bounds (Some r) (Some base) entry_times = Inr w
    \<and> clock_ok (w_start w) \<and> clock_ok (w_end w) \<and> minutes (w_start w) mod 60 = 0
    \<and> minutes (w_start w) \<le> minutes (w_start base) \<and> minutes (w_end base) \<le> minutes (w_end w)
    \<and> minutes (w_start w) \<le> minutes (ad_clock_in r)
    \<and> (case ad_clock_out r of None \<Rightarrow> True | Some t \<Rightarrow> minutes t \<le> minutes (w_end w))
    \<and> (\<forall>x \<in> set entry_times. minutes (w_start w) \<le> minutes (w_start x) \<and> minutes (w_end x) \<le> minutes (w_end w))"
proof -
  define out where "out = (case ad_clock_out r of None \<Rightarrow> ad_clock_in r | Some t \<Rightarrow> t)"
  define start where "start = min (w_start base) (ad_clock_in r)"
  define finish where "finish = max (w_end base) out"
  define first where "first = Min (set (minutes start # map (\<lambda>w. minutes (w_start w)) entry_times))"
  define final where "final = Max (set (minutes finish # map (\<lambda>w. minutes (w_end w)) entry_times))"
  have ok: "clock_ok out" "clock_ok start" "clock_ok finish"
    using assms by (auto simp: out_def start_def finish_def min_def max_def split: option.splits)
  have edges: "minutes start \<le> minutes (w_start base)" "minutes start \<le> minutes (ad_clock_in r)"
    "minutes (w_end base) \<le> minutes finish" "minutes out \<le> minutes finish"
    using minutes_mono assms ok by (auto simp: start_def finish_def)
  have first: "first \<le> minutes start" "\<And>x. x \<in> set entry_times \<Longrightarrow> first \<le> minutes (w_start x)"
    and final: "minutes finish \<le> final" "\<And>x. x \<in> set entry_times \<Longrightarrow> minutes (w_end x) \<le> final"
    by (auto simp: first_def final_def)
  have times: "x \<in> set entry_times \<Longrightarrow> 0 \<le> minutes (w_start x) \<and> minutes (w_start x) < 1440
      \<and> 0 \<le> minutes (w_end x) \<and> minutes (w_end x) < 1440" for x
    using assms(3) minutes_range by (auto simp: list_all_iff window_ok_def)
  have range: "0 \<le> first" "final < 1440"
    using ok times minutes_range unfolding first_def final_def by (subst Min_ge_iff Max_less_iff; fastforce)+
  define a b where "a = max (first - 60) 0 div 60 * 60" and "b = min (final + 60) (24 * 60 - 1)"
  have le: "a \<le> first" "0 \<le> a" "final \<le> b" "0 \<le> b" "a < 1440" "b < 1440" "a mod 60 = 0"
    using range first(1) final(1) minutes_range [OF ok(2)] minutes_range [OF ok(3)] by (auto simp: a_def b_def)
  have run: "calendar_bounds (Some r) (Some base) entry_times = Inr (Window (clock_at a) (clock_at b))"
    using le by (simp only: calendar_bounds_def Let_def option.case out_def [symmetric] start_def [symmetric]
        finish_def [symmetric] first_def [symmetric] final_def [symmetric] a_def [symmetric] b_def [symmetric]
        time_of_eq bindR_simps)
  have "case ad_clock_out r of None \<Rightarrow> True | Some t \<Rightarrow> minutes t \<le> b"
    using edges(4) final(1) le(3) by (auto simp: out_def split: option.splits)
  moreover have "\<forall>x \<in> set entry_times. a \<le> minutes (w_start x) \<and> minutes (w_end x) \<le> b"
    using first(2) final(2) le(1,3) by fastforce
  moreover have "a \<le> minutes (w_start base)" "a \<le> minutes (ad_clock_in r)" "minutes (w_end base) \<le> b"
    using le(1,3) first(1) final(1) edges by linarith+
  ultimately show ?thesis
    using run le by (intro exI [of _ "Window (clock_at a) (clock_at b)"]) (simp split: option.splits)
qed

text \<open>A standard break set to run past midnight makes the list of standard breaks raise: the
  constructor \<open>time\<close> has no hour 24. The settings only bound the length of a break.\<close>

lemma default_break_past_midnight:
  "0 < mins \<Longrightarrow> 1440 \<le> minutes start + mins \<Longrightarrow>
     default_break start mins paid d = Inl (ValueErr ''hour must be in 0..23'')"
  by (auto simp: default_break_def time_of_def)

section \<open>The properties on the sample workshop\<close>

lemma unallocated_windows_are_free_witness:
  "\<exists>ws. unallocated_windows sample_db 739000 None [sample_line] [] = Inr (Some ws)
     \<and> (\<forall>w \<in> set ws. covered [w] \<inter> covered [Window (Clock 8 0 0 0) (Clock 10 0 0 0)] = {})"
proof -
  have facts: "day_span sample_db 739000 None = Some (Window (Clock 8 0 0 0) (Clock 17 0 0 0))"
    "clock_ok (w_start (Window (Clock 8 0 0 0) (Clock 17 0 0 0)))" "clock_ok (w_end (Window (Clock 8 0 0 0) (Clock 17 0 0 0)))"
    "break_windows sample_db 739000 None [] = Inr [Window (Clock 10 0 0 0) (Clock 10 10 0 0),
       Window (Clock 12 0 0 0) (Clock 12 30 0 0), Window (Clock 15 0 0 0) (Clock 15 10 0 0)]"
    "list_all window_ok [Window (Clock 10 0 0 0) (Clock 10 10 0 0),
       Window (Clock 12 0 0 0) (Clock 12 30 0 0), Window (Clock 15 0 0 0) (Clock 15 10 0 0)]"
    "list_all well_placed [sample_line]" by code_simp+
  have "line_window sample_line = Inr (Some (Window (Clock 8 0 0 0) (Clock 10 0 0 0)))" by code_simp
  with unallocated_windows_are_free [OF facts] show ?thesis by (metis list.set_intros(1))
qed

lemma calendar_holds_the_day_witness:
  "\<exists>w. calendar_bounds (Some \<lparr>ad_staff = 1, ad_date = 739000, ad_clock_in = Clock 6 28 0 0, ad_clock_out = None,
        submitted_at = None, breaks_generated = True, general_work_fill = False\<rparr>)
      (Some (Window (Clock 8 0 0 0) (Clock 17 0 0 0))) [] = Inr w \<and> minutes (w_start w) mod 60 = 0"
proof -
  let ?r = "\<lparr>ad_staff = 1, ad_date = 739000, ad_clock_in = Clock 6 28 0 0, ad_clock_out = None,
    submitted_at = None, breaks_generated = True, general_work_fill = False\<rparr>"
  have "clock_ok (w_start (Window (Clock 8 0 0 0) (Clock 17 0 0 0)))" "clock_ok (w_end (Window (Clock 8 0 0 0) (Clock 17 0 0 0)))"
    "list_all window_ok []" "clock_ok (ad_clock_in ?r)" "case ad_clock_out ?r of None \<Rightarrow> True | Some t \<Rightarrow> clock_ok t"
    by code_simp+
  from calendar_holds_the_day [OF this] show ?thesis by (elim exE conjE) (intro exI conjI)
qed

end
