(* ===== verification/Events.thy ===== *)
theory Events
  imports Day
begin

text \<open>
  The evidence of a write: \<open>apps/timesheet/services/timesheet_events.py\<close> (an event per write
  to an entry or a day), \<open>snapshot_changes\<close> of \<open>apps/core/audit.py\<close> and
  \<open>apps/timesheet/services/location.py\<close> (whether a write was made at the workshop). In a
  snapshot a time, a date or a figure is kept as its value, where the code keeps its text.
\<close>

section \<open>Where a write was made\<close>

record entry_location =
  loc_latitude :: rat
  loc_longitude :: rat

definition workshop_radius_m :: real where "workshop_radius_m = 300"
definition earth_radius_m :: real where "earth_radius_m = 6371000"

definition radians :: "real \<Rightarrow> real" where
  "radians d = d * pi / 180"

text \<open>The haversine formula, over the reals where the code computes in floating point.\<close>

definition metres_between :: "real \<Rightarrow> real \<Rightarrow> real \<Rightarrow> real \<Rightarrow> real" where
  "metres_between lat_a lng_a lat_b lng_b =
     (let d_lat = radians (lat_b - lat_a); d_lng = radians (lng_b - lng_a);
          chord = sin (d_lat / 2) ^ 2 + cos (radians lat_a) * cos (radians lat_b) * sin (d_lng / 2) ^ 2
      in 2 * earth_radius_m * arcsin (sqrt chord))"

text \<open>No code equation: real trigonometry is not evaluated.\<close>

declare metres_between_def [code del]

definition saved_remotely :: "db \<Rightarrow> staff_row \<Rightarrow> entry_location option \<Rightarrow> bool" where
  "saved_remotely s st loc =
     (if is_office_staff st then False
      else case latitude (company s) of
        None \<Rightarrow> False
      | Some lat \<Rightarrow>
          (case longitude (company s) of
             None \<Rightarrow> False
           | Some lng \<Rightarrow>
               (case loc of
                  None \<Rightarrow> True
                | Some l \<Rightarrow> metres_between (of_rat lat) (of_rat lng) (of_rat (loc_latitude l)) (of_rat (loc_longitude l))
                    > workshop_radius_m)))"

section \<open>Differences of two snapshots\<close>

definition snap_get :: "snapshot \<Rightarrow> string \<Rightarrow> json" where
  "snap_get m k = (case map_of m k of None \<Rightarrow> JNull | Some v \<Rightarrow> v)"

definition shown :: "json \<Rightarrow> json" where
  "shown v = (if v = JNull then JStr [] else v)"

definition snapshot_changes :: "snapshot option \<Rightarrow> snapshot option \<Rightarrow> field_change list" where
  "snapshot_changes was becomes =
     (let b = (case was of None \<Rightarrow> [] | Some m \<Rightarrow> m); a = (case becomes of None \<Rightarrow> [] | Some m \<Rightarrow> m);
          keys = map fst b @ filter (\<lambda>k. k \<notin> set (map fst b)) (map fst a)
      in map (\<lambda>k. \<lparr>field_name = k, old_value = shown (snap_get b k), new_value = shown (snap_get a k)\<rparr>)
           (filter (\<lambda>k. snap_get b k \<noteq> snap_get a k) keys))"

section \<open>An entry as a reader sees it\<close>

definition is_timesheet_entry :: "cost_line \<Rightarrow> bool" where
  "is_timesheet_entry l \<longleftrightarrow> kind l = Time \<and> truthy (meta_get (line_meta l) ''created_from_timesheet'')"

definition stored_time :: "cost_line \<Rightarrow> string \<Rightarrow> json res" where
  "stored_time l key =
     (let v = meta_get (line_meta l) key
      in if v = JNull then Inr JNull
         else if is_str v then Inr v else Inl (TypeErr ''Timesheet line has a non-string time''))"

definition stored_multiplier :: "cost_line \<Rightarrow> string \<Rightarrow> json res" where
  "stored_multiplier l key = bindR (rate_from_meta (line_meta l) key)
     (\<lambda>r. Inr (case r of None \<Rightarrow> JNull | Some x \<Rightarrow> JNum x))"

definition text_or_null :: "string option \<Rightarrow> json" where
  "text_or_null t = (case t of None \<Rightarrow> JNull | Some x \<Rightarrow> JStr x)"

definition line_snapshot :: "db \<Rightarrow> cost_line \<Rightarrow> snapshot res" where
  "line_snapshot s l =
     bindR (of_option (ValueErr ''Timesheet line has no labour subtype.'') (labour_subtype l)) (\<lambda>sub.
     bindR (get_subtype s sub) (\<lambda>subtype.
     let billable = meta_get (line_meta l) ''is_billable'' in
     bindR (requireR (case billable of JNull \<Rightarrow> True | JBool _ \<Rightarrow> True | _ \<Rightarrow> False)
              (ValueErr ''Timesheet line has a non-boolean is_billable.'')) (\<lambda>_.
     bindR (line_job s l) (\<lambda>job.
     bindR (stored_time l ''start_time'') (\<lambda>st.
     bindR (stored_time l ''end_time'') (\<lambda>en.
     bindR (stored_multiplier l ''wage_rate_multiplier'') (\<lambda>wage.
     bindR (stored_multiplier l ''bill_rate_multiplier'') (\<lambda>bill.
     Inr [(''job'', JStr (CHR ''#'' # show_digits (job_number job))),
          (''date'', JDate (accounting_date l)), (''start_time'', st), (''end_time'', en),
          (''hours'', JNum (quantize round_half_even (1 / 1000) (quantity l))),
          (''description'', text_or_null (desc l)), (''labour_type'', JStr (ls_name subtype)),
          (''wage_multiplier'', wage), (''invoice_multiplier'', bill), (''billable'', billable),
          (''wage_rate'', JNum (to_cents (unit_cost l))), (''charge_out_rate'', JNum (to_cents (unit_rev l))),
          (''pay_item'', text_or_null (map_option pi_name (line_pay_item s l))),
          (''approved'', JBool (approved l))]))))))))"

definition snapshot_if_entry :: "db \<Rightarrow> cost_line \<Rightarrow> snapshot option res" where
  "snapshot_if_entry s l =
     (if \<not> is_timesheet_entry l then Inr None else bindR (line_snapshot s l) (\<lambda>m. Inr (Some m)))"

section \<open>Recording\<close>

definition snapshot_labels :: "(string \<times> string) list" where
  "snapshot_labels =
    [(''job'', ''Job''), (''date'', ''Date''), (''start_time'', ''Start''), (''end_time'', ''End''),
     (''hours'', ''Hours''), (''description'', ''Description''), (''labour_type'', ''Labour type''),
     (''wage_multiplier'', ''Wage multiplier''), (''invoice_multiplier'', ''Invoice multiplier''),
     (''billable'', ''Billable''), (''wage_rate'', ''Wage $/h''), (''charge_out_rate'', ''Charge-out $/h''),
     (''pay_item'', ''Pay item''), (''approved'', ''Approved'')]"

definition day_labels :: "(string \<times> string) list" where
  "day_labels = [(''clock_in'', ''Clock in''), (''clock_out'', ''Clock out'')]"

definition edit_event_types :: "string list" where
  "edit_event_types = [''entry_updated'', ''entry_moved'']"

text \<open>A key no label names would raise \<open>KeyError\<close>; both kinds of snapshot hold labelled keys only.\<close>

definition labelled :: "(string \<times> string) list \<Rightarrow> field_change list \<Rightarrow> field_change list" where
  "labelled labels changes = map (\<lambda>c. c\<lparr>field_name :=
     (case map_of labels (field_name c) of None \<Rightarrow> field_name c | Some n \<Rightarrow> n)\<rparr>) changes"

definition add_event :: "timesheet_event \<Rightarrow> (db, unit) tx" where
  "add_event e = putT (\<lambda>s. s\<lparr>events := events s @ [e]\<rparr>)"

definition timesheet_event_of ::
  "db \<Rightarrow> uuid \<Rightarrow> string \<Rightarrow> cost_line \<Rightarrow> snapshot option \<Rightarrow> bool \<Rightarrow> timesheet_event res" where
  "timesheet_event_of s actor type l was trust =
     bindR (of_option (ValueErr ''Timesheet line has no staff member.'') (line_staff l)) (\<lambda>worker.
     bindR (if type = ''entry_deleted'' then Inr None else bindR (line_snapshot s l) (\<lambda>m. Inr (Some m))) (\<lambda>becomes.
     Inr \<lparr>ev_staff = actor, ev_worker = worker, ev_date = accounting_date l, ev_line = Some (line_id l),
       ev_type = type, delta_before = was, delta_after = becomes,
       ev_changes = (if type \<in> set edit_event_types
                     then labelled snapshot_labels (snapshot_changes was becomes) else []),
       trusted = trust\<rparr>))"

definition record_timesheet_event ::
  "uuid \<Rightarrow> string \<Rightarrow> cost_line \<Rightarrow> snapshot option \<Rightarrow> bool \<Rightarrow> (db, unit) tx" where
  "record_timesheet_event actor type l was trust =
     (if \<not> is_timesheet_entry l then ret ()
      else bindT (readT (\<lambda>s. timesheet_event_of s actor type l was trust)) add_event)"

definition record_day_event ::
  "uuid \<Rightarrow> uuid \<Rightarrow> date \<Rightarrow> string \<Rightarrow> snapshot option \<Rightarrow> snapshot option \<Rightarrow> bool \<Rightarrow> (db, unit) tx" where
  "record_day_event actor worker day type was becomes trust =
     add_event \<lparr>ev_staff = actor, ev_worker = worker, ev_date = day, ev_line = None, ev_type = type,
       delta_before = None, delta_after = None,
       ev_changes = labelled day_labels (snapshot_changes was becomes), trusted = trust\<rparr>"

section \<open>Reading an event without its pay\<close>

definition pay_keys :: "string list" where
  "pay_keys = [''wage_rate'', ''charge_out_rate'']"

definition hide_pay :: "timesheet_event \<Rightarrow> timesheet_event" where
  "hide_pay e =
     (let pay_labels = List.map_filter (map_of snapshot_labels) pay_keys
      in e\<lparr>delta_before := None, delta_after := None,
           ev_changes := filter (\<lambda>c. field_name c \<notin> set pay_labels) (ev_changes e)\<rparr>)"

section \<open>Facts\<close>

lemma add_event_keeps [keeps_intros]:
  "(\<And>s. I s \<Longrightarrow> I (s\<lparr>events := events s @ [e]\<rparr>)) \<Longrightarrow> keeps I (add_event e)"
  unfolding add_event_def by (rule keeps_putT)

lemma ledger_ok_events [simp]: "ledger_ok (s\<lparr>events := es\<rparr>) = ledger_ok s"
  by (simp add: ledger_ok_def)

lemma record_timesheet_event_keeps [keeps_intros]:
  "(\<And>s e. I s \<Longrightarrow> I (s\<lparr>events := events s @ [e]\<rparr>)) \<Longrightarrow> keeps I (record_timesheet_event a t l w b)"
  unfolding record_timesheet_event_def by (intro keeps_intros)

lemma record_day_event_keeps [keeps_intros]:
  "(\<And>s e. I s \<Longrightarrow> I (s\<lparr>events := events s @ [e]\<rparr>)) \<Longrightarrow> keeps I (record_day_event a w d t x y b)"
  unfolding record_day_event_def by (intro keeps_intros)

lemma snapshot_keys:
  "line_snapshot s l = Inr m \<Longrightarrow> map fst m = map fst snapshot_labels"
  by (auto simp: line_snapshot_def bindR_eq_Inr snapshot_labels_def Let_def split: if_splits)

lemma snapshot_changes_keys:
  "map field_name (snapshot_changes (Some b) (Some a))
     = filter (\<lambda>k. snap_get b k \<noteq> snap_get a k) (map fst b @ filter (\<lambda>k. k \<notin> set (map fst b)) (map fst a))"
  by (simp add: snapshot_changes_def Let_def comp_def)

lemma snap_get_absent: "k \<notin> set (map fst m) \<Longrightarrow> snap_get m k = JNull"
  by (metis map_of_eq_None_iff option.simps(4) set_map snap_get_def)

text \<open>The changes of an edit are exactly its difference: a key of either snapshot is listed,
  once, with its values before and after, when and only when the two values differ.\<close>

theorem snapshot_changes_are_the_difference:
  assumes "distinct (map fst b)" "distinct (map fst a)"
  shows "distinct (map field_name (snapshot_changes (Some b) (Some a)))
    \<and> (\<forall>k. k \<in> field_name ` set (snapshot_changes (Some b) (Some a)) \<longleftrightarrow> snap_get b k \<noteq> snap_get a k)
    \<and> (\<forall>c \<in> set (snapshot_changes (Some b) (Some a)).
         old_value c = shown (snap_get b (field_name c)) \<and> new_value c = shown (snap_get a (field_name c)))"
proof (intro conjI allI)
  show "distinct (map field_name (snapshot_changes (Some b) (Some a)))"
    unfolding snapshot_changes_keys using assms by auto
  fix k
  have "field_name ` set (snapshot_changes (Some b) (Some a)) = set (map field_name (snapshot_changes (Some b) (Some a)))"
    by simp
  then show "k \<in> field_name ` set (snapshot_changes (Some b) (Some a)) \<longleftrightarrow> snap_get b k \<noteq> snap_get a k"
    unfolding snapshot_changes_keys using snap_get_absent [of k b] snap_get_absent [of k a] by auto
next
  show "\<forall>c \<in> set (snapshot_changes (Some b) (Some a)).
      old_value c = shown (snap_get b (field_name c)) \<and> new_value c = shown (snap_get a (field_name c))"
    by (auto simp: snapshot_changes_def Let_def)
qed

lemma snapshot_changes_are_the_difference_witness:
  "field_name ` set (snapshot_changes (Some [(''clock_in'', JTime (Clock 7 2 0 0)), (''clock_out'', JNull)])
     (Some [(''clock_in'', JTime (Clock 7 0 0 0)), (''clock_out'', JNull)])) = {''clock_in''}"
proof -
  let ?b = "[(''clock_in'', JTime (Clock 7 2 0 0)), (''clock_out'', JNull)]"
    and ?a = "[(''clock_in'', JTime (Clock 7 0 0 0)), (''clock_out'', JNull)]"
  have d: "distinct (map fst ?b)" "distinct (map fst ?a)" by simp_all
  have "snap_get ?b k \<noteq> snap_get ?a k \<longleftrightarrow> k = ''clock_in''" for k by (simp add: snap_get_def)
  with snapshot_changes_are_the_difference [OF d] show ?thesis by (intro equalityI subsetI) auto
qed

lemma sample_office: "is_office_staff (sample_staff i w b o') = o'"
  by (simp add: sample_staff_def)

text \<open>Who is marked as elsewhere. Office staff never are, nor anyone of a company with no
  address; otherwise a person who gives no position is, and one standing at the address is not.\<close>

theorem saved_remotely_rule:
  "(is_office_staff st \<longrightarrow> \<not> saved_remotely s st loc)
    \<and> (latitude (company s) = None \<or> longitude (company s) = None \<longrightarrow> \<not> saved_remotely s st loc)
    \<and> (\<not> is_office_staff st \<and> latitude (company s) \<noteq> None \<and> longitude (company s) \<noteq> None
         \<longrightarrow> saved_remotely s st None)
    \<and> (latitude (company s) = Some (loc_latitude l) \<and> longitude (company s) = Some (loc_longitude l)
         \<longrightarrow> \<not> saved_remotely s st (Some l))"
  by (auto simp: saved_remotely_def metres_between_def radians_def workshop_radius_m_def split: option.splits)

lemma saved_remotely_rule_witness:
  "saved_remotely (sample_db\<lparr>company := sample_company\<lparr>latitude := Some (-41), longitude := Some 174\<rparr>\<rparr>)
     sample_hourly None"
  using saved_remotely_rule [of sample_hourly "sample_db\<lparr>company := sample_company\<lparr>latitude := Some (-41), longitude := Some 174\<rparr>\<rparr>"
      None "\<lparr>loc_latitude = -41, loc_longitude = 174\<rparr>"]
  by (simp add: sample_hourly_def sample_office)

end
