(* ===== verification/Entry_Rules.thy ===== *)
theory Entry_Rules
  imports Hour_Categories Events
begin

text \<open>
  The rules of an entry in \<open>apps/timesheet/services/workshop_timesheet_service.py\<close> that read
  and do not write: whose time it is, which hours are allowed, how its times are fitted to
  its hours, where it starts, how much of it is overtime and how it is split. The argument
  \<open>z\<close> is the time zone's offset, as in \<open>clock_change_minutes\<close>.
\<close>

section \<open>The payloads\<close>

text \<open>A create payload: an absent key and a None are read alike, except the defaults below.\<close>

record entry_in =
  d_job :: uuid
  d_date :: date
  d_hours :: rat
  d_description :: "string option"
  d_start :: "clock option"
  d_end :: "clock option"
  d_billable :: "bool option"
  d_wage :: "rat option"
  d_bill :: "rat option"
  d_subtype :: "uuid option"

definition in_wage :: "entry_in \<Rightarrow> rat" where
  "in_wage d = (case d_wage d of None \<Rightarrow> 1 | Some w \<Rightarrow> w)"

definition in_billable :: "entry_in \<Rightarrow> bool" where
  "in_billable d = (case d_billable d of None \<Rightarrow> True | Some b \<Rightarrow> b)"

text \<open>An update payload: the outer option is whether the key was sent.\<close>

record entry_patch =
  u_entry :: uuid
  u_job :: "uuid option"
  u_date :: "date option"
  u_hours :: "rat option"
  u_description :: "string option option"
  u_start :: "clock option option"
  u_end :: "clock option option"
  u_billable :: "bool option"
  u_wage :: "rat option"
  u_bill :: "rat option"
  u_subtype :: "uuid option"

definition overtime_multiplier :: rat where "overtime_multiplier = 3 / 2"
definition urgent_charge :: rat where "urgent_charge = 3 / 2"
definition smallest_split :: rat where "smallest_split = 1 / 4"
definition entry_hours_limit :: rat where "entry_hours_limit = 24"
definition time_agreement_tolerance :: rat where "time_agreement_tolerance = 1 / 100"

section \<open>Whose time, and when\<close>

definition entry_owner :: "db \<Rightarrow> staff_row \<Rightarrow> uuid option \<Rightarrow> staff_row res" where
  "entry_owner s actor staff_id =
     (case staff_id of
        None \<Rightarrow> Inr actor
      | Some i \<Rightarrow>
          if i = st_id actor then Inr actor
          else if \<not> is_office_staff actor
          then Inl (AccessDenied ''Only office staff see or enter another person's time.'')
          else get_staff s i)"

definition refuse_another_persons_entry :: "cost_line \<Rightarrow> staff_row \<Rightarrow> unit res" where
  "refuse_another_persons_entry l actor =
     requireR (meta_get (line_meta l) ''staff_id'' = JStr (show_digits (st_id actor)) \<or> is_office_staff actor)
       (AccessDenied ''your own timesheet entries'')"

definition owner_of :: "db \<Rightarrow> cost_line \<Rightarrow> staff_row res" where
  "owner_of s l =
     (case line_staff l of None \<Rightarrow> Inl (ValueErr ''Time line has no staff member'')
      | Some i \<Rightarrow> get_staff s i)"

definition refuse_bad_hours :: "rat \<Rightarrow> unit res" where
  "refuse_bad_hours h =
     (if h \<le> 0 \<or> h > entry_hours_limit \<or> h \<noteq> to_cents h
      then Inl (InvalidInput ''Hours are more than 0 and at most 24, to two decimal places.'') else Inr ())"

definition refuse_outside_employment :: "staff_row \<Rightarrow> date \<Rightarrow> unit res" where
  "refuse_outside_employment st day =
     (if is_active_on st day then Inr ()
      else if day < employment_start_date st then Inl (InvalidInput ''time before it can't be entered'')
      else if date_left st = None then Inl (ValueErr ''is not employed yet has no leaving date'')
      else Inl (InvalidInput ''time after it can't be entered''))"

definition refuse_workflow_managed :: "cost_line \<Rightarrow> unit res" where
  "refuse_workflow_managed l =
     (case managed_by l of
        Some OwnedByStocktake \<Rightarrow> Inl (InvalidInput ''This line belongs to a stock movement'')
      | Some OwnedByStock \<Rightarrow> Inl (InvalidInput ''This line belongs to a stock movement'')
      | Some OwnedByLeave \<Rightarrow> Inl (InvalidInput ''This line belongs to a leave request'')
      | None \<Rightarrow> Inr ())"

section \<open>The day around an entry\<close>

definition meta_time :: "meta \<Rightarrow> string \<Rightarrow> clock option res" where
  "meta_time m key = (if \<not> is_str (meta_get m key) then Inr None else json_time (meta_get m key))"

definition timed_window :: "cost_line \<Rightarrow> window option res" where
  "timed_window l =
     bindR (meta_time (line_meta l) ''start_time'') (\<lambda>a.
     bindR (meta_time (line_meta l) ''end_time'') (\<lambda>b.
     Inr (case a of None \<Rightarrow> None | Some st \<Rightarrow> (case b of None \<Rightarrow> None | Some en \<Rightarrow> Some (Window st en)))))"

definition is_general_work_fill :: "db \<Rightarrow> cost_line \<Rightarrow> bool" where
  "is_general_work_fill s l \<longleftrightarrow> meta_get (line_meta l) ''source'' = JStr swept_general_work
     \<and> line_job_id s l = general_work_job (company s)"

definition day_break_windows :: "db \<Rightarrow> staff_row \<Rightarrow> date \<Rightarrow> window list res" where
  "day_break_windows s st day =
     break_windows s day (attendance_row s (st_id st) day)
       (snd (split_breaks s (day_time_lines s (st_id st) day)))"

definition default_entry_start ::
  "db \<Rightarrow> date \<Rightarrow> attendance_day option \<Rightarrow> cost_line list \<Rightarrow> cost_line list \<Rightarrow> clock res" where
  "default_entry_start s day row entries break_lines =
     bindR (mapR timed_window (filter (\<lambda>l. \<not> is_general_work_fill s l) entries)) (\<lambda>ws.
     let finishes = map w_end (List.map_filter (\<lambda>w. w) ws);
         start = (case finishes of
                    f # fs \<Rightarrow> fold max fs f
                  | [] \<Rightarrow> (case row of Some r \<Rightarrow> ad_clock_in r | None \<Rightarrow> standard_entry_start s day))
     in bindR (break_windows s day row break_lines) (start_after_breaks start))"

definition next_entry_start :: "db \<Rightarrow> staff_row \<Rightarrow> date \<Rightarrow> clock res" where
  "next_entry_start s st day =
     (case split_breaks s (day_time_lines s (st_id st) day) of (entries, break_lines) \<Rightarrow>
        default_entry_start s day (attendance_row s (st_id st) day) entries break_lines)"

text \<open>\<open>_placed\<close>: hours given without times go after his latest entry.\<close>

definition placed :: "db \<Rightarrow> staff_row \<Rightarrow> entry_in \<Rightarrow> entry_in res" where
  "placed s st d =
     bindR (next_entry_start s st (d_date d)) (\<lambda>start.
     bindR (day_break_windows s st (d_date d)) (\<lambda>breaks.
     Inr (case finish_in_the_day start (d_hours d) breaks of
            None \<Rightarrow> d
          | Some finish \<Rightarrow> d\<lparr>d_start := Some start, d_end := Some finish\<rparr>)))"

text \<open>The minutes two times hold: those that pass between them, less the breaks inside.\<close>

definition held_minutes :: "(date \<Rightarrow> clock \<Rightarrow> int) \<Rightarrow> date \<Rightarrow> clock \<Rightarrow> clock \<Rightarrow> window list \<Rightarrow> rat" where
  "held_minutes z day a b breaks =
     of_int (micros b - micros a) / 60000000 + of_int (clock_change_minutes z day a b)
       - of_int (break_minutes_in (Window a b) breaks)"

definition fit_times ::
  "(date \<Rightarrow> clock \<Rightarrow> int) \<Rightarrow> date \<Rightarrow> clock option \<Rightarrow> clock option \<Rightarrow> rat \<Rightarrow> window list
     \<Rightarrow> (clock option \<times> clock option) res" where
  "fit_times z day start finish hours breaks =
     (case (start, finish) of
        (Some a, Some b) \<Rightarrow>
          bindR (start_after_breaks a breaks) (\<lambda>a'.
          if b > a' \<and> hours - held_minutes z day a' b breaks / 60 \<le> time_agreement_tolerance
          then Inr (Some a', Some b)
          else Inr (case finish_in_the_day a' hours breaks of
                      None \<Rightarrow> (None, None) | Some f \<Rightarrow> (Some a', Some f)))
      | _ \<Rightarrow> Inr (start, finish))"

section \<open>Overtime\<close>

definition on_a_public_holiday :: "db \<Rightarrow> staff_row \<Rightarrow> date \<Rightarrow> bool" where
  "on_a_public_holiday s st day =
     (case find (\<lambda>t. lt_code t = PublicHoliday) (leave_types s) of
        None \<Rightarrow> False
      | Some t \<Rightarrow> (case lt_job t of None \<Rightarrow> False
          | Some j \<Rightarrow> list_ex (\<lambda>l. kind l = Time \<and> line_staff l = Some (st_id st) \<and> accounting_date l = day
               \<and> managed_by l = Some OwnedByLeave \<and> line_job_id s l = Some j) (cost_lines s)))"

definition counts_as_worked :: "db \<Rightarrow> bool \<Rightarrow> cost_line \<Rightarrow> bool" where
  "counts_as_worked s general_work_counts l \<longleftrightarrow>
     line_job_id s l \<notin> Some ` set (leave_job_ids s) \<and> (general_work_counts \<or> \<not> is_general_work_fill s l)"

definition overtime_hours :: "db \<Rightarrow> staff_row \<Rightarrow> date \<Rightarrow> rat \<Rightarrow> bool \<Rightarrow> bool \<Rightarrow> rat res" where
  "overtime_hours s st day hours already_on_the_day general_work_counts =
     (case standard_day s day of
        None \<Rightarrow> Inr 0
      | Some standard \<Rightarrow>
          if st_pay_basis st = Some Salary then Inr 0
          else if on_a_public_holiday s st day then Inr hours
          else bindR (hours_for (w_start standard) (w_end standard) []) (\<lambda>usual.
            let worked = (if already_on_the_day
                          then sum_list (map quantity (filter (counts_as_worked s general_work_counts)
                                 (fst (split_breaks s (day_time_lines s (st_id st) day)))))
                          else 0)
            in Inr (min hours (max (hours - (usual - worked)) 0))))"

definition split_off :: "rat \<Rightarrow> rat \<Rightarrow> rat" where
  "split_off hours overtime =
     (let ordinary = hours - overtime
      in if 0 < min overtime ordinary \<and> min overtime ordinary < smallest_split
         then (if overtime > ordinary then hours else 0)
         else overtime)"

definition overtime_part :: "db \<Rightarrow> staff_row \<Rightarrow> date \<Rightarrow> rat \<Rightarrow> rat \<Rightarrow> uuid option \<Rightarrow> rat res" where
  "overtime_part s st day hours wage job =
     (if wage \<noteq> 1 \<or> (job \<noteq> None \<and> (job = break_job (company s) \<or> job \<in> Some ` set (leave_job_ids s)))
      then Inr 0
      else bindR (overtime_hours s st day hours True (job = general_work_job (company s)))
             (\<lambda>overtime. Inr (split_off hours overtime)))"

definition at_overtime :: "entry_in \<Rightarrow> entry_in" where
  "at_overtime d =
     (let late = d\<lparr>d_wage := Some overtime_multiplier\<rparr>
      in case d_bill d of
           Some given \<Rightarrow> if in_billable d then late\<lparr>d_bill := Some (max given overtime_multiplier)\<rparr> else late
         | None \<Rightarrow> late)"

definition split_at_overtime :: "db \<Rightarrow> staff_row \<Rightarrow> entry_in \<Rightarrow> rat \<Rightarrow> (entry_in \<times> entry_in) res" where
  "split_at_overtime s st d overtime =
     (let ordinary = d\<lparr>d_hours := d_hours d - overtime\<rparr>; late = (at_overtime d)\<lparr>d_hours := overtime\<rparr>
      in case d_start d of
           None \<Rightarrow> Inr (ordinary, late)
         | Some start \<Rightarrow>
             if d_end d = None then Inr (ordinary, late)
             else bindR (day_break_windows s st (d_date d)) (\<lambda>breaks.
               case finish_in_the_day start (d_hours d - overtime) breaks of
                 None \<Rightarrow> Inl (ValueErr ''Hours split past midnight'')
               | Some split \<Rightarrow> bindR (start_after_breaks split breaks) (\<lambda>late_start.
                   Inr (ordinary\<lparr>d_end := Some split\<rparr>, late\<lparr>d_start := Some late_start\<rparr>))))"

text \<open>
  An urgent job's re-derived charge is time and a half at least. \<open>meta["is_billable"]\<close> and
  \<open>meta["wage_rate_multiplier"]\<close> raise \<open>KeyError\<close> when absent.
\<close>

definition charge_urgent_at_least :: "job_row \<Rightarrow> meta \<Rightarrow> meta res" where
  "charge_urgent_at_least j m =
     (if \<not> is_urgent j \<or> has_key m ''bill_rate_multiplier'' then Inr m
      else if \<not> has_key m ''is_billable'' then Inl (DoesNotExist ''KeyError'')
      else if \<not> truthy (meta_get m ''is_billable'') then Inr m
      else if \<not> has_key m ''wage_rate_multiplier'' then Inl (DoesNotExist ''KeyError'')
      else case json_decimal (meta_get m ''wage_rate_multiplier'') of
             Finite w \<Rightarrow> Inr (meta_set ''bill_rate_multiplier'' (JNum (max urgent_charge w)) m)
           | _ \<Rightarrow> Inl (DecimalInvalid ''ConversionSyntax''))"

text \<open>\<open>bills_its_time\<close> of \<open>apps/job/services/job_service.py\<close>.\<close>

definition bills_its_time :: "db \<Rightarrow> job_row \<Rightarrow> bool" where
  "bills_its_time s j \<longleftrightarrow> \<not> shop_job s j \<and> job_status j \<noteq> ''special''"

section \<open>Facts\<close>

lemma refuse_bad_hours_Inr:
  "refuse_bad_hours h = Inr u \<longleftrightarrow> 0 < h \<and> h \<le> 24 \<and> to_cents h = h"
  by (auto simp: refuse_bad_hours_def entry_hours_limit_def)

lemma overtime_hours_bounds:
  "overtime_hours s st day hours a g = Inr ot \<Longrightarrow> 0 \<le> hours \<Longrightarrow> 0 \<le> ot \<and> ot \<le> hours"
  by (auto simp: overtime_hours_def bindR_eq_Inr Let_def split: option.splits if_splits)

lemma split_off_cases:
  "split_off hours ot = ot \<or> split_off hours ot = hours \<or> split_off hours ot = 0"
  by (auto simp: split_off_def Let_def)

lemma split_off_bounds: "0 \<le> ot \<Longrightarrow> ot \<le> hours \<Longrightarrow> 0 \<le> split_off hours ot \<and> split_off hours ot \<le> hours"
  using split_off_cases [of hours ot] by linarith

lemma overtime_part_bounds:
  assumes "overtime_part s st day hours w j = Inr ot" "0 \<le> hours"
  shows "0 \<le> ot \<and> ot \<le> hours"
proof (cases "w \<noteq> 1 \<or> (j \<noteq> None \<and> (j = break_job (company s) \<or> j \<in> Some ` set (leave_job_ids s)))")
  case True
  then have "ot = 0" using assms(1) unfolding overtime_part_def by simp
  then show ?thesis using assms(2) by simp
next
  case False
  then obtain x where "overtime_hours s st day hours True (j = general_work_job (company s)) = Inr x" "ot = split_off hours x"
    using assms(1) unfolding overtime_part_def by (auto simp: bindR_eq_Inr)
  then show ?thesis using overtime_hours_bounds split_off_bounds assms(2) by blast
qed

lemma split_off_pieces:
  "0 \<le> ot \<Longrightarrow> ot \<le> hours \<Longrightarrow> 0 < split_off hours ot \<Longrightarrow> split_off hours ot < hours \<Longrightarrow>
     1 / 4 \<le> split_off hours ot \<and> 1 / 4 \<le> hours - split_off hours ot"
  by (auto simp: split_off_def Let_def smallest_split_def min_def split: if_splits)

lemma split_off_near: "0 \<le> ot \<Longrightarrow> ot \<le> hours \<Longrightarrow> hours - split_off hours ot < hours - ot + 1 / 4"
  by (auto simp: split_off_def Let_def smallest_split_def min_def split: if_splits)

lemma split_off_exact:
  "split_off hours ot = (if 0 < min ot (hours - ot) \<and> min ot (hours - ot) < 1 / 4 then (if ot > hours - ot then hours else 0) else ot)"
  by (simp add: split_off_def Let_def smallest_split_def)

text \<open>C25: The overtime rule, on a weekday that is no public holiday, for an hourly worker's ordinary entry.
  What is left of the usual day after the time on jobs already entered stays ordinary and the rest
  is at time and a half: exactly, unless that leaves a piece under a quarter hour, which then goes with the
  larger piece. So the part at time and a half is between nothing and the whole entry, no piece is
  under a quarter hour, and the hours left ordinary are within a quarter hour of what is left of
  the usual day, on both sides.\<close>

theorem overtime_part_leaves_the_usual_day_ordinary:
  assumes "overtime_part s st day hours 1 (Some j) = Inr ot" and "0 \<le> hours"
    and "standard_day s day = Some w" and "hours_for (w_start w) (w_end w) [] = Inr usual"
    and "st_pay_basis st \<noteq> Some Salary" and "\<not> on_a_public_holiday s st day"
    and "Some j \<noteq> break_job (company s)" and "j \<notin> set (leave_job_ids s)"
  shows "let worked = sum_list (map quantity (filter (counts_as_worked s (Some j = general_work_job (company s)))
                      (fst (split_breaks s (day_time_lines s (st_id st) day)))));
             left = min hours (max (usual - worked) 0)
    in 0 \<le> ot \<and> ot \<le> hours \<and> (0 < ot \<and> ot < hours \<longrightarrow> 1 / 4 \<le> ot \<and> 1 / 4 \<le> hours - ot)
      \<and> \<bar>(hours - ot) - left\<bar> < 1 / 4
      \<and> (left = 0 \<or> left = hours \<or> 1 / 4 \<le> left \<and> 1 / 4 \<le> hours - left \<longrightarrow> hours - ot = left)
      \<and> (0 < left \<and> left < hours \<and> (left < 1 / 4 \<or> hours - left < 1 / 4) \<longrightarrow>
           ot = (if hours - left > left then hours else 0))"
proof -
  define worked where "worked = sum_list (map quantity (filter (counts_as_worked s (Some j = general_work_job (company s)))
    (fst (split_breaks s (day_time_lines s (st_id st) day)))))"
  define left where "left = min hours (max (usual - worked) 0)"
  have "min hours (max (hours - (usual - worked)) 0) = hours - left" using assms(2) by (auto simp: left_def min_def max_def)
  then have ot: "ot = split_off hours (hours - left)"
    using assms by (simp add: overtime_part_def overtime_hours_def image_iff worked_def Let_def)
  have left: "0 \<le> left" "left \<le> hours" using assms(2) by (auto simp: left_def)
  then have late: "0 \<le> hours - left" "hours - left \<le> hours" by simp_all
  have "\<bar>(hours - ot) - left\<bar> < 1 / 4" using left ot by (auto simp: split_off_exact min_def split: if_splits)
  moreover have "left = 0 \<or> left = hours \<or> 1 / 4 \<le> left \<and> 1 / 4 \<le> hours - left \<Longrightarrow> hours - ot = left"
    using left ot by (auto simp: split_off_exact min_def split: if_splits)
  moreover have "0 < left \<and> left < hours \<and> (left < 1 / 4 \<or> hours - left < 1 / 4) \<Longrightarrow> ot = (if hours - left > left then hours else 0)"
    using ot by (auto simp: split_off_exact min_def split: if_splits)
  ultimately show ?thesis
    using split_off_bounds [OF late] split_off_pieces [OF late] unfolding ot [symmetric]
    unfolding worked_def [symmetric] Let_def left_def [symmetric] by blast
qed

lemma split_off_edges [simp]: "split_off h 0 = 0" "split_off h h = h"
  by (simp_all add: split_off_def Let_def min_def)

text \<open>When no hour defaults to overtime: a rate someone chose, a break, leave, a weekend or a
  salary; and on a public holiday an hourly worker's whole ordinary entry does.\<close>

theorem overtime_part_exceptions:
  "(w \<noteq> 1 \<or> j = break_job (company s) \<and> j \<noteq> None \<or> j \<in> Some ` set (leave_job_ids s)
      \<longrightarrow> overtime_part s st day hours w j = Inr 0)
    \<and> (standard_day s day = None \<or> st_pay_basis st = Some Salary \<longrightarrow>
         overtime_part s st day hours w j = Inr 0)
    \<and> (w = 1 \<and> j \<noteq> None \<and> j \<noteq> break_job (company s) \<and> j \<notin> Some ` set (leave_job_ids s)
        \<and> standard_day s day \<noteq> None \<and> st_pay_basis st \<noteq> Some Salary \<and> on_a_public_holiday s st day
        \<longrightarrow> overtime_part s st day hours w j = Inr hours)"
  by (auto simp: overtime_part_def overtime_hours_def split: option.splits)

lemma split_at_overtime_hours:
  assumes "split_at_overtime s st d ot = Inr (a, b)"
  shows "d_hours a = d_hours d - ot" "d_hours b = ot" "d_wage a = d_wage d" "d_wage b = Some (3 / 2)"
    "d_bill a = d_bill d" "d_job a = d_job d" "d_job b = d_job d" "d_date a = d_date d" "d_date b = d_date d"
    "d_billable a = d_billable d" "d_billable b = d_billable d" "d_start a = d_start d" "d_end b = d_end d"
    "d_bill b = (case d_bill d of None \<Rightarrow> None
       | Some x \<Rightarrow> Some (if in_billable d then max x (3 / 2) else x))"
  using assms
  by (auto simp: split_at_overtime_def at_overtime_def overtime_multiplier_def Let_def bindR_eq_Inr
      split: option.splits if_splits)

text \<open>Splitting an entry at the overtime point loses no time: the two hours add up to the
  entry's, the rest is paid at time and a half and, when a charge was given for billed time,
  charged at that at least; and in the day the ordinary part ends on the minute its hours are
  worked, before the overtime part starts.\<close>

theorem split_at_overtime_keeps_the_hours:
  assumes "split_at_overtime s st d ot = Inr (a, b)" and "ot \<le> d_hours d"
    and "day_break_windows s st (d_date d) = Inr breaks" "list_all window_ok breaks"
    and "d_start d = Some start" "clock_ok start" "d_end d \<noteq> None"
  shows "d_hours a + d_hours b = d_hours d \<and> in_wage b = 3 / 2 \<and> in_wage a = in_wage d
    \<and> (in_billable d \<longrightarrow> (case d_bill d of None \<Rightarrow> True | Some x \<Rightarrow> \<exists>y. d_bill b = Some y \<and> x \<le> y \<and> 3 / 2 \<le> y))
    \<and> (\<exists>split late. d_end a = Some split \<and> d_start b = Some late \<and> d_start a = Some start \<and> d_end b = d_end d
        \<and> worked_minutes (covered breaks) (minutes start) (minutes split) = round_half_up (d_hours a * 60)
        \<and> minutes split \<le> minutes late \<and> minutes late \<notin> covered breaks)"
proof -
  obtain split late where
    split: "finish_in_the_day start (d_hours d - ot) breaks = Some split" "d_end a = Some split"
    and late: "start_after_breaks split breaks = Inr late" "d_start b = Some late"
    using assms(1,3,5,7) by (auto simp: split_at_overtime_def Let_def bindR_eq_Inr split: option.splits)
  note spec = finish_spec [OF assms(4) _ split(1)]
  have "0 \<le> minutes split" "minutes split \<le> last_minute"
    using spec assms(2) minutes_range [OF assms(6)] by auto
  then have "clock_ok (clock_at (minutes split))" by (simp add: last_minute_def)
  moreover have "split = clock_at (minutes split)" using spec assms(2) by simp
  ultimately have "clock_ok split" by metis
  from start_after_breaks_in_day [OF assms(4) this] late(1)
  have "minutes split \<le> minutes late" "minutes late \<notin> covered breaks" by auto
  moreover have "worked_minutes (covered breaks) (minutes start) (minutes split) = round_half_up (d_hours a * 60)"
    using spec assms(2) split_at_overtime_hours(1) [OF assms(1)] by simp
  ultimately show ?thesis
    using split_at_overtime_hours [OF assms(1)] split late assms(5)
    by (auto simp: in_wage_def split: option.splits)
qed

text \<open>Times are moved to hold the hours and never refused: with both times given the fit
  always succeeds; it either drops the times (the hours would run past midnight) or starts
  outside every break at or after the given start, and ends at the given finish when that
  leaves room for the hours to within the tolerance, else where the hours end.\<close>

theorem fit_times_holds_the_hours:
  assumes "list_all window_ok breaks" and "clock_ok a" and "0 \<le> hours"
  shows "\<exists>r. fit_times z day (Some a) (Some b) hours breaks = Inr r \<and>
    (r = (None, None) \<or>
     (\<exists>a' f. r = (Some a', Some f) \<and> minutes a \<le> minutes a' \<and> minutes a' \<notin> covered breaks \<and>
        (f = b \<and> a' < b \<and> hours - held_minutes z day a' b breaks / 60 \<le> time_agreement_tolerance
         \<or> worked_minutes (covered breaks) (minutes a') (minutes f) = round_half_up (hours * 60))))"
proof -
  from start_after_breaks_in_day [OF assms(1,2)] obtain a' where
    a': "start_after_breaks a breaks = Inr a'" "minutes a \<le> minutes a'" "minutes a' \<notin> covered breaks" by blast
  show ?thesis
  proof (cases "finish_in_the_day a' hours breaks")
    case None
    then show ?thesis using a' by (auto simp: fit_times_def)
  next
    case (Some f)
    have "worked_minutes (covered breaks) (minutes a') (minutes f) = round_half_up (hours * 60)"
      using finish_spec [OF assms(1,3) Some] by simp
    then show ?thesis using a' Some by (auto simp: fit_times_def)
  qed
qed

section \<open>The properties on the sample workshop\<close>

definition sample_entry :: entry_in where
  "sample_entry = \<lparr>d_job = 10, d_date = 739000, d_hours = 10, d_description = Some ''welding'',
     d_start = Some (Clock 8 0 0 0), d_end = Some (Clock 18 50 0 0), d_billable = None, d_wage = None,
     d_bill = Some 1, d_subtype = None\<rparr>"

definition sample_breaks :: "window list" where
  "sample_breaks = [Window (Clock 10 0 0 0) (Clock 10 10 0 0), Window (Clock 12 0 0 0) (Clock 12 30 0 0),
     Window (Clock 15 0 0 0) (Clock 15 10 0 0)]"

lemma sample_breaks_ok: "list_all window_ok sample_breaks"
  by code_simp

lemma overtime_part_leaves_the_usual_day_ordinary_witness:
  "\<exists>ot. overtime_part sample_db sample_hourly 739000 10 1 (Some 10) = Inr ot \<and> 0 \<le> ot \<and> ot \<le> (10 :: rat)"
proof -
  have "overtime_part sample_db sample_hourly 739000 10 1 (Some 10) = Inr 1"
    "standard_day sample_db 739000 = Some (Window (Clock 8 0 0 0) (Clock 17 0 0 0))"
    "hours_for (w_start (Window (Clock 8 0 0 0) (Clock 17 0 0 0))) (w_end (Window (Clock 8 0 0 0) (Clock 17 0 0 0))) [] = Inr 9"
    "st_pay_basis sample_hourly \<noteq> Some Salary" "\<not> on_a_public_holiday sample_db sample_hourly 739000"
    "Some 10 \<noteq> break_job (company sample_db)" "10 \<notin> set (leave_job_ids sample_db)" by code_simp+
  with overtime_part_leaves_the_usual_day_ordinary [of sample_db sample_hourly 739000 10 10 1] show ?thesis by auto
qed

lemma overtime_part_exceptions_witness:
  "overtime_part sample_db sample_hourly 739000 10 2 (Some 10) = Inr 0"
  using overtime_part_exceptions [of 2 "Some 10" sample_db sample_hourly 739000 10] by simp

lemma split_at_overtime_keeps_the_hours_witness:
  "\<exists>a b. split_at_overtime sample_db sample_hourly sample_entry 1 = Inr (a, b) \<and> d_hours a + d_hours b = 10"
proof -
  have facts: "split_at_overtime sample_db sample_hourly sample_entry 1 =
      Inr (sample_entry\<lparr>d_hours := 9, d_end := Some (Clock 17 50 0 0)\<rparr>,
           sample_entry\<lparr>d_hours := 1, d_start := Some (Clock 17 50 0 0), d_wage := Some (3 / 2), d_bill := Some (3 / 2)\<rparr>)"
    "1 \<le> d_hours sample_entry" "day_break_windows sample_db sample_hourly (d_date sample_entry) = Inr sample_breaks"
    "d_start sample_entry = Some (Clock 8 0 0 0)" "clock_ok (Clock 8 0 0 0)" "d_end sample_entry \<noteq> None"
    "d_hours sample_entry = 10" by code_simp+
  from split_at_overtime_keeps_the_hours [OF facts(1,2,3) sample_breaks_ok facts(4-6)]
  have "d_hours (sample_entry\<lparr>d_hours := 9, d_end := Some (Clock 17 50 0 0)\<rparr>)
      + d_hours (sample_entry\<lparr>d_hours := 1, d_start := Some (Clock 17 50 0 0), d_wage := Some (3 / 2), d_bill := Some (3 / 2)\<rparr>) = 10"
    using facts(7) by (elim conjE) metis
  with facts(1) show ?thesis by blast
qed

lemma fit_times_holds_the_hours_witness:
  "\<exists>r. fit_times (\<lambda>_ _. 720) 739000 (Some (Clock 12 10 0 0)) (Some (Clock 12 20 0 0)) 2 sample_breaks = Inr r"
proof -
  have "clock_ok (Clock 12 10 0 0)" "(0 :: rat) \<le> 2" by code_simp+
  from fit_times_holds_the_hours [OF sample_breaks_ok this] show ?thesis by blast
qed

end
