(* ===== verification/Entries.thy ===== *)
theory Entries
  imports Entry_Rules
begin

text \<open>
  The writes of \<open>apps/timesheet/services/workshop_timesheet_service.py\<close>, with the cost-set
  helpers of \<open>apps/job/services/job_service.py\<close> they call: making, changing and deleting an
  entry, and remaking the General work that fills a day. \<open>create_entry\<close> and
  \<open>refill_general_work\<close> call each other in the code, but the refill's own entries carry the
  General-work mark and remake nothing, so \<open>save_day_entry\<close> is \<open>create_entry\<close> up to its refill
  and \<open>create_swept\<close> is the call the refill makes.
\<close>

section \<open>Cost sets\<close>

definition fresh_id :: "(db, uuid) tx" where
  "fresh_id = (\<lambda>s. Inr (next_id s, s\<lparr>next_id := Suc (next_id s)\<rparr>))"

text \<open>The highest revision of a kind; revisions of a job and kind are distinct.\<close>

definition newest_cost_set :: "db \<Rightarrow> uuid \<Rightarrow> cost_set_kind \<Rightarrow> cost_set_row option" where
  "newest_cost_set s j k =
     (case rev (sort_key cs_rev (filter (\<lambda>c. cs_job c = j \<and> cs_kind c = k) (cost_sets s))) of
        [] \<Rightarrow> None | c # _ \<Rightarrow> Some c)"

definition get_or_create_cost_set :: "uuid \<Rightarrow> cost_set_kind \<Rightarrow> (db, cost_set_row) tx" where
  "get_or_create_cost_set j k =
     bindT (getT (\<lambda>s. newest_cost_set s j k)) (\<lambda>found.
       case found of
         Some c \<Rightarrow> ret c
       | None \<Rightarrow>
           bindT (getT (\<lambda>s. int (length (filter (\<lambda>c. cs_job c = j \<and> cs_kind c = k) (cost_sets s))))) (\<lambda>latest.
           bindT fresh_id (\<lambda>i.
           let c = \<lparr>cs_id = i, cs_job = j, cs_kind = k, cs_rev = latest + 1,
                    summary = \<lparr>sum_cost = 0, sum_rev = 0, sum_hours = 0\<rparr>\<rparr>
           in seqT (putT (\<lambda>s. s\<lparr>cost_sets := cost_sets s @ [c]\<rparr>)) (ret c))))"

definition update_latest_actual :: "uuid \<Rightarrow> cost_set_row \<Rightarrow> (db, unit) tx" where
  "update_latest_actual j c =
     bindT (readT (\<lambda>s. get_job s j)) (\<lambda>job.
     bindT (getT (\<lambda>s. Option.bind (latest_actual job) (get_cost_set s))) (\<lambda>current.
     if latest_actual job = Some (cs_id c) then ret ()
     else whenT (case current of None \<Rightarrow> True | Some x \<Rightarrow> cs_rev c \<ge> cs_rev x)
       (putT (\<lambda>s. s\<lparr>jobs := row_put job_id (job\<lparr>latest_actual := Some (cs_id c), job_updated_at := now s\<rparr>) (jobs s)\<rparr>))))"

section \<open>Saving one line\<close>

definition time_json :: "clock option \<Rightarrow> json" where
  "time_json t = (case t of None \<Rightarrow> JNull | Some x \<Rightarrow> JTime x)"

definition pricing_meta :: "staff_row \<Rightarrow> date \<Rightarrow> rat \<Rightarrow> rat option \<Rightarrow> bool \<Rightarrow> meta" where
  "pricing_meta st day wage bill billable =
     [(''staff_id'', JStr (show_digits (st_id st))), (''date'', JDate day), (''is_billable'', JBool billable),
      (''wage_rate_multiplier'', JNum wage), (''created_from_timesheet'', JBool True)]
     @ (case bill of None \<Rightarrow> [] | Some b \<Rightarrow> [(''bill_rate_multiplier'', JNum b)])"

definition entry_meta :: "staff_row \<Rightarrow> entry_in \<Rightarrow> string option \<Rightarrow> meta" where
  "entry_meta st d source =
     pricing_meta st (d_date d) (in_wage d) (d_bill d) (in_billable d)
     @ (case source of None \<Rightarrow> [] | Some x \<Rightarrow> [(''source'', JStr x)])
     @ (case d_start d of None \<Rightarrow> [] | Some t \<Rightarrow> [(''start_time'', JTime t)])
     @ (case d_end d of None \<Rightarrow> [] | Some t \<Rightarrow> [(''end_time'', JTime t)])"

definition text_or_none :: "string option \<Rightarrow> string option" where
  "text_or_none t = (case t of None \<Rightarrow> None | Some x \<Rightarrow> if x = [] then None else Some x)"

definition save_entry ::
  "staff_row \<Rightarrow> staff_row \<Rightarrow> job_row \<Rightarrow> entry_in \<Rightarrow> entry_location option \<Rightarrow> string option \<Rightarrow> owner option
     \<Rightarrow> (db, cost_line) tx" where
  "save_entry actor who job d loc source managed =
     bindT (get_or_create_cost_set (job_id job) Actual) (\<lambda>c.
     let m = entry_meta who d source in
     bindT (readT (\<lambda>s. case d_subtype d of None \<Rightarrow> Inr None
                       | Some i \<Rightarrow> bindR (get_subtype s i) (\<lambda>t. Inr (Some (ls_id t))))) (\<lambda>subtype.
     bindT (readT (\<lambda>s. price_time_entry s job who m subtype None None)) (\<lambda>p.
     bindT fresh_id (\<lambda>i.
     bindT (save_line \<lparr>line_id = i, cost_set = cs_id c, kind = Time, desc = text_or_none (d_description d),
         quantity = d_hours d, unit_cost = tp_unit_cost p, unit_rev = tp_unit_rev p, ext_refs = [],
         line_meta = meta_update m (pricing_meta_updates p), accounting_date = d_date d,
         approved = (managed \<noteq> None), line_staff = Some (st_id who), entry_seq = None,
         xero_pay_item = pricing_pay_item_id p, labour_subtype = Some (tp_labour_subtype p),
         managed_by = managed\<rparr>) (\<lambda>l.
     seqT (update_latest_actual (job_id job) c)
     (bindT (getT (\<lambda>s. source \<noteq> None \<or> \<not> saved_remotely s actor loc)) (\<lambda>trust.
     seqT (record_timesheet_event (st_id actor) ''entry_created'' l None trust)
     (ret l))))))))"

section \<open>Making an entry\<close>

record prepared =
  pr_job :: job_row
  pr_data :: entry_in
  pr_overtime :: rat

text \<open>\<open>create_entry\<close> up to its first write: the checks, the placing, the overtime and urgent defaults.\<close>

definition place_entry ::
  "(date \<Rightarrow> clock \<Rightarrow> int) \<Rightarrow> staff_row \<Rightarrow> entry_in \<Rightarrow> owner option \<Rightarrow> db \<Rightarrow> entry_in res" where
  "place_entry z who d managed s =
     (if d_start d = None \<and> d_end d = None then
        (if managed \<noteq> Some OwnedByLeave then placed s who d else Inr d)
      else if Some (d_job d) \<noteq> break_job (company s) then
        bindR (day_break_windows s who (d_date d)) (\<lambda>breaks.
        bindR (fit_times z (d_date d) (d_start d) (d_end d) (d_hours d) breaks) (\<lambda>(a, b).
        Inr (d\<lparr>d_start := a, d_end := b\<rparr>)))
      else Inr d)"

definition prepare_entry ::
  "(date \<Rightarrow> clock \<Rightarrow> int) \<Rightarrow> staff_row \<Rightarrow> entry_in \<Rightarrow> owner option \<Rightarrow> db \<Rightarrow> prepared res" where
  "prepare_entry z who d managed s =
     bindR (refuse_bad_hours (d_hours d)) (\<lambda>_.
     bindR (get_job s (d_job d)) (\<lambda>job.
     bindR (place_entry z who d managed s) (\<lambda>d1.
     bindR (refuse_outside_employment who (d_date d)) (\<lambda>_.
     bindR (overtime_part s who (d_date d) (d_hours d) (in_wage d) (Some (job_id job))) (\<lambda>overtime.
     let d2 = (if is_urgent job \<and> d_bill d1 = None \<and> in_billable d1
               then d1\<lparr>d_bill := Some urgent_charge\<rparr> else d1)
     in Inr \<lparr>pr_job = job, pr_data = d2, pr_overtime = overtime\<rparr>)))))"

definition save_day_entry ::
  "(date \<Rightarrow> clock \<Rightarrow> int) \<Rightarrow> staff_row \<Rightarrow> staff_row \<Rightarrow> entry_in \<Rightarrow> entry_location option
     \<Rightarrow> string option \<Rightarrow> owner option \<Rightarrow> (db, cost_line) tx" where
  "save_day_entry z actor who d loc source managed =
     bindT (readT (prepare_entry z who d managed)) (\<lambda>p.
     let save = (\<lambda>x. save_entry actor who (pr_job p) x loc source managed); x = pr_data p
     in if pr_overtime p = 0 then save x
        else if pr_overtime p = d_hours d then save (at_overtime x)
        else bindT (readT (\<lambda>s. split_at_overtime s who x (pr_overtime p))) (\<lambda>(ordinary, late).
             bindT (save ordinary) (\<lambda>l. seqT (save late) (ret l))))"

text \<open>
  What a write answers with. The names of the job and its company, shown beside it, are left
  out. Reading a line back can raise: it must carry its multiplier and its billing flag.
\<close>

record entry_out =
  e_id :: uuid
  e_job :: "uuid option"
  e_hours :: rat
  e_date :: date
  e_start :: "clock option"
  e_end :: "clock option"
  e_billable :: bool
  e_wage :: rat
  e_bill :: rat
  e_approved :: bool

definition meta_multiplier :: "meta \<Rightarrow> string \<Rightarrow> rat \<Rightarrow> rat res" where
  "meta_multiplier m key dflt = bindR (rate_from_meta m key)
     (\<lambda>raw. Inr (case raw of None \<Rightarrow> dflt | Some x \<Rightarrow> normalize_multiplier x))"

definition entry_data :: "db \<Rightarrow> cost_line \<Rightarrow> entry_out res" where
  "entry_data s l =
     bindR (line_wage_multiplier l) (\<lambda>wage.
     bindR (bills_customer l) (\<lambda>billable.
     bindR (meta_multiplier (line_meta l) ''bill_rate_multiplier'' (if billable then wage else 0)) (\<lambda>bill.
     bindR (meta_time (line_meta l) ''start_time'') (\<lambda>a.
     bindR (meta_time (line_meta l) ''end_time'') (\<lambda>b.
     Inr \<lparr>e_id = line_id l, e_job = line_job_id s l, e_hours = quantity l, e_date = accounting_date l,
       e_start = a, e_end = b, e_billable = billable, e_wage = wage, e_bill = bill, e_approved = approved l\<rparr>)))))"

definition create_swept ::
  "(date \<Rightarrow> clock \<Rightarrow> int) \<Rightarrow> staff_row \<Rightarrow> staff_row \<Rightarrow> entry_in \<Rightarrow> (db, entry_out) tx" where
  "create_swept z actor who d =
     bindT (save_day_entry z actor who d None (Some swept_general_work) None) (\<lambda>l. readT (\<lambda>s. entry_data s l))"

section \<open>Deleting one line\<close>

definition delete_day_line :: "staff_row \<Rightarrow> cost_line \<Rightarrow> entry_location option \<Rightarrow> (db, unit) tx" where
  "delete_day_line actor l loc =
     bindT (readT (\<lambda>s. snapshot_if_entry s l)) (\<lambda>was.
     bindT (getT (\<lambda>s. is_general_work_fill s l \<or> \<not> saved_remotely s actor loc)) (\<lambda>trust.
     seqT (record_timesheet_event (st_id actor) ''entry_deleted'' l was trust)
     (delete_line l)))"

section \<open>General work\<close>

definition required_general_work_job :: "db \<Rightarrow> uuid res" where
  "required_general_work_job s =
     (case general_work_job (company s) of
        None \<Rightarrow> Inl (Conflict ''General work isn't set up: there is no General work job yet.'')
      | Some j \<Rightarrow>
          if Some j = break_job (company s) \<or> j \<in> set (leave_job_ids s)
          then Inl (Conflict ''General work is set to a job for breaks or leave.'')
          else Inr j)"

definition total_minutes :: "(int \<times> int) list \<Rightarrow> int" where
  "total_minutes spans = sum_list (map (\<lambda>(a, b). b - a) spans)"

text \<open>Whether the General work lines already fill the gaps, each minute once.\<close>

definition fill_is_current :: "cost_line list \<Rightarrow> window list \<Rightarrow> window list \<Rightarrow> bool" where
  "fill_is_current filled current windows \<longleftrightarrow>
     length current = length filled \<and> merged_minutes current = merged_minutes windows
     \<and> total_minutes (merged_minutes current) = sum_list (map (\<lambda>w. total_minutes (merged_minutes [w])) current)"

definition swept_entry :: "uuid \<Rightarrow> date \<Rightarrow> window \<Rightarrow> rat \<Rightarrow> entry_in" where
  "swept_entry j day w h = \<lparr>d_job = j, d_date = day, d_hours = h, d_description = None,
     d_start = Some (w_start w), d_end = Some (w_end w), d_billable = Some False, d_wage = None, d_bill = None,
     d_subtype = None\<rparr>"

definition fill_window ::
  "(date \<Rightarrow> clock \<Rightarrow> int) \<Rightarrow> staff_row \<Rightarrow> staff_row \<Rightarrow> uuid \<Rightarrow> date \<Rightarrow> window \<Rightarrow> (db, unit) tx" where
  "fill_window z actor who j day w =
     bindT (readT (\<lambda>s. hours_for (w_start w) (w_end w) [])) (\<lambda>h.
     seqT (create_swept z actor who (swept_entry j day w h)) (ret ()))"

definition refill_general_work ::
  "(date \<Rightarrow> clock \<Rightarrow> int) \<Rightarrow> staff_row \<Rightarrow> date \<Rightarrow> staff_row \<Rightarrow> (db, rat) tx" where
  "refill_general_work z who day actor =
     bindT (getT (\<lambda>s. attendance_row s (st_id who) day)) (\<lambda>row.
     if row = None \<or> \<not> general_work_fill (the row) then ret 0
     else
       bindT (readT required_general_work_job) (\<lambda>j.
       bindT (getT (\<lambda>s. day_time_lines s (st_id who) day)) (\<lambda>ls.
       bindT (getT (\<lambda>s. filter (is_general_work_fill s) ls)) (\<lambda>filled.
       bindT (getT (\<lambda>s. split_breaks s (filter (\<lambda>l. \<not> is_general_work_fill s l) ls))) (\<lambda>(entries, break_lines).
       bindT (readT (\<lambda>s. unallocated_windows s day row entries break_lines)) (\<lambda>found.
       let windows = (case found of None \<Rightarrow> [] | Some ws \<Rightarrow> ws) in
       bindT (readT (\<lambda>s. mapR timed_window filled)) (\<lambda>tws.
       if fill_is_current filled (List.map_filter (\<lambda>w. w) tws) windows then ret 0
       else
         seqT (forT filled (\<lambda>l. delete_day_line actor l None))
         (seqT (forT windows (fill_window z actor who j day))
         (bindT (readT (\<lambda>s. mapR (\<lambda>w. hours_for (w_start w) (w_end w) []) windows)) (\<lambda>hs.
          ret (sum_list hs)))))))))))"

definition create_entry ::
  "(date \<Rightarrow> clock \<Rightarrow> int) \<Rightarrow> staff_row \<Rightarrow> staff_row \<Rightarrow> entry_in \<Rightarrow> entry_location option
     \<Rightarrow> string option \<Rightarrow> owner option \<Rightarrow> (db, entry_out) tx" where
  "create_entry z actor who d loc source managed =
     bindT (save_day_entry z actor who d loc source managed) (\<lambda>l.
     seqT (whenT (source \<noteq> Some swept_general_work)
            (seqT (refill_general_work z who (d_date d) actor) (ret ())))
     (readT (\<lambda>s. entry_data s l)))"

section \<open>Changing an entry\<close>

definition get_time_line :: "db \<Rightarrow> uuid \<Rightarrow> cost_line res" where
  "get_time_line s i =
     of_option (DoesNotExist ''CostLine'') (case get_line s i of None \<Rightarrow> None
       | Some l \<Rightarrow> if kind l = Time then Some l else None)"

text \<open>
  The code fetches the line again once it holds the locks; in a sequential run it finds the
  line it had, so the conflict it raises when the entry moved meanwhile cannot arise here.
\<close>

definition editable_line :: "db \<Rightarrow> staff_row \<Rightarrow> uuid \<Rightarrow> cost_line res" where
  "editable_line s actor i =
     bindR (get_time_line s i) (\<lambda>l.
     bindR (refuse_another_persons_entry l actor) (\<lambda>_.
     bindR (refuse_workflow_managed l) (\<lambda>_. Inr l)))"

definition approval_off :: "db \<Rightarrow> cost_line \<Rightarrow> cost_line" where
  "approval_off s l = (if approved l \<and> is_actual_time s l then l\<lparr>approved := False\<rparr> else l)"

text \<open>A line and the metadata about to be stored on it, and whether a write follows.\<close>

definition apply_scalar_changes :: "entry_patch \<Rightarrow> cost_line \<times> meta \<Rightarrow> (cost_line \<times> meta \<times> bool) res" where
  "apply_scalar_changes u lm =
     (case lm of (l, m) \<Rightarrow>
       let l1 = (case u_description u of None \<Rightarrow> l | Some t \<Rightarrow> l\<lparr>desc := text_or_none t\<rparr>)
       in bindR (case u_hours u of None \<Rightarrow> Inr l1
                 | Some h \<Rightarrow> bindR (refuse_bad_hours h) (\<lambda>_. Inr (l1\<lparr>quantity := h\<rparr>))) (\<lambda>l2.
          let l3 = (case u_date u of None \<Rightarrow> l2 | Some d \<Rightarrow> l2\<lparr>accounting_date := d\<rparr>);
              m3 = (case u_date u of None \<Rightarrow> m | Some d \<Rightarrow> meta_set ''date'' (JDate d) m);
              m4 = (case u_start u of None \<Rightarrow> m3 | Some t \<Rightarrow> meta_set ''start_time'' (time_json t) m3);
              m5 = (case u_end u of None \<Rightarrow> m4 | Some t \<Rightarrow> meta_set ''end_time'' (time_json t) m4)
          in Inr (l3, m5, u_description u \<noteq> None \<or> u_hours u \<noteq> None \<or> u_date u \<noteq> None
                          \<or> u_start u \<noteq> None \<or> u_end u \<noteq> None)))"

definition apply_billing_changes :: "db \<Rightarrow> entry_patch \<Rightarrow> cost_line \<times> meta \<Rightarrow> (cost_line \<times> meta \<times> bool) res" where
  "apply_billing_changes s u lm =
     (case lm of (l, m) \<Rightarrow>
       bindR (case u_subtype u of None \<Rightarrow> Inr l
              | Some i \<Rightarrow> bindR (get_subtype s i) (\<lambda>t. Inr (l\<lparr>labour_subtype := Some (ls_id t)\<rparr>))) (\<lambda>l1.
       let m1 = (case u_billable u of None \<Rightarrow> m
                 | Some True \<Rightarrow> meta_pop ''bill_rate_multiplier'' (meta_set ''is_billable'' (JBool True) m)
                 | Some False \<Rightarrow> meta_set ''bill_rate_multiplier'' (JNum 0) (meta_set ''is_billable'' (JBool False) m));
           m2 = (case u_wage u of None \<Rightarrow> m1
                 | Some w \<Rightarrow>
                     let m' = meta_set ''wage_rate_multiplier'' (JNum w) m1
                     in if u_bill u = None then meta_pop ''bill_rate_multiplier'' m' else m');
           m3 = (case u_bill u of None \<Rightarrow> m2
                 | Some b \<Rightarrow> meta_set ''is_billable'' (JBool (normalize_multiplier b > 0))
                     (meta_set ''bill_rate_multiplier'' (JNum (normalize_multiplier b)) m2))
       in Inr (l1, m3, u_subtype u \<noteq> None \<or> u_billable u \<noteq> None \<or> u_wage u \<noteq> None \<or> u_bill u \<noteq> None)))"

text \<open>\<open>move_time_line\<close> of \<open>apps/job/services/job_service.py\<close>: the line, its metadata and the cost set it joins.\<close>

definition move_time_line ::
  "cost_line \<Rightarrow> job_row \<Rightarrow> meta \<Rightarrow> bool \<Rightarrow> (db, cost_line \<times> meta \<times> cost_set_row) tx" where
  "move_time_line l destination m billing_explicit =
     (if \<not> is_timesheet_entry l then throw (InvalidInput ''Only timesheet entries move to another job.'')
      else
        bindT (readT (\<lambda>s. line_job s l)) (\<lambda>source.
        bindT (get_or_create_cost_set (job_id destination) Actual) (\<lambda>c.
        bindT (getT (\<lambda>s.
            if \<not> bills_its_time s destination
            then meta_set ''bill_rate_multiplier'' (JNum 0) (meta_set ''is_billable'' (JBool False) m)
            else if \<not> bills_its_time s source \<and> \<not> billing_explicit
            then meta_pop ''bill_rate_multiplier'' (meta_set ''is_billable'' (JBool True) m)
            else m)) (\<lambda>m'.
        ret (l\<lparr>cost_set := cs_id c\<rparr>, m', c)))))"

definition moves_the_finish :: "entry_patch \<Rightarrow> bool" where
  "moves_the_finish u \<longleftrightarrow> u_hours u \<noteq> None \<or> u_start u \<noteq> None \<or> u_date u \<noteq> None"

definition require_break_times :: "clock \<Rightarrow> clock \<Rightarrow> unit res" where
  "require_break_times start finish =
     requireR (finish > start) (InvalidInput ''A break finishes after it starts.'')"

definition redraw_finish ::
  "(date \<Rightarrow> clock \<Rightarrow> int) \<Rightarrow> db \<Rightarrow> staff_row \<Rightarrow> cost_line \<Rightarrow> entry_patch \<Rightarrow> meta \<Rightarrow> meta res" where
  "redraw_finish z s who l u m =
     (if \<not> moves_the_finish u \<and> u_end u = None then Inr m
      else bindR (meta_time m ''start_time'') (\<lambda>start.
        if line_job_id s l = break_job (company s) then
          bindR (meta_time m ''end_time'') (\<lambda>finish.
          bindR (case start of None \<Rightarrow> Inr ()
                 | Some a \<Rightarrow> (case finish of None \<Rightarrow> Inr () | Some b \<Rightarrow> require_break_times a b)) (\<lambda>_. Inr m))
        else
          bindR (day_break_windows s who (accounting_date l)) (\<lambda>windows.
          if start = None \<or> u_end u \<noteq> None \<or> \<not> moves_the_finish u then
            bindR (meta_time m ''end_time'') (\<lambda>finish.
            bindR (fit_times z (accounting_date l) start finish (quantity l) windows) (\<lambda>(a, b).
            Inr (meta_set ''end_time'' (time_json b) (meta_set ''start_time'' (time_json a) m))))
          else
            (case finish_in_the_day (the start) (quantity l) windows of
               None \<Rightarrow> Inr (meta_set ''end_time'' JNull (meta_set ''start_time'' JNull m))
             | Some f \<Rightarrow> Inr (meta_set ''end_time'' (JTime f) m)))))"

definition reprice ::
  "staff_row \<Rightarrow> job_row \<Rightarrow> cost_line \<Rightarrow> meta \<Rightarrow> db \<Rightarrow> (cost_line \<times> meta) res" where
  "reprice who job l m s =
     bindR (charge_urgent_at_least job m) (\<lambda>m1.
     bindR (price_time_entry s job who m1 (labour_subtype l) None None) (\<lambda>p.
     Inr (l\<lparr>unit_cost := tp_unit_cost p, unit_rev := tp_unit_rev p, xero_pay_item := pricing_pay_item_id p,
            labour_subtype := Some (tp_labour_subtype p)\<rparr>,
          meta_update m1 (pricing_meta_updates p))))"

text \<open>
  \<open>update_entry\<close>. The two days a changed date touches are refilled in the order left, joined
  (the code iterates a set of two).
\<close>

definition update_entry ::
  "(date \<Rightarrow> clock \<Rightarrow> int) \<Rightarrow> staff_row \<Rightarrow> entry_patch \<Rightarrow> entry_location option \<Rightarrow> (db, entry_out) tx" where
  "update_entry z actor u loc =
     bindT (readT (\<lambda>s. editable_line s actor (u_entry u))) (\<lambda>stored.
     bindT (readT (\<lambda>s. owner_of s stored)) (\<lambda>who.
     bindT (getT (\<lambda>s. is_general_work_fill s stored)) (\<lambda>fill.
     seqT (requireT (\<not> (fill \<and> (u_start u \<noteq> None \<or> u_end u \<noteq> None \<or> u_hours u \<noteq> None)))
             (InvalidInput ''General work fills the time not on a job or a break.''))
     (bindT (readT (\<lambda>s. snapshot_if_entry s stored)) (\<lambda>was.
     bindT (getT (\<lambda>s. approval_off s stored)) (\<lambda>l0.
     bindT (readT (\<lambda>s. apply_scalar_changes u (l0, line_meta l0))) (\<lambda>(l1, m1, changed).
     bindT (readT (\<lambda>s. apply_billing_changes s u (l1, m1))) (\<lambda>(l2, m2, repriced).
     bindT (readT (\<lambda>s. line_job s l2)) (\<lambda>job0.
     let moves = (case u_job u of None \<Rightarrow> False | Some j \<Rightarrow> j \<noteq> job_id job0) in
     bindT (readT (\<lambda>s. if moves then get_job s (the (u_job u)) else Inr job0)) (\<lambda>job.
     bindT (if moves then bindT (move_time_line l2 job m2 (u_billable u \<noteq> None \<or> u_bill u \<noteq> None))
                            (\<lambda>(l, m, c). ret (l, m, Some c))
            else ret (l2, m2, None)) (\<lambda>(l3, m3, moved).
     bindT (readT (\<lambda>s. if repriced \<or> moves then reprice who job l3 m3 s else Inr (l3, m3))) (\<lambda>(l4, m4).
     seqT (requireT (changed \<or> repriced \<or> moves) (ValueErr ''No changes supplied.''))
     (bindT (readT (\<lambda>s. redraw_finish z s who l4 u m4)) (\<lambda>m5.
     bindT (save_line (l4\<lparr>line_meta := mark_break_edited m5\<rparr>)) (\<lambda>l5.
     seqT (case moved of None \<Rightarrow> ret () | Some c \<Rightarrow> update_latest_actual (job_id job) c)
     (bindT (getT (\<lambda>s. \<not> saved_remotely s actor loc)) (\<lambda>trust.
     seqT (record_timesheet_event (st_id actor)
             (if moved \<noteq> None then ''entry_moved'' else ''entry_updated'') l5 was trust)
     (seqT (forT (remdups [accounting_date stored, accounting_date l5])
              (\<lambda>day. seqT (refill_general_work z who day actor) (ret ())))
     (readT (\<lambda>s. entry_data s l5))))))))))))))))))))"

section \<open>Deleting an entry\<close>

definition general_work_off ::
  "staff_row \<Rightarrow> date \<Rightarrow> staff_row \<Rightarrow> entry_location option \<Rightarrow> (db, unit) tx" where
  "general_work_off who day actor loc =
     seqT (putT (\<lambda>s. s\<lparr>attendance_days := map (\<lambda>r. if ad_staff r = st_id who \<and> ad_date r = day
             then r\<lparr>general_work_fill := False\<rparr> else r) (attendance_days s)\<rparr>))
     (bindT (getT (\<lambda>s. \<not> saved_remotely s actor loc)) (\<lambda>trust.
     seqT (record_day_event (st_id actor) (st_id who) day ''general_work_off'' None None trust)
     (bindT (getT (\<lambda>s. filter (is_general_work_fill s) (day_time_lines s (st_id who) day))) (\<lambda>ls.
     forT ls (\<lambda>l. delete_day_line actor l loc)))))"

definition delete_entry ::
  "(date \<Rightarrow> clock \<Rightarrow> int) \<Rightarrow> staff_row \<Rightarrow> uuid \<Rightarrow> entry_location option \<Rightarrow> owner option \<Rightarrow> (db, unit) tx" where
  "delete_entry z actor i loc managed =
     bindT (readT (\<lambda>s. get_time_line s i)) (\<lambda>l.
     bindT (readT (\<lambda>s. owner_of s l)) (\<lambda>who.
     seqT (readT (\<lambda>s. refuse_another_persons_entry l actor))
     (seqT (readT (\<lambda>s. if managed_by l \<noteq> managed then refuse_workflow_managed l else Inr ()))
     (bindT (getT (\<lambda>s. is_general_work_fill s l)) (\<lambda>fill.
     if fill then general_work_off who (accounting_date l) actor loc
     else seqT (delete_day_line actor l loc)
            (seqT (refill_general_work z who (accounting_date l) actor) (ret ())))))))"

section \<open>The ledger through every write\<close>

lemma ledger_ok_frame:
  "ledger_ok (s\<lparr>jobs := j\<rparr>) = ledger_ok s" "ledger_ok (s\<lparr>attendance_days := a\<rparr>) = ledger_ok s"
  by (simp_all add: ledger_ok_def)

lemma fresh_id_keeps [keeps_intros]: "keeps ledger_ok fresh_id"
  by (rule keepsI) (auto simp: fresh_id_def ledger_ok_def)

lemma totals_of_none: "(\<And>l. l \<in> set ls \<Longrightarrow> cost_set l \<noteq> o') \<Longrightarrow> totals_of o' ls = \<lparr>sum_cost = 0, sum_rev = 0, sum_hours = 0\<rparr>"
  by (simp add: totals_of_def measure_in_def filter_empty_conv)

lemma get_or_create_cases:
  assumes "get_or_create_cost_set j k s = Inr (c, s')"
  shows "s' = s \<and> c \<in> set (cost_sets s) \<and> cs_job c = j \<and> cs_kind c = k
    \<or> cs_id c = next_id s \<and> cs_job c = j \<and> cs_kind c = k \<and> summary c = \<lparr>sum_cost = 0, sum_rev = 0, sum_hours = 0\<rparr>
        \<and> s' = s\<lparr>next_id := Suc (next_id s), cost_sets := cost_sets s @ [c]\<rparr>"
proof (cases "newest_cost_set s j k")
  case None
  with assms show ?thesis by (auto simp: get_or_create_cost_set_def tx_simps fresh_id_def Let_def)
next
  case (Some d)
  then obtain rest where "rev (sort_key cs_rev (filter (\<lambda>c. cs_job c = j \<and> cs_kind c = k) (cost_sets s))) = d # rest"
    by (auto simp: newest_cost_set_def split: list.splits)
  then have "d \<in> set (rev (sort_key cs_rev (filter (\<lambda>c. cs_job c = j \<and> cs_kind c = k) (cost_sets s))))" by simp
  with Some assms show ?thesis by (auto simp: get_or_create_cost_set_def tx_simps)
qed

lemma get_or_create_keeps [keeps_intros]: "keeps ledger_ok (get_or_create_cost_set j k)"
proof (rule keepsI)
  fix s c s'
  assume ok: "ledger_ok s" and run: "get_or_create_cost_set j k s = Inr (c, s')"
  from get_or_create_cases [OF run] show "ledger_ok s'"
  proof (elim disjE conjE)
    assume new: "cs_id c = next_id s" "summary c = \<lparr>sum_cost = 0, sum_rev = 0, sum_hours = 0\<rparr>"
      "s' = s\<lparr>next_id := Suc (next_id s), cost_sets := cost_sets s @ [c]\<rparr>"
    have "totals_of (next_id s) (cost_lines s) = \<lparr>sum_cost = 0, sum_rev = 0, sum_hours = 0\<rparr>"
      by (rule totals_of_none) (use ok in \<open>fastforce simp: ledger_ok_def\<close>)
    with ok new show ?thesis by (auto simp: ledger_ok_def)
  qed (use ok in simp)
qed

text \<open>
  What an invariant has to promise for every write of an entry to keep it, in three steps: the
  writes of single rows other than a line's values (\<open>entry_base\<close>; of an attendance row a write of
  entries changes the General-work mark only), then the making of an entry (\<open>entry_creation\<close>),
  then the change of one (\<open>entry_writes\<close>). The lemmas below carry the invariant through the
  handlers. An invariant that any save of a line keeps has all three (\<open>entry_invariant\<close>).
\<close>

locale entry_base =
  fixes I :: "db \<Rightarrow> bool"
  assumes fresh [keeps_intros]: "keeps I fresh_id"
    and sets [keeps_intros]: "keeps I (get_or_create_cost_set j k)"
    and job_rows: "I s \<Longrightarrow> I (s\<lparr>jobs := js\<rparr>)"
    and event: "I s \<Longrightarrow> I (s\<lparr>events := events s @ [e]\<rparr>)"
    and del [keeps_intros]: "keeps I (delete_line l)"
    and approve [keeps_intros]: "keeps I (save_approved l)"
    and mark_off: "I s \<Longrightarrow> I (s\<lparr>attendance_days := map (\<lambda>r. if P r then r\<lparr>general_work_fill := False\<rparr> else r)
      (attendance_days s)\<rparr>)"
begin

lemma update_latest_actual_keeps [keeps_intros]: "keeps I (update_latest_actual j c)"
  unfolding update_latest_actual_def by (intro keeps_intros keeps_putT job_rows)

lemma delete_day_line_keeps [keeps_intros]: "keeps I (delete_day_line actor l loc)"
  unfolding delete_day_line_def by (intro keeps_intros event)

lemma move_time_line_keeps [keeps_intros]: "keeps I (move_time_line l j m b)"
  unfolding move_time_line_def Let_def by (intro keeps_intros)

lemma general_work_off_keeps [keeps_intros]: "keeps I (general_work_off who day actor loc)"
  unfolding general_work_off_def by (intro keeps_intros event keeps_putT mark_off)

end

locale entry_creation = entry_base +
  assumes save_entry [keeps_intros]: "keeps I (save_entry actor who job d loc src man)"
begin

lemma save_day_entry_keeps [keeps_intros]: "keeps I (save_day_entry z actor who d loc src man)"
  unfolding save_day_entry_def Let_def by (intro keeps_intros)

lemma create_swept_keeps [keeps_intros]: "keeps I (create_swept z actor who d)"
  unfolding create_swept_def by (intro keeps_intros)

lemma fill_window_keeps [keeps_intros]: "keeps I (fill_window z actor who j day w)"
  unfolding fill_window_def by (intro keeps_intros)

lemma refill_keeps [keeps_intros]: "keeps I (refill_general_work z who day actor)"
  unfolding refill_general_work_def Let_def by (intro keeps_intros)

lemma create_entry_keeps [keeps_intros]: "keeps I (create_entry z actor who d loc src man)"
  unfolding create_entry_def by (intro keeps_intros)

lemma delete_entry_keeps [keeps_intros]: "keeps I (delete_entry z actor i loc man)"
  unfolding delete_entry_def by (intro keeps_intros)

end

locale entry_writes = entry_creation +
  assumes update_entry [keeps_intros]: "keeps I (update_entry z actor u loc)"

locale entry_invariant = entry_base +
  assumes save [keeps_intros]: "keeps I (save_line l)"
begin

lemma save_entry_keeps: "keeps I (save_entry actor who job d loc src man)"
  unfolding save_entry_def Let_def by (intro keeps_intros event)

end

sublocale entry_invariant < entry_creation
  by unfold_locales (rule save_entry_keeps)

context entry_invariant
begin

lemma update_entry_keeps: "keeps I (update_entry z actor u loc)"
  unfolding update_entry_def Let_def by (intro keeps_intros event)

end

sublocale entry_invariant < entry_writes
  by unfold_locales (rule update_entry_keeps)

interpretation ledger_entries: entry_invariant ledger_ok
  by unfold_locales (auto intro: keeps_intros simp: ledger_ok_frame)

section \<open>What one saved line is\<close>

definition fresh_lines :: "db \<Rightarrow> bool" where
  "fresh_lines s \<longleftrightarrow> (\<forall>l \<in> set (cost_lines s). line_id l < next_id s)"

lemma meta_get_update: "k \<notin> fst ` set u \<Longrightarrow> meta_get (meta_update m u) k = meta_get m k"
proof (induction u arbitrary: m)
  case (Cons x u)
  then show ?case by (cases x) simp
qed simp

lemma pricing_update_keys:
  "fst ` set (pricing_meta_updates p) \<subseteq> {''wage_rate_multiplier'', ''bill_rate_multiplier'', ''is_billable'',
     ''wage_rate'', ''charge_out_rate'', ''salary_term_id'', ''pay_basis''}"
  by (auto simp: pricing_meta_updates_def split: option.splits)

lemma priced_meta_get:
  assumes "k \<notin> {''wage_rate_multiplier'', ''bill_rate_multiplier'', ''is_billable'',
     ''wage_rate'', ''charge_out_rate'', ''salary_term_id'', ''pay_basis''}"
  shows "meta_get (meta_update m (pricing_meta_updates p)) k = meta_get m k"
  using assms pricing_update_keys [of p] by (intro meta_get_update) auto

lemma entry_meta_get:
  "meta_get (entry_meta who d src) ''created_from_timesheet'' = JBool True"
  "meta_get (entry_meta who d src) ''staff_id'' = JStr (show_digits (st_id who))"
  "meta_get (entry_meta who d src) ''source'' = (case src of None \<Rightarrow> JNull | Some x \<Rightarrow> JStr x)"
  "meta_get (entry_meta who d src) ''start_time'' = (case d_start d of None \<Rightarrow> JNull | Some t \<Rightarrow> JTime t)"
  "meta_get (entry_meta who d src) ''end_time'' = (case d_end d of None \<Rightarrow> JNull | Some t \<Rightarrow> JTime t)"
  by (simp_all add: entry_meta_def pricing_meta_def meta_get_def split: option.splits)

lemma get_or_create_frame:
  assumes "get_or_create_cost_set j k s = Inr (c, s')"
  shows "cost_lines s' = cost_lines s" "events s' = events s" "next_id s \<le> next_id s'" "company s' = company s"
    "attendance_days s' = attendance_days s" "leave_types s' = leave_types s"
  using get_or_create_cases [OF assms] by auto

lemma update_latest_actual_frame:
  assumes "update_latest_actual j c s = Inr (u, s')"
  shows "cost_lines s' = cost_lines s" "events s' = events s" "next_id s' = next_id s" "cost_sets s' = cost_sets s"
    "company s' = company s" "attendance_days s' = attendance_days s" "leave_types s' = leave_types s"
  using assms by (auto simp: update_latest_actual_def tx_simps tx_Inr split: if_splits option.splits sum.splits)

lemma record_timesheet_event_entry:
  assumes "record_timesheet_event a t l w b s = Inr (u, s')" "is_timesheet_entry l"
  shows "\<exists>e. s' = s\<lparr>events := events s @ [e]\<rparr> \<and> ev_line e = Some (line_id l) \<and> ev_type e = t \<and> ev_staff e = a
    \<and> line_staff l = Some (ev_worker e) \<and> ev_date e = accounting_date l \<and> delta_before e = w \<and> trusted e = b"
proof -
  from assms obtain e where "timesheet_event_of s a t l w b = Inr e" "s' = s\<lparr>events := events s @ [e]\<rparr>"
    by (auto simp: record_timesheet_event_def add_event_def tx_Inr tx_prims)
  then show ?thesis by (intro exI [of _ e]) (auto simp: timesheet_event_of_def bindR_eq_Inr)
qed

lemma save_line_fresh:
  assumes "save_line l s = Inr (l', s')" "\<And>x. x \<in> set (cost_lines s) \<Longrightarrow> line_id x \<noteq> line_id l"
  shows "cost_lines s' = cost_lines s @ [l']" "l' = assign_entry_seq s l" "next_id s' = next_id s"
    "events s' = events s" "company s' = company s" "attendance_days s' = attendance_days s"
    "map cs_id (cost_sets s') = map cs_id (cost_sets s)" "leave_types s' = leave_types s"
proof -
  have l': "l' = assign_entry_seq s l" and s': "s' = record_line_change (get_line s (line_id l)) (Some l') (write_line l' s)"
    using assms(1) unfolding save_line_Inr by auto
  have "row_get line_id (line_id l) (cost_lines s) = None" using assms(2) by (fastforce simp: row_get_None)
  then show "cost_lines s' = cost_lines s @ [l']"
    unfolding s' by (simp add: write_line_def row_write_def l')
  show "l' = assign_entry_seq s l" by (rule l')
  show "next_id s' = next_id s" "events s' = events s" "company s' = company s" "attendance_days s' = attendance_days s"
    "leave_types s' = leave_types s"
    unfolding s' by (simp_all add: write_line_def)
  show "map cs_id (cost_sets s') = map cs_id (cost_sets s)"
    unfolding s' by (simp add: record_line_change_sets write_line_def comp_def)
qed

lemma save_entry_result:
  assumes run: "save_entry actor who job d loc src man s = Inr (l, s')" and fresh: "fresh_lines s"
  shows "cost_lines s' = cost_lines s @ [l] \<and> fresh_lines s' \<and> quantity l = d_hours d \<and> kind l = Time
    \<and> line_staff l = Some (st_id who) \<and> accounting_date l = d_date d \<and> approved l = (man \<noteq> None) \<and> managed_by l = man
    \<and> meta_get (line_meta l) ''staff_id'' = JStr (show_digits (st_id who)) \<and> is_timesheet_entry l
    \<and> meta_get (line_meta l) ''source'' = (case src of None \<Rightarrow> JNull | Some x \<Rightarrow> JStr x)
    \<and> (\<exists>e. events s' = events s @ [e] \<and> ev_line e = Some (line_id l) \<and> ev_type e = ''entry_created''
          \<and> ev_staff e = st_id actor \<and> ev_worker e = st_id who \<and> ev_date e = d_date d)
    \<and> company s' = company s \<and> attendance_days s' = attendance_days s"
proof -
  obtain c s1 subtype p l0 s2 s3 b s4 where
    c: "get_or_create_cost_set (job_id job) Actual s = Inr (c, s1)"
    and save: "save_line l0 (s1\<lparr>next_id := Suc (next_id s1)\<rparr>) = Inr (l, s2)"
    and l0: "line_id l0 = next_id s1" "quantity l0 = d_hours d" "kind l0 = Time" "line_staff l0 = Some (st_id who)"
      "accounting_date l0 = d_date d" "approved l0 = (man \<noteq> None)" "managed_by l0 = man"
      "line_meta l0 = meta_update (entry_meta who d src) (pricing_meta_updates p)"
    and upd: "update_latest_actual (job_id job) c s2 = Inr ((), s3)"
    and rec: "record_timesheet_event (st_id actor) ''entry_created'' l None b s3 = Inr ((), s')"
    using run unfolding save_entry_def Let_def
    by (clarsimp simp: tx_Inr tx_prims fresh_id_def)
  note f1 = get_or_create_frame [OF c]
  have new: "line_id x \<noteq> line_id l0" if "x \<in> set (cost_lines (s1\<lparr>next_id := Suc (next_id s1)\<rparr>))" for x
    using that fresh f1 l0(1) by (fastforce simp: fresh_lines_def)
  note f2 = save_line_fresh [OF save new]
  note f3 = update_latest_actual_frame [OF upd]
  have l: "quantity l = d_hours d" "kind l = Time" "line_staff l = Some (st_id who)" "accounting_date l = d_date d"
    "approved l = (man \<noteq> None)" "managed_by l = man" "line_id l = next_id s1"
    "line_meta l = meta_update (entry_meta who d src) (pricing_meta_updates p)"
    using f2(2) l0 by simp_all
  have entry: "is_timesheet_entry l" by (simp add: is_timesheet_entry_def l priced_meta_get entry_meta_get)
  from record_timesheet_event_entry [OF rec entry] obtain e where
    e: "s' = s3\<lparr>events := events s3 @ [e]\<rparr>" "ev_line e = Some (line_id l)" "ev_type e = ''entry_created''"
      "ev_staff e = st_id actor" "ev_worker e = st_id who" "ev_date e = d_date d"
    using l by auto
  have "cost_lines s' = cost_lines s @ [l]" using e(1) f1 f2 f3 by simp
  moreover have "fresh_lines s'" using fresh e(1) f1 f2 f3 l(7) by (fastforce simp: fresh_lines_def)
  moreover have "events s' = events s @ [e]" using e(1) f1 f2 f3 by simp
  moreover have "company s' = company s" "attendance_days s' = attendance_days s" using e(1) f1 f2 f3 by simp_all
  ultimately show ?thesis
    using entry by (intro conjI exI [of _ e]) (simp_all add: l e(2-) priced_meta_get entry_meta_get)
qed

lemma place_entry_facts:
  assumes "place_entry z who d man s = Inr d1"
  shows "d_hours d1 = d_hours d" "d_date d1 = d_date d" "d_job d1 = d_job d" "d_wage d1 = d_wage d"
    "d_bill d1 = d_bill d" "d_billable d1 = d_billable d"
  using assms by (auto simp: place_entry_def placed_def bindR_eq_Inr split: if_splits option.splits)

lemma prepare_entry_steps:
  assumes "prepare_entry z who d man s = Inr p"
  obtains u v job d1 where "refuse_bad_hours (d_hours d) = Inr u" "get_job s (d_job d) = Inr job"
    "place_entry z who d man s = Inr d1" "refuse_outside_employment who (d_date d) = Inr v"
    "overtime_part s who (d_date d) (d_hours d) (in_wage d) (Some (job_id job)) = Inr (pr_overtime p)"
    "pr_job p = job"
    "pr_data p = (if is_urgent job \<and> d_bill d1 = None \<and> in_billable d1 then d1\<lparr>d_bill := Some urgent_charge\<rparr> else d1)"
  using assms unfolding prepare_entry_def Let_def by (clarsimp simp: bindR_eq_Inr)

lemma prepare_entry_facts:
  assumes "prepare_entry z who d man s = Inr p"
  shows "d_hours (pr_data p) = d_hours d" "d_date (pr_data p) = d_date d" "0 < d_hours d" "d_hours d \<le> 24"
    "0 \<le> pr_overtime p" "pr_overtime p \<le> d_hours d"
    "is_active_on who (d_date d)" "get_job s (d_job d) = Inr (pr_job p)"
proof -
  from assms obtain u v job d1 where p: "refuse_bad_hours (d_hours d) = Inr u" "get_job s (d_job d) = Inr job"
    "place_entry z who d man s = Inr d1" "refuse_outside_employment who (d_date d) = Inr v"
    "overtime_part s who (d_date d) (d_hours d) (in_wage d) (Some (job_id job)) = Inr (pr_overtime p)"
    "pr_job p = job"
    "pr_data p = (if is_urgent job \<and> d_bill d1 = None \<and> in_billable d1 then d1\<lparr>d_bill := Some urgent_charge\<rparr> else d1)"
    by (rule prepare_entry_steps)
  show h: "0 < d_hours d" "d_hours d \<le> 24" using p(1) by (simp_all add: refuse_bad_hours_Inr)
  show "is_active_on who (d_date d)" using p(4) by (auto simp: refuse_outside_employment_def split: if_splits)
  show "get_job s (d_job d) = Inr (pr_job p)" using p by simp
  show "d_hours (pr_data p) = d_hours d" "d_date (pr_data p) = d_date d"
    using place_entry_facts [OF p(3)] p(7) by simp_all
  show "0 \<le> pr_overtime p" "pr_overtime p \<le> d_hours d" using overtime_part_bounds [OF p(5)] h by auto
qed

lemma at_overtime_facts [simp]: "d_hours (at_overtime d) = d_hours d" "d_date (at_overtime d) = d_date d"
  by (simp_all add: at_overtime_def Let_def split: option.splits)

lemma save_day_entry_result:
  assumes run: "save_day_entry z actor who d loc src man s = Inr (l, s')" and fresh: "fresh_lines s"
  shows "\<exists>new evs. cost_lines s' = cost_lines s @ new \<and> events s' = events s @ evs
    \<and> length new \<in> {1, 2} \<and> hd new = l \<and> sum_list (map quantity new) = d_hours d
    \<and> 0 < d_hours d \<and> d_hours d \<le> 24 \<and> is_active_on who (d_date d)
    \<and> (\<forall>x \<in> set new. kind x = Time \<and> line_staff x = Some (st_id who) \<and> accounting_date x = d_date d
         \<and> 0 \<le> quantity x \<and> approved x = (man \<noteq> None) \<and> managed_by x = man
         \<and> meta_get (line_meta x) ''source'' = (case src of None \<Rightarrow> JNull | Some m \<Rightarrow> JStr m))
    \<and> fresh_lines s' \<and> company s' = company s \<and> attendance_days s' = attendance_days s
    \<and> map ev_line evs = map (\<lambda>x. Some (line_id x)) new
    \<and> (\<forall>e \<in> set evs. ev_type e = ''entry_created'' \<and> ev_staff e = st_id actor \<and> ev_worker e = st_id who)"
proof -
  obtain p where p: "prepare_entry z who d man s = Inr p"
    and rest: "(let save = (\<lambda>x. save_entry actor who (pr_job p) x loc src man); x = pr_data p
     in if pr_overtime p = 0 then save x
        else if pr_overtime p = d_hours d then save (at_overtime x)
        else bindT (readT (\<lambda>s. split_at_overtime s who x (pr_overtime p))) (\<lambda>(ordinary, late).
             bindT (save ordinary) (\<lambda>l. seqT (save late) (ret l)))) s = Inr (l, s')"
    using run by (auto simp: save_day_entry_def tx_Inr)
  note pf = prepare_entry_facts [OF p]
  show ?thesis
  proof (cases "pr_overtime p = 0 \<or> pr_overtime p = d_hours d")
    case True
    define x where "x = (if pr_overtime p = 0 then pr_data p else at_overtime (pr_data p))"
    have "save_entry actor who (pr_job p) x loc src man s = Inr (l, s')" "d_hours x = d_hours d" "d_date x = d_date d"
      using True rest pf by (auto simp: Let_def x_def split: if_splits)
    from save_entry_result [OF this(1) fresh] this(2,3) pf
    show ?thesis by (elim conjE exE) (intro exI [of _ "[l]"], auto)
  next
    case False
    then obtain a b s1 l2 where split: "split_at_overtime s who (pr_data p) (pr_overtime p) = Inr (a, b)"
      and sa: "save_entry actor who (pr_job p) a loc src man s = Inr (l, s1)"
      and sb: "save_entry actor who (pr_job p) b loc src man s1 = Inr (l2, s')"
      using rest by (auto simp: Let_def tx_Inr tx_prims)
    note h = split_at_overtime_hours [OF split]
    note ra = save_entry_result [OF sa fresh]
    then have "fresh_lines s1" by blast
    note rb = save_entry_result [OF sb this]
    show ?thesis using ra rb h pf
      by (elim conjE exE) (intro exI [of _ "[l, l2]"], auto)
  qed
qed

text \<open>C16: An entry is saved as what was entered: one line, or two where it passes the usual day,
  whose hours add up to exactly the hours given, dated and owned as given, waiting for
  approval unless a workflow owns it; no other line changes, and each new line has an event
  of the trail naming it, who saved it and whose time it is.\<close>

theorem saved_entry_is_what_was_entered:
  assumes run: "save_day_entry z actor who d loc src man s = Inr (l, s')" and fresh: "fresh_lines s"
  shows "\<exists>new evs. cost_lines s' = cost_lines s @ new \<and> events s' = events s @ evs
    \<and> length new \<in> {1, 2} \<and> hd new = l \<and> sum_list (map quantity new) = d_hours d
    \<and> 0 < d_hours d \<and> d_hours d \<le> 24 \<and> is_active_on who (d_date d)
    \<and> (\<forall>x \<in> set new. kind x = Time \<and> line_staff x = Some (st_id who) \<and> accounting_date x = d_date d
         \<and> 0 \<le> quantity x \<and> approved x = (man \<noteq> None) \<and> managed_by x = man
         \<and> meta_get (line_meta x) ''source'' = (case src of None \<Rightarrow> JNull | Some m \<Rightarrow> JStr m))
    \<and> fresh_lines s' \<and> company s' = company s \<and> attendance_days s' = attendance_days s
    \<and> map ev_line evs = map (\<lambda>x. Some (line_id x)) new
    \<and> (\<forall>e \<in> set evs. ev_type e = ''entry_created'' \<and> ev_staff e = st_id actor \<and> ev_worker e = st_id who)"
  by (rule save_day_entry_result [OF run fresh])

section \<open>What a change leaves\<close>

lemma editable_line_Inr:
  assumes "editable_line s actor i = Inr l"
  shows "get_line s i = Some l" "kind l = Time" "managed_by l = None"
    "meta_get (line_meta l) ''staff_id'' = JStr (show_digits (st_id actor)) \<or> is_office_staff actor"
  using assms by (auto simp: editable_line_def bindR_eq_Inr get_time_line_def refuse_another_persons_entry_def
      refuse_workflow_managed_def split: option.splits owner.splits if_splits)

lemma apply_scalar_approved:
  "apply_scalar_changes u (l, m) = Inr (l', m', c) \<Longrightarrow> approved l' = approved l \<and> line_id l' = line_id l
     \<and> kind l' = kind l \<and> managed_by l' = managed_by l"
  by (auto simp: apply_scalar_changes_def Let_def bindR_eq_Inr split: option.splits)

lemma apply_billing_approved:
  "apply_billing_changes s u (l, m) = Inr (l', m', c) \<Longrightarrow> approved l' = approved l \<and> line_id l' = line_id l
     \<and> kind l' = kind l \<and> managed_by l' = managed_by l"
  by (auto simp: apply_billing_changes_def Let_def bindR_eq_Inr split: option.splits)

lemma move_time_line_approved:
  "move_time_line l j m b s = Inr ((l', m', c), s') \<Longrightarrow> approved l' = approved l \<and> line_id l' = line_id l
     \<and> kind l' = kind l \<and> managed_by l' = managed_by l"
  by (auto simp: move_time_line_def tx_Inr tx_prims Let_def split: if_splits)

lemma reprice_approved:
  "reprice who j l m s = Inr (l', m') \<Longrightarrow> approved l' = approved l \<and> line_id l' = line_id l
     \<and> kind l' = kind l \<and> managed_by l' = managed_by l"
  by (auto simp: reprice_def bindR_eq_Inr)

lemma entry_data_Inr:
  "entry_data s l = Inr e \<Longrightarrow> e_id e = line_id l \<and> e_hours e = quantity l \<and> e_date e = accounting_date l
     \<and> e_approved e = approved l"
  by (auto simp: entry_data_def bindR_eq_Inr)

lemma maybe_move_approved:
  "(if c then bindT (move_time_line l j m b) (\<lambda>(l, m, x). ret (l, m, Some x)) else ret (l, m, None)) s
      = Inr ((l', m', y), s') \<Longrightarrow> approved l' = approved l \<and> line_id l' = line_id l
     \<and> kind l' = kind l \<and> managed_by l' = managed_by l"
  by (auto simp: tx_Inr tx_prims split: if_splits dest: move_time_line_approved)

lemma maybe_reprice_approved:
  "(if c then reprice who j l m s else Inr (l, m)) = Inr (l', m') \<Longrightarrow> approved l' = approved l \<and> line_id l' = line_id l
     \<and> kind l' = kind l \<and> managed_by l' = managed_by l"
  by (auto split: if_splits dest: reprice_approved)

definition may_not_change :: "staff_row \<Rightarrow> cost_line \<Rightarrow> bool" where
  "may_not_change actor l \<longleftrightarrow> managed_by l \<noteq> None
     \<or> meta_get (line_meta l) ''staff_id'' \<noteq> JStr (show_digits (st_id actor)) \<and> \<not> is_office_staff actor"

text \<open>C28: Another person's entry, or one a workflow owns, is refused and nothing is written: only
  its owner or the office changes or deletes an entry, and leave and stock lines only through
  the workflow that owns them.\<close>

theorem entries_are_the_owners_own:
  assumes "get_line s i = Some l" and "kind l = Time" and "may_not_change actor l"
  shows "(u_entry u = i \<longrightarrow> (\<exists>x. update_entry z actor u loc s = Inl x))
    \<and> (\<exists>x. delete_entry z actor i loc None s = Inl x)"
proof (intro conjI impI)
  have line: "get_time_line s i = Inr l" using assms(1,2) by (simp add: get_time_line_def)
  show "\<exists>x. update_entry z actor u loc s = Inl x" if "u_entry u = i"
  proof -
    have "\<exists>x. editable_line s actor (u_entry u) = Inl x"
      using assms(3) line that
      by (auto simp: editable_line_def may_not_change_def refuse_another_persons_entry_def refuse_workflow_managed_def
          requireR_def split: owner.splits)
    then show ?thesis by (auto simp: update_entry_def bindT_run readT_run)
  qed
  show "\<exists>x. delete_entry z actor i loc None s = Inl x"
    using assms(3) line
    by (cases "owner_of s l"; cases "managed_by l")
      (auto simp: delete_entry_def tx_simps may_not_change_def refuse_another_persons_entry_def
        refuse_workflow_managed_def requireR_def split: owner.splits)
qed

section \<open>What turning General work off or remaking it leaves\<close>

definition same_sets :: "db \<Rightarrow> db \<Rightarrow> bool" where
  "same_sets s s' \<longleftrightarrow> (\<forall>i. map_option cs_job (get_cost_set s' i) = map_option cs_job (get_cost_set s i)
     \<and> map_option cs_kind (get_cost_set s' i) = map_option cs_kind (get_cost_set s i))"

lemma row_get_map:
  "(\<And>x. key (f x) = key x) \<Longrightarrow> row_get key k (map f rows) = map_option f (row_get key k rows)"
  by (induction rows) (auto simp: row_get_def)

lemma delete_line_frame:
  assumes "delete_line l s = Inr (u, s')"
  shows "cost_lines s' = row_del line_id (line_id l) (cost_lines s)" "next_id s' = next_id s" "events s' = events s"
    "company s' = company s" "attendance_days s' = attendance_days s" "same_sets s s'"
proof -
  have s': "s' = record_line_change (get_line s (line_id l)) None (s\<lparr>cost_lines := row_del line_id (line_id l) (cost_lines s)\<rparr>)"
    using assms by (auto simp: delete_line_def Let_def split: if_splits)
  show "cost_lines s' = row_del line_id (line_id l) (cost_lines s)" "next_id s' = next_id s" "events s' = events s"
    "company s' = company s" "attendance_days s' = attendance_days s" unfolding s' by simp_all
  show "same_sets s s'"
    unfolding s' same_sets_def get_cost_set_def record_line_change_sets
    by (subst (1 2) row_get_map) (auto simp: option.map_comp comp_def)
qed

lemma record_timesheet_event_frame:
  assumes "record_timesheet_event a t l w b s = Inr (u, s')"
  shows "\<exists>evs. s' = s\<lparr>events := events s @ evs\<rparr>"
proof (cases "is_timesheet_entry l")
  case True
  then show ?thesis using record_timesheet_event_entry [OF assms] by blast
next
  case False
  then show ?thesis using assms by (intro exI [of _ "[]"]) (simp add: record_timesheet_event_def ret_run)
qed

lemma delete_day_line_frame:
  assumes "delete_day_line actor l loc s = Inr (u, s')"
  shows "cost_lines s' = row_del line_id (line_id l) (cost_lines s)" "next_id s' = next_id s"
    "company s' = company s" "attendance_days s' = attendance_days s" "same_sets s s'"
proof -
  from assms obtain was b s1 where
    rec: "record_timesheet_event (st_id actor) ''entry_deleted'' l was b s = Inr ((), s1)"
    and del: "delete_line l s1 = Inr ((), s')"
    by (auto simp: delete_day_line_def tx_Inr tx_prims)
  from record_timesheet_event_frame [OF rec] obtain evs where s1: "s1 = s\<lparr>events := events s @ evs\<rparr>" by blast
  note f = delete_line_frame [OF del]
  show "cost_lines s' = row_del line_id (line_id l) (cost_lines s)" "next_id s' = next_id s"
    "company s' = company s" "attendance_days s' = attendance_days s" "same_sets s s'"
    using f s1 by (simp_all add: same_sets_def get_cost_set_def)
qed

lemma delete_day_lines_frame:
  "forT ls (\<lambda>l. delete_day_line actor l loc) s = Inr (u, s') \<Longrightarrow>
     cost_lines s' = filter (\<lambda>x. line_id x \<notin> line_id ` set ls) (cost_lines s) \<and> next_id s' = next_id s
     \<and> company s' = company s \<and> attendance_days s' = attendance_days s \<and> same_sets s s'"
proof (induction ls arbitrary: s)
  case Nil
  then show ?case by (simp add: ret_run same_sets_def)
next
  case (Cons l ls)
  then obtain s1 where d: "delete_day_line actor l loc s = Inr ((), s1)"
    and r: "forT ls (\<lambda>l. delete_day_line actor l loc) s1 = Inr (u, s')" by (auto simp: tx_Inr)
  from delete_day_line_frame [OF d] Cons.IH [OF r] show ?case
    by (auto simp: row_del_def same_sets_def intro: filter_cong)
qed

lemma same_sets_reads:
  assumes "same_sets s s'" "company s' = company s"
  shows "line_job_id s' l = line_job_id s l" "is_actual_time s' l = is_actual_time s l"
    "is_general_work_fill s' l = is_general_work_fill s l"
  using assms by (simp_all add: same_sets_def line_job_id_def is_actual_time_def line_set_kind_def is_general_work_fill_def)

text \<open>Deleting one line of the General work that fills a day turns the fill off, all of it: the
  day's mark goes, no line of the fill is left on the day, and no other line is touched.\<close>

theorem general_work_off_takes_all_of_it:
  assumes "general_work_off who day actor loc s = Inr (u, s')"
  shows "filter (is_general_work_fill s') (day_time_lines s' (st_id who) day) = []
    \<and> (\<forall>r \<in> set (attendance_days s'). ad_staff r = st_id who \<and> ad_date r = day \<longrightarrow> \<not> general_work_fill r)
    \<and> cost_lines s' = filter (\<lambda>x. line_id x \<notin> line_id ` set (filter (is_general_work_fill s)
         (day_time_lines s (st_id who) day))) (cost_lines s)"
proof -
  let ?a = "map (\<lambda>r. if ad_staff r = st_id who \<and> ad_date r = day then r\<lparr>general_work_fill := False\<rparr> else r) (attendance_days s)"
  from assms obtain e where
    del: "forT (filter (is_general_work_fill (s\<lparr>attendance_days := ?a, events := e\<rparr>))
             (day_time_lines (s\<lparr>attendance_days := ?a, events := e\<rparr>) (st_id who) day))
           (\<lambda>l. delete_day_line actor l loc) (s\<lparr>attendance_days := ?a, events := e\<rparr>) = Inr (u, s')"
    by (auto simp: general_work_off_def tx_Inr tx_prims record_day_event_def add_event_def)
  let ?s = "s\<lparr>attendance_days := ?a, events := e\<rparr>"
  have "same_sets s ?s" "company ?s = company s" by (simp_all add: same_sets_def get_cost_set_def)
  note reads = same_sets_reads [OF this]
  have lines: "day_time_lines ?s (st_id who) day = day_time_lines s (st_id who) day"
    by (simp add: day_time_lines_def reads)
  have fill: "is_general_work_fill ?s = is_general_work_fill s" using reads(3) by blast
  note f = delete_day_lines_frame [OF del [unfolded lines fill]]
  then have "same_sets ?s s'" "company s' = company ?s" by auto
  note reads' = same_sets_reads [OF this]
  let ?fill = "filter (is_general_work_fill s) (day_time_lines s (st_id who) day)"
  have kept: "cost_lines s' = filter (\<lambda>x. line_id x \<notin> line_id ` set ?fill) (cost_lines s)"
    and att: "attendance_days s' = ?a" using f by simp_all
  have "is_general_work_fill s' x \<longleftrightarrow> is_general_work_fill s x" "is_actual_time s' x \<longleftrightarrow> is_actual_time s x" for x
    by (simp_all add: reads reads')
  then have "x \<in> set ?fill" if "x \<in> set (day_time_lines s' (st_id who) day)" "is_general_work_fill s' x" for x
    using that kept by (simp add: day_time_lines_def)
  moreover have "line_id x \<notin> line_id ` set ?fill" if "x \<in> set (day_time_lines s' (st_id who) day)" for x
    using that unfolding day_time_lines_def kept by simp
  ultimately have "filter (is_general_work_fill s') (day_time_lines s' (st_id who) day) = []"
    unfolding filter_empty_conv by blast
  moreover have "\<forall>r \<in> set (attendance_days s'). ad_staff r = st_id who \<and> ad_date r = day \<longrightarrow> \<not> general_work_fill r"
  proof (intro ballI impI)
    fix r
    assume r: "r \<in> set (attendance_days s')" "ad_staff r = st_id who \<and> ad_date r = day"
    then obtain r0 where "r = (if ad_staff r0 = st_id who \<and> ad_date r0 = day then r0\<lparr>general_work_fill := False\<rparr> else r0)"
      unfolding att set_map by blast
    with r(2) show "\<not> general_work_fill r"
      by (cases "ad_staff r0 = st_id who \<and> ad_date r0 = day") simp_all
  qed
  ultimately show ?thesis using kept by blast
qed

text \<open>What the refill's own entries add.\<close>

lemma create_swept_result:
  assumes "create_swept z actor who (swept_entry j day w h) s = Inr (e, s')" "fresh_lines s"
  shows "\<exists>new. cost_lines s' = cost_lines s @ new \<and> sum_list (map quantity new) = h \<and> fresh_lines s'
    \<and> (\<forall>x \<in> set new. line_staff x = Some (st_id who) \<and> accounting_date x = day \<and> \<not> approved x
         \<and> meta_get (line_meta x) ''source'' = JStr swept_general_work)"
proof -
  from assms(1) obtain l where "save_day_entry z actor who (swept_entry j day w h) None (Some swept_general_work) None s = Inr (l, s')"
    by (auto simp: create_swept_def tx_Inr)
  from save_day_entry_result [OF this assms(2)] show ?thesis
    by (elim exE conjE) (rule exI, intro conjI, assumption, simp_all add: swept_entry_def)
qed

lemma fill_window_Inr:
  "fill_window z actor who j day w s = Inr (u, s') \<longleftrightarrow>
     (\<exists>h e. hours_for (w_start w) (w_end w) [] = Inr h \<and> create_swept z actor who (swept_entry j day w h) s = Inr (e, s'))"
  by (auto simp: fill_window_def tx_Inr ret_def)

lemma create_all_result:
  "forT ws (fill_window z actor who j day) s = Inr ((), s') \<Longrightarrow>
    fresh_lines s \<Longrightarrow> mapR (\<lambda>w. hours_for (w_start w) (w_end w) []) ws = Inr hs \<Longrightarrow>
    \<exists>new. cost_lines s' = cost_lines s @ new \<and> sum_list (map quantity new) = sum_list hs \<and> fresh_lines s'
    \<and> (\<forall>x \<in> set new. line_staff x = Some (st_id who) \<and> accounting_date x = day \<and> \<not> approved x
         \<and> meta_get (line_meta x) ''source'' = JStr swept_general_work)"
proof (induction ws arbitrary: s hs)
  case Nil
  then show ?case by (auto simp: ret_run)
next
  case (Cons w ws)
  then obtain h s1 e hs' where h: "hours_for (w_start w) (w_end w) [] = Inr h"
    and c: "create_swept z actor who (swept_entry j day w h) s = Inr (e, s1)"
    and r: "forT ws (fill_window z actor who j day) s1 = Inr ((), s')"
    and hs: "mapR (\<lambda>w. hours_for (w_start w) (w_end w) []) ws = Inr hs'" "hs = h # hs'"
    by (auto simp: fill_window_Inr tx_Inr bindR_eq_Inr)
  from create_swept_result [OF c Cons.prems(2)] obtain n1 where
    n1: "cost_lines s1 = cost_lines s @ n1" "sum_list (map quantity n1) = h" "fresh_lines s1"
      "\<forall>x \<in> set n1. line_staff x = Some (st_id who) \<and> accounting_date x = day \<and> \<not> approved x
         \<and> meta_get (line_meta x) ''source'' = JStr swept_general_work" by blast
  from Cons.IH [OF r n1(3) hs(1)] obtain n2 where
    n2: "cost_lines s' = cost_lines s1 @ n2" "sum_list (map quantity n2) = sum_list hs'" "fresh_lines s'"
      "\<forall>x \<in> set n2. line_staff x = Some (st_id who) \<and> accounting_date x = day \<and> \<not> approved x
         \<and> meta_get (line_meta x) ''source'' = JStr swept_general_work" by blast
  show ?case using n1 n2 hs(2) by (intro exI [of _ "n1 @ n2"]) auto
qed

lemma refill_result:
  assumes "refill_general_work z who day actor s = Inr (h, s')" and "fresh_lines s"
  shows "s' = s \<and> h = 0 \<or>
    (\<exists>new. fresh_lines s' \<and> cost_lines s' = filter (\<lambda>x. line_id x \<notin> line_id ` set (filter (is_general_work_fill s)
             (day_time_lines s (st_id who) day))) (cost_lines s) @ new
       \<and> sum_list (map quantity new) = h
       \<and> (\<forall>x \<in> set new. line_staff x = Some (st_id who) \<and> accounting_date x = day \<and> \<not> approved x
           \<and> meta_get (line_meta x) ''source'' = JStr swept_general_work))"
proof (cases "s' = s \<and> h = 0")
  case False
  let ?fill = "filter (is_general_work_fill s) (day_time_lines s (st_id who) day)"
  have "\<exists>j ws s1 hs. forT ?fill (\<lambda>l. delete_day_line actor l None) s = Inr ((), s1)
    \<and> forT ws (fill_window z actor who j day) s1 = Inr ((), s')
    \<and> mapR (\<lambda>w. hours_for (w_start w) (w_end w) []) ws = Inr hs \<and> h = sum_list hs"
    using assms(1) False unfolding refill_general_work_def Let_def
    by (clarsimp simp: tx_Inr tx_prims split_def split: if_splits) blast
  then obtain j ws s1 hs where del: "forT ?fill (\<lambda>l. delete_day_line actor l None) s = Inr ((), s1)"
    and cr: "forT ws (fill_window z actor who j day) s1 = Inr ((), s')"
    and hs: "mapR (\<lambda>w. hours_for (w_start w) (w_end w) []) ws = Inr hs" "h = sum_list hs" by blast
  note f = delete_day_lines_frame [OF del]
  have "fresh_lines s1" using f assms(2) by (simp add: fresh_lines_def)
  from create_all_result [OF cr this hs(1)] f hs(2) show ?thesis by auto
qed simp

text \<open>C23: Remaking a day's General work either changes nothing, or takes off exactly the lines of
  the old fill and adds lines whose hours add up to what it reports, all his, on that day,
  marked as General work and waiting for approval. Every entry and break stays as it was.\<close>

theorem refill_replaces_only_the_fill:
  assumes "refill_general_work z who day actor s = Inr (h, s')" and "fresh_lines s"
  shows "s' = s \<and> h = 0 \<or>
    (\<exists>new. cost_lines s' = filter (\<lambda>x. line_id x \<notin> line_id ` set (filter (is_general_work_fill s)
             (day_time_lines s (st_id who) day))) (cost_lines s) @ new
       \<and> sum_list (map quantity new) = h
       \<and> (\<forall>x \<in> set new. line_staff x = Some (st_id who) \<and> accounting_date x = day \<and> \<not> approved x
           \<and> meta_get (line_meta x) ''source'' = JStr swept_general_work))"
  using refill_result [OF assms] by blast

section \<open>What a change leaves stored\<close>

lemma meta_source_kept:
  "apply_scalar_changes u (l, m) = Inr (l', m', c) \<Longrightarrow> meta_get m' ''source'' = meta_get m ''source''"
  "apply_billing_changes s u (l, m) = Inr (l', m', c) \<Longrightarrow> meta_get m' ''source'' = meta_get m ''source''"
  "charge_urgent_at_least j m = Inr m' \<Longrightarrow> meta_get m' ''source'' = meta_get m ''source''"
  "redraw_finish z s who l u m = Inr m' \<Longrightarrow> meta_get m' ''source'' = meta_get m ''source''"
  by (auto simp: apply_scalar_changes_def apply_billing_changes_def charge_urgent_at_least_def redraw_finish_def Let_def
      bindR_eq_Inr split: option.splits if_splits bool.splits decimal_text.splits)

lemma moved_source_kept:
  "(if c then bindT (move_time_line l j m b) (\<lambda>(l, m, x). ret (l, m, Some x)) else ret (l, m, None)) s
      = Inr ((l', m', y), s') \<Longrightarrow> meta_get m' ''source'' = meta_get m ''source''"
  by (auto simp: move_time_line_def tx_Inr tx_prims Let_def split: if_splits)

lemma repriced_source_kept:
  "(if c then reprice who j l m s else Inr (l, m)) = Inr (l', m') \<Longrightarrow> meta_get m' ''source'' = meta_get m ''source''"
  by (auto simp: reprice_def bindR_eq_Inr priced_meta_get meta_source_kept(3) split: if_splits)

lemma moved_frame:
  assumes "(if c then bindT (move_time_line l j m b) (\<lambda>(l, m, x). ret (l, m, Some x)) else ret (l, m, None)) s
      = Inr ((l', m', y), s')"
  shows "cost_lines s' = cost_lines s" "next_id s \<le> next_id s'" "ledger_ok s \<Longrightarrow> ledger_ok s'"
proof -
  show "cost_lines s' = cost_lines s" "next_id s \<le> next_id s'"
    using assms by (auto simp: move_time_line_def tx_Inr tx_prims Let_def dest: get_or_create_frame split: if_splits)
  have "keeps ledger_ok (if c then bindT (move_time_line l j m b) (\<lambda>(l, m, x). ret (l, m, Some x)) else ret (l, m, None))"
    by (intro keeps_intros ledger_entries.move_time_line_keeps)
  from keepsD [OF this _ assms] show "ledger_ok s \<Longrightarrow> ledger_ok s'" .
qed

lemma update_entry_path:
  assumes "update_entry z actor u loc s = Inr (e, s')"
  obtains stored who l1 m1 c1 l2 m2 c2 l3 m3 x s3 l4 m4 m5 l5 s4 s5 s6 where
    "editable_line s actor (u_entry u) = Inr stored"
    "apply_scalar_changes u (approval_off s stored, line_meta (approval_off s stored)) = Inr (l1, m1, c1)"
    "apply_billing_changes s u (l1, m1) = Inr (l2, m2, c2)"
    "\<exists>c j b. (if c then bindT (move_time_line l2 j m2 b) (\<lambda>(l, m, x). ret (l, m, Some x)) else ret (l2, m2, None)) s
      = Inr ((l3, m3, x), s3)"
    "\<exists>c j. (if c then reprice who j l3 m3 s3 else Inr (l3, m3)) = Inr (l4, m4)"
    "redraw_finish z s3 who l4 u m4 = Inr m5"
    "save_line (l4\<lparr>line_meta := mark_break_edited m5\<rparr>) s3 = Inr (l5, s4)"
    "\<exists>j. (case x of None \<Rightarrow> ret () | Some c \<Rightarrow> update_latest_actual j c) s4 = Inr ((), s5)"
    "\<exists>a t w b. record_timesheet_event a t l5 w b s5 = Inr ((), s6)"
    "\<exists>days. forT days (\<lambda>day. seqT (refill_general_work z who day actor) (ret ())) s6 = Inr ((), s')"
    "entry_data s' l5 = Inr e"
  using assms unfolding update_entry_def Let_def
  apply (clarsimp simp: tx_Inr tx_prims)
  apply (rule that)
  apply (assumption | rule exI)+
  done

text \<open>What a refill leaves of a line: an unapproved line stays unapproved, and a line that is not part
  of the fill stays.\<close>

definition changed_line :: "cost_line \<Rightarrow> db \<Rightarrow> bool" where
  "changed_line l s \<longleftrightarrow> ledger_ok s \<and> fresh_lines s
     \<and> (\<forall>x \<in> set (cost_lines s). line_id x = line_id l \<longrightarrow> \<not> approved x)
     \<and> (meta_get (line_meta l) ''source'' \<noteq> JStr swept_general_work \<longrightarrow> l \<in> set (cost_lines s))"

lemma changed_line_frame:
  assumes "changed_line l s" "cost_lines s' = cost_lines s" "next_id s' = next_id s" "ledger_ok s'"
  shows "changed_line l s'"
  using assms by (simp add: changed_line_def fresh_lines_def)

lemma refill_changed:
  assumes "changed_line l s" and run: "refill_general_work z who day actor s = Inr (h, s')"
  shows "changed_line l s'"
proof -
  have ok: "ledger_ok s" "fresh_lines s" using assms(1) by (simp_all add: changed_line_def)
  have ok': "ledger_ok s'" by (rule keepsD [OF ledger_entries.refill_keeps ok(1) run])
  from refill_result [OF run ok(2)] show ?thesis
  proof (elim disjE exE conjE)
    fix new
    let ?fill = "filter (is_general_work_fill s) (day_time_lines s (st_id who) day)"
    assume fresh: "fresh_lines s'" and lines: "cost_lines s' = filter (\<lambda>x. line_id x \<notin> line_id ` set ?fill) (cost_lines s) @ new"
      and new: "\<forall>x \<in> set new. line_staff x = Some (st_id who) \<and> accounting_date x = day \<and> \<not> approved x
        \<and> meta_get (line_meta x) ''source'' = JStr swept_general_work"
    have "l \<in> set (cost_lines s')"
      if src: "meta_get (line_meta l) ''source'' \<noteq> JStr swept_general_work" and l: "l \<in> set (cost_lines s)"
    proof -
      have "line_id l \<notin> line_id ` set ?fill"
      proof
        assume "line_id l \<in> line_id ` set ?fill"
        then obtain y where y: "y \<in> set ?fill" "line_id y = line_id l" by auto
        then have "y \<in> set (cost_lines s)" by (simp add: day_time_lines_def)
        moreover have "inj_on line_id (set (cost_lines s))" using ok(1) by (simp add: ledger_ok_def distinct_map)
        ultimately have "y = l" using y(2) l by (auto dest: inj_onD)
        with y(1) src show False by (simp add: is_general_work_fill_def)
      qed
      with l lines show ?thesis by simp
    qed
    with assms(1) ok' fresh lines new show ?thesis by (auto simp: changed_line_def)
  qed (use assms(1) in simp)
qed

lemma refills_changed:
  "keeps (changed_line l) (forT days (\<lambda>day. seqT (refill_general_work z who day actor) (ret ())))"
  by (intro keeps_intros keepsI) (rule refill_changed)

lemma same_line:
  "ledger_ok s \<Longrightarrow> x \<in> set (cost_lines s) \<Longrightarrow> y \<in> set (cost_lines s) \<Longrightarrow> line_id x = line_id y \<Longrightarrow> x = y"
  by (auto simp: ledger_ok_def distinct_map dest: inj_onD)

lemma saved_changed:
  assumes "save_line l0 s = Inr (l, s')" "ledger_ok s" "fresh_lines s" "line_id l0 < next_id s" "\<not> approved l0"
  shows "changed_line l s'"
proof -
  have l: "l = assign_entry_seq s l0" and s': "cost_lines s' = row_write line_id l (cost_lines s)" "next_id s' = next_id s"
    using assms(1) unfolding save_line_Inr by (simp_all add: write_line_def)
  have ok: "ledger_ok s'" by (rule keepsD [OF save_line_keeps_ledger assms(2,1)])
  have same: "line_id l = line_id l0" "approved l = approved l0" by (simp_all add: l)
  have stored: "l \<in> set (cost_lines s')"
    using save_line_stored [OF assms(1)] by (auto simp: get_line_def dest: row_get_Some)
  have "x = l" if "x \<in> set (cost_lines s')" "line_id x = line_id l" for x
    by (rule same_line [OF ok that(1) stored that(2)])
  moreover have "fresh_lines s'"
    using assms(3,4) same(1) by (auto simp: fresh_lines_def s' dest!: row_write_in)
  ultimately show ?thesis using ok stored same(2) assms(5) unfolding changed_line_def by blast
qed

text \<open>C29: A change to worked time is never approved by making it, whoever makes it, the office included:
  the entry that is answered waits for approval under the number it had, the line stored under that
  number waits too, and is the line answered. Only a line of the General work that fills a day may be gone
  afterwards, where remaking that day's General work replaced it by others.\<close>

theorem a_change_takes_the_approval_off:
  assumes "update_entry z actor u loc s = Inr (e, s')" and "ledger_ok s" and "fresh_lines s"
    and "get_line s (u_entry u) = Some stored" and "is_actual_time s stored"
  shows "\<not> e_approved e \<and> e_id e = u_entry u
    \<and> (case get_line s' (u_entry u) of
         Some l \<Rightarrow> \<not> approved l
           \<and> (meta_get (line_meta stored) ''source'' \<noteq> JStr swept_general_work \<longrightarrow> quantity l = e_hours e \<and> accounting_date l = e_date e)
       | None \<Rightarrow> meta_get (line_meta stored) ''source'' = JStr swept_general_work)"
  using assms(1)
proof (rule update_entry_path)
  fix st who l1 m1 c1 l2 m2 c2 l3 m3 x s3 l4 m4 m5 l5 s4 s5 s6
  assume ed: "editable_line s actor (u_entry u) = Inr st"
    and sc: "apply_scalar_changes u (approval_off s st, line_meta (approval_off s st)) = Inr (l1, m1, c1)"
    and bi: "apply_billing_changes s u (l1, m1) = Inr (l2, m2, c2)"
    and mv: "\<exists>c j b. (if c then bindT (move_time_line l2 j m2 b) (\<lambda>(l, m, x). ret (l, m, Some x)) else ret (l2, m2, None)) s
      = Inr ((l3, m3, x), s3)"
    and rp: "\<exists>c j. (if c then reprice who j l3 m3 s3 else Inr (l3, m3)) = Inr (l4, m4)"
    and rd: "redraw_finish z s3 who l4 u m4 = Inr m5"
    and sv: "save_line (l4\<lparr>line_meta := mark_break_edited m5\<rparr>) s3 = Inr (l5, s4)"
    and la: "\<exists>j. (case x of None \<Rightarrow> ret () | Some c \<Rightarrow> update_latest_actual j c) s4 = Inr ((), s5)"
    and ev: "\<exists>a t w b. record_timesheet_event a t l5 w b s5 = Inr ((), s6)"
    and rf: "\<exists>days. forT days (\<lambda>day. seqT (refill_general_work z who day actor) (ret ())) s6 = Inr ((), s')"
    and out: "entry_data s' l5 = Inr e"
  have st: "st = stored" using editable_line_Inr(1) [OF ed] assms(4) by simp
  have id: "line_id stored = u_entry u" "stored \<in> set (cost_lines s)" using row_get_Some assms(4) by (fastforce simp: get_line_def)+
  have off: "\<not> approved (approval_off s stored)" "line_id (approval_off s stored) = u_entry u"
    "line_meta (approval_off s stored) = line_meta stored"
    using assms(5) id by (simp_all add: approval_off_def)
  have l4: "\<not> approved l4" "line_id l4 = u_entry u"
    using apply_scalar_approved [OF sc] apply_billing_approved [OF bi] mv rp off st
    by (auto dest!: maybe_move_approved maybe_reprice_approved)
  have "meta_get m5 ''source'' = meta_get (line_meta stored) ''source''"
    using meta_source_kept(1) [OF sc] meta_source_kept(2) [OF bi] meta_source_kept(4) [OF rd] mv rp off(3) st
    by (auto dest!: moved_source_kept repriced_source_kept)
  then have src: "meta_get (line_meta l5) ''source'' = JStr swept_general_work \<longleftrightarrow> meta_get (line_meta stored) ''source'' = JStr swept_general_work"
    using sv by (auto simp: save_line_Inr mark_break_edited_def edited_standard_break_def untouched_standard_break_def swept_general_work_def)
  have l5: "\<not> approved l5" "line_id l5 = u_entry u" using sv l4 by (auto simp: save_line_Inr)
  from mv obtain c j b where mv': "(if c then bindT (move_time_line l2 j m2 b) (\<lambda>(l, m, x). ret (l, m, Some x)) else ret (l2, m2, None)) s
      = Inr ((l3, m3, x), s3)" by blast
  note f3 = moved_frame [OF mv']
  have fresh3: "fresh_lines s3" using assms(3) f3 by (fastforce simp: fresh_lines_def)
  have "u_entry u < next_id s3" using fresh3 id f3(1) by (auto simp: fresh_lines_def)
  then have "changed_line l5 s4" using saved_changed [OF sv f3(3) [OF assms(2)] fresh3] l4 by simp
  then have "changed_line l5 s5"
  proof (rule changed_line_frame)
    from la obtain j where la: "(case x of None \<Rightarrow> ret () | Some c \<Rightarrow> update_latest_actual j c) s4 = Inr ((), s5)" ..
    then show "cost_lines s5 = cost_lines s4" "next_id s5 = next_id s4"
      by (cases x; auto simp: tx_prims dest: update_latest_actual_frame)+
    have "keeps ledger_ok (case x of None \<Rightarrow> ret () | Some c \<Rightarrow> update_latest_actual j c)" by (intro keeps_intros)
    from keepsD [OF this _ la] \<open>changed_line l5 s4\<close> show "ledger_ok s5" by (simp add: changed_line_def)
  qed
  then have "changed_line l5 s6"
  proof (rule changed_line_frame)
    from ev obtain a t w b evs where "s6 = s5\<lparr>events := events s5 @ evs\<rparr>" using record_timesheet_event_frame by blast
    then show "cost_lines s6 = cost_lines s5" "next_id s6 = next_id s5" "ledger_ok s6"
      using \<open>changed_line l5 s5\<close> by (simp_all add: changed_line_def ledger_ok_frame)
  qed
  then have final: "changed_line l5 s'" using rf keepsD [OF refills_changed] by blast
  show ?thesis
  proof (cases "get_line s' (u_entry u)")
    case None
    then have "l5 \<notin> set (cost_lines s')" using l5(2) by (auto simp: get_line_def row_get_None image_iff)
    then show ?thesis using None final src entry_data_Inr [OF out] l5 by (auto simp: changed_line_def)
  next
    case (Some l)
    then have l: "l \<in> set (cost_lines s')" "line_id l = u_entry u" by (auto simp: get_line_def dest: row_get_Some)
    have "l = l5" if "l5 \<in> set (cost_lines s')"
      using same_line [of s' l l5] that l l5(2) final by (simp add: changed_line_def)
    then show ?thesis using Some l final src entry_data_Inr [OF out] l5 by (auto simp: changed_line_def)
  qed
qed

section \<open>On the sample day\<close>

definition sample_short :: entry_in where
  "sample_short = \<lparr>d_job = 10, d_date = 739000, d_hours = 2, d_description = Some ''welding'', d_start = None,
     d_end = None, d_billable = None, d_wage = None, d_bill = None, d_subtype = None\<rparr>"

definition sample_worked :: cost_line where
  "sample_worked = sample_line\<lparr>line_meta := (''staff_id'', JStr ''1'') # line_meta sample_line, entry_seq := Some 1,
     approved := True\<rparr>"

definition sample_fill :: cost_line where
  "sample_fill = sample_line\<lparr>line_id := 501, cost_set := 24, entry_seq := Some 2, unit_rev := 0,
     line_meta := [(''staff_id'', JStr ''1''), (''is_billable'', JBool False), (''wage_rate_multiplier'', JNum 1),
       (''source'', JStr swept_general_work), (''created_from_timesheet'', JBool True)]\<rparr>"

text \<open>The hourly worker's day: an approved entry, and a line of General work filling the rest.\<close>

definition sample_filled :: db where
  "sample_filled = sample_db\<lparr>cost_lines := [sample_worked, sample_fill],
     cost_sets := map (\<lambda>c. c\<lparr>summary := totals_of (cs_id c) [sample_worked, sample_fill]\<rparr>) (cost_sets sample_db),
     attendance_days := [\<lparr>ad_staff = 1, ad_date = 739000, ad_clock_in = Clock 8 0 0 0, ad_clock_out = Some (Clock 12 0 0 0),
       submitted_at = None, breaks_generated = True, general_work_fill = True\<rparr>]\<rparr>"

definition sample_patch :: entry_patch where
  "sample_patch = \<lparr>u_entry = 500, u_job = None, u_date = None, u_hours = None, u_description = Some (Some ''cutting''),
     u_start = None, u_end = None, u_billable = None, u_wage = None, u_bill = None, u_subtype = None\<rparr>"

lemmas filled_defs = sample_filled_def sample_worked_def sample_fill_def

theorem saved_entry_is_what_was_entered_witness:
  "\<exists>l s'. save_day_entry (\<lambda>_ _. 0) sample_hourly sample_hourly sample_short None None None sample_db = Inr (l, s')
    \<and> quantity l \<le> 2 \<and> fresh_lines s'"
proof -
  have "case save_day_entry (\<lambda>_ _. 0) sample_hourly sample_hourly sample_short None None None sample_db of
      Inl _ \<Rightarrow> False | Inr (l, s) \<Rightarrow> quantity l \<le> 2" by code_simp
  then obtain l s' where run: "save_day_entry (\<lambda>_ _. 0) sample_hourly sample_hourly sample_short None None None sample_db = Inr (l, s')"
    "quantity l \<le> 2" by (auto split: sum.splits)
  have "fresh_lines sample_db" by (simp add: fresh_lines_def)
  from saved_entry_is_what_was_entered [OF run(1) this] run show ?thesis by blast
qed

lemma change_case: "case update_entry (\<lambda>_ _. 0) (sample_staff 3 40 (Some Hourly) True) sample_patch None
    (sample_filled\<lparr>attendance_days := []\<rparr>) of Inl _ \<Rightarrow> False | Inr _ \<Rightarrow> True" by code_simp

theorem a_change_takes_the_approval_off_witness:
  "\<exists>e s'. update_entry (\<lambda>_ _. 0) (sample_staff 3 40 (Some Hourly) True) sample_patch None
      (sample_filled\<lparr>attendance_days := []\<rparr>) = Inr (e, s')
    \<and> approved sample_worked \<and> \<not> e_approved e \<and> (\<exists>l. get_line s' 500 = Some l \<and> \<not> approved l)"
proof -
  let ?s = "sample_filled\<lparr>attendance_days := []\<rparr>" and ?office = "sample_staff 3 40 (Some Hourly) True"
  obtain e s' where run: "update_entry (\<lambda>_ _. 0) ?office sample_patch None ?s = Inr (e, s')"
    using change_case by (auto split: sum.splits)
  have "get_line ?s (u_entry sample_patch) = Some sample_worked" "is_actual_time ?s sample_worked"
    "approved sample_worked" "u_entry sample_patch = 500" "meta_get (line_meta sample_worked) ''source'' \<noteq> JStr swept_general_work"
    "ledger_ok ?s" "fresh_lines ?s" by code_simp+
  note facts = this
  from a_change_takes_the_approval_off [OF run facts(6,7,1,2)] facts(3-5) run show ?thesis
    by (auto split: option.splits)
qed

theorem entries_are_the_owners_own_witness:
  "get_line sample_filled 500 = Some sample_worked \<and> may_not_change (sample_staff 2 0 (Some Salary) False) sample_worked
    \<and> (\<exists>x. update_entry (\<lambda>_ _. 0) (sample_staff 2 0 (Some Salary) False) sample_patch None sample_filled = Inl x)
    \<and> (\<exists>x. delete_entry (\<lambda>_ _. 0) (sample_staff 2 0 (Some Salary) False) 500 None None sample_filled = Inl x)"
proof -
  have facts: "get_line sample_filled 500 = Some sample_worked" "kind sample_worked = Time"
    "may_not_change (sample_staff 2 0 (Some Salary) False) sample_worked" "u_entry sample_patch = 500" by code_simp+
  from entries_are_the_owners_own [OF facts(1-3)] facts show ?thesis by metis
qed

theorem general_work_off_takes_all_of_it_witness:
  "\<exists>s'. general_work_off sample_hourly 739000 sample_hourly None sample_filled = Inr ((), s')
    \<and> cost_lines s' = [sample_worked] \<and> filter (is_general_work_fill s') (day_time_lines s' 1 739000) = []"
proof -
  have "case general_work_off sample_hourly 739000 sample_hourly None sample_filled of Inl _ \<Rightarrow> False | Inr _ \<Rightarrow> True" by code_simp
  then obtain s' where run: "general_work_off sample_hourly 739000 sample_hourly None sample_filled = Inr ((), s')"
    by (auto split: sum.splits)
  have "filter (\<lambda>x. line_id x \<notin> line_id ` set (filter (is_general_work_fill sample_filled)
         (day_time_lines sample_filled (st_id sample_hourly) 739000))) (cost_lines sample_filled) = [sample_worked]"
    "st_id sample_hourly = 1" by code_simp+
  with general_work_off_takes_all_of_it [OF run] run show ?thesis by auto
qed
lemma refill_case: "case refill_general_work (\<lambda>_ _. 0) sample_hourly 739000 sample_hourly sample_filled of
    Inl _ \<Rightarrow> False | Inr (h, _) \<Rightarrow> h \<noteq> 0" by code_simp

theorem refill_replaces_only_the_fill_witness:
  "\<exists>h s' new. refill_general_work (\<lambda>_ _. 0) sample_hourly 739000 sample_hourly sample_filled = Inr (h, s')
    \<and> cost_lines s' = sample_worked # new \<and> h \<noteq> 0 \<and> sum_list (map quantity new) = h"
proof -
  obtain h s' where run: "refill_general_work (\<lambda>_ _. 0) sample_hourly 739000 sample_hourly sample_filled = Inr (h, s')"
    and h: "h \<noteq> 0" using refill_case by (auto split: sum.splits)
  have "fresh_lines sample_filled" by code_simp
  from refill_replaces_only_the_fill [OF run this] h obtain new where
    new: "cost_lines s' = filter (\<lambda>x. line_id x \<notin> line_id ` set (filter (is_general_work_fill sample_filled)
             (day_time_lines sample_filled (st_id sample_hourly) 739000))) (cost_lines sample_filled) @ new"
      "sum_list (map quantity new) = h" by blast
  have "filter (\<lambda>x. line_id x \<notin> line_id ` set (filter (is_general_work_fill sample_filled)
         (day_time_lines sample_filled (st_id sample_hourly) 739000))) (cost_lines sample_filled) = [sample_worked]"
    by code_simp
  with new run h show ?thesis by auto
qed

end
