(* ===== verification/Attendance.thy ===== *)
theory Attendance
  imports Entries
begin

text \<open>
  The writes of \<open>apps/timesheet/services/attendance.py\<close>: clocking in and out, setting a day's
  clock times, the defaults that settle a day, the breaks put on it and taken off, and
  \<open>fill_with_general_work\<close> of \<open>workshop_timesheet_service.py\<close>. The row a handler holds is
  passed on as the code passes it; what it saves goes to the table, where the database's
  constraints refuse a row that breaks them (\<open>Integrity\<close>).
\<close>

section \<open>Writing an attendance row\<close>

definition check_day :: "attendance_day \<Rightarrow> unit res" where
  "check_day r =
     bindR (requireR (case ad_clock_out r of None \<Rightarrow> True | Some out \<Rightarrow> ad_clock_in r < out)
              (Integrity ''timesheet_attendance_finish_after_start'')) (\<lambda>_.
     requireR (submitted_at r = None \<or> ad_clock_out r \<noteq> None)
       (Integrity ''timesheet_attendance_sent_only_when_clocked_out''))"

definition insert_day :: "attendance_day \<Rightarrow> (db, unit) tx" where
  "insert_day r =
     seqT (readT (\<lambda>s. requireR (attendance_row s (ad_staff r) (ad_date r) = None) (Integrity ''unique_staff_attendance_day'')))
     (seqT (readT (\<lambda>s. check_day r))
     (putT (\<lambda>s. s\<lparr>attendance_days := attendance_days s @ [r]\<rparr>)))"

text \<open>\<open>row.save(update_fields=...)\<close>: \<open>f\<close> sets the fields saved.\<close>

definition save_day :: "uuid \<Rightarrow> date \<Rightarrow> (attendance_day \<Rightarrow> attendance_day) \<Rightarrow> (db, unit) tx" where
  "save_day who day f =
     seqT (readT (\<lambda>s. mapR (\<lambda>r. if ad_staff r = who \<and> ad_date r = day then check_day (f r) else Inr ()) (attendance_days s)))
     (putT (\<lambda>s. s\<lparr>attendance_days := map (\<lambda>r. if ad_staff r = who \<and> ad_date r = day then f r else r) (attendance_days s)\<rparr>))"

section \<open>The trail of a day\<close>

text \<open>Clock times are recorded to the minute.\<close>

definition day_snapshot :: "attendance_day option \<Rightarrow> snapshot option" where
  "day_snapshot row = map_option (\<lambda>r. [(''clock_in'', JTime (to_the_minute (ad_clock_in r))),
     (''clock_out'', case ad_clock_out r of None \<Rightarrow> JNull | Some t \<Rightarrow> JTime (to_the_minute t))]) row"

definition record_day ::
  "staff_row \<Rightarrow> attendance_day \<Rightarrow> string \<Rightarrow> snapshot option \<Rightarrow> entry_location option \<Rightarrow> (db, unit) tx" where
  "record_day actor row type was loc =
     bindT (getT (\<lambda>s. \<not> saved_remotely s actor loc)) (\<lambda>trust.
     record_day_event (st_id actor) (ad_staff row) (ad_date row) type was (day_snapshot (Some row)) trust)"

section \<open>Breaks on a day\<close>

definition break_lines_if_any :: "db \<Rightarrow> uuid \<Rightarrow> date \<Rightarrow> cost_line list" where
  "break_lines_if_any s who day =
     (case break_job (company s) of
        None \<Rightarrow> []
      | Some j \<Rightarrow> filter (\<lambda>l. line_set_kind s l = Some Actual \<and> kind l = Time \<and> line_staff l = Some who
           \<and> accounting_date l = day \<and> line_job_id s l = Some j) (cost_lines s))"

definition break_entry :: "uuid \<Rightarrow> date \<Rightarrow> window \<Rightarrow> rat \<Rightarrow> bool \<Rightarrow> string \<Rightarrow> entry_in" where
  "break_entry j day w h paid description =
     \<lparr>d_job = j, d_date = day, d_hours = h, d_description = Some description, d_start = Some (w_start w),
      d_end = Some (w_end w), d_billable = Some False, d_wage = Some (if paid then 1 else 0), d_bill = None,
      d_subtype = None\<rparr>"

definition create_break ::
  "(date \<Rightarrow> clock \<Rightarrow> int) \<Rightarrow> staff_row \<Rightarrow> date \<Rightarrow> window \<Rightarrow> bool \<Rightarrow> string \<Rightarrow> staff_row
     \<Rightarrow> entry_location option \<Rightarrow> bool \<Rightarrow> (db, unit) tx" where
  "create_break z who day w paid description actor loc generated =
     bindT (readT required_break_job_id) (\<lambda>j.
     bindT (readT (\<lambda>s. hours_for (w_start w) (w_end w) [])) (\<lambda>h.
     seqT (create_entry z actor who (break_entry j day w h paid description) loc
             (if generated then Some untouched_standard_break else None) None)
       (ret ())))"

definition generate_default_breaks ::
  "(date \<Rightarrow> clock \<Rightarrow> int) \<Rightarrow> staff_row \<Rightarrow> attendance_day \<Rightarrow> staff_row \<Rightarrow> entry_location option \<Rightarrow> (db, unit) tx" where
  "generate_default_breaks z who row actor loc =
     (if breaks_generated row then ret ()
      else
        bindT (readT (\<lambda>s. break_windows s (ad_date row) (Some row) (break_lines_if_any s (ad_staff row) (ad_date row)))) (\<lambda>taken.
        bindT (readT default_breaks) (\<lambda>defaults.
        seqT (forT defaults (\<lambda>b.
            let w = sb_window b;
                ends_after = (case ad_clock_out row of None \<Rightarrow> False | Some out \<Rightarrow> w_end w > out)
            in whenT (\<not> (w_start w < ad_clock_in row \<or> ends_after \<or> overlaps w taken))
                 (create_break z who (ad_date row) w (sb_paid b) (sb_description b) actor loc True)))
        (save_day (ad_staff row) (ad_date row) (\<lambda>r. r\<lparr>breaks_generated := True\<rparr>)))))"

definition drop_breaks_after_finish ::
  "(date \<Rightarrow> clock \<Rightarrow> int) \<Rightarrow> attendance_day \<Rightarrow> staff_row \<Rightarrow> entry_location option \<Rightarrow> (db, unit) tx" where
  "drop_breaks_after_finish z row actor loc =
     (case ad_clock_out row of
        None \<Rightarrow> ret ()
      | Some out \<Rightarrow>
          bindT (getT (\<lambda>s. break_lines_if_any s (ad_staff row) (ad_date row))) (\<lambda>ls.
          forT ls (\<lambda>l.
            bindT (readT (\<lambda>s. line_window l)) (\<lambda>w.
            if meta_get (line_meta l) ''source'' \<noteq> JStr untouched_standard_break \<or> w = None then ret ()
            else whenT (w_end (the w) > out) (delete_entry z actor (line_id l) loc None)))))"

definition add_break ::
  "(date \<Rightarrow> clock \<Rightarrow> int) \<Rightarrow> staff_row \<Rightarrow> date \<Rightarrow> clock \<Rightarrow> clock \<Rightarrow> bool \<Rightarrow> staff_row
     \<Rightarrow> entry_location option \<Rightarrow> (db, unit) tx" where
  "add_break z who day start finish paid actor loc =
     seqT (requireT (st_id actor = st_id who \<or> is_office_staff actor)
             (AccessDenied ''Only office staff change another person's breaks.''))
     (seqT (readT (\<lambda>s. require_break_times start finish))
     (create_break z who day (Window start finish) paid (if paid then ''Paid break'' else ''Unpaid break'') actor loc False))"

definition break_line :: "db \<Rightarrow> uuid \<Rightarrow> cost_line res" where
  "break_line s i =
     bindR (required_break_job_id s) (\<lambda>j.
     of_option (DoesNotExist ''No break'') (case get_line s i of None \<Rightarrow> None
       | Some l \<Rightarrow> if line_job_id s l = Some j \<and> kind l = Time then Some l else None))"

definition no_changes :: "uuid \<Rightarrow> entry_patch" where
  "no_changes i = \<lparr>u_entry = i, u_job = None, u_date = None, u_hours = None, u_description = None, u_start = None,
     u_end = None, u_billable = None, u_wage = None, u_bill = None, u_subtype = None\<rparr>"

definition change_break ::
  "(date \<Rightarrow> clock \<Rightarrow> int) \<Rightarrow> uuid \<Rightarrow> clock \<Rightarrow> clock \<Rightarrow> staff_row \<Rightarrow> entry_location option \<Rightarrow> (db, unit) tx" where
  "change_break z i start finish actor loc =
     seqT (readT (\<lambda>s. require_break_times start finish))
     (bindT (readT (\<lambda>s. break_line s i)) (\<lambda>l.
     bindT (readT (\<lambda>s. hours_for start finish [])) (\<lambda>h.
     seqT (update_entry z actor ((no_changes (line_id l))\<lparr>u_start := Some (Some start), u_end := Some (Some finish),
             u_hours := Some h\<rparr>) loc)
       (ret ()))))"

definition remove_break ::
  "(date \<Rightarrow> clock \<Rightarrow> int) \<Rightarrow> uuid \<Rightarrow> staff_row \<Rightarrow> entry_location option \<Rightarrow> (db, unit) tx" where
  "remove_break z i actor loc =
     bindT (readT (\<lambda>s. break_line s i)) (\<lambda>l. delete_entry z actor (line_id l) loc None)"

section \<open>Clocking\<close>

definition started_day :: "uuid \<Rightarrow> date \<Rightarrow> clock \<Rightarrow> clock option \<Rightarrow> attendance_day" where
  "started_day who day start finish = \<lparr>ad_staff = who, ad_date = day, ad_clock_in = start, ad_clock_out = finish,
     submitted_at = None, breaks_generated = False, general_work_fill = False\<rparr>"

definition clock_in ::
  "(date \<Rightarrow> clock \<Rightarrow> int) \<Rightarrow> staff_row \<Rightarrow> moment \<Rightarrow> entry_location option \<Rightarrow> (db, attendance_data) tx" where
  "clock_in z worker m loc =
     bindT (getT (\<lambda>s. attendance_row s (st_id worker) (m_date m))) (\<lambda>found.
     case found of
       Some row \<Rightarrow>
         if ad_clock_out row = None then throw (Conflict ''You are already clocked in.'')
         else throw (Conflict ''You have already clocked in and out today.'')
     | None \<Rightarrow>
         let row = started_day (st_id worker) (m_date m) (to_the_minute (m_time m)) None in
         seqT (insert_day row)
         (seqT (record_day worker row ''clocked_in'' None loc)
         (seqT (generate_default_breaks z worker row worker loc)
         (ret (attendance_data (Some row))))))"

definition require_finish_after_start :: "clock \<Rightarrow> clock \<Rightarrow> unit res" where
  "require_finish_after_start start finish =
     requireR (start < finish) (InvalidInput ''A finish time has to be later than the start time.'')"

text \<open>He forgot to clock in: the day started at the standard start.\<close>

definition row_to_clock_out ::
  "(date \<Rightarrow> clock \<Rightarrow> int) \<Rightarrow> staff_row \<Rightarrow> date \<Rightarrow> clock \<Rightarrow> entry_location option \<Rightarrow> (db, attendance_day) tx" where
  "row_to_clock_out z worker day finish loc =
     bindT (getT (\<lambda>s. attendance_row s (st_id worker) day)) (\<lambda>found.
     case found of
       Some row \<Rightarrow> ret row
     | None \<Rightarrow>
         bindT (getT (\<lambda>s. standard_day s day)) (\<lambda>standard.
         case standard of
           None \<Rightarrow> throw (Conflict ''You are not clocked in today.'')
         | Some w \<Rightarrow>
             if finish \<le> w_start w then throw (Conflict ''You are not clocked in today.'')
             else
               let row = started_day (st_id worker) day (w_start w) None in
               seqT (insert_day row)
               (seqT (record_day worker row ''standard_hours_used'' None loc)
               (seqT (generate_default_breaks z worker row worker loc)
               (ret (row\<lparr>breaks_generated := True\<rparr>))))))"

definition clock_out ::
  "(date \<Rightarrow> clock \<Rightarrow> int) \<Rightarrow> staff_row \<Rightarrow> moment \<Rightarrow> entry_location option \<Rightarrow> (db, attendance_data) tx" where
  "clock_out z worker m loc =
     (let day = m_date m; finish = to_the_minute (m_time m) in
      bindT (row_to_clock_out z worker day finish loc) (\<lambda>row.
      seqT (requireT (ad_clock_out row = None) (Conflict ''You have already clocked out today.''))
      (seqT (requireT (finish \<noteq> ad_clock_in row) (Conflict ''You clocked in a moment ago.''))
      (seqT (readT (\<lambda>s. require_finish_after_start (ad_clock_in row) finish))
      (let row' = row\<lparr>ad_clock_out := Some finish\<rparr> in
       seqT (save_day (st_id worker) day (\<lambda>r. r\<lparr>ad_clock_out := Some finish\<rparr>))
       (seqT (record_day worker row' ''clocked_out'' (day_snapshot (Some row)) loc)
       (seqT (drop_breaks_after_finish z row' worker loc)
       (seqT (refill_general_work z worker day worker)
       (ret (attendance_data (Some row')))))))))))"

definition set_clock_times ::
  "(date \<Rightarrow> clock \<Rightarrow> int) \<Rightarrow> staff_row \<Rightarrow> date \<Rightarrow> clock \<Rightarrow> clock option \<Rightarrow> staff_row
     \<Rightarrow> entry_location option \<Rightarrow> (db, attendance_data) tx" where
  "set_clock_times z who day start finish actor loc =
     seqT (requireT (st_id actor = st_id who \<or> is_office_staff actor)
             (AccessDenied ''Only office staff change another person's clock times.''))
     (seqT (readT (\<lambda>s. case finish of None \<Rightarrow> Inr () | Some f \<Rightarrow> require_finish_after_start start f))
     (let a = to_the_minute start; b = map_option to_the_minute finish in
      bindT (getT (\<lambda>s. attendance_row s (st_id who) day)) (\<lambda>found.
      let row = (case found of None \<Rightarrow> started_day (st_id who) day a b
                 | Some r \<Rightarrow> r\<lparr>ad_clock_in := a, ad_clock_out := b, submitted_at := None\<rparr>) in
      seqT (case found of None \<Rightarrow> insert_day row
            | Some _ \<Rightarrow> save_day (st_id who) day (\<lambda>r. r\<lparr>ad_clock_in := a, ad_clock_out := b, submitted_at := None\<rparr>))
      (seqT (record_day actor row ''clock_times_set'' (day_snapshot found) loc)
      (seqT (generate_default_breaks z who row actor loc)
      (seqT (drop_breaks_after_finish z row actor loc)
      (seqT (refill_general_work z who day actor)
      (ret (attendance_data (Some row))))))))))"

section \<open>The defaults of a day nobody finished clocking\<close>

definition settle_day ::
  "(date \<Rightarrow> clock \<Rightarrow> int) \<Rightarrow> staff_row \<Rightarrow> date \<Rightarrow> staff_row \<Rightarrow> entry_location option \<Rightarrow> (db, attendance_day) tx" where
  "settle_day z who day actor loc =
     bindT (getT (\<lambda>s. attendance_row s (st_id who) day)) (\<lambda>found.
     bindT (getT (\<lambda>s. day_span s day found)) (\<lambda>span.
     bindT (getT now) (\<lambda>t.
     case span of
       None \<Rightarrow>
         if found \<noteq> None \<and> ad_clock_out (the found) = None \<and> day \<ge> m_date t
         then throw (Conflict ''Clock out first.'') else throw (Conflict ''Set the day's clock times first.'')
     | Some w \<Rightarrow>
         if found \<noteq> None \<and> ad_clock_out (the found) \<noteq> None then ret (the found)
         else if day > m_date t \<or> day = m_date t \<and> w_end w > m_time t then throw (Conflict ''Clock out first.'')
         else
           bindT (case found of
               None \<Rightarrow>
                 let row = started_day (st_id who) day (w_start w) (Some (w_end w)) in
                 seqT (insert_day row)
                 (seqT (record_day actor row ''standard_hours_used'' None loc)
                 (seqT (generate_default_breaks z who row actor loc)
                 (ret (row\<lparr>breaks_generated := True\<rparr>))))
             | Some r \<Rightarrow>
                 let row = r\<lparr>ad_clock_out := Some (w_end w)\<rparr> in
                 seqT (save_day (st_id who) day (\<lambda>x. x\<lparr>ad_clock_out := Some (w_end w)\<rparr>))
                 (seqT (record_day actor row ''standard_hours_used'' (day_snapshot (Some r)) loc)
                 (ret row))) (\<lambda>row.
           seqT (drop_breaks_after_finish z row actor loc) (ret row)))))"

definition fill_with_general_work ::
  "(date \<Rightarrow> clock \<Rightarrow> int) \<Rightarrow> staff_row \<Rightarrow> date \<Rightarrow> staff_row \<Rightarrow> (db, rat) tx" where
  "fill_with_general_work z who day actor =
     seqT (requireT (st_id actor = st_id who \<or> is_office_staff actor)
             (AccessDenied ''Only office staff fill another person's day.''))
     (bindT (settle_day z who day actor None) (\<lambda>row.
     seqT (whenT (\<not> general_work_fill row)
        (seqT (save_day (st_id who) day (\<lambda>r. r\<lparr>general_work_fill := True\<rparr>))
        (bindT (getT (\<lambda>s. \<not> saved_remotely s actor None)) (\<lambda>trust.
        record_day_event (st_id actor) (st_id who) day ''general_work_on'' None None trust))))
     (refill_general_work z who day actor)))"

section \<open>Every write keeps what every single write keeps\<close>

definition day_row_ok :: "attendance_day \<Rightarrow> bool" where
  "day_row_ok r \<longleftrightarrow> (case ad_clock_out r of None \<Rightarrow> True | Some out \<Rightarrow> ad_clock_in r < out)
     \<and> (submitted_at r = None \<or> ad_clock_out r \<noteq> None)"

definition day_key :: "attendance_day \<Rightarrow> uuid \<times> date" where
  "day_key r = (ad_staff r, ad_date r)"

definition day_rows_ok :: "attendance_day list \<Rightarrow> bool" where
  "day_rows_ok ds \<longleftrightarrow> distinct (map day_key ds) \<and> list_all day_row_ok ds"

lemma check_day_Inr: "check_day r = Inr u \<longleftrightarrow> day_row_ok r"
  by (auto simp: check_day_def bindR_eq_Inr day_row_ok_def)

lemma attendance_row_None:
  "attendance_row s who day = None \<longleftrightarrow> (who, day) \<notin> day_key ` set (attendance_days s)"
  by (auto simp: attendance_row_def find_None_iff day_key_def)

lemma insert_day_Inr:
  "insert_day r s = Inr (u, s') \<longleftrightarrow> attendance_row s (ad_staff r) (ad_date r) = None \<and> day_row_ok r
     \<and> s' = s\<lparr>attendance_days := attendance_days s @ [r]\<rparr>"
  by (auto simp: insert_day_def tx_Inr tx_prims check_day_Inr requireR_def split: if_splits)

lemma mapR_unit: "mapR f xs = Inr us \<Longrightarrow> x \<in> set xs \<Longrightarrow> f x = Inr (() :: unit)"
  by (induction xs arbitrary: us) (auto simp: bindR_eq_Inr)

lemma save_day_Inr:
  assumes "save_day who day f s = Inr (u, s')"
  shows "s' = s\<lparr>attendance_days := map (\<lambda>r. if ad_staff r = who \<and> ad_date r = day then f r else r) (attendance_days s)\<rparr>"
    "r \<in> set (attendance_days s) \<Longrightarrow> ad_staff r = who \<Longrightarrow> ad_date r = day \<Longrightarrow> day_row_ok (f r)"
  using assms mapR_unit by (fastforce simp: save_day_def tx_Inr tx_prims check_day_Inr)+

context entry_writes
begin

lemma record_day_keeps [keeps_intros]: "keeps I (record_day actor row t w loc)"
  unfolding record_day_def by (intro keeps_intros event)

lemma create_break_keeps [keeps_intros]: "keeps I (create_break z who day w p d actor loc g)"
  unfolding create_break_def by (intro keeps_intros)

lemma drop_breaks_keeps [keeps_intros]: "keeps I (drop_breaks_after_finish z row actor loc)"
  unfolding drop_breaks_after_finish_def by (intro keeps_intros)

lemma add_break_keeps [keeps_intros]: "keeps I (add_break z who day a b p actor loc)"
  unfolding add_break_def by (intro keeps_intros)

lemma change_break_keeps [keeps_intros]: "keeps I (change_break z i a b actor loc)"
  unfolding change_break_def by (intro keeps_intros)

lemma remove_break_keeps [keeps_intros]: "keeps I (remove_break z i actor loc)"
  unfolding remove_break_def by (intro keeps_intros)

lemma generate_keeps:
  assumes "\<And>who day. keeps I (save_day who day (\<lambda>r. r\<lparr>breaks_generated := True\<rparr>))"
  shows "keeps I (generate_default_breaks z who row actor loc)"
  unfolding generate_default_breaks_def Let_def by (intro keeps_intros assms)

end

text \<open>
  A write of attendance rows keeps the database's constraints on them: one row to a person and a
  date, a finish after its start, sent only with a finish.
\<close>

locale day_writes = entry_writes +
  assumes day_rows: "I s \<Longrightarrow> (day_rows_ok (attendance_days s) \<Longrightarrow> day_rows_ok ds) \<Longrightarrow> I (s\<lparr>attendance_days := ds\<rparr>)"
begin

lemma day_rows_map:
  assumes "\<And>r. day_key (f r) = day_key r" "\<And>r. r \<in> set (attendance_days s) \<Longrightarrow> day_row_ok r \<Longrightarrow> day_row_ok (f r)" "I s"
  shows "I (s\<lparr>attendance_days := map f (attendance_days s)\<rparr>)"
  using assms by (intro day_rows) (auto simp: day_rows_ok_def comp_def list_all_iff)

lemma insert_day_keeps [keeps_intros]: "keeps I (insert_day r)"
proof (rule keepsI)
  fix s u s'
  assume "I s" and run: "insert_day r s = Inr (u, s')"
  then show "I s'"
    unfolding insert_day_Inr
    by (elim conjE, hypsubst) (rule day_rows,
        auto simp: attendance_row_None day_rows_ok_def day_key_def)
qed

lemma save_day_keeps:
  assumes "\<And>r. day_key (f r) = day_key r"
  shows "keeps I (save_day who day f)"
proof (rule keepsI)
  fix s u s'
  assume "I s" and run: "save_day who day f s = Inr (u, s')"
  note st = save_day_Inr [OF run]
  show "I s'"
    unfolding st(1) by (rule day_rows_map) (use \<open>I s\<close> st(2) assms in auto)
qed

lemma generate_default_breaks_keeps [keeps_intros]: "keeps I (generate_default_breaks z who row actor loc)"
  by (intro generate_keeps save_day_keeps) (simp add: day_key_def)

lemma clock_in_keeps [keeps_intros]: "keeps I (clock_in z w m loc)"
  unfolding clock_in_def Let_def by (intro keeps_intros)

lemma row_to_clock_out_keeps [keeps_intros]: "keeps I (row_to_clock_out z w d f loc)"
  unfolding row_to_clock_out_def Let_def by (intro keeps_intros)

lemma clock_out_keeps [keeps_intros]: "keeps I (clock_out z w m loc)"
  unfolding clock_out_def Let_def by (intro keeps_intros save_day_keeps) (simp add: day_key_def)

lemma set_clock_times_keeps [keeps_intros]: "keeps I (set_clock_times z w d a b actor loc)"
  unfolding set_clock_times_def Let_def by (intro keeps_intros save_day_keeps) (simp_all add: day_key_def)

lemma settle_day_keeps [keeps_intros]: "keeps I (settle_day z w d actor loc)"
  unfolding settle_day_def Let_def by (intro keeps_intros save_day_keeps) (simp_all add: day_key_def)

lemma fill_with_general_work_keeps [keeps_intros]: "keeps I (fill_with_general_work z w d actor)"
  unfolding fill_with_general_work_def by (intro keeps_intros save_day_keeps event) (simp add: day_key_def)

end

locale write_invariant = entry_invariant +
  assumes any_day_rows: "I s \<Longrightarrow> (day_rows_ok (attendance_days s) \<Longrightarrow> day_rows_ok ds) \<Longrightarrow> I (s\<lparr>attendance_days := ds\<rparr>)"

sublocale write_invariant < day_writes
  by unfold_locales (rule any_day_rows)

end
