(* ===== verification/Invariants.thy ===== *)
theory Invariants
  imports Attendance
begin

text \<open>
  The invariants of the database, each an interpretation of \<open>write_invariant\<close>: the summaries of
  the cost sets (\<open>ledger_ok\<close>), the shape and numbering of the stored lines (\<open>lines_ok\<close>), the
  constraints on attendance rows (\<open>day_rows_ok\<close>), and the trail that only grows. Clock times
  are kept by every write of an entry (\<open>clocked\<close>, an \<open>entry_invariant\<close>).
\<close>

section \<open>What a stored line looks like\<close>

definition line_shape :: "cost_line \<Rightarrow> bool" where
  "line_shape l \<longleftrightarrow> (line_staff l = None \<longleftrightarrow> entry_seq l = None) \<and> (kind l = Time \<longleftrightarrow> labour_subtype l \<noteq> None)
     \<and> validate_costline_meta (line_meta l) (kind l) = Inr () \<and> validate_costline_ext_refs (ext_refs l) = Inr ()
     \<and> decimal_fits 10 3 (quantity l) \<and> decimal_fits 10 2 (unit_cost l) \<and> decimal_fits 10 2 (unit_rev l)
     \<and> desc l \<noteq> Some []"

definition same_number :: "cost_line \<Rightarrow> cost_line \<Rightarrow> bool" where
  "same_number x y \<longleftrightarrow> kind x = Time \<and> kind y = Time \<and> line_staff x \<noteq> None \<and> line_staff x = line_staff y
     \<and> accounting_date x = accounting_date y \<and> entry_seq x \<noteq> None \<and> entry_seq x = entry_seq y"

definition lines_ok :: "cost_line list \<Rightarrow> bool" where
  "lines_ok ls \<longleftrightarrow> list_all line_shape ls
     \<and> (\<forall>x \<in> set ls. \<forall>y \<in> set ls. same_number x y \<longrightarrow> line_id x = line_id y)"

lemma full_clean_shape: "full_clean s l = Inr () \<Longrightarrow> line_shape l"
  by (auto simp: full_clean_def line_clean_def bindR_eq_Inr line_shape_def)

lemma not_taken:
  "\<not> seq_taken s l \<Longrightarrow> x \<in> set (cost_lines s) \<Longrightarrow> same_number x l \<or> same_number l x \<Longrightarrow> line_id x = line_id l"
  by (auto simp: seq_taken_def same_number_def list_ex_iff)

lemma lines_ok_write:
  assumes "lines_ok (cost_lines s)" "save_checks s l = Inr ()"
  shows "lines_ok (row_write line_id l (cost_lines s))"
proof -
  have "full_clean s l = Inr ()" using assms(2) by (auto simp: save_checks_def bindR_eq_Inr split: if_splits)
  then have "line_shape l" "\<not> seq_taken s l"
    using full_clean_shape by (auto simp: full_clean_def bindR_eq_Inr)
  moreover have "x = l \<or> x \<in> set (cost_lines s) \<and> (same_number x l \<or> same_number l x \<longrightarrow> line_id x = line_id l)"
    if "x \<in> set (row_write line_id l (cost_lines s))" for x
    using row_write_in [OF that] not_taken [of s l x] \<open>\<not> seq_taken s l\<close> by blast
  ultimately show ?thesis using assms(1) unfolding lines_ok_def list_all_iff by metis
qed

lemma lines_ok_subset: "lines_ok ls \<Longrightarrow> set ls' \<subseteq> set ls \<Longrightarrow> lines_ok ls'"
  unfolding lines_ok_def list_all_iff by blast

lemma lines_ok_approve:
  assumes "lines_ok ls" "b \<in> set ls"
  shows "lines_ok (row_put line_id (b\<lparr>approved := a\<rparr>) ls)"
proof -
  have from_ls: "\<exists>y \<in> set ls. line_id x = line_id y \<and> line_shape x = line_shape y \<and> same_number x = same_number y
      \<and> (\<forall>u. same_number u x = same_number u y)" if "x \<in> set (row_put line_id (b\<lparr>approved := a\<rparr>) ls)" for x
  proof (cases "x = b\<lparr>approved := a\<rparr>")
    case True
    then show ?thesis using assms(2) by (intro bexI [of _ b]) (auto simp: line_shape_def same_number_def fun_eq_iff)
  next
    case False
    then show ?thesis using row_put_in [OF that] by blast
  qed
  show ?thesis
    using assms(1) from_ls unfolding lines_ok_def list_all_iff by metis
qed

section \<open>The invariants\<close>

interpretation ledger_kept: write_invariant ledger_ok
  by unfold_locales (simp add: ledger_ok_frame)

interpretation days_kept: write_invariant "\<lambda>s. day_rows_ok (attendance_days s)"
proof unfold_locales
  show "keeps (\<lambda>s. day_rows_ok (attendance_days s)) (get_or_create_cost_set j k)" for j k
    by (rule keepsI) (simp add: get_or_create_frame)
  fix s :: db and P
  assume ok: "day_rows_ok (attendance_days s)"
  let ?f = "\<lambda>r :: attendance_day. if P r then r\<lparr>general_work_fill := False\<rparr> else r"
  have "day_key \<circ> ?f = day_key" by (auto simp: day_key_def)
  moreover have "day_row_ok (?f r) = day_row_ok r" for r
    by (auto simp: day_row_ok_def split: option.splits)
  ultimately show "day_rows_ok (attendance_days (s\<lparr>attendance_days := map ?f (attendance_days s)\<rparr>))"
    using ok by (simp add: day_rows_ok_def list.pred_map comp_def)
qed (auto intro!: keepsI simp: fresh_id_def save_line_Inr write_line_def delete_line_def Let_def save_approved_def
    split: option.splits if_splits)

interpretation lines_kept: write_invariant "\<lambda>s. lines_ok (cost_lines s)"
proof unfold_locales
  show "keeps (\<lambda>s. lines_ok (cost_lines s)) (get_or_create_cost_set j k)" for j k
    by (rule keepsI) (simp add: get_or_create_frame)
  show "keeps (\<lambda>s. lines_ok (cost_lines s)) (save_line l)" for l
    by (rule keepsI) (auto simp: save_line_Inr write_line_def intro: lines_ok_write)
  show "keeps (\<lambda>s. lines_ok (cost_lines s)) (delete_line l)" for l
    by (rule keepsI) (auto simp: delete_line_def Let_def row_del_in elim!: lines_ok_subset split: if_splits)
  show "keeps (\<lambda>s. lines_ok (cost_lines s)) (save_approved l)" for l
    by (rule keepsI) (auto simp: save_approved_def get_line_def split: option.splits
        dest!: row_get_Some intro: lines_ok_approve)
qed (auto intro!: keepsI simp: fresh_id_def)

interpretation trail_kept: write_invariant "\<lambda>s. \<exists>new. events s = es @ new" for es
proof unfold_locales
  show "keeps (\<lambda>s. \<exists>new. events s = es @ new) (get_or_create_cost_set j k)" for j k
    by (rule keepsI) (simp add: get_or_create_frame)
qed (auto intro!: keepsI simp: fresh_id_def save_line_Inr write_line_def delete_line_def Let_def save_approved_def
    split: option.splits if_splits)

section \<open>Clock times are changed by clocking only\<close>

text \<open>The book of a day: when he started and finished, and when it was sent.\<close>

definition day_times :: "attendance_day \<Rightarrow> (uuid \<times> date) \<times> clock \<times> clock option \<times> moment option" where
  "day_times r = (day_key r, ad_clock_in r, ad_clock_out r, submitted_at r)"

interpretation clocked: entry_invariant "\<lambda>s. map day_times (attendance_days s) = X" for X
proof unfold_locales
  show "keeps (\<lambda>s. map day_times (attendance_days s) = X) (get_or_create_cost_set j k)" for j k
    by (rule keepsI) (simp add: get_or_create_frame)
  fix s :: db and P
  assume "map day_times (attendance_days s) = X"
  moreover have "map day_times (map (\<lambda>r. if P r then r\<lparr>general_work_fill := False\<rparr> else r) (attendance_days s))
      = map day_times (attendance_days s)" by (simp add: day_times_def day_key_def)
  ultimately show "map day_times (attendance_days (s\<lparr>attendance_days := map (\<lambda>r. if P r
      then r\<lparr>general_work_fill := False\<rparr> else r) (attendance_days s)\<rparr>)) = X" by simp
qed (auto intro!: keepsI simp: fresh_id_def save_line_Inr write_line_def delete_line_def Let_def save_approved_def
    split: option.splits if_splits)

lemma clocked_save_day:
  assumes "\<And>r. day_times (f r) = day_times r"
  shows "keeps (\<lambda>s. map day_times (attendance_days s) = X) (save_day who day f)"
proof (rule keepsI)
  fix s u s'
  assume "map day_times (attendance_days s) = X" and run: "save_day who day f s = Inr (u, s')"
  moreover have "day_times (if c then f r else r) = day_times r" for c r using assms by simp
  ultimately show "map day_times (attendance_days s') = X"
    unfolding save_day_Inr(1) [OF run] by (simp add: comp_def)
qed

lemma clocked_generate [keeps_intros]:
  "keeps (\<lambda>s. map day_times (attendance_days s) = X) (generate_default_breaks z who row actor loc)"
  by (intro clocked.generate_keeps clocked_save_day) (simp add: day_times_def day_key_def)

end
