(* ===== verification/Staff_Directory.thy ===== *)
theory Staff_Directory
  imports Payroll_Terms "HOL-Library.List_Lexorder" "HOL-Library.Char_ord"
begin

text \<open>
  \<open>apps/accounts/staff_directory.py\<close> and the readers of \<open>Staff\<close> it uses: who was employed when,
  who holds a Xero payroll id, and what people are called. \<open>uuid.UUID\<close> and \<open>int(text, 16)\<close> are
  written out for ASCII text; the database's collation is taken to be the order of the codes.
\<close>

section \<open>Who was employed\<close>

definition active_on_date :: "staff_row list \<Rightarrow> date \<Rightarrow> staff_row list" where
  "active_on_date ss d = filter (\<lambda>s. employment_start_date s \<le> d
     \<and> (case date_left s of None \<Rightarrow> True | Some left \<Rightarrow> left > d)) ss"

definition currently_active :: "db \<Rightarrow> staff_row list" where
  "currently_active s = active_on_date (staffs s) (today s)"

definition active_between_dates :: "staff_row list \<Rightarrow> date \<Rightarrow> date \<Rightarrow> staff_row list" where
  "active_between_dates ss a b = filter (\<lambda>s. employment_start_date s \<le> b
     \<and> (case date_left s of None \<Rightarrow> True | Some left \<Rightarrow> left \<ge> a)) ss"

definition is_active_between :: "staff_row \<Rightarrow> date \<Rightarrow> date \<Rightarrow> bool" where
  "is_active_between s a b =
     (if employment_start_date s > b then False
      else case date_left s of None \<Rightarrow> True | Some left \<Rightarrow> left \<ge> a)"

section \<open>Names\<close>

definition is_space :: "char \<Rightarrow> bool" where
  "is_space c \<longleftrightarrow> (let n = of_char c :: nat in 9 \<le> n \<and> n \<le> 13 \<or> 28 \<le> n \<and> n \<le> 32)"

text \<open>\<open>display.split()[0]\<close> raises \<open>IndexError\<close> on a name of spaces only.\<close>

definition get_display_name :: "staff_row \<Rightarrow> string res" where
  "get_display_name s =
     (let display = (case preferred_name s of None \<Rightarrow> first_name s | Some p \<Rightarrow> if p = [] then first_name s else p);
          word = takeWhile (\<lambda>c. \<not> is_space c) (dropWhile is_space display)
      in if display = [] then Inr []
         else if word = [] then Inl (DoesNotExist ''IndexError'') else Inr word)"

definition get_display_full_name :: "staff_row \<Rightarrow> string res" where
  "get_display_full_name s = bindR (get_display_name s) (\<lambda>n. Inr (n @ '' '' @ last_name s))"

section \<open>A valid payroll id\<close>

text \<open>\<open>text.replace(p, "")\<close>; \<open>skip\<close> counts what is left of an occurrence.\<close>

fun remove_sub :: "string \<Rightarrow> nat \<Rightarrow> string \<Rightarrow> string" where
  "remove_sub p skip [] = []"
| "remove_sub p (Suc k) (c # cs) = remove_sub p k cs"
| "remove_sub p 0 (c # cs) =
     (if take (length p) (c # cs) = p then remove_sub p (length p - 1) cs else c # remove_sub p 0 cs)"

definition is_hex :: "char \<Rightarrow> bool" where
  "is_hex c \<longleftrightarrow> (let n = of_char (lower_char c) :: nat in 48 \<le> n \<and> n \<le> 57 \<or> 97 \<le> n \<and> n \<le> 102)"

text \<open>Hex digits with single underscores between them.\<close>

fun hex_digits :: "string \<Rightarrow> bool" where
  "hex_digits [] = False"
| "hex_digits [c] = is_hex c"
| "hex_digits (c # d # cs) = (is_hex c \<and> (if d = CHR ''_'' then hex_digits cs else hex_digits (d # cs)))"

definition int_base_16 :: "string \<Rightarrow> bool" where
  "int_base_16 t =
     (let u = strip t;
          v = (case u of [] \<Rightarrow> [] | c # cs \<Rightarrow> if c = CHR ''+'' \<or> c = CHR ''-'' then cs else u);
          w = (if take 2 v = ''0x'' \<or> take 2 v = ''0X''
               then (if take 1 (drop 2 v) = ''_'' then drop 3 v else drop 2 v) else v)
      in hex_digits w)"

definition is_valid_uuid :: "string \<Rightarrow> bool" where
  "is_valid_uuid t =
     (let brace = (\<lambda>c. c = CHR ''{'' \<or> c = CHR ''}'');
          h = remove_sub ''uuid:'' 0 (remove_sub ''urn:'' 0 t);
          k = filter (\<lambda>c. c \<noteq> CHR ''-'') (rev (dropWhile brace (rev (dropWhile brace h))))
      in length k = 32 \<and> int_base_16 k)"

definition payroll_excluded :: "staff_row \<Rightarrow> bool" where
  "payroll_excluded s =
     (case xero_user_id s of None \<Rightarrow> True | Some i \<Rightarrow> i = [] \<or> \<not> is_valid_uuid i)"

definition get_payroll_excluded_staff_ids :: "db \<Rightarrow> uuid list" where
  "get_payroll_excluded_staff_ids s = map st_id (filter payroll_excluded (staffs s))"

section \<open>The lists\<close>

definition by_name :: "staff_row list \<Rightarrow> staff_row list" where
  "by_name ss = sort_key first_name (sort_key last_name ss)"

definition list_all_staff :: "db \<Rightarrow> staff_row list" where
  "list_all_staff s = by_name (staffs s)"

text \<open>The filter of the callers here; all of them order by name.\<close>

definition get_displayable_staff ::
  "db \<Rightarrow> date option \<Rightarrow> (date \<times> date) option \<Rightarrow> bool \<Rightarrow> bool \<Rightarrow> staff_row list" where
  "get_displayable_staff s target_date date_range include_inactive actual_users =
     (let people = (case date_range of
            Some (a, b) \<Rightarrow> active_between_dates (staffs s) a b
          | None \<Rightarrow> (case target_date of
              Some d \<Rightarrow> active_on_date (staffs s) d
            | None \<Rightarrow> if include_inactive then staffs s else currently_active s));
          shown = (if actual_users then filter (\<lambda>p. st_id p \<notin> set (get_payroll_excluded_staff_ids s)) people
                   else people)
      in by_name shown)"

section \<open>Facts\<close>

text \<open>The rule on one person and the filter on the table are one rule.\<close>

lemma active_on_date_filter: "active_on_date ss d = filter (\<lambda>s. is_active_on s d) ss"
  by (auto simp: active_on_date_def is_active_on_def split: option.splits intro!: filter_cong)

lemma active_between_filter: "active_between_dates ss a b = filter (\<lambda>s. is_active_between s a b) ss"
  by (auto simp: active_between_dates_def is_active_between_def split: option.splits intro!: filter_cong)

lemma active_on_single: "is_active_between p d d \<longleftrightarrow> is_active_on p d \<or> date_left p = Some d \<and> employment_start_date p \<le> d"
  by (auto simp: is_active_between_def is_active_on_def split: option.splits)

lemma by_name_set [simp]: "set (by_name ss) = set ss" by (simp add: by_name_def)

lemma displayable_on:
  "p \<in> set (get_displayable_staff s (Some d) None False True) \<longleftrightarrow>
     p \<in> set (staffs s) \<and> is_active_on p d \<and> st_id p \<notin> set (get_payroll_excluded_staff_ids s)"
  by (auto simp: get_displayable_staff_def active_on_date_filter Let_def)

lemma active_between_some_day:
  assumes "a \<le> b" "case date_left p of None \<Rightarrow> True | Some l \<Rightarrow> employment_start_date p < l"
  shows "is_active_between p a b \<longleftrightarrow>
    (\<exists>x. a \<le> x \<and> x \<le> b \<and> is_active_on p x) \<or> date_left p = Some a"
proof
  assume "is_active_between p a b"
  then have "date_left p = Some a \<or> is_active_on p (max a (employment_start_date p)) \<and> employment_start_date p \<le> b"
    using assms by (auto simp: is_active_between_def is_active_on_def split: option.splits if_splits)
  then show "(\<exists>x. a \<le> x \<and> x \<le> b \<and> is_active_on p x) \<or> date_left p = Some a"
    using assms(1) by (metis max.cobounded1 max.bounded_iff)
next
  assume "(\<exists>x. a \<le> x \<and> x \<le> b \<and> is_active_on p x) \<or> date_left p = Some a"
  then show "is_active_between p a b"
    using assms by (auto simp: is_active_between_def is_active_on_def split: option.splits if_splits)
qed



end
