(* ===== verification/Leave.thy ===== *)
theory Leave
  imports Invariants Staff_Directory "HOL-Library.Sublist"
begin

text \<open>
  Leave, from \<open>leave_settings.py\<close> (which categories are ready to book) and \<open>leave_service.py\<close>:
  the preview of a range, the requests and their days, each day a line of the person's time
  written by the one entry writer, and office closures. The balance read from the payroll
  provider takes the provider's answer as a parameter.
\<close>

section \<open>A category ready to book\<close>

record leave_type_data =
  lv_code :: leave_code
  lv_display_name :: string
  lv_job :: "job_row option"
  lv_pay_item :: "pay_item option"
  lv_surface :: posting_surface
  lv_configured :: bool

definition leave_job :: "db \<Rightarrow> leave_type_row \<Rightarrow> job_row option" where
  "leave_job s t = Option.bind (lt_job t) (\<lambda>j. row_get job_id j (jobs s))"

definition leave_pay_item :: "db \<Rightarrow> leave_type_row \<Rightarrow> pay_item option" where
  "leave_pay_item s t = Option.bind (Option.bind (leave_job s t) default_xero_pay_item) (get_pay_item s)"

definition leave_type_data :: "db \<Rightarrow> leave_type_row \<Rightarrow> leave_type_data" where
  "leave_type_data s t =
     (let surface = surface_for (lt_code t);
          item = (if surface = XeroComputed then None else leave_pay_item s t);
          configured = (if surface = XeroComputed then leave_job s t \<noteq> None
            else leave_job s t \<noteq> None \<and> (case item of None \<Rightarrow> False
              | Some i \<Rightarrow> xero_id i \<noteq> None \<and> xero_id i \<noteq> Some [] \<and> pi_tenant i = xero_tenant_id (company s)
                  \<and> uses_leave_api i = (surface = LeaveApi)))
      in \<lparr>lv_code = lt_code t, lv_display_name = display_name t, lv_job = leave_job s t, lv_pay_item = item,
          lv_surface = surface, lv_configured = configured\<rparr>)"

definition get_leave_settings :: "db \<Rightarrow> leave_type_data list" where
  "get_leave_settings s = map (leave_type_data s) (sort_key display_name (leave_types s))"

definition get_leave_type :: "db \<Rightarrow> leave_code \<Rightarrow> leave_type_row res" where
  "get_leave_type s c = of_option (DoesNotExist ''LeaveType'') (find (\<lambda>t. lt_code t = c) (leave_types s))"

definition configured_leave_type :: "db \<Rightarrow> leave_code \<Rightarrow> leave_type_row res" where
  "configured_leave_type s c =
     bindR (get_leave_type s c) (\<lambda>t.
     if lv_configured (leave_type_data s t) then Inr t
     else Inl (Validation (display_name t @ '' is not fully configured.'')))"

definition leave_api_codes :: "leave_code list" where
  "leave_api_codes = filter (\<lambda>c. surface_for c = LeaveApi) [Annual, Sick, Unpaid, Bereavement, PublicHoliday]"

record employee_leave_mapping =
  el_code :: leave_code
  el_display_name :: string
  el_external_id :: string
  el_standard :: bool

definition employee_leave_mappings :: "db \<Rightarrow> employee_leave_mapping list res" where
  "employee_leave_mappings s =
     bindR (mapR (\<lambda>t. case leave_pay_item s t of
              None \<Rightarrow> Inl (ValueErr ''DocketWorks leave type is not linked to a Xero leave type.'')
            | Some i \<Rightarrow>
                if \<not> lv_configured (leave_type_data s t)
                then Inl (ValueErr ''DocketWorks leave type is not linked to a Xero leave type.'')
                else Inr \<lparr>el_code = lt_code t, el_display_name = display_name t,
                  el_external_id = (case xero_id i of None \<Rightarrow> ''None'' | Some x \<Rightarrow> x),
                  el_standard = (lt_code t \<in> {Annual, Sick})\<rparr>)
            (filter (\<lambda>t. lt_code t \<in> set leave_api_codes) (leave_types s))) (\<lambda>found.
     if length found \<noteq> length leave_api_codes
     then Inl (ValueErr ''All DocketWorks payroll leave types must be configured.'') else Inr found)"

section \<open>The preview\<close>

record preview_day =
  pd_date :: date
  pd_scheduled :: rat
  pd_hours :: rat
  pd_available :: bool
  pd_reason :: "string option"

record preview_data =
  pv_staff :: uuid
  pv_name :: string
  pv_start :: date
  pv_end :: date
  pv_days :: "preview_day list"
  pv_available_hours :: rat

text \<open>\<open>_dates\<close>.\<close>

definition dates_between :: "date \<Rightarrow> date \<Rightarrow> date list res" where
  "dates_between a b =
     (if b < a then Inl (Validation ''End date must be on or after start date.'')
      else Inr (map (\<lambda>i. a + i) [0..b - a]))"

text \<open>\<open>_paid_hours_by_date\<close>, a dictionary read with a default of zero.\<close>

definition paid_lines :: "db \<Rightarrow> uuid \<Rightarrow> date \<Rightarrow> date \<Rightarrow> uuid option \<Rightarrow> cost_line list" where
  "paid_lines s who a b excluded =
     filter (\<lambda>l. \<not> is_unpaid_time s l)
       (filter (\<lambda>l. is_actual_time s l \<and> line_staff l = Some who \<and> a \<le> accounting_date l \<and> accounting_date l \<le> b
          \<and> (excluded = None \<or> \<not> list_ex (\<lambda>d. ld_line d = line_id l \<and> Some (ld_request d) = excluded) (leave_days s)))
        (cost_lines s))"

definition paid_hours_by_date :: "db \<Rightarrow> uuid \<Rightarrow> date \<Rightarrow> date \<Rightarrow> uuid option \<Rightarrow> date \<Rightarrow> rat" where
  "paid_hours_by_date s who a b excluded =
     fold (\<lambda>l paid. paid(accounting_date l := paid (accounting_date l) + quantity l)) (paid_lines s who a b excluded) (\<lambda>_. 0)"

definition preview_row :: "db \<Rightarrow> staff_row \<Rightarrow> (date \<Rightarrow> rat) \<Rightarrow> date \<Rightarrow> preview_day res" where
  "preview_row s st paid day =
     bindR (scheduled_hours s st day True) (\<lambda>rostered.
     let reason = (if \<not> is_active_on st day then Some ''Outside employment dates''
                   else if rostered \<le> 0 then Some ''Not a scheduled working day'' else None)
     in Inr \<lparr>pd_date = day, pd_scheduled = rostered, pd_hours = max (rostered - paid day) 0,
          pd_available = (reason = None), pd_reason = reason\<rparr>)"

definition preview_leave :: "db \<Rightarrow> staff_row \<Rightarrow> date \<Rightarrow> date \<Rightarrow> uuid option \<Rightarrow> preview_data res" where
  "preview_leave s st a b excluded =
     bindR (dates_between a b) (\<lambda>days.
     bindR (mapR (preview_row s st (paid_hours_by_date s (st_id st) a b excluded)) days) (\<lambda>rows.
     bindR (get_display_full_name st) (\<lambda>name.
     Inr \<lparr>pv_staff = st_id st, pv_name = name, pv_start = a, pv_end = b, pv_days = rows,
       pv_available_hours = sum_list (map pd_hours (filter pd_available rows))\<rparr>)))"

section \<open>The days of a request\<close>

type_synonym requested_day = "date \<times> rat"

fun sort_requested :: "preview_day list \<Rightarrow> date list \<Rightarrow> (requested_day list \<times> preview_day list) res" where
  "sort_requested rows [] = Inr ([], [])"
| "sort_requested rows (d # ds) =
     bindR (of_option (Validation ''outside the requested date range.'') (find (\<lambda>r. pd_date r = d) rows)) (\<lambda>r.
     bindR (sort_requested rows ds) (\<lambda>(valid, skipped).
     Inr (if pd_available r then ((d, pd_hours r) # valid, skipped) else (valid, r # skipped))))"

definition validated_days :: "preview_data \<Rightarrow> date list \<Rightarrow> (requested_day list \<times> preview_day list) res" where
  "validated_days p ds =
     (if \<not> distinct ds then Inl (Validation ''Each leave date may be supplied only once.'')
      else bindR (sort_requested (pv_days p) ds) (\<lambda>(valid, skipped).
        if \<not> list_ex (\<lambda>d. snd d > 0) valid then Inl (Validation ''No available leave days remain to save.'')
        else Inr (valid, skipped)))"

text \<open>A warning is kept as its parts: the name, the date and what went to leave.\<close>

definition filled_warnings :: "staff_row \<Rightarrow> preview_data \<Rightarrow> requested_day list \<Rightarrow> (string \<times> date \<times> string) list res" where
  "filled_warnings st p ds =
     mapR (\<lambda>(d, h). bindR (get_display_name st) (\<lambda>name.
             Inr (name, d, if h = 0 then ''0h'' else duration_words h)))
       (filter (\<lambda>(d, h). map_option pd_scheduled (find (\<lambda>r. pd_date r = d) (pv_days p)) \<noteq> Some h) ds)"

record leave_request_data =
  lq_row :: leave_request
  lq_staff_name :: string
  lq_type_name :: string
  lq_total :: rat
  lq_days :: "leave_day list"

definition days_of :: "db \<Rightarrow> uuid \<Rightarrow> leave_day list" where
  "days_of s rq = sort_key ld_date (filter (\<lambda>d. ld_request d = rq) (leave_days s))"

definition request_data :: "db \<Rightarrow> leave_request \<Rightarrow> leave_request_data res" where
  "request_data s rq =
     bindR (get_staff s (rq_staff rq)) (\<lambda>st.
     bindR (get_display_full_name st) (\<lambda>name.
     bindR (get_leave_type s (rq_type rq)) (\<lambda>t.
     Inr \<lparr>lq_row = rq, lq_staff_name = name, lq_type_name = display_name t,
       lq_total = sum_list (map ld_hours (days_of s (rq_id rq))), lq_days = days_of s (rq_id rq)\<rparr>)))"

definition get_request :: "db \<Rightarrow> uuid \<Rightarrow> leave_request res" where
  "get_request s i = of_option (DoesNotExist ''LeaveRequest'') (row_get rq_id i (leave_requests s))"

section \<open>The rows\<close>

definition check_request :: "leave_request \<Rightarrow> unit res" where
  "check_request r =
     bindR (requireR (rq_start r \<le> rq_end r) (Integrity ''timesheet_leave_request_date_order'')) (\<lambda>_.
     bindR (requireR (rq_note r \<noteq> Some []) (Integrity ''timesheet_leave_request_note_not_blank'')) (\<lambda>_.
     requireR (case rq_note r of None \<Rightarrow> True | Some n \<Rightarrow> length n \<le> 255) (Integrity ''value too long'')))"

definition insert_request :: "leave_request \<Rightarrow> (db, unit) tx" where
  "insert_request r =
     seqT (readT (\<lambda>s. check_request r))
       (putT (\<lambda>s. s\<lparr>leave_requests := leave_requests s @ [r]\<rparr>))"

definition save_request :: "leave_request \<Rightarrow> (db, unit) tx" where
  "save_request r =
     seqT (readT (\<lambda>s. check_request r))
       (putT (\<lambda>s. s\<lparr>leave_requests := row_put rq_id r (leave_requests s)\<rparr>))"

definition insert_leave_day :: "leave_day \<Rightarrow> (db, unit) tx" where
  "insert_leave_day d =
     seqT (readT (\<lambda>s. requireR (\<not> list_ex (\<lambda>x. ld_staff x = ld_staff d \<and> ld_date x = ld_date d) (leave_days s))
             (Integrity ''unique_staff_leave_day'')))
     (seqT (readT (\<lambda>s. requireR (\<not> list_ex (\<lambda>x. ld_request x = ld_request d \<and> ld_date x = ld_date d) (leave_days s))
             (Integrity ''unique_request_leave_day'')))
     (seqT (readT (\<lambda>s. requireR (ld_line d \<notin> ld_line ` set (leave_days s)) (Integrity ''unique cost_line'')))
     (seqT (requireT (ld_hours d > 0) (Integrity ''timesheet_leave_day_positive_hours''))
     (putT (\<lambda>s. s\<lparr>leave_days := leave_days s @ [d]\<rparr>)))))"

definition delete_request_days :: "uuid \<Rightarrow> (db, unit) tx" where
  "delete_request_days rq = putT (\<lambda>s. s\<lparr>leave_days := filter (\<lambda>d. ld_request d \<noteq> rq) (leave_days s)\<rparr>)"

text \<open>The row, and by CASCADE the days that are left of it.\<close>

definition delete_request_row :: "uuid \<Rightarrow> (db, unit) tx" where
  "delete_request_row rq =
     putT (\<lambda>s. s\<lparr>leave_days := filter (\<lambda>d. ld_request d \<noteq> rq) (leave_days s),
                leave_requests := row_del rq_id rq (leave_requests s)\<rparr>)"

section \<open>Saving and deleting\<close>

definition leave_entry :: "uuid \<Rightarrow> date \<Rightarrow> rat \<Rightarrow> string \<Rightarrow> entry_in" where
  "leave_entry j day h text = \<lparr>d_job = j, d_date = day, d_hours = h, d_description = Some text, d_start = None,
     d_end = None, d_billable = Some False, d_wage = None, d_bill = None, d_subtype = None\<rparr>"

definition create_day ::
  "(date \<Rightarrow> clock \<Rightarrow> int) \<Rightarrow> leave_request \<Rightarrow> staff_row \<Rightarrow> uuid \<Rightarrow> string \<Rightarrow> staff_row \<Rightarrow> requested_day \<Rightarrow> (db, unit) tx" where
  "create_day z rq st j text actor dh =
     (case dh of (day, h) \<Rightarrow>
       bindT (create_entry z actor st (leave_entry j day h text) None None (Some OwnedByLeave)) (\<lambda>e.
       bindT fresh_id (\<lambda>i.
       insert_leave_day \<lparr>ld_id = i, ld_request = rq_id rq, ld_staff = st_id st, ld_date = day, ld_hours = h, ld_line = e_id e\<rparr>)))"

definition create_days ::
  "(date \<Rightarrow> clock \<Rightarrow> int) \<Rightarrow> leave_request \<Rightarrow> staff_row \<Rightarrow> leave_type_row \<Rightarrow> requested_day list \<Rightarrow> staff_row \<Rightarrow> (db, unit) tx" where
  "create_days z rq st t ds actor =
     bindT (readT (\<lambda>s. of_option (Validation (display_name t @ '' is not fully configured.'')) (leave_job s t))) (\<lambda>job.
     seqT (requireT (\<not> (surface_for (lt_code t) \<noteq> XeroComputed \<and> default_xero_pay_item job = None))
             (Validation (display_name t @ '' is not fully configured.'')))
     (forT ds (create_day z rq st (job_id job)
        (case rq_note rq of None \<Rightarrow> display_name t | Some n \<Rightarrow> if n = [] then display_name t else n) actor)))"

definition delete_days :: "(date \<Rightarrow> clock \<Rightarrow> int) \<Rightarrow> uuid \<Rightarrow> staff_row \<Rightarrow> (db, unit) tx" where
  "delete_days z rq actor =
     bindT (getT (\<lambda>s. map ld_line (days_of s rq))) (\<lambda>ids.
     seqT (delete_request_days rq)
     (forT ids (\<lambda>i. delete_entry z actor i None (Some OwnedByLeave))))"

record save_result =
  sr_request :: leave_request_data
  sr_skipped :: "preview_day list"
  sr_warnings :: "(string \<times> date \<times> string) list"

definition save_answer ::
  "uuid \<Rightarrow> staff_row \<Rightarrow> preview_data \<Rightarrow> requested_day list \<Rightarrow> preview_day list \<Rightarrow> db \<Rightarrow> save_result res" where
  "save_answer i st p valid skipped s =
     bindR (get_request s i) (\<lambda>rq.
     bindR (request_data s rq) (\<lambda>data.
     bindR (filled_warnings st p valid) (\<lambda>warnings.
     Inr \<lparr>sr_request = data, sr_skipped = skipped, sr_warnings = warnings\<rparr>)))"

record leave_in =
  li_code :: leave_code
  li_start :: date
  li_end :: date
  li_note :: "string option"
  li_days :: "date list"

definition create_leave_request ::
  "(date \<Rightarrow> clock \<Rightarrow> int) \<Rightarrow> uuid \<Rightarrow> leave_in \<Rightarrow> staff_row \<Rightarrow> leave_source \<Rightarrow> uuid option \<Rightarrow> (db, save_result) tx" where
  "create_leave_request z staff_id x actor source batch =
     bindT (readT (\<lambda>s. get_staff s staff_id)) (\<lambda>st.
     bindT (readT (\<lambda>s. configured_leave_type s (li_code x))) (\<lambda>t.
     bindT (readT (\<lambda>s. preview_leave s st (li_start x) (li_end x) None)) (\<lambda>p.
     bindT (readT (\<lambda>s. validated_days p (li_days x))) (\<lambda>(valid, skipped).
     bindT fresh_id (\<lambda>i.
     bindT (getT now) (\<lambda>m.
     let rq = \<lparr>rq_id = i, rq_staff = st_id st, rq_type = li_code x, rq_start = li_start x, rq_end = li_end x,
                rq_note = map_option strip (li_note x), rq_source = source, rq_batch = batch, rq_created = m\<rparr> in
     seqT (insert_request rq)
     (seqT (create_days z rq st t (filter (\<lambda>d. snd d > 0) valid) actor)
     (readT (save_answer i st p valid skipped)))))))))"

definition update_leave_request ::
  "(date \<Rightarrow> clock \<Rightarrow> int) \<Rightarrow> uuid \<Rightarrow> leave_in \<Rightarrow> staff_row \<Rightarrow> (db, save_result) tx" where
  "update_leave_request z i x actor =
     bindT (readT (\<lambda>s. get_request s i)) (\<lambda>old.
     bindT (readT (\<lambda>s. get_staff s (rq_staff old))) (\<lambda>st.
     bindT (readT (\<lambda>s. configured_leave_type s (li_code x))) (\<lambda>t.
     bindT (readT (\<lambda>s. preview_leave s st (li_start x) (li_end x) (Some i))) (\<lambda>p.
     bindT (readT (\<lambda>s. validated_days p (li_days x))) (\<lambda>(valid, skipped).
     let rq = old\<lparr>rq_type := li_code x, rq_start := li_start x, rq_end := li_end x,
                  rq_note := map_option strip (li_note x)\<rparr> in
     seqT (delete_days z i actor)
     (seqT (save_request rq)
     (seqT (create_days z rq st t (filter (\<lambda>d. snd d > 0) valid) actor)
     (readT (save_answer i st p valid skipped)))))))))"

definition delete_leave_request :: "(date \<Rightarrow> clock \<Rightarrow> int) \<Rightarrow> uuid \<Rightarrow> staff_row \<Rightarrow> (db, unit) tx" where
  "delete_leave_request z i actor =
     seqT (readT (\<lambda>s. bindR (get_request s i) (\<lambda>rq. get_staff s (rq_staff rq))))
     (seqT (delete_days z i actor) (delete_request_row i))"

section \<open>Lists and balances\<close>

datatype leave_scope = CurrentLeave | LeaveHistory

record leave_summary =
  lm_away_today :: nat
  lm_upcoming :: nat
  lm_upcoming_hours :: rat

text \<open>\<open>icontains\<close>, on ASCII text.\<close>

definition icontains :: "string \<Rightarrow> string \<Rightarrow> bool" where
  "icontains text part \<longleftrightarrow> sublist (map lower_char part) (map lower_char text)"

definition request_matches :: "string \<Rightarrow> staff_row \<Rightarrow> leave_type_row \<Rightarrow> bool" where
  "request_matches search st t \<longleftrightarrow> search = [] \<or> icontains (first_name st) search \<or> icontains (last_name st) search
     \<or> (case preferred_name st of None \<Rightarrow> False | Some p \<Rightarrow> icontains p search) \<or> icontains (display_name t) search"

definition in_scope :: "db \<Rightarrow> leave_scope \<Rightarrow> leave_request \<Rightarrow> bool" where
  "in_scope s scope r = (if scope = CurrentLeave then rq_end r \<ge> today s else rq_end r < today s)"

definition list_leave_requests :: "db \<Rightarrow> leave_scope \<Rightarrow> string \<Rightarrow> (leave_request_data list \<times> leave_summary) res" where
  "list_leave_requests s scope search =
     bindR (mapR (\<lambda>r. bindR (get_staff s (rq_staff r)) (\<lambda>st. bindR (get_leave_type s (rq_type r)) (\<lambda>t. Inr (r, st, t))))
              (filter (in_scope s scope) (leave_requests s))) (\<lambda>joined.
     let rows = map fst (sort_key (\<lambda>(r, st, _). (rq_start r, last_name st, first_name st))
                  (filter (\<lambda>(_, st, t). request_matches (strip search) st t) joined));
         days = concat (map (\<lambda>r. days_of s (rq_id r)) rows) in
     bindR (mapR (request_data s) rows) (\<lambda>data.
     Inr (data, \<lparr>lm_away_today = length (remdups (map rq_staff
                    (filter (\<lambda>r. list_ex (\<lambda>d. ld_date d = today s) (days_of s (rq_id r))) rows))),
                 lm_upcoming = length (filter (\<lambda>r. rq_start r > today s) rows),
                 lm_upcoming_hours = sum_list (map ld_hours (filter (\<lambda>d. ld_date d \<ge> today s) days))\<rparr>)))"

record provider_balance =
  pb_type :: string
  pb_balance :: rat
  pb_unit :: string
  pb_name :: string

definition get_leave_balance ::
  "(string \<Rightarrow> provider_balance list res) \<Rightarrow> db \<Rightarrow> staff_row \<Rightarrow> leave_code \<Rightarrow> (rat \<times> string \<times> string) res" where
  "get_leave_balance provider s st c =
     (case xero_user_id st of
        None \<Rightarrow> Inl (Validation ''is not linked to payroll.'')
      | Some payroll_id \<Rightarrow>
          if payroll_id = [] then Inl (Validation ''is not linked to payroll.'')
          else
            bindR (configured_leave_type s c) (\<lambda>t.
            bindR (of_option (Validation (display_name t @ '' is not fully configured.'')) (leave_pay_item s t)) (\<lambda>item.
            bindR (requireR (uses_leave_api item) (Validation (display_name t @ '' does not have a leave balance.''))) (\<lambda>_.
            bindR (provider payroll_id) (\<lambda>balances.
            case find (\<lambda>b. Some (pb_type b) = xero_id item) balances of
              None \<Rightarrow> Inl (Validation ''Xero returned no balance'')
            | Some b \<Rightarrow> Inr (pb_balance b, pb_unit b, pb_name b))))))"

section \<open>Office closures\<close>

record closure_preview =
  oc_start :: date
  oc_end :: date
  oc_staff :: "preview_data list"
  oc_available_staff :: nat
  oc_available_hours :: rat

definition by_last_name :: "staff_row list \<Rightarrow> staff_row list" where
  "by_last_name ss = sort_key last_name (sort_key first_name ss)"

definition preview_office_closure :: "db \<Rightarrow> date \<Rightarrow> date \<Rightarrow> closure_preview res" where
  "preview_office_closure s a b =
     bindR (mapR (\<lambda>st. preview_leave s st a b None)
              (by_last_name (get_displayable_staff s None (Some (a, b)) False True))) (\<lambda>ps.
     Inr \<lparr>oc_start = a, oc_end = b, oc_staff = ps,
       oc_available_staff = length (filter (\<lambda>p. pv_available_hours p > 0) ps),
       oc_available_hours = sum_list (map pv_available_hours ps)\<rparr>)"

text \<open>The people and dates with time on them, in the order of the preview.\<close>

definition entered_pairs :: "db \<Rightarrow> closure_preview \<Rightarrow> (uuid \<times> date) list" where
  "entered_pairs s p =
     (let ids = map pv_staff (oc_staff p);
          entered = filter (\<lambda>l. is_actual_time s l \<and> line_staff l \<in> Some ` set ids \<and> oc_start p \<le> accounting_date l
              \<and> accounting_date l \<le> oc_end p
              \<and> (break_job (company s) = None \<or> line_job_id s l \<noteq> break_job (company s))) (cost_lines s)
      in concat (map (\<lambda>i. map (Pair i) (sort (remdups (map accounting_date (filter (\<lambda>l. line_staff l = Some i) entered))))) ids))"

definition refuse_closing_over_time :: "db \<Rightarrow> closure_preview \<Rightarrow> unit res" where
  "refuse_closing_over_time s p =
     (case entered_pairs s p of [] \<Rightarrow> Inr ()
      | pairs \<Rightarrow> bindR (mapR (\<lambda>(i, d). bindR (get_staff s i) get_display_name) pairs)
          (\<lambda>_. Inl (Validation ''The office can't close on a day that already has time entered'')))"

definition close_for ::
  "(date \<Rightarrow> clock \<Rightarrow> int) \<Rightarrow> date \<Rightarrow> date \<Rightarrow> string option \<Rightarrow> staff_row \<Rightarrow> uuid \<Rightarrow> preview_data
     \<Rightarrow> leave_request_data list \<times> preview_day list \<Rightarrow> (db, leave_request_data list \<times> preview_day list) tx" where
  "close_for z a b note actor batch p acc =
     (case acc of (requests, skipped) \<Rightarrow>
       let available = filter pd_available (pv_days p);
           skipped' = skipped @ filter (\<lambda>d. \<not> pd_available d) (pv_days p)
       in if available = [] then ret (requests, skipped')
          else bindT (create_leave_request z (pv_staff p)
                  \<lparr>li_code = PublicHoliday, li_start = a, li_end = b, li_note = note, li_days = map pd_date available\<rparr>
                  actor OfficeClosure (Some batch)) (\<lambda>r.
               ret (requests @ [sr_request r], skipped' @ sr_skipped r)))"

definition create_office_closure ::
  "(date \<Rightarrow> clock \<Rightarrow> int) \<Rightarrow> date \<Rightarrow> date \<Rightarrow> string option \<Rightarrow> staff_row
     \<Rightarrow> (db, uuid \<times> leave_request_data list \<times> preview_day list) tx" where
  "create_office_closure z a b note actor =
     bindT (readT (\<lambda>s. preview_office_closure s a b)) (\<lambda>p.
     seqT (readT (\<lambda>s. refuse_closing_over_time s p))
     (bindT fresh_id (\<lambda>batch.
     bindT (foldT (close_for z a b note actor batch) (oc_staff p) ([], [])) (\<lambda>(requests, skipped).
     seqT (requireT (requests \<noteq> []) (Validation ''No available office-closure days remain to save.''))
     (ret (batch, requests, skipped))))))"

section \<open>The rows through every write\<close>

text \<open>
  The constraints of the leave tables: one day of leave to a person and a date, and to a
  request and a date, one line to a day, and hours above zero.
\<close>

definition leave_rows_ok :: "leave_day list \<Rightarrow> bool" where
  "leave_rows_ok ds \<longleftrightarrow> distinct (map (\<lambda>d. (ld_staff d, ld_date d)) ds) \<and> distinct (map (\<lambda>d. (ld_request d, ld_date d)) ds)
     \<and> distinct (map ld_line ds) \<and> list_all (\<lambda>d. ld_hours d > 0) ds"

definition fits_leave_rows :: "leave_day list \<Rightarrow> leave_day \<Rightarrow> bool" where
  "fits_leave_rows ds d \<longleftrightarrow> (\<forall>x \<in> set ds. (ld_staff x, ld_date x) \<noteq> (ld_staff d, ld_date d)
     \<and> (ld_request x, ld_date x) \<noteq> (ld_request d, ld_date d) \<and> ld_line x \<noteq> ld_line d) \<and> ld_hours d > 0"

lemma insert_leave_day_Inr:
  "insert_leave_day d s = Inr (u, s') \<longleftrightarrow>
     fits_leave_rows (leave_days s) d \<and> s' = s\<lparr>leave_days := leave_days s @ [d]\<rparr>"
  by (auto simp: insert_leave_day_def tx_Inr tx_prims fits_leave_rows_def list_ex_iff) (metis imageI)

lemma leave_rows_insert: "leave_rows_ok ds \<Longrightarrow> fits_leave_rows ds d \<Longrightarrow> leave_rows_ok (ds @ [d])"
  unfolding leave_rows_ok_def fits_leave_rows_def by (auto dest: bspec)

lemma leave_days_frame [simp]:
  "leave_days (touch_costing_jobs ids s) = leave_days s" "leave_days (record_line_change b a s) = leave_days s"
  by (simp_all add: touch_costing_jobs_def record_line_change_def Let_def)

text \<open>The write of an entry leaves the categories and the leave tables alone.\<close>

interpretation types_kept: write_invariant "\<lambda>s. leave_types s = T" for T
proof unfold_locales
  show "keeps (\<lambda>s. leave_types s = T) (get_or_create_cost_set j k)" for j k
    by (rule keepsI) (simp add: get_or_create_frame)
qed (auto intro!: keepsI simp: fresh_id_def save_line_Inr write_line_def delete_line_def Let_def save_approved_def
    split: option.splits if_splits)

interpretation leave_kept: write_invariant "\<lambda>s. leave_days s = X" for X
proof unfold_locales
  show "keeps (\<lambda>s. leave_days s = X) (get_or_create_cost_set j k)" for j k
    by (rule keepsI) (auto dest: get_or_create_cases)
qed (auto intro!: keepsI simp: fresh_id_def save_line_Inr write_line_def delete_line_def Let_def save_approved_def
    split: option.splits if_splits)

lemma create_entry_types: "create_entry z actor who d loc src man s = Inr (e, s') \<Longrightarrow> leave_types s' = leave_types s"
  by (rule keepsD [OF types_kept.create_entry_keeps]) simp_all

lemma create_entry_leave: "create_entry z actor who d loc src man s = Inr (e, s') \<Longrightarrow> leave_days s' = leave_days s"
  by (rule keepsD [OF leave_kept.create_entry_keeps]) simp_all

lemma create_day_Inr:
  "create_day z rq st j text actor (day, h) s = Inr (u, s') \<longleftrightarrow>
     (\<exists>e s1. create_entry z actor st (leave_entry j day h text) None None (Some OwnedByLeave) s = Inr (e, s1)
        \<and> insert_leave_day \<lparr>ld_id = next_id s1, ld_request = rq_id rq, ld_staff = st_id st, ld_date = day, ld_hours = h,
            ld_line = e_id e\<rparr> (s1\<lparr>next_id := Suc (next_id s1)\<rparr>) = Inr (u, s'))"
  by (auto simp: create_day_def tx_Inr fresh_id_def)

lemma create_day_types: "create_day z rq st j text actor dh s = Inr (u, s') \<Longrightarrow> leave_types s' = leave_types s"
  by (cases dh) (auto simp: create_day_Inr insert_leave_day_Inr dest: create_entry_types)

lemma leave_job_ids_types: "leave_types s' = leave_types s \<Longrightarrow> leave_job_ids s' = leave_job_ids s"
  by (simp add: leave_job_ids_def)

lemma delete_days_types:
  assumes "delete_days z rq actor s = Inr (u, s')"
  shows "leave_types s' = leave_types s"
proof -
  have "keeps (\<lambda>x. leave_types x = leave_types s) (delete_days z rq actor)"
    unfolding delete_days_def delete_request_days_def
    by (intro keeps_intros keeps_putT types_kept.delete_entry_keeps) simp
  from keepsD [OF this _ assms] show ?thesis by simp
qed

text \<open>A category's job is one of the leave jobs.\<close>

lemma leave_job_is_leave:
  assumes "leave_job s t = Some job" "t \<in> set (leave_types s)"
  shows "job_id job \<in> set (leave_job_ids s)"
proof -
  from assms(1) obtain j where j: "lt_job t = Some j" "row_get job_id j (jobs s) = Some job"
    by (auto simp: leave_job_def bind_eq_Some_conv)
  then have "job_id job = j" using row_get_Some by metis
  then show ?thesis using assms(2) j(1) by (force simp: leave_job_ids_def List.map_filter_def)
qed

lemma configured_in: "configured_leave_type s c = Inr t \<Longrightarrow> t \<in> set (leave_types s)"
  by (auto simp: configured_leave_type_def get_leave_type_def bindR_eq_Inr find_Some_iff split: if_splits)

locale leave_writes = entry_writes +
  assumes insert_request [keeps_intros]: "keeps I (insert_request r)"
    and save_request [keeps_intros]: "keeps I (save_request r)"
    and delete_request_days [keeps_intros]: "keeps I (delete_request_days rq)"
    and delete_request_row [keeps_intros]: "keeps I (delete_request_row rq)"
    and create_day: "I s \<Longrightarrow> j \<in> set (leave_job_ids s) \<Longrightarrow> create_day z r st j text actor dh s = Inr (u, s') \<Longrightarrow> I s'"
begin

lemma create_all:
  "I s \<Longrightarrow> j \<in> set (leave_job_ids s) \<Longrightarrow> forT ds (create_day z rq st j text actor) s = Inr (u, s') \<Longrightarrow> I s'"
proof (induction ds arbitrary: s)
  case (Cons d ds)
  from Cons.prems(3) obtain s1 where d: "create_day z rq st j text actor d s = Inr ((), s1)"
    and r: "forT ds (create_day z rq st j text actor) s1 = Inr (u, s')" by (auto simp: tx_Inr)
  have "j \<in> set (leave_job_ids s1)"
    using Cons.prems(2) by (simp add: leave_job_ids_types [OF create_day_types [OF d]])
  then show ?case using Cons.IH [OF _ _ r] create_day [OF Cons.prems(1,2) d] by blast
qed (simp add: ret_run)

lemma create_days_keep:
  assumes "create_days z rq st t ds actor s = Inr (u, s')" "I s" "t \<in> set (leave_types s)"
  shows "I s'"
proof -
  from assms(1) obtain job words where "leave_job s t = Some job"
    and r: "forT ds (create_day z rq st (job_id job) words actor) s = Inr (u, s')"
    by (auto simp: create_days_def tx_Inr tx_prims)
  with create_all [OF assms(2) _ r] leave_job_is_leave assms(3) show ?thesis by blast
qed

lemma delete_days_keeps [keeps_intros]: "keeps I (delete_days z rq actor)"
  unfolding delete_days_def by (intro keeps_intros)

lemma create_leave_request_keeps [keeps_intros]: "keeps I (create_leave_request z i x actor source batch)"
proof (rule keepsI)
  fix s r s'
  assume ok: "I s" and run: "create_leave_request z i x actor source batch s = Inr (r, s')"
  then obtain st t p valid rq s1 s2 where
    t: "configured_leave_type s (li_code x) = Inr t"
    and ins: "insert_request rq (s\<lparr>next_id := Suc (next_id s)\<rparr>) = Inr ((), s1)"
    and cr: "create_days z rq st t valid actor s1 = Inr ((), s2)" and s': "s' = s2"
    by (auto simp: create_leave_request_def Let_def tx_Inr tx_prims fresh_id_def)
  have "I (s\<lparr>next_id := Suc (next_id s)\<rparr>)" using keepsD [OF fresh ok, unfolded fresh_id_def] by simp
  then have "I s1" using keepsD [OF insert_request] ins by blast
  moreover have "t \<in> set (leave_types s1)"
    using configured_in [OF t] ins by (auto simp: insert_request_def tx_Inr tx_prims)
  ultimately show "I s'" using create_days_keep [OF cr] s' by blast
qed

lemma update_leave_request_keeps [keeps_intros]: "keeps I (update_leave_request z i x actor)"
proof (rule keepsI)
  fix s r s'
  assume ok: "I s" and run: "update_leave_request z i x actor s = Inr (r, s')"
  then obtain st t p valid rq s1 s2 s3 where
    t: "configured_leave_type s (li_code x) = Inr t"
    and del: "delete_days z i actor s = Inr ((), s1)" and sv: "save_request rq s1 = Inr ((), s2)"
    and cr: "create_days z rq st t valid actor s2 = Inr ((), s3)" and s': "s' = s3"
    by (auto simp: update_leave_request_def Let_def tx_Inr tx_prims)
  have "leave_types s1 = leave_types s" by (rule delete_days_types [OF del])
  moreover have "I s2" using keepsD [OF delete_days_keeps ok del] keepsD [OF save_request] sv by blast
  ultimately show "I s'"
    using create_days_keep [OF cr] configured_in [OF t] sv s' by (auto simp: save_request_def tx_Inr tx_prims)
qed

lemma delete_leave_request_keeps [keeps_intros]: "keeps I (delete_leave_request z i actor)"
  unfolding delete_leave_request_def by (intro keeps_intros)

lemma create_office_closure_keeps [keeps_intros]: "keeps I (create_office_closure z a b note actor)"
  unfolding create_office_closure_def close_for_def Let_def by (intro keeps_intros)

end

text \<open>An invariant that any change of the leave rows within their constraints keeps.\<close>

locale leave_invariant = write_invariant +
  assumes any_leave_rows: "I s \<Longrightarrow> (leave_rows_ok (leave_days s) \<Longrightarrow> leave_rows_ok ds) \<Longrightarrow> I (s\<lparr>leave_days := ds\<rparr>)"
    and any_request_rows: "I s \<Longrightarrow> I (s\<lparr>leave_requests := rs\<rparr>)"
begin

lemma leave_rows_filter: "leave_rows_ok ds \<Longrightarrow> leave_rows_ok (filter P ds)"
  by (auto simp: leave_rows_ok_def list_all_iff distinct_map_filter)

lemma insert_leave_day_keeps: "keeps I (insert_leave_day d)"
proof (rule keepsI)
  fix s u s'
  assume "I s" and "insert_leave_day d s = Inr (u, s')"
  then show "I s'"
    using insert_leave_day_Inr leave_rows_insert any_leave_rows by metis
qed

lemma delete_request_days_keeps: "keeps I (delete_request_days rq)"
  unfolding delete_request_days_def by (intro keeps_putT any_leave_rows leave_rows_filter)

lemma delete_request_row_keeps: "keeps I (delete_request_row rq)"
proof (rule keepsI)
  fix s u s'
  assume "I s" and run: "delete_request_row rq s = Inr (u, s')"
  then have "I (s\<lparr>leave_days := filter (\<lambda>d. ld_request d \<noteq> rq) (leave_days s)\<rparr>)" by (intro any_leave_rows leave_rows_filter)
  from any_request_rows [OF this] run show "I s'" by (auto simp: delete_request_row_def putT_def)
qed

lemma insert_request_keeps: "keeps I (insert_request r)"
  unfolding insert_request_def by (intro keeps_intros keeps_putT any_request_rows)

lemma save_request_keeps: "keeps I (save_request r)"
  unfolding save_request_def by (intro keeps_intros keeps_putT any_request_rows)

lemma create_day_keeps: "keeps I (create_day z rq st j text actor dh)"
  unfolding create_day_def by (intro keeps_intros insert_leave_day_keeps)

end

sublocale leave_invariant < leave_writes
  by unfold_locales
    (rule insert_request_keeps save_request_keeps delete_request_days_keeps delete_request_row_keeps
      keepsD [OF create_day_keeps], assumption?)+

section \<open>The invariants of the other tables\<close>

interpretation ledger_all: leave_invariant ledger_ok
  by unfold_locales (simp_all add: ledger_ok_def)

interpretation days_all: leave_invariant "\<lambda>s. day_rows_ok (attendance_days s)"
  by unfold_locales simp_all

interpretation lines_all: leave_invariant "\<lambda>s. lines_ok (cost_lines s)"
  by unfold_locales simp_all

interpretation trail_all: leave_invariant "\<lambda>s. \<exists>new. events s = es @ new" for es
  by unfold_locales simp_all

interpretation leave_days_all: leave_invariant "\<lambda>s. leave_rows_ok (leave_days s)"
proof unfold_locales
  show "keeps (\<lambda>s. leave_rows_ok (leave_days s)) (get_or_create_cost_set j k)" for j k
    by (rule keepsI) (auto dest: get_or_create_cases)
qed (auto intro!: keepsI simp: fresh_id_def save_line_Inr write_line_def delete_line_def Let_def save_approved_def
    split: option.splits if_splits)

end
