(* ===== verification/Day_View.thy ===== *)
theory Day_View
  imports Attendance Staff_Directory
begin

text \<open>
  The day as a screen reads it, from \<open>workshop_timesheet_service.py\<close>: the totals of a day and of
  its payroll week, the worker's own day (\<open>list_entries\<close>) and the management day. A figure
  the code turns into a float is kept as the Decimal it was.
\<close>

section \<open>Totals\<close>

record workshop_summary =
  ws_total :: rat
  ws_billable :: rat
  ws_non_billable :: rat

definition day_totals :: "db \<Rightarrow> cost_line list \<Rightarrow> workshop_summary res" where
  "day_totals s ls =
     bindR (categorise s ls None) (\<lambda>c.
     Inr \<lparr>ws_total = c_total c, ws_billable = c_billable c, ws_non_billable = c_total c - c_billable c\<rparr>)"

text \<open>\<open>payroll_week_start\<close> and \<open>PAYROLL_WEEK_DAYS\<close> of \<open>weekly_timesheet_service.py\<close>.\<close>

definition payroll_week_start :: "date \<Rightarrow> date" where
  "payroll_week_start day = day - weekday day"

definition payroll_week_days :: int where "payroll_week_days = 7"

record workshop_week =
  ww_approved :: rat
  ww_waiting :: rat

definition week_time_lines :: "db \<Rightarrow> uuid \<Rightarrow> date \<Rightarrow> cost_line list" where
  "week_time_lines s who day =
     (let start = payroll_week_start day in
      filter (\<lambda>l. is_actual_time s l \<and> line_staff l = Some who \<and> start \<le> accounting_date l
        \<and> accounting_date l \<le> start + (payroll_week_days - 1) \<and> \<not> is_unpaid_time s l) (cost_lines s))"

definition week_hours_of :: "db \<Rightarrow> uuid \<Rightarrow> date \<Rightarrow> workshop_week" where
  "week_hours_of s who day =
     (let ls = week_time_lines s who day
      in \<lparr>ww_approved = sum_list (map quantity (filter approved ls)),
          ww_waiting = sum_list (map quantity (filter (\<lambda>l. \<not> approved l) ls))\<rparr>)"

section \<open>The worker's day\<close>

record workshop_day =
  wd_date :: date
  wd_entries :: "entry_out list"
  wd_summary :: workshop_summary
  wd_week :: workshop_week
  wd_day :: attendance_data
  wd_breaks :: "break_data list"
  wd_fill :: "fill_data option"
  wd_standard :: "window option"
  wd_default_start :: clock
  wd_calendar :: window
  wd_pending :: "(date \<times> day_state) option"

definition list_entries :: "db \<Rightarrow> staff_row \<Rightarrow> date \<Rightarrow> workshop_day res" where
  "list_entries s st day =
     (let ls = day_time_lines s (st_id st) day;
          entries = fst (split_breaks s ls); break_lines = snd (split_breaks s ls);
          row = attendance_row s (st_id st) day; standard = standard_day s day in
      bindR (day_breaks s day row break_lines) (\<lambda>breaks.
      bindR (mapR (entry_data s) entries) (\<lambda>es.
      bindR (day_totals s ls) (\<lambda>totals.
      bindR (fill_figures s day row (sum_list (map quantity entries)) break_lines) (\<lambda>fill.
      bindR (default_entry_start s day row entries break_lines) (\<lambda>start.
      bindR (mapR timed_window entries) (\<lambda>spans.
      bindR (calendar_bounds row standard (List.map_filter (\<lambda>w. w) spans @ map b_window breaks)) (\<lambda>calendar.
      Inr \<lparr>wd_date = day, wd_entries = es, wd_summary = totals, wd_week = week_hours_of s (st_id st) day,
        wd_day = attendance_data row, wd_breaks = breaks, wd_fill = fill, wd_standard = standard,
        wd_default_start = start, wd_calendar = calendar, wd_pending = pending_day s (st_id st) (today s)\<rparr>))))))))"

section \<open>The management day\<close>

text \<open>Each line is shown as it is stored, beside its job's number and name.\<close>

record management_day =
  md_lines :: "(cost_line \<times> nat \<times> string) list"
  md_staff :: uuid
  md_name :: string
  md_date :: date
  md_summary :: workshop_summary
  md_entry_count :: nat
  md_scheduled :: rat
  md_cost :: rat
  md_revenue :: rat

definition management_day_data :: "db \<Rightarrow> staff_row \<Rightarrow> date \<Rightarrow> management_day res" where
  "management_day_data s st day =
     (let ls = day_time_lines s (st_id st) day in
      bindR (day_totals s ls) (\<lambda>base.
      bindR (mapR (\<lambda>l. bindR (line_job s l) (\<lambda>j. Inr (l, job_number j, job_name j))) ls) (\<lambda>lines.
      bindR (get_display_name st) (\<lambda>n.
      bindR (scheduled_hours s st day True) (\<lambda>scheduled.
      Inr \<lparr>md_lines = lines, md_staff = st_id st, md_name = n, md_date = day, md_summary = base,
        md_entry_count = length ls, md_scheduled = scheduled, md_cost = sum_list (map total_cost ls),
        md_revenue = sum_list (map total_rev ls)\<rparr>)))))"

section \<open>Facts\<close>

lemma week_start_monday: "weekday (payroll_week_start d) = 0"
proof -
  have "(d - (d + 6) mod 7 + 6) mod 7 = ((d + 6) - (d + 6) mod 7) mod 7" by (simp add: algebra_simps)
  then show ?thesis by (simp add: payroll_week_start_def weekday_def)
qed

lemma week_holds_day: "payroll_week_start d \<le> d \<and> d \<le> payroll_week_start d + (payroll_week_days - 1)"
  by (simp add: payroll_week_start_def payroll_week_days_def weekday_def)

lemma sum_list_split:
  "sum_list (map f (filter P xs)) + sum_list (map f (filter (\<lambda>x. \<not> P x) xs)) = (sum_list (map f xs) :: rat)"
  by (induction xs) auto

lemma sum_filter_or:
  "(\<And>x. \<not> (P x \<and> Q x)) \<Longrightarrow> sum_list (map f (filter (\<lambda>x. P x \<or> Q x) xs))
     = sum_list (map f (filter P xs)) + (sum_list (map f (filter Q xs)) :: rat)"
  by (induction xs) auto

lemma sum_by_day:
  "sum_list (map f (filter (\<lambda>x. P x \<and> a \<le> g x \<and> g x < a + int n) xs))
     = (\<Sum>i<n. sum_list (map f (filter (\<lambda>x. P x \<and> g x = a + int i) xs)))" for f :: "'a \<Rightarrow> rat"
proof (induction n)
  case 0
  then show ?case by (simp add: filter_empty_conv)
next
  case (Suc n)
  have "(\<lambda>x. P x \<and> a \<le> g x \<and> g x < a + int (Suc n))
      = (\<lambda>x. P x \<and> a \<le> g x \<and> g x < a + int n \<or> P x \<and> g x = a + int n)" by auto
  then show ?case using Suc by (simp add: sum_filter_or)
qed

text \<open>C36: The worker's week is his days: the approved and waiting hours of the payroll week a date
  falls in are, together, the paid hours of its seven days, each line counted once and in one
  of the two figures, and every date of the week shows the same week.\<close>

theorem week_is_its_seven_days:
  "ww_approved (week_hours_of s who day) + ww_waiting (week_hours_of s who day)
      = (\<Sum>i<7. sum_list (map quantity (filter (\<lambda>l. \<not> is_unpaid_time s l)
          (day_time_lines s who (payroll_week_start day + int i)))))
    \<and> weekday (payroll_week_start day) = 0
    \<and> week_hours_of s who (payroll_week_start day) = week_hours_of s who day"
proof (intro conjI)
  let ?w = "payroll_week_start day" and ?P = "\<lambda>l. is_actual_time s l \<and> line_staff l = Some who \<and> \<not> is_unpaid_time s l"
  have "ww_approved (week_hours_of s who day) + ww_waiting (week_hours_of s who day)
      = sum_list (map quantity (week_time_lines s who day))"
    by (simp add: week_hours_of_def Let_def sum_list_split)
  also have "week_time_lines s who day = filter (\<lambda>l. ?P l \<and> ?w \<le> accounting_date l \<and> accounting_date l < ?w + int 7) (cost_lines s)"
    unfolding week_time_lines_def Let_def payroll_week_days_def by (rule filter_cong) auto
  also have "sum_list (map quantity \<dots>) = (\<Sum>i<7. sum_list (map quantity (filter (\<lambda>l. ?P l \<and> accounting_date l = ?w + int i) (cost_lines s))))"
    by (rule sum_by_day)
  also have "\<dots> = (\<Sum>i<7. sum_list (map quantity (filter (\<lambda>l. \<not> is_unpaid_time s l) (day_time_lines s who (?w + int i)))))"
    by (intro sum.cong refl arg_cong [of _ _ sum_list] arg_cong [of _ _ "map quantity"])
      (auto simp: day_time_lines_def intro!: filter_cong)
  finally show "ww_approved (week_hours_of s who day) + ww_waiting (week_hours_of s who day)
      = (\<Sum>i<7. sum_list (map quantity (filter (\<lambda>l. \<not> is_unpaid_time s l) (day_time_lines s who (?w + int i)))))" .
  show "weekday ?w = 0" by (rule week_start_monday)
  then show "week_hours_of s who ?w = week_hours_of s who day"
    by (simp add: week_hours_of_def week_time_lines_def payroll_week_start_def [of "payroll_week_start day"])
qed

end
