(* ===== verification/Submission.thy ===== *)
theory Submission
  imports Day_View Invariants
begin

text \<open>
  \<open>apps/timesheet/services/day_submission.py\<close>: what a worker says he did is laid out over the day,
  each row after the one before it and stepping over his breaks, saved as entries, and the day
  marked sent.
\<close>

section \<open>Laying the rows out\<close>

record fill_row =
  fr_job :: uuid
  fr_hours :: rat
  fr_description :: "string option"
  fr_time_and_a_half :: bool

record laid_line =
  ll_job :: uuid
  ll_start :: "clock option"
  ll_end :: "clock option"
  ll_hours :: rat
  ll_description :: "string option"
  ll_time_and_a_half :: bool

definition laid :: "fill_row \<Rightarrow> clock option \<Rightarrow> clock option \<Rightarrow> laid_line" where
  "laid r a b = \<lparr>ll_job = fr_job r, ll_start = a, ll_end = b, ll_hours = fr_hours r,
     ll_description = fr_description r, ll_time_and_a_half = fr_time_and_a_half r\<rparr>"

text \<open>\<open>cursor\<close> is None from the first row the day cannot hold.\<close>

fun lay_out_from :: "clock option \<Rightarrow> fill_row list \<Rightarrow> window list \<Rightarrow> laid_line list res" where
  "lay_out_from cursor [] breaks = Inr []"
| "lay_out_from cursor (r # rs) breaks =
     bindR (case cursor of None \<Rightarrow> Inr None | Some c \<Rightarrow> bindR (start_after_breaks c breaks) (\<lambda>t. Inr (Some t))) (\<lambda>begins.
     let ends = (case begins of None \<Rightarrow> None | Some b \<Rightarrow> finish_in_the_day b (fr_hours r) breaks);
         shown = (if ends = None then None else begins)
     in bindR (lay_out_from ends rs breaks) (\<lambda>ls. Inr (laid r shown ends # ls)))"

definition lay_out_rows :: "clock \<Rightarrow> fill_row list \<Rightarrow> window list \<Rightarrow> laid_line list res" where
  "lay_out_rows start rows breaks = lay_out_from (Some start) rows breaks"

section \<open>Sending the day\<close>

definition row_entry :: "db \<Rightarrow> date \<Rightarrow> laid_line \<Rightarrow> entry_in res" where
  "row_entry s day l =
     bindR (get_job s (ll_job l)) (\<lambda>job.
     Inr \<lparr>d_job = ll_job l, d_date = day, d_hours = ll_hours l,
       d_description = text_or_none (ll_description l), d_start = ll_start l, d_end = ll_end l,
       d_billable = Some (bills_its_time s job), d_wage = Some (if ll_time_and_a_half l then overtime_multiplier else 1),
       d_bill = None, d_subtype = None\<rparr>)"

definition save_row ::
  "(date \<Rightarrow> clock \<Rightarrow> int) \<Rightarrow> db \<Rightarrow> staff_row \<Rightarrow> staff_row \<Rightarrow> date \<Rightarrow> entry_location option \<Rightarrow> laid_line \<Rightarrow> (db, unit) tx" where
  "save_row z s0 actor worker day loc l =
     bindT (readT (\<lambda>s. row_entry s0 day l)) (\<lambda>d.
     seqT (create_entry z actor worker d loc None None) (ret ()))"

text \<open>
  The jobs are read once, before the rows are saved; \<open>s0\<close> is the database they are read from.
  What the worker gets back is his day, \<open>list_entries\<close>.
\<close>

definition submit_day ::
  "(date \<Rightarrow> clock \<Rightarrow> int) \<Rightarrow> staff_row \<Rightarrow> staff_row \<Rightarrow> date \<Rightarrow> fill_row list \<Rightarrow> entry_location option \<Rightarrow> moment
     \<Rightarrow> (db, workshop_day) tx" where
  "submit_day z actor worker day rows loc m =
     seqT (requireT (st_id actor = st_id worker \<or> is_office_staff actor)
             (AccessDenied ''Only office staff send another person's day.''))
     (bindT (settle_day z worker day actor loc) (\<lambda>row.
     bindT (getT (\<lambda>s. split_breaks s (day_time_lines s (st_id worker) day))) (\<lambda>(entries, break_lines).
     bindT (readT (\<lambda>s. default_entry_start s day (Some row) entries break_lines)) (\<lambda>begins.
     bindT (readT (\<lambda>s. break_windows s day (Some row) break_lines)) (\<lambda>breaks.
     bindT (getT (\<lambda>s. s)) (\<lambda>s0.
     bindT (readT (\<lambda>s. lay_out_rows begins rows breaks)) (\<lambda>ls.
     seqT (forT ls (save_row z s0 actor worker day loc))
     (seqT (save_day (st_id worker) day (\<lambda>r. r\<lparr>submitted_at := Some m\<rparr>))
     (bindT (getT (\<lambda>s. \<not> saved_remotely s actor loc)) (\<lambda>trust.
     seqT (record_day_event (st_id actor) (st_id worker) day ''day_sent'' None None trust)
     (readT (\<lambda>s. list_entries s worker day))))))))))))"

context day_writes
begin

lemma save_row_keeps [keeps_intros]: "keeps I (save_row z s0 actor worker day loc l)"
  unfolding save_row_def by (intro keeps_intros)

lemma submit_day_keeps [keeps_intros]: "keeps I (submit_day z actor worker day rows loc m)"
  unfolding submit_day_def by (intro keeps_intros save_day_keeps event) (simp add: day_key_def)

end

section \<open>Where the rows land\<close>

definition well_laid :: "window list \<Rightarrow> laid_line \<Rightarrow> bool" where
  "well_laid breaks l \<longleftrightarrow>
     (case ll_start l of
        None \<Rightarrow> ll_end l = None
      | Some a \<Rightarrow> (case ll_end l of None \<Rightarrow> False
          | Some b \<Rightarrow> clock_ok a \<and> clock_ok b \<and> minutes a \<notin> covered breaks \<and> minutes a \<le> minutes b
              \<and> worked_minutes (covered breaks) (minutes a) (minutes b) = round_half_up (ll_hours l * 60)))"

definition starts_from :: "int \<Rightarrow> laid_line \<Rightarrow> bool" where
  "starts_from m l \<longleftrightarrow> (case ll_start l of None \<Rightarrow> True | Some a \<Rightarrow> m \<le> minutes a)"

definition laid_before :: "laid_line \<Rightarrow> laid_line \<Rightarrow> bool" where
  "laid_before x y \<longleftrightarrow> (case ll_end x of None \<Rightarrow> ll_start y = None | Some b \<Rightarrow> starts_from (minutes b) y)"

lemma laid_rows [simp]: "ll_job (laid r a b) = fr_job r" "ll_hours (laid r a b) = fr_hours r"
  "ll_start (laid r a b) = a" "ll_end (laid r a b) = b"
  by (simp_all add: laid_def)

lemma finish_is_time:
  assumes "list_all window_ok breaks" "0 \<le> hours" "clock_ok a" "finish_in_the_day a hours breaks = Some f"
  shows "clock_ok f"
proof -
  note f = finish_spec [OF assms(1,2,4)]
  have "0 \<le> minutes f" "minutes f < 1440"
    using f minutes_range [OF assms(3)] by (auto simp: last_minute_def)
  then show ?thesis using f clock_at_ok [of "minutes f"] by metis
qed

lemma lay_out_from_none: "lay_out_from None rows breaks = Inr (map (\<lambda>r. laid r None None) rows)"
  by (induction rows) simp_all

lemma lay_out_from_spec:
  assumes "list_all window_ok breaks" "clock_ok c" "\<forall>r \<in> set rows. 0 \<le> fr_hours r"
  shows "\<exists>ls. lay_out_from (Some c) rows breaks = Inr ls \<and> map ll_job ls = map fr_job rows
    \<and> map ll_hours ls = map fr_hours rows \<and> list_all (well_laid breaks) ls \<and> list_all (starts_from (minutes c)) ls
    \<and> sorted_wrt laid_before ls"
  using assms(2,3)
proof (induction rows arbitrary: c)
  case (Cons r rows)
  from start_after_breaks_in_day [OF assms(1) Cons.prems(1)] obtain t where
    t: "start_after_breaks c breaks = Inr t" "clock_ok t" "minutes c \<le> minutes t" "minutes t \<notin> covered breaks" by blast
  show ?case
  proof (cases "finish_in_the_day t (fr_hours r) breaks")
    case None
    then show ?thesis
      by (simp add: t(1) lay_out_from_none list_all_iff well_laid_def starts_from_def sorted_wrt_map laid_before_def
          comp_def)
  next
    case (Some f)
    have h: "0 \<le> fr_hours r" using Cons.prems(2) by simp
    note f = finish_spec [OF assms(1) h Some]
    have "clock_ok f" by (rule finish_is_time [OF assms(1) h t(2) Some])
    from Cons.IH [OF this] Cons.prems(2) obtain ls where
      ls: "lay_out_from (Some f) rows breaks = Inr ls" "map ll_job ls = map fr_job rows" "map ll_hours ls = map fr_hours rows"
        "list_all (well_laid breaks) ls" "list_all (starts_from (minutes f)) ls" "sorted_wrt laid_before ls" by auto
    have "list_all (starts_from (minutes c)) ls"
      using ls(5) t(3) f by (auto simp: list_all_iff starts_from_def split: option.splits)
    moreover have "well_laid breaks (laid r (Some t) (Some f))"
      using t f \<open>clock_ok f\<close> by (simp add: well_laid_def)
    moreover have "\<forall>y \<in> set ls. laid_before (laid r (Some t) (Some f)) y"
      using ls(5) by (simp add: laid_before_def list_all_iff)
    moreover have "starts_from (minutes c) (laid r (Some t) (Some f))" using t(3) by (simp add: starts_from_def)
    ultimately show ?thesis using ls t(1) Some by simp
  qed
qed simp

end
