(* ===== verification/Clocking.thy ===== *)
theory Clocking
  imports Submission
begin

text \<open>
  What clocking promises, as a refinement: the attendance table denotes a book (\<open>day_book\<close>), a map
  from a person and a date to when he started, finished and sent the day, and each handler that
  succeeds makes the one change of the book its specification names. Writes of entries and
  breaks leave the book as it was (\<open>clocked\<close>).
\<close>

section \<open>The book\<close>

type_synonym day_entry = "clock \<times> clock option \<times> moment option"

definition day_book :: "db \<Rightarrow> uuid \<times> date \<Rightarrow> day_entry option" where
  "day_book s = map_of (map day_times (attendance_days s))"

definition entry_of :: "attendance_day \<Rightarrow> day_entry" where
  "entry_of r = (ad_clock_in r, ad_clock_out r, submitted_at r)"

lemma day_times_entry: "day_times r = (day_key r, entry_of r)"
  by (simp add: day_times_def entry_of_def)

lemma book_row: "day_book s (who, day) = map_option entry_of (attendance_row s who day)"
proof -
  have "map_of (map day_times rs) (who, day) = map_option entry_of (find (\<lambda>r. ad_staff r = who \<and> ad_date r = day) rs)" for rs
    by (induction rs) (auto simp: day_times_entry day_key_def)
  then show ?thesis by (simp add: day_book_def attendance_row_def)
qed

lemma book_same: "map day_times (attendance_days s') = map day_times (attendance_days s) \<Longrightarrow> day_book s' = day_book s"
  by (simp add: day_book_def)

lemma clocked_book:
  assumes "\<And>X. keeps (\<lambda>s. map day_times (attendance_days s) = X) m" "m s = Inr (x, s')"
  shows "day_book s' = day_book s"
  using keepsD [OF assms(1) _ assms(2)] by (intro book_same) simp

lemma insert_day_book:
  "insert_day r s = Inr (u, s') \<Longrightarrow> day_book s' = (day_book s)(day_key r \<mapsto> entry_of r)"
proof -
  assume run: "insert_day r s = Inr (u, s')"
  then have none: "day_key r \<notin> day_key ` set (attendance_days s)"
    by (simp add: insert_day_Inr attendance_row_None day_key_def)
  have "map_of (map day_times (rs @ [r])) k = ((map_of (map day_times rs))(day_key r \<mapsto> entry_of r)) k"
    if "day_key r \<notin> day_key ` set rs" for rs k
    using that by (induction rs) (auto simp: day_times_entry)
  then show ?thesis using run none by (auto simp: insert_day_Inr day_book_def)
qed

lemma save_day_book:
  assumes "save_day who day f s = Inr (u, s')" "\<And>r. day_key (f r) = day_key r" "\<And>r. entry_of (f r) = g (entry_of r)"
  shows "day_book s' = (day_book s)((who, day) := map_option g (day_book s (who, day)))"
proof
  fix k
  have key: "(ad_staff r = who \<and> ad_date r = day) = (day_key r = (who, day))" for r by (simp add: day_key_def)
  have "map_of (map day_times (map (\<lambda>r. if day_key r = (who, day) then f r else r) rs)) k
      = ((map_of (map day_times rs))((who, day) := map_option g (map_of (map day_times rs) (who, day)))) k" for rs
    by (induction rs) (auto simp: day_times_entry assms(2,3))
  then show "day_book s' k = ((day_book s)((who, day) := map_option g (day_book s (who, day)))) k"
    unfolding save_day_Inr(1) [OF assms(1)] by (simp add: day_book_def key)
qed

section \<open>Writes that leave the book alone\<close>

lemma record_day_book: "record_day actor row t w loc s = Inr (u, s') \<Longrightarrow> day_book s' = day_book s"
  by (rule clocked_book) (rule clocked.record_day_keeps)

lemma generate_book: "generate_default_breaks z who row actor loc s = Inr (u, s') \<Longrightarrow> day_book s' = day_book s"
  by (rule clocked_book) (rule clocked_generate)

lemma drop_breaks_book: "drop_breaks_after_finish z row actor loc s = Inr (u, s') \<Longrightarrow> day_book s' = day_book s"
  by (rule clocked_book) (rule clocked.drop_breaks_keeps)

lemma refill_book: "refill_general_work z who day actor s = Inr (u, s') \<Longrightarrow> day_book s' = day_book s"
  by (rule clocked_book) (rule clocked.refill_keeps)

lemma record_day_event_book: "record_day_event a w d t x y b s = Inr (u, s') \<Longrightarrow> day_book s' = day_book s"
  by (erule clocked_book [rotated]) (intro keeps_intros, simp)

lemmas book_frames = record_day_book generate_book drop_breaks_book refill_book record_day_event_book

text \<open>How a day moves on by itself; only setting its times by hand goes back.\<close>

inductive day_progress :: "day_entry option \<Rightarrow> day_entry option \<Rightarrow> bool" where
  started: "day_progress None (Some (a, None, None))"
| default_hours: "a < b \<Longrightarrow> day_progress None (Some (a, Some b, None))"
| finished: "a < b \<Longrightarrow> day_progress (Some (a, None, x)) (Some (a, Some b, x))"
| sent: "day_progress (Some (a, Some b, x)) (Some (a, Some b, Some m))"

inductive_cases day_progress_sent: "day_progress (Some (a, Some b, x)) d"

lemma sent_stays:
  assumes "day_progress\<^sup>*\<^sup>* (Some (a, Some b, Some m)) d"
  shows "\<exists>m'. d = Some (a, Some b, Some m')"
  using assms by (induction rule: rtranclp_induct) (auto elim: day_progress_sent)

section \<open>Clocking in and out\<close>

lemma clock_in_book:
  assumes "clock_in z worker m loc s = Inr (a, s')"
  shows "day_book s (st_id worker, m_date m) = None
    \<and> day_book s' = (day_book s)((st_id worker, m_date m) \<mapsto> (to_the_minute (m_time m), None, None))"
proof -
  let ?row = "started_day (st_id worker) (m_date m) (to_the_minute (m_time m)) None"
  have "\<exists>s1 s2. attendance_row s (st_id worker) (m_date m) = None \<and> insert_day ?row s = Inr ((), s1)
    \<and> record_day worker ?row ''clocked_in'' None loc s1 = Inr ((), s2)
    \<and> generate_default_breaks z worker ?row worker loc s2 = Inr ((), s')"
    using assms by (auto simp: clock_in_def Let_def tx_Inr tx_prims split: option.splits if_splits)
  then obtain s1 s2 where r: "attendance_row s (st_id worker) (m_date m) = None" "insert_day ?row s = Inr ((), s1)"
    "record_day worker ?row ''clocked_in'' None loc s1 = Inr ((), s2)"
    "generate_default_breaks z worker ?row worker loc s2 = Inr ((), s')" by blast
  from book_frames(1) [OF r(3)] book_frames(2) [OF r(4)] insert_day_book [OF r(2)] r(1)
  show ?thesis by (simp add: book_row started_day_def day_key_def entry_of_def)
qed

lemma row_to_clock_out_book:
  assumes "row_to_clock_out z worker day finish loc s = Inr (row, s')"
  shows "entry_of row = (ad_clock_in row, ad_clock_out row, submitted_at row)
    \<and> (day_book s (st_id worker, day) = Some (entry_of row) \<and> s' = s
       \<or> day_book s (st_id worker, day) = None \<and> day_book s' = (day_book s)((st_id worker, day) \<mapsto> entry_of row)
         \<and> ad_clock_out row = None \<and> submitted_at row = None
         \<and> map_option w_start (standard_day s day) = Some (ad_clock_in row))"
proof (cases "attendance_row s (st_id worker) day")
  case None
  then obtain w s1 s2 where w: "standard_day s day = Some w"
    and r: "insert_day (started_day (st_id worker) day (w_start w) None) s = Inr ((), s1)"
      "record_day worker (started_day (st_id worker) day (w_start w) None) ''standard_hours_used'' None loc s1 = Inr ((), s2)"
      "generate_default_breaks z worker (started_day (st_id worker) day (w_start w) None) worker loc s2 = Inr ((), s')"
      "row = (started_day (st_id worker) day (w_start w) None)\<lparr>breaks_generated := True\<rparr>"
    using assms by (auto simp: row_to_clock_out_def Let_def tx_Inr tx_prims split: option.splits if_splits)
  from book_frames(1) [OF r(2)] book_frames(2) [OF r(3)] insert_day_book [OF r(1)] r(4) None w
  show ?thesis by (simp add: book_row started_day_def day_key_def entry_of_def)
next
  case (Some r)
  then show ?thesis using assms
    by (auto simp: row_to_clock_out_def tx_Inr tx_prims book_row entry_of_def split: option.splits)
qed

lemma clock_out_book:
  assumes "clock_out z worker m loc s = Inr (a, s')"
  shows "\<exists>start x. (day_book s (st_id worker, m_date m) = Some (start, None, x)
        \<or> day_book s (st_id worker, m_date m) = None \<and> x = None \<and> map_option w_start (standard_day s (m_date m)) = Some start)
    \<and> start < to_the_minute (m_time m)
    \<and> day_book s' = (day_book s)((st_id worker, m_date m) \<mapsto> (start, Some (to_the_minute (m_time m)), x))"
proof -
  let ?f = "to_the_minute (m_time m)" and ?k = "(st_id worker, m_date m)"
  obtain row s1 s2 s3 s4 h where r: "row_to_clock_out z worker (m_date m) ?f loc s = Inr (row, s1)"
    "ad_clock_out row = None" "require_finish_after_start (ad_clock_in row) ?f = Inr ()"
    "save_day (st_id worker) (m_date m) (\<lambda>r. r\<lparr>ad_clock_out := Some ?f\<rparr>) s1 = Inr ((), s2)"
    "record_day worker (row\<lparr>ad_clock_out := Some ?f\<rparr>) ''clocked_out'' (day_snapshot (Some row)) loc s2 = Inr ((), s3)"
    "drop_breaks_after_finish z (row\<lparr>ad_clock_out := Some ?f\<rparr>) worker loc s3 = Inr ((), s4)"
    "refill_general_work z worker (m_date m) worker s4 = Inr (h, s')"
    using assms by (auto simp: clock_out_def Let_def tx_Inr tx_prims)
  note row = row_to_clock_out_book [OF r(1)]
  have save: "day_book s2 = (day_book s1)(?k := map_option (\<lambda>(a, b, x). (a, Some ?f, x)) (day_book s1 ?k))"
    by (rule save_day_book [OF r(4)]) (simp_all add: day_key_def entry_of_def)
  have "day_book s1 ?k = Some (entry_of row)" using row by auto
  then have "day_book s' = (day_book s1)(?k \<mapsto> (ad_clock_in row, Some ?f, submitted_at row))"
    using save book_frames(1) [OF r(5)] book_frames(3) [OF r(6)] book_frames(4) [OF r(7)] by (simp add: entry_of_def)
  then have "day_book s' = (day_book s)(?k \<mapsto> (ad_clock_in row, Some ?f, submitted_at row))"
    using row by (auto simp: fun_upd_def)
  moreover have "ad_clock_in row < ?f" using r(3) by (simp add: require_finish_after_start_def)
  ultimately show ?thesis using row r(2) by (intro exI [of _ "ad_clock_in row"] exI [of _ "submitted_at row"]) auto
qed

section \<open>Setting the times, and the defaults\<close>

lemma set_clock_times_book:
  assumes "set_clock_times z who day start finish actor loc s = Inr (a, s')"
  shows "(st_id actor = st_id who \<or> is_office_staff actor)
    \<and> (\<forall>f. finish = Some f \<longrightarrow> start < f \<and> to_the_minute start < to_the_minute f)
    \<and> day_book s' = (day_book s)((st_id who, day) \<mapsto> (to_the_minute start, map_option to_the_minute finish, None))"
proof -
  let ?a = "to_the_minute start" and ?b = "map_option to_the_minute finish" and ?k = "(st_id who, day)"
  let ?found = "attendance_row s (st_id who) day"
  let ?row = "case ?found of None \<Rightarrow> started_day (st_id who) day ?a ?b
                 | Some r \<Rightarrow> r\<lparr>ad_clock_in := ?a, ad_clock_out := ?b, submitted_at := None\<rparr>"
  obtain s1 s2 s3 s4 h where own: "st_id actor = st_id who \<or> is_office_staff actor"
    and fin: "(case finish of None \<Rightarrow> Inr () | Some f \<Rightarrow> require_finish_after_start start f) = Inr ()"
    and w: "(case ?found of None \<Rightarrow> insert_day ?row
            | Some _ \<Rightarrow> save_day (st_id who) day (\<lambda>r. r\<lparr>ad_clock_in := ?a, ad_clock_out := ?b, submitted_at := None\<rparr>)) s
          = Inr ((), s1)"
    and r: "record_day actor ?row ''clock_times_set'' (day_snapshot ?found) loc s1 = Inr ((), s2)"
      "generate_default_breaks z who ?row actor loc s2 = Inr ((), s3)"
      "drop_breaks_after_finish z ?row actor loc s3 = Inr ((), s4)"
      "refill_general_work z who day actor s4 = Inr (h, s')"
    using assms by (auto simp: set_clock_times_def Let_def tx_Inr tx_prims)
  have "day_book s1 = (day_book s)(?k \<mapsto> (?a, ?b, None)) \<and> (\<forall>f. finish = Some f \<longrightarrow> ?a < to_the_minute f)"
  proof (cases ?found)
    case None
    then have "insert_day (started_day (st_id who) day ?a ?b) s = Inr ((), s1)" using w by simp
    from insert_day_book [OF this] this show ?thesis
      by (auto simp: insert_day_Inr started_day_def day_key_def entry_of_def day_row_ok_def)
  next
    case (Some x)
    with w have sv: "save_day (st_id who) day (\<lambda>r. r\<lparr>ad_clock_in := ?a, ad_clock_out := ?b, submitted_at := None\<rparr>) s
        = Inr ((), s1)" by simp
    have "day_book s1 = (day_book s)(?k := map_option (\<lambda>_. (?a, ?b, None)) (day_book s ?k))"
      by (rule save_day_book [OF sv]) (simp_all add: day_key_def entry_of_def)
    moreover have "x \<in> set (attendance_days s)" "ad_staff x = st_id who" "ad_date x = day"
      using Some by (auto simp: attendance_row_def find_Some_iff)
    then have "day_row_ok (x\<lparr>ad_clock_in := ?a, ad_clock_out := ?b, submitted_at := None\<rparr>)"
      using save_day_Inr(2) [OF sv] by blast
    ultimately show ?thesis using Some by (auto simp: book_row day_row_ok_def)
  qed
  moreover have "day_book s' = day_book s1"
    using book_frames(1) [OF r(1)] book_frames(2) [OF r(2)] book_frames(3) [OF r(3)] book_frames(4) [OF r(4)] by simp
  ultimately show ?thesis
    using own fin by (auto simp: require_finish_after_start_def)
qed

lemma settle_day_book:
  assumes "settle_day z who day actor loc s = Inr (row, s')"
  shows "day_book s' = (day_book s)((st_id who, day) \<mapsto> entry_of row) \<and> ad_clock_out row \<noteq> None
    \<and> day_progress\<^sup>*\<^sup>* (day_book s (st_id who, day)) (Some (entry_of row))"
proof -
  let ?k = "(st_id who, day)" and ?found = "attendance_row s (st_id who) day"
  from assms obtain w where span: "day_span s day ?found = Some w"
    by (auto simp: settle_day_def tx_Inr tx_prims split: option.splits if_splits)
  show ?thesis
  proof (cases "?found \<noteq> None \<and> ad_clock_out (the ?found) \<noteq> None")
    case True
    then have "row = the ?found" "s' = s"
      using assms span by (auto simp: settle_day_def tx_Inr tx_prims)
    then show ?thesis using True by (auto simp: book_row)
  next
    case settle: False
    show ?thesis
    proof (cases ?found)
      case None
      let ?row = "started_day (st_id who) day (w_start w) (Some (w_end w))"
      from assms obtain s1 s2 s3 where r: "insert_day ?row s = Inr ((), s1)"
        "record_day actor ?row ''standard_hours_used'' None loc s1 = Inr ((), s2)"
        "generate_default_breaks z who ?row actor loc s2 = Inr ((), s3)" "row = ?row\<lparr>breaks_generated := True\<rparr>"
        "drop_breaks_after_finish z row actor loc s3 = Inr ((), s')"
        using None span by (auto simp: settle_day_def Let_def tx_Inr tx_prims split: if_splits)
      have "day_book s' = (day_book s)(?k \<mapsto> entry_of row)"
        using insert_day_book [OF r(1)] book_frames(1) [OF r(2)] book_frames(2) [OF r(3)] book_frames(3) [OF r(5)] r(4)
        by (simp add: started_day_def day_key_def entry_of_def)
      moreover have "w_start w < w_end w"
        using r(1) by (simp add: insert_day_Inr day_row_ok_def started_day_def)
      ultimately show ?thesis
        using None r(4) by (auto simp: book_row started_day_def entry_of_def intro!: r_into_rtranclp default_hours)
    next
      case (Some x)
      with settle have open_day: "ad_clock_out x = None" by simp
      let ?row = "x\<lparr>ad_clock_out := Some (w_end w)\<rparr>"
      from assms obtain s1 s2 where r: "save_day (st_id who) day (\<lambda>x. x\<lparr>ad_clock_out := Some (w_end w)\<rparr>) s = Inr ((), s1)"
        "record_day actor ?row ''standard_hours_used'' (day_snapshot (Some x)) loc s1 = Inr ((), s2)"
        "row = ?row" "drop_breaks_after_finish z row actor loc s2 = Inr ((), s')"
        using Some open_day span by (auto simp: settle_day_def Let_def tx_Inr tx_prims split: if_splits)
      have "day_book s1 = (day_book s)(?k := map_option (\<lambda>(a, b, t). (a, Some (w_end w), t)) (day_book s ?k))"
        by (rule save_day_book [OF r(1)]) (simp_all add: day_key_def entry_of_def)
      moreover have "day_book s ?k = Some (ad_clock_in x, None, submitted_at x)"
        using Some open_day by (simp add: book_row entry_of_def)
      moreover have "x \<in> set (attendance_days s)" "ad_staff x = st_id who" "ad_date x = day"
        using Some by (auto simp: attendance_row_def find_Some_iff)
      then have "day_row_ok ?row" using save_day_Inr(2) [OF r(1)] by blast
      then have "ad_clock_in x < w_end w" by (simp add: day_row_ok_def)
      ultimately show ?thesis
        using book_frames(1) [OF r(2)] book_frames(3) [OF r(4)] r(3)
        by (auto simp: entry_of_def intro!: r_into_rtranclp finished)
    qed
  qed
qed

lemma fill_with_general_work_settled:
  assumes "fill_with_general_work z who day actor s = Inr (h, s')"
  obtains row s1 where "settle_day z who day actor None s = Inr (row, s1)" "day_book s' = day_book s1"
proof -
  from assms obtain row s1 s2 where st: "settle_day z who day actor None s = Inr (row, s1)"
    and mark: "whenT (\<not> general_work_fill row)
        (seqT (save_day (st_id who) day (\<lambda>r. r\<lparr>general_work_fill := True\<rparr>))
        (bindT (getT (\<lambda>s. \<not> saved_remotely s actor None)) (\<lambda>trust.
        record_day_event (st_id actor) (st_id who) day ''general_work_on'' None None trust))) s1 = Inr ((), s2)"
    and refill: "refill_general_work z who day actor s2 = Inr (h, s')"
    by (auto simp: fill_with_general_work_def tx_Inr requireT_eq_Inr)
  have "day_book s2 = day_book s1"
    using mark by (rule clocked_book [rotated]) (intro keeps_intros clocked_save_day, simp_all add: day_times_def day_key_def)
  with st show ?thesis using refill_book [OF refill] by (intro that) auto
qed

lemma fill_with_general_work_book:
  assumes "fill_with_general_work z who day actor s = Inr (h, s')"
  shows "\<exists>a b x. day_book s' = (day_book s)((st_id who, day) \<mapsto> (a, Some b, x))
    \<and> day_progress\<^sup>*\<^sup>* (day_book s (st_id who, day)) (Some (a, Some b, x))"
proof -
  obtain row s1 where st: "settle_day z who day actor None s = Inr (row, s1)" "day_book s' = day_book s1"
    by (rule fill_with_general_work_settled [OF assms])
  moreover obtain b where "ad_clock_out row = Some b" using settle_day_book [OF st(1)] by auto
  ultimately show ?thesis
    using settle_day_book [OF st(1)] by (auto simp: entry_of_def)
qed

lemma save_row_book: "forT ls (save_row z s0 actor worker day loc) s = Inr (u, s') \<Longrightarrow> day_book s' = day_book s"
  by (erule clocked_book [rotated]) (unfold save_row_def, intro keeps_intros clocked.create_entry_keeps)

lemma submit_day_book:
  assumes "submit_day z actor worker day rows loc m s = Inr (d, s')"
  shows "(st_id actor = st_id worker \<or> is_office_staff actor)
    \<and> (\<exists>a b. day_book s' = (day_book s)((st_id worker, day) \<mapsto> (a, Some b, Some m))
        \<and> day_progress\<^sup>*\<^sup>* (day_book s (st_id worker, day)) (Some (a, Some b, Some m)))"
proof -
  let ?k = "(st_id worker, day)"
  obtain row s1 ls s2 s3 b where own: "st_id actor = st_id worker \<or> is_office_staff actor"
    and st: "settle_day z worker day actor loc s = Inr (row, s1)"
    and rows: "forT ls (save_row z s1 actor worker day loc) s1 = Inr ((), s2)"
    and sv: "save_day (st_id worker) day (\<lambda>r. r\<lparr>submitted_at := Some m\<rparr>) s2 = Inr ((), s3)"
    and ev: "record_day_event (st_id actor) (st_id worker) day ''day_sent'' None None b s3 = Inr ((), s')"
    using assms by (auto simp: submit_day_def tx_Inr tx_prims split_def)
  note settled = settle_day_book [OF st]
  then obtain f where f: "ad_clock_out row = Some f" by auto
  have "day_book s3 = (day_book s2)(?k := map_option (\<lambda>(a, b, x). (a, b, Some m)) (day_book s2 ?k))"
    by (rule save_day_book [OF sv]) (simp_all add: day_key_def entry_of_def)
  then have book: "day_book s' = (day_book s)(?k \<mapsto> (ad_clock_in row, Some f, Some m))"
    using settled save_row_book [OF rows] record_day_event_book [OF ev] f by (simp add: entry_of_def)
  have "day_progress (Some (entry_of row)) (Some (ad_clock_in row, Some f, Some m))"
    using f by (simp add: entry_of_def sent)
  then have "day_progress\<^sup>*\<^sup>* (day_book s ?k) (Some (ad_clock_in row, Some f, Some m))"
    using settled by (meson rtranclp.rtrancl_into_rtrancl)
  then show ?thesis using own book by blast
qed

end
