(* ===== verification/Approval.thy ===== *)
theory Approval
  imports Clocking
begin

text \<open>
  \<open>apps/timesheet/services/approval.py\<close>: the office's reading of a day, person by person, the
  approval of what waits, and the sweep that books clocked time on no job to General work,
  approves it and sends the day. Messages are kept with their wording.
\<close>

section \<open>Approving\<close>

definition approve_line :: "cost_line \<Rightarrow> staff_row \<Rightarrow> (db, unit) tx" where
  "approve_line l actor =
     bindT (readT (\<lambda>s. snapshot_if_entry s l)) (\<lambda>was.
     let l' = l\<lparr>approved := True\<rparr> in
     seqT (save_approved l')
     (bindT (getT (\<lambda>s. \<not> saved_remotely s actor None)) (\<lambda>trust.
     record_timesheet_event (st_id actor) ''entry_approved'' l' was trust)))"

definition waiting_lines :: "db \<Rightarrow> uuid \<Rightarrow> date \<Rightarrow> cost_line list" where
  "waiting_lines s who day = filter (\<lambda>l. is_actual_time s l \<and> line_staff l = Some who \<and> accounting_date l = day
     \<and> \<not> approved l \<and> managed_by l = None) (cost_lines s)"

definition approve_day :: "staff_row \<Rightarrow> date \<Rightarrow> staff_row \<Rightarrow> (db, nat) tx" where
  "approve_day worker day actor =
     bindT (getT (\<lambda>s. waiting_lines s (st_id worker) day)) (\<lambda>ls.
     seqT (forT ls (\<lambda>l. approve_line l actor)) (ret (length ls)))"

section \<open>One person's day\<close>

datatype approval_state = Waiting | NothingEntered | NothingWaiting | NotRostered

fun state_order :: "approval_state \<Rightarrow> nat" where
  "state_order Waiting = 0"
| "state_order NothingEntered = 1"
| "state_order NothingWaiting = 2"
| "state_order NotRostered = 3"

record staff_approval =
  sa_staff :: uuid
  sa_name :: string
  sa_state :: approval_state
  sa_entered :: rat
  sa_waiting :: rat
  sa_cautions :: "string list"
  sa_clock :: attendance_data
  sa_fill :: "fill_data option"
  sa_unallocated :: "rat option"
  sa_overtime_check :: bool
  sa_breaks :: "break_data list"
  sa_entries :: "entry_out list"
  sa_default_start :: clock

definition has_leave :: "cost_line list \<Rightarrow> bool" where
  "has_leave entries \<longleftrightarrow> list_ex (\<lambda>l. managed_by l = Some OwnedByLeave) entries"

definition hours_in :: "window list \<Rightarrow> rat res" where
  "hours_in ws = bindR (mapR (\<lambda>w. hours_for (w_start w) (w_end w) []) ws) (\<lambda>hs. Inr (sum_list hs))"

definition overtime_is_off :: "db \<Rightarrow> staff_row \<Rightarrow> date \<Rightarrow> cost_line list \<Rightarrow> bool res" where
  "overtime_is_off s person day entries =
     (let work = filter (\<lambda>l. line_job_id s l \<notin> Some ` set (leave_job_ids s) \<and> \<not> is_unpaid_time s l) entries;
          worked = sum_list (map quantity work) in
      bindR (filterR (\<lambda>l. bindR (line_wage_multiplier l) (\<lambda>m. Inr (m > 1))) work) (\<lambda>late.
      bindR (overtime_hours s person day worked False False) (\<lambda>past.
      Inr (sum_list (map quantity late) \<noteq> split_off worked past))))"

definition approval_state_of :: "cost_line list \<Rightarrow> bool \<Rightarrow> bool \<Rightarrow> cost_line list \<Rightarrow> approval_state" where
  "approval_state_of entries rostered clocked waiting =
     (if entries = [] \<and> (rostered \<or> clocked) then NothingEntered
      else if entries = [] then NotRostered
      else if waiting \<noteq> [] then Waiting
      else NothingWaiting)"

definition cautions_of :: "fill_data option \<Rightarrow> cost_line list \<Rightarrow> string list" where
  "cautions_of fill entries =
     (case fill of None \<Rightarrow> [] | Some f \<Rightarrow> if to_go_hours f < 0 then [''Over by '' @ duration_words (- to_go_hours f)] else [])
     @ (if has_leave entries \<and> list_ex (\<lambda>l. managed_by l \<noteq> Some OwnedByLeave) entries
        then [''Leave and work on the same day''] else [])"

definition staff_day ::
  "db \<Rightarrow> staff_row \<Rightarrow> date \<Rightarrow> cost_line list \<Rightarrow> attendance_day option \<Rightarrow> bool \<Rightarrow> staff_approval res" where
  "staff_day s person day ls row rostered =
     (let hours = filter (\<lambda>l. \<not> is_unpaid_time s l) ls; waiting = filter (\<lambda>l. \<not> approved l) hours;
          entries = fst (split_breaks s ls); break_lines = snd (split_breaks s ls) in
      bindR (fill_figures s day row (sum_list (map quantity entries)) break_lines) (\<lambda>fill.
      bindR (if row \<noteq> None \<or> rostered \<and> day < today s \<and> \<not> has_leave entries
             then unallocated_windows s day row entries break_lines else Inr None) (\<lambda>free.
      bindR (get_display_full_name person) (\<lambda>name.
      bindR (case free of None \<Rightarrow> Inr None | Some ws \<Rightarrow> bindR (hours_in ws) (\<lambda>h. Inr (Some h))) (\<lambda>unallocated.
      bindR (overtime_is_off s person day entries) (\<lambda>off.
      bindR (if row = None then Inr [] else day_breaks s day row break_lines) (\<lambda>breaks.
      bindR (mapR (entry_data s) entries) (\<lambda>es.
      bindR (default_entry_start s day row entries break_lines) (\<lambda>start.
      Inr \<lparr>sa_staff = st_id person, sa_name = name, sa_state = approval_state_of entries rostered (row \<noteq> None) waiting,
        sa_entered = sum_list (map quantity hours), sa_waiting = sum_list (map quantity waiting),
        sa_cautions = cautions_of fill entries, sa_clock = attendance_data row, sa_fill = fill,
        sa_unallocated = unallocated, sa_overtime_check = off, sa_breaks = breaks, sa_entries = es,
        sa_default_start = start\<rparr>)))))))))"

section \<open>Everyone's day\<close>

datatype day_standing = InProgress | Complete | NobodyRostered

record day_summary =
  ds_expected :: nat
  ds_approved :: nat
  ds_standing :: day_standing

definition day_summary :: "staff_approval list \<Rightarrow> day_summary" where
  "day_summary rows =
     (let expected = filter (\<lambda>r. sa_state r \<noteq> NotRostered) rows;
          done = length (filter (\<lambda>r. sa_state r = NothingWaiting) expected)
      in \<lparr>ds_expected = length expected, ds_approved = done,
          ds_standing = (if expected = [] then NobodyRostered
                         else if done = length expected then Complete else InProgress)\<rparr>)"

definition rostered :: "db \<Rightarrow> staff_row \<Rightarrow> date \<Rightarrow> bool res" where
  "rostered s person day =
     bindR (scheduled_hours s person day (weekend_timesheets_enabled (company s))) (\<lambda>h. Inr (h > 0))"

record approvals_day =
  ap_date :: date
  ap_standard :: "window option"
  ap_summary :: day_summary
  ap_staff :: "staff_approval list"

definition day_approvals :: "db \<Rightarrow> date \<Rightarrow> approvals_day res" where
  "day_approvals s day =
     bindR (mapR (\<lambda>p. bindR (rostered s p day) (\<lambda>r.
              staff_day s p day (day_time_lines s (st_id p) day) (attendance_row s (st_id p) day) r))
            (get_displayable_staff s (Some day) None False True)) (\<lambda>rows.
     let sorted_rows = sort_key (\<lambda>r. (state_order (sa_state r), sa_name r)) rows
     in Inr \<lparr>ap_date = day, ap_standard = standard_day s day, ap_summary = day_summary sorted_rows,
          ap_staff = sorted_rows\<rparr>)"

section \<open>The sweep\<close>

definition sweep_most_days :: int where "sweep_most_days = 7"

definition sweep_days :: "db \<Rightarrow> date \<Rightarrow> date \<Rightarrow> date list res" where
  "sweep_days s start final =
     (if final < start then Inl (InvalidInput ''The end date is before the start date.'')
      else if final > today s then Inl (InvalidInput ''Days after today haven't been worked yet, so they can't be swept.'')
      else if final - start \<ge> sweep_most_days then Inl (InvalidInput ''A sweep covers one week at most.'')
      else Inr (map (\<lambda>i. start + i) [0..final - start]))"

definition assumed_standard :: "db \<Rightarrow> staff_row \<Rightarrow> date \<Rightarrow> attendance_day option \<Rightarrow> cost_line list \<Rightarrow> bool res" where
  "assumed_standard s person day row entries =
     (if row = None \<and> is_active_on person day \<and> day < today s \<and> \<not> has_leave entries
      then rostered s person day else Inr False)"

definition people_on :: "db \<Rightarrow> date \<Rightarrow> staff_row list res" where
  "people_on s day =
     (let present = map (\<lambda>r. Some (ad_staff r)) (filter (\<lambda>r. ad_date r = day) (attendance_days s))
            @ map line_staff (filter (\<lambda>l. is_actual_time s l \<and> accounting_date l = day) (cost_lines s))
      in filterR (\<lambda>p. if Some (st_id p) \<in> set present then Inr True else assumed_standard s p day None [])
           (get_displayable_staff s (Some day) None False True))"

datatype skip_reason = StillClockedIn | NoClockTimes

record sweep_data =
  sw_hours :: rat
  sw_skipped :: "(uuid \<times> string \<times> date \<times> skip_reason) list"
  sw_overtime :: "(uuid \<times> string \<times> string) list"

definition goes_past_the_usual_day :: "db \<Rightarrow> staff_row \<Rightarrow> date \<Rightarrow> window list \<Rightarrow> bool res" where
  "goes_past_the_usual_day s worker day ws =
     bindR (hours_in ws) (\<lambda>h. bindR (overtime_hours s worker day h True False) (\<lambda>past. Inr (past > 0)))"

definition overtime_warning :: "db \<Rightarrow> staff_row \<Rightarrow> date \<Rightarrow> (uuid \<times> string \<times> string) res" where
  "overtime_warning s worker day =
     bindR (get_display_name worker) (\<lambda>name.
     bindR (if on_a_public_holiday s worker day
            then Inr (name @ '' worked a public holiday, so that time is at time and a half.'')
            else case standard_day s day of
                None \<Rightarrow> Inl (ValueErr ''has no usual day, so nothing on it is overtime'')
              | Some w \<Rightarrow> bindR (hours_for (w_start w) (w_end w) []) (\<lambda>usual.
                  Inr (name @ '' has done over '' @ duration_words usual @ '', converting some time to overtime.''))) (\<lambda>message.
     bindR (get_display_full_name worker) (\<lambda>full. Inr (st_id worker, full, message))))"

definition send_for_him :: "staff_row \<Rightarrow> attendance_day \<Rightarrow> staff_row \<Rightarrow> (db, unit) tx" where
  "send_for_him worker row actor =
     (if submitted_at row \<noteq> None then ret ()
      else bindT (getT now) (\<lambda>t.
        seqT (save_day (st_id worker) (ad_date row) (\<lambda>r. r\<lparr>submitted_at := Some t\<rparr>))
          (record_day_event (st_id actor) (st_id worker) (ad_date row) ''day_sent'' None None True)))"

definition sweep_one ::
  "(date \<Rightarrow> clock \<Rightarrow> int) \<Rightarrow> staff_row \<Rightarrow> date \<times> staff_row \<Rightarrow> sweep_data \<Rightarrow> (db, sweep_data) tx" where
  "sweep_one z actor dp acc =
     (case dp of (day, person) \<Rightarrow>
       bindT (getT (\<lambda>s. attendance_row s (st_id person) day)) (\<lambda>row.
       bindT (getT (\<lambda>s. split_breaks s (day_time_lines s (st_id person) day))) (\<lambda>(entries, break_lines).
       bindT (readT (\<lambda>s. bindR (if row \<noteq> None then Inr True else assumed_standard s person day row entries) (\<lambda>take.
                if take then unallocated_windows s day row entries break_lines else Inr None))) (\<lambda>windows.
       case windows of
         None \<Rightarrow>
           bindT (readT (\<lambda>s. get_display_full_name person)) (\<lambda>name.
           ret (acc\<lparr>sw_skipped := sw_skipped acc
              @ [(st_id person, name, day, if row = None then NoClockTimes else StillClockedIn)]\<rparr>))
       | Some ws \<Rightarrow>
           bindT (readT (\<lambda>s. goes_past_the_usual_day s person day ws)) (\<lambda>past.
           bindT (readT (\<lambda>s. if past then bindR (overtime_warning s person day) (\<lambda>w. Inr [w]) else Inr [])) (\<lambda>warned.
           bindT (fill_with_general_work z person day actor) (\<lambda>h.
           seqT (approve_day person day actor)
           (bindT (readT (\<lambda>s. of_option (DoesNotExist ''AttendanceDay'') (attendance_row s (st_id person) day))) (\<lambda>r.
           seqT (send_for_him person r actor)
           (ret (acc\<lparr>sw_hours := sw_hours acc + h, sw_overtime := sw_overtime acc @ warned\<rparr>)))))))))))"

definition sweep ::
  "(date \<Rightarrow> clock \<Rightarrow> int) \<Rightarrow> (date \<times> staff_row list) list \<Rightarrow> staff_row \<Rightarrow> (db, sweep_data) tx" where
  "sweep z people_by_day actor =
     seqT (readT required_general_work_job)
     (foldT (sweep_one z actor) (concat (map (\<lambda>(d, ps). map (Pair d) ps) people_by_day))
        \<lparr>sw_hours = 0, sw_skipped = [], sw_overtime = []\<rparr>)"

definition sweep_person ::
  "(date \<Rightarrow> clock \<Rightarrow> int) \<Rightarrow> staff_row \<Rightarrow> date list \<Rightarrow> staff_row \<Rightarrow> (db, sweep_data) tx" where
  "sweep_person z worker days actor = sweep z (map (\<lambda>d. (d, [worker])) days) actor"

definition sweep_everyone :: "(date \<Rightarrow> clock \<Rightarrow> int) \<Rightarrow> date list \<Rightarrow> staff_row \<Rightarrow> (db, sweep_data) tx" where
  "sweep_everyone z days actor =
     bindT (readT (\<lambda>s. mapR (\<lambda>d. bindR (people_on s d) (\<lambda>ps. Inr (d, ps))) days)) (\<lambda>people.
     sweep z people actor)"

context entry_writes
begin

lemma approve_line_keeps [keeps_intros]: "keeps I (approve_line l actor)"
  unfolding approve_line_def Let_def by (intro keeps_intros event)

lemma approve_day_keeps [keeps_intros]: "keeps I (approve_day worker day actor)"
  unfolding approve_day_def by (intro keeps_intros)

end

context day_writes
begin

lemma send_for_him_keeps [keeps_intros]: "keeps I (send_for_him worker row actor)"
  unfolding send_for_him_def by (intro keeps_intros save_day_keeps event) (simp add: day_key_def)

lemma sweep_one_keeps [keeps_intros]: "keeps I (sweep_one z actor dp acc)"
  unfolding sweep_one_def by (intro keeps_intros)

lemma sweep_keeps [keeps_intros]: "keeps I (sweep z people actor)"
  unfolding sweep_def by (intro keeps_intros)

lemma sweep_person_keeps [keeps_intros]: "keeps I (sweep_person z worker days actor)"
  unfolding sweep_person_def by (intro keeps_intros)

lemma sweep_everyone_keeps [keeps_intros]: "keeps I (sweep_everyone z days actor)"
  unfolding sweep_everyone_def by (intro keeps_intros)

end

section \<open>What approving leaves\<close>

definition approve_ids :: "uuid set \<Rightarrow> cost_line list \<Rightarrow> cost_line list" where
  "approve_ids ids ls = map (\<lambda>x. if line_id x \<in> ids then x\<lparr>approved := True\<rparr> else x) ls"

lemma row_put_update:
  "distinct (map key rows) \<Longrightarrow> row_get key k rows = Some b \<Longrightarrow> key (f b) = k \<Longrightarrow>
     row_put key (f b) rows = map (\<lambda>x. if key x = k then f x else x) rows"
proof (induction rows)
  case (Cons x rows)
  show ?case
  proof (cases "key x = k")
    case True
    then have b: "b = x" using Cons.prems by (simp add: row_get_def)
    have absent: "k \<notin> key ` set rows" using Cons.prems(1) True by auto
    then have "row_put key (f b) rows = rows" using Cons.prems(3) by (intro row_put_absent) simp
    moreover have "map (\<lambda>x. if key x = k then f x else x) rows = rows"
      using absent by (intro map_idI) auto
    ultimately show ?thesis using True b Cons.prems(3) by (simp add: row_put_def)
  next
    case False
    with Cons show ?thesis by (simp add: row_get_def row_put_def)
  qed
qed (simp add: row_get_def)

lemma save_approved_frame:
  assumes "save_approved l s = Inr (u, s')" "distinct (map line_id (cost_lines s))" "approved l"
  shows "cost_lines s' = approve_ids {line_id l} (cost_lines s)" "cost_sets s' = cost_sets s" "company s' = company s"
    "attendance_days s' = attendance_days s" "events s' = events s" "now s' = now s"
proof -
  from assms(1) obtain b where b: "row_get line_id (line_id l) (cost_lines s) = Some b"
    and s': "s' = touch_costing_jobs (case line_job_id s l of None \<Rightarrow> [] | Some j \<Rightarrow> [j])
          (s\<lparr>cost_lines := row_put line_id (b\<lparr>approved := approved l\<rparr>) (cost_lines s)\<rparr>)"
    by (auto simp: save_approved_def get_line_def split: option.splits)
  have "line_id b = line_id l" using row_get_Some [OF b] by simp
  then show "cost_lines s' = approve_ids {line_id l} (cost_lines s)"
    using row_put_update [OF assms(2) b, of "\<lambda>x. x\<lparr>approved := True\<rparr>"] assms(3) by (simp add: s' approve_ids_def)
  show "cost_sets s' = cost_sets s" "company s' = company s"
    "attendance_days s' = attendance_days s" "events s' = events s" "now s' = now s" by (simp_all add: s')
qed

lemma approve_line_frame:
  assumes "approve_line l actor s = Inr (u, s')" "distinct (map line_id (cost_lines s))"
  shows "cost_lines s' = approve_ids {line_id l} (cost_lines s) \<and> cost_sets s' = cost_sets s
    \<and> company s' = company s \<and> attendance_days s' = attendance_days s \<and> now s' = now s"
proof -
  from assms(1) obtain was s1 b where sv: "save_approved (l\<lparr>approved := True\<rparr>) s = Inr ((), s1)"
    and ev: "record_timesheet_event (st_id actor) ''entry_approved'' (l\<lparr>approved := True\<rparr>) was b s1 = Inr (u, s')"
    by (auto simp: approve_line_def Let_def tx_Inr tx_prims)
  note f = save_approved_frame [OF sv assms(2)]
  from record_timesheet_event_frame [OF ev] f show ?thesis by auto
qed

lemma approve_ids_ids [simp]: "map line_id (approve_ids ids ls) = map line_id ls"
  by (simp add: approve_ids_def comp_def if_distrib cong: if_cong)

lemma approve_ids_twice: "approve_ids a (approve_ids b ls) = approve_ids (a \<union> b) ls"
  by (auto simp: approve_ids_def)

lemma approve_lines_frame:
  "forT ls (\<lambda>l. approve_line l actor) s = Inr (u, s') \<Longrightarrow> distinct (map line_id (cost_lines s)) \<Longrightarrow>
     cost_lines s' = approve_ids (line_id ` set ls) (cost_lines s) \<and> cost_sets s' = cost_sets s
     \<and> company s' = company s \<and> attendance_days s' = attendance_days s \<and> now s' = now s"
proof (induction ls arbitrary: s)
  case Nil
  then show ?case by (simp add: ret_run approve_ids_def)
next
  case (Cons l ls)
  then obtain s1 where a: "approve_line l actor s = Inr ((), s1)"
    and r: "forT ls (\<lambda>l. approve_line l actor) s1 = Inr (u, s')" by (auto simp: tx_Inr)
  note f = approve_line_frame [OF a Cons.prems(2)]
  then have "distinct (map line_id (cost_lines s1))" using Cons.prems(2) by simp
  from Cons.IH [OF r this] f show ?case by (simp add: approve_ids_twice)
qed

lemma waiting_after:
  assumes "cost_lines s' = approve_ids (line_id ` set (waiting_lines s who day)) (cost_lines s)" "cost_sets s' = cost_sets s"
  shows "waiting_lines s' who day = []"
proof -
  have time: "is_actual_time s' x = is_actual_time s x" for x
    using assms(2) by (simp add: is_actual_time_def line_set_kind_def get_cost_set_def)
  have "\<not> (is_actual_time s y \<and> line_staff y = Some who \<and> accounting_date y = day \<and> \<not> approved y \<and> managed_by y = None)"
    if "y \<in> set (cost_lines s')" for y
  proof
    assume y: "is_actual_time s y \<and> line_staff y = Some who \<and> accounting_date y = day \<and> \<not> approved y \<and> managed_by y = None"
    from that obtain x where x: "x \<in> set (cost_lines s)"
      "y = (if line_id x \<in> line_id ` set (waiting_lines s who day) then x\<lparr>approved := True\<rparr> else x)"
      unfolding assms(1) approve_ids_def by auto
    show False
    proof (cases "line_id x \<in> line_id ` set (waiting_lines s who day)")
      case True
      then show ?thesis using x(2) y by simp
    next
      case False
      then have "x = y" using x(2) by simp
      then have "x \<in> set (waiting_lines s who day)" using x(1) y by (simp add: waiting_lines_def)
      then show ?thesis using False by blast
    qed
  qed
  then show ?thesis by (auto simp: waiting_lines_def filter_empty_conv time)
qed

lemma approve_day_result:
  assumes "approve_day worker day actor s = Inr (n, s')" "distinct (map line_id (cost_lines s))"
  shows "n = length (waiting_lines s (st_id worker) day) \<and> waiting_lines s' (st_id worker) day = []
    \<and> cost_lines s' = approve_ids (line_id ` set (waiting_lines s (st_id worker) day)) (cost_lines s)
    \<and> cost_sets s' = cost_sets s \<and> attendance_days s' = attendance_days s \<and> now s' = now s"
proof -
  from assms(1) have n: "n = length (waiting_lines s (st_id worker) day)"
    and run: "forT (waiting_lines s (st_id worker) day) (\<lambda>l. approve_line l actor) s = Inr ((), s')"
    by (auto simp: approve_day_def tx_Inr tx_prims)
  note f = approve_lines_frame [OF run assms(2)]
  then show ?thesis using n waiting_after by blast
qed

text \<open>C14: Approving a day approves what waits and nothing else: no entry of that person's day is
  left waiting, the answer is how many were, the mark is all that changes on them, no other
  line and no cost set changes, and approving again finds nothing.\<close>

theorem approving_a_day_leaves_none_waiting:
  assumes "approve_day worker day actor s = Inr (n, s')" and "ledger_ok s"
  shows "waiting_lines s' (st_id worker) day = [] \<and> n = length (waiting_lines s (st_id worker) day)
    \<and> cost_lines s' = map (\<lambda>x. if x \<in> set (waiting_lines s (st_id worker) day) then x\<lparr>approved := True\<rparr> else x) (cost_lines s)
    \<and> cost_sets s' = cost_sets s
    \<and> approve_day worker day actor s' = Inr (0, s')"
proof -
  have d: "distinct (map line_id (cost_lines s))" using assms(2) by (simp add: ledger_ok_def)
  note r = approve_day_result [OF assms(1) d]
  have "line_id x \<in> line_id ` set (waiting_lines s (st_id worker) day) \<longleftrightarrow> x \<in> set (waiting_lines s (st_id worker) day)"
    if "x \<in> set (cost_lines s)" for x
  proof -
    have sub: "set (waiting_lines s (st_id worker) day) \<subseteq> set (cost_lines s)" by (auto simp: waiting_lines_def)
    have "inj_on line_id (set (cost_lines s))" using d by (simp add: distinct_map)
    from inj_on_image_mem_iff [OF this that sub] show ?thesis .
  qed
  then have "cost_lines s' = map (\<lambda>x. if x \<in> set (waiting_lines s (st_id worker) day) then x\<lparr>approved := True\<rparr> else x) (cost_lines s)"
    using r by (auto simp: approve_ids_def intro!: map_cong)
  moreover have "approve_day worker day actor s' = Inr (0, s')"
    using r by (simp add: approve_day_def bindT_run seqT_run getT_run ret_run)
  ultimately show ?thesis using r by blast
qed

section \<open>A day that reads complete\<close>

text \<open>Who is expected on a day: whoever is rostered for hours on it, has a clock row of it, or has time
  on it that is not a break.\<close>

definition expected_on :: "db \<Rightarrow> staff_row \<Rightarrow> date \<Rightarrow> bool" where
  "expected_on s p day \<longleftrightarrow>
     (case scheduled_hours s p day (weekend_timesheets_enabled (company s)) of Inl _ \<Rightarrow> False | Inr h \<Rightarrow> 0 < h)
     \<or> list_ex (\<lambda>r. ad_staff r = st_id p \<and> ad_date r = day) (attendance_days s)
     \<or> list_ex (\<lambda>l. line_job_id s l \<noteq> break_job (company s)) (day_time_lines s (st_id p) day)"

text \<open>Such a person's day is dealt with when time is entered on a job and no paid hour waits.\<close>

definition dealt_with :: "db \<Rightarrow> staff_row \<Rightarrow> date \<Rightarrow> bool" where
  "dealt_with s p day \<longleftrightarrow>
     list_ex (\<lambda>l. line_job_id s l \<noteq> break_job (company s)) (day_time_lines s (st_id p) day)
     \<and> list_all (\<lambda>l. approved l \<or> is_unpaid_time s l) (day_time_lines s (st_id p) day)"

lemma staff_day_reads:
  assumes "rostered s p day = Inr r"
    and "staff_day s p day (day_time_lines s (st_id p) day) (attendance_row s (st_id p) day) r = Inr x"
  shows "sa_staff x = st_id p" "sa_state x \<noteq> NotRostered \<longleftrightarrow> expected_on s p day"
    "sa_state x = NothingWaiting \<longleftrightarrow> dealt_with s p day"
proof -
  let ?ls = "day_time_lines s (st_id p) day"
  let ?entries = "fst (split_breaks s ?ls)" and ?waiting = "filter (\<lambda>l. \<not> approved l) (filter (\<lambda>l. \<not> is_unpaid_time s l) ?ls)"
  from assms(2) have st: "sa_state x = approval_state_of ?entries r (attendance_row s (st_id p) day \<noteq> None) ?waiting"
    and id: "sa_staff x = st_id p"
    by (auto simp: staff_day_def Let_def bindR_eq_Inr)
  have roster: "r \<longleftrightarrow> (case scheduled_hours s p day (weekend_timesheets_enabled (company s)) of Inl _ \<Rightarrow> False | Inr h \<Rightarrow> 0 < h)"
    using assms(1) by (auto simp: rostered_def bindR_eq_Inr)
  have row: "attendance_row s (st_id p) day \<noteq> None \<longleftrightarrow> list_ex (\<lambda>r. ad_staff r = st_id p \<and> ad_date r = day) (attendance_days s)"
    by (auto simp: attendance_row_def find_None_iff list_ex_iff)
  have entries: "?entries = [] \<longleftrightarrow> \<not> list_ex (\<lambda>l. line_job_id s l \<noteq> break_job (company s)) ?ls"
    by (auto simp: split_breaks_def filter_empty_conv list_ex_iff)
  have waiting: "?waiting = [] \<longleftrightarrow> list_all (\<lambda>l. approved l \<or> is_unpaid_time s l) ?ls"
    by (auto simp: filter_empty_conv list_all_iff)
  show "sa_staff x = st_id p" by (rule id)
  show "sa_state x \<noteq> NotRostered \<longleftrightarrow> expected_on s p day"
    unfolding st approval_state_of_def expected_on_def roster row entries by auto
  show "sa_state x = NothingWaiting \<longleftrightarrow> dealt_with s p day"
    unfolding st approval_state_of_def dealt_with_def waiting [symmetric] entries by auto
qed

lemma dealt_is_expected: "dealt_with s p day \<Longrightarrow> expected_on s p day"
  by (simp add: dealt_with_def expected_on_def)

lemma filter_all_length: "length (filter P xs) = length xs \<longleftrightarrow> (\<forall>x \<in> set xs. P x)"
  by (metis filter_id_conv length_filter_less less_irrefl)

lemma day_summary_complete:
  "ds_standing (day_summary rows) = Complete \<longleftrightarrow>
     (\<exists>r \<in> set rows. sa_state r \<noteq> NotRostered) \<and> (\<forall>r \<in> set rows. sa_state r \<noteq> NotRostered \<longrightarrow> sa_state r = NothingWaiting)"
  unfolding day_summary_def Let_def by (simp add: filter_all_length del: filter_filter) (auto simp: filter_empty_conv)

text \<open>C31: The Approve time screen says a day is complete exactly when it is: somebody is expected that day,
  and everyone expected, by the roster, the clock or the time entered, has time entered on a job and
  no paid hour of theirs that day waits for approval. Everyone on the list is on the screen, in the state
  that says so.\<close>

theorem a_complete_day_has_nothing_waiting:
  assumes "day_approvals s day = Inr v"
  shows "length (ap_staff v) = length (get_displayable_staff s (Some day) None False True)
    \<and> (\<forall>p \<in> set (get_displayable_staff s (Some day) None False True). \<exists>r \<in> set (ap_staff v). sa_staff r = st_id p
        \<and> (sa_state r \<noteq> NotRostered \<longleftrightarrow> expected_on s p day) \<and> (sa_state r = NothingWaiting \<longleftrightarrow> dealt_with s p day))
    \<and> (ds_standing (ap_summary v) = Complete \<longleftrightarrow>
        (\<exists>p \<in> set (get_displayable_staff s (Some day) None False True). expected_on s p day)
        \<and> (\<forall>p \<in> set (get_displayable_staff s (Some day) None False True). expected_on s p day \<longrightarrow> dealt_with s p day))"
proof -
  let ?ps = "get_displayable_staff s (Some day) None False True"
  let ?f = "\<lambda>p. bindR (rostered s p day) (\<lambda>r. staff_day s p day (day_time_lines s (st_id p) day) (attendance_row s (st_id p) day) r)"
  from assms obtain rows where rows: "mapR ?f ?ps = Inr rows"
    and v: "set (ap_staff v) = set rows" "length (ap_staff v) = length rows" "ap_summary v = day_summary (ap_staff v)"
    by (auto simp: day_approvals_def bindR_eq_Inr Let_def)
  have reads: "sa_staff (rows ! i) = st_id (?ps ! i)" "sa_state (rows ! i) \<noteq> NotRostered \<longleftrightarrow> expected_on s (?ps ! i) day"
    "sa_state (rows ! i) = NothingWaiting \<longleftrightarrow> dealt_with s (?ps ! i) day" if "i < length ?ps" for i
  proof -
    have "?f (?ps ! i) = Inr (rows ! i)" using mapR_nth [OF rows that] by blast
    then obtain b where "rostered s (?ps ! i) day = Inr b"
      "staff_day s (?ps ! i) day (day_time_lines s (st_id (?ps ! i)) day) (attendance_row s (st_id (?ps ! i)) day) b = Inr (rows ! i)"
      by (auto simp: bindR_eq_Inr)
    from staff_day_reads [OF this] show "sa_staff (rows ! i) = st_id (?ps ! i)"
      "sa_state (rows ! i) \<noteq> NotRostered \<longleftrightarrow> expected_on s (?ps ! i) day"
      "sa_state (rows ! i) = NothingWaiting \<longleftrightarrow> dealt_with s (?ps ! i) day" by blast+
  qed
  have len: "length rows = length ?ps" by (rule mapR_length [OF rows])
  have complete: "ds_standing (ap_summary v) = Complete \<longleftrightarrow>
      (\<exists>p \<in> set ?ps. expected_on s p day) \<and> (\<forall>p \<in> set ?ps. expected_on s p day \<longrightarrow> dealt_with s p day)"
    unfolding v(1,3) day_summary_complete all_set_conv_all_nth Bex_def in_set_conv_nth len using reads by blast
  have "\<exists>r \<in> set (ap_staff v). sa_staff r = st_id p \<and> (sa_state r \<noteq> NotRostered \<longleftrightarrow> expected_on s p day)
      \<and> (sa_state r = NothingWaiting \<longleftrightarrow> dealt_with s p day)" if "p \<in> set ?ps" for p
  proof -
    from that obtain i where i: "i < length ?ps" "?ps ! i = p" by (auto simp: in_set_conv_nth)
    then have "rows ! i \<in> set (ap_staff v)" using len v(1) by simp
    then show ?thesis using reads [OF i(1)] i(2) by blast
  qed
  then show ?thesis using complete v(2) len by simp
qed

section \<open>What the sweep leaves\<close>

lemma send_for_him_result:
  assumes "send_for_him worker row actor s = Inr (u, s')" "attendance_row s (st_id worker) day = Some row"
    "day_book s (st_id worker, day) = Some (a, Some b, x)"
  shows "cost_lines s' = cost_lines s \<and> cost_sets s' = cost_sets s
    \<and> (\<exists>m. day_book s' (st_id worker, day) = Some (a, Some b, Some m))"
proof (cases "submitted_at row")
  case None
  have row: "ad_date row = day" using assms(2) by (auto simp: attendance_row_def find_Some_iff)
  from assms(1) None obtain s1 where sv: "save_day (st_id worker) day (\<lambda>r. r\<lparr>submitted_at := Some (now s)\<rparr>) s = Inr ((), s1)"
    and ev: "record_day_event (st_id actor) (st_id worker) day ''day_sent'' None None True s1 = Inr (u, s')"
    by (auto simp: send_for_him_def tx_Inr tx_prims row)
  have "day_book s1 = (day_book s)((st_id worker, day) := map_option (\<lambda>(a, b, x). (a, b, Some (now s))) (day_book s (st_id worker, day)))"
    by (rule save_day_book [OF sv]) (simp_all add: day_key_def entry_of_def)
  moreover have "cost_lines s' = cost_lines s" "cost_sets s' = cost_sets s"
    using save_day_Inr(1) [OF sv] ev by (auto simp: record_day_event_def add_event_def putT_def)
  ultimately show ?thesis using record_day_event_book [OF ev] assms(3) by simp
next
  case (Some m)
  then have "s' = s" "x = Some m" using assms by (auto simp: send_for_him_def ret_run book_row entry_of_def)
  then show ?thesis using assms(3) by blast
qed

text \<open>When there is something to sweep: the day has a finish, or it is over and its start is before the
  usual finish, or it is over, rostered, without clock row and leave, and has usual hours.\<close>

definition can_sweep :: "db \<Rightarrow> staff_row \<Rightarrow> date \<Rightarrow> bool" where
  "can_sweep s p day \<longleftrightarrow>
     (case attendance_row s (st_id p) day of
        Some r \<Rightarrow> ad_clock_out r \<noteq> None
          \<or> day < today s \<and> (case standard_day s day of None \<Rightarrow> False | Some w \<Rightarrow> ad_clock_in r < w_end w)
      | None \<Rightarrow> is_active_on p day \<and> day < today s \<and> standard_day s day \<noteq> None
          \<and> (case scheduled_hours s p day (weekend_timesheets_enabled (company s)) of Inl _ \<Rightarrow> False | Inr h \<Rightarrow> 0 < h)
          \<and> list_all (\<lambda>l. managed_by l = Some OwnedByLeave \<longrightarrow> line_job_id s l = break_job (company s))
              (day_time_lines s (st_id p) day))"

lemma unallocated_None: "unallocated_windows s day row es bs = Inr None \<longleftrightarrow> day_span s day row = None"
  by (auto simp: unallocated_windows_def Let_def bindR_eq_Inr split: option.splits)

lemma can_sweep_windows:
  assumes "bindR (if row \<noteq> None then Inr True else assumed_standard s p day row es)
      (\<lambda>take. if take then unallocated_windows s day row es bs else Inr None) = Inr ws"
    and "row = attendance_row s (st_id p) day" "(es, bs) = split_breaks s (day_time_lines s (st_id p) day)"
  shows "ws \<noteq> None \<longleftrightarrow> can_sweep s p day"
proof (cases row)
  case None
  have leave: "\<not> has_leave es \<longleftrightarrow> list_all (\<lambda>l. managed_by l = Some OwnedByLeave \<longrightarrow> line_job_id s l = break_job (company s))
      (day_time_lines s (st_id p) day)"
    using assms(3) by (auto simp: split_breaks_def has_leave_def list_ex_iff list_all_iff)
  from assms(1) None obtain t where t: "assumed_standard s p day None es = Inr t"
    and w: "(if t then unallocated_windows s day None es bs else Inr None) = Inr ws" by (auto simp: bindR_eq_Inr)
  have "t \<longleftrightarrow> is_active_on p day \<and> day < today s \<and> \<not> has_leave es
      \<and> (case scheduled_hours s p day (weekend_timesheets_enabled (company s)) of Inl _ \<Rightarrow> False | Inr h \<Rightarrow> 0 < h)"
    using t by (auto simp: assumed_standard_def rostered_def bindR_eq_Inr split: if_splits sum.splits)
  moreover have "ws = None \<longleftrightarrow> \<not> (t \<and> standard_day s day \<noteq> None)"
    using w unallocated_None [of s day None es bs] by (auto simp: day_span_def split: if_splits)
  ultimately show ?thesis using None assms(2) leave by (auto simp: can_sweep_def)
next
  case (Some r)
  with assms(1) have "unallocated_windows s day (Some r) es bs = Inr ws" by simp
  then have "ws = None \<longleftrightarrow> day_span s day (Some r) = None" using unallocated_None [of s day "Some r" es bs] by auto
  then show ?thesis using Some assms(2) by (auto simp: can_sweep_def day_span_def Let_def split: option.splits if_splits)
qed

lemma settle_day_span:
  assumes "settle_day z who day actor loc s = Inr (row, s')"
  obtains w where "day_span s day (attendance_row s (st_id who) day) = Some w"
    "ad_clock_in row = w_start w" "ad_clock_out row = Some (w_end w)"
proof -
  from assms obtain w where span: "day_span s day (attendance_row s (st_id who) day) = Some w"
    by (auto simp: settle_day_def tx_Inr tx_prims split: option.splits if_splits)
  show ?thesis
  proof (cases "attendance_row s (st_id who) day")
    case None
    with assms span that show ?thesis
      by (auto simp: settle_day_def Let_def tx_Inr tx_prims started_day_def split: if_splits)
  next
    case (Some r)
    then have "w_start w = ad_clock_in r" "ad_clock_out r \<noteq> None \<Longrightarrow> ad_clock_out r = Some (w_end w)"
      using span by (auto simp: day_span_def Let_def split: option.splits if_splits)
    with assms span that Some show ?thesis
      by (cases "ad_clock_out r") (auto simp: settle_day_def Let_def tx_Inr tx_prims split: if_splits)
  qed
qed

lemma fill_span:
  assumes "fill_with_general_work z who day actor s = Inr (h, s')"
  obtains w x where "day_span s day (attendance_row s (st_id who) day) = Some w"
    "day_book s' (st_id who, day) = Some (w_start w, Some (w_end w), x)"
proof -
  obtain row s1 where st: "settle_day z who day actor None s = Inr (row, s1)" "day_book s' = day_book s1"
    by (rule fill_with_general_work_settled [OF assms])
  obtain w where "day_span s day (attendance_row s (st_id who) day) = Some w"
    "ad_clock_in row = w_start w" "ad_clock_out row = Some (w_end w)" by (rule settle_day_span [OF st(1)])
  with settle_day_book [OF st(1)] st(2) show ?thesis by (intro that) (simp_all add: entry_of_def)
qed

text \<open>C13: Sweeping a person's day finishes it, or leaves it alone and says why. A day there is something to
  sweep on ends with the start and finish it is read with, sent, and with none of his entries on it
  waiting. Any other day is reported, by name, as still clocked in when there is a clock row and as without
  clock times when there is none, and nothing at all is written.\<close>

theorem sweeping_finishes_the_day:
  assumes "sweep_person z worker [day] actor s = Inr (d, s')" and "ledger_ok s"
  shows "if can_sweep s worker day
    then sw_skipped d = [] \<and> waiting_lines s' (st_id worker) day = []
      \<and> (\<exists>w m. day_span s day (attendance_row s (st_id worker) day) = Some w
          \<and> day_book s' (st_id worker, day) = Some (w_start w, Some (w_end w), Some m))
    else s' = s \<and> (\<exists>name. get_display_full_name worker = Inr name \<and> d = \<lparr>sw_hours = 0,
      sw_skipped = [(st_id worker, name, day, if attendance_row s (st_id worker) day = None then NoClockTimes else StillClockedIn)],
      sw_overtime = []\<rparr>)"
proof -
  let ?start = "\<lparr>sw_hours = 0, sw_skipped = [], sw_overtime = []\<rparr>" and ?row = "attendance_row s (st_id worker) day"
  obtain es bs where sp: "(es, bs) = split_breaks s (day_time_lines s (st_id worker) day)" by (metis surj_pair)
  from assms(1) have one: "sweep_one z actor (day, worker) ?start s = Inr (d, s')"
    by (auto simp: sweep_person_def sweep_def tx_Inr tx_prims)
  then obtain ws where ws: "bindR (if ?row \<noteq> None then Inr True else assumed_standard s worker day ?row es)
      (\<lambda>take. if take then unallocated_windows s day ?row es bs else Inr None) = Inr ws"
    and rest: "ws = None \<Longrightarrow> s' = s \<and> (\<exists>name. get_display_full_name worker = Inr name \<and>
        d = ?start\<lparr>sw_skipped := [(st_id worker, name, day, if ?row = None then NoClockTimes else StillClockedIn)]\<rparr>)"
      "ws \<noteq> None \<Longrightarrow> \<exists>h s1 n s2 r w. fill_with_general_work z worker day actor s = Inr (h, s1)
        \<and> approve_day worker day actor s1 = Inr (n, s2) \<and> attendance_row s2 (st_id worker) day = Some r
        \<and> send_for_him worker r actor s2 = Inr ((), s') \<and> d = ?start\<lparr>sw_hours := h, sw_overtime := w\<rparr>"
    unfolding sweep_one_def sp [symmetric]
    by (auto simp: tx_Inr tx_prims sp [symmetric] split: option.split_asm)
  note can = can_sweep_windows [OF ws refl sp]
  show ?thesis
  proof (cases ws)
    case None
    then show ?thesis using rest(1) can by auto
  next
    case (Some x)
    then obtain h s1 n s2 r w where fill: "fill_with_general_work z worker day actor s = Inr (h, s1)"
      and ap: "approve_day worker day actor s1 = Inr (n, s2)"
      and r: "attendance_row s2 (st_id worker) day = Some r"
      and send: "send_for_him worker r actor s2 = Inr ((), s')"
      and d: "d = ?start\<lparr>sw_hours := h, sw_overtime := w\<rparr>"
      using rest(2) by auto
    obtain w x where span: "day_span s day ?row = Some w"
      and book: "day_book s1 (st_id worker, day) = Some (w_start w, Some (w_end w), x)" by (rule fill_span [OF fill])
    have "ledger_ok s1" using keepsD [OF ledger_kept.fill_with_general_work_keeps assms(2) fill] .
    then have "distinct (map line_id (cost_lines s1))" by (simp add: ledger_ok_def)
    note ap = approve_day_result [OF ap this]
    then have "day_book s2 (st_id worker, day) = Some (w_start w, Some (w_end w), x)" using book by (simp add: day_book_def)
    from send_for_him_result [OF send r this] ap d span can Some show ?thesis
      by (auto simp: waiting_lines_def is_actual_time_def line_set_kind_def get_cost_set_def)
  qed
qed

section \<open>On the sample day\<close>

definition sample_boss :: staff_row where
  "sample_boss = sample_staff 3 40 (Some Hourly) True"

lemma filled_ok: "ledger_ok sample_filled" by code_simp

theorem approving_a_day_leaves_none_waiting_witness:
  "\<exists>n s'. approve_day sample_hourly 739000 sample_boss sample_filled = Inr (n, s') \<and> n = 1
    \<and> waiting_lines s' 1 739000 = [] \<and> map approved (cost_lines sample_filled) = [True, False]
    \<and> map approved (cost_lines s') = [True, True]"
proof -
  have "case approve_day sample_hourly 739000 sample_boss sample_filled of Inl _ \<Rightarrow> False | Inr _ \<Rightarrow> True" by code_simp
  then obtain n s' where run: "approve_day sample_hourly 739000 sample_boss sample_filled = Inr (n, s')"
    by (auto split: sum.splits)
  have w: "waiting_lines sample_filled 1 739000 = [sample_fill]" by code_simp
  have i: "st_id sample_hourly = 1" by code_simp
  from approving_a_day_leaves_none_waiting [OF run filled_ok, unfolded i w] show ?thesis
    using run by (auto simp: filled_defs sample_line_def)
qed

text \<open>A Saturday nobody is rostered for, on which the hourly worker did two approved hours.\<close>

definition sample_saturday :: db where
  "sample_saturday = sample_db\<lparr>cost_lines := [sample_worked\<lparr>accounting_date := 739003\<rparr>]\<rparr>"

lemma saturday_case:
  "case day_approvals sample_saturday 739003 of Inl _ \<Rightarrow> False | Inr v \<Rightarrow> ds_standing (ap_summary v) = Complete" by code_simp

theorem a_complete_day_has_nothing_waiting_witness:
  "\<exists>v. day_approvals sample_saturday 739003 = Inr v \<and> ds_standing (ap_summary v) = Complete
    \<and> map (\<lambda>p. dealt_with sample_saturday p 739003) (filter (\<lambda>p. expected_on sample_saturday p 739003)
         (get_displayable_staff sample_saturday (Some 739003) None False True)) = [True]
    \<and> length (ap_staff v) = 3"
proof -
  let ?ps = "get_displayable_staff sample_saturday (Some 739003) None False True"
  from saturday_case obtain v where v: "day_approvals sample_saturday 739003 = Inr v" "ds_standing (ap_summary v) = Complete"
    by (auto split: sum.splits)
  have "map (\<lambda>p. dealt_with sample_saturday p 739003) (filter (\<lambda>p. expected_on sample_saturday p 739003) ?ps) = [True]"
    "length ?ps = 3" by code_simp+
  moreover have "length (ap_staff v) = length ?ps" using a_complete_day_has_nothing_waiting [OF v(1)] by blast
  ultimately show ?thesis using v by simp
qed

lemma sweep_case:
  "can_sweep sample_filled sample_hourly 739000"
  "case sweep_person (\<lambda>_ _. 0) sample_hourly [739000] sample_boss sample_filled of Inl _ \<Rightarrow> False | Inr (d, _) \<Rightarrow> True"
  by code_simp+

theorem sweeping_finishes_the_day_witness:
  "\<exists>d s' a b m. sweep_person (\<lambda>_ _. 0) sample_hourly [739000] sample_boss sample_filled = Inr (d, s')
    \<and> sw_skipped d = [] \<and> waiting_lines s' 1 739000 = [] \<and> day_book s' (1, 739000) = Some (a, Some b, Some m)"
proof -
  from sweep_case(2) obtain d s' where
    run: "sweep_person (\<lambda>_ _. 0) sample_hourly [739000] sample_boss sample_filled = Inr (d, s')"
    by (auto split: sum.splits)
  moreover have "st_id sample_hourly = 1" by code_simp
  ultimately show ?thesis using sweeping_finishes_the_day [OF run filled_ok] sweep_case(1) by auto
qed

end
