(* ===== verification/Leave_Lines.thy ===== *)
theory Leave_Lines
  imports Leave Approval
begin

text \<open>
  Leave and the timesheet it is projected on: every day of leave stands on a line of the same
  person, date and hours that the leave workflow owns, and no write of either side loses it.
  What a booking leaves: the rest of each day that was offered, and nothing else.
\<close>

section \<open>A day of leave and its line\<close>

definition stands_on :: "leave_day \<Rightarrow> cost_line \<Rightarrow> bool" where
  "stands_on d l \<longleftrightarrow> line_id l = ld_line d \<and> kind l = Time \<and> managed_by l = Some OwnedByLeave
     \<and> line_staff l = Some (ld_staff d) \<and> accounting_date l = ld_date d \<and> quantity l = ld_hours d"

definition leave_lines_ok :: "db \<Rightarrow> bool" where
  "leave_lines_ok s \<longleftrightarrow> ledger_ok s \<and> fresh_lines s \<and> (\<forall>d \<in> set (leave_days s). \<exists>l \<in> set (cost_lines s). stands_on d l)"

lemma same_key: "distinct (map f xs) \<Longrightarrow> x \<in> set xs \<Longrightarrow> y \<in> set xs \<Longrightarrow> f x = f y \<Longrightarrow> x = y"
  by (auto simp: distinct_map dest: inj_onD)

lemma fresh_lines_ids: "fresh_lines s \<longleftrightarrow> list_all (\<lambda>i. i < next_id s) (map line_id (cost_lines s))"
  by (simp add: fresh_lines_def list_all_iff)

lemma leave_lines_step:
  assumes "leave_lines_ok s" "ledger_ok s'" "fresh_lines s'" "set (leave_days s') \<subseteq> set (leave_days s)"
    and "\<And>d l. d \<in> set (leave_days s') \<Longrightarrow> l \<in> set (cost_lines s) \<Longrightarrow> stands_on d l \<Longrightarrow>
      \<exists>l' \<in> set (cost_lines s'). stands_on d l'"
  shows "leave_lines_ok s'"
proof -
  have "\<exists>l' \<in> set (cost_lines s'). stands_on d l'" if d: "d \<in> set (leave_days s')" for d
  proof -
    from d assms(4) have "d \<in> set (leave_days s)" by blast
    then obtain l where "l \<in> set (cost_lines s)" "stands_on d l" using assms(1) unfolding leave_lines_ok_def by blast
    then show ?thesis using assms(5) d by blast
  qed
  then show ?thesis using assms(2,3) by (simp add: leave_lines_ok_def)
qed

lemma leave_lines_frame:
  assumes "leave_lines_ok s" "ledger_ok s'" "cost_lines s' = cost_lines s" "leave_days s' = leave_days s"
    "next_id s \<le> next_id s'"
  shows "leave_lines_ok s'"
  using assms by (auto simp: leave_lines_ok_def fresh_lines_def intro: order_less_le_trans)

interpretation leave_base: entry_base leave_lines_ok
proof unfold_locales
  show "keeps leave_lines_ok fresh_id"
    by (rule keepsI) (auto simp: fresh_id_def leave_lines_ok_def fresh_lines_def ledger_ok_def less_SucI)
  show "keeps leave_lines_ok (get_or_create_cost_set j k)" for j k
  proof (rule keepsI)
    fix s c s'
    assume ok: "leave_lines_ok s" and run: "get_or_create_cost_set j k s = Inr (c, s')"
    have "ledger_ok s'" using keepsD [OF get_or_create_keeps _ run] ok by (simp add: leave_lines_ok_def)
    moreover have "leave_days s' = leave_days s" using get_or_create_cases [OF run] by auto
    ultimately show "leave_lines_ok s'"
      by (rule leave_lines_frame [OF ok _ get_or_create_frame(1) [OF run] _ get_or_create_frame(3) [OF run]])
  qed
  show "keeps leave_lines_ok (delete_line l)" for l
  proof (rule keepsI)
    fix s u s'
    assume ok: "leave_lines_ok s" and run: "delete_line l s = Inr (u, s')"
    note f = delete_line_frame [OF run]
    have free: "ld_line d \<noteq> line_id l" if "d \<in> set (leave_days s)" for d
      using run imageI [OF that, of ld_line] by (auto simp: delete_line_def Let_def split: if_splits)
    have days: "leave_days s' = leave_days s" by (rule keepsD [OF leave_kept.del _ run]) simp
    show "leave_lines_ok s'"
    proof (rule leave_lines_step [OF ok])
      show "ledger_ok s'" using keepsD [OF delete_line_keeps_ledger _ run] ok by (simp add: leave_lines_ok_def)
      show "fresh_lines s'" using ok f by (auto simp: leave_lines_ok_def fresh_lines_def row_del_in)
      show "\<exists>l' \<in> set (cost_lines s'). stands_on d l'"
        if "d \<in> set (leave_days s')" "x \<in> set (cost_lines s)" "stands_on d x" for d x
        using that free days f(1) by (intro bexI [of _ x]) (auto simp: row_del_def stands_on_def)
    qed (simp add: days)
  qed
  show "keeps leave_lines_ok (save_approved l)" for l
  proof (rule keepsI)
    fix s u s'
    assume ok: "leave_lines_ok s" and run: "save_approved l s = Inr (u, s')"
    then obtain b where b: "row_get line_id (line_id l) (cost_lines s) = Some b"
      and s': "s' = touch_costing_jobs (case line_job_id s l of None \<Rightarrow> [] | Some j \<Rightarrow> [j])
            (s\<lparr>cost_lines := row_put line_id (b\<lparr>approved := approved l\<rparr>) (cost_lines s)\<rparr>)"
      by (auto simp: save_approved_def get_line_def split: option.splits)
    have d: "distinct (map line_id (cost_lines s))" using ok by (simp add: leave_lines_ok_def ledger_ok_def)
    have ls: "cost_lines s' = map (\<lambda>x. if line_id x = line_id l then x\<lparr>approved := approved l\<rparr> else x) (cost_lines s)"
      using row_put_update [OF d b, of "\<lambda>x. x\<lparr>approved := approved l\<rparr>"] row_get_Some [OF b] by (simp add: s')
    have days: "leave_days s' = leave_days s" by (simp add: s')
    show "leave_lines_ok s'"
    proof (rule leave_lines_step [OF ok])
      show "ledger_ok s'" using keepsD [OF save_approved_keeps_ledger _ run] ok by (simp add: leave_lines_ok_def)
      have "map line_id (cost_lines s') = map line_id (cost_lines s)"
        by (simp add: ls comp_def if_distrib cong: if_cong)
      moreover have "next_id s' = next_id s" by (simp add: s')
      ultimately show "fresh_lines s'" using ok by (simp add: leave_lines_ok_def fresh_lines_ids)
      show "\<exists>l' \<in> set (cost_lines s'). stands_on d l'"
        if "d \<in> set (leave_days s')" "x \<in> set (cost_lines s)" "stands_on d x" for d x
        using that ls by (intro bexI [of _ "if line_id x = line_id l then x\<lparr>approved := approved l\<rparr> else x"])
          (auto simp: stands_on_def)
    qed (simp add: days)
  qed
qed (auto simp: leave_lines_ok_def fresh_lines_def ledger_ok_def)

lemma distinct_lines: "leave_lines_ok s \<Longrightarrow> distinct (map line_id (cost_lines s))"
  by (simp add: leave_lines_ok_def ledger_ok_def)

interpretation leave_made: entry_creation leave_lines_ok
proof unfold_locales
  show "keeps leave_lines_ok (save_entry actor who job d loc src man)" for actor who job d loc src man
  proof (rule keepsI)
    fix s l s'
    assume ok: "leave_lines_ok s" and run: "save_entry actor who job d loc src man s = Inr (l, s')"
    have days: "leave_days s' = leave_days s" by (rule keepsD [OF leave_kept.save_entry_keeps _ run]) simp
    have fresh: "fresh_lines s" using ok by (simp add: leave_lines_ok_def)
    note r = save_entry_result [OF run fresh]
    show "leave_lines_ok s'"
    proof (rule leave_lines_step [OF ok])
      show "ledger_ok s'" using keepsD [OF ledger_entries.save_entry_keeps _ run] ok by (simp add: leave_lines_ok_def)
    qed (use r days in auto)
  qed
qed

text \<open>A line that may be changed is not one a day of leave stands on.\<close>

lemma editable_line_free:
  assumes "leave_lines_ok s" "editable_line s actor i = Inr stored"
  shows "i \<notin> ld_line ` set (leave_days s)" "i \<in> line_id ` set (cost_lines s)"
proof -
  have st: "row_get line_id i (cost_lines s) = Some stored" "managed_by stored = None"
    using editable_line_Inr [OF assms(2)] by (simp_all add: get_line_def)
  note got = row_get_Some [OF st(1)]
  then show "i \<in> line_id ` set (cost_lines s)" by blast
  show "i \<notin> ld_line ` set (leave_days s)"
  proof
    assume "i \<in> ld_line ` set (leave_days s)"
    then obtain l where l: "l \<in> set (cost_lines s)" "line_id l = i" "managed_by l = Some OwnedByLeave"
      using assms(1) by (auto simp: leave_lines_ok_def stands_on_def)
    with got distinct_lines [OF assms(1)] have "l = stored" by (auto simp: distinct_map dest: inj_onD)
    with l(3) st(2) show False by simp
  qed
qed

lemma save_free_line:
  assumes "leave_lines_ok s" "save_line l s = Inr (l', s')" "line_id l \<in> line_id ` set (cost_lines s)"
    "line_id l \<notin> ld_line ` set (leave_days s)"
  shows "leave_lines_ok s'"
proof (rule leave_lines_step [OF assms(1)])
  show "ledger_ok s'" using keepsD [OF save_line_keeps_ledger _ assms(2)] assms(1) by (simp add: leave_lines_ok_def)
  have days: "leave_days s' = leave_days s" by (rule keepsD [OF leave_kept.save _ assms(2)]) simp
  have ls: "cost_lines s' = row_write line_id (assign_entry_seq s l) (cost_lines s)" and ids: "next_id s' = next_id s"
    using assms(2) by (auto simp: save_line_Inr write_line_def)
  have l': "line_id (assign_entry_seq s l) = line_id l" by (simp add: assign_entry_seq_def)
  have put: "row_write line_id (assign_entry_seq s l) (cost_lines s) = row_put line_id (assign_entry_seq s l) (cost_lines s)"
    using assms(3) l' by (auto simp: row_write_def row_get_None)
  show "fresh_lines s'"
    using assms(1,3) by (auto simp: leave_lines_ok_def fresh_lines_def ls ids l' dest!: row_write_in)
  show "\<exists>x' \<in> set (cost_lines s'). stands_on d x'"
    if "d \<in> set (leave_days s')" "x \<in> set (cost_lines s)" "stands_on d x" for d x
  proof -
    have "ld_line d \<noteq> line_id l" using imageI [OF that(1), of ld_line] assms(4) days by auto
    then show ?thesis using that(2,3) by (intro bexI [of _ x]) (auto simp: ls put row_put_def l' stands_on_def)
  qed
qed (rule eq_refl, rule arg_cong [of _ _ set], rule keepsD [OF leave_kept.save _ assms(2)], simp)

text \<open>A change of an entry writes the line it read, and nothing the days of leave stand on.\<close>

lemma update_entry_run:
  assumes "update_entry z actor u loc s = Inr (e, s')"
  obtains stored w l1 l2 job m2 billing c l3 m3 moved s3 l l5 s4 s5 a ty was b s6 s7 days where
    "editable_line s actor (u_entry u) = Inr stored"
    "(if c then bindT (move_time_line l2 job m2 billing) (\<lambda>(l, m, x). ret (l, m, Some x)) else ret (l2, m2, None)) s
       = Inr ((l3, m3, moved), s3)"
    "save_line l s3 = Inr (l5, s4)"
    "(case moved of None \<Rightarrow> ret () | Some c \<Rightarrow> update_latest_actual (job_id job) c) s4 = Inr ((), s5)"
    "record_timesheet_event a ty l5 was b s5 = Inr ((), s6)"
    "forT days (\<lambda>day. seqT (refill_general_work z w day actor) (ret ())) s6 = Inr ((), s')"
    "line_id l = line_id stored"
  using assms unfolding update_entry_def Let_def
  apply (clarsimp simp: tx_Inr tx_prims)
  apply (drule apply_scalar_approved apply_billing_approved maybe_reprice_approved)+
  apply (frule maybe_move_approved)
  apply (rule that, assumption+)
  apply (simp add: approval_off_def split: if_splits)
  done

interpretation leave_lines: day_writes leave_lines_ok
proof unfold_locales
  show "keeps leave_lines_ok (update_entry z actor u loc)" for z actor u loc
  proof (rule keepsI)
    fix s e s'
    assume ok: "leave_lines_ok s" and run: "update_entry z actor u loc s = Inr (e, s')"
    from run obtain stored w l1 l2 job m2 billing c l3 m3 moved s3 l l5 s4 s5 a ty was b s6 s7 days where
      st: "editable_line s actor (u_entry u) = Inr stored"
      and mv: "(if c then bindT (move_time_line l2 job m2 billing) (\<lambda>(l, m, x). ret (l, m, Some x)) else ret (l2, m2, None)) s
         = Inr ((l3, m3, moved), s3)"
      and sv: "save_line l s3 = Inr (l5, s4)"
      and up: "(case moved of None \<Rightarrow> ret () | Some c \<Rightarrow> update_latest_actual (job_id job) c) s4 = Inr ((), s5)"
      and ev: "record_timesheet_event a ty l5 was b s5 = Inr ((), s6)"
      and fill: "forT days (\<lambda>day. seqT (refill_general_work z w day actor) (ret ())) s6 = Inr ((), s')"
      and l: "line_id l = line_id stored" by (rule update_entry_run)
    have m: "keeps J (if c then bindT (move_time_line l2 job m2 billing) (\<lambda>(l, m, x). ret (l, m, Some x))
        else ret (l2, m2, None))" if "\<And>j k. keeps J (get_or_create_cost_set j k)" for J
      unfolding move_time_line_def Let_def by (intro keeps_intros that)
    have i: "line_id l = u_entry u"
      using editable_line_Inr(1) [OF st] row_get_Some l by (metis get_line_def)
    note free = editable_line_free [OF ok st]
    have lines: "cost_lines s3 = cost_lines s"
      by (rule keepsD [OF m [of "\<lambda>x. cost_lines x = cost_lines s"] _ mv]) (auto intro!: keepsI simp: get_or_create_frame)
    have days: "leave_days s3 = leave_days s"
      by (rule keepsD [OF m [of "\<lambda>x. leave_days x = leave_days s"] _ mv]) (auto intro!: keepsI dest: get_or_create_cases)
    have "leave_lines_ok s3" by (rule keepsD [OF m [of leave_lines_ok] ok mv]) (rule leave_base.sets)
    from save_free_line [OF this sv] free lines days i have "leave_lines_ok s4" by simp
    then have "leave_lines_ok s5"
      using up keepsD [OF leave_base.update_latest_actual_keeps] by (auto simp: ret_run split: option.splits)
    then have s6: "leave_lines_ok s6"
      using record_timesheet_event_frame [OF ev] by (auto simp: leave_lines_ok_def fresh_lines_def ledger_ok_def)
    have k: "keeps leave_lines_ok (forT days (\<lambda>day. seqT (refill_general_work z w day actor) (ret ())))"
      by (intro keeps_intros leave_made.refill_keeps)
    show "leave_lines_ok s'" by (rule keepsD [OF k s6 fill])
  qed
qed (auto simp: leave_lines_ok_def fresh_lines_def ledger_ok_def)

section \<open>Booking a day\<close>

text \<open>An entry on a leave job is never split into overtime: it is one line.\<close>

lemma leave_entry_is_one_line:
  assumes "save_day_entry z actor who d loc src man s = Inr (l, s')" "fresh_lines s" "d_job d \<in> set (leave_job_ids s)"
  shows "cost_lines s' = cost_lines s @ [l] \<and> fresh_lines s' \<and> quantity l = d_hours d \<and> kind l = Time
    \<and> line_staff l = Some (st_id who) \<and> accounting_date l = d_date d \<and> managed_by l = man
    \<and> meta_get (line_meta l) ''source'' = (case src of None \<Rightarrow> JNull | Some x \<Rightarrow> JStr x)"
proof -
  obtain p where p: "prepare_entry z who d man s = Inr p"
    and rest: "(let save = (\<lambda>x. save_entry actor who (pr_job p) x loc src man); x = pr_data p
     in if pr_overtime p = 0 then save x
        else if pr_overtime p = d_hours d then save (at_overtime x)
        else bindT (readT (\<lambda>s. split_at_overtime s who x (pr_overtime p))) (\<lambda>(ordinary, late).
             bindT (save ordinary) (\<lambda>l. seqT (save late) (ret l)))) s = Inr (l, s')"
    using assms(1) by (auto simp: save_day_entry_def tx_Inr)
  from p obtain job where job: "get_job s (d_job d) = Inr job"
    and over: "overtime_part s who (d_date d) (d_hours d) (in_wage d) (Some (job_id job)) = Inr (pr_overtime p)"
    by (rule prepare_entry_steps) blast
  have "job_id job = d_job d" using job row_get_Some by (fastforce simp: get_job_def)
  then have "pr_overtime p = 0" using over assms(3) by (auto simp: overtime_part_def split: if_splits)
  then have "save_entry actor who (pr_job p) (pr_data p) loc src man s = Inr (l, s')" using rest by (simp add: Let_def)
  from save_entry_result [OF this assms(2)] prepare_entry_facts [OF p] show ?thesis by simp
qed

lemma booked_day_line:
  assumes "create_entry z actor st (leave_entry j day h words) None None (Some OwnedByLeave) s = Inr (e, s')"
    and "fresh_lines s" "j \<in> set (leave_job_ids s)" "ledger_ok s"
  shows "\<exists>l \<in> set (cost_lines s'). line_id l = e_id e \<and> kind l = Time \<and> managed_by l = Some OwnedByLeave
    \<and> line_staff l = Some (st_id st) \<and> accounting_date l = day \<and> quantity l = h"
proof -
  from assms(1) obtain l s1 x where
    save: "save_day_entry z actor st (leave_entry j day h words) None None (Some OwnedByLeave) s = Inr (l, s1)"
    and fill: "refill_general_work z st day actor s1 = Inr (x, s')" and e: "entry_data s' l = Inr e"
    by (auto simp: create_entry_def tx_Inr tx_prims leave_entry_def)
  from leave_entry_is_one_line [OF save assms(2)] assms(3) have
    l: "cost_lines s1 = cost_lines s @ [l]" "fresh_lines s1" "quantity l = h" "kind l = Time" "line_staff l = Some (st_id st)"
      "accounting_date l = day" "managed_by l = Some OwnedByLeave" "meta_get (line_meta l) ''source'' = JNull"
    by (simp_all add: leave_entry_def)
  have distinct: "distinct (map line_id (cost_lines s1))"
    using keepsD [OF ledger_entries.save_day_entry_keeps assms(4) save] by (simp add: ledger_ok_def)
  have "l \<in> set (cost_lines s')"
    using refill_result [OF fill l(2)]
  proof (elim disjE exE conjE)
    fix new
    assume s': "cost_lines s' = filter (\<lambda>x. line_id x \<notin> line_id ` set (filter (is_general_work_fill s1)
             (day_time_lines s1 (st_id st) day))) (cost_lines s1) @ new"
    have "line_id l \<notin> line_id ` set (filter (is_general_work_fill s1) (day_time_lines s1 (st_id st) day))"
    proof
      assume "line_id l \<in> line_id ` set (filter (is_general_work_fill s1) (day_time_lines s1 (st_id st) day))"
      then obtain y where y: "y \<in> set (cost_lines s1)" "is_general_work_fill s1 y" "line_id y = line_id l"
        by (auto simp: day_time_lines_def)
      then have "y = l" using same_key [OF distinct, of y l] l(1) by simp
      then show False using y(2) l(8) by (simp add: is_general_work_fill_def)
    qed
    then show ?thesis using l(1) s' by simp
  qed (use l(1) in simp)
  then show ?thesis using l entry_data_Inr [OF e] by (intro bexI [of _ l]) simp_all
qed

interpretation leave_stands: leave_writes leave_lines_ok
proof unfold_locales
  show "keeps leave_lines_ok (insert_request r)" for r
    by (rule keepsI) (auto simp: insert_request_def tx_Inr tx_prims leave_lines_ok_def fresh_lines_def ledger_ok_def)
  show "keeps leave_lines_ok (save_request r)" for r
    by (rule keepsI) (auto simp: save_request_def tx_Inr tx_prims leave_lines_ok_def fresh_lines_def ledger_ok_def)
  show "keeps leave_lines_ok (delete_request_days rq)" for rq
    by (rule keepsI) (auto simp: delete_request_days_def putT_def leave_lines_ok_def fresh_lines_def ledger_ok_def)
  show "keeps leave_lines_ok (delete_request_row rq)" for rq
    by (rule keepsI) (auto simp: delete_request_row_def putT_def leave_lines_ok_def fresh_lines_def ledger_ok_def)
  fix s s' u j z r st words actor and dh :: requested_day
  assume ok: "leave_lines_ok s" and j: "j \<in> set (leave_job_ids s)"
    and run: "create_day z r st j words actor dh s = Inr (u, s')"
  obtain day h where dh: "dh = (day, h)" by (cases dh)
  from run obtain e s1 where e: "create_entry z actor st (leave_entry j day h words) None None (Some OwnedByLeave) s = Inr (e, s1)"
    and s': "s' = s1\<lparr>next_id := Suc (next_id s1), leave_days := leave_days s1 @ [\<lparr>ld_id = next_id s1, ld_request = rq_id r,
        ld_staff = st_id st, ld_date = day, ld_hours = h, ld_line = e_id e\<rparr>]\<rparr>"
    by (auto simp: dh create_day_Inr insert_leave_day_Inr)
  have "leave_lines_ok s1" by (rule keepsD [OF leave_made.create_entry_keeps ok e])
  moreover obtain l where "l \<in> set (cost_lines s1)" "line_id l = e_id e" "kind l = Time" "managed_by l = Some OwnedByLeave"
    "line_staff l = Some (st_id st)" "accounting_date l = day" "quantity l = h"
    using booked_day_line [OF e _ j] ok by (auto simp: leave_lines_ok_def)
  ultimately show "leave_lines_ok s'"
    by (auto simp: s' leave_lines_ok_def fresh_lines_def ledger_ok_def stands_on_def less_SucI)
qed

section \<open>What a booking leaves\<close>

lemma sort_requested_valid:
  "sort_requested rows ds = Inr (valid, skipped) \<Longrightarrow>
     (d, h) \<in> set valid \<longleftrightarrow> d \<in> set ds \<and> (\<exists>r. find (\<lambda>r. pd_date r = d) rows = Some r \<and> pd_available r \<and> pd_hours r = h)"
  by (induction ds arbitrary: valid skipped) (auto simp: bindR_eq_Inr split: if_splits)

lemma sort_requested_distinct:
  "sort_requested rows ds = Inr (valid, skipped) \<Longrightarrow> distinct ds \<Longrightarrow> distinct (map fst valid)"
proof (induction ds arbitrary: valid skipped)
  case (Cons d ds)
  then obtain r v k where v: "sort_requested rows ds = Inr (v, k)"
    and eq: "(if pd_available r then ((d, pd_hours r) # v, k) else (v, r # k)) = (valid, skipped)"
    by (auto simp: bindR_eq_Inr)
  have "d \<notin> fst ` set v" using sort_requested_valid [OF v] Cons.prems(2) by auto
  then show ?case using Cons.IH [OF v] Cons.prems(2) eq by (auto split: if_splits)
qed simp

lemma find_distinct:
  "distinct (map key rows) \<Longrightarrow> find (\<lambda>r. key r = k) rows = Some r \<longleftrightarrow> r \<in> set rows \<and> key r = k"
  by (induction rows) auto

text \<open>The days a run of bookings adds.\<close>

lemma create_all_days:
  "forT ds (create_day z rq st j words actor) s = Inr (u, s') \<Longrightarrow>
     \<exists>new. leave_days s' = leave_days s @ new \<and> map (\<lambda>d. (ld_date d, ld_hours d)) new = ds
       \<and> list_all (\<lambda>d. ld_request d = rq_id rq \<and> ld_staff d = st_id st) new"
proof (induction ds arbitrary: s)
  case (Cons dh ds)
  obtain day h where dh: "dh = (day, h)" by (cases dh)
  from Cons.prems obtain s1 where a: "create_day z rq st j words actor (day, h) s = Inr ((), s1)"
    and r: "forT ds (create_day z rq st j words actor) s1 = Inr (u, s')" by (auto simp: tx_Inr dh)
  then obtain d where d: "leave_days s1 = leave_days s @ [d]" "ld_date d = day" "ld_hours d = h" "ld_request d = rq_id rq"
    "ld_staff d = st_id st"
    by (auto simp: create_day_Inr insert_leave_day_Inr dest!: create_entry_leave)
  from Cons.IH [OF r] obtain new where "leave_days s' = leave_days s1 @ new" "map (\<lambda>d. (ld_date d, ld_hours d)) new = ds"
    "list_all (\<lambda>d. ld_request d = rq_id rq \<and> ld_staff d = st_id st) new" by blast
  with d show ?case by (intro exI [of _ "d # new"]) (simp add: dh)
qed (simp add: ret_run)

lemma create_days_days:
  assumes "create_days z rq st t ds actor s = Inr (u, s')"
  shows "\<exists>new. leave_days s' = leave_days s @ new \<and> map (\<lambda>d. (ld_date d, ld_hours d)) new = ds
    \<and> list_all (\<lambda>d. ld_request d = rq_id rq \<and> ld_staff d = st_id st) new"
proof -
  from assms obtain j words where "forT ds (create_day z rq st j words actor) s = Inr (u, s')"
    by (auto simp: create_days_def tx_Inr tx_prims)
  from create_all_days [OF this] show ?thesis .
qed

lemma paid_hours_sum:
  "paid_hours_by_date s who a b ex day = sum_list (map quantity (filter (\<lambda>l. accounting_date l = day) (paid_lines s who a b ex)))"
proof -
  have "fold (\<lambda>l paid. paid(accounting_date l := paid (accounting_date l) + quantity l)) ls f day
      = f day + sum_list (map quantity (filter (\<lambda>l. accounting_date l = day) ls))" for ls f
    by (induction ls arbitrary: f) (simp_all add: algebra_simps)
  from this [of "paid_lines s who a b ex" "\<lambda>_. 0"] show ?thesis by (simp add: paid_hours_by_date_def)
qed

lemma preview_row_Inr:
  assumes "preview_row s st paid day = Inr r"
  shows "pd_date r = day" "scheduled_hours s st day True = Inr (pd_scheduled r)"
    "pd_available r = (is_active_on st day \<and> pd_scheduled r > 0)" "pd_hours r = max 0 (pd_scheduled r - paid day)"
  using assms by (auto simp: preview_row_def bindR_eq_Inr Let_def max.commute split: if_splits)

lemma preview_rows:
  assumes "preview_leave s st a b excluded = Inr p"
  shows "a \<le> b" "map pd_date (pv_days p) = map (\<lambda>i. a + i) [0..b - a]"
    "pv_available_hours p = sum_list (map pd_hours (filter pd_available (pv_days p)))"
    "r \<in> set (pv_days p) \<Longrightarrow> preview_row s st (paid_hours_by_date s (st_id st) a b excluded) (pd_date r) = Inr r
       \<and> a \<le> pd_date r \<and> pd_date r \<le> b"
proof -
  let ?f = "preview_row s st (paid_hours_by_date s (st_id st) a b excluded)"
  from assms obtain days where days: "dates_between a b = Inr days" "mapR ?f days = Inr (pv_days p)"
    and h: "pv_available_hours p = sum_list (map pd_hours (filter pd_available (pv_days p)))"
    by (auto simp: preview_leave_def bindR_eq_Inr)
  from days(1) show ab: "a \<le> b" by (auto simp: dates_between_def split: if_splits)
  from days(1) have d: "days = map (\<lambda>i. a + i) [0..b - a]" by (auto simp: dates_between_def split: if_splits)
  have "map pd_date (pv_days p) = days"
    using mapR_length [OF days(2)] mapR_nth [OF days(2)] preview_row_Inr(1)
    by (intro nth_equalityI) fastforce+
  then show "map pd_date (pv_days p) = map (\<lambda>i. a + i) [0..b - a]" by (simp only: d)
  show "pv_available_hours p = sum_list (map pd_hours (filter pd_available (pv_days p)))" by (rule h)
  assume r: "r \<in> set (pv_days p)"
  from mapR_in [OF days(2) r] obtain x where "x \<in> set days" "?f x = Inr r" by blast
  with preview_row_Inr(1) [OF this(2)] show "?f (pd_date r) = Inr r \<and> a \<le> pd_date r \<and> pd_date r \<le> b"
    by (auto simp: d)
qed

lemma preview_dates_distinct:
  "preview_leave s st a b excluded = Inr p \<Longrightarrow> distinct (map pd_date (pv_days p))"
  by (simp add: preview_rows(2) distinct_map inj_on_def)

text \<open>C34: A preview offers what is left of each day: it lists every date of the range once and in
  order; a date can be booked exactly where the person is employed and rostered; and the hours
  offered are the rostered hours less the paid hours already on the date, never below zero,
  counting his own time lines other than unpaid ones and those of the request being replaced.\<close>

theorem a_preview_offers_what_is_left:
  assumes "preview_leave s st a b excluded = Inr p"
  shows "a \<le> b \<and> map pd_date (pv_days p) = map (\<lambda>i. a + i) [0..b - a]
    \<and> pv_available_hours p = sum_list (map pd_hours (filter pd_available (pv_days p)))
    \<and> list_all (\<lambda>r. scheduled_hours s st (pd_date r) True = Inr (pd_scheduled r)
          \<and> pd_available r = (is_active_on st (pd_date r) \<and> pd_scheduled r > 0)
          \<and> pd_hours r = max 0 (pd_scheduled r - sum_list (map quantity (filter (\<lambda>l.
               is_actual_time s l \<and> line_staff l = Some (st_id st) \<and> accounting_date l = pd_date r \<and> \<not> is_unpaid_time s l
               \<and> (excluded = None \<or> \<not> list_ex (\<lambda>d. ld_line d = line_id l \<and> Some (ld_request d) = excluded) (leave_days s)))
             (cost_lines s))))) (pv_days p)"
proof -
  have his: "filter (\<lambda>l. accounting_date l = day) (paid_lines s (st_id st) a b excluded)
      = filter (\<lambda>l. is_actual_time s l \<and> line_staff l = Some (st_id st) \<and> accounting_date l = day \<and> \<not> is_unpaid_time s l
               \<and> (excluded = None \<or> \<not> list_ex (\<lambda>d. ld_line d = line_id l \<and> Some (ld_request d) = excluded) (leave_days s)))
             (cost_lines s)" (is "_ = ?his day") if "a \<le> day" "day \<le> b" for day
    using that by (auto simp: paid_lines_def intro!: filter_cong)
  have "pd_hours r = max 0 (pd_scheduled r - sum_list (map quantity (?his (pd_date r))))
      \<and> scheduled_hours s st (pd_date r) True = Inr (pd_scheduled r)
      \<and> pd_available r = (is_active_on st (pd_date r) \<and> pd_scheduled r > 0)" if "r \<in> set (pv_days p)" for r
  proof -
    have r: "preview_row s st (paid_hours_by_date s (st_id st) a b excluded) (pd_date r) = Inr r"
      and range: "a \<le> pd_date r" "pd_date r \<le> b" using preview_rows(4) [OF assms that] by blast+
    show ?thesis using preview_row_Inr(2-) [OF r] by (simp only: paid_hours_sum his [OF range] simp_thms)
  qed
  then show ?thesis using preview_rows(1-3) [OF assms] unfolding list_all_iff by blast
qed

text \<open>C4: A booking takes what was offered and nothing else: it adds one day of leave for each date
  asked for that the preview shows available with hours left, of exactly those hours, all of
  one request and that person's, each standing on a line of his time for the same date and
  hours that the leave workflow owns; every day of leave there was stays.\<close>

theorem a_booking_takes_what_was_offered:
  assumes "create_leave_request z staff_id x actor source batch s = Inr (r, s')" and "leave_lines_ok s"
  shows "\<exists>st p new. get_staff s staff_id = Inr st \<and> preview_leave s st (li_start x) (li_end x) None = Inr p
    \<and> leave_days s' = leave_days s @ new \<and> distinct (map ld_date new) \<and> new \<noteq> []
    \<and> (\<forall>d. d \<in> ld_date ` set new \<longleftrightarrow> d \<in> set (li_days x)
         \<and> list_ex (\<lambda>row. pd_date row = d \<and> pd_available row \<and> pd_hours row > 0) (pv_days p))
    \<and> list_all (\<lambda>d. ld_staff d = staff_id \<and> ld_request d = ld_request (hd new) \<and> list_ex (stands_on d) (cost_lines s')
         \<and> list_ex (\<lambda>row. pd_date row = ld_date d \<and> pd_hours row = ld_hours d) (pv_days p)) new"
proof -
  from assms(1) obtain st t p valid skipped rq s1 s2 where
    st: "get_staff s staff_id = Inr st" and p: "preview_leave s st (li_start x) (li_end x) None = Inr p"
    and v: "validated_days p (li_days x) = Inr (valid, skipped)"
    and ins: "insert_request rq (s\<lparr>next_id := Suc (next_id s)\<rparr>) = Inr ((), s1)"
    and cr: "create_days z rq st t (filter (\<lambda>d. snd d > 0) valid) actor s1 = Inr ((), s')"
    by (auto simp: create_leave_request_def Let_def tx_Inr tx_prims fresh_id_def)
  from create_days_days [OF cr] obtain new where
    new: "leave_days s' = leave_days s1 @ new" "map (\<lambda>d. (ld_date d, ld_hours d)) new = filter (\<lambda>d. snd d > 0) valid"
      "list_all (\<lambda>d. ld_request d = rq_id rq \<and> ld_staff d = st_id st) new" by blast
  have s1: "leave_days s1 = leave_days s" using ins by (auto simp: insert_request_def tx_Inr tx_prims)
  have owner: "st_id st = staff_id" using st row_get_Some by (fastforce simp: get_staff_def)
  from v have ds: "distinct (li_days x)" and so: "sort_requested (pv_days p) (li_days x) = Inr (valid, skipped)"
    and some: "list_ex (\<lambda>d. snd d > 0) valid" by (auto simp: validated_days_def bindR_eq_Inr split: if_splits)
  have dates: "map ld_date new = map fst (filter (\<lambda>d. snd d > 0) valid)"
    using arg_cong [OF new(2), of "map fst"] by (simp add: comp_def)
  have valid: "(d, h) \<in> set valid \<longleftrightarrow> d \<in> set (li_days x)
      \<and> list_ex (\<lambda>row. pd_date row = d \<and> pd_available row \<and> pd_hours row = h) (pv_days p)" for d h
    using sort_requested_valid [OF so] find_distinct [OF preview_dates_distinct [OF p]] by (auto simp: list_ex_iff)
  have "d \<in> ld_date ` set new \<longleftrightarrow> (\<exists>h. (d, h) \<in> set valid \<and> h > 0)" for d
    using arg_cong [OF dates, of set] by force
  then have on: "d \<in> ld_date ` set new \<longleftrightarrow> d \<in> set (li_days x)
      \<and> list_ex (\<lambda>row. pd_date row = d \<and> pd_available row \<and> pd_hours row > 0) (pv_days p)" for d
    by (auto simp: valid list_ex_iff)
  have "leave_lines_ok s'" by (rule keepsD [OF leave_stands.create_leave_request_keeps assms(2,1)])
  then have stands: "list_ex (stands_on d) (cost_lines s')" if "d \<in> set new" for d
    using that new(1) by (auto simp: leave_lines_ok_def list_ex_iff)
  have hours: "list_ex (\<lambda>row. pd_date row = ld_date d \<and> pd_hours row = ld_hours d) (pv_days p)" if "d \<in> set new" for d
  proof -
    have "(ld_date d, ld_hours d) \<in> set valid" using that arg_cong [OF new(2), of set] by force
    then show ?thesis by (auto simp: valid list_ex_iff)
  qed
  have "distinct (map ld_date new)"
    unfolding dates using distinct_map_filter [OF sort_requested_distinct [OF so ds]] .
  moreover have "filter (\<lambda>d. snd d > 0) valid \<noteq> []" using some by (auto simp: list_ex_iff filter_empty_conv)
  then have "new \<noteq> []" using new(2) by auto
  ultimately show ?thesis
    using st p on stands hours owner new s1 by (intro exI [of _ st] exI [of _ p] exI [of _ new]) (auto simp: list_all_iff)
qed

section \<open>On the sample week\<close>

definition sample_leave :: leave_in where
  "sample_leave = \<lparr>li_code = Annual, li_start = 739000, li_end = 739000, li_note = None, li_days = [739000]\<rparr>"

text \<open>The hourly worker's Wednesday, two hours of which are worked.\<close>

definition sample_half :: db where
  "sample_half = sample_db\<lparr>cost_lines := [sample_worked],
     cost_sets := map (\<lambda>c. c\<lparr>summary := totals_of (cs_id c) [sample_worked]\<rparr>) (cost_sets sample_db)\<rparr>"

lemma half_ok: "leave_lines_ok sample_half"
proof -
  have "ledger_ok sample_half" by code_simp
  then show ?thesis by (simp add: leave_lines_ok_def fresh_lines_def sample_half_def sample_worked_def sample_defs)
qed

theorem a_preview_offers_what_is_left_witness:
  "\<exists>p. preview_leave sample_half sample_hourly 739000 739000 None = Inr p \<and> map pd_date (pv_days p) = [739000]
    \<and> map pd_hours (pv_days p) = [6]"
proof -
  have c: "case preview_leave sample_half sample_hourly 739000 739000 None of Inl _ \<Rightarrow> False
    | Inr p \<Rightarrow> map pd_hours (pv_days p) = [6]" by code_simp
  then obtain p where p: "preview_leave sample_half sample_hourly 739000 739000 None = Inr p" "map pd_hours (pv_days p) = [6]"
    by (auto split: sum.splits)
  have "map pd_date (pv_days p) = map (\<lambda>i. 739000 + i) [0..739000 - 739000]"
    using a_preview_offers_what_is_left [OF p(1)] by blast
  also have "\<dots> = [739000]" by code_simp
  finally show ?thesis by (intro exI [of _ p] conjI p)
qed

lemma booking_case:
  "case create_leave_request (\<lambda>_ _. 0) 1 sample_leave sample_boss LeaveScreen None sample_half of Inl _ \<Rightarrow> False | Inr _ \<Rightarrow> True"
  by code_simp

theorem a_booking_takes_what_was_offered_witness:
  "\<exists>r s' new. create_leave_request (\<lambda>_ _. 0) 1 sample_leave sample_boss LeaveScreen None sample_half = Inr (r, s')
    \<and> leave_days s' = new \<and> new \<noteq> [] \<and> list_all (\<lambda>d. list_ex (stands_on d) (cost_lines s')) new"
proof -
  from booking_case obtain r s' where
    run: "create_leave_request (\<lambda>_ _. 0) 1 sample_leave sample_boss LeaveScreen None sample_half = Inr (r, s')"
    by (auto split: sum.splits)
  from a_booking_takes_what_was_offered [OF run half_ok] obtain new where
    "leave_days s' = leave_days sample_half @ new" "new \<noteq> []" "list_all (\<lambda>d. list_ex (stands_on d) (cost_lines s')) new"
    by (auto simp: list_all_iff)
  moreover have "leave_days sample_half = []" by code_simp
  ultimately show ?thesis using run by auto
qed

end
