(* ===== verification/Timesheet_Api.thy ===== *)
theory Timesheet_Api
  imports Leave_Lines
begin

text \<open>
  The requests the timesheet answers: \<open>apps/timesheet/api.py\<close> and \<open>leave_api.py\<close> over
  \<open>core/auth.py\<close> (who may ask) and \<open>core/envelope.py\<close> (the status a refusal answers with). A
  request runs in a transaction, so one that is refused changes nothing; a history of requests
  is a list of them, each with the moment it is made. The cookie and its token are outside the
  model: a request carries the id of the user its valid token names, or none. A date sent as
  text is an option, \<open>None\<close> for text that is not a date.
\<close>

section \<open>Who may ask\<close>

datatype policy = AnyStaff | OfficeOnly | SuperuserOnly

definition is_currently_active :: "db \<Rightarrow> staff_row \<Rightarrow> bool" where
  "is_currently_active s p \<longleftrightarrow> (case date_left p of None \<Rightarrow> True | Some left \<Rightarrow> left > today s)"

definition authenticate :: "db \<Rightarrow> policy \<Rightarrow> uuid option \<Rightarrow> staff_row res" where
  "authenticate s policy user =
     bindR (of_option (HttpErr 401 ''Unauthorized'') user) (\<lambda>i.
     bindR (of_option (HttpErr 401 ''User not found'') (row_get st_id i (staffs s))) (\<lambda>p.
     bindR (requireR (is_currently_active s p) (HttpErr 401 ''User is inactive.'')) (\<lambda>_.
     bindR (requireR (\<not> password_needs_reset p) (HttpErr 403 ''Password change required.'')) (\<lambda>_.
     if policy = OfficeOnly \<and> \<not> is_office_staff p \<or> policy = SuperuserOnly \<and> \<not> is_superuser p
     then Inl (HttpErr 403 ''You do not have permission to perform this action.'')
     else Inr p))))"

text \<open>The status of the envelope: \<open>_APPLICATION_ERROR_STATUSES\<close> and the handlers beside it.\<close>

fun error_status :: "err \<Rightarrow> int" where
  "error_status (InvalidInput _) = 400"
| "error_status (AccessDenied _) = 403"
| "error_status (Conflict _) = 409"
| "error_status (HttpErr c _) = c"
| "error_status _ = 500"

section \<open>The payloads\<close>

definition hours_in_range :: "rat \<Rightarrow> bool" where
  "hours_in_range h \<longleftrightarrow> 1 / 100 \<le> h \<and> h < 100000"

definition multiplier_in_range :: "rat \<Rightarrow> bool" where
  "multiplier_in_range m \<longleftrightarrow> 0 \<le> m \<and> m < 100"

definition description_in_range :: "string option \<Rightarrow> bool" where
  "description_in_range t \<longleftrightarrow> (case t of None \<Rightarrow> True | Some x \<Rightarrow> length x \<le> 255)"

definition opt_all :: "('a \<Rightarrow> bool) \<Rightarrow> 'a option \<Rightarrow> bool" where
  "opt_all P x = (case x of None \<Rightarrow> True | Some y \<Rightarrow> P y)"

definition unprocessable :: "bool \<Rightarrow> unit res" where
  "unprocessable valid = requireR valid (HttpErr 422 ''Invalid request.'')"

record entry_request =
  er_job :: uuid
  er_date :: date
  er_hours :: rat
  er_description :: "string option"
  er_start :: "clock option"
  er_end :: "clock option"
  er_billable :: bool
  er_wage :: rat
  er_bill :: "rat option"
  er_subtype :: "uuid option"

definition entry_request_ok :: "entry_request \<Rightarrow> bool" where
  "entry_request_ok e \<longleftrightarrow> hours_in_range (er_hours e) \<and> description_in_range (er_description e)
     \<and> multiplier_in_range (er_wage e) \<and> opt_all multiplier_in_range (er_bill e)"

definition create_payload :: "entry_request \<Rightarrow> entry_in" where
  "create_payload e = \<lparr>d_job = er_job e, d_date = er_date e, d_hours = er_hours e, d_description = er_description e,
     d_start = er_start e, d_end = er_end e, d_billable = Some (er_billable e), d_wage = Some (er_wage e),
     d_bill = er_bill e, d_subtype = er_subtype e\<rparr>"

definition patch_ok :: "entry_patch \<Rightarrow> bool" where
  "patch_ok u \<longleftrightarrow> opt_all hours_in_range (u_hours u) \<and> opt_all description_in_range (u_description u)
     \<and> opt_all multiplier_in_range (u_wage u) \<and> opt_all multiplier_in_range (u_bill u)"

text \<open>\<open>len(data) <= 1\<close>: nothing besides the entry's id.\<close>

definition patch_is_empty :: "entry_patch \<Rightarrow> bool" where
  "patch_is_empty u \<longleftrightarrow> u_job u = None \<and> u_date u = None \<and> u_hours u = None \<and> u_description u = None \<and> u_start u = None
     \<and> u_end u = None \<and> u_billable u = None \<and> u_wage u = None \<and> u_bill u = None \<and> u_subtype u = None"

definition query_location :: "rat option \<Rightarrow> rat option \<Rightarrow> entry_location option res" where
  "query_location lat lng =
     (case lat of
        None \<Rightarrow> if lng = None then Inr None else Inl (HttpErr 400 ''Send both latitude and longitude, or neither.'')
      | Some a \<Rightarrow> (case lng of
          None \<Rightarrow> Inl (HttpErr 400 ''Send both latitude and longitude, or neither.'')
        | Some b \<Rightarrow>
            if \<not> (- 90 \<le> a \<and> a \<le> 90 \<and> - 180 \<le> b \<and> b \<le> 180) then Inl (HttpErr 400 ''That is not a position on Earth.'')
            else Inr (Some \<lparr>loc_latitude = a, loc_longitude = b\<rparr>)))"

definition parsed_date :: "date option \<Rightarrow> date res" where
  "parsed_date d = of_option (HttpErr 400 ''Invalid date format. Use YYYY-MM-DD'') d"

text \<open>\<open>resolve_entry_date\<close>: the outer option is whether a date was sent.\<close>

definition resolve_entry_date :: "db \<Rightarrow> date option option \<Rightarrow> date res" where
  "resolve_entry_date s d =
     (case d of None \<Rightarrow> Inr (today s)
      | Some t \<Rightarrow> of_option (HttpErr 400 ''date must be provided in YYYY-MM-DD format.'') t)"

text \<open>\<open>get_object_or_404(Staff, id=...)\<close>, and \<open>_entry_owner\<close>.\<close>

definition staff_or_404 :: "db \<Rightarrow> uuid \<Rightarrow> staff_row res" where
  "staff_or_404 s i = of_option (HttpErr 404 ''Not found.'') (row_get st_id i (staffs s))"

definition named_owner :: "db \<Rightarrow> staff_row \<Rightarrow> uuid option \<Rightarrow> staff_row res" where
  "named_owner s actor staff_id = (case staff_id of None \<Rightarrow> Inr actor | Some i \<Rightarrow> staff_or_404 s i)"

definition api_entry_owner :: "db \<Rightarrow> staff_row \<Rightarrow> uuid option \<Rightarrow> staff_row res" where
  "api_entry_owner s actor staff_id =
     (case entry_owner s actor staff_id of
        Inl (DoesNotExist _) \<Rightarrow> Inl (HttpErr 404 ''Staff member not found.'')
      | Inl e \<Rightarrow> Inl e | Inr p \<Rightarrow> Inr p)"

section \<open>The answers to what a service raises\<close>

fun entry_refusal :: "err \<Rightarrow> err" where
  "entry_refusal (DoesNotExist m) =
     (if m = ''CostLine'' then HttpErr 404 ''Timesheet entry not found.''
      else if m = ''Job'' then HttpErr 404 ''Job not found.''
      else if m = ''LabourSubtype'' then HttpErr 404 ''Labour type not found.'' else DoesNotExist m)"
| "entry_refusal (Validation m) = HttpErr 400 m"
| "entry_refusal (ValueErr m) = HttpErr 400 m"
| "entry_refusal e = e"

fun create_refusal :: "err \<Rightarrow> err" where
  "create_refusal (DoesNotExist m) =
     (if m = ''Job'' then HttpErr 404 ''Job not found.''
      else if m = ''LabourSubtype'' then HttpErr 404 ''Labour type not found.'' else DoesNotExist m)"
| "create_refusal (Validation m) = HttpErr 400 m"
| "create_refusal (ValueErr m) = HttpErr 400 m"
| "create_refusal e = e"

fun delete_refusal :: "err \<Rightarrow> err" where
  "delete_refusal (DoesNotExist m) =
     (if m = ''CostLine'' then HttpErr 404 ''Timesheet entry not found.'' else DoesNotExist m)"
| "delete_refusal (ValueErr m) = HttpErr 400 m"
| "delete_refusal e = e"

fun break_refusal :: "err \<Rightarrow> err" where
  "break_refusal (DoesNotExist m) = (if m = ''No break'' then HttpErr 404 ''Break not found.'' else DoesNotExist m)"
| "break_refusal e = e"

fun submit_refusal :: "err \<Rightarrow> err" where
  "submit_refusal (DoesNotExist m) = (if m = ''Job'' then HttpErr 404 ''Job not found.'' else DoesNotExist m)"
| "submit_refusal (Validation m) = HttpErr 400 m"
| "submit_refusal (ValueErr m) = HttpErr 400 m"
| "submit_refusal e = e"

fun leave_refusal :: "err \<Rightarrow> err" where
  "leave_refusal (DoesNotExist m) =
     (if m = ''Staff'' then HttpErr 404 ''Employee not found.''
      else if m = ''LeaveType'' then HttpErr 400 ''Unknown leave type.''
      else DoesNotExist m)"
| "leave_refusal (Validation m) = HttpErr 400 m"
| "leave_refusal e = e"

fun request_refusal :: "err \<Rightarrow> err" where
  "request_refusal (DoesNotExist m) =
     (if m = ''LeaveRequest'' then HttpErr 404 ''Leave request not found.''
      else if m = ''LeaveType'' then HttpErr 400 ''Unknown leave type.''
      else DoesNotExist m)"
| "request_refusal (Validation m) = HttpErr 400 m"
| "request_refusal e = e"

fun validation_refusal :: "err \<Rightarrow> err" where
  "validation_refusal (Validation m) = HttpErr 400 m"
| "validation_refusal e = e"

fun deletion_refusal :: "err \<Rightarrow> err" where
  "deletion_refusal (DoesNotExist m) =
     (if m = ''LeaveRequest'' then HttpErr 404 ''Leave request not found.'' else DoesNotExist m)"
| "deletion_refusal e = e"

section \<open>The requests\<close>

datatype clock_action = TapIn | TapOut

record leave_body =
  lb_code :: "leave_code option"   \<comment> \<open>\<open>None\<close> for a text that is no code\<close>
  lb_start :: date
  lb_end :: date
  lb_note :: "string option"
  lb_days :: "date list"

datatype request =
    ReadDay "date option option" "uuid option"
  | ReadManagementDay uuid "date option"
  | CreateEntry entry_request "uuid option" "entry_location option"
  | UpdateEntry entry_patch "entry_location option"
  | DeleteEntry uuid "rat option" "rat option"
  | ClockTap clock_action "entry_location option"
  | GeneralWork date "uuid option"
  | SetTimes date clock "clock option" "uuid option" "entry_location option"
  | AskPlacement "date option" "clock option" "rat option" "clock option" "uuid option" "uuid option"
  | AddBreak date clock clock bool "uuid option" "entry_location option"
  | ChangeBreak uuid clock clock "entry_location option"
  | RemoveBreak uuid "rat option" "rat option"
  | SubmitDay date "fill_row list" "uuid option" "entry_location option"
  | ReadApprovals "date option option"
  | ApproveDay uuid "date option"
  | SweepDays date date "uuid option"
  | ListLeave leave_scope string
  | PreviewLeave uuid date date
  | BookLeave uuid leave_body
  | ChangeLeave uuid leave_body
  | CancelLeave uuid
  | PreviewClosure date date
  | CloseOffice date date "string option"

datatype answer =
    DayAnswer workshop_day | ManagementAnswer management_day | EntryAnswer entry_out | NoContent
  | ClockAnswer attendance_data | HoursAnswer rat | PlacementAnswer clock "clock option" rat rat
  | ApprovalsAnswer approvals_day | CountAnswer nat | SweepAnswer sweep_data
  | LeaveListAnswer "leave_request_data list" leave_summary | PreviewAnswer preview_data | LeaveSaved save_result
  | ClosurePreviewAnswer closure_preview | ClosureAnswer uuid "leave_request_data list" "preview_day list"

fun policy_of :: "request \<Rightarrow> policy" where
  "policy_of (ReadManagementDay _ _) = SuperuserOnly"
| "policy_of (ReadApprovals _) = OfficeOnly"
| "policy_of (ApproveDay _ _) = OfficeOnly"
| "policy_of (SweepDays _ _ _) = OfficeOnly"
| "policy_of (ListLeave _ _) = SuperuserOnly"
| "policy_of (PreviewLeave _ _ _) = SuperuserOnly"
| "policy_of (BookLeave _ _) = SuperuserOnly"
| "policy_of (ChangeLeave _ _) = SuperuserOnly"
| "policy_of (CancelLeave _) = SuperuserOnly"
| "policy_of (PreviewClosure _ _) = SuperuserOnly"
| "policy_of (CloseOffice _ _ _) = SuperuserOnly"
| "policy_of _ = AnyStaff"

section \<open>The handlers\<close>

definition answer :: "('a \<Rightarrow> answer) \<Rightarrow> (db, 'a) tx \<Rightarrow> (db, answer) tx" where
  "answer f m = bindT m (\<lambda>x. ret (f x))"

definition catchR :: "'a res \<Rightarrow> (err \<Rightarrow> err) \<Rightarrow> 'a res" where
  "catchR r f = (case r of Inl e \<Rightarrow> Inl (f e) | Inr x \<Rightarrow> Inr x)"

text \<open>\<open>timesheets_my_day_placement\<close>: nothing is written.\<close>

definition ask_placement ::
  "(date \<Rightarrow> clock \<Rightarrow> int) \<Rightarrow> db \<Rightarrow> staff_row \<Rightarrow> date option \<Rightarrow> clock option \<Rightarrow> rat option \<Rightarrow> clock option
     \<Rightarrow> uuid option \<Rightarrow> uuid option \<Rightarrow> answer res" where
  "ask_placement z s actor date start hours finish staff_id job =
     bindR (unprocessable (opt_all hours_in_range hours)) (\<lambda>_.
     bindR (api_entry_owner s actor staff_id) (\<lambda>owner.
     bindR (parsed_date date) (\<lambda>day.
     bindR (requireR ((hours = None) \<noteq> (finish = None))
              (HttpErr 400 ''Give the hours or the finish, one of them.'')) (\<lambda>_.
     bindR (day_break_windows s owner day) (\<lambda>breaks.
     bindR (case start of Some a \<Rightarrow> Inr a | None \<Rightarrow> next_entry_start s owner day) (\<lambda>a.
     bindR (case hours of
              Some h \<Rightarrow> Inr (h, finish_in_the_day a h breaks)
            | None \<Rightarrow> (case finish of
                None \<Rightarrow> Inl (HttpErr 400 ''Give the hours or the finish, one of them.'')
              | Some b \<Rightarrow> bindR (hours_for a b breaks) (\<lambda>h.
                  Inr (h + of_int (clock_change_minutes z day a b) / 60, Some b)))) (\<lambda>(h, b).
     bindR (overtime_part s owner day h 1 job) (\<lambda>over.
     Inr (PlacementAnswer a b h over)))))))))"

definition create_entry_request ::
  "(date \<Rightarrow> clock \<Rightarrow> int) \<Rightarrow> staff_row \<Rightarrow> entry_request \<Rightarrow> uuid option \<Rightarrow> entry_location option \<Rightarrow> (db, answer) tx" where
  "create_entry_request z actor e staff_id loc =
     seqT (readT (\<lambda>s. unprocessable (entry_request_ok e)))
     (bindT (readT (\<lambda>s. api_entry_owner s actor staff_id)) (\<lambda>owner.
     answer EntryAnswer (catchT (create_entry z actor owner (create_payload e) loc None None) create_refusal)))"

definition update_entry_request ::
  "(date \<Rightarrow> clock \<Rightarrow> int) \<Rightarrow> staff_row \<Rightarrow> entry_patch \<Rightarrow> entry_location option \<Rightarrow> (db, answer) tx" where
  "update_entry_request z actor u loc =
     seqT (readT (\<lambda>s. unprocessable (patch_ok u)))
     (seqT (requireT (\<not> patch_is_empty u) (HttpErr 400 ''At least one field besides entry_id must be provided.''))
     (answer EntryAnswer (catchT (update_entry z actor u loc) entry_refusal)))"

definition delete_entry_request ::
  "(date \<Rightarrow> clock \<Rightarrow> int) \<Rightarrow> staff_row \<Rightarrow> uuid \<Rightarrow> rat option \<Rightarrow> rat option \<Rightarrow> (db, answer) tx" where
  "delete_entry_request z actor i lat lng =
     bindT (readT (\<lambda>s. query_location lat lng)) (\<lambda>loc.
     answer (\<lambda>_. NoContent) (catchT (delete_entry z actor i loc None) delete_refusal))"

definition clock_tap ::
  "(date \<Rightarrow> clock \<Rightarrow> int) \<Rightarrow> staff_row \<Rightarrow> clock_action \<Rightarrow> entry_location option \<Rightarrow> (db, answer) tx" where
  "clock_tap z actor action loc =
     bindT (getT now) (\<lambda>m.
     answer ClockAnswer (if action = TapIn then clock_in z actor m loc else clock_out z actor m loc))"

definition fill_rest ::
  "(date \<Rightarrow> clock \<Rightarrow> int) \<Rightarrow> staff_row \<Rightarrow> date \<Rightarrow> uuid option \<Rightarrow> (db, answer) tx" where
  "fill_rest z actor day staff_id =
     bindT (readT (\<lambda>s. named_owner s actor staff_id)) (\<lambda>owner.
     answer HoursAnswer (fill_with_general_work z owner day actor))"

definition set_times ::
  "(date \<Rightarrow> clock \<Rightarrow> int) \<Rightarrow> staff_row \<Rightarrow> date \<Rightarrow> clock \<Rightarrow> clock option \<Rightarrow> uuid option \<Rightarrow> entry_location option
     \<Rightarrow> (db, answer) tx" where
  "set_times z actor day start finish staff_id loc =
     bindT (readT (\<lambda>s. named_owner s actor staff_id)) (\<lambda>owner.
     answer ClockAnswer (set_clock_times z owner day start finish actor loc))"

definition add_break_request ::
  "(date \<Rightarrow> clock \<Rightarrow> int) \<Rightarrow> staff_row \<Rightarrow> date \<Rightarrow> clock \<Rightarrow> clock \<Rightarrow> bool \<Rightarrow> uuid option \<Rightarrow> entry_location option
     \<Rightarrow> (db, answer) tx" where
  "add_break_request z actor day start finish paid staff_id loc =
     bindT (readT (\<lambda>s. named_owner s actor staff_id)) (\<lambda>owner.
     answer (\<lambda>_. NoContent) (add_break z owner day start finish paid actor loc))"

definition change_break_request ::
  "(date \<Rightarrow> clock \<Rightarrow> int) \<Rightarrow> staff_row \<Rightarrow> uuid \<Rightarrow> clock \<Rightarrow> clock \<Rightarrow> entry_location option \<Rightarrow> (db, answer) tx" where
  "change_break_request z actor i start finish loc =
     answer (\<lambda>_. NoContent) (catchT (change_break z i start finish actor loc) break_refusal)"

definition remove_break_request ::
  "(date \<Rightarrow> clock \<Rightarrow> int) \<Rightarrow> staff_row \<Rightarrow> uuid \<Rightarrow> rat option \<Rightarrow> rat option \<Rightarrow> (db, answer) tx" where
  "remove_break_request z actor i lat lng =
     bindT (readT (\<lambda>s. query_location lat lng)) (\<lambda>loc.
     answer (\<lambda>_. NoContent) (catchT (remove_break z i actor loc) break_refusal))"

definition submit_request ::
  "(date \<Rightarrow> clock \<Rightarrow> int) \<Rightarrow> staff_row \<Rightarrow> date \<Rightarrow> fill_row list \<Rightarrow> uuid option \<Rightarrow> entry_location option \<Rightarrow> (db, answer) tx" where
  "submit_request z actor day rows staff_id loc =
     seqT (readT (\<lambda>s. unprocessable (list_all (\<lambda>r. hours_in_range (fr_hours r) \<and> description_in_range (fr_description r)) rows)))
     (bindT (readT (\<lambda>s. named_owner s actor staff_id)) (\<lambda>owner.
     bindT (getT now) (\<lambda>m.
     answer DayAnswer (catchT (submit_day z actor owner day rows loc m) submit_refusal))))"

definition approve_day_request :: "staff_row \<Rightarrow> uuid \<Rightarrow> date option \<Rightarrow> (db, answer) tx" where
  "approve_day_request actor i date =
     bindT (readT (\<lambda>s. staff_or_404 s i)) (\<lambda>worker.
     bindT (readT (\<lambda>s. parsed_date date)) (\<lambda>day.
     answer CountAnswer (approve_day worker day actor)))"

definition sweep_request ::
  "(date \<Rightarrow> clock \<Rightarrow> int) \<Rightarrow> staff_row \<Rightarrow> date \<Rightarrow> date \<Rightarrow> uuid option \<Rightarrow> (db, answer) tx" where
  "sweep_request z actor start final staff_id =
     bindT (readT (\<lambda>s. sweep_days s start final)) (\<lambda>days.
     case staff_id of
       None \<Rightarrow> answer SweepAnswer (sweep_everyone z days actor)
     | Some i \<Rightarrow> bindT (readT (\<lambda>s. staff_or_404 s i)) (\<lambda>worker. answer SweepAnswer (sweep_person z worker days actor)))"

definition leave_of :: "leave_body \<Rightarrow> leave_code \<Rightarrow> leave_in" where
  "leave_of b c = \<lparr>li_code = c, li_start = lb_start b, li_end = lb_end b, li_note = lb_note b, li_days = lb_days b\<rparr>"

definition book_leave :: "(date \<Rightarrow> clock \<Rightarrow> int) \<Rightarrow> staff_row \<Rightarrow> uuid \<Rightarrow> leave_body \<Rightarrow> (db, answer) tx" where
  "book_leave z actor i b =
     seqT (readT (\<lambda>s. unprocessable (lb_days b \<noteq> [])))
     (answer LeaveSaved (catchT (case lb_code b of
          None \<Rightarrow> seqT (readT (\<lambda>s. get_staff s i)) (throw (DoesNotExist ''LeaveType''))
        | Some c \<Rightarrow> create_leave_request z i (leave_of b c) actor LeaveScreen None) leave_refusal))"

definition change_leave :: "(date \<Rightarrow> clock \<Rightarrow> int) \<Rightarrow> staff_row \<Rightarrow> uuid \<Rightarrow> leave_body \<Rightarrow> (db, answer) tx" where
  "change_leave z actor i b =
     seqT (readT (\<lambda>s. unprocessable (lb_days b \<noteq> [])))
     (answer LeaveSaved (catchT (case lb_code b of
          None \<Rightarrow> seqT (readT (\<lambda>s. get_request s i)) (throw (DoesNotExist ''LeaveType''))
        | Some c \<Rightarrow> update_leave_request z i (leave_of b c) actor) request_refusal))"

definition cancel_leave :: "(date \<Rightarrow> clock \<Rightarrow> int) \<Rightarrow> staff_row \<Rightarrow> uuid \<Rightarrow> (db, answer) tx" where
  "cancel_leave z actor i = answer (\<lambda>_. NoContent) (catchT (delete_leave_request z i actor) deletion_refusal)"

definition close_office ::
  "(date \<Rightarrow> clock \<Rightarrow> int) \<Rightarrow> staff_row \<Rightarrow> date \<Rightarrow> date \<Rightarrow> string option \<Rightarrow> (db, answer) tx" where
  "close_office z actor a b note =
     answer (\<lambda>(i, rs, skipped). ClosureAnswer i rs skipped)
       (catchT (create_office_closure z a b note actor) validation_refusal)"

section \<open>One request, and a history of them\<close>

text \<open>The handlers that only read. The entry grid's handler has a message of its own for an unknown id.\<close>

definition read_day :: "db \<Rightarrow> staff_row \<Rightarrow> date option option \<Rightarrow> uuid option \<Rightarrow> workshop_day res" where
  "read_day s actor d i =
     bindR (resolve_entry_date s d) (\<lambda>day. bindR (api_entry_owner s actor i) (\<lambda>owner. list_entries s owner day))"

definition read_management_day :: "db \<Rightarrow> uuid \<Rightarrow> date option \<Rightarrow> management_day res" where
  "read_management_day s i d =
     bindR (parsed_date d) (\<lambda>day.
     bindR (of_option (HttpErr 404 (''Staff member '' @ show_digits i @ '' not found'')) (row_get st_id i (staffs s)))
       (\<lambda>st. management_day_data s st day))"

definition read_approvals :: "db \<Rightarrow> date option option \<Rightarrow> approvals_day res" where
  "read_approvals s d = bindR (resolve_entry_date s d) (day_approvals s)"

definition read_preview :: "db \<Rightarrow> uuid \<Rightarrow> date \<Rightarrow> date \<Rightarrow> preview_data res" where
  "read_preview s i a b =
     bindR (staff_or_404 s i) (\<lambda>st. catchR (preview_leave s st a b None) validation_refusal)"

definition read_closure_preview :: "db \<Rightarrow> date \<Rightarrow> date \<Rightarrow> closure_preview res" where
  "read_closure_preview s a b = catchR (preview_office_closure s a b) validation_refusal"

text \<open>The routes: what the two routers mounted for timesheets and leave hand a request to.\<close>

fun serve :: "(date \<Rightarrow> clock \<Rightarrow> int) \<Rightarrow> staff_row \<Rightarrow> request \<Rightarrow> (db, answer) tx" where
  "serve z actor (ReadDay d i) = answer DayAnswer (readT (\<lambda>s. read_day s actor d i))"
| "serve z actor (ReadManagementDay i d) = answer ManagementAnswer (readT (\<lambda>s. read_management_day s i d))"
| "serve z actor (CreateEntry e i loc) = create_entry_request z actor e i loc"
| "serve z actor (UpdateEntry u loc) = update_entry_request z actor u loc"
| "serve z actor (DeleteEntry i lat lng) = delete_entry_request z actor i lat lng"
| "serve z actor (ClockTap a loc) = clock_tap z actor a loc"
| "serve z actor (GeneralWork day i) = fill_rest z actor day i"
| "serve z actor (SetTimes day a b i loc) = set_times z actor day a b i loc"
| "serve z actor (AskPlacement d a h b i j) = readT (\<lambda>s. ask_placement z s actor d a h b i j)"
| "serve z actor (AddBreak day a b paid i loc) = add_break_request z actor day a b paid i loc"
| "serve z actor (ChangeBreak i a b loc) = change_break_request z actor i a b loc"
| "serve z actor (RemoveBreak i lat lng) = remove_break_request z actor i lat lng"
| "serve z actor (SubmitDay day rows i loc) = submit_request z actor day rows i loc"
| "serve z actor (ReadApprovals d) = answer ApprovalsAnswer (readT (\<lambda>s. read_approvals s d))"
| "serve z actor (ApproveDay i d) = approve_day_request actor i d"
| "serve z actor (SweepDays a b i) = sweep_request z actor a b i"
| "serve z actor (ListLeave scope search) =
     answer (\<lambda>(rs, m). LeaveListAnswer rs m) (readT (\<lambda>s. list_leave_requests s scope search))"
| "serve z actor (PreviewLeave i a b) = answer PreviewAnswer (readT (\<lambda>s. read_preview s i a b))"
| "serve z actor (BookLeave i b) = book_leave z actor i b"
| "serve z actor (ChangeLeave i b) = change_leave z actor i b"
| "serve z actor (CancelLeave i) = cancel_leave z actor i"
| "serve z actor (PreviewClosure a b) =
     answer ClosurePreviewAnswer (readT (\<lambda>s. read_closure_preview s a b))"
| "serve z actor (CloseOffice a b note) = close_office z actor a b note"

definition handle :: "(date \<Rightarrow> clock \<Rightarrow> int) \<Rightarrow> uuid option \<Rightarrow> request \<Rightarrow> (db, answer) tx" where
  "handle z user q = bindT (readT (\<lambda>s. authenticate s (policy_of q) user)) (\<lambda>actor. serve z actor q)"

text \<open>A request made at a moment, and what is left of it: a refusal leaves the database as it was.\<close>

definition request_at :: "(date \<Rightarrow> clock \<Rightarrow> int) \<Rightarrow> moment \<times> uuid option \<times> request \<Rightarrow> db \<Rightarrow> db" where
  "request_at z r s =
     (case r of (m, user, q) \<Rightarrow>
        (case handle z user q (s\<lparr>now := m\<rparr>) of Inl _ \<Rightarrow> s\<lparr>now := m\<rparr> | Inr (_, s') \<Rightarrow> s'))"

definition serve_all :: "(date \<Rightarrow> clock \<Rightarrow> int) \<Rightarrow> (moment \<times> uuid option \<times> request) list \<Rightarrow> db \<Rightarrow> db" where
  "serve_all z rs s = fold (request_at z) rs s"

end
