(* ===== verification/Timesheet_Safety.thy ===== *)
theory Timesheet_Safety
  imports Timesheet_Api
begin

text \<open>
  What holds of every history of requests: the tables stay consistent and the trail only grows
  (\<open>sound\<close>), and days move on by themselves one way only (\<open>moves_on\<close>).
\<close>

section \<open>An invariant through every request\<close>

lemma keeps_answer [keeps_intros]: "keeps I m \<Longrightarrow> keeps I (answer f m)"
  unfolding answer_def by (intro keeps_intros)

lemma answer_Inr: "answer f m s = Inr (a, s') \<longleftrightarrow> (\<exists>x. m s = Inr (x, s') \<and> a = f x)"
  by (auto simp: answer_def tx_Inr tx_prims)

locale api_invariant = day_writes I + leave_writes I for I +
  assumes clock: "I s \<Longrightarrow> I (s\<lparr>now := m\<rparr>)"
begin

lemma serve_keeps: "keeps I (serve z actor q)"
  by (cases q) (simp_all add: create_entry_request_def update_entry_request_def delete_entry_request_def clock_tap_def
      fill_rest_def set_times_def add_break_request_def change_break_request_def remove_break_request_def
      submit_request_def approve_day_request_def sweep_request_def book_leave_def change_leave_def cancel_leave_def
      close_office_def, (intro keeps_intros)+)

lemma handle_keeps: "keeps I (handle z user q)"
  unfolding handle_def by (intro keeps_intros serve_keeps)

lemma request_at_keeps: "I s \<Longrightarrow> I (request_at z r s)"
  using keepsD [OF handle_keeps clock]
  by (auto simp: request_at_def clock split: prod.splits sum.splits)

lemma serve_all_keeps: "I s \<Longrightarrow> I (serve_all z rs s)"
  unfolding serve_all_def by (induction rs arbitrary: s) (simp_all add: request_at_keeps)

end

interpretation ledger_history: api_invariant leave_lines_ok
  by unfold_locales (auto simp: leave_lines_ok_def fresh_lines_def ledger_ok_def)

interpretation days_history: api_invariant "\<lambda>s. day_rows_ok (attendance_days s)"
  by unfold_locales simp

interpretation lines_history: api_invariant "\<lambda>s. lines_ok (cost_lines s)"
  by unfold_locales simp

interpretation leave_history: api_invariant "\<lambda>s. leave_rows_ok (leave_days s)"
  by unfold_locales simp

interpretation trail_history: api_invariant "\<lambda>s. \<exists>new. events s = es @ new" for es
  by unfold_locales simp

definition sound :: "db \<Rightarrow> bool" where
  "sound s \<longleftrightarrow> leave_lines_ok s \<and> lines_ok (cost_lines s) \<and> day_rows_ok (attendance_days s) \<and> leave_rows_ok (leave_days s)"

text \<open>C1: Whatever the requests, in whatever order and whoever makes them, the tables stay sound:
  every cost set's stored summary is the total of its lines, each line keeps its shape and no
  two entries of a person's day share a number, attendance rows and days of leave meet their
  constraints, every day of leave stands on its line, and the trail of events only grows.\<close>

theorem the_tables_stay_sound:
  assumes "sound s"
  shows "sound (serve_all z rs s) \<and> (\<exists>new. events (serve_all z rs s) = events s @ new)"
proof -
  have "\<exists>new. events s = events s @ new" by simp
  from trail_history.serve_all_keeps [OF this] assms show ?thesis
    by (simp add: sound_def ledger_history.serve_all_keeps days_history.serve_all_keeps lines_history.serve_all_keeps
      leave_history.serve_all_keeps)
qed

section \<open>Days move on one way\<close>

text \<open>Every day is where it was or further on.\<close>

definition moves_on :: "db \<Rightarrow> db \<Rightarrow> bool" where
  "moves_on s s' \<longleftrightarrow> (\<forall>k. day_progress\<^sup>*\<^sup>* (day_book s k) (day_book s' k))"

lemma moves_on_same: "day_book s' = day_book s \<Longrightarrow> moves_on s s'"
  by (simp add: moves_on_def)

lemma moves_on_trans: "moves_on s t \<Longrightarrow> moves_on t u \<Longrightarrow> moves_on s u"
  unfolding moves_on_def by (meson rtranclp_trans)

lemma moves_on_update: "day_book s' = (day_book s)(k := x) \<Longrightarrow> day_progress\<^sup>*\<^sup>* (day_book s k) x \<Longrightarrow> moves_on s s'"
  by (simp add: moves_on_def)

interpretation clocked_leave: leave_writes "\<lambda>s. map day_times (attendance_days s) = X" for X
proof unfold_locales
  fix s s' :: db and j z r st words actor dh and u :: unit
  assume "map day_times (attendance_days s) = X" and run: "create_day z r st j words actor dh s = Inr (u, s')"
  obtain day h where dh: "dh = (day, h)" by (cases dh)
  from run obtain e s1 where e: "create_entry z actor st (leave_entry j day h words) None None (Some OwnedByLeave) s = Inr (e, s1)"
    and s': "attendance_days s' = attendance_days s1"
    by (auto simp: dh create_day_Inr insert_leave_day_Inr)
  with keepsD [OF clocked.create_entry_keeps \<open>map day_times (attendance_days s) = X\<close> e]
  show "map day_times (attendance_days s') = X" by simp
qed (auto intro!: keepsI simp: insert_request_def save_request_def delete_request_days_def delete_request_row_def tx_Inr tx_prims)

lemma clock_in_moves: "clock_in z w m loc s = Inr (a, s') \<Longrightarrow> moves_on s s'"
  using clock_in_book started by (metis moves_on_update r_into_rtranclp)

lemma clock_out_moves:
  assumes "clock_out z w m loc s = Inr (a, s')"
  shows "moves_on s s'"
proof -
  let ?k = "(st_id w, m_date m)" and ?f = "to_the_minute (m_time m)"
  from clock_out_book [OF assms] obtain start x where
    was: "day_book s ?k = Some (start, None, x) \<or> day_book s ?k = None \<and> x = None"
    and "start < ?f" and book: "day_book s' = (day_book s)(?k \<mapsto> (start, Some ?f, x))" by auto
  then have "day_progress (Some (start, None, x)) (Some (start, Some ?f, x))" by (intro finished)
  moreover have "day_progress\<^sup>*\<^sup>* (day_book s ?k) (Some (start, None, x))" using was started by auto
  ultimately have "day_progress\<^sup>*\<^sup>* (day_book s ?k) (Some (start, Some ?f, x))" by simp
  then show ?thesis by (rule moves_on_update [OF book])
qed

lemma fill_moves: "fill_with_general_work z w day actor s = Inr (h, s') \<Longrightarrow> moves_on s s'"
  using fill_with_general_work_book moves_on_update by metis

lemma submit_moves: "submit_day z actor w day rows loc m s = Inr (d, s') \<Longrightarrow> moves_on s s'"
  using submit_day_book moves_on_update by metis

lemma approve_moves: "approve_day w day actor s = Inr (n, s') \<Longrightarrow> moves_on s s'"
  by (rule moves_on_same) (rule clocked_book [OF clocked.approve_day_keeps])

lemma send_moves:
  assumes "send_for_him w r actor s = Inr (u, s')" "attendance_row s (st_id w) day = Some r" "ad_clock_out r \<noteq> None"
  shows "moves_on s s'"
proof (cases "submitted_at r")
  case None
  from assms(3) obtain b where b: "ad_clock_out r = Some b" by blast
  have row: "ad_date r = day" using assms(2) by (auto simp: attendance_row_def find_Some_iff)
  from assms(1) None obtain s1 where sv: "save_day (st_id w) day (\<lambda>r. r\<lparr>submitted_at := Some (now s)\<rparr>) s = Inr ((), s1)"
    and ev: "record_day_event (st_id actor) (st_id w) day ''day_sent'' None None True s1 = Inr (u, s')"
    by (auto simp: send_for_him_def tx_Inr tx_prims row)
  have "day_book s1 = (day_book s)((st_id w, day) := map_option (\<lambda>(a, b, x). (a, b, Some (now s))) (day_book s (st_id w, day)))"
    by (rule save_day_book [OF sv]) (simp_all add: day_key_def entry_of_def)
  then have "day_book s' = (day_book s)((st_id w, day) \<mapsto> (ad_clock_in r, Some b, Some (now s)))"
    using record_day_event_book [OF ev] assms(2) b by (simp add: book_row entry_of_def)
  then show ?thesis
    by (rule moves_on_update) (use assms(2) b None in \<open>auto simp: book_row entry_of_def intro: sent\<close>)
next
  case (Some m)
  then have "s' = s" using assms by (auto simp: send_for_him_def ret_run)
  then show ?thesis by (simp add: moves_on_same)
qed

lemma sweep_one_moves:
  assumes "sweep_one z actor (day, w) acc s = Inr (d, s')"
  shows "moves_on s s'"
proof -
  have "s' = s \<or> (\<exists>h s1 n s2 r. fill_with_general_work z w day actor s = Inr (h, s1)
      \<and> approve_day w day actor s1 = Inr (n, s2) \<and> attendance_row s2 (st_id w) day = Some r
      \<and> send_for_him w r actor s2 = Inr ((), s'))"
    using assms unfolding sweep_one_def by (auto simp: tx_Inr tx_prims split_def split: option.split_asm)
  then show ?thesis
  proof (elim disjE exE conjE)
    fix h s1 n s2 r
    assume fill: "fill_with_general_work z w day actor s = Inr (h, s1)" and ap: "approve_day w day actor s1 = Inr (n, s2)"
      and r: "attendance_row s2 (st_id w) day = Some r" and send: "send_for_him w r actor s2 = Inr ((), s')"
    have same: "day_book s2 = day_book s1" by (rule clocked_book [OF clocked.approve_day_keeps ap])
    have "ad_clock_out r \<noteq> None"
    proof -
      have "day_book s2 (st_id w, day) = Some (entry_of r)" using r by (simp add: book_row)
      moreover from fill_with_general_work_book [OF fill] obtain x b y where "day_book s1 (st_id w, day) = Some (x, Some b, y)"
        by auto
      ultimately have "Some b = ad_clock_out r" using same by (simp add: entry_of_def)
      then show ?thesis by (metis option.distinct(1))
    qed
    from send_moves [OF send r this] moves_on_same [OF same] fill_moves [OF fill] show ?thesis
      by (blast intro: moves_on_trans)
  qed (simp add: moves_on_same)
qed

lemma sweep_moves:
  assumes "sweep z people actor s = Inr (d, s')"
  shows "moves_on s s'"
proof -
  have fold: "foldT (sweep_one z actor) dps acc s = Inr (d, s') \<Longrightarrow> moves_on s s'" for dps acc s
  proof (induction dps arbitrary: acc s)
    case (Cons dp dps)
    then obtain acc1 s1 where one: "sweep_one z actor (fst dp, snd dp) acc s = Inr (acc1, s1)"
      and rest: "foldT (sweep_one z actor) dps acc1 s1 = Inr (d, s')" by (auto simp: tx_Inr)
    from sweep_one_moves [OF one] Cons.IH [OF rest] show ?case by (rule moves_on_trans)
  qed (simp add: ret_run moves_on_same)
  from assms show ?thesis by (auto simp: sweep_def tx_Inr intro: fold)
qed

lemma sweep_request_moves: "sweep_request z actor a b i s = Inr (r, s') \<Longrightarrow> moves_on s s'"
  by (auto simp: sweep_request_def tx_Inr answer_Inr sweep_everyone_def sweep_person_def split: option.splits
      dest: sweep_moves)

text \<open>Setting a day's times is the one request that takes a day back.\<close>

fun sets_times :: "request \<Rightarrow> bool" where
  "sets_times (SetTimes _ _ _ _ _) = True"
| "sets_times _ = False"

lemma serve_moves:
  assumes "serve z actor q s = Inr (r, s')" "\<not> sets_times q"
  shows "moves_on s s'"
proof (cases "\<exists>i b day rows loc a f. q \<in> {ClockTap a loc, GeneralWork day i, SubmitDay day rows i loc, SweepDays b f i}")
  case True
  then show ?thesis
    using assms(1) clock_in_moves clock_out_moves fill_moves submit_moves sweep_request_moves
    by (auto simp: clock_tap_def fill_rest_def submit_request_def tx_Inr tx_prims answer_Inr split: if_splits)
next
  case False
  have "keeps (\<lambda>s. map day_times (attendance_days s) = X) (serve z actor q)" for X
    using assms(2) False
    by (cases q) (auto simp: create_entry_request_def update_entry_request_def delete_entry_request_def
      add_break_request_def change_break_request_def remove_break_request_def
      approve_day_request_def book_leave_def change_leave_def cancel_leave_def close_office_def
      intro!: keeps_intros clocked.create_entry_keeps clocked.update_entry clocked.delete_entry_keeps clocked.add_break_keeps
        clocked.change_break_keeps clocked.remove_break_keeps clocked.approve_day_keeps
        clocked_leave.create_leave_request_keeps clocked_leave.update_leave_request_keeps
        clocked_leave.delete_leave_request_keeps clocked_leave.create_office_closure_keeps)
  then show ?thesis using assms(1) by (intro moves_on_same clocked_book)
qed

text \<open>C3: A request changes the record of who was at work when in one of three ways, as the book
  of days says it: it leaves every day as it was or further on, started, finished or sent; or
  it sets one day's times by hand, to the minute, which takes the sending back; and only the
  person or the office does that.\<close>

theorem a_request_moves_days_on:
  assumes "handle z user q s = Inr (r, s')"
  shows "moves_on s s' \<or> (\<exists>actor (owner :: staff_row) day a b. (st_id actor = st_id owner \<or> is_office_staff actor)
    \<and> user = Some (st_id actor) \<and> actor \<in> set (staffs s)
    \<and> day_book s' = (day_book s)((st_id owner, day) \<mapsto> (to_the_minute a, map_option to_the_minute b, None)))"
proof -
  from assms obtain actor where auth: "authenticate s (policy_of q) user = Inr actor" and run: "serve z actor q s = Inr (r, s')"
    by (auto simp: handle_def tx_Inr)
  have user: "user = Some (st_id actor)" "actor \<in> set (staffs s)"
    using auth row_get_Some by (fastforce simp: authenticate_def bindR_eq_Inr split: if_splits)+
  show ?thesis
  proof (cases "sets_times q")
    case False
    then show ?thesis using serve_moves [OF run] by blast
  next
    case True
    then obtain day a b i loc where q: "q = SetTimes day a b i loc" by (cases q) auto
    with run obtain owner x where "set_clock_times z owner day a b actor loc s = Inr (x, s')"
      by (auto simp: set_times_def tx_Inr answer_Inr)
    from set_clock_times_book [OF this] user show ?thesis
      by blast
  qed
qed

lemma request_at_moves: "\<not> sets_times q \<Longrightarrow> moves_on s (request_at z (m, user, q) s)"
proof -
  assume q: "\<not> sets_times q"
  have clock: "moves_on s (s\<lparr>now := m\<rparr>)" by (rule moves_on_same) (simp add: day_book_def)
  show ?thesis
  proof (cases "handle z user q (s\<lparr>now := m\<rparr>)")
    case (Inr r)
    then obtain a s' where r: "handle z user q (s\<lparr>now := m\<rparr>) = Inr (a, s')" by (cases r) auto
    then have "moves_on (s\<lparr>now := m\<rparr>) s'" using serve_moves q by (auto simp: handle_def tx_Inr)
    with clock r show ?thesis by (simp add: request_at_def moves_on_trans)
  qed (simp add: request_at_def clock)
qed

text \<open>C2: A day sent to the office stays sent, its start and finish as they were: over any history
  of requests, by anyone, that sets no day's times by hand, only the moment it was sent can
  change, when it is sent again.\<close>

theorem a_sent_day_stays_sent:
  assumes "day_book s k = Some (a, Some b, Some m)" and "list_all (\<lambda>(_, _, q). \<not> sets_times q) rs"
  shows "\<exists>m'. day_book (serve_all z rs s) k = Some (a, Some b, Some m')"
proof -
  have "moves_on s (serve_all z rs s)"
    using assms(2) unfolding serve_all_def
  proof (induction rs arbitrary: s)
    case (Cons r rs)
    obtain t user q where r: "r = (t, user, q)" by (cases r) auto
    have "moves_on s (request_at z r s)" unfolding r by (rule request_at_moves) (use Cons.prems r in simp)
    then show ?case using Cons by (auto intro: moves_on_trans)
  qed (simp add: moves_on_same)
  then show ?thesis using sent_stays assms(1) by (metis moves_on_def)
qed

section \<open>On the sample day\<close>

definition sample_moment :: moment where
  "sample_moment = \<lparr>m_date = 739000, m_time = Clock 12 5 0 0\<rparr>"

definition sample_booking :: request where
  "sample_booking = BookLeave 1 \<lparr>lb_code = Some Annual, lb_start = 739000, lb_end = 739000, lb_note = None, lb_days = [739000]\<rparr>"

lemma half_sound: "sound sample_half"
proof -
  have "lines_ok (cost_lines sample_half)" by code_simp
  then show ?thesis
    using half_ok by (simp add: sound_def day_rows_ok_def leave_rows_ok_def sample_half_def sample_defs)
qed

lemma booking_served:
  "case handle (\<lambda>_ _. 0) (Some 3) sample_booking (sample_half\<lparr>now := sample_moment\<rparr>) of Inl _ \<Rightarrow> False
     | Inr (_, s') \<Rightarrow> length (leave_days s') = 1" by code_simp

lemma answered:
  assumes "case r of Inl _ \<Rightarrow> False | Inr (_, s') \<Rightarrow> P s'"
  shows "\<exists>a s'. r = Inr (a, s') \<and> P s'"
  using assms by (auto split: sum.splits prod.splits)

lemma serve_all_one: "serve_all z [x] s = request_at z x s"
  unfolding serve_all_def by simp

lemma request_at_Inr: "handle z user q (s\<lparr>now := m\<rparr>) = Inr (a, s') \<Longrightarrow> request_at z (m, user, q) s = s'"
  unfolding request_at_def by simp

lemma booking_history:
  "length (leave_days (serve_all (\<lambda>_ _. 0) [(sample_moment, Some 3, sample_booking)] sample_half)) = 1"
proof -
  obtain a s' where run:
    "handle (\<lambda>_ _. 0) (Some 3) sample_booking (sample_half\<lparr>now := sample_moment\<rparr>) = Inr (a, s')"
    and one: "length (leave_days s') = 1"
    using answered [OF booking_served] by metis
  show ?thesis unfolding serve_all_one request_at_Inr [OF run] by (rule one)
qed

theorem the_tables_stay_sound_witness:
  "sound sample_half \<and> sound (serve_all (\<lambda>_ _. 0) [(sample_moment, Some 3, sample_booking)] sample_half)
    \<and> length (leave_days (serve_all (\<lambda>_ _. 0) [(sample_moment, Some 3, sample_booking)] sample_half)) = 1"
  by (intro conjI half_sound booking_history conjunct1 [OF the_tables_stay_sound [OF half_sound]])

text \<open>The hourly worker at work since eight, his breaks on the day.\<close>

definition sample_open :: db where
  "sample_open = sample_db\<lparr>now := sample_moment, attendance_days := [\<lparr>ad_staff = 1, ad_date = 739000,
     ad_clock_in = Clock 8 0 0 0, ad_clock_out = None, submitted_at = None, breaks_generated = True,
     general_work_fill = False\<rparr>]\<rparr>"

lemma tap_case:
  "case handle (\<lambda>_ _. 0) (Some 1) (ClockTap TapOut None) sample_open of Inl _ \<Rightarrow> False
     | Inr (_, s') \<Rightarrow> map ad_clock_out (attendance_days s') = [Some (Clock 12 5 0 0)]"
  by code_simp

theorem a_request_moves_days_on_witness:
  "\<exists>r s'. handle (\<lambda>_ _. 0) (Some 1) (ClockTap TapOut None) sample_open = Inr (r, s')
    \<and> (moves_on sample_open s' \<or> (\<exists>actor (owner :: staff_row) day a b. (st_id actor = st_id owner \<or> is_office_staff actor)
       \<and> Some 1 = Some (st_id actor) \<and> actor \<in> set (staffs sample_open)
       \<and> day_book s' = (day_book sample_open)((st_id owner, day) \<mapsto> (to_the_minute a, map_option to_the_minute b, None))))"
proof -
  obtain r s' where run: "handle (\<lambda>_ _. 0) (Some 1) (ClockTap TapOut None) sample_open = Inr (r, s')"
    using answered [OF tap_case] by metis
  show ?thesis by (intro exI conjI) (rule run, rule a_request_moves_days_on [OF run])
qed

definition sample_sent :: db where
  "sample_sent = sample_filled\<lparr>attendance_days := [\<lparr>ad_staff = 1, ad_date = 739000, ad_clock_in = Clock 8 0 0 0,
     ad_clock_out = Some (Clock 12 0 0 0), submitted_at = Some sample_moment, breaks_generated = True,
     general_work_fill = True\<rparr>]\<rparr>"

theorem a_sent_day_stays_sent_witness:
  "\<exists>m'. day_book (serve_all (\<lambda>_ _. 0) [(sample_moment, Some 1, ClockTap TapOut None),
      (sample_moment, Some 3, SweepDays 739000 739000 None)] sample_sent) (1, 739000)
    = Some (Clock 8 0 0 0, Some (Clock 12 0 0 0), Some m')"
proof (rule a_sent_day_stays_sent)
  show "day_book sample_sent (1, 739000) = Some (Clock 8 0 0 0, Some (Clock 12 0 0 0), Some sample_moment)"
    by (simp add: day_book_def sample_sent_def day_times_def day_key_def)
qed simp

end
