(* ===== verification/Stockroom.thy ===== *)
theory Stockroom
  imports Entries
begin

text \<open>
  \<open>apps/purchasing/models.py\<close>: stock, its movements, stocktakes and purchase orders, held beside
  the costing database in the record \<open>stockroom\<close> (\<open>books\<close>), and the ledger audits of
  \<open>stock_movement_service.py\<close> as functions that list what they find. Movements are kept in the
  order they were recorded, which is the order \<open>(recorded_at, id)\<close> of the audits as long as
  the clock moves on between two of them. The queue of the metadata parser, quote files,
  notes on orders and the columns of the Xero mirror are not modelled.
\<close>

section \<open>Rows\<close>

datatype movement_kind =
  Opening | JobOpening | Delivery | DeliveryOpening | DeliveryReversal | Issue | Returned | Counted

datatype stock_source = FromOrder | FromSplit | Manual | FromCatalog

record stock_row =
  sk_id :: uuid
  sk_job :: "uuid option"
  sk_item_code :: "string option"
  sk_description :: string
  sk_quantity :: rat
  inventory_version :: int
  sk_unit_cost :: rat
  sk_unit_revenue :: "rat option"
  sk_date :: moment
  sk_source :: stock_source
  source_line :: "uuid option"
  sk_location :: "string option"
  sk_metal :: "string option"
  sk_alloy :: "string option"
  sk_specifics :: "string option"
  sk_active :: bool

record stock_movement =
  mv_id :: uuid
  mv_stock :: uuid
  quantity_change :: rat
  quantity_before :: rat
  quantity_after :: rat
  opening_quantity :: "rat option"
  mv_unit_cost :: rat
  mv_kind :: movement_kind
  counterpart_job :: "uuid option"
  mv_line :: "uuid option"
  mv_take_line :: "uuid option"
  reverses :: "uuid option"
  mv_actor :: "uuid option"
  mv_reason :: string

record stocktake_row =
  tk_id :: uuid
  tk_job :: uuid
  created_by :: uuid
  posted_at :: "moment option"
  posted_by :: "uuid option"
  tk_version :: int
  corrects :: "uuid option"

record stocktake_line =
  tl_id :: uuid
  tl_take :: uuid
  tl_stock :: "uuid option"
  tl_description :: string
  tl_location :: "string option"
  expected_quantity :: rat
  expected_version :: int
  counted_quantity :: "rat option"
  counted_at :: "moment option"
  tl_unit_cost :: rat
  tl_reason :: "string option"

datatype order_status = Draft | Submitted | PartiallyReceived | FullyReceived | Deleted

record order_row =
  po_id :: uuid
  po_supplier :: "uuid option"
  pickup_address :: "uuid option"
  po_number :: string
  po_reference :: "string option"
  order_date :: date
  expected_delivery :: "date option"
  po_creator :: uuid
  po_status :: order_status
  xero_push_due :: bool
  po_updated_at :: moment

record order_line =
  ol_id :: uuid
  ol_order :: uuid
  ol_job :: "uuid option"
  ol_description :: string
  ol_quantity :: rat
  ol_unit_cost :: "rat option"
  price_tbc :: bool
  ol_item_code :: "string option"
  received_quantity :: rat
  ol_metal :: "string option"
  ol_alloy :: "string option"
  ol_specifics :: "string option"
  ol_location :: "string option"
  ol_dimensions :: "string option"

record pickup_row =
  pk_id :: uuid
  pk_company :: uuid
  is_primary :: bool
  pk_active :: bool

text \<open>\<open>suppliers\<close> are the ids of the companies that are suppliers.\<close>

record stockroom =
  books :: db
  materials_markup :: rat
  po_prefix :: string
  starting_po_number :: int
  adjustment_job :: "uuid option"
  suppliers :: "uuid list"
  pickups :: "pickup_row list"
  stocks :: "stock_row list"
  movements :: "stock_movement list"
  stocktakes :: "stocktake_row list"
  take_lines :: "stocktake_line list"
  orders :: "order_row list"
  order_lines :: "order_line list"

definition on_books :: "(db, 'a) tx \<Rightarrow> (stockroom, 'a) tx" where
  "on_books m = (\<lambda>s. case m (books s) of Inl e \<Rightarrow> Inl e | Inr (x, d) \<Rightarrow> Inr (x, s\<lparr>books := d\<rparr>))"

definition get_stock :: "stockroom \<Rightarrow> uuid \<Rightarrow> stock_row res" where
  "get_stock s i = of_option (DoesNotExist ''Stock'') (row_get sk_id i (stocks s))"

definition get_movement :: "stockroom \<Rightarrow> uuid \<Rightarrow> stock_movement res" where
  "get_movement s i = of_option (DoesNotExist ''StockMovement'') (row_get mv_id i (movements s))"

definition get_take :: "stockroom \<Rightarrow> uuid \<Rightarrow> stocktake_row res" where
  "get_take s i = of_option (DoesNotExist ''Stocktake'') (row_get tk_id i (stocktakes s))"

definition get_order :: "stockroom \<Rightarrow> uuid \<Rightarrow> order_row option" where
  "get_order s i = row_get po_id i (orders s)"

definition lines_of_order :: "stockroom \<Rightarrow> uuid \<Rightarrow> order_line list" where
  "lines_of_order s i = filter (\<lambda>l. ol_order l = i) (order_lines s)"

definition lines_of_take :: "stockroom \<Rightarrow> uuid \<Rightarrow> stocktake_line list" where
  "lines_of_take s i = filter (\<lambda>l. tl_take l = i) (take_lines s)"

text \<open>\<open>cost.cost_set.job_id\<close>, \<open>cost.cost_set.kind\<close> of a cost line of the books.\<close>

definition job_of_cost :: "stockroom \<Rightarrow> cost_line \<Rightarrow> uuid option" where
  "job_of_cost s l = line_job_id (books s) l"

text \<open>
  \<open>Stock.get_stock_holding_job\<close>: \<open>Job.objects.get(name=...)\<close>, which raises unless exactly one
  job has the name. It keeps what it found for the life of the process.
\<close>

definition stock_holding_job_name :: string where "stock_holding_job_name = ''Worker Admin''"

definition get_stock_holding_job :: "stockroom \<Rightarrow> job_row res" where
  "get_stock_holding_job s =
     (case filter (\<lambda>j. job_name j = stock_holding_job_name) (jobs (books s)) of
        [j] \<Rightarrow> Inr j | [] \<Rightarrow> Inl (DoesNotExist ''Job'') | _ \<Rightarrow> Inl (DoesNotExist ''MultipleObjectsReturned''))"

text \<open>What \<open>Stock.save\<close> and the table's constraints refuse, and what a numeric column keeps.\<close>

definition not_blank :: "string option \<Rightarrow> bool" where
  "not_blank t \<longleftrightarrow> t \<noteq> Some []"

definition stored_money :: "rat \<Rightarrow> rat" where
  "stored_money x = quantize round_half_up (1 / 100) x"

definition stock_checks :: "stockroom \<Rightarrow> stock_row \<Rightarrow> unit res" where
  "stock_checks s k =
     bindR (requireR (0 \<le> sk_unit_cost k) (ValueErr ''Unit cost cannot be negative'')) (\<lambda>_.
     bindR (requireR (not_blank (sk_item_code k) \<and> not_blank (sk_location k) \<and> not_blank (sk_metal k)
          \<and> not_blank (sk_alloy k) \<and> not_blank (sk_specifics k)) (Integrity ''purchasing_stock_not_blank'')) (\<lambda>_.
     requireR (sk_item_code k = None \<or> \<not> list_ex (\<lambda>x. sk_id x \<noteq> sk_id k \<and> sk_item_code x = sk_item_code k) (stocks s))
       (Integrity ''item_code'')))"

definition stored_stock :: "stock_row \<Rightarrow> stock_row" where
  "stored_stock k = k\<lparr>sk_unit_cost := stored_money (sk_unit_cost k),
     sk_unit_revenue := map_option stored_money (sk_unit_revenue k)\<rparr>"

text \<open>The first save of a row and a save of all its columns.\<close>

definition insert_stock :: "stock_row \<Rightarrow> (stockroom, unit) tx" where
  "insert_stock k =
     seqT (readT (\<lambda>s. stock_checks s k)) (putT (\<lambda>s. s\<lparr>stocks := stocks s @ [stored_stock k]\<rparr>))"

definition save_stock :: "stock_row \<Rightarrow> (stockroom, unit) tx" where
  "save_stock k =
     seqT (readT (\<lambda>s. stock_checks s k)) (putT (\<lambda>s. s\<lparr>stocks := row_put sk_id (stored_stock k) (stocks s)\<rparr>))"

section \<open>Balances\<close>

definition moves_of :: "uuid \<Rightarrow> stock_movement list \<Rightarrow> stock_movement list" where
  "moves_of k ms = filter (\<lambda>m. mv_stock m = k) ms"

definition ledger_quantity :: "uuid \<Rightarrow> stock_movement list \<Rightarrow> rat" where
  "ledger_quantity k ms = sum_list (map quantity_change (moves_of k ms))"

text \<open>\<open>inventory_balances\<close> and \<open>inventory_difference\<close>.\<close>

definition inventory_balances :: "stockroom \<Rightarrow> (stock_row \<times> rat) list" where
  "inventory_balances s = map (\<lambda>k. (k, ledger_quantity (sk_id k) (movements s))) (stocks s)"

definition inventory_difference :: "stockroom \<Rightarrow> stock_row \<Rightarrow> rat" where
  "inventory_difference s k = sk_quantity k - ledger_quantity (sk_id k) (movements s)"

section \<open>The audits\<close>

definition stock_balances_audit :: "stockroom \<Rightarrow> uuid list" where
  "stock_balances_audit s = map (sk_id \<circ> fst) (filter (\<lambda>(k, q). sk_quantity k \<noteq> q) (inventory_balances s))"

text \<open>\<open>lag(quantity_after, 1, 0)\<close> over the movements of a stock row.\<close>

definition last_after :: "uuid \<Rightarrow> stock_movement list \<Rightarrow> rat" where
  "last_after k ms = (case rev (moves_of k ms) of [] \<Rightarrow> 0 | m # _ \<Rightarrow> quantity_after m)"

fun breaks_in :: "stock_movement list \<Rightarrow> stock_movement list \<Rightarrow> uuid list" where
  "breaks_in seen [] = []"
| "breaks_in seen (m # ms) =
     (if quantity_before m \<noteq> last_after (mv_stock m) seen then [mv_id m] else []) @ breaks_in (seen @ [m]) ms"

definition movement_continuity :: "stockroom \<Rightarrow> uuid list" where
  "movement_continuity s = breaks_in [] (movements s)"

definition cost_of :: "stockroom \<Rightarrow> stock_movement \<Rightarrow> cost_line option" where
  "cost_of s m = Option.bind (mv_line m) (get_line (books s))"

definition moves_to_a_job :: "movement_kind \<Rightarrow> bool" where
  "moves_to_a_job k \<longleftrightarrow> k = Issue \<or> k = Returned \<or> k = JobOpening \<or> k = Counted"

definition cost_matches :: "stockroom \<Rightarrow> stock_movement \<Rightarrow> bool" where
  "cost_matches s m \<longleftrightarrow>
     (case cost_of s m of None \<Rightarrow> False
      | Some c \<Rightarrow> line_set_kind (books s) c = Some Actual \<and> kind c = Material \<and> approved c
          \<and> job_of_cost s c = counterpart_job m \<and> unit_cost c = mv_unit_cost m
          \<and> managed_by c = Some (if mv_kind m = Counted then OwnedByStocktake else OwnedByStock)
          \<and> (if mv_kind m = JobOpening then 0 < quantity c \<and> quantity_change m = 0
             else quantity c = - quantity_change m))"

definition job_cost_counterparts :: "stockroom \<Rightarrow> uuid list" where
  "job_cost_counterparts s =
     map mv_id (filter (\<lambda>m. moves_to_a_job (mv_kind m) \<and> \<not> cost_matches s m) (movements s))"

definition stock_owned :: "cost_line \<Rightarrow> bool" where
  "stock_owned l \<longleftrightarrow> managed_by l = Some OwnedByStock \<or> managed_by l = Some OwnedByStocktake"

definition unlinked_inventory_costs :: "stockroom \<Rightarrow> uuid list" where
  "unlinked_inventory_costs s = map line_id (filter (\<lambda>l. stock_owned l
     \<and> \<not> list_ex (\<lambda>m. mv_line m = Some (line_id l) \<and> moves_to_a_job (mv_kind m)) (movements s)) (cost_lines (books s)))"

definition delivered :: "stock_movement \<Rightarrow> rat option" where
  "delivered m = (if mv_kind m = DeliveryOpening then opening_quantity m else Some (quantity_change m))"

definition reversal_matches :: "stockroom \<Rightarrow> stock_movement \<Rightarrow> bool" where
  "reversal_matches s m \<longleftrightarrow>
     (case Option.bind (reverses m) (\<lambda>i. row_get mv_id i (movements s)) of None \<Rightarrow> False
      | Some m0 \<Rightarrow> mv_stock m0 = mv_stock m \<and> mv_unit_cost m = mv_unit_cost m0
          \<and> (if mv_kind m = Returned then
               (mv_kind m0 = Issue \<or> mv_kind m0 = JobOpening) \<and> counterpart_job m = counterpart_job m0
               \<and> (case (cost_of s m0, cost_of s m) of
                    (Some charge, Some credit) \<Rightarrow> quantity_change m = quantity charge
                       \<and> unit_cost credit = unit_cost charge \<and> unit_rev credit = unit_rev charge
                  | _ \<Rightarrow> False)
             else (mv_kind m0 = Delivery \<or> mv_kind m0 = DeliveryOpening)
               \<and> Some (quantity_change m) = map_option uminus (delivered m0)))"

definition reversal_evidence :: "stockroom \<Rightarrow> uuid list" where
  "reversal_evidence s =
     map mv_id (filter (\<lambda>m. (mv_kind m = Returned \<or> mv_kind m = DeliveryReversal) \<and> \<not> reversal_matches s m) (movements s))"

definition count_matches :: "stockroom \<Rightarrow> stock_movement \<Rightarrow> bool" where
  "count_matches s m \<longleftrightarrow>
     (case Option.bind (mv_take_line m) (\<lambda>i. row_get tl_id i (take_lines s)) of None \<Rightarrow> False
      | Some l \<Rightarrow> (case row_get tk_id (tl_take l) (stocktakes s) of None \<Rightarrow> False | Some t \<Rightarrow> posted_at t \<noteq> None)
          \<and> tl_stock l = Some (mv_stock m) \<and> mv_unit_cost m = tl_unit_cost l
          \<and> (case counted_quantity l of None \<Rightarrow> False | Some c \<Rightarrow> quantity_change m = c - expected_quantity l))"

definition count_is_moved :: "stockroom \<Rightarrow> stocktake_line \<Rightarrow> bool" where
  "count_is_moved s l \<longleftrightarrow>
     (case row_get tk_id (tl_take l) (stocktakes s) of None \<Rightarrow> True
      | Some t \<Rightarrow> posted_at t = None \<or> counted_quantity l = None \<or> counted_quantity l = Some (expected_quantity l)
          \<or> list_ex (\<lambda>m. mv_take_line m = Some (tl_id l)) (movements s))"

definition stocktake_evidence :: "stockroom \<Rightarrow> uuid list" where
  "stocktake_evidence s =
     map mv_id (filter (\<lambda>m. mv_kind m = Counted \<and> \<not> count_matches s m) (movements s))
     @ map tl_id (filter (\<lambda>l. \<not> count_is_moved s l) (take_lines s))"

text \<open>\<open>pending_lines\<close> are cutover candidates; \<open>receipts\<close> sums what an order line was delivered.\<close>

definition of_order_line :: "stockroom \<Rightarrow> uuid \<Rightarrow> uuid list" where
  "of_order_line s i = map sk_id (filter (\<lambda>k. source_line k = Some i) (stocks s))"

definition receipts_of :: "stockroom \<Rightarrow> uuid \<Rightarrow> rat" where
  "receipts_of s i = sum_list (map (\<lambda>m. case delivered m of None \<Rightarrow> 0 | Some q \<Rightarrow> q)
     (filter (\<lambda>m. mv_stock m \<in> set (of_order_line s i)
        \<and> (mv_kind m = Delivery \<or> mv_kind m = DeliveryOpening \<or> mv_kind m = DeliveryReversal)) (movements s)))"

definition pending_receipt :: "stockroom \<Rightarrow> uuid \<Rightarrow> bool" where
  "pending_receipt s i \<longleftrightarrow>
     list_ex (\<lambda>k. sk_source k = FromOrder \<and> source_line k = Some i
        \<and> \<not> list_ex (\<lambda>m. mv_stock m = sk_id k \<and> (mv_kind m = Delivery \<or> mv_kind m = DeliveryOpening)) (movements s))
       (stocks s)
     \<or> list_ex (\<lambda>c. meta_get (ext_refs c) ''purchase_order_line_id'' = JStr (show_digits i)
        \<and> has_key (ext_refs c) ''purchase_order_id'' \<and> line_set_kind (books s) c = Some Actual \<and> kind c = Material
        \<and> \<not> list_ex (\<lambda>m. mv_line m = Some (line_id c)) (movements s)) (cost_lines (books s))"

definition supplier_delivery_totals :: "stockroom \<Rightarrow> uuid list" where
  "supplier_delivery_totals s = map ol_id (filter (\<lambda>l. received_quantity l \<noteq> receipts_of s (ol_id l)
     \<and> \<not> pending_receipt s (ol_id l)) (order_lines s))"

definition inventory_audit_findings :: "stockroom \<Rightarrow> (string \<times> uuid list) list" where
  "inventory_audit_findings s = filter (\<lambda>(_, rows). rows \<noteq> [])
     [(''Stock balances'', stock_balances_audit s), (''Movement continuity'', movement_continuity s),
      (''Job cost counterparts'', job_cost_counterparts s), (''Unlinked inventory costs'', unlinked_inventory_costs s),
      (''Reversal evidence'', reversal_evidence s), (''Stocktake posting evidence'', stocktake_evidence s),
      (''Supplier delivery totals'', supplier_delivery_totals s)]"

end
