(* ===== verification/Stock_Moves.thy ===== *)
theory Stock_Moves
  imports Stockroom
begin

text \<open>
  The writes of inventory: \<open>purchasing/services/stock_movement_service.py\<close> (the single writer of
  a balance), \<open>stock_service.py\<close> and \<open>stocktake_service.py\<close>. A row passed between functions of the
  code is its id here where the callee reads it again and the row itself where it does not.
  Setting up the stocktake's adjustment job, which creates a job, is not modelled.
\<close>

section \<open>Moving stock\<close>

record movement_context =
  mc_kind :: movement_kind
  mc_reason :: string
  mc_actor :: "uuid option"
  mc_job :: "uuid option"
  mc_cost :: "cost_line option"
  mc_take_line :: "uuid option"
  mc_reverses :: "uuid option"

text \<open>The constraints of the movement table.\<close>

definition insert_movement :: "stock_movement \<Rightarrow> (stockroom, unit) tx" where
  "insert_movement m =
     seqT (requireT (decimal_fits 11 3 (quantity_change m) \<and> decimal_fits 11 3 (quantity_before m)
              \<and> decimal_fits 11 3 (quantity_after m)) (Integrity ''numeric field overflow''))
     (seqT (requireT (quantity_after m = quantity_before m + quantity_change m) (Integrity ''movement_balance_equation''))
     (seqT (requireT (mv_kind m \<in> {Opening, Delivery, DeliveryOpening, DeliveryReversal} \<or> counterpart_job m \<noteq> None)
              (Integrity ''movement_job_counterpart''))
     (seqT (readT (\<lambda>s. requireR (mv_line m = None \<or> \<not> list_ex (\<lambda>x. mv_line x = mv_line m) (movements s))
              (Integrity ''cost_line'')))
     (seqT (readT (\<lambda>s. requireR (reverses m = None \<or> list_ex (\<lambda>x. reverses m = Some (mv_id x)) (movements s)
              \<and> \<not> list_ex (\<lambda>x. reverses x = reverses m) (movements s)) (Integrity ''reverses'')))
     (putT (\<lambda>s. s\<lparr>movements := movements s @ [m]\<rparr>))))))"

definition check_counterpart :: "stockroom \<Rightarrow> rat \<Rightarrow> movement_context \<Rightarrow> unit res" where
  "check_counterpart s change c =
     (if mc_kind c \<in> {Issue, Returned, Counted} then
        bindR (requireR (mc_job c \<noteq> None) (InvalidInput ''Pick the job this stock is going to or coming back from.'')) (\<lambda>_.
        case mc_cost c of
          None \<Rightarrow> Inl (InvalidInput ''The movement requires its matching job cost quantity.'')
        | Some l \<Rightarrow>
            bindR (requireR (quantity l = - change) (InvalidInput ''The movement requires its matching job cost quantity.'')) (\<lambda>_.
            requireR (job_of_cost s l = mc_job c \<and> line_set_kind (books s) l = Some Actual)
              (InvalidInput ''The movement cost must belong to its counterpart job's actuals.'')))
      else Inr ())"

definition movement_of :: "stock_row \<Rightarrow> rat \<Rightarrow> movement_context \<Rightarrow> uuid \<Rightarrow> stock_movement" where
  "movement_of k change c i =
     \<lparr>mv_id = i, mv_stock = sk_id k, quantity_change = change, quantity_before = sk_quantity k,
      quantity_after = sk_quantity k + change, opening_quantity = None,
      mv_unit_cost = (case mc_cost c of Some l \<Rightarrow> unit_cost l | None \<Rightarrow> sk_unit_cost k), mv_kind = mc_kind c,
      counterpart_job = mc_job c, mv_line = map_option line_id (mc_cost c), mv_take_line = mc_take_line c,
      reverses = mc_reverses c, mv_actor = mc_actor c, mv_reason = mc_reason c\<rparr>"

definition projected :: "rat \<Rightarrow> stock_row \<Rightarrow> stock_row" where
  "projected q k = k\<lparr>sk_quantity := q, inventory_version := inventory_version k + 1,
     sk_active := (sk_active k \<or> q \<noteq> 0)\<rparr>"

definition move_stock :: "uuid \<Rightarrow> rat \<Rightarrow> movement_context \<Rightarrow> (stockroom, stock_movement) tx" where
  "move_stock i change c =
     seqT (requireT (mc_kind c \<notin> {Opening, JobOpening, DeliveryOpening})
             (InvalidInput ''Opening observations belong to the inventory cutover migration.''))
     (bindT (readT (\<lambda>s. get_stock s i)) (\<lambda>locked.
     seqT (requireT (change = quantize round_half_even (1 / 1000) change)
             (InvalidInput ''Stock quantities support at most three decimal places.''))
     (seqT (requireT (strip (mc_reason c) \<noteq> []) (InvalidInput ''A stock movement requires a reason.''))
     (seqT (readT (\<lambda>s. check_counterpart s change c))
     (bindT (on_books fresh_id) (\<lambda>n.
     let m = movement_of locked change c n in
     seqT (insert_movement m)
     (seqT (requireT (0 \<le> sk_unit_cost locked) (ValueErr ''Unit cost cannot be negative''))
     (seqT (putT (\<lambda>s. s\<lparr>stocks := row_put sk_id (projected (quantity_after m) locked) (stocks s)\<rparr>))
     (ret m)))))))))"

definition delivery_quantity :: "stock_movement \<Rightarrow> rat res" where
  "delivery_quantity m =
     (if mv_kind m = Delivery then Inr (quantity_change m)
      else if mv_kind m \<noteq> DeliveryOpening then Inl (InvalidInput ''This movement is not receipt evidence.'')
      else of_option (InvalidInput ''This movement is not receipt evidence.'') (opening_quantity m))"

definition is_returnable_issue :: "stock_movement \<Rightarrow> bool" where
  "is_returnable_issue m \<longleftrightarrow> mv_kind m = Issue \<or> mv_kind m = JobOpening"

definition returnable_issue_cost :: "stockroom \<Rightarrow> stock_movement \<Rightarrow> cost_line res" where
  "returnable_issue_cost s m =
     bindR (requireR (is_returnable_issue m) (InvalidInput ''Only a job issue can be returned through this action.'')) (\<lambda>_.
     bindR (requireR (counterpart_job m \<noteq> None) (InvalidInput ''The issued material has incomplete movement evidence.'')) (\<lambda>_.
     bindR (of_option (InvalidInput ''The issued material has incomplete movement evidence.'') (cost_of s m)) (\<lambda>cost.
     bindR (requireR (0 < quantity cost) (InvalidInput ''A return requires a positive movement job quantity.'')) (\<lambda>_.
     bindR (requireR (\<not> (mv_kind m = Issue \<and> quantity_change m \<noteq> - quantity cost))
              (InvalidInput ''The issue quantity does not match its movement job cost.'')) (\<lambda>_.
     bindR (requireR (\<not> (mv_kind m = JobOpening \<and> quantity_change m \<noteq> 0))
              (InvalidInput ''A job opening must not change the workshop balance.'')) (\<lambda>_.
     Inr cost))))))"

text \<open>\<open>CostLine.objects.create\<close> of a material line: the columns not given have their defaults.\<close>

definition material_line ::
  "uuid \<Rightarrow> uuid \<Rightarrow> string option \<Rightarrow> rat \<Rightarrow> rat \<Rightarrow> rat \<Rightarrow> meta \<Rightarrow> meta \<Rightarrow> date \<Rightarrow> owner \<Rightarrow> cost_line" where
  "material_line i cs text q cost revenue refs m day own =
     \<lparr>line_id = i, cost_set = cs, kind = Material, desc = text, quantity = q, unit_cost = cost, unit_rev = revenue,
      ext_refs = refs, line_meta = m, accounting_date = day, approved = True, line_staff = None, entry_seq = None,
      xero_pay_item = None, labour_subtype = None, managed_by = Some own\<rparr>"

definition create_material_line ::
  "uuid \<Rightarrow> string option \<Rightarrow> rat \<Rightarrow> rat \<Rightarrow> rat \<Rightarrow> meta \<Rightarrow> meta \<Rightarrow> owner \<Rightarrow> (stockroom, cost_line) tx" where
  "create_material_line cs text q cost revenue refs m own =
     bindT (on_books fresh_id) (\<lambda>i.
     bindT (getT (\<lambda>s. today (books s))) (\<lambda>day.
     on_books (save_line (material_line i cs text q cost revenue refs m day own))))"

definition reverse_issue :: "uuid \<Rightarrow> uuid \<Rightarrow> string \<Rightarrow> (stockroom, stock_movement) tx" where
  "reverse_issue i staff reason =
     bindT (readT (\<lambda>s. get_movement s i)) (\<lambda>original.
     bindT (getT (\<lambda>s. find (\<lambda>m. reverses m = Some i) (movements s))) (\<lambda>existing.
     case existing of
       Some m \<Rightarrow> ret m
     | None \<Rightarrow>
         bindT (readT (\<lambda>s. returnable_issue_cost s original)) (\<lambda>cost.
         bindT (create_material_line (cost_set cost) (desc cost) (- quantity cost) (unit_cost cost) (unit_rev cost)
                  [] [] OwnedByStock) (\<lambda>credit.
         move_stock (mv_stock original) (quantity cost)
           \<lparr>mc_kind = Returned, mc_reason = reason, mc_actor = Some staff, mc_job = counterpart_job original,
            mc_cost = Some credit, mc_take_line = None, mc_reverses = Some i\<rparr>))))"

section \<open>Stock items\<close>

definition countable :: "stockroom \<Rightarrow> job_row \<Rightarrow> stock_row \<Rightarrow> bool" where
  "countable s holding k \<longleftrightarrow> sk_active k \<and> sk_job k = Some (job_id holding) \<and> sk_source k \<noteq> FromCatalog"

text \<open>The keys a client sent: an option of the column's value.\<close>

record stock_write =
  sw_description :: "string option"
  sw_item_code :: "string option option"
  sw_unit_revenue :: "rat option option"
  sw_date :: "moment option"
  sw_location :: "string option option"
  sw_metal :: "string option option"
  sw_alloy :: "string option option"
  sw_specifics :: "string option option"

definition sent :: "'a option \<Rightarrow> 'a \<Rightarrow> 'a" where
  "sent x old = (case x of None \<Rightarrow> old | Some v \<Rightarrow> v)"

definition apply_stock_fields :: "stock_write \<Rightarrow> stock_row \<Rightarrow> stock_row" where
  "apply_stock_fields d k = k\<lparr>sk_description := sent (sw_description d) (sk_description k),
     sk_unit_revenue := sent (sw_unit_revenue d) (sk_unit_revenue k), sk_date := sent (sw_date d) (sk_date k),
     sk_item_code := sent (sw_item_code d) (sk_item_code k), sk_location := sent (sw_location d) (sk_location k),
     sk_metal := sent (sw_metal d) (sk_metal k), sk_alloy := sent (sw_alloy d) (sk_alloy k),
     sk_specifics := sent (sw_specifics d) (sk_specifics k)\<rparr>"

definition create_stock :: "stock_write \<Rightarrow> rat \<Rightarrow> (stockroom, uuid) tx" where
  "create_stock d cost =
     bindT (readT get_stock_holding_job) (\<lambda>holding.
     bindT (on_books fresh_id) (\<lambda>i.
     bindT (getT (\<lambda>s. now (books s))) (\<lambda>t.
     seqT (insert_stock (apply_stock_fields d
       \<lparr>sk_id = i, sk_job = Some (job_id holding), sk_item_code = None, sk_description = [], sk_quantity = 0,
        inventory_version = 0, sk_unit_cost = cost, sk_unit_revenue = None, sk_date = t, sk_source = Manual,
        source_line = None, sk_location = None, sk_metal = None, sk_alloy = None, sk_specifics = None, sk_active = True\<rparr>))
     (ret i))))"

definition update_stock :: "uuid \<Rightarrow> stock_write \<Rightarrow> (stockroom, unit) tx" where
  "update_stock i d =
     bindT (readT (\<lambda>s. get_stock s i)) (\<lambda>k. save_stock (apply_stock_fields d k))"

definition deactivate_stock :: "uuid \<Rightarrow> (stockroom, unit) tx" where
  "deactivate_stock i =
     bindT (readT (\<lambda>s. get_stock s i)) (\<lambda>k.
     seqT (requireT (sk_quantity k = 0) (InvalidInput ''This stock item still has stock on hand.''))
     (seqT (requireT (0 \<le> sk_unit_cost k) (ValueErr ''Unit cost cannot be negative''))
     (putT (\<lambda>s. s\<lparr>stocks := row_put sk_id (k\<lparr>sk_active := False\<rparr>) (stocks s)\<rparr>))))"

section \<open>Issuing to a job\<close>

text \<open>\<open>ensure_actual_cost_set\<close>; the job's own save keeps an audit of its fields, not of this one.\<close>

definition ensure_actual_cost_set :: "uuid \<Rightarrow> (db, uuid) tx" where
  "ensure_actual_cost_set j =
     bindT (readT (\<lambda>s. get_job s j)) (\<lambda>job.
     case latest_actual job of
       Some i \<Rightarrow> ret i
     | None \<Rightarrow>
         seqT (readT (\<lambda>s. requireR (\<not> list_ex (\<lambda>c. cs_job c = j \<and> cs_kind c = Actual \<and> cs_rev c = 1) (cost_sets s))
                 (Integrity ''unique_job_kind_rev'')))
         (bindT fresh_id (\<lambda>i.
         seqT (putT (\<lambda>s. s\<lparr>cost_sets := cost_sets s @ [\<lparr>cs_id = i, cs_job = j, cs_kind = Actual, cs_rev = 1,
                 summary = \<lparr>sum_cost = 0, sum_rev = 0, sum_hours = 0\<rparr>\<rparr>]\<rparr>))
         (seqT (putT (\<lambda>s. s\<lparr>jobs := row_put job_id (job\<lparr>latest_actual := Some i, job_updated_at := now s\<rparr>) (jobs s)\<rparr>))
         (ret i)))))"

definition check_selection :: "stockroom \<Rightarrow> cost_line \<Rightarrow> uuid \<Rightarrow> uuid \<Rightarrow> rat \<Rightarrow> unit res" where
  "check_selection s l item j qty =
     requireR (kind l = Material \<and> line_set_kind (books s) l = Some Actual \<and> quantity l = qty
        \<and> job_of_cost s l = Some j \<and> meta_get (ext_refs l) ''stock_id'' = JStr (show_digits item))
       (ValueErr ''This material selection changed. Reload before approving it.'')"

definition resolved_revenue :: "stockroom \<Rightarrow> job_row \<Rightarrow> stock_row \<Rightarrow> rat option \<Rightarrow> rat" where
  "resolved_revenue s job k revenue =
     (if shop_job (books s) job then 0
      else case revenue of None \<Rightarrow> to_cents (sk_unit_cost k * (1 + materials_markup s)) | Some r \<Rightarrow> r)"

definition issue_line ::
  "uuid \<Rightarrow> uuid \<Rightarrow> rat \<Rightarrow> uuid \<Rightarrow> rat option \<Rightarrow> rat option \<Rightarrow> cost_line option \<Rightarrow> (stockroom, cost_line) tx" where
  "issue_line item j qty user cost revenue draft =
     bindT (readT (\<lambda>s. get_job (books s) j)) (\<lambda>job.
     bindT (readT (\<lambda>s. get_stock s item)) (\<lambda>locked.
     bindT (getT (\<lambda>s. resolved_revenue s job locked revenue)) (\<lambda>resolved.
     let paid = (case cost of None \<Rightarrow> sk_unit_cost locked | Some c \<Rightarrow> c);
         refs = [(''stock_id'', JStr (show_digits item))]; consumed = [(''consumed_by'', JStr (show_digits user))] in
     bindT (on_books (ensure_actual_cost_set j)) (\<lambda>cs.
     bindT (case draft of
              None \<Rightarrow> create_material_line cs (Some (sk_description locked)) qty paid resolved refs consumed OwnedByStock
            | Some l \<Rightarrow> bindT (getT (\<lambda>s. today (books s))) (\<lambda>day.
                on_books (save_line (l\<lparr>managed_by := Some OwnedByStock, approved := True, quantity := qty,
                  desc := Some (sk_description locked), unit_cost := paid, unit_rev := resolved,
                  accounting_date := day, ext_refs := refs, line_meta := consumed\<rparr>)))) (\<lambda>l.
     seqT (move_stock item (- qty)
             \<lparr>mc_kind = Issue,
              mc_reason = (if draft = None then ''Material issued to job'' else ''Workshop material approved''),
              mc_actor = Some user, mc_job = Some j, mc_cost = Some l, mc_take_line = None, mc_reverses = None\<rparr>)
     (ret l))))))"

definition consume_stock ::
  "uuid \<Rightarrow> uuid \<Rightarrow> rat \<Rightarrow> uuid \<Rightarrow> rat option \<Rightarrow> rat option \<Rightarrow> uuid option \<Rightarrow> (stockroom, cost_line) tx" where
  "consume_stock item j qty user cost revenue line =
     seqT (requireT (0 < qty) (ValueErr ''Quantity must be positive''))
     (seqT (readT (\<lambda>s. get_job (books s) j))
     (case line of
        None \<Rightarrow> issue_line item j qty user cost revenue None
      | Some i \<Rightarrow>
          bindT (readT (\<lambda>s. of_option (DoesNotExist ''CostLine'') (get_line (books s) i))) (\<lambda>l.
          seqT (readT (\<lambda>s. check_selection s l item j qty))
          (if managed_by l = Some OwnedByStock then seqT (readT (\<lambda>s. get_stock s item)) (ret l)
           else seqT (requireT (\<not> approved l \<and> managed_by l = None)
                        (ValueErr ''Only unissued material drafts can be approved.''))
             (issue_line item j qty user cost revenue (Some l))))))"

end
