(* ===== verification/Stock_Counts.thy ===== *)
theory Stock_Counts
  imports Stock_Moves
begin

text \<open>
  \<open>purchasing/services/stocktake_service.py\<close>: a count is drafted, saved under a version
  precondition (\<open>core/etag.py\<close>), posted once as balanced movements, and corrected by a linked
  recount. An \<open>If-Match\<close> header is the list of tags it names. The order in which the lines of one
  save are taken decides only which refusal is raised first.
\<close>

section \<open>Tags\<close>

datatype etag = CountTag uuid int | OrderTag uuid moment | OtherTag string

definition if_match_satisfied :: "etag list \<Rightarrow> etag \<Rightarrow> bool" where
  "if_match_satisfied header current \<longleftrightarrow> current \<in> set header"

definition generate_revision_etag :: "uuid \<Rightarrow> int \<Rightarrow> etag res" where
  "generate_revision_etag i revision =
     (if revision < 0 then Inl (ValueErr ''A resource revision cannot be negative'') else Inr (CountTag i revision))"

definition require_revision :: "uuid \<Rightarrow> etag list \<Rightarrow> int \<Rightarrow> string \<Rightarrow> unit res" where
  "require_revision i if_match version message =
     bindR (generate_revision_etag i version) (\<lambda>tag.
     requireR (if_match_satisfied if_match tag) (HttpErr 412 message))"

definition require_draft :: "stocktake_row \<Rightarrow> etag list \<Rightarrow> unit res" where
  "require_draft t if_match =
     bindR (require_revision (tk_id t) if_match (tk_version t) ''This draft changed in another session.'') (\<lambda>_.
     requireR (posted_at t = None) (InvalidInput ''Posted counts are read-only.''))"

section \<open>Drafting\<close>

definition require_workshop_stock :: "stockroom \<Rightarrow> stock_row \<Rightarrow> unit res" where
  "require_workshop_stock s k =
     bindR (get_stock_holding_job s) (\<lambda>holding.
     requireR (countable s holding k) (InvalidInput ''Count only unassigned workshop stock.''))"

text \<open>The constraints of a count line.\<close>

definition check_take_line :: "stocktake_line \<Rightarrow> unit res" where
  "check_take_line l =
     bindR (requireR (not_blank (tl_location l)) (Integrity ''stocktake_line_location_not_blank'')) (\<lambda>_.
     bindR (requireR (not_blank (tl_reason l)) (Integrity ''stocktake_line_reason_not_blank'')) (\<lambda>_.
     bindR (requireR (case counted_quantity l of None \<Rightarrow> True | Some q \<Rightarrow> 0 \<le> q) (Integrity ''count_nonnegative'')) (\<lambda>_.
     requireR (0 \<le> tl_unit_cost l) (Integrity ''count_cost_nonnegative''))))"

definition write_take_line :: "stocktake_line \<Rightarrow> (stockroom, unit) tx" where
  "write_take_line l =
     seqT (readT (\<lambda>s. check_take_line l)) (putT (\<lambda>s. s\<lparr>take_lines := row_write tl_id l (take_lines s)\<rparr>))"

definition observed_line :: "uuid \<Rightarrow> uuid \<Rightarrow> stock_row \<Rightarrow> stocktake_line" where
  "observed_line i sheet k =
     \<lparr>tl_id = i, tl_take = sheet, tl_stock = Some (sk_id k), tl_description = sk_description k,
      tl_location = sk_location k, expected_quantity = sk_quantity k, expected_version = inventory_version k,
      counted_quantity = None, counted_at = None, tl_unit_cost = sk_unit_cost k, tl_reason = None\<rparr>"

definition new_take :: "uuid \<Rightarrow> uuid \<Rightarrow> uuid \<Rightarrow> uuid option \<Rightarrow> stocktake_row" where
  "new_take i j staff corrected =
     \<lparr>tk_id = i, tk_job = j, created_by = staff, posted_at = None, posted_by = None, tk_version = 0, corrects = corrected\<rparr>"

definition create_stocktake :: "uuid \<Rightarrow> uuid option \<Rightarrow> (stockroom, uuid) tx" where
  "create_stocktake staff stock =
     bindT (readT (\<lambda>s. of_option (InvalidInput ''Set up the stocktake adjustment job before starting a count.'')
              (adjustment_job s))) (\<lambda>j.
     bindT (on_books fresh_id) (\<lambda>i.
     seqT (putT (\<lambda>s. s\<lparr>stocktakes := stocktakes s @ [new_take i j staff None]\<rparr>))
     (case stock of
        None \<Rightarrow> ret i
      | Some k \<Rightarrow>
          bindT (readT (\<lambda>s. get_stock s k)) (\<lambda>item.
          seqT (readT (\<lambda>s. require_workshop_stock s item))
          (bindT (on_books fresh_id) (\<lambda>n.
          seqT (write_take_line (observed_line n i item)) (ret i)))))))"

text \<open>One line of the payload of a save.\<close>

record take_line_write =
  tw_id :: uuid
  tw_stock :: "uuid option"
  tw_description :: string
  tw_location :: "string option"
  tw_expected :: rat
  tw_version :: int
  tw_counted :: "rat option"
  tw_unit_cost :: rat
  tw_reason :: "string option"

definition check_observation :: "stockroom \<Rightarrow> take_line_write \<Rightarrow> unit res" where
  "check_observation s d =
     (case tw_stock d of
        Some k \<Rightarrow>
          bindR (get_stock s k) (\<lambda>item.
          bindR (require_workshop_stock s item) (\<lambda>_.
          bindR (requireR (inventory_version item = tw_version d \<and> sk_quantity item = tw_expected d)
                   (Conflict ''stock changed. Review and recount this line.'')) (\<lambda>_.
          requireR (sk_unit_cost item = tw_unit_cost d) (InvalidInput ''use the recorded unit cost.''))))
      | None \<Rightarrow> requireR (tw_expected d = 0 \<and> tw_version d = 0)
          (InvalidInput ''Newly found material must start from zero recorded stock.''))"

definition saved_line :: "uuid \<Rightarrow> moment \<Rightarrow> take_line_write \<Rightarrow> stocktake_line" where
  "saved_line sheet t d =
     \<lparr>tl_id = tw_id d, tl_take = sheet, tl_stock = tw_stock d, tl_description = tw_description d,
      tl_location = tw_location d, expected_quantity = tw_expected d, expected_version = tw_version d,
      counted_quantity = tw_counted d, counted_at = (if tw_counted d = None then None else Some t),
      tl_unit_cost = tw_unit_cost d, tl_reason = tw_reason d\<rparr>"

definition save_take_line :: "uuid \<Rightarrow> take_line_write \<Rightarrow> (stockroom, unit) tx" where
  "save_take_line sheet d =
     seqT (readT (\<lambda>s. check_observation s d))
     (seqT (readT (\<lambda>s. requireR (\<not> list_ex (\<lambda>l. tl_id l = tw_id d \<and> tl_take l \<noteq> sheet) (take_lines s))
              (InvalidInput ''The count line belongs to another stocktake.'')))
     (bindT (getT (\<lambda>s. now (books s))) (\<lambda>t. write_take_line (saved_line sheet t d))))"

definition put_take :: "stocktake_row \<Rightarrow> (stockroom, unit) tx" where
  "put_take t = putT (\<lambda>s. s\<lparr>stocktakes := row_put tk_id t (stocktakes s)\<rparr>)"

text \<open>A foreign key of a movement protects a line from deletion; only posted lines have one.\<close>

definition delete_other_lines :: "uuid \<Rightarrow> uuid list \<Rightarrow> (stockroom, unit) tx" where
  "delete_other_lines sheet ids =
     (let gone = (\<lambda>l. tl_take l = sheet \<and> tl_id l \<notin> set ids) in
      seqT (readT (\<lambda>s. requireR (\<not> list_ex (\<lambda>l. gone l \<and> list_ex (\<lambda>m. mv_take_line m = Some (tl_id l)) (movements s)) (take_lines s))
              (Integrity ''ProtectedError'')))
      (putT (\<lambda>s. s\<lparr>take_lines := filter (\<lambda>l. \<not> gone l) (take_lines s)\<rparr>)))"

text \<open>\<open>sorted(data.lines, key=lambda row: str(row.stock_id))\<close>: the stock rows are locked in one order.\<close>

definition in_locking_order :: "take_line_write list \<Rightarrow> take_line_write list" where
  "in_locking_order ds = sort_key (\<lambda>d. case tw_stock d of None \<Rightarrow> ''None'' | Some k \<Rightarrow> show_digits k) ds"

definition save_stocktake :: "uuid \<Rightarrow> take_line_write list \<Rightarrow> etag list \<Rightarrow> (stockroom, unit) tx" where
  "save_stocktake i ds if_match =
     bindT (readT (\<lambda>s. get_take s i)) (\<lambda>sheet.
     seqT (readT (\<lambda>s. require_draft sheet if_match))
     (seqT (requireT (distinct (map tw_id ds) \<and> distinct (List.map_filter tw_stock ds))
              (InvalidInput ''Count each stock item once.''))
     (seqT (forT (in_locking_order ds) (save_take_line i))
     (seqT (delete_other_lines i (map tw_id ds))
     (put_take (sheet\<lparr>tk_version := tk_version sheet + 1\<rparr>))))))"

section \<open>Posting\<close>

definition found_stock :: "uuid \<Rightarrow> job_row \<Rightarrow> moment \<Rightarrow> stocktake_line \<Rightarrow> stock_row" where
  "found_stock i holding t l =
     \<lparr>sk_id = i, sk_job = Some (job_id holding), sk_item_code = None, sk_description = tl_description l, sk_quantity = 0,
      inventory_version = 0, sk_unit_cost = tl_unit_cost l, sk_unit_revenue = None, sk_date = t, sk_source = Manual,
      source_line = None, sk_location = tl_location l, sk_metal = None, sk_alloy = None, sk_specifics = None,
      sk_active = True\<rparr>"

text \<open>The stock a counted difference moves: its own, or a new row for material found.\<close>

definition stock_to_post :: "stocktake_line \<Rightarrow> (stockroom, uuid) tx" where
  "stock_to_post l =
     (case tl_stock l of
        Some k \<Rightarrow> ret k
      | None \<Rightarrow>
          bindT (readT get_stock_holding_job) (\<lambda>holding.
          bindT (on_books fresh_id) (\<lambda>i.
          bindT (getT (\<lambda>s. now (books s))) (\<lambda>t.
          seqT (insert_stock (found_stock i holding t l))
          (seqT (putT (\<lambda>s. s\<lparr>take_lines := row_put tl_id (l\<lparr>tl_stock := Some i\<rparr>) (take_lines s)\<rparr>))
          (ret i))))))"

definition post_line :: "stocktake_line \<Rightarrow> uuid \<Rightarrow> uuid \<Rightarrow> (stockroom, unit) tx" where
  "post_line l staff j =
     (case counted_quantity l of
        None \<Rightarrow> ret ()
      | Some counted \<Rightarrow>
          let difference = counted - expected_quantity l in
          if difference = 0 then ret ()
          else (case tl_reason l of
            None \<Rightarrow> throw (InvalidInput ''choose a reason for the difference.'')
          | Some reason \<Rightarrow>
              bindT (stock_to_post l) (\<lambda>k.
              bindT (on_books (ensure_actual_cost_set j)) (\<lambda>cs.
              bindT (create_material_line cs (Some (tl_description l)) (- difference) (tl_unit_cost l) 0 [] []
                       OwnedByStocktake) (\<lambda>cost.
              seqT (move_stock k difference
                 \<lparr>mc_kind = Counted, mc_reason = reason, mc_actor = Some staff, mc_job = Some j, mc_cost = Some cost,
                  mc_take_line = Some (tl_id l), mc_reverses = None\<rparr>)
              (ret ())))))) "

definition check_unmoved :: "stockroom \<Rightarrow> stocktake_line \<Rightarrow> unit res" where
  "check_unmoved s l =
     (case tl_stock l of
        None \<Rightarrow> Inr ()
      | Some k \<Rightarrow>
          bindR (get_stock s k) (\<lambda>item.
          bindR (require_workshop_stock s item) (\<lambda>_.
          requireR (inventory_version item = expected_version l \<and> sk_quantity item = expected_quantity l
             \<and> sk_unit_cost item = tl_unit_cost l) (Conflict ''stock changed. Review and recount this line.''))))"

text \<open>The counted lines of a sheet by stock and id; lines of material found come last.\<close>

definition lines_to_post :: "stockroom \<Rightarrow> uuid \<Rightarrow> stocktake_line list" where
  "lines_to_post s i =
     filter (\<lambda>l. counted_quantity l \<noteq> None)
       (sort_key (\<lambda>l. (tl_stock l = None, sent (tl_stock l) 0, tl_id l)) (lines_of_take s i))"

definition post_stocktake :: "uuid \<Rightarrow> etag list \<Rightarrow> uuid \<Rightarrow> (stockroom, unit) tx" where
  "post_stocktake i if_match staff =
     bindT (readT (\<lambda>s. get_take s i)) (\<lambda>sheet.
     if posted_at sheet \<noteq> None then
       readT (\<lambda>s. require_revision i if_match (tk_version sheet - 1)
         ''This stocktake has already been posted, and not from this screen's copy.'')
     else
       seqT (readT (\<lambda>s. require_draft sheet if_match))
       (bindT (getT (\<lambda>s. lines_to_post s i)) (\<lambda>counted.
       seqT (requireT (counted \<noteq> []) (InvalidInput ''Enter at least one physical count before posting.''))
       (bindT (readT (\<lambda>s. get_job (books s) (tk_job sheet))) (\<lambda>job.
       seqT (readT (\<lambda>s. requireR (shop_job (books s) job)
               (InvalidInput ''The stocktake adjustment job must remain non-billable.'')))
       (seqT (forT counted (\<lambda>l. seqT (readT (\<lambda>s. check_unmoved s l)) (post_line l staff (tk_job sheet))))
       (bindT (getT (\<lambda>s. now (books s))) (\<lambda>t.
       put_take (sheet\<lparr>posted_at := Some t, posted_by := Some staff, tk_version := tk_version sheet + 1\<rparr>)))))))))"

section \<open>Correcting\<close>

definition correct_stocktake :: "uuid \<Rightarrow> uuid \<Rightarrow> etag list \<Rightarrow> (stockroom, uuid) tx" where
  "correct_stocktake i staff if_match =
     bindT (readT (\<lambda>s. get_take s i)) (\<lambda>original.
     seqT (readT (\<lambda>s. require_revision i if_match (tk_version original) ''Reload the posted count before creating its correction.''))
     (seqT (requireT (posted_at original \<noteq> None) (InvalidInput ''Edit this draft directly; it has not been posted.''))
     (bindT (getT (\<lambda>s. find (\<lambda>t. corrects t = Some i) (stocktakes s))) (\<lambda>existing.
     case existing of
       Some t \<Rightarrow> ret (tk_id t)
     | None \<Rightarrow>
         bindT (on_books fresh_id) (\<lambda>n.
         seqT (putT (\<lambda>s. s\<lparr>stocktakes := stocktakes s @ [new_take n (tk_job original) staff (Some i)]\<rparr>))
         (bindT (getT (\<lambda>s. List.map_filter tl_stock (lines_of_take s i))) (\<lambda>ks.
         seqT (forT ks (\<lambda>k.
           bindT (readT (\<lambda>s. get_stock s k)) (\<lambda>item.
           bindT (on_books fresh_id) (\<lambda>m. write_take_line (observed_line m n item)))))
         (ret n))))))))"

text \<open>Neither order changes which lines there are.\<close>

lemma set_in_locking_order [simp]: "set (in_locking_order ds) = set ds"
  by (simp add: in_locking_order_def)

lemma set_lines_to_post:
  "l \<in> set (lines_to_post s i) \<longleftrightarrow> l \<in> set (lines_of_take s i) \<and> counted_quantity l \<noteq> None"
  by (auto simp: lines_to_post_def)

lemma distinct_lines_to_post:
  assumes "distinct (map tl_id (take_lines s))"
  shows "distinct (map tl_id (lines_to_post s i))"
proof -
  let ?xs = "filter (\<lambda>l. counted_quantity l \<noteq> None) (lines_of_take s i)"
  have "mset (lines_to_post s i) = mset ?xs" by (simp add: lines_to_post_def)
  then have "mset (map tl_id (lines_to_post s i)) = mset (map tl_id ?xs)" by (simp only: mset_map)
  then have "distinct (map tl_id (lines_to_post s i)) = distinct (map tl_id ?xs)" by (metis mset_eq_imp_distinct_iff)
  with assms show ?thesis by (simp add: lines_of_take_def distinct_map_filter)
qed

end
