(* ===== verification/Receipts.thy ===== *)
theory Receipts
  imports Stock_Counts
begin

text \<open>
  \<open>purchasing/services/allocation_service.py\<close> and \<open>delivery_receipt_service.py\<close>: a received
  quantity becomes stock or a charge to a job, and is reversed once. The push of an order to the
  accounting system (\<open>accounting_mirror.py\<close>) is the argument \<open>push\<close>: what the provider answers for
  an order. Recording of application errors is not modelled.
\<close>

section \<open>Allocations\<close>

record allocation_metadata =
  am_metal :: "string option"
  am_alloy :: "string option"
  am_specifics :: "string option"
  am_location :: "string option"

text \<open>\<open>pick\<close>: a key not sent inherits the order line's value, a blank one clears it.\<close>

definition or_none :: "string option \<Rightarrow> string option" where
  "or_none t = (if t = Some [] then None else t)"

definition pick :: "(string \<times> string) list \<Rightarrow> string \<Rightarrow> string option \<Rightarrow> string option" where
  "pick payload key line_value =
     (case map_of payload key of None \<Rightarrow> or_none line_value | Some v \<Rightarrow> or_none (Some v))"

definition resolve_metadata :: "(string \<times> string) list \<Rightarrow> order_line \<Rightarrow> allocation_metadata" where
  "resolve_metadata payload l =
     \<lparr>am_metal = pick payload ''metal_type'' (ol_metal l), am_alloy = pick payload ''alloy'' (ol_alloy l),
      am_specifics = pick payload ''specifics'' (ol_specifics l), am_location = pick payload ''location'' (ol_location l)\<rparr>"

record material_allocation =
  ma_job :: uuid
  ma_quantity :: rat
  ma_metadata :: allocation_metadata
  ma_rate_pct :: rat

definition retail_pct_to_rate :: "rat \<Rightarrow> rat" where
  "retail_pct_to_rate pct = quantize round_half_even (1 / 10000) (pct / 100)"

definition default_retail_rate_pct :: "stockroom \<Rightarrow> rat" where
  "default_retail_rate_pct s = materials_markup s * 100"

text \<open>The setter of \<open>Stock.retail_rate\<close>.\<close>

definition set_retail_rate :: "rat \<Rightarrow> stock_row \<Rightarrow> stock_row res" where
  "set_retail_rate r k =
     (if 0 < sk_unit_cost k then Inr (k\<lparr>sk_unit_revenue := Some (sk_unit_cost k * (1 + r))\<rparr>)
      else Inl (ValueErr ''Unit cost must be set and greater than zero to set retail rate''))"

definition receipt_stock :: "uuid \<Rightarrow> moment \<Rightarrow> order_line \<Rightarrow> rat \<Rightarrow> material_allocation \<Rightarrow> stock_row" where
  "receipt_stock i t l cost a =
     \<lparr>sk_id = i, sk_job = Some (ma_job a), sk_item_code = None, sk_description = ol_description l, sk_quantity = 0,
      inventory_version = 0, sk_unit_cost = cost, sk_unit_revenue = None, sk_date = t, sk_source = FromOrder,
      source_line = Some (ol_id l), sk_location = am_location (ma_metadata a), sk_metal = am_metal (ma_metadata a),
      sk_alloy = am_alloy (ma_metadata a), sk_specifics = am_specifics (ma_metadata a), sk_active = True\<rparr>"

definition create_stock_from_allocation :: "order_line \<Rightarrow> string \<Rightarrow> material_allocation \<Rightarrow> uuid \<Rightarrow> (stockroom, uuid) tx" where
  "create_stock_from_allocation l number a staff =
     bindT (readT (\<lambda>s. of_option (ValueErr ''Price not confirmed'') (ol_unit_cost l))) (\<lambda>cost.
     bindT (on_books fresh_id) (\<lambda>i.
     bindT (getT (\<lambda>s. now (books s))) (\<lambda>t.
     bindT (readT (\<lambda>s. set_retail_rate (retail_pct_to_rate (ma_rate_pct a)) (receipt_stock i t l cost a))) (\<lambda>k.
     seqT (insert_stock k)
     (seqT (move_stock i (ma_quantity a)
        \<lparr>mc_kind = Delivery, mc_reason = ''Received on PO '' @ number, mc_actor = Some staff, mc_job = None,
         mc_cost = None, mc_take_line = None, mc_reverses = None\<rparr>)
     (ret i))))))"

definition allocation_revenue :: "stockroom \<Rightarrow> job_row \<Rightarrow> rat \<Rightarrow> rat \<Rightarrow> rat" where
  "allocation_revenue s job cost rate =
     (if shop_job (books s) job then 0 else to_cents (cost * (1 + rate)))"

definition create_costline_from_allocation ::
  "order_row \<Rightarrow> order_line \<Rightarrow> uuid \<Rightarrow> rat \<Rightarrow> rat \<Rightarrow> uuid \<Rightarrow> (stockroom, cost_line) tx" where
  "create_costline_from_allocation po l j qty pct staff =
     bindT (readT (\<lambda>s. of_option (ValueErr ''Price not confirmed'') (ol_unit_cost l))) (\<lambda>cost.
     bindT (readT (\<lambda>s. get_job (books s) j)) (\<lambda>job.
     let rate = retail_pct_to_rate pct in
     bindT (getT (\<lambda>s. allocation_revenue s job cost rate)) (\<lambda>revenue.
     bindT (on_books (ensure_actual_cost_set j)) (\<lambda>cs.
     bindT (create_material_line cs (Some (ol_description l)) qty cost revenue
              [(''purchase_order_line_id'', JStr (show_digits (ol_id l))), (''purchase_order_id'', JStr (show_digits (po_id po)))]
              [(''source'', JStr ''delivery_receipt''), (''retail_rate'', JNum rate), (''po_number'', JStr (po_number po))]
              OwnedByStock) (\<lambda>c.
     bindT (readT get_stock_holding_job) (\<lambda>holding.
     bindT (create_stock_from_allocation l (po_number po)
              \<lparr>ma_job = job_id holding, ma_quantity = qty, ma_metadata = resolve_metadata [] l, ma_rate_pct = pct\<rparr> staff) (\<lambda>k.
     seqT (move_stock k (- qty)
        \<lparr>mc_kind = Issue, mc_reason = ''Receipt allocated to job from PO '' @ po_number po, mc_actor = Some staff,
         mc_job = Some j, mc_cost = Some c, mc_take_line = None, mc_reverses = None\<rparr>)
     (ret c))))))))"

section \<open>The status of an order\<close>

definition put_order :: "order_row \<Rightarrow> (stockroom, unit) tx" where
  "put_order po = putT (\<lambda>s. s\<lparr>orders := row_put po_id po (orders s)\<rparr>)"

definition received_status :: "order_status \<Rightarrow> order_line list \<Rightarrow> order_status" where
  "received_status current ls =
     (if \<not> list_ex (\<lambda>l. 0 < received_quantity l) ls then (if current = Deleted then Deleted else Submitted)
      else if list_ex (\<lambda>l. received_quantity l < ol_quantity l) ls then PartiallyReceived else FullyReceived)"

definition recompute_purchase_order_status :: "order_row \<Rightarrow> (stockroom, order_row) tx" where
  "recompute_purchase_order_status po =
     bindT (getT (\<lambda>s. (received_status (po_status po) (lines_of_order s (po_id po)), now (books s)))) (\<lambda>(status, t).
     let po' = po\<lparr>po_status := status, xero_push_due := (xero_push_due po \<or> status \<noteq> po_status po), po_updated_at := t\<rparr> in
     seqT (put_order po') (ret po'))"

section \<open>Telling the accounting system\<close>

record push_result =
  pr_success :: bool
  pr_error :: "string option"
  pr_status :: "int option"

definition is_locally_raised :: "stockroom \<Rightarrow> order_row \<Rightarrow> bool" where
  "is_locally_raised s po \<longleftrightarrow>
     (let p = po_prefix s; tail = drop (length p) (po_number po)
      in take (length p) (po_number po) = p \<and> tail \<noteq> [] \<and> list_all (\<lambda>c. CHR ''0'' \<le> c \<and> c \<le> CHR ''9'') tail)"

definition mirror_purchase_order :: "(order_row \<Rightarrow> push_result) \<Rightarrow> stockroom \<Rightarrow> order_row \<Rightarrow> unit res" where
  "mirror_purchase_order push s po =
     (if \<not> is_locally_raised s po then Inr ()
      else bindR (requireR (po_supplier po \<noteq> None) (InvalidInput ''A purchase order needs a supplier before it can reach Xero'')) (\<lambda>_.
        let r = push po; message = (case pr_error r of None \<Rightarrow> ''refused'' | Some m \<Rightarrow> if m = [] then ''refused'' else m)
        in if pr_success r then Inr ()
           else if pr_status r = Some 400 then Inl (InvalidInput message) else Inl (HttpErr 503 message)))"

text \<open>An order left owing (the provider deferred it) stays marked; any other refusal is raised.\<close>

definition send_state_change :: "(order_row \<Rightarrow> push_result) \<Rightarrow> order_row \<Rightarrow> (stockroom, order_row) tx" where
  "send_state_change push po =
     bindT (readT (\<lambda>s. of_option (DoesNotExist ''PurchaseOrder'') (get_order s (po_id po)))) (\<lambda>row.
     if \<not> xero_push_due row then ret (po\<lparr>xero_push_due := False\<rparr>)
     else bindT (getT (\<lambda>s. mirror_purchase_order push s po)) (\<lambda>answer.
       case answer of
         Inl (HttpErr c m) \<Rightarrow> if c = 503 then ret po else throw (HttpErr c m)
       | Inl e \<Rightarrow> throw e
       | Inr _ \<Rightarrow> seqT (put_order (row\<lparr>xero_push_due := False\<rparr>)) (ret (po\<lparr>xero_push_due := False\<rparr>))))"

section \<open>Receiving\<close>

definition require_current_etag :: "order_row \<Rightarrow> etag list \<Rightarrow> unit res" where
  "require_current_etag po if_match =
     requireR (if_match_satisfied if_match (OrderTag (po_id po) (po_updated_at po)))
       (HttpErr 412 ''Purchase order modified since it was fetched.'')"

record receipt_allocation =
  ra_job :: uuid
  ra_quantity :: rat
  ra_rate :: "rat option"
  ra_metadata :: "(string \<times> string) list"

record receipt_line =
  rl_total :: rat
  rl_allocations :: "receipt_allocation list"

definition allocation_tolerance :: rat where "allocation_tolerance = 1 / 1000"

text \<open>The keys of the payload's dictionary are distinct.\<close>

type_synonym receipt = "(uuid \<times> receipt_line) list"

definition load_lines :: "stockroom \<Rightarrow> uuid \<Rightarrow> receipt \<Rightarrow> unit res" where
  "load_lines s i rs =
     requireR (list_all (\<lambda>(l, _). row_get ol_id l (lines_of_order s i) \<noteq> None) rs)
       (InvalidInput ''Invalid or mismatched PurchaseOrderLine IDs provided'')"

definition load_jobs :: "stockroom \<Rightarrow> receipt \<Rightarrow> unit res" where
  "load_jobs s rs =
     requireR (list_all (\<lambda>(_, r). list_all (\<lambda>a. row_get job_id (ra_job a) (jobs (books s)) \<noteq> None) (rl_allocations r)) rs)
       (InvalidInput ''Invalid Job IDs provided in allocations'')"

definition prepared_allocations :: "stockroom \<Rightarrow> order_line \<Rightarrow> receipt_line \<Rightarrow> material_allocation list" where
  "prepared_allocations s l r =
     map (\<lambda>a. \<lparr>ma_job = ra_job a, ma_quantity = ra_quantity a, ma_metadata = resolve_metadata (ra_metadata a) l,
         ma_rate_pct = (case ra_rate a of None \<Rightarrow> default_retail_rate_pct s | Some x \<Rightarrow> x)\<rparr>)
       (filter (\<lambda>a. ra_quantity a \<noteq> 0) (rl_allocations r))"

definition validate_and_prepare :: "stockroom \<Rightarrow> order_line \<Rightarrow> receipt_line \<Rightarrow> material_allocation list res" where
  "validate_and_prepare s l r =
     bindR (requireR (ol_unit_cost l \<noteq> None) (InvalidInput ''Price not confirmed'')) (\<lambda>_.
     let prepared = prepared_allocations s l r; allocated = sum_list (map ma_quantity prepared) in
     bindR (requireR (\<not> allocation_tolerance < \<bar>allocated - rl_total r\<bar>) (InvalidInput ''Allocation mismatch'')) (\<lambda>_.
     bindR (requireR (\<not> (prepared = [] \<and> rl_total r = 0)) (InvalidInput ''nothing to receive'')) (\<lambda>_.
     Inr prepared)))"

definition materialise :: "order_row \<Rightarrow> order_line \<Rightarrow> uuid \<Rightarrow> uuid \<Rightarrow> material_allocation \<Rightarrow> (stockroom, unit) tx" where
  "materialise po l holding staff a =
     (if ma_job a = holding then seqT (create_stock_from_allocation l (po_number po) a staff) (ret ())
      else seqT (create_costline_from_allocation po l (ma_job a) (ma_quantity a) (ma_rate_pct a) staff) (ret ()))"

text \<open>\<open>F("received_quantity") + total\<close> into a column of two places, read back.\<close>

definition add_received :: "uuid \<Rightarrow> rat \<Rightarrow> (stockroom, unit) tx" where
  "add_received i q =
     seqT (readT (\<lambda>s. requireR (list_all (\<lambda>l. ol_id l = i \<longrightarrow> \<bar>stored_money (received_quantity l + q)\<bar> < 10 ^ 8) (order_lines s))
             (Integrity ''numeric field overflow'')))
     (putT (\<lambda>s. s\<lparr>order_lines := map (\<lambda>l. if ol_id l = i
        then l\<lparr>received_quantity := stored_money (received_quantity l + q)\<rparr> else l) (order_lines s)\<rparr>))"

definition receive_line :: "order_row \<Rightarrow> uuid \<Rightarrow> uuid \<Rightarrow> uuid \<times> receipt_line \<Rightarrow> (stockroom, unit) tx" where
  "receive_line po holding staff lr =
     (case lr of (i, r) \<Rightarrow>
       bindT (readT (\<lambda>s. of_option (DoesNotExist ''PurchaseOrderLine'') (row_get ol_id i (order_lines s)))) (\<lambda>l.
       bindT (readT (\<lambda>s. validate_and_prepare s l r)) (\<lambda>prepared.
       seqT (add_received i (rl_total r))
       (forT prepared (materialise po l holding staff)))))"

definition process_delivery_receipt ::
  "(order_row \<Rightarrow> push_result) \<Rightarrow> uuid \<Rightarrow> receipt \<Rightarrow> uuid \<Rightarrow> etag list \<Rightarrow> (stockroom, order_row) tx" where
  "process_delivery_receipt push i rs staff if_match =
     bindT (readT (\<lambda>s. of_option (InvalidInput ''PurchaseOrder not found'') (get_order s i))) (\<lambda>po.
     seqT (readT (\<lambda>s. load_lines s i rs))
     (seqT (readT (\<lambda>s. require_current_etag po if_match))
     (seqT (requireT (po_status po \<in> {Submitted, PartiallyReceived, FullyReceived}) (InvalidInput ''Cannot process delivery receipt''))
     (bindT (readT get_stock_holding_job) (\<lambda>holding.
     seqT (readT (\<lambda>s. load_jobs s rs))
     (seqT (forT rs (receive_line po (job_id holding) staff))
     (bindT (recompute_purchase_order_status po) (\<lambda>po'.
     if xero_push_due po' then send_state_change push po' else ret po'))))))))"

definition outstanding_receipt :: "uuid \<Rightarrow> order_line list \<Rightarrow> receipt" where
  "outstanding_receipt holding ls =
     map (\<lambda>l. let q = ol_quantity l - received_quantity l in
       (ol_id l, \<lparr>rl_total = q, rl_allocations = [\<lparr>ra_job = (case ol_job l of Some j \<Rightarrow> j | None \<Rightarrow> holding),
          ra_quantity = q, ra_rate = None, ra_metadata = []\<rparr>]\<rparr>)) ls"

definition receive_outstanding_order ::
  "(order_row \<Rightarrow> push_result) \<Rightarrow> uuid \<Rightarrow> uuid \<Rightarrow> etag list \<Rightarrow> (stockroom, order_row) tx" where
  "receive_outstanding_order push i staff if_match =
     bindT (readT (\<lambda>s. of_option (DoesNotExist ''PurchaseOrder'') (get_order s i))) (\<lambda>po.
     seqT (readT (\<lambda>s. require_current_etag po if_match))
     (bindT (getT (\<lambda>s. sort_key ol_id (filter (\<lambda>l. received_quantity l < ol_quantity l) (lines_of_order s i)))) (\<lambda>ls.
     if ls = [] then ret po
     else bindT (readT get_stock_holding_job) (\<lambda>holding.
       process_delivery_receipt push i (outstanding_receipt (job_id holding) ls) staff if_match))))"

section \<open>Reversing an allocation\<close>

datatype allocation_type = StockAllocation | JobAllocation

text \<open>\<open>_get_stock_or_error\<close> and \<open>_get_costline_or_error\<close>, down to the stock row received.\<close>

definition stock_of_order :: "stockroom \<Rightarrow> uuid \<Rightarrow> stock_row \<Rightarrow> bool" where
  "stock_of_order s po k \<longleftrightarrow> (case source_line k of None \<Rightarrow> False
     | Some l \<Rightarrow> row_get ol_id l (lines_of_order s po) \<noteq> None)"

definition received_stock :: "stockroom \<Rightarrow> uuid \<Rightarrow> uuid \<Rightarrow> stock_row res" where
  "received_stock s po i =
     of_option (ValueErr ''Stock allocation not found'')
       (find (\<lambda>k. sk_id k = i \<and> sk_source k = FromOrder \<and> stock_of_order s po k) (stocks s))"

definition received_charge :: "stockroom \<Rightarrow> uuid \<Rightarrow> uuid \<Rightarrow> (cost_line \<times> stock_movement \<times> stock_row) res" where
  "received_charge s po i =
     of_option (ValueErr ''Job allocation not found'')
       (Option.bind (get_line (books s) i) (\<lambda>c.
        Option.bind (find (\<lambda>m. mv_line m = Some i) (movements s)) (\<lambda>m.
        Option.bind (row_get sk_id (mv_stock m) (stocks s)) (\<lambda>k.
        if is_returnable_issue m \<and> stock_of_order s po k
           \<and> meta_get (ext_refs c) ''purchase_order_id'' = JStr (show_digits po)
        then Some (c, m, k) else None))))"

definition allocated_stock ::
  "stockroom \<Rightarrow> uuid \<Rightarrow> allocation_type \<Rightarrow> uuid \<Rightarrow> (stock_row \<times> (cost_line \<times> stock_movement) option) res" where
  "allocated_stock s po t i =
     (case t of
        StockAllocation \<Rightarrow> bindR (received_stock s po i) (\<lambda>k. Inr (k, None))
      | JobAllocation \<Rightarrow> bindR (received_charge s po i) (\<lambda>(c, m, k). Inr (k, Some (c, m))))"

text \<open>\<open>stock.movements.get(kind__in=...)\<close> raises unless there is exactly one.\<close>

definition receipt_of_stock :: "stockroom \<Rightarrow> stock_row \<Rightarrow> stock_movement res" where
  "receipt_of_stock s k =
     (case filter (\<lambda>m. mv_kind m = Delivery \<or> mv_kind m = DeliveryOpening) (moves_of (sk_id k) (movements s)) of
        [m] \<Rightarrow> Inr m | [] \<Rightarrow> Inl (DoesNotExist ''StockMovement'') | _ \<Rightarrow> Inl (DoesNotExist ''MultipleObjectsReturned''))"

definition decrement_received :: "uuid \<Rightarrow> rat \<Rightarrow> (stockroom, unit) tx" where
  "decrement_received i q =
     seqT (readT (\<lambda>s. requireR (list_ex (\<lambda>l. ol_id l = i \<and> q \<le> received_quantity l) (order_lines s))
             (ValueErr ''The allocation exceeds the recorded received quantity.'')))
     (putT (\<lambda>s. s\<lparr>order_lines := map (\<lambda>l. if ol_id l = i
        then l\<lparr>received_quantity := stored_money (received_quantity l - q)\<rparr> else l) (order_lines s)\<rparr>))"

record reversal_result =
  rv_reversed :: bool     \<comment> \<open>\<open>already_reversed\<close> when false\<close>
  rv_quantity :: rat
  rv_description :: string
  rv_received :: rat
  rv_job_name :: string

definition reversal_answer :: "stockroom \<Rightarrow> order_line \<Rightarrow> stock_row \<Rightarrow> string \<Rightarrow> bool \<Rightarrow> rat \<Rightarrow> reversal_result" where
  "reversal_answer s l k name fresh q =
     \<lparr>rv_reversed = fresh, rv_quantity = q, rv_description = sk_description k,
      rv_received = (case row_get ol_id (ol_id l) (order_lines s) of None \<Rightarrow> 0 | Some x \<Rightarrow> received_quantity x), rv_job_name = name\<rparr>"

definition undo_receipt ::
  "order_row \<Rightarrow> order_line \<Rightarrow> stock_row \<Rightarrow> (cost_line \<times> stock_movement) option \<Rightarrow> stock_movement \<Rightarrow> rat \<Rightarrow> uuid
     \<Rightarrow> (stockroom, unit) tx" where
  "undo_receipt po l k charge receipt q staff =
     seqT (case charge of
             None \<Rightarrow> ret ()
           | Some (_, m) \<Rightarrow> seqT (reverse_issue (mv_id m) staff ''Reverse job receipt allocation'') (ret ()))
     (seqT (decrement_received (ol_id l) q)
     (seqT (move_stock (sk_id k) (- q)
        \<lparr>mc_kind = DeliveryReversal, mc_reason = ''Receipt on PO '' @ po_number po @ '' reversed'', mc_actor = Some staff,
         mc_job = None, mc_cost = None, mc_take_line = None, mc_reverses = Some (mv_id receipt)\<rparr>)
     (seqT (recompute_purchase_order_status po)
     (ret ()))))"

definition reverse_allocation ::
  "uuid \<Rightarrow> uuid \<Rightarrow> allocation_type \<Rightarrow> uuid \<Rightarrow> etag list \<Rightarrow> uuid \<Rightarrow> (stockroom, reversal_result) tx" where
  "reverse_allocation order line t allocation if_match staff =
     bindT (readT (\<lambda>s. of_option (ValueErr ''Purchase Order not found'') (get_order s order))) (\<lambda>po.
     bindT (readT (\<lambda>s. allocated_stock s order t allocation)) (\<lambda>(k, charge).
     seqT (requireT (source_line k = Some line) (ValueErr ''The allocation does not belong to this purchase order line.''))
     (bindT (readT (\<lambda>s. of_option (DoesNotExist ''PurchaseOrderLine'') (row_get ol_id line (lines_of_order s order)))) (\<lambda>l.
     bindT (readT (\<lambda>s. receipt_of_stock s k)) (\<lambda>receipt.
     bindT (getT (\<lambda>s. list_ex (\<lambda>m. reverses m = Some (mv_id receipt)) (movements s))) (\<lambda>already.
     bindT (readT (\<lambda>s. if already then Inr 0 else delivery_quantity receipt)) (\<lambda>q.
     bindT (readT (\<lambda>s. case charge of
              None \<Rightarrow> Inr stock_holding_job_name
            | Some (c, _) \<Rightarrow> bindR (line_job (books s) c) (\<lambda>j. Inr (job_name j)))) (\<lambda>name.
     seqT (if already then ret ()
           else seqT (readT (\<lambda>s. require_current_etag po if_match)) (undo_receipt po l k charge receipt q staff))
     (getT (\<lambda>s. reversal_answer s l k name (\<not> already) q))))))))))"

end
