(* ===== verification/Purchase_Orders.thy ===== *)
theory Purchase_Orders
  imports Receipts
begin

text \<open>
  The writes of \<open>purchasing/services/purchase_order_service.py\<close>: raising an order, changing it under
  an \<open>If-Match\<close> precondition, and the numbering of \<open>PurchaseOrder.generate_po_number\<close>. A write names
  the fields the client sent: an option of the column's value. The prefix is text without a
  character a regular expression reads as an operator, and the digits of a number are ASCII.
\<close>

section \<open>Numbers\<close>

definition is_digit :: "char \<Rightarrow> bool" where
  "is_digit c \<longleftrightarrow> CHR ''0'' \<le> c \<and> c \<le> CHR ''9''"

definition read_digits :: "string \<Rightarrow> nat" where
  "read_digits t = foldl (\<lambda>n c. 10 * n + (of_char c - 48)) 0 t"

text \<open>The part after the prefix, of a number that is the prefix and digits.\<close>

definition number_tail :: "string \<Rightarrow> string \<Rightarrow> string option" where
  "number_tail p t =
     (let tail = drop (length p) t
      in if take (length p) t = p \<and> tail \<noteq> [] \<and> list_all is_digit tail then Some tail else None)"

definition order_numbers :: "string \<Rightarrow> order_row list \<Rightarrow> nat list" where
  "order_numbers p os = map read_digits (List.map_filter (\<lambda>po. number_tail p (po_number po)) os)"

text \<open>\<open>f"{nxt:04d}"\<close>.\<close>

definition pad_four :: "nat \<Rightarrow> string" where
  "pad_four n = (let t = show_digits n in replicate (4 - length t) CHR ''0'' @ t)"

text \<open>The cast to a 32 bit integer raises on a number that does not fit.\<close>

definition generate_po_number :: "stockroom \<Rightarrow> string res" where
  "generate_po_number s =
     (let ns = order_numbers (po_prefix s) (orders s) in
      bindR (requireR (list_all (\<lambda>n. n < 2 ^ 31) ns) (Integrity ''integer out of range'')) (\<lambda>_.
      Inr (po_prefix s @ pad_four (nat (max (starting_po_number s) (int (foldr max ns 0) + 1))))))"

text \<open>The last of those with the largest number: the newest.\<close>

definition get_last_purchase_order_number :: "stockroom \<Rightarrow> string option res" where
  "get_last_purchase_order_number s =
     (let ns = order_numbers (po_prefix s) (orders s) in
      bindR (requireR (list_all (\<lambda>n. n < 2 ^ 31) ns) (Integrity ''integer out of range'')) (\<lambda>_.
      Inr (map_option po_number (find (\<lambda>po. map_option read_digits (number_tail (po_prefix s) (po_number po))
             = Some (foldr max ns 0)) (rev (orders s))))))"

section \<open>Lines\<close>

record order_line_write =
  ow_id :: "uuid option"
  ow_job :: "uuid option option"
  ow_description :: "string option"
  ow_quantity :: "rat option"
  ow_unit_cost :: "rat option option"
  ow_price_tbc :: "bool option"
  ow_item_code :: "string option option"
  ow_metal :: "string option option"
  ow_alloy :: "string option option"
  ow_specifics :: "string option option"
  ow_location :: "string option option"
  ow_dimensions :: "string option option"

definition validate_ordered_quantity :: "order_line \<Rightarrow> rat \<Rightarrow> unit res" where
  "validate_ordered_quantity l q =
     requireR (\<not> q < received_quantity l) (InvalidInput ''ordered quantity cannot be below net received quantity'')"

definition require_a_stock_item_code :: "stockroom \<Rightarrow> order_line_write \<Rightarrow> unit res" where
  "require_a_stock_item_code s d =
     (case ow_item_code d of
        Some (Some code) \<Rightarrow> requireR (list_ex (\<lambda>k. sk_item_code k = Some code) (stocks s)) (InvalidInput ''not a stock item'')
      | _ \<Rightarrow> Inr ())"

definition patched_line :: "order_line_write \<Rightarrow> order_line \<Rightarrow> order_line" where
  "patched_line d l =
     (let tbc = sent (ow_price_tbc d) (price_tbc l) in
      l\<lparr>ol_description := sent (ow_description d) (ol_description l), ol_job := sent (ow_job d) (ol_job l),
        ol_quantity := sent (ow_quantity d) (ol_quantity l), ol_item_code := sent (ow_item_code d) (ol_item_code l),
        ol_metal := sent (ow_metal d) (ol_metal l), ol_alloy := sent (ow_alloy d) (ol_alloy l),
        ol_specifics := sent (ow_specifics d) (ol_specifics l), ol_location := sent (ow_location d) (ol_location l),
        ol_dimensions := sent (ow_dimensions d) (ol_dimensions l), price_tbc := tbc,
        ol_unit_cost := (if tbc then None else sent (ow_unit_cost d) (ol_unit_cost l))\<rparr>)"

definition apply_line_fields :: "stockroom \<Rightarrow> order_line_write \<Rightarrow> order_line \<Rightarrow> order_line res" where
  "apply_line_fields s d l =
     bindR (require_a_stock_item_code s d) (\<lambda>_.
     let l' = patched_line d l in
     bindR (validate_ordered_quantity l' (ol_quantity l')) (\<lambda>_. Inr l'))"

text \<open>The columns and constraints of a line; a numeric column keeps two places.\<close>

definition order_line_checks :: "stockroom \<Rightarrow> order_line \<Rightarrow> unit res" where
  "order_line_checks s l =
     bindR (requireR (\<bar>stored_money (ol_quantity l)\<bar> < 10 ^ 8
          \<and> (case ol_unit_cost l of None \<Rightarrow> True | Some c \<Rightarrow> \<bar>stored_money c\<bar> < 10 ^ 8)) (Integrity ''numeric field overflow'')) (\<lambda>_.
     bindR (requireR (not_blank (ol_alloy l) \<and> not_blank (ol_dimensions l) \<and> not_blank (ol_item_code l)
          \<and> not_blank (ol_location l) \<and> not_blank (ol_metal l) \<and> not_blank (ol_specifics l))
          (Integrity ''purchasing_purchaseorderline_not_blank'')) (\<lambda>_.
     requireR (case ol_job l of None \<Rightarrow> True | Some j \<Rightarrow> row_get job_id j (jobs (books s)) \<noteq> None) (Integrity ''job'')))"

definition stored_line :: "order_line \<Rightarrow> order_line" where
  "stored_line l = l\<lparr>ol_quantity := stored_money (ol_quantity l), ol_unit_cost := map_option stored_money (ol_unit_cost l)\<rparr>"

definition save_order_line :: "order_line \<Rightarrow> (stockroom, unit) tx" where
  "save_order_line l =
     seqT (readT (\<lambda>s. order_line_checks s l)) (putT (\<lambda>s. s\<lparr>order_lines := row_write ol_id (stored_line l) (order_lines s)\<rparr>))"

definition blank_line :: "uuid \<Rightarrow> uuid \<Rightarrow> order_line" where
  "blank_line i po =
     \<lparr>ol_id = i, ol_order = po, ol_job = None, ol_description = [], ol_quantity = 0, ol_unit_cost = None,
      price_tbc = False, ol_item_code = None, received_quantity = 0, ol_metal = None, ol_alloy = None,
      ol_specifics = None, ol_location = None, ol_dimensions = None\<rparr>"

text \<open>\<open>existing\<close>: the rows in memory, so that a line named twice is patched twice.\<close>

definition write_order_line :: "uuid \<Rightarrow> order_line_write \<Rightarrow> order_line list \<Rightarrow> (stockroom, order_line list) tx" where
  "write_order_line po d existing =
     (case ow_id d of
        None \<Rightarrow>
          bindT (on_books fresh_id) (\<lambda>i.
          bindT (readT (\<lambda>s. apply_line_fields s d (blank_line i po))) (\<lambda>l.
          seqT (save_order_line l) (ret existing)))
      | Some i \<Rightarrow>
          bindT (readT (\<lambda>s. of_option (Validation ''Line ID not found on PO'') (row_get ol_id i existing))) (\<lambda>stored.
          bindT (readT (\<lambda>s. apply_line_fields s d stored)) (\<lambda>l.
          seqT (save_order_line l) (ret (row_put ol_id l existing)))))"

definition write_lines :: "uuid \<Rightarrow> order_line_write list \<Rightarrow> (stockroom, unit) tx" where
  "write_lines po ds =
     bindT (getT (\<lambda>s. lines_of_order s po)) (\<lambda>existing.
     seqT (foldT (write_order_line po) ds existing) (ret ()))"

section \<open>Raising an order\<close>

definition resolve_supplier :: "stockroom \<Rightarrow> uuid \<Rightarrow> uuid res" where
  "resolve_supplier s i = bindR (requireR (i \<in> set (suppliers s)) (Validation ''Supplier not found'')) (\<lambda>_. Inr i)"

definition resolve_pickup_address :: "stockroom \<Rightarrow> uuid \<Rightarrow> uuid \<Rightarrow> uuid res" where
  "resolve_pickup_address s i supplier =
     bindR (requireR (list_ex (\<lambda>p. pk_id p = i \<and> pk_company p = supplier \<and> pk_active p) (pickups s))
       (Validation ''Pickup address does not belong to supplier'')) (\<lambda>_. Inr i)"

definition primary_pickup :: "stockroom \<Rightarrow> uuid \<Rightarrow> uuid option" where
  "primary_pickup s supplier =
     map_option pk_id (find (\<lambda>p. pk_company p = supplier \<and> is_primary p \<and> pk_active p) (pickups s))"

text \<open>The ordinal of 1 January 2000.\<close>

definition earliest_order_date :: date where "earliest_order_date = 730120"

definition require_a_real_date :: "date option \<Rightarrow> unit res" where
  "require_a_real_date d =
     requireR (case d of None \<Rightarrow> True | Some x \<Rightarrow> \<not> x < earliest_order_date) (InvalidInput ''Enter the year with four digits.'')"

record order_create =
  oc_supplier :: uuid
  oc_pickup :: "uuid option option"
  oc_reference :: "string option"
  oc_order_date :: "date option"
  oc_expected :: "date option"
  oc_lines :: "order_line_write list"

text \<open>\<open>PurchaseOrder.objects.create\<close>, whose \<open>save\<close> numbers the order.\<close>

definition insert_order :: "order_create \<Rightarrow> uuid \<Rightarrow> uuid option \<Rightarrow> uuid \<Rightarrow> (stockroom, uuid) tx" where
  "insert_order d supplier pickup staff =
     bindT (on_books fresh_id) (\<lambda>i.
     bindT (readT generate_po_number) (\<lambda>number.
     bindT (getT (\<lambda>s. now (books s))) (\<lambda>t.
     seqT (readT (\<lambda>s. requireR (\<not> list_ex (\<lambda>po. po_number po = number) (orders s)) (Integrity ''po_number'')))
     (seqT (requireT (not_blank (oc_reference d)) (Integrity ''reference_not_blank''))
     (seqT (putT (\<lambda>s. s\<lparr>orders := orders s @
        [\<lparr>po_id = i, po_supplier = Some supplier, pickup_address = pickup, po_number = number,
          po_reference = oc_reference d,
          order_date = (case oc_order_date d of None \<Rightarrow> today (books s) | Some x \<Rightarrow> x),
          expected_delivery = Some (case oc_expected d of None \<Rightarrow> today (books s) | Some x \<Rightarrow> x),
          po_creator = staff, po_status = Draft, xero_push_due = False, po_updated_at = t\<rparr>]\<rparr>))
     (ret i))))))"

definition create_purchase_order :: "order_create \<Rightarrow> uuid \<Rightarrow> (stockroom, uuid) tx" where
  "create_purchase_order d staff =
     seqT (readT (\<lambda>s. require_a_real_date (oc_order_date d)))
     (seqT (readT (\<lambda>s. require_a_real_date (oc_expected d)))
     (bindT (readT (\<lambda>s. resolve_supplier s (oc_supplier d))) (\<lambda>supplier.
     bindT (readT (\<lambda>s. case oc_pickup d of
              None \<Rightarrow> Inr (primary_pickup s supplier)
            | Some None \<Rightarrow> Inr None
            | Some (Some p) \<Rightarrow> bindR (resolve_pickup_address s p supplier) (\<lambda>p. Inr (Some p)))) (\<lambda>pickup.
     bindT (insert_order d supplier pickup staff) (\<lambda>i.
     seqT (write_lines i (oc_lines d)) (ret i))))))"

section \<open>Changing an order\<close>

record order_update =
  ou_supplier :: "uuid option"
  ou_pickup :: "uuid option option"
  ou_reference :: "string option option"
  ou_expected :: "date option option"
  ou_status :: "order_status option"
  ou_delete :: "uuid list"
  ou_lines :: "order_line_write list option"

definition apply_purchase_order_fields :: "order_update \<Rightarrow> order_row \<Rightarrow> order_row res" where
  "apply_purchase_order_fields d po =
     bindR (case ou_expected d of None \<Rightarrow> Inr () | Some x \<Rightarrow> require_a_real_date x) (\<lambda>_.
     Inr (po\<lparr>po_reference := sent (ou_reference d) (po_reference po),
        expected_delivery := sent (ou_expected d) (expected_delivery po), po_status := sent (ou_status d) (po_status po)\<rparr>))"

definition repointed :: "stockroom \<Rightarrow> order_update \<Rightarrow> order_row \<Rightarrow> order_row res" where
  "repointed s d po =
     (case ou_supplier d of
        None \<Rightarrow> Inr po
      | Some i \<Rightarrow>
          if Some i = po_supplier po then Inr po
          else bindR (resolve_supplier s i) (\<lambda>x. Inr (po\<lparr>po_supplier := Some x, pickup_address := None\<rparr>)))"

definition apply_supplier_and_pickup :: "stockroom \<Rightarrow> order_update \<Rightarrow> order_row \<Rightarrow> order_row res" where
  "apply_supplier_and_pickup s d po =
     bindR (repointed s d po) (\<lambda>po'.
     case ou_pickup d of
       None \<Rightarrow> Inr po'
     | Some None \<Rightarrow> Inr (po'\<lparr>pickup_address := None\<rparr>)
     | Some (Some p) \<Rightarrow>
         (case po_supplier po' of
            None \<Rightarrow> Inl (Validation ''A pickup address needs a supplier'')
          | Some x \<Rightarrow> bindR (resolve_pickup_address s p x) (\<lambda>p. Inr (po'\<lparr>pickup_address := Some p\<rparr>))))"

definition delete_order_lines :: "uuid \<Rightarrow> uuid list \<Rightarrow> (stockroom, unit) tx" where
  "delete_order_lines i gone =
     (let named = (\<lambda>l. ol_order l = i \<and> ol_id l \<in> set gone) in
      seqT (readT (\<lambda>s. requireR (\<not> list_ex (\<lambda>l. named l \<and> list_ex (\<lambda>k. source_line k = Some (ol_id l)) (stocks s)) (order_lines s))
              (Validation ''goods received on it are recorded on jobs or in stock'')))
      (putT (\<lambda>s. s\<lparr>order_lines := filter (\<lambda>l. \<not> named l) (order_lines s)\<rparr>)))"

definition read_order :: "uuid \<Rightarrow> (stockroom, order_row) tx" where
  "read_order i = readT (\<lambda>s. of_option (DoesNotExist ''PurchaseOrder'') (get_order s i))"

text \<open>The row once its fields are written, and what its new status brings about.\<close>

definition settle_order :: "(order_row \<Rightarrow> push_result) \<Rightarrow> order_row \<Rightarrow> order_update \<Rightarrow> uuid \<Rightarrow> (stockroom, unit) tx" where
  "settle_order push po d staff =
     (if ou_status d = Some FullyReceived then
        seqT (receive_outstanding_order push (po_id po) staff [OrderTag (po_id po) (po_updated_at po)]) (ret ())
      else bindT (getT (\<lambda>s. list_ex (\<lambda>l. 0 < received_quantity l) (lines_of_order s (po_id po)))) (\<lambda>received.
        if ou_lines d \<noteq> None \<and> received then seqT (recompute_purchase_order_status po) (ret ()) else ret ()))"

definition update_purchase_order ::
  "(order_row \<Rightarrow> push_result) \<Rightarrow> uuid \<Rightarrow> order_update \<Rightarrow> uuid \<Rightarrow> etag list \<Rightarrow> (stockroom, order_row) tx" where
  "update_purchase_order push i d staff if_match =
     bindT (readT (\<lambda>s. of_option (HttpErr 404 ''PurchaseOrder'') (get_order s i))) (\<lambda>po.
     seqT (readT (\<lambda>s. require_current_etag po if_match))
     (seqT (if ou_delete d = [] then ret () else delete_order_lines i (ou_delete d))
     (bindT (readT (\<lambda>s. apply_supplier_and_pickup s d po)) (\<lambda>po1.
     seqT (write_lines i (case ou_lines d of None \<Rightarrow> [] | Some ds \<Rightarrow> ds))
     (bindT (readT (\<lambda>s. apply_purchase_order_fields d po1)) (\<lambda>po2.
     bindT (getT (\<lambda>s. po2\<lparr>po_updated_at := now (books s)\<rparr>)) (\<lambda>po3.
     seqT (requireT (not_blank (po_reference po3)) (Integrity ''reference_not_blank''))
     (seqT (put_order po3)
     (seqT (settle_order push po3 d staff)
     (bindT (read_order i) (\<lambda>po4.
     if po_status po4 = po_status po then ret po4
     else seqT (put_order (po4\<lparr>xero_push_due := True\<rparr>))
       (send_state_change push (po4\<lparr>xero_push_due := True\<rparr>)))))))))))))"

end
