(* ===== verification/Stock_Invariants.thy ===== *)
theory Stock_Invariants
  imports Purchase_Orders
begin

text \<open>
  What every write of the stockroom keeps. The writes share the contract \<open>stock_invariant\<close>: a
  predicate kept by its few primitive steps (a number is drawn, a stock row is opened or edited, a
  cost line is saved, stock is moved, counts and orders change) is kept by every operation of the
  services. It is interpreted on four predicates of the model: the balances of the ledger, the
  ledger as a log that only grows, the cost-set summaries of the books, and movements that are
  reversed, and cost lines that are named, at most once.
\<close>

section \<open>One movement\<close>

lemma on_books_Inr: "on_books m s = Inr (x, s') \<longleftrightarrow> (\<exists>d. m (books s) = Inr (x, d) \<and> s' = s\<lparr>books := d\<rparr>)"
  by (auto simp: on_books_def split: sum.splits prod.splits)

lemma on_books_fresh [simp]:
  "on_books fresh_id s = Inr (next_id (books s), s\<lparr>books := (books s)\<lparr>next_id := Suc (next_id (books s))\<rparr>\<rparr>)"
  by (simp add: on_books_def fresh_id_def)

lemma get_stock_Inr: "get_stock s i = Inr k \<longleftrightarrow> row_get sk_id i (stocks s) = Some k"
  by (simp add: get_stock_def)

lemma get_stock_in: "get_stock s i = Inr k \<Longrightarrow> k \<in> set (stocks s) \<and> sk_id k = i"
  by (auto simp: get_stock_Inr dest: row_get_Some)

lemma movement_of_simps [simp]:
  "mv_id (movement_of k q c i) = i" "mv_stock (movement_of k q c i) = sk_id k"
  "quantity_change (movement_of k q c i) = q" "quantity_before (movement_of k q c i) = sk_quantity k"
  "quantity_after (movement_of k q c i) = sk_quantity k + q" "opening_quantity (movement_of k q c i) = None"
  "mv_kind (movement_of k q c i) = mc_kind c" "counterpart_job (movement_of k q c i) = mc_job c"
  "mv_line (movement_of k q c i) = map_option line_id (mc_cost c)"
  "mv_take_line (movement_of k q c i) = mc_take_line c" "reverses (movement_of k q c i) = mc_reverses c"
  "mv_unit_cost (movement_of k q c i) = (case mc_cost c of Some l \<Rightarrow> unit_cost l | None \<Rightarrow> sk_unit_cost k)"
  by (simp_all add: movement_of_def)

lemma projected_simps [simp]:
  "sk_id (projected q k) = sk_id k" "sk_quantity (projected q k) = q" "sk_unit_cost (projected q k) = sk_unit_cost k"
  "source_line (projected q k) = source_line k" "inventory_version (projected q k) = inventory_version k + 1"
  "sk_source (projected q k) = sk_source k"
  by (simp_all add: projected_def)

definition moved_state :: "stock_row \<Rightarrow> stock_movement \<Rightarrow> stockroom \<Rightarrow> stockroom" where
  "moved_state k m s = s\<lparr>books := (books s)\<lparr>next_id := Suc (next_id (books s))\<rparr>, movements := movements s @ [m],
     stocks := row_put sk_id (projected (quantity_after m) k) (stocks s)\<rparr>"

lemma moved_state_simps [simp]:
  "books (moved_state k m s) = (books s)\<lparr>next_id := Suc (next_id (books s))\<rparr>"
  "movements (moved_state k m s) = movements s @ [m]"
  "stocks (moved_state k m s) = row_put sk_id (projected (quantity_after m) k) (stocks s)"
  "stocktakes (moved_state k m s) = stocktakes s" "take_lines (moved_state k m s) = take_lines s"
  "orders (moved_state k m s) = orders s" "order_lines (moved_state k m s) = order_lines s"
  by (simp_all add: moved_state_def)

lemma move_stock_Inr:
  assumes "move_stock i q c s = Inr (m, s')"
  obtains k where "get_stock s i = Inr k" "m = movement_of k q c (next_id (books s))" "s' = moved_state k m s"
    "mc_kind c \<notin> {Opening, JobOpening, DeliveryOpening}" "check_counterpart s q c = Inr ()"
    "mv_line m = None \<or> (\<forall>x \<in> set (movements s). mv_line x \<noteq> mv_line m)"
    "reverses m = None \<or> (\<exists>x \<in> set (movements s). reverses m = Some (mv_id x)) \<and> (\<forall>x \<in> set (movements s). reverses x \<noteq> reverses m)"
proof -
  from assms obtain k where k: "get_stock s i = Inr k" "mc_kind c \<notin> {Opening, JobOpening, DeliveryOpening}"
      "check_counterpart s q c = Inr ()" and m: "m = movement_of k q c (next_id (books s))"
    and rest: "s' = moved_state k m s"
      "mv_line m = None \<or> \<not> list_ex (\<lambda>x. mv_line x = mv_line m) (movements s)"
      "reverses m = None \<or> list_ex (\<lambda>x. reverses m = Some (mv_id x)) (movements s) \<and> \<not> list_ex (\<lambda>x. reverses x = reverses m) (movements s)"
    by (auto simp: move_stock_def insert_movement_def tx_Inr tx_prims Let_def moved_state_def)
  show ?thesis using that [OF k(1) m rest(1) k(2,3)] rest(2,3) by (auto simp: list_ex_iff)
qed

section \<open>The contract of a write\<close>

locale stock_invariant =
  fixes I :: "stockroom \<Rightarrow> bool"
  assumes number: "I s \<Longrightarrow> I (s\<lparr>books := (books s)\<lparr>next_id := Suc (next_id (books s))\<rparr>\<rparr>)"
    and open_stock: "I s \<Longrightarrow> sk_id k = next_id (books s) \<Longrightarrow> sk_quantity k = 0 \<Longrightarrow>
      I (s\<lparr>books := (books s)\<lparr>next_id := Suc (next_id (books s))\<rparr>, stocks := stocks s @ [k]\<rparr>)"
    and edit_stock: "I s \<Longrightarrow> k0 \<in> set (stocks s) \<Longrightarrow> sk_id k = sk_id k0 \<Longrightarrow> sk_quantity k = sk_quantity k0 \<Longrightarrow>
      I (s\<lparr>stocks := row_put sk_id k (stocks s)\<rparr>)"
    and cost: "keeps I (on_books (save_line l))"
    and cost_set: "keeps I (on_books (ensure_actual_cost_set j))"
    and move: "keeps I (move_stock i q c)"
    and sheets: "I s \<Longrightarrow> I (s\<lparr>stocktakes := a\<rparr>)"
    and sheet_lines: "I s \<Longrightarrow> I (s\<lparr>take_lines := b\<rparr>)"
    and ordering: "I s \<Longrightarrow> I (s\<lparr>orders := x\<rparr>)"
    and ordering_lines: "I s \<Longrightarrow> I (s\<lparr>order_lines := y\<rparr>)"
begin

lemmas cost_rules [keeps_intros] = cost cost_set move

lemma numbered [keeps_intros]: "keeps I (on_books fresh_id)"
  by (rule keepsI) (auto intro: number)

lemma puts [keeps_intros]:
  "keeps I (putT (\<lambda>s. s\<lparr>stocktakes := f s\<rparr>))" "keeps I (putT (\<lambda>s. s\<lparr>take_lines := g s\<rparr>))"
  "keeps I (putT (\<lambda>s. s\<lparr>orders := h s\<rparr>))" "keeps I (putT (\<lambda>s. s\<lparr>order_lines := j s\<rparr>))"
  by (rule keeps_putT, erule sheets sheet_lines ordering ordering_lines)+

text \<open>A new row is numbered, described and inserted, with nothing written in between.\<close>

lemma opened:
  assumes "I s" "sk_id k = next_id (books s)" "sk_quantity k = 0"
    and "insert_stock k (s\<lparr>books := (books s)\<lparr>next_id := Suc (next_id (books s))\<rparr>\<rparr>) = Inr (u, s')"
  shows "I s'"
proof -
  have "s' = s\<lparr>books := (books s)\<lparr>next_id := Suc (next_id (books s))\<rparr>, stocks := stocks s @ [stored_stock k]\<rparr>"
    using assms(4) by (auto simp: insert_stock_def tx_Inr tx_prims)
  then show ?thesis
    using open_stock [OF assms(1), of "stored_stock k"] assms(2,3) by (simp add: stored_stock_def)
qed

lemma saved [keeps_intros]:
  assumes "\<And>k. sk_id (f k) = sk_id k \<and> sk_quantity (f k) = sk_quantity k"
  shows "keeps I (bindT (readT (\<lambda>s. get_stock s i)) (\<lambda>k. save_stock (f k)))"
proof (rule keepsI)
  fix s u s'
  assume I: "I s" and run: "bindT (readT (\<lambda>s. get_stock s i)) (\<lambda>k. save_stock (f k)) s = Inr (u, s')"
  then obtain k where k: "get_stock s i = Inr k" "s' = s\<lparr>stocks := row_put sk_id (stored_stock (f k)) (stocks s)\<rparr>"
    by (auto simp: save_stock_def tx_Inr tx_prims)
  show "I s'" unfolding k(2)
    using get_stock_in [OF k(1)] assms by (intro edit_stock [OF I, of k]) (auto simp: stored_stock_def)
qed

lemma opened_keeps [keeps_intros]:
  assumes "\<And>i t. sk_id (f i t) = i \<and> sk_quantity (f i t) = 0" "\<And>i. keeps I (g i)"
  shows "keeps I (bindT (on_books fresh_id) (\<lambda>i. bindT (getT (\<lambda>s. now (books s))) (\<lambda>t.
    seqT (insert_stock (f i t)) (g i))))"
proof (rule keepsI)
  fix s x s'
  assume I: "I s" and run: "bindT (on_books fresh_id) (\<lambda>i. bindT (getT (\<lambda>s. now (books s))) (\<lambda>t.
    seqT (insert_stock (f i t)) (g i))) s = Inr (x, s')"
  then obtain t u s1 where ins: "insert_stock (f (next_id (books s)) t)
      (s\<lparr>books := (books s)\<lparr>next_id := Suc (next_id (books s))\<rparr>\<rparr>) = Inr (u, s1)"
    and rest: "g (next_id (books s)) s1 = Inr (x, s')"
    by (auto simp: tx_Inr tx_prims)
  have "I s1" by (rule opened [OF I _ _ ins]) (simp_all add: assms(1))
  then show "I s'" by (rule keepsD [OF assms(2) _ rest])
qed

lemma opened_read_keeps [keeps_intros]:
  assumes "\<And>i t k. h i t = Inr k \<Longrightarrow> sk_id k = i \<and> sk_quantity k = 0" "\<And>i. keeps I (g i)"
  shows "keeps I (bindT (on_books fresh_id) (\<lambda>i. bindT (getT (\<lambda>s. now (books s))) (\<lambda>t.
    bindT (readT (\<lambda>s. h i t)) (\<lambda>k. seqT (insert_stock k) (g i)))))"
proof (rule keepsI)
  fix s x s'
  assume I: "I s" and run: "bindT (on_books fresh_id) (\<lambda>i. bindT (getT (\<lambda>s. now (books s))) (\<lambda>t.
    bindT (readT (\<lambda>s. h i t)) (\<lambda>k. seqT (insert_stock k) (g i)))) s = Inr (x, s')"
  then obtain t k u s1 where k: "h (next_id (books s)) t = Inr k"
    and ins: "insert_stock k (s\<lparr>books := (books s)\<lparr>next_id := Suc (next_id (books s))\<rparr>\<rparr>) = Inr (u, s1)"
    and rest: "g (next_id (books s)) s1 = Inr (x, s')"
    by (auto simp: tx_Inr tx_prims)
  have "I s1" by (rule opened [OF I _ _ ins]) (simp_all add: assms(1) [OF k])
  then show "I s'" by (rule keepsD [OF assms(2) _ rest])
qed

lemma material_keeps [keeps_intros]: "keeps I (create_material_line cs t q c r refs m own)"
  unfolding create_material_line_def by (intro keeps_intros)

lemma take_line_keeps [keeps_intros]: "keeps I (write_take_line l)"
  unfolding write_take_line_def by (intro keeps_intros)

lemma put_keeps [keeps_intros]: "keeps I (put_take t)" "keeps I (put_order po)"
  unfolding put_take_def put_order_def by (intro keeps_intros)+

lemma order_line_keeps [keeps_intros]: "keeps I (save_order_line l)" "keeps I (add_received i q)"
  "keeps I (decrement_received i q)" "keeps I (delete_order_lines i gone)"
  unfolding save_order_line_def add_received_def decrement_received_def delete_order_lines_def
  by (intro keeps_intros)+

subsection \<open>Stock and issues\<close>

lemma create_stock_keeps [keeps_intros]: "keeps I (create_stock d c)"
  unfolding create_stock_def by (intro keeps_intros) (simp_all add: apply_stock_fields_def)

lemma update_stock_keeps [keeps_intros]: "keeps I (update_stock i d)"
  unfolding update_stock_def by (intro keeps_intros) (simp add: apply_stock_fields_def)

lemma deactivate_keeps [keeps_intros]: "keeps I (deactivate_stock i)"
  by (rule keepsI) (auto simp: deactivate_stock_def tx_Inr tx_prims dest: get_stock_in intro!: edit_stock)

lemma reverse_issue_keeps [keeps_intros]: "keeps I (reverse_issue i staff reason)"
  unfolding reverse_issue_def by (intro keeps_intros)

lemma issue_line_keeps [keeps_intros]: "keeps I (issue_line k j q u c r d)"
  unfolding issue_line_def Let_def by (intro keeps_intros)

lemma consume_keeps [keeps_intros]: "keeps I (consume_stock k j q u c r l)"
  unfolding consume_stock_def by (intro keeps_intros)

subsection \<open>Counts\<close>

lemma create_take_keeps [keeps_intros]: "keeps I (create_stocktake staff k)"
  unfolding create_stocktake_def by (intro keeps_intros)

lemma save_take_keeps [keeps_intros]: "keeps I (save_stocktake i ds h)"
  unfolding save_stocktake_def save_take_line_def delete_other_lines_def Let_def by (intro keeps_intros)

lemma stock_to_post_keeps [keeps_intros]: "keeps I (stock_to_post l)"
  unfolding stock_to_post_def by (intro keeps_intros) (simp add: found_stock_def)

lemma post_line_keeps [keeps_intros]: "keeps I (post_line l staff j)"
  unfolding post_line_def Let_def by (intro keeps_intros)

lemma post_take_keeps [keeps_intros]: "keeps I (post_stocktake i h staff)"
  unfolding post_stocktake_def by (intro keeps_intros)

lemma correct_take_keeps [keeps_intros]: "keeps I (correct_stocktake i staff h)"
  unfolding correct_stocktake_def by (intro keeps_intros)

subsection \<open>Receipts and orders\<close>

lemma create_from_allocation_keeps [keeps_intros]: "keeps I (create_stock_from_allocation l n a staff)"
  unfolding create_stock_from_allocation_def
  by (intro keeps_intros) (auto simp: set_retail_rate_def receipt_stock_def split: if_splits)

lemma costline_from_allocation_keeps [keeps_intros]: "keeps I (create_costline_from_allocation po l j q p staff)"
  unfolding create_costline_from_allocation_def Let_def by (intro keeps_intros)

lemma recompute_keeps [keeps_intros]: "keeps I (recompute_purchase_order_status po)"
  unfolding recompute_purchase_order_status_def Let_def by (intro keeps_intros)

lemma send_keeps [keeps_intros]: "keeps I (send_state_change push po)"
  unfolding send_state_change_def
  by (rule keepsI) (auto simp: tx_Inr tx_prims split: if_splits sum.splits err.splits intro: keepsD [OF put_keeps(2)])

lemma receive_line_keeps [keeps_intros]: "keeps I (receive_line po h staff lr)"
  unfolding receive_line_def materialise_def by (intro keeps_intros)

lemma receive_keeps [keeps_intros]: "keeps I (process_delivery_receipt push i rs staff h)"
  unfolding process_delivery_receipt_def by (intro keeps_intros)

lemma receive_outstanding_keeps [keeps_intros]: "keeps I (receive_outstanding_order push i staff h)"
  unfolding receive_outstanding_order_def by (intro keeps_intros)

lemma undo_keeps [keeps_intros]: "keeps I (undo_receipt po l k c r q staff)"
  unfolding undo_receipt_def by (intro keeps_intros)

lemma reverse_allocation_keeps [keeps_intros]: "keeps I (reverse_allocation i l t a h staff)"
  unfolding reverse_allocation_def by (intro keeps_intros)

lemma write_lines_keeps [keeps_intros]: "keeps I (write_lines po ds)"
  unfolding write_lines_def write_order_line_def by (intro keeps_intros)

lemma create_order_keeps [keeps_intros]: "keeps I (create_purchase_order d staff)"
  unfolding create_purchase_order_def insert_order_def by (intro keeps_intros)

lemma update_order_keeps [keeps_intros]: "keeps I (update_purchase_order push i d staff h)"
  unfolding update_purchase_order_def settle_order_def read_order_def by (intro keeps_intros)

end

section \<open>The balances\<close>

lemma moves_of_append [simp]: "moves_of k (xs @ ys) = moves_of k xs @ moves_of k ys"
  by (simp add: moves_of_def)

lemma ledger_quantity_snoc [simp]:
  "ledger_quantity k (ms @ [m]) = ledger_quantity k ms + (if mv_stock m = k then quantity_change m else 0)"
  by (simp add: ledger_quantity_def moves_of_def)

lemma last_after_snoc [simp]:
  "last_after k (ms @ [m]) = (if mv_stock m = k then quantity_after m else last_after k ms)"
  by (simp add: last_after_def moves_of_def)

lemma breaks_in_append: "breaks_in seen (xs @ ys) = breaks_in seen xs @ breaks_in (seen @ xs) ys"
  by (induction xs arbitrary: seen) simp_all

text \<open>Movements that continue one another and balance leave the sum of the changes.\<close>

lemma last_is_sum:
  "breaks_in [] ms = [] \<Longrightarrow> (\<forall>m \<in> set ms. quantity_after m = quantity_before m + quantity_change m) \<Longrightarrow>
     last_after k ms = ledger_quantity k ms"
proof (induction ms rule: rev_induct)
  case Nil
  show ?case by (simp add: last_after_def ledger_quantity_def moves_of_def)
next
  case (snoc m ms)
  then show ?case by (auto simp: breaks_in_append split: if_splits)
qed

definition balanced :: "stockroom \<Rightarrow> bool" where
  "balanced s \<longleftrightarrow> distinct (map sk_id (stocks s))
     \<and> (\<forall>k \<in> set (stocks s). sk_id k < next_id (books s) \<and> sk_quantity k = ledger_quantity (sk_id k) (movements s))
     \<and> (\<forall>m \<in> set (movements s). mv_id m < next_id (books s) \<and> mv_stock m < next_id (books s)
          \<and> quantity_after m = quantity_before m + quantity_change m)
     \<and> (\<forall>m \<in> set (movements s). \<forall>i. reverses m = Some i \<longrightarrow> i \<in> mv_id ` set (movements s))
     \<and> distinct (map mv_id (movements s)) \<and> movement_continuity s = []"

lemma balanced_frame:
  "balanced s \<Longrightarrow> stocks s' = stocks s \<Longrightarrow> movements s' = movements s \<Longrightarrow> next_id (books s) \<le> next_id (books s')
     \<Longrightarrow> balanced s'"
  by (fastforce simp: balanced_def movement_continuity_def)

lemma save_line_next: "save_line l d = Inr (l', d') \<Longrightarrow> next_id d' = next_id d"
  by (auto simp: save_line_Inr write_line_def)

lemma ensure_actual_cases:
  assumes "ensure_actual_cost_set j d = Inr (i, d')"
  shows "d' = d \<or> (\<exists>c js. i = next_id d \<and> c = \<lparr>cs_id = i, cs_job = j, cs_kind = Actual, cs_rev = 1,
      summary = \<lparr>sum_cost = 0, sum_rev = 0, sum_hours = 0\<rparr>\<rparr>
    \<and> d' = d\<lparr>next_id := Suc (next_id d), cost_sets := cost_sets d @ [c], jobs := js\<rparr>)"
  using assms by (auto simp: ensure_actual_cost_set_def fresh_id_def tx_Inr tx_prims split: option.splits)

lemma ensure_actual_frame:
  assumes "ensure_actual_cost_set j d = Inr (i, d')"
  shows "cost_lines d' = cost_lines d" "next_id d \<le> next_id d'"
  using ensure_actual_cases [OF assms] by auto

lemma key_inj: "distinct (map key rows) \<Longrightarrow> x \<in> set rows \<Longrightarrow> y \<in> set rows \<Longrightarrow> key x = key y \<Longrightarrow> x = y"
  by (simp add: distinct_map inj_on_def)

lemma row_get_self: "distinct (map key rows) \<Longrightarrow> r \<in> set rows \<Longrightarrow> key r = k \<Longrightarrow> row_get key k rows = Some r"
  using row_get_distinct by fast

lemma balanced_move: "keeps balanced (move_stock i q c)"
proof (rule keepsI)
  fix s m s'
  assume b: "balanced s" and run: "move_stock i q c s = Inr (m, s')"
  from move_stock_Inr [OF run] obtain k where k: "get_stock s i = Inr k"
    and m: "m = movement_of k q c (next_id (books s))" and s': "s' = moved_state k m s"
    and rev: "reverses m = None \<or> (\<exists>x \<in> set (movements s). reverses m = Some (mv_id x))" by metis
  have kin: "k \<in> set (stocks s)" "sk_id k = i" using get_stock_in [OF k] by auto
  have at_k: "last_after (sk_id k) (movements s) = sk_quantity k"
    using last_is_sum [of "movements s" "sk_id k"] b kin by (auto simp: balanced_def movement_continuity_def)
  have other: "x = projected (sk_quantity k + q) k \<or> x \<in> set (stocks s) \<and> sk_id x \<noteq> sk_id k"
    if "x \<in> set (row_put sk_id (projected (sk_quantity k + q) k) (stocks s))" for x
    using that by (auto simp: row_put_def)
  have "distinct (map sk_id (stocks s'))" using b by (simp add: s' balanced_def)
  moreover have "sk_id x < next_id (books s') \<and> sk_quantity x = ledger_quantity (sk_id x) (movements s')"
    if "x \<in> set (stocks s')" for x
    using other [of x] that b kin(1) by (auto simp: s' m balanced_def)
  moreover have "movement_continuity s' = []"
    using b at_k by (simp add: s' m movement_continuity_def breaks_in_append balanced_def)
  ultimately show "balanced s'" using b kin(1) rev unfolding balanced_def by (auto simp: s' m less_Suc_eq)
qed

interpretation balances: stock_invariant balanced
proof unfold_locales
  show "keeps balanced (on_books (save_line l))" for l
    by (rule keepsI) (auto simp: on_books_Inr dest!: save_line_next elim!: balanced_frame)
  show "keeps balanced (on_books (ensure_actual_cost_set j))" for j
    by (rule keepsI) (auto simp: on_books_Inr dest!: ensure_actual_frame(2) elim!: balanced_frame)
  show "keeps balanced (move_stock i q c)" for i q c by (rule balanced_move)
next
  fix s and k :: stock_row assume b: "balanced s" and k: "sk_id k = next_id (books s)" "sk_quantity k = 0"
  have "moves_of (sk_id k) (movements s) = []"
    using b k(1) by (auto simp: moves_of_def filter_empty_conv balanced_def)
  then show "balanced (s\<lparr>books := (books s)\<lparr>next_id := Suc (next_id (books s))\<rparr>, stocks := stocks s @ [k]\<rparr>)"
    using b k by (auto simp: balanced_def movement_continuity_def ledger_quantity_def less_Suc_eq)
next
  fix s and k0 k :: stock_row assume b: "balanced s" and k: "k0 \<in> set (stocks s)" "sk_id k = sk_id k0" "sk_quantity k = sk_quantity k0"
  then show "balanced (s\<lparr>stocks := row_put sk_id k (stocks s)\<rparr>)"
    using b unfolding balanced_def movement_continuity_def by (auto dest!: row_put_in)
qed (auto elim: balanced_frame)

lemma balanced_audits: "balanced s \<Longrightarrow> stock_balances_audit s = [] \<and> movement_continuity s = []"
  by (auto simp: balanced_def stock_balances_audit_def inventory_balances_def filter_empty_conv)

section \<open>A log that only grows\<close>

interpretation log: stock_invariant "\<lambda>s. \<exists>new. movements s = ms @ new" for ms
proof unfold_locales
  show "keeps (\<lambda>s. \<exists>new. movements s = ms @ new) (move_stock i q c)" for i q c
  proof (rule keepsI)
    fix s m s'
    assume "\<exists>new. movements s = ms @ new" "move_stock i q c s = Inr (m, s')"
    then show "\<exists>new. movements s' = ms @ new" by (elim move_stock_Inr) auto
  qed
qed (auto intro!: keepsI simp: on_books_Inr)

section \<open>Named and reversed at most once\<close>

definition named_once :: "stockroom \<Rightarrow> bool" where
  "named_once s \<longleftrightarrow> distinct (List.map_filter mv_line (movements s)) \<and> distinct (List.map_filter reverses (movements s))"

lemma map_filter_snoc: "List.map_filter f (xs @ [x]) = List.map_filter f xs @ (case f x of None \<Rightarrow> [] | Some y \<Rightarrow> [y])"
  by (simp add: List.map_filter_def split: option.splits)

lemma set_map_filter: "y \<in> set (List.map_filter f xs) \<longleftrightarrow> (\<exists>x \<in> set xs. f x = Some y)"
  by (force simp: List.map_filter_def)

interpretation once: stock_invariant named_once
proof unfold_locales
  show "keeps named_once (move_stock i q c)" for i q c
  proof (rule keepsI)
    fix s m s'
    assume "named_once s" "move_stock i q c s = Inr (m, s')"
    then show "named_once s'"
      by (elim move_stock_Inr) (auto simp: named_once_def map_filter_snoc set_map_filter split: option.splits)
  qed
qed (auto intro!: keepsI simp: on_books_Inr named_once_def)

section \<open>The summaries of the books\<close>

lemma ensure_actual_ledger: "keeps ledger_ok (ensure_actual_cost_set j)"
proof (rule keepsI)
  fix d i d'
  assume ok: "ledger_ok d" and run: "ensure_actual_cost_set j d = Inr (i, d')"
  have "totals_of (next_id d) (cost_lines d) = \<lparr>sum_cost = 0, sum_rev = 0, sum_hours = 0\<rparr>"
    by (rule totals_of_none) (use ok in \<open>fastforce simp: ledger_ok_def\<close>)
  with ok ensure_actual_cases [OF run] show "ledger_ok d'" by (fastforce simp: ledger_ok_def)
qed

interpretation summaries_kept: stock_invariant "\<lambda>s. ledger_ok (books s)"
proof unfold_locales
  show "keeps (\<lambda>s. ledger_ok (books s)) (move_stock i q c)" for i q c
  proof (rule keepsI)
    fix s m s'
    assume "ledger_ok (books s)" "move_stock i q c s = Inr (m, s')"
    then show "ledger_ok (books s')" by (elim move_stock_Inr) (auto simp: ledger_ok_def)
  qed
  show "keeps (\<lambda>s. ledger_ok (books s)) (on_books (save_line l))" for l
    by (rule keepsI) (auto simp: on_books_Inr intro: keepsD [OF save_line_keeps_ledger])
  show "keeps (\<lambda>s. ledger_ok (books s)) (on_books (ensure_actual_cost_set j))" for j
    by (rule keepsI) (auto simp: on_books_Inr intro: keepsD [OF ensure_actual_ledger])
qed (auto simp: ledger_ok_def)

end
