(* ===== verification/Stock_Audit.thy ===== *)
theory Stock_Audit
  imports Stock_Invariants
begin

text \<open>
  The seven audits of the stockroom as one invariant. Inside an operation some of it is owed: cost
  lines written and not yet named by a movement (\<open>owed\<close>), goods booked on an order line and not yet
  delivered (\<open>due\<close>), a count half posted (\<open>sheet\<close>). \<open>audited\<close> says what holds apart from that, each
  step of an operation has a lemma that says what it adds or settles, and between operations
  nothing is owed.
\<close>

section \<open>What the audits rest on\<close>

definition is_delivery :: "movement_kind \<Rightarrow> bool" where
  "is_delivery k \<longleftrightarrow> k = Delivery \<or> k = DeliveryOpening"

definition costs_ok :: "uuid set \<Rightarrow> stockroom \<Rightarrow> bool" where
  "costs_ok owed s \<longleftrightarrow> (\<forall>m \<in> set (movements s). moves_to_a_job (mv_kind m) \<longrightarrow> cost_matches s m)
     \<and> (\<forall>l \<in> set (cost_lines (books s)). stock_owned l \<and> line_id l \<notin> owed
          \<longrightarrow> (\<exists>m \<in> set (movements s). mv_line m = Some (line_id l) \<and> moves_to_a_job (mv_kind m)))"

definition reversals_ok :: "stockroom \<Rightarrow> bool" where
  "reversals_ok s \<longleftrightarrow> (\<forall>m \<in> set (movements s). mv_kind m = Returned \<or> mv_kind m = DeliveryReversal \<longrightarrow> reversal_matches s m)"

definition deliveries_ok :: "stockroom \<Rightarrow> bool" where
  "deliveries_ok s \<longleftrightarrow> (\<forall>k \<in> set (stocks s). stored_money (sk_unit_cost k) = sk_unit_cost k)
     \<and> (\<forall>m \<in> set (movements s). is_delivery (mv_kind m) \<longrightarrow>
          (\<exists>k \<in> set (stocks s). sk_id k = mv_stock m \<and> sk_unit_cost k = mv_unit_cost m)
          \<and> (\<exists>q. delivered m = Some q \<and> on_grid cent q))"

text \<open>A posted count line and the movement that posts it.\<close>

definition posts :: "stock_movement \<Rightarrow> stocktake_line \<Rightarrow> bool" where
  "posts m l \<longleftrightarrow> mv_take_line m = Some (tl_id l) \<and> tl_stock l = Some (mv_stock m) \<and> mv_unit_cost m = tl_unit_cost l
     \<and> (\<exists>c. counted_quantity l = Some c \<and> quantity_change m = c - expected_quantity l)"

definition is_posted :: "stockroom \<Rightarrow> uuid \<Rightarrow> bool" where
  "is_posted s i \<longleftrightarrow> (\<exists>t \<in> set (stocktakes s). tk_id t = i \<and> posted_at t \<noteq> None)"

definition settled :: "stocktake_line \<Rightarrow> bool" where
  "settled l \<longleftrightarrow> counted_quantity l = None \<or> counted_quantity l = Some (expected_quantity l)"

definition counts_ok :: "uuid option \<Rightarrow> stockroom \<Rightarrow> bool" where
  "counts_ok sheet s \<longleftrightarrow> distinct (map tl_id (take_lines s)) \<and> distinct (map tk_id (stocktakes s))
     \<and> (\<forall>t \<in> set (stocktakes s). tk_id t < next_id (books s))
     \<and> (\<forall>l \<in> set (take_lines s). tl_id l < next_id (books s) \<and> tl_take l < next_id (books s))
     \<and> (\<forall>m \<in> set (movements s). mv_kind m = Counted \<longrightarrow>
          (\<exists>l \<in> set (take_lines s). posts m l \<and> (sheet = Some (tl_take l) \<or> is_posted s (tl_take l))))
     \<and> (\<forall>l \<in> set (take_lines s). is_posted s (tl_take l) \<longrightarrow> settled l
          \<or> (\<exists>m \<in> set (movements s). mv_take_line m = Some (tl_id l)))"

definition receipts_ok :: "(uuid \<Rightarrow> rat) \<Rightarrow> stockroom \<Rightarrow> bool" where
  "receipts_ok due s \<longleftrightarrow> (\<forall>l \<in> set (order_lines s). on_grid cent (received_quantity l)
     \<and> received_quantity l = receipts_of s (ol_id l) + due (ol_id l))"

text \<open>What the audits read of a stock row.\<close>

definition stock_card :: "stock_row \<Rightarrow> uuid \<times> uuid option \<times> rat" where
  "stock_card k = (sk_id k, source_line k, sk_unit_cost k)"

lemma stock_card_eq [simp]: "stock_card k = stock_card k' \<longleftrightarrow>
    sk_id k = sk_id k' \<and> source_line k = source_line k' \<and> sk_unit_cost k = sk_unit_cost k'"
  by (simp add: stock_card_def)

definition stock_cards :: "stockroom \<Rightarrow> (uuid \<times> uuid option \<times> rat) set" where
  "stock_cards s = set (map stock_card (stocks s))"

definition orders_known :: "stockroom \<Rightarrow> bool" where
  "orders_known s \<longleftrightarrow> (\<forall>l \<in> set (order_lines s). ol_id l < next_id (books s) \<and> on_grid cent (ol_quantity l))
     \<and> (\<forall>c \<in> stock_cards s. \<forall>i. fst (snd c) = Some i \<longrightarrow> i < next_id (books s))"

definition keyed :: "stockroom \<Rightarrow> bool" where
  "keyed s \<longleftrightarrow> balanced s \<and> named_once s \<and> ledger_ok (books s) \<and> fresh_lines (books s)"

definition audited :: "uuid option \<Rightarrow> (uuid \<Rightarrow> rat) \<Rightarrow> uuid set \<Rightarrow> stockroom \<Rightarrow> bool" where
  "audited sheet due owed s \<longleftrightarrow> keyed s \<and> costs_ok owed s \<and> reversals_ok s \<and> deliveries_ok s
     \<and> counts_ok sheet s \<and> receipts_ok due s \<and> orders_known s"

definition nothing_due :: "uuid \<Rightarrow> rat" where "nothing_due = (\<lambda>_. 0)"

abbreviation sound_stock :: "stockroom \<Rightarrow> bool" where
  "sound_stock \<equiv> audited None nothing_due {}"

lemma count_matches_sound:
  assumes "counts_ok None s" "m \<in> set (movements s)" "mv_kind m = Counted"
  shows "count_matches s m"
proof -
  from assms obtain l where l: "l \<in> set (take_lines s)" "posts m l" "is_posted s (tl_take l)"
    and d: "distinct (map tl_id (take_lines s))" "distinct (map tk_id (stocktakes s))"
    by (auto simp: counts_ok_def)
  from l(3) obtain t where t: "t \<in> set (stocktakes s)" "tk_id t = tl_take l" "posted_at t \<noteq> None"
    by (auto simp: is_posted_def)
  have "row_get tl_id (tl_id l) (take_lines s) = Some l" "row_get tk_id (tl_take l) (stocktakes s) = Some t"
    using row_get_self [OF d(1) l(1) refl] row_get_self [OF d(2) t(1) t(2)] by auto
  with l(2) t(3) show ?thesis by (auto simp: count_matches_def posts_def)
qed

lemma count_is_moved_sound:
  assumes "counts_ok None s" "l \<in> set (take_lines s)"
  shows "count_is_moved s l"
proof (cases "row_get tk_id (tl_take l) (stocktakes s)")
  case None
  then show ?thesis by (simp add: count_is_moved_def)
next
  case (Some t)
  then have "posted_at t \<noteq> None \<longrightarrow> is_posted s (tl_take l)" by (auto simp: is_posted_def dest: row_get_Some)
  with Some assms show ?thesis by (auto simp: count_is_moved_def counts_ok_def settled_def list_ex_iff)
qed

lemma sound_audits: "sound_stock s \<Longrightarrow> inventory_audit_findings s = []"
  using balanced_audits [of s] count_matches_sound [of s] count_is_moved_sound [of s]
  by (auto simp: inventory_audit_findings_def audited_def keyed_def job_cost_counterparts_def costs_ok_def
      unlinked_inventory_costs_def reversal_evidence_def reversals_ok_def stocktake_evidence_def
      supplier_delivery_totals_def receipts_ok_def filter_empty_conv list_ex_iff nothing_due_def)

section \<open>Books that keep the charges of stock\<close>

definition books_extend :: "db \<Rightarrow> db \<Rightarrow> bool" where
  "books_extend d d' \<longleftrightarrow> (\<forall>i c. get_line d i = Some c \<longrightarrow> stock_owned c \<longrightarrow> get_line d' i = Some c)
     \<and> (\<forall>i c. get_cost_set d i = Some c \<longrightarrow> (\<exists>c'. get_cost_set d' i = Some c' \<and> cs_job c' = cs_job c \<and> cs_kind c' = cs_kind c))"

lemma books_extend_reads:
  assumes "books_extend d d'"
  shows "line_set_kind d l = Some k \<Longrightarrow> line_set_kind d' l = Some k"
    "line_set_kind d l \<noteq> None \<Longrightarrow> line_job_id d' l = line_job_id d l"
  using assms by (cases "get_cost_set d (cost_set l)"; force simp: books_extend_def line_set_kind_def line_job_id_def)+

lemma cost_matches_owned:
  "cost_matches s m \<Longrightarrow> \<exists>i c. mv_line m = Some i \<and> get_line (books s) i = Some c \<and> stock_owned c \<and> cost_of s m = Some c"
  by (auto simp: cost_matches_def cost_of_def stock_owned_def bind_eq_Some_conv split: option.splits if_splits)

lemma cost_of_extend:
  assumes "books_extend (books s) (books s')" "cost_matches s m"
  shows "cost_of s' m = cost_of s m" "cost_matches s' m"
proof -
  from cost_matches_owned [OF assms(2)] obtain i c where c: "mv_line m = Some i" "get_line (books s) i = Some c"
    "stock_owned c" "cost_of s m = Some c" by blast
  then have "get_line (books s') i = Some c" using assms(1) by (auto simp: books_extend_def)
  with c show same: "cost_of s' m = cost_of s m" by (simp add: cost_of_def)
  have "line_set_kind (books s) c = Some Actual" using assms(2) c(4) by (simp add: cost_matches_def)
  then have "line_set_kind (books s') c = Some Actual" "job_of_cost s' c = job_of_cost s c"
    using books_extend_reads [OF assms(1)] by (auto simp: job_of_cost_def)
  with assms(2) c(4) same show "cost_matches s' m" by (simp add: cost_matches_def)
qed

lemma books_extend_refl [simp]: "books_extend d d"
  by (simp add: books_extend_def)

lemma books_extend_id [simp]: "books_extend d (d\<lparr>next_id := n\<rparr>)"
  by (simp add: books_extend_def get_line_def get_cost_set_def)

text \<open>A save of a line that is new, or that stock does not own.\<close>

lemma get_row_write: "row_get key i (row_write key r rows) = (if i = key r then Some r else row_get key i rows)"
proof (cases "row_get key (key r) rows")
  case None
  moreover have "row_get key i [r] = (if i = key r then Some r else None)" by (auto simp: row_get_def)
  ultimately show ?thesis by (auto simp: row_write_def row_get_append split: option.splits)
next
  case (Some x)
  then have "key r \<in> key ` set rows" using row_get_Some [OF Some] by (metis imageI)
  with Some show ?thesis by (simp add: row_write_def row_get_put_same row_get_put_other)
qed

lemma save_line_extends:
  assumes "save_line l d = Inr (l', d')" "\<forall>c. get_line d (line_id l) = Some c \<longrightarrow> \<not> stock_owned c"
  shows "books_extend d d'" "get_line d' (line_id l) = Some l'" "cost_lines d' = row_write line_id l' (cost_lines d)"
    "next_id d' = next_id d"
proof -
  have run: "l' = assign_entry_seq d l" "d' = record_line_change (get_line d (line_id l)) (Some l') (write_line l' d)"
    using assms(1) unfolding save_line_Inr by auto
  have id': "line_id l' = line_id l" by (simp add: run(1))
  show lines: "cost_lines d' = row_write line_id l' (cost_lines d)" "next_id d' = next_id d"
    by (simp_all add: run(2) write_line_def)
  show "get_line d' (line_id l) = Some l'" by (simp add: get_line_def lines get_row_write id')
  have "get_cost_set d' i = map_option (\<lambda>c. c\<lparr>summary := apply_change (cs_id c) (get_line d (line_id l)) (Some l') (summary c)\<rparr>)
      (get_cost_set d i)" for i
    by (simp add: get_cost_set_def run(2) record_line_change_sets write_line_def row_get_map)
  then show "books_extend d d'"
    using assms(2) by (auto simp: books_extend_def get_line_def lines get_row_write id')
qed

lemma ensure_actual_extends:
  assumes "ensure_actual_cost_set j d = Inr (i, d')" "ledger_ok d"
  shows "books_extend d d'"
  using ensure_actual_cases [OF assms(1)]
proof (elim disjE exE conjE)
  fix c js
  assume "d' = d\<lparr>next_id := Suc (next_id d), cost_sets := cost_sets d @ [c], jobs := js\<rparr>"
  then show ?thesis by (auto simp: books_extend_def get_line_def get_cost_set_def row_get_append)
qed simp

section \<open>Steps of an operation\<close>

lemma reversal_frame:
  assumes costs: "costs_ok owed s" and m: "m \<in> set (movements s)" "reversal_matches s m"
    and books: "books_extend (books s) (books s')" and grown: "movements s' = movements s @ new"
  shows "reversal_matches s' m"
proof -
  from m(2) obtain i m0 where m0: "reverses m = Some i" "row_get mv_id i (movements s) = Some m0"
    by (auto simp: reversal_matches_def bind_eq_Some_conv split: option.splits)
  have same: "cost_of s' x = cost_of s x" if "x \<in> set (movements s)" "moves_to_a_job (mv_kind x)" for x
    using costs cost_of_extend(1) [OF books] that by (auto simp: costs_ok_def)
  have "cost_of s' m0 = cost_of s m0 \<and> cost_of s' m = cost_of s m" if "mv_kind m = Returned"
    using m that row_get_Some [OF m0(2)] m0 same by (auto simp: reversal_matches_def moves_to_a_job_def)
  with m(2) m0 show ?thesis by (auto simp: reversal_matches_def grown row_get_append)
qed

lemma audited_books:
  assumes a: "audited sheet due owed s" and books: "books_extend (books s) d"
    and keys: "ledger_ok d" "fresh_lines d" "next_id (books s) \<le> next_id d"
    and new: "\<And>l. l \<in> set (cost_lines d) \<Longrightarrow> stock_owned l \<Longrightarrow> line_id l \<notin> owed' \<Longrightarrow>
      l \<in> set (cost_lines (books s)) \<and> line_id l \<notin> owed"
  shows "audited sheet due owed' (s\<lparr>books := d\<rparr>)"
proof -
  let ?s = "s\<lparr>books := d\<rparr>"
  have costs: "costs_ok owed s" and rev: "reversals_ok s" using a by (simp_all add: audited_def)
  have "keyed ?s" using a keys by (auto simp: audited_def keyed_def named_once_def elim: balanced_frame)
  moreover have "costs_ok owed' ?s"
    using costs new cost_of_extend(2) [of s ?s] books by (fastforce simp: costs_ok_def)
  moreover have "reversals_ok ?s"
    using rev reversal_frame [OF costs, of _ ?s "[]"] books by (auto simp: reversals_ok_def)
  moreover have "deliveries_ok ?s" "counts_ok sheet ?s" "receipts_ok due ?s" "orders_known ?s"
    using a keys(3) by (fastforce simp: audited_def deliveries_ok_def counts_ok_def is_posted_def receipts_ok_def
        receipts_of_def of_order_line_def orders_known_def stock_cards_def)+
  ultimately show ?thesis by (simp add: audited_def)
qed

lemma cost_reads:
  assumes "get_line (books s') = get_line (books s)" "line_job_id (books s') = line_job_id (books s)"
    "line_set_kind (books s') = line_set_kind (books s)"
  shows "cost_of s' = cost_of s" "cost_matches s' = cost_matches s"
  unfolding fun_eq_iff cost_matches_def cost_of_def job_of_cost_def assms by auto

lemma reversal_reads:
  assumes "cost_of s' = cost_of s" "movements s' = movements s"
  shows "reversal_matches s' = reversal_matches s"
  unfolding fun_eq_iff reversal_matches_def assms by (rule allI, rule refl)

lemma of_order_line_cards: "of_order_line s i = map fst (filter (\<lambda>c. fst (snd c) = Some i) (map stock_card (stocks s)))"
  by (simp add: of_order_line_def filter_map comp_def stock_card_def)

lemma receipts_of_cards:
  "map stock_card (stocks s') = map stock_card (stocks s) \<Longrightarrow> movements s' = movements s \<Longrightarrow> receipts_of s' = receipts_of s"
  by (simp add: fun_eq_iff receipts_of_def of_order_line_cards)

lemma stock_cards_in: "k \<in> set (stocks s) \<Longrightarrow> (sk_id k, source_line k, sk_unit_cost k) \<in> stock_cards s"
  by (auto simp: stock_cards_def stock_card_def)

lemma deliveries_cards: "deliveries_ok s \<longleftrightarrow>
   (\<forall>c \<in> stock_cards s. stored_money (snd (snd c)) = snd (snd c))
     \<and> (\<forall>m \<in> set (movements s). is_delivery (mv_kind m) \<longrightarrow>
          (\<exists>c \<in> stock_cards s. fst c = mv_stock m \<and> snd (snd c) = mv_unit_cost m)
          \<and> (\<exists>q. delivered m = Some q \<and> on_grid cent q))"
  by (simp add: deliveries_ok_def stock_card_def stock_cards_def)

lemma row_put_cards:
  assumes "distinct (map sk_id ks)" "k0 \<in> set ks" "stock_card k = stock_card k0"
  shows "map stock_card (row_put sk_id k ks) = map stock_card ks"
proof -
  have "x = k0" if "x \<in> set ks" "sk_id x = sk_id k0" for x
    using key_inj [OF assms(1) that(1) assms(2) that(2)] .
  with assms(3) show ?thesis unfolding row_put_def map_map by (intro map_cong) auto
qed

lemma audited_stocks:
  assumes a: "audited sheet due owed s" and bal: "balanced (s\<lparr>stocks := ks\<rparr>)"
    and cards: "map stock_card ks = map stock_card (stocks s)"
  shows "audited sheet due owed (s\<lparr>stocks := ks\<rparr>)"
proof -
  let ?s = "s\<lparr>stocks := ks\<rparr>"
  have "receipts_of ?s = receipts_of s" by (rule receipts_of_cards) (simp_all add: cards)
  then have "receipts_ok due ?s = receipts_ok due s" by (simp add: receipts_ok_def)
  moreover have "map stock_card (stocks ?s) = map stock_card (stocks s)" using cards by simp
  then have "stock_cards ?s = stock_cards s" by (simp only: stock_cards_def)
  then have "deliveries_ok ?s = deliveries_ok s" "orders_known ?s = orders_known s"
    by (simp_all add: deliveries_cards orders_known_def)
  moreover have "keyed ?s" using a bal by (simp add: audited_def keyed_def named_once_def)
  moreover have reads: "cost_of ?s = cost_of s" "cost_matches ?s = cost_matches s" by (rule cost_reads; simp)+
  then have "costs_ok owed ?s = costs_ok owed s" "reversals_ok ?s = reversals_ok s"
    using reversal_reads [OF reads(1)] by (simp_all add: costs_ok_def reversals_ok_def)
  moreover have "counts_ok sheet ?s = counts_ok sheet s" by (simp add: counts_ok_def is_posted_def)
  ultimately show ?thesis using a by (simp add: audited_def)
qed

lemma stored_money_idem [simp]: "stored_money (stored_money x) = stored_money x"
  by (simp add: stored_money_def half_up.idem)

lemma audited_open:
  assumes a: "audited sheet due owed s" and k: "sk_id k = next_id (books s)" "sk_quantity k = 0"
    and src: "\<And>i. source_line k = Some i \<Longrightarrow> i < next_id (books s)" and s': "s' = s\<lparr>books := (books s)\<lparr>next_id := Suc (next_id (books s))\<rparr>, stocks := stocks s @ [stored_stock k]\<rparr>"
  shows "audited sheet due owed s'"
proof -
  have bal: "balanced s" and keys: "keyed s" using a by (simp_all add: audited_def keyed_def)
  then have "balanced s'" unfolding s'
    using k by (intro balances.open_stock) (simp_all add: stored_stock_def)
  then have "keyed s'" using keys by (auto simp: keyed_def named_once_def s' ledger_ok_def fresh_lines_def)
  moreover have "mv_stock m \<noteq> sk_id k" if "m \<in> set (movements s)" for m
    using bal that k by (auto simp: balanced_def)
  then have "receipts_of s' i = receipts_of s i" for i
    by (auto simp: receipts_of_def of_order_line_def s' stored_stock_def intro!: arg_cong [where f = sum_list]
        cong: filter_cong)
  then have "receipts_ok due s' = receipts_ok due s" by (simp add: receipts_ok_def s')
  have books: "get_line (books s') = get_line (books s)" "line_job_id (books s') = line_job_id (books s)"
    "line_set_kind (books s') = line_set_kind (books s)"
    by (simp_all add: s' fun_eq_iff get_line_def get_cost_set_def line_job_id_def line_set_kind_def)
  have "costs_ok owed s' = costs_ok owed s" "reversals_ok s' = reversals_ok s"
    using cost_reads [OF books] reversal_reads [of s' s] by (simp_all add: costs_ok_def reversals_ok_def s')
  moreover have "deliveries_ok s'" using a by (fastforce simp: audited_def deliveries_ok_def s' stored_stock_def)
  moreover have "counts_ok sheet s'" using a by (fastforce simp: audited_def counts_ok_def is_posted_def s')
  moreover have "stock_cards s' = insert (stock_card (stored_stock k)) (stock_cards s)" by (auto simp: stock_cards_def s')
  then have "orders_known s'"
    using a src by (fastforce simp: audited_def orders_known_def s' stock_card_def stored_stock_def less_Suc_eq)
  ultimately show ?thesis using a \<open>keyed s'\<close> \<open>receipts_ok due s' = receipts_ok due s\<close> by (simp add: audited_def)
qed

lemma audited_counts:
  assumes a: "audited sheet due owed s" and c: "counts_ok sheet' (s\<lparr>stocktakes := a, take_lines := b\<rparr>)"
  shows "audited sheet' due owed (s\<lparr>stocktakes := a, take_lines := b\<rparr>)"
proof -
  let ?s = "s\<lparr>stocktakes := a, take_lines := b\<rparr>"
  have reads: "cost_of ?s = cost_of s" "cost_matches ?s = cost_matches s" by (rule cost_reads; simp)+
  have "receipts_of ?s = receipts_of s" by (rule receipts_of_cards) simp_all
  then have "receipts_ok due ?s = receipts_ok due s" by (simp add: receipts_ok_def)
  with a c reads reversal_reads [OF reads(1)] balances.sheet_lines [OF balances.sheets] show ?thesis
    by (simp add: audited_def keyed_def named_once_def costs_ok_def reversals_ok_def deliveries_ok_def orders_known_def
        stock_cards_def)
qed

lemma audited_orders:
  assumes a: "audited sheet due owed s" and c: "receipts_ok due' (s\<lparr>orders := a, order_lines := b\<rparr>)"
    and known: "\<And>l. l \<in> set b \<Longrightarrow> ol_id l < next_id (books s) \<and> on_grid cent (ol_quantity l)"
  shows "audited sheet due' owed (s\<lparr>orders := a, order_lines := b\<rparr>)"
proof -
  let ?s = "s\<lparr>orders := a, order_lines := b\<rparr>"
  have reads: "cost_of ?s = cost_of s" "cost_matches ?s = cost_matches s" by (rule cost_reads; simp)+
  with a c known reversal_reads [OF reads(1)] balances.ordering_lines [OF balances.ordering] show ?thesis
    by (simp add: audited_def keyed_def named_once_def costs_ok_def reversals_ok_def deliveries_ok_def counts_ok_def
        is_posted_def orders_known_def stock_cards_def)
qed

section \<open>A movement\<close>

definition is_receipt :: "movement_kind \<Rightarrow> bool" where
  "is_receipt k \<longleftrightarrow> k = Delivery \<or> k = DeliveryOpening \<or> k = DeliveryReversal"

definition source_of :: "stockroom \<Rightarrow> uuid \<Rightarrow> uuid option" where
  "source_of s i = Option.bind (row_get sk_id i (stocks s)) source_line"

lemma source_of_stock: "balanced s \<Longrightarrow> k \<in> set (stocks s) \<Longrightarrow> source_of s (sk_id k) = source_line k"
  by (simp add: source_of_def balanced_def row_get_distinct)

lemma in_order_line: "balanced s \<Longrightarrow> k \<in> set (stocks s) \<Longrightarrow> sk_id k \<in> set (of_order_line s i) \<longleftrightarrow> source_line k = Some i"
  by (auto simp: of_order_line_def balanced_def distinct_map dest: inj_onD)

definition due_after :: "(uuid \<Rightarrow> rat) \<Rightarrow> stockroom \<Rightarrow> uuid \<Rightarrow> rat \<Rightarrow> movement_context \<Rightarrow> uuid \<Rightarrow> rat" where
  "due_after due s i q c = (\<lambda>l. due l - (if is_receipt (mc_kind c) \<and> source_of s i = Some l then q else 0))"

definition owed_after :: "uuid set \<Rightarrow> movement_context \<Rightarrow> uuid set" where
  "owed_after owed c = owed - (if moves_to_a_job (mc_kind c) then set_option (map_option line_id (mc_cost c)) else {})"

text \<open>The cost line of a movement to a job, as the caller wrote it.\<close>

definition charged :: "stockroom \<Rightarrow> movement_context \<Rightarrow> bool" where
  "charged s c \<longleftrightarrow> (moves_to_a_job (mc_kind c) \<longrightarrow> (\<exists>l. mc_cost c = Some l \<and> get_line (books s) (line_id l) = Some l
     \<and> kind l = Material \<and> approved l
     \<and> managed_by l = Some (if mc_kind c = Counted then OwnedByStocktake else OwnedByStock)))"

lemma move_cards:
  assumes "balanced s" "get_stock s i = Inr k"
  shows "map stock_card (stocks (moved_state k m s)) = map stock_card (stocks s)"
  using assms get_stock_in [OF assms(2)] by (auto simp: balanced_def intro: row_put_cards)

lemma move_books:
  "get_line (books (moved_state k m s)) = get_line (books s)" "line_job_id (books (moved_state k m s)) = line_job_id (books s)"
  "line_set_kind (books (moved_state k m s)) = line_set_kind (books s)" "get_cost_set (books (moved_state k m s)) = get_cost_set (books s)"
  by (simp_all add: fun_eq_iff get_line_def get_cost_set_def line_job_id_def line_set_kind_def)

lemma move_costs:
  assumes costs: "costs_ok owed s" and run: "move_stock i q c s = Inr (m, s')" and charge: "charged s c"
  shows "costs_ok (owed_after owed c) s'"
proof -
  from move_stock_Inr [OF run] obtain k where m: "m = movement_of k q c (next_id (books s))" and s': "s' = moved_state k m s"
    and kinds: "mc_kind c \<notin> {Opening, JobOpening, DeliveryOpening}" and ck: "check_counterpart s q c = Inr ()" by metis
  have same: "cost_matches s' = cost_matches s" "cost_of s' = cost_of s"
    unfolding s' by (rule cost_reads; rule move_books)+
  have new: "cost_matches s m" if job: "moves_to_a_job (mc_kind c)"
  proof -
    from charge job obtain l where l: "mc_cost c = Some l" "get_line (books s) (line_id l) = Some l" "kind l = Material"
      "approved l" "managed_by l = Some (if mc_kind c = Counted then OwnedByStocktake else OwnedByStock)"
      by (auto simp: charged_def)
    with ck job kinds show ?thesis
      by (auto simp: cost_matches_def cost_of_def m check_counterpart_def bindR_eq_Inr moves_to_a_job_def)
  qed
  from charge have named: "mv_line m = map_option line_id (mc_cost c)" by (simp add: m)
  show ?thesis
    using costs new unfolding costs_ok_def same(1)
    by (auto simp: s' owed_after_def named m split: if_splits option.splits)
qed

lemma move_receipts:
  assumes bal: "balanced s" and rec: "receipts_ok due s" and run: "move_stock i q c s = Inr (m, s')"
  shows "receipts_ok (due_after due s i q c) s'"
proof -
  from move_stock_Inr [OF run] obtain k where k: "get_stock s i = Inr k"
    and m: "m = movement_of k q c (next_id (books s))" and s': "s' = moved_state k m s"
    and kinds: "mc_kind c \<notin> {Opening, JobOpening, DeliveryOpening}" by metis
  have kin: "k \<in> set (stocks s)" "sk_id k = i" using get_stock_in [OF k] by auto
  have src: "source_of s i = source_line k" using source_of_stock [OF bal kin(1)] kin(2) by simp
  have ids: "of_order_line s' l = of_order_line s l" for l
    by (simp only: of_order_line_cards s' move_cards [OF bal k])
  have "receipts_of s' l = receipts_of s l + (if is_receipt (mc_kind c) \<and> source_of s i = Some l then q else 0)" for l
    using in_order_line [OF bal kin(1), of l] kinds unfolding receipts_of_def ids src
    by (auto simp: m is_receipt_def delivered_def s')
  then have "received_quantity l = receipts_of s' (ol_id l) + due_after due s i q c (ol_id l) \<longleftrightarrow>
      received_quantity l = receipts_of s (ol_id l) + due (ol_id l)" for l
    by (simp add: due_after_def)
  then show ?thesis using rec unfolding receipts_ok_def s' moved_state_simps by blast
qed

lemma audited_move:
  assumes a: "audited sheet due owed s" and run: "move_stock i q c s = Inr (m, s')" and charge: "charged s c"
    and undone: "mc_kind c = Returned \<or> mc_kind c = DeliveryReversal \<Longrightarrow> reversal_matches s' m"
    and received: "mc_kind c = Delivery \<Longrightarrow> on_grid cent q \<and> mc_cost c = None"
    and counted: "mc_kind c = Counted \<Longrightarrow> \<exists>l \<in> set (take_lines s). posts m l \<and> (sheet = Some (tl_take l) \<or> is_posted s (tl_take l))"
  shows "audited sheet (due_after due s i q c) (owed_after owed c) s'"
proof -
  from move_stock_Inr [OF run] obtain k where k: "get_stock s i = Inr k"
    and m: "m = movement_of k q c (next_id (books s))" and s': "s' = moved_state k m s"
    and kinds: "mc_kind c \<notin> {Opening, JobOpening, DeliveryOpening}" by metis
  have kin: "k \<in> set (stocks s)" "sk_id k = i" using get_stock_in [OF k] by auto
  have bal: "balanced s" and costs: "costs_ok owed s" and rec: "receipts_ok due s"
    using a by (simp_all add: audited_def keyed_def)
  have card: "\<exists>c \<in> stock_cards s. fst c = sk_id k \<and> snd (snd c) = sk_unit_cost k" using stock_cards_in [OF kin(1)] by force
  have cards: "stock_cards s' = stock_cards s" by (simp only: stock_cards_def s' move_cards [OF bal k])
  have "keyed s'"
    using a keepsD [OF balances.move _ run] keepsD [OF once.move _ run] keepsD [OF summaries_kept.move _ run]
    by (auto simp: audited_def keyed_def fresh_lines_def s')
  moreover have "reversals_ok s'"
    using a undone reversal_frame [OF costs, of _ s' "[m]"] by (auto simp: audited_def reversals_ok_def s' m)
  moreover have "deliveries_ok s'"
    using a received kinds card unfolding deliveries_cards audited_def cards
    by (auto simp: s' m is_delivery_def delivered_def)
  moreover have "counts_ok sheet s'"
    using a counted by (auto simp: audited_def counts_ok_def is_posted_def s' m less_Suc_eq)
  moreover have "orders_known s'" using a unfolding audited_def orders_known_def cards by (auto simp: s' less_Suc_eq)
  ultimately show ?thesis using move_costs [OF costs run charge] move_receipts [OF bal rec run] by (simp add: audited_def)
qed

end
