(* ===== verification/Stock_Operations.thy ===== *)
theory Stock_Operations
  imports Stock_Audit
begin

text \<open>
  Every operation of the stockroom leaves nothing owed: \<open>sound_stock\<close>, and with it an empty report of
  the audits, is kept by moving, issuing and returning stock, by counts and their corrections, and,
  for quantities of at most two decimals that are allocated in full, by receipts and reversals.
\<close>

section \<open>Writing the books\<close>

definition booked :: "stockroom \<Rightarrow> stockroom \<Rightarrow> bool" where
  "booked s s' \<longleftrightarrow> (\<exists>d. s' = s\<lparr>books := d\<rparr> \<and> books_extend (books s) d)"

lemma booked_refl [simp]: "booked s s"
  by (auto simp: booked_def intro: exI [of _ "books s"])

lemma books_extend_trans:
  assumes "books_extend d e" "books_extend e f"
  shows "books_extend d f"
  unfolding books_extend_def
proof (intro conjI allI impI)
  fix i c assume "get_line d i = Some c" "stock_owned c"
  then show "get_line f i = Some c" using assms by (simp add: books_extend_def)
next
  fix i c assume "get_cost_set d i = Some c"
  then obtain c1 where c1: "get_cost_set e i = Some c1" "cs_job c1 = cs_job c" "cs_kind c1 = cs_kind c"
    using assms(1) unfolding books_extend_def by blast
  then obtain c2 where "get_cost_set f i = Some c2" "cs_job c2 = cs_job c1" "cs_kind c2 = cs_kind c1"
    using assms(2) unfolding books_extend_def by blast
  with c1 show "\<exists>c'. get_cost_set f i = Some c' \<and> cs_job c' = cs_job c \<and> cs_kind c' = cs_kind c" by auto
qed

lemma bookedI: "books_extend (books s) d \<Longrightarrow> booked s (s\<lparr>books := d\<rparr>)"
  unfolding booked_def by blast

lemma booked_trans:
  assumes "booked s t" "booked t u"
  shows "booked s u"
proof -
  from assms(1) obtain d where d: "t = s\<lparr>books := d\<rparr>" "books_extend (books s) d" unfolding booked_def by blast
  from assms(2) obtain e where "u = t\<lparr>books := e\<rparr>" "books_extend (books t) e" unfolding booked_def by blast
  with d have "u = s\<lparr>books := e\<rparr>" "books_extend (books s) e" by (auto intro: books_extend_trans)
  then show ?thesis by (simp add: bookedI)
qed

lemma booked_frame:
  assumes "booked s s'"
  shows "stocks s' = stocks s" "movements s' = movements s" "stocktakes s' = stocktakes s" "take_lines s' = take_lines s"
    "orders s' = orders s" "order_lines s' = order_lines s" "source_of s' = source_of s"
  using assms by (auto simp: booked_def source_of_def fun_eq_iff)

lemma audited_keyed: "audited sheet due owed s \<Longrightarrow> balanced s" "audited sheet due owed s \<Longrightarrow> ledger_ok (books s)"
  "audited sheet due owed s \<Longrightarrow> fresh_lines (books s)" "audited sheet due owed s \<Longrightarrow> distinct (map sk_id (stocks s))"
  by (simp_all add: audited_def keyed_def balanced_def)

lemma number_step:
  assumes "audited sheet due owed s"
  shows "audited sheet due owed (s\<lparr>books := (books s)\<lparr>next_id := Suc (next_id (books s))\<rparr>\<rparr>)"
  using audited_keyed(2,3) [OF assms] by (intro audited_books [OF assms]) (auto simp: ledger_ok_def fresh_lines_def)

lemma ensure_step:
  assumes a: "audited sheet due owed s" and run: "on_books (ensure_actual_cost_set j) s = Inr (i, s')"
  shows "audited sheet due owed s'" "booked s s'" "cost_lines (books s') = cost_lines (books s)"
proof -
  from run obtain d where d: "ensure_actual_cost_set j (books s) = Inr (i, d)" and s': "s' = s\<lparr>books := d\<rparr>"
    by (auto simp: on_books_Inr)
  note ext = ensure_actual_extends [OF d audited_keyed(2) [OF a]] and frame = ensure_actual_frame [OF d]
  show "booked s s'" "cost_lines (books s') = cost_lines (books s)" using ext frame s' by (auto simp: booked_def)
  have "fresh_lines d" using audited_keyed(3) [OF a] frame by (fastforce simp: fresh_lines_def)
  then show "audited sheet due owed s'" unfolding s'
    using keepsD [OF ensure_actual_ledger audited_keyed(2) [OF a] d] frame ext
    by (intro audited_books [OF a]) auto
qed

lemma save_step:
  assumes a: "audited sheet due owed s" and run: "on_books (save_line l) s = Inr (l', s')"
    and free: "\<forall>c. get_line (books s) (line_id l) = Some c \<longrightarrow> \<not> stock_owned c" and known: "line_id l < next_id (books s)"
  shows "audited sheet due (insert (line_id l) owed) s'" "booked s s'" "get_line (books s') (line_id l) = Some l'"
    "l' = assign_entry_seq (books s) l"
proof -
  from run obtain d where d: "save_line l (books s) = Inr (l', d)" and s': "s' = s\<lparr>books := d\<rparr>"
    by (auto simp: on_books_Inr)
  note ext = save_line_extends [OF d free]
  show "booked s s'" "get_line (books s') (line_id l) = Some l'" using ext s' by (auto simp: booked_def)
  show l': "l' = assign_entry_seq (books s) l" using d unfolding save_line_Inr by auto
  have lines: "x = l' \<or> x \<in> set (cost_lines (books s))" if "x \<in> set (cost_lines d)" for x
    using that unfolding ext(3) by (rule row_write_in)
  have "ledger_ok d" by (rule keepsD [OF save_line_keeps_ledger audited_keyed(2) [OF a] d])
  moreover have "fresh_lines d"
    using known audited_keyed(3) [OF a] ext(4) by (auto simp: fresh_lines_def l' dest!: lines)
  ultimately show "audited sheet due (insert (line_id l) owed) s'" unfolding s'
    using ext(1,4) by (intro audited_books [OF a]) (auto simp: l' dest!: lines)
qed

lemma material_step:
  assumes a: "audited sheet due owed s" and run: "create_material_line cs t q c r refs m own s = Inr (l, s')"
  shows "audited sheet due (insert (line_id l) owed) s'" "booked s s'" "get_line (books s') (line_id l) = Some l"
    "kind l = Material" "approved l" "managed_by l = Some own" "quantity l = q" "unit_cost l = c" "unit_rev l = r"
    "line_id l = next_id (books s)"
proof -
  let ?n = "next_id (books s)" and ?s = "s\<lparr>books := (books s)\<lparr>next_id := Suc (next_id (books s))\<rparr>\<rparr>"
  from run obtain day where save: "on_books (save_line (material_line ?n cs t q c r refs m day own)) ?s = Inr (l, s')"
    by (auto simp: create_material_line_def tx_Inr tx_prims)
  have n: "line_id (material_line ?n cs t q c r refs m day own) = ?n" by (simp add: material_line_def)
  have "get_line (books ?s) ?n = None"
    using audited_keyed(3) [OF a] by (fastforce simp: get_line_def row_get_None fresh_lines_def)
  then have free: "\<forall>x. get_line (books ?s) (line_id (material_line ?n cs t q c r refs m day own)) = Some x \<longrightarrow> \<not> stock_owned x"
    by (simp add: n)
  have known: "line_id (material_line ?n cs t q c r refs m day own) < next_id (books ?s)" by (simp add: n)
  note step = save_step [OF number_step [OF a] save free known]
  show id: "line_id l = ?n" unfolding step(4) by (simp add: material_line_def)
  show "audited sheet due (insert (line_id l) owed) s'" "get_line (books s') (line_id l) = Some l"
    using step(1,3) unfolding id n by auto
  have "booked s ?s" by (auto simp: booked_def)
  then show "booked s s'" using step(2) by (rule booked_trans)
  show "kind l = Material" "approved l" "managed_by l = Some own" "quantity l = q" "unit_cost l = c" "unit_rev l = r"
    unfolding step(4) by (simp_all add: material_line_def)
qed

section \<open>Stock rows\<close>

lemma insert_step:
  assumes a: "audited sheet due owed s" and k: "sk_id k = next_id (books s)" "sk_quantity k = 0"
    and src: "\<And>i. source_line k = Some i \<Longrightarrow> i < next_id (books s)" and run: "insert_stock k (s\<lparr>books := (books s)\<lparr>next_id := Suc (next_id (books s))\<rparr>\<rparr>) = Inr (u, s')"
  shows "audited sheet due owed s'"
    "s' = s\<lparr>books := (books s)\<lparr>next_id := Suc (next_id (books s))\<rparr>, stocks := stocks s @ [stored_stock k]\<rparr>"
proof -
  show s': "s' = s\<lparr>books := (books s)\<lparr>next_id := Suc (next_id (books s))\<rparr>, stocks := stocks s @ [stored_stock k]\<rparr>"
    using run by (auto simp: insert_stock_def tx_Inr tx_prims)
  show "audited sheet due owed s'" by (rule audited_open [OF a k src s'])
qed

lemma sound_create_stock: "keeps sound_stock (create_stock d c)"
  by (rule keepsI) (auto simp: create_stock_def tx_Inr tx_prims apply_stock_fields_def elim!: insert_step(1) [rotated 4])

lemma sound_edit:
  assumes a: "audited sheet due owed s" and k: "get_stock s i = Inr k0" "stock_card k = stock_card k0" "sk_quantity k = sk_quantity k0"
  shows "audited sheet due owed (s\<lparr>stocks := row_put sk_id k (stocks s)\<rparr>)"
  using get_stock_in [OF k(1)] k(2,3) audited_keyed [OF a]
  by (intro audited_stocks [OF a] balances.edit_stock row_put_cards) auto

lemma sound_update_stock: "keeps sound_stock (update_stock i d)"
proof (rule keepsI)
  fix s x s'
  assume a: "sound_stock s" and run: "update_stock i d s = Inr (x, s')"
  then obtain k where k: "get_stock s i = Inr k"
    and s': "s' = s\<lparr>stocks := row_put sk_id (stored_stock (apply_stock_fields d k)) (stocks s)\<rparr>"
    by (auto simp: update_stock_def save_stock_def tx_Inr tx_prims)
  have "stored_money (sk_unit_cost k) = sk_unit_cost k"
    using a get_stock_in [OF k] by (auto simp: audited_def deliveries_ok_def)
  then show "sound_stock s'" unfolding s' by (intro sound_edit [OF a k]) (simp_all add: stored_stock_def apply_stock_fields_def)
qed

lemma sound_deactivate: "keeps sound_stock (deactivate_stock i)"
  by (rule keepsI) (auto simp: deactivate_stock_def tx_Inr tx_prims elim!: sound_edit)

section \<open>Issues and returns\<close>

lemma due_after_other [simp]: "\<not> is_receipt (mc_kind c) \<Longrightarrow> due_after due s i q c = due"
  by (simp add: due_after_def)

lemma is_receipt_simps [simp]:
  "is_receipt Delivery" "is_receipt DeliveryReversal" "\<not> is_receipt Issue" "\<not> is_receipt Returned" "\<not> is_receipt Counted"
  by (simp_all add: is_receipt_def)

lemma moves_to_a_job_simps [simp]:
  "moves_to_a_job Issue" "moves_to_a_job Returned" "moves_to_a_job Counted" "moves_to_a_job JobOpening"
  "\<not> moves_to_a_job Delivery" "\<not> moves_to_a_job DeliveryReversal"
  by (simp_all add: moves_to_a_job_def)

text \<open>The movement that names the line just written settles what was owed.\<close>

lemma charge_move:
  assumes a: "audited sheet due {line_id l} s" and run: "move_stock i q c s = Inr (m, s')"
    and l: "mc_cost c = Some l" "get_line (books s) (line_id l) = Some l" "kind l = Material" "approved l"
      "managed_by l = Some (if mc_kind c = Counted then OwnedByStocktake else OwnedByStock)"
    and kinds: "mc_kind c = Issue \<or> mc_kind c = Returned \<or> mc_kind c = Counted"
    and undone: "mc_kind c = Returned \<Longrightarrow> reversal_matches s' m"
    and counted: "mc_kind c = Counted \<Longrightarrow> \<exists>l \<in> set (take_lines s). posts m l \<and> (sheet = Some (tl_take l) \<or> is_posted s (tl_take l))"
  shows "audited sheet due {} s'"
proof -
  have "charged s c" using l by (auto simp: charged_def)
  then have "audited sheet (due_after due s i q c) (owed_after {line_id l} c) s'"
    using kinds undone counted by (intro audited_move [OF a run]) auto
  moreover have "due_after due s i q c = due" "owed_after {line_id l} c = {}"
    using kinds l(1) by (auto simp: owed_after_def)
  ultimately show ?thesis by simp
qed

text \<open>What a movement leaves as it was.\<close>

lemma move_frame:
  assumes "move_stock i q c s = Inr (m, s')"
  shows "order_lines s' = order_lines s" "orders s' = orders s" "take_lines s' = take_lines s" "stocktakes s' = stocktakes s"
    "movements s' = movements s @ [m]" "mv_stock m = i" "quantity_change m = q" "mv_kind m = mc_kind c"
    "mv_take_line m = mc_take_line c" "reverses m = mc_reverses c" "counterpart_job m = mc_job c"
    "mc_cost c = Some l \<Longrightarrow> mv_unit_cost m = unit_cost l" "mv_line m = map_option line_id (mc_cost c)"
    "booked s s0 \<Longrightarrow> books s0 = books s \<Longrightarrow> cost_of s' = cost_of s"
proof -
  from move_stock_Inr [OF assms] obtain k where k: "get_stock s i = Inr k"
    and m: "m = movement_of k q c (next_id (books s))" and s': "s' = moved_state k m s" by metis
  show "order_lines s' = order_lines s" "orders s' = orders s" "take_lines s' = take_lines s" "stocktakes s' = stocktakes s"
    "movements s' = movements s @ [m]" "mv_stock m = i" "quantity_change m = q" "mv_kind m = mc_kind c"
    "mv_take_line m = mc_take_line c" "reverses m = mc_reverses c" "counterpart_job m = mc_job c"
    "mv_line m = map_option line_id (mc_cost c)"
    using get_stock_in [OF k] by (simp_all add: s' m)
  show "mc_cost c = Some l \<Longrightarrow> mv_unit_cost m = unit_cost l" by (simp add: m)
  show "cost_of s' = cost_of s" unfolding s' by (rule cost_reads; rule move_books)
qed

text \<open>The balances, stock rows and sources a movement leaves, apart from the row it moves.\<close>

lemma move_stocks:
  assumes a: "balanced s" and run: "move_stock i q c s = Inr (m, s')"
  shows "source_of s' = source_of s"
    "get_stock s j = Inr k \<Longrightarrow> \<exists>k'. get_stock s' j = Inr k' \<and> stock_card k' = stock_card k"
proof -
  from move_stock_Inr [OF run] obtain k0 where k0: "get_stock s i = Inr k0" and s': "s' = moved_state k0 m s" by metis
  note row = get_stock_in [OF k0]
  have get: "row_get sk_id j (stocks s') = (if j = i then Some (projected (quantity_after m) k0) else row_get sk_id j (stocks s))" for j
    using row k0 by (auto simp: s' row_get_put_same row_get_put_other get_stock_Inr)
  show "source_of s' = source_of s" using k0 by (auto simp: source_of_def get get_stock_Inr fun_eq_iff)
  show "get_stock s j = Inr k \<Longrightarrow> \<exists>k'. get_stock s' j = Inr k' \<and> stock_card k' = stock_card k"
    using k0 by (auto simp: get_stock_Inr get)
qed

lemma reverse_issue_step:
  assumes a: "audited sheet due {} s" and run: "reverse_issue i staff reason s = Inr (m, s')"
  shows "audited sheet due {} s'"
proof (cases "find (\<lambda>m. reverses m = Some i) (movements s)")
  case (Some x)
  then have "s' = s" using run by (auto simp: reverse_issue_def tx_Inr tx_prims)
  with a show ?thesis by simp
next
  case None
  let ?c = "\<lambda>original credit. \<lparr>mc_kind = Returned, mc_reason = reason, mc_actor = Some staff,
    mc_job = counterpart_job original, mc_cost = Some credit, mc_take_line = None, mc_reverses = Some i\<rparr>"
  from None run obtain original cost credit s1 where original: "get_movement s i = Inr original"
    and cost: "returnable_issue_cost s original = Inr cost"
    and mat: "create_material_line (cost_set cost) (desc cost) (- quantity cost) (unit_cost cost) (unit_rev cost) [] [] OwnedByStock s
      = Inr (credit, s1)"
    and mv: "move_stock (mv_stock original) (quantity cost) (?c original credit) s1 = Inr (m, s')"
    by (auto simp: reverse_issue_def tx_Inr tx_prims)
  note line = material_step [OF a mat] and moved = move_frame [OF mv]
  have orig: "original \<in> set (movements s)" "row_get mv_id i (movements s) = Some original"
    using original by (auto simp: get_movement_def dest: row_get_Some)
  have c: "is_returnable_issue original" "cost_of s original = Some cost"
    using cost by (auto simp: returnable_issue_cost_def bindR_eq_Inr)
  have match: "cost_matches s original"
    using a orig(1) c(1) by (auto simp: audited_def costs_ok_def is_returnable_issue_def)
  obtain d where d: "s1 = s\<lparr>books := d\<rparr>" "books_extend (books s) d" using line(2) unfolding booked_def by blast
  have "cost_of s' original = Some cost"
    using cost_of_extend(1) [of s s1, OF _ match] d c(2) moved(14) [OF booked_refl] by simp
  moreover have "cost_of s' m = Some credit"
    using moved(14) [OF booked_refl] line(3) moved(13) by (simp add: cost_of_def)
  moreover have "unit_cost cost = mv_unit_cost original" using match c(2) by (simp add: cost_matches_def)
  ultimately have "reversal_matches s' m"
    using orig(2) c(1) booked_frame(2) [OF line(2)] moved
    by (auto simp: reversal_matches_def row_get_append is_returnable_issue_def line)
  then show ?thesis
    using line by (intro charge_move [OF _ mv]) simp_all
qed

lemma sound_reverse_issue: "keeps sound_stock (reverse_issue i staff reason)"
  by (rule keepsI) (rule reverse_issue_step)

text \<open>The line an issue writes, and the movement that names it.\<close>

definition issue_context :: "cost_line option \<Rightarrow> uuid \<Rightarrow> uuid \<Rightarrow> cost_line \<Rightarrow> movement_context" where
  "issue_context draft user j l = \<lparr>mc_kind = Issue,
     mc_reason = (if draft = None then ''Material issued to job'' else ''Workshop material approved''),
     mc_actor = Some user, mc_job = Some j, mc_cost = Some l, mc_take_line = None, mc_reverses = None\<rparr>"

lemma issue_line_Inr:
  assumes "issue_line item j qty user paid revenue draft s = Inr (l, s')"
  obtains cs s1 s2 m where "on_books (ensure_actual_cost_set j) s = Inr (cs, s1)"
    "move_stock item (- qty) (issue_context draft user j l) s2 = Inr (m, s')"
    "draft = None \<and> (\<exists>t p r refs meta. create_material_line cs t qty p r refs meta OwnedByStock s1 = Inr (l, s2))
     \<or> (\<exists>d l1. draft = Some d \<and> on_books (save_line l1) s1 = Inr (l, s2) \<and> line_id l1 = line_id d \<and> kind l1 = kind d
         \<and> approved l1 \<and> managed_by l1 = Some OwnedByStock \<and> quantity l1 = qty)"
proof (cases draft)
  case None
  from assms obtain cs s1 s2 m t p r refs meta where set: "on_books (ensure_actual_cost_set j) s = Inr (cs, s1)"
    and mv: "move_stock item (- qty) (issue_context draft user j l) s2 = Inr (m, s')"
    and mat: "create_material_line cs t qty p r refs meta OwnedByStock s1 = Inr (l, s2)"
    by (auto simp: None issue_line_def Let_def tx_Inr tx_prims issue_context_def)
  show ?thesis by (rule that [OF set mv]) (use None mat in blast)
next
  case (Some d)
  from assms obtain cs s1 s2 m resolved p desc' day refs meta where set: "on_books (ensure_actual_cost_set j) s = Inr (cs, s1)"
    and mv: "move_stock item (- qty) (issue_context draft user j l) s2 = Inr (m, s')"
    and save: "on_books (save_line (d\<lparr>managed_by := Some OwnedByStock, approved := True, quantity := qty, desc := desc',
      unit_cost := p, unit_rev := resolved, accounting_date := day, ext_refs := refs, line_meta := meta\<rparr>)) s1 = Inr (l, s2)"
    by (auto simp: Some issue_line_def Let_def tx_Inr tx_prims issue_context_def)
  show ?thesis by (rule that [OF set mv], rule disjI2, intro exI conjI, rule Some, rule save) simp_all
qed

lemma issue_line_step:
  assumes a: "audited sheet due {} s" and run: "issue_line item j qty user paid revenue draft s = Inr (l, s')"
    and free: "\<And>d. draft = Some d \<Longrightarrow> get_line (books s) (line_id d) = Some d \<and> kind d = Material \<and> managed_by d = None"
  shows "audited sheet due {} s'"
proof -
  from run obtain cs s1 s2 m where set: "on_books (ensure_actual_cost_set j) s = Inr (cs, s1)"
    and mv: "move_stock item (- qty) (issue_context draft user j l) s2 = Inr (m, s')"
    and line: "draft = None \<and> (\<exists>t p r refs meta. create_material_line cs t qty p r refs meta OwnedByStock s1 = Inr (l, s2))
     \<or> (\<exists>d l1. draft = Some d \<and> on_books (save_line l1) s1 = Inr (l, s2) \<and> line_id l1 = line_id d \<and> kind l1 = kind d
         \<and> approved l1 \<and> managed_by l1 = Some OwnedByStock \<and> quantity l1 = qty)"
    by (rule issue_line_Inr)
  note ens = ensure_step [OF a set]
  have "audited sheet due {line_id l} s2 \<and> get_line (books s2) (line_id l) = Some l \<and> kind l = Material \<and> approved l
      \<and> managed_by l = Some OwnedByStock"
    using line
  proof (elim disjE exE conjE)
    fix t p r refs meta
    assume "create_material_line cs t qty p r refs meta OwnedByStock s1 = Inr (l, s2)"
    from material_step [OF ens(1) this] show ?thesis by simp
  next
    fix d l1
    assume l1: "draft = Some d" "line_id l1 = line_id d" "kind l1 = kind d" "approved l1" "managed_by l1 = Some OwnedByStock"
      and save: "on_books (save_line l1) s1 = Inr (l, s2)"
    have d: "get_line (books s1) (line_id d) = Some d" "kind d = Material" "managed_by d = None"
      using free [OF l1(1)] ens(3) by (auto simp: get_line_def)
    then have "line_id d < next_id (books s1)"
      using audited_keyed(3) [OF ens(1)] by (auto simp: get_line_def fresh_lines_def dest: row_get_Some)
    then show ?thesis using save_step [OF ens(1) save] d l1 by (auto simp: stock_owned_def)
  qed
  then show ?thesis by (intro charge_move [OF _ mv, of _ _ l]) (auto simp: issue_context_def)
qed

lemma sound_consume: "keeps sound_stock (consume_stock item j qty user cost revenue line)"
proof (rule keepsI)
  fix s l s'
  assume a: "sound_stock s" and run: "consume_stock item j qty user cost revenue line s = Inr (l, s')"
  show "sound_stock s'"
  proof (cases line)
    case None
    with run show ?thesis by (auto simp: consume_stock_def tx_Inr tx_prims intro: issue_line_step [OF a])
  next
    case (Some i)
    with run obtain d where d: "get_line (books s) i = Some d" "check_selection s d item j qty = Inr ()"
      and rest: "s' = s \<or> managed_by d = None \<and> issue_line item j qty user cost revenue (Some d) s = Inr (l, s')"
      by (auto simp: consume_stock_def tx_Inr tx_prims split: if_splits)
    have "line_id d = i" using d(1) by (auto simp: get_line_def dest: row_get_Some)
    with d rest show ?thesis using a by (auto simp: check_selection_def intro: issue_line_step [OF a])
  qed
qed

end
