(* ===== verification/Stock_Counting.thy ===== *)
theory Stock_Counting
  imports Stock_Operations
begin

text \<open>
  Counts leave nothing owed: a draft touches no posted line, and posting moves every counted
  difference once, under a line of the sheet, before the sheet says it is posted.
\<close>

section \<open>Drafts\<close>

text \<open>Lines of posted sheets are what the audits read.\<close>

lemma counts_ok_posted:
  assumes "counts_ok None s" "movements s' = movements s" "is_posted s' = is_posted s"
    and "distinct (map tl_id (take_lines s'))" "distinct (map tk_id (stocktakes s'))"
    and "\<And>t. t \<in> set (stocktakes s') \<Longrightarrow> tk_id t < next_id (books s')"
    and "\<And>l. l \<in> set (take_lines s') \<Longrightarrow> tl_id l < next_id (books s') \<and> tl_take l < next_id (books s')"
    and "\<And>l. l \<in> set (take_lines s) \<Longrightarrow> is_posted s (tl_take l) \<Longrightarrow> l \<in> set (take_lines s')"
    and "\<And>l. l \<in> set (take_lines s') \<Longrightarrow> is_posted s (tl_take l) \<Longrightarrow> l \<in> set (take_lines s)"
  shows "counts_ok None s'"
  using assms(1) assms(4-9) unfolding counts_ok_def assms(2,3) by (auto; metis)

lemma sound_counts: "sound_stock s \<Longrightarrow> counts_ok None s"
  by (simp add: audited_def)

lemma counts_ok_D:
  assumes "counts_ok sheet s"
  shows "distinct (map tl_id (take_lines s))" "distinct (map tk_id (stocktakes s))"
    "t \<in> set (stocktakes s) \<Longrightarrow> tk_id t < next_id (books s)"
    "l \<in> set (take_lines s) \<Longrightarrow> tl_id l < next_id (books s) \<and> tl_take l < next_id (books s)"
  using assms by (simp_all add: counts_ok_def)

lemma new_take_step:
  assumes a: "sound_stock s" and n: "n = next_id (books s)"
    and s': "s' = s\<lparr>books := (books s)\<lparr>next_id := Suc n\<rparr>, stocktakes := stocktakes s @ [new_take n j staff c]\<rparr>"
  shows "sound_stock s'" "\<not> is_posted s' n" "n < next_id (books s')"
proof -
  let ?s = "s\<lparr>books := (books s)\<lparr>next_id := Suc n\<rparr>\<rparr>"
  have b: "sound_stock ?s" using number_step [OF a] by (simp add: n)
  note c = counts_ok_D [OF sound_counts [OF a]]
  have same: "is_posted s' = is_posted s" by (auto simp: fun_eq_iff is_posted_def s' new_take_def)
  have "counts_ok None s'"
    by (rule counts_ok_posted [OF sound_counts [OF a] _ same])
      (use c in \<open>fastforce simp: s' n new_take_def less_Suc_eq\<close>)+
  then have "counts_ok None (?s\<lparr>stocktakes := stocktakes s @ [new_take n j staff c], take_lines := take_lines s\<rparr>)"
    by (simp add: s')
  from audited_counts [OF b this] show "sound_stock s'" by (simp add: s')
  show "\<not> is_posted s' n" using c(3) unfolding same is_posted_def n by (metis less_irrefl)
  show "n < next_id (books s')" by (simp add: s')
qed

lemma row_write_distinct: "distinct (map key rows) \<Longrightarrow> distinct (map key (row_write key r rows))"
  by (auto simp: row_write_def row_get_None)

lemma row_write_iff:
  assumes "distinct (map key rows)"
  shows "x \<in> set (row_write key r rows) \<longleftrightarrow> x = r \<or> x \<in> set rows \<and> key x \<noteq> key r"
proof (cases "row_get key (key r) rows")
  case None
  then have "key y \<noteq> key r" if "y \<in> set rows" for y using that by (metis row_get_None imageI)
  with None show ?thesis by (auto simp: row_write_def)
next
  case (Some y)
  then have "key r \<in> key ` set rows" using row_get_Some [OF Some] by (metis imageI)
  with Some show ?thesis by (auto simp: row_write_def row_put_def)
qed

lemma take_line_step:
  assumes a: "sound_stock s" and run: "write_take_line l s = Inr (u, s')"
    and ids: "tl_id l < next_id (books s)" "tl_take l < next_id (books s)" and draft: "\<not> is_posted s (tl_take l)"
    and own: "\<And>x. x \<in> set (take_lines s) \<Longrightarrow> tl_id x = tl_id l \<Longrightarrow> tl_take x = tl_take l"
  shows "sound_stock s'" "books s' = books s" "stocktakes s' = stocktakes s" "is_posted s' = is_posted s"
proof -
  have s': "s' = s\<lparr>take_lines := row_write tl_id l (take_lines s)\<rparr>"
    using run by (auto simp: write_take_line_def tx_Inr tx_prims)
  then show "books s' = books s" "stocktakes s' = stocktakes s" by simp_all
  show same: "is_posted s' = is_posted s" by (simp add: fun_eq_iff is_posted_def s')
  note c = counts_ok_D [OF sound_counts [OF a]]
  have "counts_ok None s'"
  proof (rule counts_ok_posted [OF sound_counts [OF a] _ same])
    show "distinct (map tl_id (take_lines s'))" by (simp add: s' row_write_distinct c(1))
  qed (use c ids draft own in \<open>auto simp: s' row_write_iff [OF c(1)]\<close>)
  then have "counts_ok None (s\<lparr>stocktakes := stocktakes s, take_lines := row_write tl_id l (take_lines s)\<rparr>)"
    by (simp add: s')
  from audited_counts [OF a this] show "sound_stock s'" by (simp add: s')
qed

lemma observed_step:
  assumes a: "sound_stock s" and sheet: "\<not> is_posted s i" "i < next_id (books s)"
    and run: "bindT (on_books fresh_id) (\<lambda>n. write_take_line (observed_line n i k)) s = Inr (u, s')"
  shows "sound_stock s'" "\<not> is_posted s' i" "i < next_id (books s')"
proof -
  let ?n = "next_id (books s)" and ?s = "s\<lparr>books := (books s)\<lparr>next_id := Suc (next_id (books s))\<rparr>\<rparr>"
  have w: "write_take_line (observed_line ?n i k) ?s = Inr (u, s')" using run by (auto simp: tx_Inr)
  have p: "is_posted ?s = is_posted s" by (simp add: fun_eq_iff is_posted_def)
  have "tl_take x = i" if "x \<in> set (take_lines ?s)" "tl_id x = ?n" for x
    using that counts_ok_D(4) [OF sound_counts [OF a]] by fastforce
  then have "\<And>x. x \<in> set (take_lines ?s) \<Longrightarrow> tl_id x = tl_id (observed_line ?n i k) \<Longrightarrow> tl_take x = tl_take (observed_line ?n i k)"
    by (simp add: observed_line_def)
  from take_line_step [OF number_step [OF a] w _ _ _ this] sheet
  show "sound_stock s'" "\<not> is_posted s' i" "i < next_id (books s')"
    by (auto simp: observed_line_def p)
qed

lemma sound_create_take: "keeps sound_stock (create_stocktake staff k)"
proof (rule keepsI)
  fix s x s'
  assume a: "sound_stock s" and run: "create_stocktake staff k s = Inr (x, s')"
  define n where "n = next_id (books s)"
  from run obtain j s1 where s1: "s1 = s\<lparr>books := (books s)\<lparr>next_id := Suc n\<rparr>, stocktakes := stocktakes s @ [new_take n j staff None]\<rparr>"
    and rest: "s' = s1 \<or> (\<exists>item u. bindT (on_books fresh_id) (\<lambda>m. write_take_line (observed_line m n item)) s1 = Inr (u, s'))"
    by (auto simp: create_stocktake_def tx_Inr tx_prims n_def split: option.splits; blast)
  note step = new_take_step [OF a n_def s1]
  show "sound_stock s'" using rest step observed_step(1) [OF step] by blast
qed

lemma sound_correct: "keeps sound_stock (correct_stocktake i staff h)"
proof (rule keepsI)
  fix s x s'
  assume a: "sound_stock s" and run: "correct_stocktake i staff h s = Inr (x, s')"
  define n where "n = next_id (books s)"
  let ?f = "\<lambda>k. bindT (readT (\<lambda>s. get_stock s k)) (\<lambda>item. bindT (on_books fresh_id) (\<lambda>m. write_take_line (observed_line m n item)))"
  have loop: "sound_stock t'" if "sound_stock t" "\<not> is_posted t n" "n < next_id (books t)" "forT ks ?f t = Inr (u, t')" for t t' u ks
    using that
  proof (induction ks arbitrary: t)
    case Nil
    then show ?case by (simp add: ret_def)
  next
    case (Cons k ks)
    then obtain v t1 where f: "?f k t = Inr (v, t1)" and rest: "forT ks ?f t1 = Inr (u, t')"
      unfolding forT.simps seqT_eq_Inr by blast
    from f obtain item where "bindT (on_books fresh_id) (\<lambda>m. write_take_line (observed_line m n item)) t = Inr (v, t1)"
      unfolding bindT_eq_Inr [of "readT _"] readT_eq_Inr by blast
    from observed_step [OF Cons.prems(1-3) this] show ?case by (rule Cons.IH [OF _ _ _ rest])
  qed
  from run have "s' = s \<or> (\<exists>j ks u. forT ks ?f
      (s\<lparr>books := (books s)\<lparr>next_id := Suc n\<rparr>, stocktakes := stocktakes s @ [new_take n j staff (Some i)]\<rparr>) = Inr (u, s'))"
    by (auto simp: correct_stocktake_def tx_Inr tx_prims n_def split: option.splits)
  then show "sound_stock s'"
    using a loop new_take_step [OF a n_def refl] by blast
qed

lemma get_take_posted:
  assumes "counts_ok sheet s" "get_take s i = Inr t"
  shows "is_posted s i \<longleftrightarrow> posted_at t \<noteq> None" "t \<in> set (stocktakes s)" "tk_id t = i"
proof -
  show t: "t \<in> set (stocktakes s)" "tk_id t = i" using assms(2) by (auto simp: get_take_def dest: row_get_Some)
  have "x = t" if "x \<in> set (stocktakes s)" "tk_id x = i" for x
    using key_inj [OF counts_ok_D(2) [OF assms(1)] that(1) t(1)] that(2) t(2) by simp
  with t show "is_posted s i \<longleftrightarrow> posted_at t \<noteq> None" unfolding is_posted_def by metis
qed

lemma save_take_line_step:
  assumes a: "sound_stock s" and sheet: "\<not> is_posted s i" "i < next_id (books s)" and known: "tw_id d < next_id (books s)"
    and run: "save_take_line i d s = Inr (u, s')"
  shows "sound_stock s'" "books s' = books s" "stocktakes s' = stocktakes s" "is_posted s' = is_posted s"
proof -
  from run have w: "write_take_line (saved_line i (now (books s)) d) s = Inr (u, s')"
    and "\<not> list_ex (\<lambda>l. tl_id l = tw_id d \<and> tl_take l \<noteq> i) (take_lines s)"
    unfolding save_take_line_def seqT_eq_Inr bindT_eq_Inr readT_eq_Inr getT_run by simp_all
  then have own: "tl_take l = i" if "l \<in> set (take_lines s)" "tl_id l = tw_id d" for l
    using that by (auto simp: list_ex_iff)
  note step = take_line_step [OF a w]
  show "sound_stock s'" "books s' = books s" "stocktakes s' = stocktakes s" "is_posted s' = is_posted s"
    using step sheet known own by (auto simp: saved_line_def)
qed

lemma drop_lines_step:
  assumes a: "sound_stock s" and draft: "\<not> is_posted s i" and run: "delete_other_lines i ids s = Inr (u, s')"
  shows "sound_stock s'" "books s' = books s" "stocktakes s' = stocktakes s" "is_posted s' = is_posted s"
proof -
  let ?ls = "filter (\<lambda>l. \<not> (tl_take l = i \<and> tl_id l \<notin> set ids)) (take_lines s)"
  have s': "s' = s\<lparr>take_lines := ?ls\<rparr>"
    using run by (auto simp: delete_other_lines_def Let_def tx_Inr tx_prims)
  then show "books s' = books s" "stocktakes s' = stocktakes s" by simp_all
  show same: "is_posted s' = is_posted s" by (simp add: fun_eq_iff is_posted_def s')
  note c = counts_ok_D [OF sound_counts [OF a]]
  have "counts_ok None s'"
    by (rule counts_ok_posted [OF sound_counts [OF a] _ same])
      (use c draft in \<open>auto simp: s' distinct_map_filter\<close>)
  then have "counts_ok None (s\<lparr>stocktakes := stocktakes s, take_lines := ?ls\<rparr>)" by (simp add: s')
  from audited_counts [OF a this] show "sound_stock s'" by (simp add: s')
qed

definition take_card :: "stocktake_row \<Rightarrow> uuid \<times> moment option" where
  "take_card t = (tk_id t, posted_at t)"

lemma is_posted_cards: "is_posted s i \<longleftrightarrow> (\<exists>p \<in> set (map take_card (stocktakes s)). fst p = i \<and> snd p \<noteq> None)"
  by (simp add: is_posted_def take_card_def)

lemma bump_step:
  assumes a: "sound_stock s" and t: "t \<in> set (stocktakes s)"
    and run: "put_take (t\<lparr>tk_version := v\<rparr>) s = Inr (u, s')"
  shows "sound_stock s'"
proof -
  let ?t = "t\<lparr>tk_version := v\<rparr>"
  have s': "s' = s\<lparr>stocktakes := row_put tk_id ?t (stocktakes s)\<rparr>"
    using run by (auto simp: put_take_def tx_prims)
  note c = counts_ok_D [OF sound_counts [OF a]]
  have same_id: "x = t" if "x \<in> set (stocktakes s)" "tk_id x = tk_id t" for x
    using key_inj [OF c(2) that(1) t that(2)] .
  have "map take_card (row_put tk_id ?t (stocktakes s)) = map take_card (stocktakes s)"
    unfolding row_put_def map_map using same_id by (intro map_cong) (auto simp: take_card_def)
  then have cards: "map take_card (stocktakes s') = map take_card (stocktakes s)" by (simp add: s')
  have "is_posted s' = is_posted s" by (rule ext) (simp only: is_posted_cards cards)
  then have "counts_ok None s'"
    by (rule counts_ok_posted [OF sound_counts [OF a], rotated])
      (use c t in \<open>auto simp: s' dest!: row_put_in\<close>)
  then have "counts_ok None (s\<lparr>stocktakes := row_put tk_id ?t (stocktakes s), take_lines := take_lines s\<rparr>)" by (simp add: s')
  from audited_counts [OF a this] show "sound_stock s'" by (simp add: s')
qed

lemma sound_save_take:
  assumes a: "sound_stock s" and run: "save_stocktake i ds h s = Inr (u, s')"
    and known: "\<And>d. d \<in> set ds \<Longrightarrow> tw_id d < next_id (books s)"
  shows "sound_stock s'"
proof -
  from run obtain sheet s1 s2 u1 u2 where sheet: "get_take s i = Inr sheet" and open': "require_draft sheet h = Inr ()"
    and loop: "forT (in_locking_order ds) (save_take_line i) s = Inr (u1, s1)" and del: "delete_other_lines i (map tw_id ds) s1 = Inr (u2, s2)"
    and put: "put_take (sheet\<lparr>tk_version := tk_version sheet + 1\<rparr>) s2 = Inr (u, s')"
    unfolding save_stocktake_def bindT_eq_Inr seqT_eq_Inr readT_eq_Inr requireT_eq_Inr by auto
  note c = sound_counts [OF a] note t = get_take_posted [OF c sheet]
  have "posted_at sheet = None" using open' by (simp add: require_draft_def bindR_eq_Inr)
  then have draft: "\<not> is_posted s i" "i < next_id (books s)"
    using t counts_ok_D(3) [OF c] by auto
  have "sound_stock t' \<and> books t' = books t \<and> stocktakes t' = stocktakes t \<and> is_posted t' = is_posted t"
    if "sound_stock t" "\<not> is_posted t i" "i < next_id (books t)" "\<forall>d \<in> set ds. tw_id d < next_id (books t)"
      "forT ds (save_take_line i) t = Inr (u, t')" for t t' u ds
    using that
  proof (induction ds arbitrary: t)
    case Nil
    then show ?case by (simp add: ret_def)
  next
    case (Cons d ds)
    then obtain v t1 where f: "save_take_line i d t = Inr (v, t1)" and rest: "forT ds (save_take_line i) t1 = Inr (u, t')"
      unfolding forT.simps seqT_eq_Inr by blast
    note step = save_take_line_step [OF Cons.prems(1-3) _ f]
    from Cons.IH [OF _ _ _ _ rest] step Cons.prems show ?case by simp
  qed
  from this [OF a draft _ loop] known have s1: "sound_stock s1" "stocktakes s1 = stocktakes s" "\<not> is_posted s1 i"
    using draft by auto
  note d = drop_lines_step [OF s1(1,3) del]
  show ?thesis by (rule bump_step [OF d(1) _ put]) (simp add: d(3) s1(2) t(2))
qed

section \<open>Posting\<close>

text \<open>What posting leaves of a line as it was counted.\<close>

definition count_card :: "stocktake_line \<Rightarrow> uuid \<times> uuid \<times> rat option \<times> rat" where
  "count_card l = (tl_id l, tl_take l, counted_quantity l, expected_quantity l)"

definition posting :: "uuid \<Rightarrow> stocktake_line \<Rightarrow> stockroom \<Rightarrow> stockroom \<Rightarrow> bool" where
  "posting i l s s' \<longleftrightarrow> stocktakes s' = stocktakes s \<and> map count_card (take_lines s') = map count_card (take_lines s)
     \<and> (\<forall>x \<in> set (take_lines s). tl_id x \<noteq> tl_id l \<longrightarrow> x \<in> set (take_lines s')) \<and> set (movements s) \<subseteq> set (movements s')"

text \<open>Material found gets a row of its own, and the line names it.\<close>

lemma found_step:
  assumes a: "audited (Some i) due {} s" and l: "l \<in> set (take_lines s)" "tl_take l = i" "tl_stock l = None"
    and run: "stock_to_post l s = Inr (k, s')"
  shows "audited (Some i) due {} s'" "posting i l s s'" "l\<lparr>tl_stock := Some k\<rparr> \<in> set (take_lines s')"
proof -
  from run obtain holding t u s1 where ins: "insert_stock (found_stock (next_id (books s)) holding t l)
      (s\<lparr>books := (books s)\<lparr>next_id := Suc (next_id (books s))\<rparr>\<rparr>) = Inr (u, s1)"
    and k: "k = next_id (books s)" and s': "s' = s1\<lparr>take_lines := row_put tl_id (l\<lparr>tl_stock := Some k\<rparr>) (take_lines s1)\<rparr>"
    by (auto simp: stock_to_post_def l(3) tx_Inr tx_prims)
  let ?l = "l\<lparr>tl_stock := Some k\<rparr>"
  have "sk_id (found_stock (next_id (books s)) holding t l) = next_id (books s)"
    "sk_quantity (found_stock (next_id (books s)) holding t l) = 0"
    "\<And>i. source_line (found_stock (next_id (books s)) holding t l) = Some i \<Longrightarrow> i < next_id (books s)"
    by (simp_all add: found_stock_def)
  note step = insert_step [OF a this ins]
  have same: "take_lines s1 = take_lines s" "movements s1 = movements s" "stocktakes s1 = stocktakes s"
    by (simp_all add: step(2))
  have c: "counts_ok (Some i) s1" using step(1) by (simp add: audited_def)
  note cd = counts_ok_D [OF c]
  have only: "x = l" if "x \<in> set (take_lines s)" "tl_id x = tl_id l" for x
    using key_inj [OF cd(1) [unfolded same] that(1) l(1) that(2)] .
  have in_put: "x \<in> set (row_put tl_id ?l (take_lines s)) \<longleftrightarrow> x = ?l \<or> x \<in> set (take_lines s) \<and> x \<noteq> l" for x
    using l(1) only by (auto simp: row_put_def)
  show "?l \<in> set (take_lines s')" by (simp add: s' same in_put)
  have "map count_card (row_put tl_id ?l (take_lines s)) = map count_card (take_lines s)"
    unfolding row_put_def map_map using only by (intro map_cong) (auto simp: count_card_def)
  then show "posting i l s s'" by (auto simp: posting_def s' same in_put)
  have p: "is_posted s' = is_posted s1" by (simp add: fun_eq_iff is_posted_def s')
  have other: "posts m x \<Longrightarrow> x \<noteq> l" for m x by (auto simp: posts_def l(3))
  have "\<exists>x \<in> set (take_lines s'). posts m x \<and> (Some i = Some (tl_take x) \<or> is_posted s' (tl_take x))"
    if "m \<in> set (movements s')" "mv_kind m = Counted" for m
  proof -
    have "\<exists>x \<in> set (take_lines s). posts m x \<and> (Some i = Some (tl_take x) \<or> is_posted s1 (tl_take x))"
      using c that unfolding counts_ok_def s' by (simp add: same)
    then show ?thesis using other unfolding p by (auto simp: s' same in_put)
  qed
  moreover have "settled x \<or> (\<exists>m \<in> set (movements s'). mv_take_line m = Some (tl_id x))"
    if "x \<in> set (take_lines s')" "is_posted s' (tl_take x)" for x
  proof -
    have "\<forall>x \<in> set (take_lines s). is_posted s1 (tl_take x) \<longrightarrow> settled x \<or> (\<exists>m \<in> set (movements s). mv_take_line m = Some (tl_id x))"
      using c unfolding counts_ok_def by (simp add: same)
    moreover have "x = ?l \<or> x \<in> set (take_lines s)" using that(1) by (auto simp: s' same in_put)
    ultimately show ?thesis using that(2) l(1) unfolding p by (auto simp: s' same settled_def)
  qed
  ultimately have "counts_ok (Some i) s'"
    using cd l(1) unfolding counts_ok_def by (auto simp: s' same in_put)
  then have "counts_ok (Some i) (s1\<lparr>stocktakes := stocktakes s1, take_lines := row_put tl_id ?l (take_lines s1)\<rparr>)"
    by (simp add: s')
  from audited_counts [OF step(1) this] show "audited (Some i) due {} s'" by (simp add: s')
qed

lemma posting_refl [simp]: "posting i l s s"
  by (simp add: posting_def)

lemma posting_trans: "posting i l s t \<Longrightarrow> posting i l t u \<Longrightarrow> posting i l s u"
  by (auto simp: posting_def)

lemma booked_posting: "booked s s' \<Longrightarrow> posting i l s s'"
  using booked_frame [of s s'] by (simp add: posting_def)

lemma post_line_step:
  assumes a: "audited (Some i) due {} s" and l: "l \<in> set (take_lines s)" "tl_take l = i"
    and run: "post_line l staff j s = Inr (u, s')"
  shows "audited (Some i) due {} s' \<and> posting i l s s'
    \<and> (settled l \<or> (\<exists>m \<in> set (movements s'). mv_take_line m = Some (tl_id l)))"
proof (cases "settled l")
  case True
  then have "s' = s" using run by (auto simp: settled_def post_line_def tx_prims split: option.splits)
  with True a show ?thesis by simp
next
  case False
  then obtain counted where counted: "counted_quantity l = Some counted" "counted \<noteq> expected_quantity l"
    by (auto simp: settled_def)
  define c where "c = (\<lambda>reason cost. \<lparr>mc_kind = Counted, mc_reason = reason, mc_actor = Some staff, mc_job = Some j,
    mc_cost = Some cost, mc_take_line = Some (tl_id l), mc_reverses = None\<rparr>)"
  from run counted obtain reason k cs cost s1 s2 s3 m where stock: "stock_to_post l s = Inr (k, s1)"
    and set: "on_books (ensure_actual_cost_set j) s1 = Inr (cs, s2)"
    and mat: "create_material_line cs (Some (tl_description l)) (- (counted - expected_quantity l)) (tl_unit_cost l) 0 [] []
        OwnedByStocktake s2 = Inr (cost, s3)"
    and mv: "move_stock k (counted - expected_quantity l) (c reason cost) s3 = Inr (m, s')"
    by (auto simp: post_line_def Let_def c_def tx_Inr tx_prims split: option.splits)
  have s1: "audited (Some i) due {} s1" "posting i l s s1" "l\<lparr>tl_stock := Some k\<rparr> \<in> set (take_lines s1)"
  proof -
    have "audited (Some i) due {} s1 \<and> posting i l s s1 \<and> l\<lparr>tl_stock := Some k\<rparr> \<in> set (take_lines s1)"
    proof (cases "tl_stock l")
      case None
      with found_step [OF a l None stock] show ?thesis by simp
    next
      case (Some k')
      then have "k' = k" "s1 = s" using stock by (auto simp: stock_to_post_def tx_prims)
      moreover have "l\<lparr>tl_stock := Some k'\<rparr> = l" using Some by (cases l) simp
      ultimately show ?thesis using a l by simp
    qed
    then show "audited (Some i) due {} s1" "posting i l s s1" "l\<lparr>tl_stock := Some k\<rparr> \<in> set (take_lines s1)" by auto
  qed
  note ens = ensure_step [OF s1(1) set] note line = material_step [OF ens(1) mat] note moved = move_frame [OF mv]
  have "posts m (l\<lparr>tl_stock := Some k\<rparr>)"
    using moved(12) [of cost] by (auto simp: posts_def moved c_def line counted)
  moreover have "l\<lparr>tl_stock := Some k\<rparr> \<in> set (take_lines s3)"
    using s1(3) booked_frame(4) [OF ens(2)] booked_frame(4) [OF line(2)] by simp
  ultimately have "audited (Some i) due {} s'"
    using line l(2) by (intro charge_move [OF _ mv, of _ _ cost]) (auto simp: c_def)
  moreover have "posting i l s3 s'" using moved by (auto simp: posting_def)
  then have "posting i l s s'"
    using posting_trans [OF s1(2) posting_trans [OF booked_posting [OF ens(2)] posting_trans [OF booked_posting [OF line(2)]]]] by blast
  moreover have "m \<in> set (movements s')" "mv_take_line m = Some (tl_id l)" by (simp_all add: moved c_def)
  ultimately show ?thesis by blast
qed

lemma post_lines_step:
  assumes "audited (Some i) due {} s" "set ls \<subseteq> set (take_lines s)" "\<forall>l \<in> set ls. tl_take l = i" "distinct (map tl_id ls)"
    and "forT ls (\<lambda>l. seqT (readT (\<lambda>s. check_unmoved s l)) (post_line l staff j)) s = Inr (u, s')"
  shows "audited (Some i) due {} s' \<and> stocktakes s' = stocktakes s
    \<and> map count_card (take_lines s') = map count_card (take_lines s) \<and> set (movements s) \<subseteq> set (movements s')
    \<and> (\<forall>l \<in> set ls. settled l \<or> (\<exists>m \<in> set (movements s'). mv_take_line m = Some (tl_id l)))"
  using assms
proof (induction ls arbitrary: s)
  case Nil
  then show ?case by (simp add: ret_def)
next
  case (Cons l ls)
  then obtain v s1 where f: "post_line l staff j s = Inr (v, s1)"
    and more: "forT ls (\<lambda>l. seqT (readT (\<lambda>s. check_unmoved s l)) (post_line l staff j)) s1 = Inr (u, s')"
    unfolding forT.simps seqT_eq_Inr readT_eq_Inr by blast
  have l: "l \<in> set (take_lines s)" "tl_take l = i" using Cons.prems by auto
  from post_line_step [OF Cons.prems(1) l f]
  have s1: "audited (Some i) due {} s1" "posting i l s s1"
    "settled l \<or> (\<exists>m \<in> set (movements s1). mv_take_line m = Some (tl_id l))" by auto
  have kept: "x \<in> set (take_lines s) \<Longrightarrow> tl_id x \<noteq> tl_id l \<Longrightarrow> x \<in> set (take_lines s1)" for x
    using s1(2) unfolding posting_def by blast
  have side: "set ls \<subseteq> set (take_lines s1)" "\<forall>l \<in> set ls. tl_take l = i" "distinct (map tl_id ls)"
    using Cons.prems(2-4) by (auto intro!: kept simp: image_iff)
  from Cons.IH [OF s1(1) side more]
  have rest: "audited (Some i) due {} s'" "stocktakes s' = stocktakes s1"
    "map count_card (take_lines s') = map count_card (take_lines s1)" "set (movements s1) \<subseteq> set (movements s')"
    "\<forall>l \<in> set ls. settled l \<or> (\<exists>m \<in> set (movements s'). mv_take_line m = Some (tl_id l))"
    by blast+
  show ?case
  proof (intro conjI)
    show "\<forall>x \<in> set (l # ls). settled x \<or> (\<exists>m \<in> set (movements s'). mv_take_line m = Some (tl_id x))"
      using rest(4,5) s1(3) by (metis set_ConsD subsetD)
    show "set (movements s) \<subseteq> set (movements s')" using rest(4) s1(2) unfolding posting_def by blast
  qed (use rest s1(2) in \<open>simp_all add: posting_def\<close>)
qed

lemma post_sheet_step:
  assumes a: "audited (Some i) due {} s" and t: "t \<in> set (stocktakes s)" "tk_id t = i" "posted_at t' \<noteq> None" "tk_id t' = i"
    and moved: "\<And>l. l \<in> set (take_lines s) \<Longrightarrow> tl_take l = i \<Longrightarrow> settled l \<or> (\<exists>m \<in> set (movements s). mv_take_line m = Some (tl_id l))"
    and run: "put_take t' s = Inr (u, s')"
  shows "audited None due {} s'"
proof -
  have s': "s' = s\<lparr>stocktakes := row_put tk_id t' (stocktakes s)\<rparr>" using run by (auto simp: put_take_def tx_prims)
  have c: "counts_ok (Some i) s" using a by (simp add: audited_def)
  note cd = counts_ok_D [OF c]
  have same: "x = t" if "x \<in> set (stocktakes s)" "tk_id x = i" for x
    using key_inj [OF cd(2) that(1) t(1)] that(2) t(2) by metis
  have p: "is_posted s' k \<longleftrightarrow> k = i \<or> is_posted s k" for k
    unfolding is_posted_def s' row_put_def using t by (cases "k = i") auto
  have parts: "take_lines s' = take_lines s" "movements s' = movements s" "books s' = books s"
    "stocktakes s' = row_put tk_id t' (stocktakes s)" by (simp_all add: s')
  have "counts_ok None s'"
    using c moved t unfolding counts_ok_def p parts by (auto dest!: row_put_in) metis
  then have "counts_ok None (s\<lparr>stocktakes := row_put tk_id t' (stocktakes s), take_lines := take_lines s\<rparr>)" by (simp add: s')
  from audited_counts [OF a this] show ?thesis by (simp add: s')
qed

lemma sound_post: "keeps sound_stock (post_stocktake i h staff)"
proof (rule keepsI)
  fix s u s'
  assume a: "sound_stock s" and run: "post_stocktake i h staff s = Inr (u, s')"
  show "sound_stock s'"
  proof (cases "s' = s")
    case False
    let ?ls = "lines_to_post s i"
    from run False obtain sheet v s1 t where sheet: "get_take s i = Inr sheet"
      and loop: "forT ?ls (\<lambda>l. seqT (readT (\<lambda>s. check_unmoved s l)) (post_line l staff (tk_job sheet))) s = Inr (v, s1)"
      and put: "put_take (sheet\<lparr>posted_at := Some t, posted_by := Some staff, tk_version := tk_version sheet + 1\<rparr>) s1 = Inr (u, s')"
      unfolding post_stocktake_def bindT_eq_Inr seqT_eq_Inr readT_eq_Inr requireT_eq_Inr getT_run
      by (auto simp: tx_Inr tx_prims split: if_splits)
    note c = sound_counts [OF a] note tk = get_take_posted [OF c sheet]
    have start: "audited (Some i) nothing_due {} s" using a by (auto simp: audited_def counts_ok_def)
    have ls: "set ?ls \<subseteq> set (take_lines s)" "\<forall>l \<in> set ?ls. tl_take l = i" "distinct (map tl_id ?ls)"
      using counts_ok_D(1) [OF c] by (auto simp: set_lines_to_post lines_of_take_def distinct_lines_to_post)
    note posted = post_lines_step [OF start ls loop]
    have "settled l \<or> (\<exists>m \<in> set (movements s1). mv_take_line m = Some (tl_id l))"
      if "l \<in> set (take_lines s1)" "tl_take l = i" for l
    proof -
      have "count_card l \<in> set (map count_card (take_lines s))" using posted that(1) by (metis imageI set_map)
      then obtain l0 where l0: "l0 \<in> set (take_lines s)" "count_card l = count_card l0" by auto
      moreover have "l0 \<in> set ?ls" if "counted_quantity l0 \<noteq> None"
        using that l0 \<open>tl_take l = i\<close> by (auto simp: set_lines_to_post lines_of_take_def count_card_def)
      ultimately have "settled l0 \<or> (\<exists>m \<in> set (movements s1). mv_take_line m = Some (tl_id l0))"
        using posted by (cases "counted_quantity l0 = None") (auto simp: settled_def)
      then show ?thesis using l0 by (simp add: count_card_def settled_def)
    qed
    then show ?thesis
      using posted tk by (intro post_sheet_step [OF _ _ _ _ _ _ put]) auto
  qed (use a in simp)
qed

end
