(* ===== verification/Stock_Receiving.thy ===== *)
theory Stock_Receiving
  imports Stock_Counting
begin

text \<open>
  Receipts, reversals and orders leave nothing owed. A receipt has to be \<open>exact\<close>: its quantities have
  at most the two decimals of the received quantity, and the allocations of a line add up to
  what it says was received. The code asks for less, and \<open>inexact_receipt_found\<close> (in \<open>Stock_Sample\<close>) shows what
  a third decimal does.
\<close>

section \<open>Quantities on the grid\<close>

lemma on_grid_simps [simp]: "on_grid cent 0" "on_grid cent (- x) \<longleftrightarrow> on_grid cent x"
  by (simp_all add: on_grid_def)

lemma on_grid_add: "on_grid u x \<Longrightarrow> on_grid u y \<Longrightarrow> on_grid u (x + y)"
  by (simp add: on_grid_def add_divide_distrib)

lemma on_grid_diff: "on_grid u x \<Longrightarrow> on_grid u y \<Longrightarrow> on_grid u (x - y)"
  by (simp add: on_grid_def diff_divide_distrib)

lemma stored_money_grid [simp]: "on_grid cent (stored_money x)"
  by (simp add: stored_money_def cent_def half_up.grid)

lemma stored_money_exact: "on_grid cent x \<Longrightarrow> stored_money x = x"
  by (simp add: stored_money_def cent_def half_up.fixes_grid)

section \<open>Orders\<close>

lemma orders_step:
  assumes "audited sheet due owed s"
  shows "audited sheet due owed (s\<lparr>orders := x\<rparr>)"
proof -
  have "receipts_ok due (s\<lparr>orders := x, order_lines := order_lines s\<rparr>) = receipts_ok due s"
    by (simp add: receipts_ok_def receipts_of_def of_order_line_def)
  then have "audited sheet due owed (s\<lparr>orders := x, order_lines := order_lines s\<rparr>)"
    using assms by (intro audited_orders [OF assms]) (auto simp: audited_def orders_known_def)
  then show ?thesis by simp
qed

lemma lines_step:
  assumes a: "audited sheet due owed s"
    and new: "\<And>l. l \<in> set ls \<Longrightarrow> on_grid cent (received_quantity l) \<and> received_quantity l = receipts_of s (ol_id l) + due' (ol_id l)
      \<and> ol_id l < next_id (books s) \<and> on_grid cent (ol_quantity l)"
  shows "audited sheet due' owed (s\<lparr>order_lines := ls\<rparr>)"
proof -
  have same: "receipts_of (s\<lparr>orders := orders s, order_lines := ls\<rparr>) = receipts_of s" by (rule receipts_of_cards) simp_all
  have "receipts_ok due' (s\<lparr>orders := orders s, order_lines := ls\<rparr>)"
    unfolding receipts_ok_def same
  proof (rule ballI)
    fix l assume "l \<in> set (order_lines (s\<lparr>orders := orders s, order_lines := ls\<rparr>))"
    then have "l \<in> set ls" by simp
    from new [OF this] show "on_grid cent (received_quantity l) \<and> received_quantity l = receipts_of s (ol_id l) + due' (ol_id l)"
      by blast
  qed
  then have "audited sheet due' owed (s\<lparr>orders := orders s, order_lines := ls\<rparr>)"
    using new by (intro audited_orders [OF a]) auto
  then show ?thesis by simp
qed

lemma audited_lines:
  assumes "audited sheet due owed s" "l \<in> set (order_lines s)"
  shows "on_grid cent (received_quantity l)" "received_quantity l = receipts_of s (ol_id l) + due (ol_id l)"
    "ol_id l < next_id (books s)" "on_grid cent (ol_quantity l)"
  using assms by (auto simp: audited_def receipts_ok_def orders_known_def)

lemma sound_put_order [keeps_intros]: "keeps (audited sheet due owed) (put_order po)"
  by (rule keepsI) (auto simp: put_order_def tx_prims orders_step)

lemma sound_recompute [keeps_intros]: "keeps (audited sheet due owed) (recompute_purchase_order_status po)"
  unfolding recompute_purchase_order_status_def Let_def by (intro keeps_intros)

lemma sound_send [keeps_intros]: "keeps (audited sheet due owed) (send_state_change push po)"
  unfolding send_state_change_def
  by (rule keepsI) (auto simp: tx_Inr tx_prims split: if_splits sum.splits err.splits intro: keepsD [OF sound_put_order])

section \<open>Receiving\<close>

definition shifted :: "(uuid \<Rightarrow> rat) \<Rightarrow> uuid \<Rightarrow> rat \<Rightarrow> uuid \<Rightarrow> rat" where
  "shifted due l q = (\<lambda>x. due x + (if x = l then q else 0))"

lemma shifted_shifted [simp]: "shifted (shifted due l q) l r = shifted due l (q + r)"
  by (auto simp: shifted_def fun_eq_iff)

lemma shifted_zero [simp]: "shifted due l 0 = due"
  by (auto simp: shifted_def fun_eq_iff)

lemma received_step:
  assumes a: "audited sheet due owed s" and q: "on_grid cent q"
    and s': "s' = s\<lparr>order_lines := map (\<lambda>l. if ol_id l = i then l\<lparr>received_quantity := stored_money (received_quantity l + q)\<rparr>
      else l) (order_lines s)\<rparr>"
  shows "audited sheet (shifted due i q) owed s'"
  unfolding s'
proof (rule lines_step [OF a])
  fix l assume "l \<in> set (map (\<lambda>l. if ol_id l = i then l\<lparr>received_quantity := stored_money (received_quantity l + q)\<rparr> else l)
    (order_lines s))"
  then obtain l0 where l0: "l0 \<in> set (order_lines s)"
    and l: "l = (if ol_id l0 = i then l0\<lparr>received_quantity := stored_money (received_quantity l0 + q)\<rparr> else l0)" by auto
  note o = audited_lines [OF a l0]
  have "stored_money (received_quantity l0 + q) = received_quantity l0 + q"
    by (intro stored_money_exact on_grid_add o q)
  then show "on_grid cent (received_quantity l) \<and> received_quantity l = receipts_of s (ol_id l) + shifted due i q (ol_id l)
      \<and> ol_id l < next_id (books s) \<and> on_grid cent (ol_quantity l)"
    using o on_grid_add [OF o(1) q] by (auto simp: l shifted_def)
qed

text \<open>A delivery into a row of its own.\<close>

lemma delivery_step:
  assumes a: "audited None due owed s" and line: "ol_id l < next_id (books s)" and q: "on_grid cent (ma_quantity a)"
    and run: "create_stock_from_allocation l number a staff s = Inr (k, s')"
  shows "audited None (shifted due (ol_id l) (- ma_quantity a)) owed s'" "get_line (books s') = get_line (books s)"
    "next_id (books s) \<le> next_id (books s')" "order_lines s' = order_lines s"
proof -
  define c where "c = \<lparr>mc_kind = Delivery, mc_reason = ''Received on PO '' @ number, mc_actor = Some staff, mc_job = None,
    mc_cost = None, mc_take_line = None, mc_reverses = None\<rparr>"
  from run obtain row u s1 m t cost where row: "set_retail_rate (retail_pct_to_rate (ma_rate_pct a)) (receipt_stock k t l cost a) = Inr row"
    and k: "k = next_id (books s)"
    and ins: "insert_stock row (s\<lparr>books := (books s)\<lparr>next_id := Suc (next_id (books s))\<rparr>\<rparr>) = Inr (u, s1)"
    and mv: "move_stock k (ma_quantity a) c s1 = Inr (m, s')"
    by (auto simp: create_stock_from_allocation_def c_def tx_Inr tx_prims)
  have r: "sk_id row = next_id (books s)" "sk_quantity row = 0" "source_line row = Some (ol_id l)"
    using row by (auto simp: set_retail_rate_def receipt_stock_def k split: if_splits)
  then have src: "source_line row = Some i \<Longrightarrow> i < next_id (books s)" for i using line by simp
  note step = insert_step [OF a r(1,2) src ins]
  have "stored_stock row \<in> set (stocks s1)" by (simp add: step(2))
  moreover have "sk_id (stored_stock row) = k" "source_line (stored_stock row) = Some (ol_id l)"
    using r by (simp_all add: stored_stock_def k)
  ultimately have "source_of s1 k = Some (ol_id l)" using source_of_stock [OF audited_keyed(1) [OF step(1)]] by metis
  then have due: "due_after due s1 k (ma_quantity a) c = shifted due (ol_id l) (- ma_quantity a)"
    by (auto simp: due_after_def shifted_def c_def fun_eq_iff)
  have "audited None (due_after due s1 k (ma_quantity a) c) (owed_after owed c) s'"
    using q by (intro audited_move [OF step(1) mv]) (auto simp: c_def charged_def)
  moreover have "owed_after owed c = owed" by (simp add: owed_after_def c_def)
  ultimately show "audited None (shifted due (ol_id l) (- ma_quantity a)) owed s'" by (simp only: due)
  from mv obtain k1 where "s' = moved_state k1 m s1" by (elim move_stock_Inr)
  then show "get_line (books s') = get_line (books s)" "next_id (books s) \<le> next_id (books s')"
    "order_lines s' = order_lines s"
    by (simp_all add: step(2) fun_eq_iff get_line_def)
qed

lemma charge_step:
  assumes a: "audited None due {} s" and line: "ol_id l < next_id (books s)" and q: "on_grid cent qty"
    and run: "create_costline_from_allocation po l j qty pct staff s = Inr (x, s')"
  shows "audited None (shifted due (ol_id l) (- qty)) {} s'" "next_id (books s) \<le> next_id (books s')"
    "order_lines s' = order_lines s"
proof -
  define c where "c = (\<lambda>cost. \<lparr>mc_kind = Issue, mc_reason = ''Receipt allocated to job from PO '' @ po_number po,
    mc_actor = Some staff, mc_job = Some j, mc_cost = Some cost, mc_take_line = None, mc_reverses = None\<rparr>)"
  from run obtain cs s1 cost t p r refs meta s2 a0 k s3 m where set: "on_books (ensure_actual_cost_set j) s = Inr (cs, s1)"
    and mat: "create_material_line cs t qty p r refs meta OwnedByStock s1 = Inr (cost, s2)"
    and stock: "create_stock_from_allocation l (po_number po) a0 staff s2 = Inr (k, s3)" and a0: "ma_quantity a0 = qty"
    and mv: "move_stock k (- qty) (c cost) s3 = Inr (m, s')"
    by (auto simp: create_costline_from_allocation_def Let_def c_def tx_Inr tx_prims)
  note ens = ensure_step [OF a set] note mat' = material_step [OF ens(1) mat]
  have le: "next_id (books s) \<le> next_id (books s1)"
    using set by (auto simp: on_books_Inr dest: ensure_actual_frame)
  have le2: "next_id (books s1) \<le> next_id (books s2)"
    using mat by (auto simp: create_material_line_def tx_Inr tx_prims on_books_Inr dest!: save_line_next)
  have "ol_id l < next_id (books s2)" using line le le2 by simp
  note del = delivery_step [OF mat'(1) this _ stock, unfolded a0, OF q]
  show "audited None (shifted due (ol_id l) (- qty)) {} s'"
    using del mat' by (intro charge_move [OF _ mv, of _ _ cost]) (auto simp: c_def)
  from mv obtain k1 where "s' = moved_state k1 m s3" by (elim move_stock_Inr)
  then show "next_id (books s) \<le> next_id (books s')" "order_lines s' = order_lines s"
    using le le2 del(3,4) booked_frame(6) [OF ens(2)] booked_frame(6) [OF mat'(2)] by auto
qed

definition exact_line :: "receipt_line \<Rightarrow> bool" where
  "exact_line r \<longleftrightarrow> on_grid cent (rl_total r) \<and> list_all (\<lambda>a. on_grid cent (ra_quantity a)) (rl_allocations r)
     \<and> sum_list (map ra_quantity (rl_allocations r)) = rl_total r"

definition exact :: "receipt \<Rightarrow> bool" where
  "exact rs \<longleftrightarrow> list_all (\<lambda>(_, r). exact_line r) rs"

lemma materialise_step:
  assumes "audited None due {} s" "ol_id l < next_id (books s)" "on_grid cent (ma_quantity a)"
    "materialise po l holding staff a s = Inr (u, s')"
  shows "audited None (shifted due (ol_id l) (- ma_quantity a)) {} s'" "next_id (books s) \<le> next_id (books s')"
  using assms(4) delivery_step [OF assms(1-3)] charge_step [OF assms(1-3)]
  by (auto simp: materialise_def tx_Inr tx_prims split: if_splits)

lemma materialise_all:
  assumes "audited None due {} s" "ol_id l < next_id (books s)" "\<forall>a \<in> set as. on_grid cent (ma_quantity a)"
    "forT as (materialise po l holding staff) s = Inr (u, s')"
  shows "audited None (shifted due (ol_id l) (- sum_list (map ma_quantity as))) {} s'"
  using assms
proof (induction as arbitrary: due s)
  case Nil
  then show ?case by (simp add: ret_def)
next
  case (Cons a as)
  then obtain v s1 where f: "materialise po l holding staff a s = Inr (v, s1)"
    and more: "forT as (materialise po l holding staff) s1 = Inr (u, s')"
    unfolding forT.simps seqT_eq_Inr by blast
  have q: "on_grid cent (ma_quantity a)" using Cons.prems(3) by simp
  note step = materialise_step [OF Cons.prems(1,2) q f]
  have "ol_id l < next_id (books s1)" using Cons.prems(2) step(2) by simp
  from Cons.IH [OF step(1) this _ more] Cons.prems(3) show ?case by (simp add: algebra_simps)
qed

lemma sum_nonzero: "sum_list (map f (filter (\<lambda>x. f x \<noteq> 0) xs)) = sum_list (map f xs)" for f :: "'a \<Rightarrow> rat"
  by (induction xs) auto

lemma receive_line_step:
  assumes a: "audited None due {} s" and exact: "exact_line r" and run: "receive_line po holding staff (i, r) s = Inr (u, s')"
  shows "audited None due {} s'"
proof -
  from run obtain l prepared v s1 where l: "row_get ol_id i (order_lines s) = Some l"
    and prep: "prepared = prepared_allocations s l r"
    and add: "add_received i (rl_total r) s = Inr (v, s1)" and mat: "forT prepared (materialise po l holding staff) s1 = Inr (u, s')"
    by (auto simp: receive_line_def validate_and_prepare_def bindR_eq_Inr Let_def tx_Inr tx_prims)
  have s1: "s1 = s\<lparr>order_lines := map (\<lambda>l. if ol_id l = i then l\<lparr>received_quantity := stored_money (received_quantity l + rl_total r)\<rparr>
      else l) (order_lines s)\<rparr>" using add by (auto simp: add_received_def tx_Inr tx_prims)
  have total: "on_grid cent (rl_total r)" using exact by (simp add: exact_line_def)
  have li: "l \<in> set (order_lines s)" "ol_id l = i" using row_get_Some [OF l] by auto
  have known: "ol_id l < next_id (books s1)" using audited_lines(3) [OF a li(1)] by (simp add: s1)
  have qs: "\<forall>a \<in> set prepared. on_grid cent (ma_quantity a)"
    using exact by (auto simp: prep prepared_allocations_def exact_line_def list_all_iff)
  have "map ma_quantity prepared = map ra_quantity (filter (\<lambda>a. ra_quantity a \<noteq> 0) (rl_allocations r))"
    by (simp add: prep prepared_allocations_def)
  then have "sum_list (map ma_quantity prepared) = rl_total r"
    using exact by (simp only: sum_nonzero exact_line_def)
  with materialise_all [OF received_step [OF a total s1] known qs mat] show ?thesis by (simp add: li(2))
qed

lemma receive_lines_step:
  "audited None due {} s \<Longrightarrow> exact rs \<Longrightarrow> forT rs (receive_line po holding staff) s = Inr (u, s') \<Longrightarrow> audited None due {} s'"
proof (induction rs arbitrary: s)
  case Nil
  then show ?case by (simp add: ret_def)
next
  case (Cons x rs)
  then obtain v s1 where "receive_line po holding staff x s = Inr (v, s1)" "forT rs (receive_line po holding staff) s1 = Inr (u, s')"
    unfolding forT.simps seqT_eq_Inr by blast
  with Cons show ?case by (cases x) (auto simp: exact_def intro: Cons.IH receive_line_step)
qed

lemma sound_receive:
  assumes a: "sound_stock s" and "exact rs" and run: "process_delivery_receipt push i rs staff h s = Inr (po, s')"
  shows "sound_stock s'"
proof -
  from run obtain po0 holding u s1 po1 s2 where "forT rs (receive_line po0 holding staff) s = Inr (u, s1)"
    and rec: "recompute_purchase_order_status po0 s1 = Inr (po1, s2)"
    and send: "(if xero_push_due po1 then send_state_change push po1 else ret po1) s2 = Inr (po, s')"
    unfolding process_delivery_receipt_def bindT_eq_Inr seqT_eq_Inr readT_eq_Inr requireT_eq_Inr
    by (elim exE conjE) (simp only:)
  then have "sound_stock s1" using receive_lines_step [OF a assms(2)] by blast
  then have "sound_stock s2" by (rule keepsD [OF sound_recompute _ rec])
  then show ?thesis using send keepsD [OF sound_send] by (auto simp: ret_def split: if_splits)
qed

lemma outstanding_exact:
  assumes "sound_stock s" "set ls \<subseteq> set (order_lines s)"
  shows "exact (outstanding_receipt holding ls)"
  using audited_lines(1,4) [OF assms(1)] assms(2)
  by (auto simp: exact_def outstanding_receipt_def list_all_iff exact_line_def Let_def intro!: on_grid_diff)

lemma sound_receive_outstanding: "keeps sound_stock (receive_outstanding_order push i staff h)"
proof (rule keepsI)
  fix s po s'
  assume a: "sound_stock s" and run: "receive_outstanding_order push i staff h s = Inr (po, s')"
  let ?ls = "sort_key ol_id (filter (\<lambda>l. received_quantity l < ol_quantity l) (lines_of_order s i))"
  from run have "s' = s \<or> (\<exists>holding. process_delivery_receipt push i (outstanding_receipt holding ?ls) staff h s = Inr (po, s'))"
    by (auto simp: receive_outstanding_order_def tx_Inr tx_prims split: if_splits)
  moreover have "set ?ls \<subseteq> set (order_lines s)" by (auto simp: lines_of_order_def)
  ultimately show "sound_stock s'" using a sound_receive [OF a outstanding_exact [OF a]] by blast
qed

section \<open>Reversing\<close>

lemma reverse_issue_frame:
  assumes a: "audited sheet due {} s" and run: "reverse_issue i staff reason s = Inr (m, s')"
  shows "source_of s' = source_of s" "\<exists>new. movements s' = movements s @ new"
proof -
  show "\<exists>new. movements s' = movements s @ new" by (rule keepsD [OF log.reverse_issue_keeps _ run]) simp
  show "source_of s' = source_of s"
  proof (cases "find (\<lambda>m. reverses m = Some i) (movements s)")
    case (Some x)
    then show ?thesis using run by (auto simp: reverse_issue_def tx_Inr tx_prims)
  next
    case None
    with run obtain k q c cs t q' p r refs meta credit s1 where
      mat: "create_material_line cs t q' p r refs meta OwnedByStock s = Inr (credit, s1)" and mv: "move_stock k q c s1 = Inr (m, s')"
      by (auto simp: reverse_issue_def tx_Inr tx_prims)
    note line = material_step [OF a mat]
    show ?thesis using move_stocks(1) [OF audited_keyed(1) [OF line(1)] mv] booked_frame(7) [OF line(2)] by simp
  qed
qed

text \<open>A delivery that was recorded, and the movement that takes it back.\<close>

lemma delivery_undone:
  assumes a: "audited sheet due owed s" and receipt: "receipt \<in> set (movements s)" "is_delivery (mv_kind receipt)"
      "mv_stock receipt = i" "delivered receipt = Some q"
    and mv: "move_stock i (- q) c s = Inr (m, s')" and c: "mc_kind c = DeliveryReversal" "mc_cost c = None"
      "mc_reverses c = Some (mv_id receipt)"
  shows "reversal_matches s' m"
proof -
  from move_stock_Inr [OF mv] obtain k where k: "get_stock s i = Inr k"
    and m: "m = movement_of k (- q) c (next_id (books s))" and s': "s' = moved_state k m s" by metis
  have bal: "balanced s" by (rule audited_keyed(1) [OF a])
  have kin: "k \<in> set (stocks s)" "sk_id k = i" using get_stock_in [OF k] by auto
  obtain k' where "k' \<in> set (stocks s)" "sk_id k' = i" "sk_unit_cost k' = mv_unit_cost receipt"
    using a receipt by (auto simp: audited_def deliveries_ok_def)
  then have "mv_unit_cost receipt = sk_unit_cost k"
    using key_inj [OF audited_keyed(4) [OF a], of k' k] kin by simp
  moreover have "row_get mv_id (mv_id receipt) (movements s) = Some receipt"
    using bal receipt(1) by (intro row_get_distinct) (simp_all add: balanced_def)
  ultimately show ?thesis
    using receipt kin(2) c by (simp add: reversal_matches_def s' m row_get_append is_delivery_def)
qed

lemma delivery_quantity_delivered: "delivery_quantity m = Inr q \<Longrightarrow> is_delivery (mv_kind m) \<and> delivered m = Some q"
  by (auto simp: delivery_quantity_def is_delivery_def delivered_def split: if_splits)

lemma undo_step:
  assumes a: "sound_stock s" and receipt: "receipt \<in> set (movements s)" "mv_stock receipt = sk_id k" "delivery_quantity receipt = Inr q"
    and src: "source_of s (sk_id k) = Some (ol_id l)" and run: "undo_receipt po l k charge receipt q staff s = Inr (u, s')"
  shows "sound_stock s'"
proof -
  define c where "c = \<lparr>mc_kind = DeliveryReversal, mc_reason = ''Receipt on PO '' @ po_number po @ '' reversed'', mc_actor = Some staff,
    mc_job = None, mc_cost = None, mc_take_line = None, mc_reverses = Some (mv_id receipt)\<rparr>"
  note q = delivery_quantity_delivered [OF receipt(3)]
  have grid: "on_grid cent q" using a receipt(1) q by (auto simp: audited_def deliveries_ok_def)
  from run obtain u1 s1 where f: "(case charge of None \<Rightarrow> ret ()
      | Some (_, m) \<Rightarrow> seqT (reverse_issue (mv_id m) staff ''Reverse job receipt allocation'') (ret ())) s = Inr (u1, s1)"
    and rest: "seqT (decrement_received (ol_id l) q) (seqT (move_stock (sk_id k) (- q) c)
      (seqT (recompute_purchase_order_status po) (ret ()))) s1 = Inr (u, s')"
    unfolding undo_receipt_def c_def seqT_eq_Inr [of "case charge of _ \<Rightarrow> _"] by blast
  have first: "s1 = s \<or> (\<exists>i m0. reverse_issue i staff ''Reverse job receipt allocation'' s = Inr (m0, s1))"
    using f by (cases charge) (auto simp: tx_Inr tx_prims)
  define s2 where "s2 = s1\<lparr>order_lines := map (\<lambda>x. if ol_id x = ol_id l
      then x\<lparr>received_quantity := stored_money (received_quantity x - q)\<rparr> else x) (order_lines s1)\<rparr>"
  from rest obtain m s3 po' where mv: "move_stock (sk_id k) (- q) c s2 = Inr (m, s3)"
    and status: "recompute_purchase_order_status po s3 = Inr (po', s')"
    by (auto simp: decrement_received_def s2_def tx_Inr tx_prims)
  have "\<exists>new. movements s1 = movements s @ new"
    using first reverse_issue_frame(2) [OF a] by (metis append_Nil2)
  then have s1: "sound_stock s1" "source_of s1 = source_of s" "receipt \<in> set (movements s1)"
    using first a receipt(1) reverse_issue_step [OF a] reverse_issue_frame(1) [OF a] by auto
  have "on_grid cent (- q)" using grid by simp
  from received_step [OF s1(1) this, of s2 "ol_id l"] have a2: "audited None (shifted nothing_due (ol_id l) (- q)) {} s2"
    by (simp add: s2_def)
  have "source_of s2 = source_of s1" by (simp add: s2_def source_of_def fun_eq_iff)
  then have src2: "source_of s2 (sk_id k) = Some (ol_id l)" using src s1(2) by simp
  have r2: "receipt \<in> set (movements s2)" using s1(3) by (simp add: s2_def)
  have due: "due_after (shifted nothing_due (ol_id l) (- q)) s2 (sk_id k) (- q) c = nothing_due"
    by (auto simp: due_after_def shifted_def src2 c_def fun_eq_iff)
  have "reversal_matches s3 m"
    by (rule delivery_undone [OF a2 r2 _ receipt(2) _ mv]) (simp_all add: q c_def)
  then have "audited None (due_after (shifted nothing_due (ol_id l) (- q)) s2 (sk_id k) (- q) c) (owed_after {} c) s3"
    by (intro audited_move [OF a2 mv]) (simp_all add: c_def charged_def)
  then have "sound_stock s3" unfolding due by (simp add: owed_after_def)
  then show ?thesis by (rule keepsD [OF sound_recompute _ status])
qed

lemma sound_reverse_allocation: "keeps sound_stock (reverse_allocation order line t allocation h staff)"
proof (rule keepsI)
  fix s r s'
  assume a: "sound_stock s" and run: "reverse_allocation order line t allocation h staff s = Inr (r, s')"
  show "sound_stock s'"
  proof (cases "s' = s")
    case False
    from run obtain po k charge l receipt q u where "allocated_stock s order t allocation = Inr (k, charge)"
      and line: "source_line k = Some line" "row_get ol_id line (lines_of_order s order) = Some l"
      and receipt: "receipt_of_stock s k = Inr receipt" and q: "delivery_quantity receipt = Inr q"
      and undo: "undo_receipt po l k charge receipt q staff s = Inr (u, s')"
      using False by (auto simp: reverse_allocation_def tx_Inr tx_prims split: if_splits)
    have "k \<in> set (stocks s)"
      using \<open>allocated_stock s order t allocation = Inr (k, charge)\<close>
      by (auto simp: allocated_stock_def received_stock_def received_charge_def bindR_eq_Inr bind_eq_Some_conv find_Some_iff
          split: allocation_type.splits if_splits dest!: row_get_Some)
    then have src: "source_of s (sk_id k) = Some (ol_id l)"
      using source_of_stock [OF audited_keyed(1) [OF a]] line row_get_Some [OF line(2)] by simp
    have "filter (\<lambda>m. mv_kind m = Delivery \<or> mv_kind m = DeliveryOpening) (moves_of (sk_id k) (movements s)) = [receipt]"
      using receipt by (auto simp: receipt_of_stock_def split: list.splits)
    then have "receipt \<in> set (filter (\<lambda>m. mv_kind m = Delivery \<or> mv_kind m = DeliveryOpening) (moves_of (sk_id k) (movements s)))"
      by simp
    then have "receipt \<in> set (movements s)" "mv_stock receipt = sk_id k" by (auto simp: moves_of_def)
    from undo_step [OF a this q src undo] show ?thesis .
  qed (use a in simp)
qed

section \<open>Writing orders\<close>

text \<open>The rows held in memory while the lines of a payload are written.\<close>

definition in_step :: "stockroom \<Rightarrow> order_line list \<Rightarrow> bool" where
  "in_step s ls \<longleftrightarrow> (\<forall>l \<in> set ls. on_grid cent (received_quantity l) \<and> received_quantity l = receipts_of s (ol_id l)
     \<and> ol_id l < next_id (books s))"

lemma apply_line_received: "apply_line_fields s d l = Inr l' \<Longrightarrow> ol_id l' = ol_id l \<and> received_quantity l' = received_quantity l"
  by (auto simp: apply_line_fields_def Let_def bindR_eq_Inr patched_line_def)

lemma save_order_line_step:
  assumes a: "sound_stock s" and l: "in_step s [l]" and run: "save_order_line l s = Inr (u, s')"
  shows "sound_stock s'" "receipts_of s' = receipts_of s" "books s' = books s"
proof -
  have s': "s' = s\<lparr>order_lines := row_write ol_id (stored_line l) (order_lines s)\<rparr>"
    using run by (auto simp: save_order_line_def tx_Inr tx_prims)
  show "receipts_of s' = receipts_of s" by (rule receipts_of_cards) (simp_all add: s')
  show "books s' = books s" by (simp add: s')
  show "sound_stock s'"
    unfolding s'
  proof (rule lines_step [OF a])
    fix x assume "x \<in> set (row_write ol_id (stored_line l) (order_lines s))"
    then consider "x = stored_line l" | "x \<in> set (order_lines s)" using row_write_in by fastforce
    then show "on_grid cent (received_quantity x) \<and> received_quantity x = receipts_of s (ol_id x) + nothing_due (ol_id x)
        \<and> ol_id x < next_id (books s) \<and> on_grid cent (ol_quantity x)"
    proof cases
      case 1
      with l show ?thesis by (auto simp: in_step_def stored_line_def nothing_due_def)
    next
      case 2
      from audited_lines [OF a 2] show ?thesis by blast
    qed
  qed
qed

text \<open>No stock names the number a new line gets.\<close>

lemma fresh_receipts:
  assumes "sound_stock s"
  shows "receipts_of s (next_id (books s)) = 0"
proof -
  have "source_line k \<noteq> Some (next_id (books s))" if "k \<in> set (stocks s)" for k
    using assms stock_cards_in [OF that] by (fastforce simp: audited_def orders_known_def)
  then have "of_order_line s (next_id (books s)) = []" by (simp add: of_order_line_def filter_empty_conv)
  then show ?thesis by (simp add: receipts_of_def)
qed

lemma write_order_line_step:
  assumes a: "sound_stock s" and ls: "in_step s ls" and run: "write_order_line po d ls s = Inr (ls', s')"
  shows "sound_stock s' \<and> in_step s' ls'"
proof (cases "ow_id d")
  case None
  let ?s = "s\<lparr>books := (books s)\<lparr>next_id := Suc (next_id (books s))\<rparr>\<rparr>"
  from run None obtain l u where l: "apply_line_fields ?s d (blank_line (next_id (books s)) po) = Inr l" and ls': "ls' = ls"
    and save: "save_order_line l ?s = Inr (u, s')"
    by (auto simp: write_order_line_def tx_Inr tx_prims)
  have same: "receipts_of ?s = receipts_of s" by (rule receipts_of_cards) simp_all
  have "in_step ?s [l]"
    using apply_line_received [OF l] fresh_receipts [OF a] same by (simp add: in_step_def blank_line_def)
  from save_order_line_step [OF number_step [OF a] this save] ls show ?thesis
    by (auto simp: in_step_def ls' same less_Suc_eq)
next
  case (Some i)
  with run obtain l0 l u where l0: "row_get ol_id i ls = Some l0" and l: "apply_line_fields s d l0 = Inr l"
    and save: "save_order_line l s = Inr (u, s')" and ls': "ls' = row_put ol_id l ls"
    by (auto simp: write_order_line_def tx_Inr tx_prims)
  have "in_step s [l]" using ls row_get_Some [OF l0] apply_line_received [OF l] by (auto simp: in_step_def)
  with save_order_line_step [OF a this save] ls show ?thesis
    by (auto simp: in_step_def ls' dest!: row_put_in)
qed

lemma sound_write_lines [keeps_intros]: "keeps sound_stock (write_lines po ds)"
proof (rule keepsI)
  fix s u s'
  assume a: "sound_stock s" and run: "write_lines po ds s = Inr (u, s')"
  have all: "sound_stock t'" if "sound_stock t" "in_step t ls" "foldT (write_order_line po) ds ls t = Inr (ls', t')" for t t' ls ls' ds
    using that
  proof (induction ds arbitrary: t ls)
    case Nil
    then show ?case by (simp add: ret_def)
  next
    case (Cons d ds)
    then obtain ls1 t1 where "write_order_line po d ls t = Inr (ls1, t1)" and more: "foldT (write_order_line po) ds ls1 t1 = Inr (ls', t')"
      unfolding foldT.simps bindT_eq_Inr by blast
    with write_order_line_step [OF Cons.prems(1,2)] show ?case by (blast intro: Cons.IH [OF _ _ more])
  qed
  have "in_step s (lines_of_order s po)"
    using audited_lines [OF a] by (auto simp: in_step_def lines_of_order_def nothing_due_def)
  with run show "sound_stock s'" by (auto simp: write_lines_def tx_Inr tx_prims intro: all [OF a])
qed

lemma sound_delete_lines [keeps_intros]: "keeps sound_stock (delete_order_lines i gone)"
proof (rule keepsI)
  fix s u s'
  assume a: "sound_stock s" and run: "delete_order_lines i gone s = Inr (u, s')"
  then have s': "s' = s\<lparr>order_lines := filter (\<lambda>l. \<not> (ol_order l = i \<and> ol_id l \<in> set gone)) (order_lines s)\<rparr>"
    by (auto simp: delete_order_lines_def Let_def tx_Inr tx_prims)
  show "sound_stock s'" unfolding s' by (rule lines_step [OF a]) (use audited_lines [OF a] in fastforce)
qed

lemma sound_insert_order [keeps_intros]: "keeps sound_stock (insert_order d supplier pickup staff)"
proof (rule keepsI)
  fix s x s'
  assume a: "sound_stock s" and run: "insert_order d supplier pickup staff s = Inr (x, s')"
  then obtain os where "s' = s\<lparr>books := (books s)\<lparr>next_id := Suc (next_id (books s))\<rparr>, orders := os\<rparr>"
    by (auto simp: insert_order_def tx_Inr tx_prims)
  then show "sound_stock s'" using orders_step [OF number_step [OF a]] by simp
qed

lemma sound_create_order: "keeps sound_stock (create_purchase_order d staff)"
  unfolding create_purchase_order_def by (intro keeps_intros)

lemma sound_update_order: "keeps sound_stock (update_purchase_order push i d staff h)"
  unfolding update_purchase_order_def settle_order_def read_order_def
  by (intro keeps_intros sound_receive_outstanding)

end
