(* ===== verification/Stock_Sample.thy ===== *)
theory Stock_Sample
  imports Stock_Receiving Sample
begin

text \<open>
  A small stockroom the witnesses run on: the sample workshop with a job that holds stock (15), ten
  lengths of bar (800) from an opening count, a draft sheet (500) that counts them as eight, and an
  order (600) of four plates at three dollars.
\<close>

definition sample_bar :: stock_row where
  "sample_bar = \<lparr>sk_id = 800, sk_job = Some 15, sk_item_code = None, sk_description = ''bar'', sk_quantity = 10,
     inventory_version = 1, sk_unit_cost = 5, sk_unit_revenue = None, sk_date = \<lparr>m_date = 738999, m_time = Clock 9 0 0 0\<rparr>,
     sk_source = Manual, source_line = None, sk_location = None, sk_metal = None, sk_alloy = None, sk_specifics = None,
     sk_active = True\<rparr>"

definition sample_opening :: stock_movement where
  "sample_opening = \<lparr>mv_id = 700, mv_stock = 800, quantity_change = 10, quantity_before = 0, quantity_after = 10,
     opening_quantity = None, mv_unit_cost = 5, mv_kind = Opening, counterpart_job = None, mv_line = None,
     mv_take_line = None, reverses = None, mv_actor = None, mv_reason = ''Opening balance''\<rparr>"

definition sample_sheet :: stocktake_row where
  "sample_sheet = \<lparr>tk_id = 500, tk_job = 14, created_by = 3, posted_at = None, posted_by = None, tk_version = 1, corrects = None\<rparr>"

definition sample_count :: stocktake_line where
  "sample_count = \<lparr>tl_id = 510, tl_take = 500, tl_stock = Some 800, tl_description = ''bar'', tl_location = None,
     expected_quantity = 10, expected_version = 1, counted_quantity = Some 8,
     counted_at = Some \<lparr>m_date = 739000, m_time = Clock 9 0 0 0\<rparr>, tl_unit_cost = 5, tl_reason = Some ''Cut short''\<rparr>"

definition sample_order :: order_row where
  "sample_order = \<lparr>po_id = 600, po_supplier = Some 950, pickup_address = None, po_number = ''PO-0007'', po_reference = None,
     order_date = 738990, expected_delivery = Some 739000, po_creator = 3, po_status = Submitted, xero_push_due = False,
     po_updated_at = \<lparr>m_date = 738990, m_time = Clock 9 0 0 0\<rparr>\<rparr>"

definition sample_plates :: order_line where
  "sample_plates = \<lparr>ol_id = 610, ol_order = 600, ol_job = None, ol_description = ''plate'', ol_quantity = 4,
     ol_unit_cost = Some 3, price_tbc = False, ol_item_code = None, received_quantity = 0, ol_metal = Some ''steel'',
     ol_alloy = None, ol_specifics = None, ol_location = None, ol_dimensions = None\<rparr>"

definition sample_room :: stockroom where
  "sample_room = \<lparr>books = sample_db\<lparr>jobs := jobs sample_db @ [(sample_job 15 6 900 ''special'' 60 25)\<lparr>job_name := stock_holding_job_name\<rparr>],
       cost_sets := cost_sets sample_db @ [sample_set 25 15]\<rparr>,
     materials_markup = 1 / 5, po_prefix = ''PO-'', starting_po_number = 1, adjustment_job = Some 14, suppliers = [950],
     pickups = [], stocks = [sample_bar], movements = [sample_opening], stocktakes = [sample_sheet],
     take_lines = [sample_count], orders = [sample_order], order_lines = [sample_plates]\<rparr>"

lemmas room_defs = sample_bar_def sample_opening_def sample_sheet_def sample_count_def sample_order_def sample_plates_def
  sample_room_def

lemma room_parts [simp]:
  "stocks sample_room = [sample_bar]" "movements sample_room = [sample_opening]" "stocktakes sample_room = [sample_sheet]"
  "take_lines sample_room = [sample_count]" "orders sample_room = [sample_order]" "order_lines sample_room = [sample_plates]"
  "cost_lines (books sample_room) = []" "next_id (books sample_room) = 1000"
  by (simp_all add: sample_room_def sample_db_def)

lemma room_ledger: "ledger_ok (books sample_room)"
  by (simp add: ledger_ok_def sample_room_def sample_db_def sample_set_def totals_of_def measure_in_def)

lemma room_balanced: "balanced sample_room" "named_once sample_room"
  by (simp_all add: balanced_def named_once_def movement_continuity_def ledger_quantity_def moves_of_def last_after_def
      sample_bar_def sample_opening_def List.map_filter_simps)

lemma room_audited: "sound_stock sample_room"
proof -
  have "costs_ok {} sample_room" "reversals_ok sample_room"
    by (simp_all add: costs_ok_def reversals_ok_def moves_to_a_job_def sample_opening_def)
  moreover have "deliveries_ok sample_room"
    by (simp add: deliveries_ok_def is_delivery_def sample_opening_def sample_bar_def stored_money_exact on_grid_def cent_def)
  moreover have "counts_ok None sample_room"
    by (simp add: counts_ok_def is_posted_def sample_opening_def sample_sheet_def sample_count_def)
  moreover have "receipts_ok nothing_due sample_room" "orders_known sample_room"
    by (simp_all add: receipts_ok_def receipts_of_def of_order_line_def orders_known_def stock_cards_def stock_card_def
        sample_plates_def sample_bar_def nothing_due_def on_grid_def cent_def)
  ultimately show ?thesis
    using room_balanced room_ledger by (simp add: audited_def keyed_def fresh_lines_def)
qed

lemma not_posted_sheet: "\<not> is_posted sample_room 500"
  by (simp add: is_posted_def sample_sheet_def)

text \<open>A provider that takes every order.\<close>

definition sample_push :: "order_row \<Rightarrow> push_result" where
  "sample_push = (\<lambda>_. \<lparr>pr_success = True, pr_error = None, pr_status = None\<rparr>)"

definition sample_delivery :: receipt where
  "sample_delivery = [(610, \<lparr>rl_total = 4, rl_allocations =
     [\<lparr>ra_job = 15, ra_quantity = 1, ra_rate = None, ra_metadata = [(''location'', ''rack'')]\<rparr>,
      \<lparr>ra_job = 10, ra_quantity = 3, ra_rate = Some 50, ra_metadata = []\<rparr>]\<rparr>)]"

lemma consume_case: "case consume_stock 800 10 3 3 None None None sample_room of
    Inl _ \<Rightarrow> False | Inr (l, s) \<Rightarrow> map sk_quantity (stocks s) = [7] \<and> total_rev l = 18"
  by code_simp

lemma receive_case: "case process_delivery_receipt sample_push 600 sample_delivery 3
      [OrderTag 600 \<lparr>m_date = 738990, m_time = Clock 9 0 0 0\<rparr>] sample_room of
    Inl _ \<Rightarrow> False | Inr (po, s) \<Rightarrow> po_status po = FullyReceived \<and> map sk_quantity (stocks s) = [10, 1, 0]"
  by code_simp

lemma post_case: "case post_stocktake 500 [CountTag 500 1] 3 sample_room of
    Inl _ \<Rightarrow> False | Inr (_, s) \<Rightarrow> map sk_quantity (stocks s) = [8]"
  by code_simp

lemma consumed:
  obtains l s where "consume_stock 800 10 3 3 None None None sample_room = Inr (l, s)" "map sk_quantity (stocks s) = [7]"
  using consume_case by (auto split: sum.splits)

lemma posted:
  obtains s where "post_stocktake 500 [CountTag 500 1] 3 sample_room = Inr ((), s)" "map sk_quantity (stocks s) = [8]"
  using post_case by (auto split: sum.splits)

lemma saved_sheet: "case save_stocktake 500 [] [CountTag 500 1] sample_room of Inl _ \<Rightarrow> False | Inr (_, s) \<Rightarrow> take_lines s = []"
  by code_simp

definition sample_new_order :: order_create where
  "sample_new_order = \<lparr>oc_supplier = 950, oc_pickup = None, oc_reference = None, oc_order_date = None, oc_expected = None,
     oc_lines = []\<rparr>"

lemma sample_numbers: "order_numbers ''PO-'' [sample_order] = [7]" "pad_four 8 = ''0008''"
  by code_simp+

lemma sample_generated: "po_prefix s = ''PO-'' \<Longrightarrow> orders s = [sample_order] \<Longrightarrow> starting_po_number s = 1 \<Longrightarrow>
    generate_po_number s = Inr ''PO-0008''"
  by (simp add: generate_po_number_def Let_def sample_numbers)

lemma sample_order_number: "po_number sample_order = ''PO-0007''"
  by (simp add: sample_order_def)

lemma ordered_case: "\<exists>s po. create_purchase_order sample_new_order 3 sample_room = Inr (1000, s) \<and> orders s = [sample_order, po]
    \<and> po_number po = ''PO-0008''"
  by (simp add: create_purchase_order_def insert_order_def write_lines_def tx_simps sample_generated sample_room_def
      sample_db_def sample_new_order_def require_a_real_date_def resolve_supplier_def primary_pickup_def not_blank_def sample_order_number)

text \<open>A third decimal: the receipt is taken, the column drops it, and the audit of the order line reports
  the difference from then on.\<close>

definition sample_inexact :: receipt where
  "sample_inexact = [(610, \<lparr>rl_total = 1001 / 1000, rl_allocations =
     [\<lparr>ra_job = 15, ra_quantity = 1001 / 1000, ra_rate = None, ra_metadata = []\<rparr>]\<rparr>)]"

lemma inexact_receipt_found: "case process_delivery_receipt sample_push 600 sample_inexact 3
      [OrderTag 600 \<lparr>m_date = 738990, m_time = Clock 9 0 0 0\<rparr>] sample_room of
    Inl _ \<Rightarrow> False | Inr (_, s) \<Rightarrow> inventory_audit_findings s = [(''Supplier delivery totals'', [610])]"
  by code_simp

end
