(* ===== verification/Stock_History.thy ===== *)
theory Stock_History
  imports Stock_Sample
begin

text \<open>
  Histories of the stockroom: calls of the purchasing services in any order, each in a transaction of
  its own, so that a refused call changes nothing. What the provider answers may differ from one
  call to the next. A client that sends the id of a new count line draws it first (\<open>DrawId\<close>).
\<close>

section \<open>Calls\<close>

datatype stock_call =
    DrawId
  | Tick moment
  | CreateStock stock_write rat
  | UpdateStock uuid stock_write
  | DeactivateStock uuid
  | ConsumeStock uuid uuid rat uuid "rat option" "rat option" "uuid option"
  | ReverseIssue uuid uuid string
  | CreateTake uuid "uuid option"
  | SaveTake uuid "take_line_write list" "etag list"
  | PostTake uuid "etag list" uuid
  | CorrectTake uuid uuid "etag list"
  | CreateOrder order_create uuid
  | UpdateOrder uuid order_update uuid "etag list"
  | Receive uuid receipt uuid "etag list"
  | ReverseAllocation uuid uuid allocation_type uuid "etag list" uuid

definition commit :: "('s, 'a) tx \<Rightarrow> ('s, unit) tx" where
  "commit m = seqT m (ret ())"

fun perform :: "(order_row \<Rightarrow> push_result) \<Rightarrow> stock_call \<Rightarrow> (stockroom, unit) tx" where
  "perform push DrawId = commit (on_books fresh_id)"
| "perform push (Tick t) = putT (\<lambda>s. s\<lparr>books := (books s)\<lparr>now := t\<rparr>\<rparr>)"
| "perform push (CreateStock d cost) = commit (create_stock d cost)"
| "perform push (UpdateStock i d) = update_stock i d"
| "perform push (DeactivateStock i) = deactivate_stock i"
| "perform push (ConsumeStock k j q user cost revenue line) = commit (consume_stock k j q user cost revenue line)"
| "perform push (ReverseIssue i staff reason) = commit (reverse_issue i staff reason)"
| "perform push (CreateTake staff k) = commit (create_stocktake staff k)"
| "perform push (SaveTake i ds h) = save_stocktake i ds h"
| "perform push (PostTake i h staff) = post_stocktake i h staff"
| "perform push (CorrectTake i staff h) = commit (correct_stocktake i staff h)"
| "perform push (CreateOrder d staff) = commit (create_purchase_order d staff)"
| "perform push (UpdateOrder i d staff h) = commit (update_purchase_order push i d staff h)"
| "perform push (Receive i rs staff h) = commit (process_delivery_receipt push i rs staff h)"
| "perform push (ReverseAllocation i l t a h staff) = commit (reverse_allocation i l t a h staff)"

definition after :: "(order_row \<Rightarrow> push_result) \<Rightarrow> stock_call \<Rightarrow> stockroom \<Rightarrow> stockroom" where
  "after push c s = (case perform push c s of Inl _ \<Rightarrow> s | Inr (_, s') \<Rightarrow> s')"

text \<open>New count lines carry ids that were drawn, and receipts are exact.\<close>

fun admissible :: "stockroom \<Rightarrow> stock_call \<Rightarrow> bool" where
  "admissible s (SaveTake i ds h) = list_all (\<lambda>d. tw_id d < next_id (books s)) ds"
| "admissible s (Receive i rs staff h) = exact rs"
| "admissible s c = True"

inductive history :: "(stockroom \<Rightarrow> stock_call \<Rightarrow> bool) \<Rightarrow> stockroom \<Rightarrow> stockroom \<Rightarrow> bool" for ok where
  start: "history ok s s"
| call: "history ok s s1 \<Longrightarrow> ok s1 c \<Longrightarrow> history ok s (after push c s1)"

inductive_cases historyE: "history ok s s'"

lemma history_invariant:
  assumes "history ok s s'" "I s" "\<And>s push c s'. I s \<Longrightarrow> ok s c \<Longrightarrow> perform push c s = Inr ((), s') \<Longrightarrow> I s'"
  shows "I s'"
  using assms
proof (induction rule: history.induct)
  case (call s s1 c push)
  then show ?case by (auto simp: after_def split: sum.splits)
qed

lemma keeps_commit [keeps_intros]: "keeps I m \<Longrightarrow> keeps I (commit m)"
  unfolding commit_def by (intro keeps_intros)

context stock_invariant
begin

lemma perform_keeps:
  assumes "\<And>s t. I s \<Longrightarrow> I (s\<lparr>books := (books s)\<lparr>now := t\<rparr>\<rparr>)"
  shows "keeps I (perform push c)"
  by (cases c) (auto intro!: keeps_intros keeps_putT assms)

lemma history_keeps:
  assumes "\<And>s t. I s \<Longrightarrow> I (s\<lparr>books := (books s)\<lparr>now := t\<rparr>\<rparr>)" "history ok s s'" "I s"
  shows "I s'"
  by (rule history_invariant [where I = I, OF assms(2,3)]) (rule keepsD [OF perform_keeps [OF assms(1)]])

end

lemma commit_Inr: "commit m s = Inr ((), s') \<longleftrightarrow> (\<exists>x. m s = Inr (x, s'))"
  by (auto simp: commit_def tx_Inr tx_prims)

text \<open>The calls with a condition of their own, and the others.\<close>

lemma tick_step:
  assumes "sound_stock s"
  shows "sound_stock (s\<lparr>books := (books s)\<lparr>now := t\<rparr>\<rparr>)"
  using audited_keyed(2,3) [OF assms]
  by (intro audited_books [OF assms]) (auto simp: ledger_ok_def fresh_lines_def books_extend_def get_line_def get_cost_set_def)

lemma perform_sound:
  assumes a: "sound_stock s" and "admissible s c" and run: "perform push c s = Inr ((), s')"
  shows "sound_stock s'"
proof (cases c)
  case DrawId
  with a run show ?thesis using number_step by (auto simp: commit_Inr)
next
  case (Tick t)
  with a run show ?thesis using tick_step by (auto simp: tx_prims)
next
  case (SaveTake i ds h)
  with assms show ?thesis by (auto simp: list_all_iff intro: sound_save_take)
next
  case (Receive i rs staff h)
  with assms show ?thesis by (auto simp: commit_Inr intro: sound_receive)
qed (use a run in \<open>auto simp: commit_Inr intro: keepsD [OF sound_create_stock] keepsD [OF sound_update_stock]
  keepsD [OF sound_deactivate] keepsD [OF sound_consume] keepsD [OF sound_reverse_issue] keepsD [OF sound_create_take]
  keepsD [OF sound_post] keepsD [OF sound_correct] keepsD [OF sound_create_order] keepsD [OF sound_update_order]
  keepsD [OF sound_reverse_allocation]\<close>)

text \<open>C5: The inventory audit finds nothing after any history of stock calls whose receipts have at most
  two decimals and whose new count lines carry ids that were drawn before they are sent
  (\<open>admissible\<close>): every balance is the sum of its movements and the movements of a row continue one
  another, every issue, return and count has its cost line on the job it names and every such line
  its movement, every reversal matches what it reverses, every posted count is moved, and every order
  line has received what was delivered on it. A receipt with a third decimal does make the audit find
  the order line (\<open>inexact_receipt_found\<close>).\<close>

theorem audit_finds_nothing:
  assumes "sound_stock s" "history admissible s s'"
  shows "inventory_audit_findings s' = []"
  by (rule sound_audits, rule history_invariant [where I = sound_stock, OF assms(2,1)]) (rule perform_sound)

theorem audit_finds_nothing_witness:
  "\<exists>l s. consume_stock 800 10 3 3 None None None sample_room = Inr (l, s) \<and> map sk_quantity (stocks s) = [7]
    \<and> inventory_audit_findings s = []"
proof -
  obtain l s where s: "consume_stock 800 10 3 3 None None None sample_room = Inr (l, s)" "map sk_quantity (stocks s) = [7]"
    by (rule consumed)
  have "after sample_push (ConsumeStock 800 10 3 3 None None None) sample_room = s"
    using s(1) by (simp add: after_def commit_def tx_simps)
  then have "history admissible sample_room s" using history.call [OF history.start] by (metis admissible.simps(3-))
  from audit_finds_nothing [OF room_audited this] s show ?thesis by (intro exI conjI)
qed

text \<open>C6: Without any condition on what is received or sent, a history only adds movements, and the
  balance of every stock row stays the sum of the changes that were recorded for it.\<close>

theorem ledger_balances:
  assumes "balanced s" "history ok s s'"
  shows "(\<exists>new. movements s' = movements s @ new)
    \<and> (\<forall>k \<in> set (stocks s'). sk_quantity k = sum_list (map quantity_change (filter (\<lambda>m. mv_stock m = sk_id k) (movements s'))))
    \<and> movement_continuity s' = []"
proof (intro conjI)
  have b: "balanced s'" by (rule balances.history_keeps [OF _ assms(2,1)]) (auto elim: balanced_frame)
  show "\<exists>new. movements s' = movements s @ new" by (rule log.history_keeps [OF _ assms(2)]) auto
  show "\<forall>k \<in> set (stocks s'). sk_quantity k = sum_list (map quantity_change (filter (\<lambda>m. mv_stock m = sk_id k) (movements s')))"
    using b by (simp add: balanced_def ledger_quantity_def moves_of_def)
  show "movement_continuity s' = []" using b by (simp add: balanced_def)
qed

lemma consumed_history:
  assumes "consume_stock 800 10 3 3 None None None sample_room = Inr (l, s)"
  shows "history (\<lambda>_ _. True) sample_room s"
proof -
  have "after sample_push (ConsumeStock 800 10 3 3 None None None) sample_room = s"
    using assms by (simp add: after_def commit_def tx_simps)
  then show ?thesis using history.call [OF history.start, of "\<lambda>_ _. True"] by metis
qed

theorem ledger_balances_witness:
  "\<exists>l s new. consume_stock 800 10 3 3 None None None sample_room = Inr (l, s) \<and> movements s = sample_opening # new
    \<and> movement_continuity s = []"
proof -
  obtain l s where s: "consume_stock 800 10 3 3 None None None sample_room = Inr (l, s)" "map sk_quantity (stocks s) = [7]"
    by (rule consumed)
  from ledger_balances [OF room_balanced(1) consumed_history [OF s(1)]] obtain new where
    "movements s = sample_opening # new" "movement_continuity s = []" by auto
  then show ?thesis using s(1) by (intro exI conjI)
qed

text \<open>What a return or a reversed receipt leaves behind: a movement that names what it undid. The
  movements only grow, so it is still there after any later history, and both calls look for it
  before they write.\<close>

lemma find_kept: "find P xs = Some x \<Longrightarrow> find P (xs @ ys) = Some x"
  by (induction xs) auto

lemma find_last: "find P xs = None \<Longrightarrow> P x \<Longrightarrow> find P (xs @ [x]) = Some x"
  by (induction xs) auto

lemma later_movements:
  assumes "history ok s1 s2"
  obtains new where "movements s2 = movements s1 @ new"
  using log.history_keeps [OF _ assms, of "movements s1"] by auto

lemma material_movements: "create_material_line cs t q c r refs m own s = Inr (l, s') \<Longrightarrow> movements s' = movements s"
  by (auto simp: create_material_line_def tx_Inr tx_prims on_books_Inr)

lemma return_recorded:
  assumes "reverse_issue i who why s = Inr (m, s1)"
  shows "find (\<lambda>x. reverses x = Some i) (movements s1) = Some m" "\<exists>original. get_movement s1 i = Inr original"
proof -
  from assms obtain original where o: "get_movement s i = Inr original" by (auto simp: reverse_issue_def tx_Inr tx_prims)
  have "find (\<lambda>x. reverses x = Some i) (movements s1) = Some m \<and> (\<exists>new. movements s1 = movements s @ new)"
  proof (cases "find (\<lambda>x. reverses x = Some i) (movements s)")
    case (Some x)
    with assms o show ?thesis by (auto simp: reverse_issue_def tx_Inr tx_prims)
  next
    case None
    with assms o obtain cost :: cost_line and credit sa where
      mat: "create_material_line (cost_set cost) (desc cost) (- quantity cost) (unit_cost cost) (unit_rev cost) [] [] OwnedByStock s = Inr (credit, sa)"
      and mv: "move_stock (mv_stock original) (quantity cost) \<lparr>mc_kind = Returned, mc_reason = why, mc_actor = Some who,
            mc_job = counterpart_job original, mc_cost = Some credit, mc_take_line = None, mc_reverses = Some i\<rparr> sa = Inr (m, s1)"
      by (clarsimp simp: reverse_issue_def tx_Inr tx_prims)
    obtain k where "movements s1 = movements s @ [m]" "reverses m = Some i"
      by (rule move_stock_Inr [OF mv]) (auto simp: moved_state_def movement_of_def material_movements [OF mat])
    with None show ?thesis by (auto intro: find_last)
  qed
  then show "find (\<lambda>x. reverses x = Some i) (movements s1) = Some m" "\<exists>original. get_movement s1 i = Inr original"
    using o by (auto simp: get_movement_def row_get_def find_kept of_option_def split: option.splits)
qed

lemma returned_already:
  assumes "reverse_issue i who why s = Inr (m, s1)" "history ok s1 s2"
  shows "reverse_issue i who' why' s2 = Inr (m, s2)"
proof -
  obtain new where new: "movements s2 = movements s1 @ new" by (rule later_movements [OF assms(2)])
  obtain original where "get_movement s1 i = Inr original" using return_recorded(2) [OF assms(1)] by blast
  then have "get_movement s2 i = Inr original"
    by (auto simp: get_movement_def row_get_def new find_kept of_option_def split: option.splits)
  then show ?thesis using find_kept [OF return_recorded(1) [OF assms(1)]] by (simp add: reverse_issue_def tx_simps new)
qed

lemma undo_receipt_recorded:
  assumes "undo_receipt po l k charge receipt q staff s = Inr ((), s1)"
  shows "list_ex (\<lambda>m. reverses m = Some (mv_id receipt)) (movements s1)"
proof -
  from assms obtain sa sb m sc po' where
    mv: "move_stock (sk_id k) (- q) \<lparr>mc_kind = DeliveryReversal, mc_reason = ''Receipt on PO '' @ po_number po @ '' reversed'',
        mc_actor = Some staff, mc_job = None, mc_cost = None, mc_take_line = None, mc_reverses = Some (mv_id receipt)\<rparr> sa = Inr (m, sb)"
    and rest: "recompute_purchase_order_status po sb = Inr (po', s1)"
    by (auto simp: undo_receipt_def tx_Inr tx_prims)
  have "m \<in> set (movements sb)" "reverses m = Some (mv_id receipt)"
    by (rule move_stock_Inr [OF mv]; simp add: moved_state_def movement_of_def)+
  moreover have "\<exists>new. movements s1 = movements sb @ new" by (rule keepsD [OF log.recompute_keeps _ rest]) simp
  ultimately show ?thesis by (auto simp: list_ex_iff)
qed

lemma received_charge_Inr:
  "received_charge s po i = Inr (c, m, k) \<Longrightarrow> find (\<lambda>m. mv_line m = Some i) (movements s) = Some m \<and> sk_id k = mv_stock m"
  by (auto simp: received_charge_def of_option_def bind_eq_Some_conv dest: row_get_Some split: option.splits if_splits)

lemma allocated_stock_kept:
  assumes "allocated_stock s po t i = Inr (k, charge)" "movements s2 = movements s @ new"
    and "allocated_stock s2 po t i = Inr (k2, charge2)"
  shows "sk_id k2 = sk_id k"
proof (cases t)
  case StockAllocation
  have "sk_id k = i" if "received_stock s po i = Inr k" for s k
    using that by (auto simp: received_stock_def of_option_def find_Some_iff split: option.splits)
  with assms StockAllocation show ?thesis by (auto simp: allocated_stock_def bindR_eq_Inr)
next
  case JobAllocation
  with assms obtain c m c2 m2 where "received_charge s po i = Inr (c, m, k)" "received_charge s2 po i = Inr (c2, m2, k2)"
    by (auto simp: allocated_stock_def bindR_eq_Inr)
  from this [THEN received_charge_Inr] assms(2) show ?thesis by (simp add: find_kept)
qed

lemma receipt_kept:
  assumes "receipt_of_stock s k = Inr r" "movements s2 = movements s @ new" "sk_id k2 = sk_id k"
    and "receipt_of_stock s2 k2 = Inr r2"
  shows "r2 = r"
  using assms by (auto simp: receipt_of_stock_def moves_of_def append_eq_Cons_conv split: list.splits)

lemma reversal_recorded:
  assumes "reverse_allocation order line t a h staff s = Inr (r, s1)"
  obtains k charge receipt where "allocated_stock s order t a = Inr (k, charge)" "receipt_of_stock s k = Inr receipt"
    "list_ex (\<lambda>m. reverses m = Some (mv_id receipt)) (movements s1)"
  using assms by (auto simp: reverse_allocation_def tx_Inr tx_prims split: if_splits dest: undo_receipt_recorded)

lemma reversed_already:
  assumes "reverse_allocation order line t a h staff s = Inr (r, s1)" "history ok s1 s2"
    and again: "reverse_allocation order line t a h' staff' s2 = Inr (r', s3)"
  shows "s3 = s2 \<and> \<not> rv_reversed r'"
proof -
  obtain k charge receipt where first: "allocated_stock s order t a = Inr (k, charge)" "receipt_of_stock s k = Inr receipt"
    "list_ex (\<lambda>m. reverses m = Some (mv_id receipt)) (movements s1)"
    by (rule reversal_recorded [OF assms(1)])
  have "\<exists>n1. movements s1 = movements s @ n1" by (rule keepsD [OF log.reverse_allocation_keeps _ assms(1)]) simp
  then obtain n1 where m1: "movements s1 = movements s @ n1" by blast
  obtain n2 where m2: "movements s2 = movements s1 @ n2" by (rule later_movements [OF assms(2)])
  from m1 m2 have kept: "movements s2 = movements s @ n1 @ n2" by simp
  from again obtain k2 charge2 receipt2 where second: "allocated_stock s2 order t a = Inr (k2, charge2)"
    "receipt_of_stock s2 k2 = Inr receipt2"
    by (auto simp: reverse_allocation_def tx_Inr tx_prims)
  have "receipt2 = receipt"
    by (rule receipt_kept [OF first(2) kept allocated_stock_kept [OF first(1) kept second(1)] second(2)])
  then have "list_ex (\<lambda>m. reverses m = Some (mv_id receipt2)) (movements s2)" using first(3) m2 by simp
  with again second show ?thesis by (auto simp: reverse_allocation_def tx_Inr tx_prims reversal_answer_def)
qed

text \<open>C7: Nothing is returned or reversed twice. Whatever is called and however often, no two movements
  undo the same movement or charge by the same cost line; once an issue is returned, returning it again
  at any later time answers the same return and writes nothing; and once an allocation of a delivery is
  reversed, reversing it again writes nothing and says that it was reversed already.\<close>

theorem nothing_moves_twice:
  assumes "named_once s" "history ok s s'"
  shows "distinct (List.map_filter reverses (movements s')) \<and> distinct (List.map_filter mv_line (movements s'))
    \<and> (\<forall>i who why m s1 s2. reverse_issue i who why s' = Inr (m, s1) \<and> history ok s1 s2 \<longrightarrow>
         reverses m = Some i \<and> (\<forall>who' why'. reverse_issue i who' why' s2 = Inr (m, s2)))
    \<and> (\<forall>order line t a h staff r s1 s2. reverse_allocation order line t a h staff s' = Inr (r, s1) \<and> history ok s1 s2 \<longrightarrow>
         (\<forall>h' staff' r' s3. reverse_allocation order line t a h' staff' s2 = Inr (r', s3) \<longrightarrow> s3 = s2 \<and> \<not> rv_reversed r'))"
proof (intro conjI allI impI)
  show "distinct (List.map_filter reverses (movements s'))" "distinct (List.map_filter mv_line (movements s'))"
    using once.history_keeps [OF _ assms(2,1)] by (simp_all add: named_once_def)
next
  fix i who why m s1 s2
  assume run: "reverse_issue i who why s' = Inr (m, s1) \<and> history ok s1 s2"
  then show "reverses m = Some i" using return_recorded(1) [of i who why s' m s1] by (auto simp: find_Some_iff)
  show "reverse_issue i who' why' s2 = Inr (m, s2)" for who' why' using run by (auto intro: returned_already)
qed (use reversed_already in blast)+

lemma issued_and_returned: "case bindT (consume_stock 800 10 3 3 None None None) (\<lambda>_. reverse_issue 1001 3 ''left over'') sample_room of
    Inl _ \<Rightarrow> False | Inr (m, s) \<Rightarrow> map sk_quantity (stocks s) = [10]"
  by code_simp

theorem nothing_moves_twice_witness:
  "\<exists>s m s1. reverse_issue 1001 3 ''left over'' s = Inr (m, s1) \<and> map sk_quantity (stocks s1) = [10]
    \<and> distinct (List.map_filter mv_line (movements s)) \<and> reverse_issue 1001 4 ''twice'' s1 = Inr (m, s1)"
proof -
  from issued_and_returned obtain m s1 where
    "bindT (consume_stock 800 10 3 3 None None None) (\<lambda>_. reverse_issue 1001 3 ''left over'') sample_room = Inr (m, s1)"
    and q: "map sk_quantity (stocks s1) = [10]" by (auto split: sum.splits)
  then obtain l s where run: "consume_stock 800 10 3 3 None None None sample_room = Inr (l, s)"
    "reverse_issue 1001 3 ''left over'' s = Inr (m, s1)" unfolding tx_Inr by blast
  note once = nothing_moves_twice [OF room_balanced(2) consumed_history [OF run(1)]]
  have "distinct (List.map_filter mv_line (movements s))" using once by blast
  moreover have "reverse_issue 1001 4 ''twice'' s1 = Inr (m, s1)"
    using once run(2) history.start [of "\<lambda>_ _. True" s1] by blast
  ultimately show ?thesis using run(2) q by (intro exI conjI)
qed

text \<open>The stored totals of every cost set stay those of its lines through stock calls too.\<close>

theorem stock_keeps_the_summaries:
  assumes "ledger_ok (books s)" "history ok s s'" "c \<in> set (cost_sets (books s'))"
  shows "summary c = totals_of (cs_id c) (cost_lines (books s'))"
  using summaries_kept.history_keeps [OF _ assms(2,1)] assms(3) by (simp add: ledger_ok_def)

theorem stock_keeps_the_summaries_witness:
  "\<exists>l s. consume_stock 800 10 3 3 None None None sample_room = Inr (l, s)
    \<and> (\<forall>c \<in> set (cost_sets (books s)). summary c = totals_of (cs_id c) (cost_lines (books s)))"
proof -
  obtain l s where s: "consume_stock 800 10 3 3 None None None sample_room = Inr (l, s)" "map sk_quantity (stocks s) = [7]"
    by (rule consumed)
  from stock_keeps_the_summaries [OF room_ledger consumed_history [OF s(1)]]
  have "\<forall>c \<in> set (cost_sets (books s)). summary c = totals_of (cs_id c) (cost_lines (books s))" by blast
  with s(1) show ?thesis by (intro exI conjI)
qed

end
