(* ===== verification/Stock_Properties.thy ===== *)
theory Stock_Properties
  imports Stock_History
begin

text \<open>
  What single operations of the stockroom do: a return undoes its issue, posting makes the count true
  and can be retried, a tag is good for one save, and a new order has the highest number.
\<close>

section \<open>Returning an issue\<close>

lemma on_books_frame:
  assumes "on_books m s = Inr (x, s')"
  shows "stocks s' = stocks s" "movements s' = movements s" "stocktakes s' = stocktakes s" "orders s' = orders s"
  using assms by (auto simp: on_books_Inr)

lemma material_frame:
  assumes "create_material_line cs t q c r refs m own s = Inr (l, s')"
  shows "stocks s' = stocks s" "movements s' = movements s" "stocktakes s' = stocktakes s"
  using assms by (auto simp: create_material_line_def tx_Inr tx_prims dest: on_books_frame(1) on_books_frame(2) on_books_frame(3))

lemma material_lines:
  assumes fresh: "fresh_lines (books s)" and run: "create_material_line cs t q c r refs m own s = Inr (l, s')"
  shows "cost_lines (books s') = cost_lines (books s) @ [l]" "cost_set l = cs" "kind l = Material" "quantity l = q"
    "unit_cost l = c" "unit_rev l = r" "line_id l = next_id (books s)"
proof -
  let ?n = "next_id (books s)"
  from run obtain day d where save: "save_line (material_line ?n cs t q c r refs m day own)
      ((books s)\<lparr>next_id := Suc ?n\<rparr>) = Inr (l, d)" and s': "books s' = d"
    by (auto simp: create_material_line_def tx_Inr tx_prims on_books_Inr)
  have new: "x \<in> set (cost_lines ((books s)\<lparr>next_id := Suc ?n\<rparr>)) \<Longrightarrow> line_id x \<noteq> line_id (material_line ?n cs t q c r refs m day own)" for x
    using fresh by (auto simp: fresh_lines_def material_line_def)
  have saved: "cost_lines d = cost_lines ((books s)\<lparr>next_id := Suc ?n\<rparr>) @ [l]"
    "l = assign_entry_seq ((books s)\<lparr>next_id := Suc ?n\<rparr>) (material_line ?n cs t q c r refs m day own)"
    by (rule save_line_fresh [OF save], erule new)+
  show "cost_lines (books s') = cost_lines (books s) @ [l]" using saved(1) by (simp add: s')
  show "cost_set l = cs" "kind l = Material" "quantity l = q" "unit_cost l = c" "unit_rev l = r" "line_id l = ?n"
    unfolding saved(2) by (simp_all add: material_line_def)
qed

text \<open>What moving leaves in the row that is moved.\<close>

definition quantity_of :: "stockroom \<Rightarrow> uuid \<Rightarrow> rat option" where
  "quantity_of s k = map_option sk_quantity (row_get sk_id k (stocks s))"

lemma move_quantity:
  assumes "move_stock i q c s = Inr (m, s')"
  shows "quantity_of s' k = (if k = i then map_option (\<lambda>x. x + q) (quantity_of s i) else quantity_of s k)"
    "books s' = (books s)\<lparr>next_id := Suc (next_id (books s))\<rparr>" "mv_id m = next_id (books s)" "movements s' = movements s @ [m]"
proof -
  from move_stock_Inr [OF assms] obtain k0 where k0: "get_stock s i = Inr k0"
    and m: "m = movement_of k0 q c (next_id (books s))" and s': "s' = moved_state k0 m s" by metis
  show "quantity_of s' k = (if k = i then map_option (\<lambda>x. x + q) (quantity_of s i) else quantity_of s k)"
    using k0 get_stock_in [OF k0]
    by (auto simp: quantity_of_def s' m row_get_put_same row_get_put_other get_stock_Inr)
  show "books s' = (books s)\<lparr>next_id := Suc (next_id (books s))\<rparr>" "mv_id m = next_id (books s)" "movements s' = movements s @ [m]"
    by (simp_all add: s' m)
qed

lemma map_filter_inj:
  "distinct (List.map_filter f xs) \<Longrightarrow> x \<in> set xs \<Longrightarrow> y \<in> set xs \<Longrightarrow> f x = Some v \<Longrightarrow> f y = Some v \<Longrightarrow> x = y"
proof (induction xs)
  case (Cons a xs)
  have "v \<notin> set (List.map_filter f xs)" if "f a = Some v" using Cons.prems(1) that by (simp add: List.map_filter_simps)
  then have "z \<noteq> a \<longrightarrow> f a \<noteq> Some v" if "z \<in> set xs" "f z = Some v" for z using that by (auto simp: set_map_filter)
  moreover have "distinct (List.map_filter f xs)" using Cons.prems(1) by (auto simp: List.map_filter_simps split: option.splits)
  ultimately show ?case using Cons by (metis set_ConsD set_map_filter)
qed simp

lemma issue_result:
  assumes a: "sound_stock s" and run: "consume_stock k j q user cost revenue None s = Inr (l, s1)"
  obtains m where "movements s1 = movements s @ [m]" "mv_id m = next_id (books s1) - 1" "0 < next_id (books s1)"
    "next_id (books s) \<le> mv_id m" "mv_line m = Some (line_id l)" "mv_kind m = Issue" "mv_stock m = k" "reverses m = None"
    "quantity_change m = - q" "counterpart_job m = Some j"
    "cost_lines (books s1) = cost_lines (books s) @ [l]" "quantity l = q" "kind l = Material"
    "quantity_of s1 k = map_option (\<lambda>x. x - q) (quantity_of s k)"
proof -
  from run have "issue_line k j q user cost revenue None s = Inr (l, s1)"
    by (auto simp: consume_stock_def tx_Inr tx_prims)
  then obtain cs sa sb m where set: "on_books (ensure_actual_cost_set j) s = Inr (cs, sa)"
    and mv: "move_stock k (- q) (issue_context None user j l) sb = Inr (m, s1)"
    and "\<exists>t p r refs meta. create_material_line cs t q p r refs meta OwnedByStock sa = Inr (l, sb)"
    by (elim issue_line_Inr) auto
  then obtain t p r refs meta where mat: "create_material_line cs t q p r refs meta OwnedByStock sa = Inr (l, sb)" by blast
  note ens = ensure_step [OF a set]
  note lines = material_lines [OF audited_keyed(3) [OF ens(1)] mat]
  note moved = move_quantity [OF mv] and frame = move_frame [OF mv]
  have le: "next_id (books s) \<le> next_id (books sa)" using set by (auto simp: on_books_Inr dest: ensure_actual_frame)
  have le2: "next_id (books sa) \<le> next_id (books sb)"
    using mat by (auto simp: create_material_line_def tx_Inr tx_prims on_books_Inr dest!: save_line_next)
  have same: "movements sb = movements s" "stocks sb = stocks s"
    using on_books_frame [OF set] material_frame [OF mat] by simp_all
  show ?thesis
  proof (rule that [of m])
    show "quantity_of s1 k = map_option (\<lambda>x. x - q) (quantity_of s k)"
      using moved(1) [of k] same(2) by (simp add: quantity_of_def option.map_comp comp_def)
  qed (use moved frame lines ens(3) same le le2 in \<open>auto simp: issue_context_def\<close>)
qed

lemma totals_cancel:
  assumes "cost_set b = cost_set a" "quantity b = - quantity a" "unit_cost b = unit_cost a" "unit_rev b = unit_rev a"
    "kind a = Material" "kind b = Material"
  shows "totals_of i (ls @ [a, b]) = totals_of i ls"
  using assms by (simp add: totals_of_def measure_in_def total_cost_def total_rev_def line_hours_def)

text \<open>C9: Returning, at once, an issue that was made straight to a job undoes it: the row has the quantity
  it had before the issue, and the totals of every cost set are again what they were, though both cost
  lines and both movements stay. An issue that approves a draft line changes a line that was there
  before, so its return leaves the job without that line's cost.\<close>

theorem return_undoes_issue:
  assumes a: "sound_stock s" and issue: "consume_stock k j q user cost revenue None s = Inr (l, s1)"
    and m: "m \<in> set (movements s1)" "mv_line m = Some (line_id l)"
    and return: "reverse_issue (mv_id m) staff reason s1 = Inr (r, s2)"
  shows "quantity_of s2 k = quantity_of s k \<and> totals_of i (cost_lines (books s2)) = totals_of i (cost_lines (books s))
    \<and> (\<exists>credit. cost_lines (books s2) = cost_lines (books s) @ [l, credit]) \<and> movements s2 = movements s @ [m, r]"
proof -
  obtain m0 where i: "movements s1 = movements s @ [m0]" "next_id (books s) \<le> mv_id m0" "mv_line m0 = Some (line_id l)"
    "mv_kind m0 = Issue" "mv_stock m0 = k" "reverses m0 = None" "quantity_change m0 = - q"
    "cost_lines (books s1) = cost_lines (books s) @ [l]" "quantity l = q" "kind l = Material"
    "quantity_of s1 k = map_option (\<lambda>x. x - q) (quantity_of s k)"
    by (rule issue_result [OF a issue]) blast
  have a1: "sound_stock s1" by (rule keepsD [OF sound_consume a issue])
  then have bal: "balanced s1" and once: "named_once s1" by (simp_all add: audited_def keyed_def)
  have "m = m0" using map_filter_inj [OF _ m(1) _ m(2) i(3)] once i(1) by (simp add: named_once_def)
  note i = i [folded this]
  have "balanced s" by (rule audited_keyed(1) [OF a])
  then have "reverses x \<noteq> Some (mv_id m)" if "x \<in> set (movements s)" for x
    using that i(2) unfolding balanced_def by fastforce
  then have none: "find (\<lambda>x. reverses x = Some (mv_id m)) (movements s1) = None"
    using i(1,6) by (auto simp: find_None_iff)
  have get: "get_movement s1 (mv_id m) = Inr m"
    using row_get_distinct [of mv_id "movements s1" m] bal m(1) by (simp add: get_movement_def balanced_def)
  have "get_line (books s1) (line_id l) = Some l"
    using row_get_distinct [of line_id "cost_lines (books s1)" l] audited_keyed(2) [OF a1] i(8)
    by (simp add: get_line_def ledger_ok_def)
  then have cost: "cost_of s1 m = Some l" using i(3) by (simp add: cost_of_def)
  from return obtain credit sa c where
    mat: "create_material_line (cost_set l) (desc l) (- quantity l) (unit_cost l) (unit_rev l) [] [] OwnedByStock s1 = Inr (credit, sa)"
    and mv: "move_stock (mv_stock m) (quantity l) c sa = Inr (r, s2)"
    using none get by (auto simp: reverse_issue_def returnable_issue_cost_def cost bindR_eq_Inr tx_Inr tx_prims)
  note lines = material_lines [OF audited_keyed(3) [OF a1] mat]
  note moved = move_quantity [OF mv]
  have all: "cost_lines (books s2) = cost_lines (books s) @ [l, credit]" using lines(1) moved(2) i(8) by simp
  have "quantity_of sa k = quantity_of s1 k" by (simp add: quantity_of_def material_frame [OF mat])
  then have "quantity_of s2 k = quantity_of s k"
    using moved(1) [of k] i(5,9,11) by (simp add: option.map_comp comp_def option.map_ident)
  moreover have "totals_of i (cost_lines (books s2)) = totals_of i (cost_lines (books s))"
    unfolding all by (rule totals_cancel) (simp_all add: lines i)
  ultimately show ?thesis using all moved(4) i(1) material_frame(2) [OF mat] by auto
qed

lemma returned_case: "case consume_stock 800 10 3 3 None None None sample_room of Inl _ \<Rightarrow> False | Inr (l, s) \<Rightarrow>
    (case movements s of [_, m] \<Rightarrow> mv_line m = Some (line_id l)
       \<and> (case reverse_issue (mv_id m) 3 ''Too many'' s of Inl _ \<Rightarrow> False | Inr (_, s2) \<Rightarrow> length (movements s2) = 3)
     | _ \<Rightarrow> False)"
  by code_simp

theorem return_undoes_issue_witness:
  "\<exists>l s (m :: stock_movement) r s2. consume_stock 800 10 3 3 None None None sample_room = Inr (l, s) \<and> reverse_issue (mv_id m) 3 ''Too many'' s = Inr (r, s2)
    \<and> quantity_of s2 800 = quantity_of sample_room 800 \<and> totals_of 20 (cost_lines (books s2)) = totals_of 20 []"
proof -
  obtain l s where s: "consume_stock 800 10 3 3 None None None sample_room = Inr (l, s)" by (rule consumed)
  from returned_case obtain o' m where m: "movements s = [o', m]" "mv_line m = Some (line_id l)"
    and "case reverse_issue (mv_id m) 3 ''Too many'' s of Inl _ \<Rightarrow> False | Inr (_, s2) \<Rightarrow> length (movements s2) = 3"
    unfolding s by (auto split: list.splits)
  then obtain r s2 where r: "reverse_issue (mv_id m) 3 ''Too many'' s = Inr (r, s2)" by (auto split: sum.splits)
  have "m \<in> set (movements s)" by (simp add: m(1))
  from return_undoes_issue [OF room_audited s this m(2) r, of 20] have
    "quantity_of s2 800 = quantity_of sample_room 800" "totals_of 20 (cost_lines (books s2)) = totals_of 20 []" by auto
  note result = this
  show ?thesis by (intro exI conjI, rule s, rule r, rule result(1), rule result(2))
qed

section \<open>Posting a count\<close>

lemma post_line_moves:
  assumes run: "post_line l staff j s = Inr (u, s')" and known: "quantity_of s k = Some x" "k < next_id (books s)"
  shows "quantity_of s' k = Some (if tl_stock l = Some k \<and> \<not> settled l then x + (the (counted_quantity l) - expected_quantity l) else x)"
    "next_id (books s) \<le> next_id (books s')"
proof -
  have "quantity_of s' k = Some (if tl_stock l = Some k \<and> \<not> settled l then x + (the (counted_quantity l) - expected_quantity l) else x)
    \<and> next_id (books s) \<le> next_id (books s')"
  proof (cases "settled l")
    case True
    then have "s' = s" using run by (auto simp: settled_def post_line_def tx_prims split: option.splits)
    with True known show ?thesis by simp
  next
    case False
    then obtain c where c: "counted_quantity l = Some c" "c \<noteq> expected_quantity l" by (auto simp: settled_def)
    from run c obtain k0 cs cost s1 s2 s3 ctx m where stock: "stock_to_post l s = Inr (k0, s1)"
      and set: "on_books (ensure_actual_cost_set j) s1 = Inr (cs, s2)"
      and mat: "create_material_line cs (Some (tl_description l)) (- (c - expected_quantity l)) (tl_unit_cost l) 0 [] []
        OwnedByStocktake s2 = Inr (cost, s3)"
      and mv: "move_stock k0 (c - expected_quantity l) ctx s3 = Inr (m, s')"
      by (auto simp: post_line_def Let_def tx_Inr tx_prims split: option.splits)
    have le: "next_id (books s1) \<le> next_id (books s2)" "next_id (books s2) \<le> next_id (books s3)"
      using set mat by (auto simp: on_books_Inr create_material_line_def tx_Inr tx_prims dest: ensure_actual_frame dest!: save_line_next)
    have s1: "quantity_of s1 k = Some x \<and> next_id (books s) \<le> next_id (books s1) \<and> (k0 = k \<longleftrightarrow> tl_stock l = Some k)"
    proof (cases "tl_stock l")
      case (Some k')
      then show ?thesis using stock known by (auto simp: stock_to_post_def tx_prims)
    next
      case None
      with stock known show ?thesis
        by (auto simp: stock_to_post_def insert_stock_def tx_Inr tx_prims quantity_of_def row_get_append split: option.splits)
    qed
    have "quantity_of s3 k = Some x"
      using s1 by (simp add: quantity_of_def on_books_frame [OF set] material_frame [OF mat])
    then have "quantity_of s' k = Some (if k0 = k then x + (c - expected_quantity l) else x)"
      using move_quantity(1) [OF mv, of k] by (cases "k = k0") simp_all
    moreover have "next_id (books s) \<le> next_id (books s')" using move_quantity(2) [OF mv] s1 le by simp
    ultimately show ?thesis using s1 False c(1) by simp
  qed
  then show "quantity_of s' k = Some (if tl_stock l = Some k \<and> \<not> settled l then x + (the (counted_quantity l) - expected_quantity l) else x)"
    "next_id (books s) \<le> next_id (books s')" by auto
qed

lemma post_lines_move:
  assumes "forT ls (\<lambda>l. seqT (readT (\<lambda>s. check_unmoved s l)) (post_line l staff j)) s = Inr (u, s')"
    and "quantity_of s k = Some x" "k < next_id (books s)" "distinct (List.map_filter tl_stock ls)"
    and "\<And>l. l \<in> set ls \<Longrightarrow> counted_quantity l \<noteq> None"
  shows "quantity_of s' k = Some (case find (\<lambda>l. tl_stock l = Some k) ls of None \<Rightarrow> x | Some l \<Rightarrow> the (counted_quantity l))"
  using assms
proof (induction ls arbitrary: s x)
  case Nil
  then show ?case by (simp add: ret_def)
next
  case (Cons l ls)
  then obtain v s1 w where chk: "check_unmoved s l = Inr w" and f: "post_line l staff j s = Inr (v, s1)"
    and more: "forT ls (\<lambda>l. seqT (readT (\<lambda>s. check_unmoved s l)) (post_line l staff j)) s1 = Inr (u, s')"
    unfolding forT.simps seqT_eq_Inr readT_eq_Inr by blast
  note moved = post_line_moves [OF f Cons.prems(2,3)]
  have k1: "k < next_id (books s1)" using moved(2) Cons.prems(3) by simp
  have d: "distinct (List.map_filter tl_stock ls)" using Cons.prems(4) by (auto simp: List.map_filter_simps split: option.splits)
  show ?case
  proof (cases "tl_stock l = Some k")
    case True
    then have "expected_quantity l = x"
      using chk Cons.prems(2) by (auto simp: check_unmoved_def bindR_eq_Inr get_stock_Inr quantity_of_def)
    moreover obtain c where c: "counted_quantity l = Some c" using Cons.prems(5) by force
    ultimately have "quantity_of s1 k = Some c" using moved(1) True by (auto simp: settled_def)
    moreover have "find (\<lambda>l. tl_stock l = Some k) ls = None"
      using Cons.prems(4) True by (auto simp: List.map_filter_simps find_None_iff set_map_filter)
    ultimately show ?thesis using Cons.IH [OF more _ k1 d] Cons.prems(5) True c by auto
  next
    case False
    then show ?thesis using Cons.IH [OF more _ k1 d, of x] moved(1) Cons.prems(5) by auto
  qed
qed

lemma find_SomeD: "find P xs = Some x \<Longrightarrow> x \<in> set xs \<and> P x"
  by (induction xs) (auto split: if_splits)

text \<open>C8: Posting a sheet makes the counted quantity the balance of every stock item it counts once.\<close>

theorem posting_makes_the_count_true:
  assumes a: "sound_stock s" and run: "post_stocktake i h staff s = Inr ((), s')" and draft: "\<not> is_posted s i"
    and counted: "distinct (List.map_filter tl_stock (lines_to_post s i))"
    and l: "l \<in> set (lines_of_take s i)" "counted_quantity l = Some c" "tl_stock l = Some k" "quantity_of s k = Some x"
  shows "quantity_of s' k = Some c"
proof -
  let ?ls = "lines_to_post s i"
  from run obtain sheet where sheet: "get_take s i = Inr sheet"
    unfolding post_stocktake_def bindT_eq_Inr readT_eq_Inr by blast
  have "posted_at sheet = None" using get_take_posted(1) [OF sound_counts [OF a] sheet] draft by simp
  with run sheet obtain v s1 t where loop: "forT ?ls (\<lambda>l. seqT (readT (\<lambda>s. check_unmoved s l)) (post_line l staff (tk_job sheet))) s = Inr (v, s1)"
    and s': "s' = s1\<lparr>stocktakes := t\<rparr>"
    by (auto simp: post_stocktake_def put_take_def tx_Inr tx_prims)
  have "k < next_id (books s)"
    using audited_keyed(1) [OF a] l(4) by (auto simp: quantity_of_def balanced_def dest!: row_get_Some)
  note moved = post_lines_move [OF loop l(4) this counted]
  have ex: "l \<in> set ?ls" using l(1,2) by (simp add: set_lines_to_post)
  obtain l' where l': "find (\<lambda>l. tl_stock l = Some k) ?ls = Some l'"
    using ex l(3) by (cases "find (\<lambda>l. tl_stock l = Some k) ?ls") (auto simp: find_None_iff)
  then have "l' \<in> set ?ls" "tl_stock l' = Some k" using find_SomeD by fast+
  then have "l' = l" using map_filter_inj [OF counted _ ex _ l(3)] by blast
  with moved l' l(2) have "quantity_of s1 k = Some c" by (simp add: set_lines_to_post)
  then show ?thesis by (simp add: s' quantity_of_def)
qed

theorem posting_makes_the_count_true_witness:
  "\<exists>s. post_stocktake 500 [CountTag 500 1] 3 sample_room = Inr ((), s) \<and> quantity_of s 800 = Some 8"
proof -
  obtain s where s: "post_stocktake 500 [CountTag 500 1] 3 sample_room = Inr ((), s)" by (rule posted)
  have lines: "lines_of_take sample_room 500 = [sample_count]" "counted_quantity sample_count = Some 8"
      "tl_stock sample_count = Some 800" "quantity_of sample_room 800 = Some 10"
    by (simp_all add: lines_of_take_def sample_count_def quantity_of_def row_get_def sample_bar_def)
  from posting_makes_the_count_true [OF room_audited s not_posted_sheet, of sample_count 8 800 10]
  have "quantity_of s 800 = Some 8" by (simp add: lines lines_to_post_def List.map_filter_simps)
  with s show ?thesis by (intro exI conjI)
qed

section \<open>Tags\<close>

lemma get_put_take:
  assumes "get_take s i = Inr t" "put_take t' s = Inr (u, s')" "tk_id t' = i"
  shows "get_take s' i = Inr t'"
proof -
  have "i \<in> tk_id ` set (stocktakes s)" using assms(1) row_get_Some [of tk_id i "stocktakes s" t] by (force simp: get_take_def)
  then show ?thesis
    using assms(2,3) row_get_put_same [of i tk_id t' "stocktakes s"] by (auto simp: get_take_def put_take_def tx_prims)
qed

text \<open>C10: Sending the posting of a sheet again under the tag it was posted with succeeds and moves nothing.\<close>

theorem posting_can_be_retried:
  assumes a: "sound_stock s" and run: "post_stocktake i h staff s = Inr ((), s')"
  shows "post_stocktake i h staff' s' = Inr ((), s')"
proof -
  from run obtain sheet where sheet: "get_take s i = Inr sheet"
    unfolding post_stocktake_def bindT_eq_Inr readT_eq_Inr by blast
  show ?thesis
  proof (cases "posted_at sheet = None")
    case False
    then have "s' = s" using run sheet by (auto simp: post_stocktake_def tx_Inr)
    with run sheet False show ?thesis by (auto simp: post_stocktake_def tx_simps split: sum.splits)
  next
    case True
    let ?ls = "lines_to_post s i"
    from True run sheet obtain v s1 t u where tag: "require_revision i h (tk_version sheet) ''This draft changed in another session.'' = Inr ()"
      and loop: "forT (lines_to_post s i)
        (\<lambda>l. seqT (readT (\<lambda>s. check_unmoved s l)) (post_line l staff (tk_job sheet))) s = Inr (v, s1)"
      and put: "put_take (sheet\<lparr>posted_at := Some t, posted_by := Some staff, tk_version := tk_version sheet + 1\<rparr>) s1 = Inr (u, s')"
      using get_take_posted(3) [OF sound_counts [OF a] sheet]
      by (auto simp: post_stocktake_def require_draft_def bindR_eq_Inr tx_Inr tx_prims)
    note c = sound_counts [OF a] note tk = get_take_posted [OF c sheet]
    have start: "audited (Some i) nothing_due {} s" using a by (auto simp: audited_def counts_ok_def)
    have ls: "set ?ls \<subseteq> set (take_lines s)" "\<forall>l \<in> set ?ls. tl_take l = i" "distinct (map tl_id ?ls)"
      using counts_ok_D(1) [OF c] by (auto simp: set_lines_to_post lines_of_take_def distinct_lines_to_post)
    have "stocktakes s1 = stocktakes s" using post_lines_step [OF start ls loop] by blast
    then have "get_take s1 i = Inr sheet" using sheet by (simp add: get_take_def)
    from get_put_take [OF this put] have "get_take s' i = Inr (sheet\<lparr>posted_at := Some t, posted_by := Some staff,
      tk_version := tk_version sheet + 1\<rparr>)" by (simp add: tk(3))
    then show ?thesis using tag by (auto simp: post_stocktake_def tx_simps require_revision_def bindR_eq_Inr)
  qed
qed

theorem posting_can_be_retried_witness:
  "\<exists>s. post_stocktake 500 [CountTag 500 1] 3 sample_room = Inr ((), s) \<and> post_stocktake 500 [CountTag 500 1] 1 s = Inr ((), s)"
proof -
  obtain s where s: "post_stocktake 500 [CountTag 500 1] 3 sample_room = Inr ((), s)" by (rule posted)
  from s posting_can_be_retried [OF room_audited s] show ?thesis by (intro exI conjI)
qed

text \<open>C11: A tag of a sheet is good for one save: a second client that read the same version and sends it
  is refused with status 412, whether it saves or posts, and nothing of the first save is lost.\<close>

theorem a_tag_saves_once:
  assumes "save_stocktake i ds [CountTag i v] s = Inr ((), s')"
  shows "(\<exists>m. save_stocktake i ds' [CountTag i v] s' = Inl (HttpErr 412 m))
    \<and> (\<exists>m. post_stocktake i [CountTag i v] staff s' = Inl (HttpErr 412 m))"
proof -
  from assms obtain sheet s1 s2 u1 u2 where sheet: "get_take s i = Inr sheet" and d: "require_draft sheet [CountTag i v] = Inr ()"
    and loop: "forT (in_locking_order ds) (save_take_line i) s = Inr (u1, s1)" and del: "delete_other_lines i (map tw_id ds) s1 = Inr (u2, s2)"
    and put: "put_take (sheet\<lparr>tk_version := tk_version sheet + 1\<rparr>) s2 = Inr ((), s')"
    unfolding save_stocktake_def bindT_eq_Inr seqT_eq_Inr readT_eq_Inr requireT_eq_Inr by auto
  have "stocktakes t' = stocktakes t" if "save_take_line i d t = Inr (u, t')" for d t t' u
    using that by (auto simp: save_take_line_def write_take_line_def tx_Inr tx_prims)
  then have "stocktakes t' = stocktakes t" if "forT ds (save_take_line i) t = Inr (u, t')" for ds t t' u
    using that by (induction ds arbitrary: t) (auto simp: ret_def seqT_eq_Inr)
  then have "stocktakes s1 = stocktakes s" using loop by blast
  moreover have "stocktakes s2 = stocktakes s1" using del by (auto simp: delete_other_lines_def Let_def tx_Inr tx_prims)
  ultimately have s2: "get_take s2 i = Inr sheet" using sheet by (simp add: get_take_def)
  have id: "tk_id sheet = i" using sheet by (auto simp: get_take_def dest: row_get_Some)
  have v: "0 \<le> tk_version sheet" "tk_version sheet = v" "posted_at sheet = None"
    using d by (auto simp: require_draft_def require_revision_def generate_revision_etag_def if_match_satisfied_def bindR_eq_Inr
        split: if_splits)
  have s': "get_take s' i = Inr (sheet\<lparr>tk_version := v + 1\<rparr>)"
    using get_put_take [OF s2 put] id v(2) by simp
  have "require_draft (sheet\<lparr>tk_version := v + 1\<rparr>) [CountTag i v] = Inl (HttpErr 412 ''This draft changed in another session.'')"
    using v id by (simp add: require_draft_def require_revision_def generate_revision_etag_def if_match_satisfied_def requireR_def)
  then show ?thesis using s' v(3) by (simp add: save_stocktake_def post_stocktake_def tx_simps)
qed

theorem a_tag_saves_once_witness:
  "\<exists>s m. save_stocktake 500 [] [CountTag 500 1] sample_room = Inr ((), s)
    \<and> save_stocktake 500 [] [CountTag 500 1] s = Inl (HttpErr 412 m)"
proof -
  obtain s where s: "save_stocktake 500 [] [CountTag 500 1] sample_room = Inr ((), s)"
    using saved_sheet by (auto split: sum.splits)
  from a_tag_saves_once [OF s, of "[]"] obtain m where "save_stocktake 500 [] [CountTag 500 1] s = Inl (HttpErr 412 m)" by blast
  with s show ?thesis by (intro exI conjI)
qed

section \<open>The number of a new order\<close>

lemma char_digit: "n < 10 \<Longrightarrow> of_char (char_of (48 + n) :: char) = (48 + n :: nat)"
  by (simp add: of_char_of take_bit_eq_mod)

lemma read_digits_snoc: "read_digits (t @ [c]) = 10 * read_digits t + (of_char c - 48)"
  by (simp add: read_digits_def)

lemma is_digit_char: "n < 10 \<Longrightarrow> is_digit (char_of (48 + n))" for n :: nat
  by (simp add: is_digit_def less_eq_char_def char_digit)

lemma read_show_digits: "read_digits (show_digits n) = n \<and> list_all is_digit (show_digits n) \<and> show_digits n \<noteq> []"
proof (induction n rule: show_digits.induct)
  case (1 n)
  show ?case
  proof (cases "n < 10")
    case True
    then show ?thesis using char_digit [OF True] is_digit_char [OF True]
      by (subst show_digits.simps, subst show_digits.simps, subst show_digits.simps) (simp add: read_digits_def)
  next
    case False
    have small: "n mod 10 < 10" by simp
    show ?thesis
      using 1 [OF False] char_digit [OF small] is_digit_char [OF small] False
      by (simp add: show_digits.simps [of n] read_digits_snoc)
  qed
qed

lemma read_zeros: "read_digits (replicate k CHR ''0'' @ t) = read_digits t"
  by (induction k) (simp_all add: read_digits_def)

lemma read_pad_four: "read_digits (pad_four n) = n" "list_all is_digit (pad_four n)" "pad_four n \<noteq> []"
  using read_show_digits [of n]
  by (auto simp: pad_four_def Let_def read_zeros list_all_iff is_digit_def less_eq_char_def)

lemma number_tail_prefix: "number_tail p (p @ pad_four n) = Some (pad_four n)"
  using read_pad_four [of n] by (simp add: number_tail_def)

lemma foldr_max: "(x :: nat) \<in> set xs \<Longrightarrow> x \<le> foldr max xs 0"
  by (induction xs) auto

lemma order_numbers_in:
  "po \<in> set os \<Longrightarrow> number_tail p (po_number po) = Some t \<Longrightarrow> read_digits t \<in> set (order_numbers p os)"
  by (force simp: order_numbers_def set_map_filter)

lemma generated_number:
  assumes "generate_po_number s = Inr number"
  obtains n where "number = po_prefix s @ pad_four n" "\<And>x. x \<in> set (order_numbers (po_prefix s) (orders s)) \<Longrightarrow> x < n"
    "starting_po_number s \<le> int n" "list_all (\<lambda>n. n < 2 ^ 31) (order_numbers (po_prefix s) (orders s))"
proof -
  let ?ns = "order_numbers (po_prefix s) (orders s)"
  let ?n = "nat (max (starting_po_number s) (int (foldr max ?ns 0) + 1))"
  have "x < ?n" if "x \<in> set ?ns" for x using foldr_max [OF that] by linarith
  moreover have "starting_po_number s \<le> int ?n"
    by (rule order_trans [OF max.cobounded1 [of _ "int (foldr max ?ns 0) + 1"]]) simp
  ultimately show ?thesis using assms that [of ?n] by (auto simp: generate_po_number_def Let_def bindR_eq_Inr simp del: int_nat_eq)
qed

lemma write_lines_orders: "write_lines po ds s = Inr (u, s') \<Longrightarrow> orders s' = orders s \<and> po_prefix s' = po_prefix s"
proof -
  assume run: "write_lines po ds s = Inr (u, s')"
  have one: "orders t' = orders t \<and> po_prefix t' = po_prefix t" if "write_order_line po d ls t = Inr (ls', t')" for d ls ls' t t'
    using that by (auto simp: write_order_line_def save_order_line_def tx_Inr tx_prims split: option.splits)
  have "orders t' = orders t \<and> po_prefix t' = po_prefix t" if "foldT (write_order_line po) ds ls t = Inr (ls', t')" for ds ls ls' t t'
    using that by (induction ds arbitrary: ls t) (auto simp: ret_def bindT_eq_Inr dest!: one)
  with run show ?thesis by (auto simp: write_lines_def tx_Inr tx_prims)
qed

text \<open>C12: A new order gets a number no order has, above every number in use and the starting number, and
  until another order is raised it is the one the last-number lookup answers.\<close>

theorem a_new_order_is_the_last:
  assumes run: "create_purchase_order d staff s = Inr (i, s')"
    and small: "\<And>po. po \<in> set (orders s') \<Longrightarrow> case number_tail (po_prefix s) (po_number po) of None \<Rightarrow> True | Some t \<Rightarrow> read_digits t < 2 ^ 31"
  shows "\<exists>po n. orders s' = orders s @ [po] \<and> po_id po = i \<and> po_number po = po_prefix s @ pad_four n \<and> starting_po_number s \<le> int n
    \<and> (\<forall>old \<in> set (orders s). po_number old \<noteq> po_number po)
    \<and> (\<forall>x \<in> set (order_numbers (po_prefix s) (orders s)). x < n)
    \<and> get_last_purchase_order_number s' = Inr (Some (po_number po))"
proof -
  let ?p = "po_prefix s"
  from run obtain supplier pickup s1 u where ins: "insert_order d supplier pickup staff s = Inr (i, s1)"
    and lines: "write_lines i (oc_lines d) s1 = Inr (u, s')"
    by (auto simp: create_purchase_order_def tx_Inr tx_prims)
  define made where "made = (\<lambda>number. \<lparr>po_id = i, po_supplier = Some supplier, pickup_address = pickup, po_number = number,
    po_reference = oc_reference d, order_date = (case oc_order_date d of None \<Rightarrow> today (books (s\<lparr>books := (books s)\<lparr>next_id := Suc (next_id (books s))\<rparr>\<rparr>)) | Some x \<Rightarrow> x),
    expected_delivery = Some (case oc_expected d of None \<Rightarrow> today (books (s\<lparr>books := (books s)\<lparr>next_id := Suc (next_id (books s))\<rparr>\<rparr>)) | Some x \<Rightarrow> x),
    po_creator = staff, po_status = Draft, xero_push_due = False, po_updated_at = now (books s)\<rparr>)"
  from ins obtain number where gen: "generate_po_number (s\<lparr>books := (books s)\<lparr>next_id := Suc (next_id (books s))\<rparr>\<rparr>) = Inr number"
    and s1: "s1 = s\<lparr>books := (books s)\<lparr>next_id := Suc (next_id (books s))\<rparr>, orders := orders s @ [made number]\<rparr>"
    and new: "\<not> list_ex (\<lambda>po. po_number po = number) (orders s)"
    by (auto simp: insert_order_def tx_Inr tx_prims made_def)
  define po where "po = made number"
  have po: "po_number po = number" "po_id po = i" and os: "orders s1 = orders s @ [po]" "po_prefix s1 = ?p"
    by (simp_all add: po_def made_def s1)
  from gen have gen': "generate_po_number s = Inr number" by (simp add: generate_po_number_def)
  obtain n where n: "number = ?p @ pad_four n" "\<And>x. x \<in> set (order_numbers ?p (orders s)) \<Longrightarrow> x < n" "starting_po_number s \<le> int n"
    using generated_number [OF gen'] by metis
  have os': "orders s' = orders s @ [po]" "po_prefix s' = ?p" using write_lines_orders [OF lines] os by simp_all
  have nums: "order_numbers ?p (orders s') = order_numbers ?p (orders s) @ [n]"
    using read_pad_four(1) [of n] by (simp add: order_numbers_def os' map_filter_snoc po n number_tail_prefix)
  have top: "foldr max (order_numbers ?p (orders s')) 0 = n"
  proof (rule antisym)
    have bound: "\<forall>x \<in> set xs. x \<le> n \<Longrightarrow> foldr max xs 0 \<le> n" for xs by (induction xs) auto
    show "foldr max (order_numbers ?p (orders s')) 0 \<le> n" unfolding nums by (rule bound) (auto dest: n(2))
    show "n \<le> foldr max (order_numbers ?p (orders s')) 0" by (rule foldr_max) (simp add: nums)
  qed
  have "list_all (\<lambda>n. n < 2 ^ 31) (order_numbers ?p (orders s'))"
    using small by (fastforce simp: order_numbers_def list_all_iff set_map_filter split: option.splits)
  then have "get_last_purchase_order_number s' = Inr (Some (po_number po))"
    using top by (simp add: get_last_purchase_order_number_def Let_def os'(2))
      (simp add: os' po n number_tail_prefix read_pad_four)
  with po os' n new show ?thesis by (auto simp: list_ex_iff)
qed

theorem a_new_order_is_the_last_witness:
  "\<exists>s po. create_purchase_order sample_new_order 3 sample_room = Inr (1000, s) \<and> orders s = [sample_order, po]
    \<and> po_number po = ''PO-0008'' \<and> get_last_purchase_order_number s = Inr (Some ''PO-0008'')"
proof -
  obtain s po where s: "create_purchase_order sample_new_order 3 sample_room = Inr (1000, s)" "orders s = [sample_order, po]"
    "po_number po = ''PO-0008''" using ordered_case by blast
  have tails: "number_tail ''PO-'' ''PO-0007'' = Some ''0007''" "number_tail ''PO-'' ''PO-0008'' = Some ''0008''"
    "read_digits ''0007'' = 7" "read_digits ''0008'' = 8" by code_simp+
  have "po_prefix sample_room = ''PO-''" by (simp add: sample_room_def)
  then have "case number_tail (po_prefix sample_room) (po_number x) of None \<Rightarrow> True | Some t \<Rightarrow> read_digits t < 2 ^ 31"
    if "x \<in> set (orders s)" for x
    using that by (auto simp: s(2,3) sample_order_number tails)
  from a_new_order_is_the_last [OF s(1) this]
  have "get_last_purchase_order_number s = Inr (Some (po_number po))" by (auto simp: s(2))
  with s show ?thesis by (intro exI conjI) simp_all
qed

end
