(* ===== verification/Payroll_Runs.thy ===== *)
theory Payroll_Runs
  imports Staff_Directory
begin

text \<open>
  Posting a week of hours to payroll: the claim and the document of a run
  (\<open>timesheet/services/payroll_runs.py\<close>), the request that starts one
  (\<open>payroll_service.py\<close>) and the task that does the work (\<open>timesheet/tasks.py\<close>).

  The shared cache is two maps by connection, one of claims and one of documents, whose entries run
  out. A raise does not undo a cache write, so nothing here is a transaction: every function takes
  the office to the office. What the provider answers (the refreshed pay runs, the result of a
  person's week, an error) is an argument. Times are seconds.
\<close>

section \<open>The shared cache\<close>

type_synonym ('k, 'v) cache = "'k \<Rightarrow> ('v \<times> int) option"

definition cache_get :: "int \<Rightarrow> ('k, 'v) cache \<Rightarrow> 'k \<Rightarrow> 'v option" where
  "cache_get t c k = (case c k of Some (v, e) \<Rightarrow> if t < e then Some v else None | None \<Rightarrow> None)"

definition cache_set :: "int \<Rightarrow> 'k \<Rightarrow> 'v \<Rightarrow> int \<Rightarrow> ('k, 'v) cache \<Rightarrow> ('k, 'v) cache" where
  "cache_set t k v ttl c = c(k \<mapsto> (v, t + ttl))"

text \<open>\<open>add\<close> sets what is absent and says whether it did; \<open>touch\<close> extends what is there.\<close>

definition cache_add :: "int \<Rightarrow> 'k \<Rightarrow> 'v \<Rightarrow> int \<Rightarrow> ('k, 'v) cache \<Rightarrow> bool \<times> ('k, 'v) cache" where
  "cache_add t k v ttl c = (if cache_get t c k = None then (True, cache_set t k v ttl c) else (False, c))"

definition cache_touch :: "int \<Rightarrow> 'k \<Rightarrow> int \<Rightarrow> ('k, 'v) cache \<Rightarrow> ('k, 'v) cache" where
  "cache_touch t k ttl c = (case cache_get t c k of None \<Rightarrow> c | Some v \<Rightarrow> cache_set t k v ttl c)"

definition cache_delete :: "'k \<Rightarrow> ('k, 'v) cache \<Rightarrow> ('k, 'v) cache" where
  "cache_delete k c = c(k := None)"

section \<open>The document of a run\<close>

text \<open>What the provider reports of one person's week.\<close>

record staff_week_result =
  sr_staff :: uuid
  sr_name :: string
  success :: bool
  timesheet_id :: "string option"
  entries_posted :: int
  sr_work_hours :: rat
  other_leave_hours :: rat
  sr_leave_hours :: rat
  skipped :: bool
  sr_reason :: "string option"
  has_entries :: bool
  sr_error :: "string option"
  by_salary :: bool
  salary_timesheet_removed :: bool

datatype run_status = Running | Succeeded | Failed

record post_run =
  run_id :: uuid
  run_week :: date
  status :: run_status
  total :: nat
  completed :: nat
  successful :: nat
  failed :: nat
  current_staff_name :: "string option"
  message :: "string option"
  results :: "staff_week_result list"
  run_updated :: int

text \<open>A row of the mirror of Xero's pay runs.\<close>

record pay_run_row =
  pr_calendar :: uuid
  pr_xero_id :: string
  period_start :: date
  period_end :: date
  payment_date :: date
  pay_run_status :: string

record payroll_office =
  wall :: int
  claims :: "(uuid, uuid) cache"
  documents :: "(uuid, post_run) cache"
  pushed :: "(uuid \<times> post_run option) list"
  pay_runs :: "pay_run_row list"
  calendar_id :: "uuid option"
  payroll_start :: "date option"
  shortcode :: "string option"
  people :: db

definition run_timeout :: int where "run_timeout = 3600"
definition claim_ttl :: int where "claim_ttl = 600"

definition read_runs :: "uuid \<Rightarrow> payroll_office \<Rightarrow> post_run option" where
  "read_runs cn s = cache_get (wall s) (documents s) cn"

text \<open>Storing a document and pushing the whole of it are one call.\<close>

definition publish :: "uuid \<Rightarrow> payroll_office \<Rightarrow> payroll_office" where
  "publish cn s = s\<lparr>pushed := pushed s @ [(cn, read_runs cn s)]\<rparr>"

definition write_run :: "uuid \<Rightarrow> post_run \<Rightarrow> payroll_office \<Rightarrow> payroll_office" where
  "write_run cn r s = publish cn (s\<lparr>documents := cache_set (wall s) cn r run_timeout (documents s)\<rparr>)"

definition opening_document :: "uuid \<Rightarrow> date \<Rightarrow> nat \<Rightarrow> payroll_office \<Rightarrow> post_run" where
  "opening_document r week n s =
     \<lparr>run_id = r, run_week = week, status = Running, total = n, completed = 0, successful = 0, failed = 0,
      current_staff_name = None, message = None, results = [], run_updated = wall s\<rparr>"

definition running :: "uuid \<Rightarrow> uuid \<Rightarrow> date \<Rightarrow> nat \<Rightarrow> payroll_office \<Rightarrow> post_run \<times> payroll_office" where
  "running cn r week n s = (let doc = opening_document r week n s in (doc, write_run cn doc s))"

definition with_result :: "post_run \<Rightarrow> staff_week_result \<Rightarrow> nat \<Rightarrow> nat \<Rightarrow> nat \<Rightarrow> int \<Rightarrow> post_run" where
  "with_result run r done won lost t =
     run\<lparr>results := results run @ [r], completed := done, successful := won, failed := lost,
        current_staff_name := Some (sr_name r), run_updated := t\<rparr>"

definition finished :: "post_run \<Rightarrow> run_status \<Rightarrow> string option \<Rightarrow> int \<Rightarrow> post_run" where
  "finished run st msg t = run\<lparr>status := st, message := msg, run_updated := t\<rparr>"

section \<open>The claim\<close>

text \<open>None is the claim taken. Otherwise the holder, or nobody when it ran out in between.\<close>

definition acquire_run_claim :: "uuid \<Rightarrow> uuid \<Rightarrow> payroll_office \<Rightarrow> uuid option option \<times> payroll_office" where
  "acquire_run_claim cn r s =
     (case cache_add (wall s) cn r claim_ttl (claims s) of
        (True, c) \<Rightarrow> (None, s\<lparr>claims := c\<rparr>)
      | (False, c) \<Rightarrow> (Some (cache_get (wall s) (claims s) cn), s))"

definition renew_run_claim :: "uuid \<Rightarrow> uuid \<Rightarrow> payroll_office \<Rightarrow> bool \<times> payroll_office" where
  "renew_run_claim cn r s =
     (if cache_get (wall s) (claims s) cn \<noteq> Some r then (False, s)
      else (True, s\<lparr>claims := cache_touch (wall s) cn claim_ttl (claims s)\<rparr>))"

definition reclaim_or_refuse :: "uuid \<Rightarrow> uuid \<Rightarrow> payroll_office \<Rightarrow> bool \<times> payroll_office" where
  "reclaim_or_refuse cn r s =
     (if cache_get (wall s) (claims s) cn = Some r
      then (True, s\<lparr>claims := cache_touch (wall s) cn claim_ttl (claims s)\<rparr>)
      else case cache_add (wall s) cn r claim_ttl (claims s) of (b, c) \<Rightarrow> (b, s\<lparr>claims := c\<rparr>))"

definition release_run_claim :: "uuid \<Rightarrow> uuid \<Rightarrow> payroll_office \<Rightarrow> payroll_office" where
  "release_run_claim cn r s =
     (if cache_get (wall s) (claims s) cn = Some r then s\<lparr>claims := cache_delete cn (claims s)\<rparr> else s)"

text \<open>The document is built only when it is written.\<close>

definition close_run_if_owned ::
  "uuid \<Rightarrow> uuid \<Rightarrow> (payroll_office \<Rightarrow> post_run \<times> payroll_office) \<Rightarrow> payroll_office \<Rightarrow> payroll_office" where
  "close_run_if_owned cn r build s =
     (case reclaim_or_refuse cn r s of
        (True, s1) \<Rightarrow> (case build s1 of (doc, s2) \<Rightarrow> write_run cn doc s2)
      | (False, s1) \<Rightarrow> s1)"

section \<open>Which week may be posted\<close>

definition require_payroll_week_start :: "date \<Rightarrow> unit res" where
  "require_payroll_week_start d = requireR (weekday d = 0) (InvalidInput ''week_start_date must be a Monday'')"

definition get_payroll_calendar_id :: "payroll_office \<Rightarrow> uuid res" where
  "get_payroll_calendar_id s = of_option (ValueErr ''which Xero pay calendar'') (calendar_id s)"

definition build_xero_payroll_url :: "payroll_office \<Rightarrow> string \<Rightarrow> string res" where
  "build_xero_payroll_url s i =
     (case shortcode s of
        None \<Rightarrow> Inl (ValueErr ''short code'')
      | Some code \<Rightarrow>
          if code = [] then Inl (ValueErr ''short code'')
          else Inr (''https://payroll.xero.com/PayRun?CID='' @ code @ ''#payruns/'' @ i))"

definition on_calendar :: "payroll_office \<Rightarrow> uuid \<Rightarrow> pay_run_row list" where
  "on_calendar s cal = filter (\<lambda>p. pr_calendar p = cal) (pay_runs s)"

text \<open>The first of \<open>order_by("-key")\<close>.\<close>

definition latest_by :: "(pay_run_row \<Rightarrow> date) \<Rightarrow> pay_run_row list \<Rightarrow> pay_run_row option" where
  "latest_by f ps = (case sort_key (\<lambda>p. - f p) ps of [] \<Rightarrow> None | p # _ \<Rightarrow> Some p)"

text \<open>The open draft's period; else the week after the latest run; else what the provider says,
  and no week when it cannot say.\<close>

definition next_postable_payroll_week ::
  "payroll_office \<Rightarrow> uuid \<Rightarrow> (date \<times> date) option res \<Rightarrow> (date \<times> date) option" where
  "next_postable_payroll_week s cal anchor =
     (case latest_by period_start (filter (\<lambda>p. pay_run_status p = ''Draft'') (on_calendar s cal)) of
        Some p \<Rightarrow> Some (period_start p, period_end p)
      | None \<Rightarrow>
          (case latest_by period_end (on_calendar s cal) of
             Some p \<Rightarrow> Some (period_end p + 1, period_end p + 1 + 6)
           | None \<Rightarrow> (case anchor of Inr w \<Rightarrow> w | Inl _ \<Rightarrow> None)))"

record pay_run_list =
  listed :: "(pay_run_row \<times> string) list"
  next_start :: "date option"
  next_end :: "date option"

definition list_pay_runs :: "payroll_office \<Rightarrow> (date \<times> date) option res \<Rightarrow> pay_run_list res" where
  "list_pay_runs s anchor =
     bindR (get_payroll_calendar_id s) (\<lambda>cal.
     let postable = next_postable_payroll_week s cal anchor in
     bindR (mapR (\<lambda>p. bindR (build_xero_payroll_url s (pr_xero_id p)) (\<lambda>u. Inr (p, u)))
              (sort_key (\<lambda>p. - period_end p) (on_calendar s cal))) (\<lambda>ps.
     Inr \<lparr>listed = ps, next_start = map_option fst postable, next_end = map_option snd postable\<rparr>))"

definition postable_staff :: "payroll_office \<Rightarrow> date \<Rightarrow> uuid list" where
  "postable_staff s week = map st_id (get_displayable_staff (people s) None (Some (week, week + 6)) False True)"

section \<open>Starting a run\<close>

text \<open>The claim first; a second click is refused with the run that holds it.\<close>

definition claim_calendar :: "uuid \<Rightarrow> uuid \<Rightarrow> date \<Rightarrow> payroll_office \<Rightarrow> unit res \<times> payroll_office" where
  "claim_calendar cn r week s =
     (case require_payroll_week_start week of
        Inl e \<Rightarrow> (Inl e, s)
      | Inr _ \<Rightarrow>
          (case acquire_run_claim cn r s of
             (None, s1) \<Rightarrow> (Inr (), s1)
           | (Some _, s1) \<Rightarrow> (Inl (Conflict ''A payroll posting run is already in progress''), s1)))"

text \<open>The refusals made under the claim, on the pay runs as the provider has just given them.\<close>

definition preflight ::
  "date \<Rightarrow> (date \<times> date) option res \<Rightarrow> payroll_office \<Rightarrow> uuid list res" where
  "preflight week anchor s =
     bindR (requireR (case payroll_start s of None \<Rightarrow> True | Some d \<Rightarrow> d \<le> week)
              (ValueErr ''the week predates Xero payroll'')) (\<lambda>_.
     bindR (get_payroll_calendar_id s) (\<lambda>cal.
     bindR (requireR (case next_postable_payroll_week s cal anchor of None \<Rightarrow> True | Some w \<Rightarrow> week = fst w)
              (ValueErr ''Xero processes pay runs in order'')) (\<lambda>_.
     let ids = postable_staff s week in
     bindR (requireR (ids \<noteq> []) (ValueErr ''no staff to post'')) (\<lambda>_. Inr ids))))"

text \<open>
  The rest of the request. \<open>refreshed\<close> is what \<open>refresh_pay_runs\<close> stored or raised, \<open>broker\<close> the
  error of a dispatch that failed. The answer is the opening document and the people of the task.
\<close>

definition dispatch_posting ::
  "uuid \<Rightarrow> uuid \<Rightarrow> date \<Rightarrow> pay_run_row list res \<Rightarrow> (date \<times> date) option res \<Rightarrow> err option \<Rightarrow> payroll_office
    \<Rightarrow> (post_run \<times> uuid list) res \<times> payroll_office" where
  "dispatch_posting cn r week refreshed anchor broker s =
     (case refreshed of
        Inl e \<Rightarrow> (Inl e, release_run_claim cn r s)
      | Inr ps \<Rightarrow>
          let s1 = s\<lparr>pay_runs := ps\<rparr> in
          (case preflight week anchor s1 of
             Inl e \<Rightarrow> (Inl e, release_run_claim cn r s1)
           | Inr ids \<Rightarrow>
               (case running cn r week (length ids) s1 of
                  (run, s2) \<Rightarrow>
                    (case broker of
                       None \<Rightarrow> (Inr (run, ids), s2)
                     | Some e \<Rightarrow>
                         (Inl e, release_run_claim cn r
                            (write_run cn (finished run Failed (Some ''Could not start the posting run'') (wall s2)) s2))))))"

text \<open>The request as a whole, when no time passes in it.\<close>

definition start_post_week_task ::
  "uuid \<Rightarrow> uuid \<Rightarrow> date \<Rightarrow> pay_run_row list res \<Rightarrow> (date \<times> date) option res \<Rightarrow> err option \<Rightarrow> payroll_office
    \<Rightarrow> (post_run \<times> uuid list) res \<times> payroll_office" where
  "start_post_week_task cn r week refreshed anchor broker s =
     (case claim_calendar cn r week s of
        (Inl e, s1) \<Rightarrow> (Inl e, s1)
      | (Inr _, s1) \<Rightarrow> dispatch_posting cn r week refreshed anchor broker s1)"

section \<open>The task\<close>

text \<open>
  The task is cut where it waits for the provider: taking up the message, one step per person's
  result, and the end. A step answers the run it goes on with, or None when the task is over.
\<close>

definition never_started :: string where "never_started = ''This posting run was queued for too long and never started.''"
definition claim_lost :: string where "claim_lost = ''The posting run lost its claim mid-run; the results above are what completed.''"

definition take_up :: "uuid \<Rightarrow> uuid \<Rightarrow> date \<Rightarrow> nat \<Rightarrow> payroll_office \<Rightarrow> post_run option \<times> payroll_office" where
  "take_up cn r week n s =
     (case renew_run_claim cn r s of
        (True, s1) \<Rightarrow> (case running cn r week n s1 of (run, s2) \<Rightarrow> (Some run, s2))
      | (False, s1) \<Rightarrow>
          (None, release_run_claim cn r
             (close_run_if_owned cn r (\<lambda>s. case running cn r week n s of
                (run, s') \<Rightarrow> (finished run Failed (Some never_started) (wall s'), s')) s1)))"

definition report_result ::
  "uuid \<Rightarrow> uuid \<Rightarrow> post_run \<Rightarrow> staff_week_result \<Rightarrow> payroll_office \<Rightarrow> post_run option \<times> payroll_office" where
  "report_result cn r run x s =
     (case renew_run_claim cn r s of
        (False, s1) \<Rightarrow>
          (None, release_run_claim cn r
             (close_run_if_owned cn r (\<lambda>s. (finished run Failed (Some claim_lost) (wall s), s)) s1))
      | (True, s1) \<Rightarrow>
          let won = successful run + (if success x then 1 else 0); lost = failed run + (if success x then 0 else 1);
              run' = with_result run x (completed run + 1) won lost (wall s1)
          in (Some run', write_run cn run' s1))"

text \<open>All results are in: the outcome. The mirror refresh that follows changes nothing here and
  its errors are swallowed.\<close>

definition complete_run :: "uuid \<Rightarrow> uuid \<Rightarrow> post_run \<Rightarrow> payroll_office \<Rightarrow> payroll_office" where
  "complete_run cn r run s =
     release_run_claim cn r (close_run_if_owned cn r (\<lambda>s. (finished run Succeeded None (wall s), s)) s)"

text \<open>The provider raised, or cannot post payroll.\<close>

definition fail_run :: "uuid \<Rightarrow> uuid \<Rightarrow> post_run \<Rightarrow> string \<Rightarrow> payroll_office \<Rightarrow> payroll_office" where
  "fail_run cn r run text s =
     release_run_claim cn r (close_run_if_owned cn r (\<lambda>s. (finished run Failed (Some text) (wall s), s)) s)"

definition pass_time :: "int \<Rightarrow> payroll_office \<Rightarrow> payroll_office" where
  "pass_time n s = s\<lparr>wall := wall s + n\<rparr>"

text \<open>The loop over the provider's results, each after the seconds it took; an error ends it.\<close>

fun post_results ::
  "uuid \<Rightarrow> uuid \<Rightarrow> post_run \<Rightarrow> (int \<times> staff_week_result) list \<Rightarrow> string option \<Rightarrow> payroll_office \<Rightarrow> payroll_office" where
  "post_results cn r run [] None s = complete_run cn r run s"
| "post_results cn r run [] (Some text) s = fail_run cn r run text s"
| "post_results cn r run ((n, x) # xs) out s =
     (case report_result cn r run x (pass_time n s) of
        (None, s1) \<Rightarrow> s1
      | (Some run', s1) \<Rightarrow> post_results cn r run' xs out s1)"

definition post_payroll_week_task ::
  "uuid \<Rightarrow> uuid \<Rightarrow> date \<Rightarrow> nat \<Rightarrow> (int \<times> staff_week_result) list \<Rightarrow> string option \<Rightarrow> payroll_office \<Rightarrow> payroll_office" where
  "post_payroll_week_task cn r week n xs out s =
     (case take_up cn r week n s of
        (None, s1) \<Rightarrow> s1
      | (Some run, s1) \<Rightarrow> post_results cn r run xs out s1)"

end
