(* ===== verification/Payroll_Posting.thy ===== *)
theory Payroll_Posting
  imports Payroll_Runs
begin

text \<open>
  What the claim is for. Any number of runs, started by any number of clicks, act on one calendar in
  any order, with any time passing in between, and workers may die and have their message delivered
  again. Whatever happens, a worker writes nothing over a run that holds the claim, and a run that died
  blocks the calendar for ten minutes at most. When every run acts within ten minutes of its last act
  (the bound the comment of the code puts on it), at most one is under way and a run that ended has
  left an outcome.
\<close>

section \<open>Runs side by side\<close>

datatype phase =
    Unborn
  | Checking date
  | Queued date "uuid list"
  | Working date "uuid list" post_run
  | Ended
  | Lost

text \<open>\<open>acted\<close> is when a run last took or renewed its claim.\<close>

record payroll_system =
  office :: payroll_office
  runs :: "uuid \<Rightarrow> phase"
  acted :: "uuid \<Rightarrow> int"

definition put_run :: "uuid \<Rightarrow> phase \<Rightarrow> payroll_office \<Rightarrow> payroll_system \<Rightarrow> payroll_system" where
  "put_run r p o' s = \<lparr>office = o', runs = (runs s)(r := p), acted = (acted s)(r := wall (office s))\<rparr>"

inductive moves :: "uuid \<Rightarrow> payroll_system \<Rightarrow> uuid option \<Rightarrow> payroll_system \<Rightarrow> bool" for cn where
  pass: "0 \<le> n \<Longrightarrow> moves cn s None (s\<lparr>office := pass_time n (office s)\<rparr>)"
| click: "runs s r = Unborn \<Longrightarrow> claim_calendar cn r week (office s) = (Inr (), o') \<Longrightarrow>
    moves cn s (Some r) (put_run r (Checking week) o' s)"
| click_refused: "runs s r = Unborn \<Longrightarrow> claim_calendar cn r week (office s) = (Inl e, o') \<Longrightarrow>
    moves cn s (Some r) (put_run r Ended o' s)"
| dispatch: "runs s r = Checking week \<Longrightarrow>
    dispatch_posting cn r week ps anchor broker (office s) = (Inr (run, ids), o') \<Longrightarrow>
    moves cn s (Some r) (s\<lparr>office := o', runs := (runs s)(r := Queued week ids)\<rparr>)"
| dispatch_refused: "runs s r = Checking week \<Longrightarrow>
    dispatch_posting cn r week ps anchor broker (office s) = (Inl e, o') \<Longrightarrow>
    moves cn s (Some r) (put_run r Ended o' s)"
| taken_up: "runs s r = Queued week ids \<Longrightarrow> take_up cn r week (length ids) (office s) = (Some run, o') \<Longrightarrow>
    moves cn s (Some r) (put_run r (Working week ids run) o' s)"
| stale: "runs s r = Queued week ids \<Longrightarrow> take_up cn r week (length ids) (office s) = (None, o') \<Longrightarrow>
    moves cn s (Some r) (put_run r Ended o' s)"
| reported: "runs s r = Working week ids run \<Longrightarrow> report_result cn r run x (office s) = (Some run', o') \<Longrightarrow>
    moves cn s (Some r) (put_run r (Working week ids run') o' s)"
| cut_short: "runs s r = Working week ids run \<Longrightarrow> report_result cn r run x (office s) = (None, o') \<Longrightarrow>
    moves cn s (Some r) (put_run r Ended o' s)"
| completed: "runs s r = Working week ids run \<Longrightarrow>
    moves cn s (Some r) (put_run r Ended (complete_run cn r run (office s)) s)"
| broken: "runs s r = Working week ids run \<Longrightarrow>
    moves cn s (Some r) (put_run r Ended (fail_run cn r run text (office s)) s)"
| killed: "runs s r = Working week ids run \<Longrightarrow> moves cn s None (s\<lparr>runs := (runs s)(r := Queued week ids)\<rparr>)"
| request_died: "runs s r = Checking week \<Longrightarrow> moves cn s None (s\<lparr>runs := (runs s)(r := Lost)\<rparr>)"

inductive_cases movesE: "moves cn s who s'"

definition unstarted :: "uuid \<Rightarrow> payroll_system \<Rightarrow> bool" where
  "unstarted cn s \<longleftrightarrow> (\<forall>r. runs s r = Unborn) \<and> claims (office s) cn = None \<and> documents (office s) cn = None"

text \<open>Histories whose acting runs satisfy \<open>ok\<close> at each of their steps.\<close>

inductive posting :: "(payroll_system \<Rightarrow> uuid \<Rightarrow> bool) \<Rightarrow> uuid \<Rightarrow> payroll_system \<Rightarrow> bool" for ok cn where
  start: "unstarted cn s \<Longrightarrow> posting ok cn s"
| step: "posting ok cn s \<Longrightarrow> moves cn s who s' \<Longrightarrow> (\<And>r. who = Some r \<Longrightarrow> ok s r) \<Longrightarrow> posting ok cn s'"

definition under_way :: "phase \<Rightarrow> bool" where
  "under_way p \<longleftrightarrow> p \<noteq> Unborn \<and> p \<noteq> Ended \<and> p \<noteq> Lost"

definition in_time :: "payroll_system \<Rightarrow> uuid \<Rightarrow> bool" where
  "in_time s r \<longleftrightarrow> wall (office s) < acted s r + claim_ttl"

definition prompt :: "payroll_system \<Rightarrow> uuid \<Rightarrow> bool" where
  "prompt s r \<longleftrightarrow> runs s r \<noteq> Unborn \<longrightarrow> in_time s r"

section \<open>The cache\<close>

lemma cache_get_Some: "cache_get t c k = Some v \<longleftrightarrow> (\<exists>e. c k = Some (v, e) \<and> t < e)"
  by (auto simp: cache_get_def split: option.splits if_splits)

lemma cache_get_None: "cache_get t c k = None \<longleftrightarrow> (\<forall>v e. c k = Some (v, e) \<longrightarrow> e \<le> t)"
  by (auto simp: cache_get_def split: option.splits if_splits)

lemma cache_gets [simp]:
  "cache_get t (cache_set t' k v n c) k' = (if k = k' then if t < t' + n then Some v else None else cache_get t c k')"
  "cache_get t (cache_delete k c) k' = (if k = k' then None else cache_get t c k')"
  by (auto simp: cache_get_def cache_set_def cache_delete_def)

lemma office_frames [simp]:
  "wall (write_run cn run s) = wall s" "claims (write_run cn run s) = claims s"
  "documents (write_run cn run s) = cache_set (wall s) cn run run_timeout (documents s)"
  "wall (release_run_claim cn r s) = wall s" "documents (release_run_claim cn r s) = documents s"
  "wall (pass_time n s) = wall s + n" "claims (pass_time n s) = claims s" "documents (pass_time n s) = documents s"
  by (simp_all add: write_run_def publish_def release_run_claim_def pass_time_def)

text \<open>What each call on the claim does while the run holds it, and while another does.\<close>

lemma held:
  assumes "cache_get (wall s) (claims s) cn = Some r"
  shows "renew_run_claim cn r s = (True, s\<lparr>claims := cache_set (wall s) cn r claim_ttl (claims s)\<rparr>)"
    "reclaim_or_refuse cn r s = (True, s\<lparr>claims := cache_set (wall s) cn r claim_ttl (claims s)\<rparr>)"
    "release_run_claim cn r s = s\<lparr>claims := cache_delete cn (claims s)\<rparr>"
  using assms by (simp_all add: renew_run_claim_def reclaim_or_refuse_def release_run_claim_def cache_touch_def)

lemma held_elsewhere:
  assumes "cache_get (wall s) (claims s) cn = Some r'" "r' \<noteq> r"
  shows "renew_run_claim cn r s = (False, s)" "reclaim_or_refuse cn r s = (False, s)" "release_run_claim cn r s = s"
    "acquire_run_claim cn r s = (Some (Some r'), s)"
  using assms
  by (simp_all add: renew_run_claim_def reclaim_or_refuse_def release_run_claim_def acquire_run_claim_def cache_add_def)

section \<open>A worker and another run's claim\<close>

lemma over_a_live_run:
  assumes "cache_get (wall s) (claims s) cn = Some r'" "r' \<noteq> r"
  shows "claim_calendar cn r week s = (Inl e, s') \<Longrightarrow> s' = s" "claim_calendar cn r week s \<noteq> (Inr u, s')"
    "take_up cn r week n s = (None, s)" "report_result cn r run x s = (None, s)"
    "complete_run cn r run s = s" "fail_run cn r run text s = s"
  by (auto simp: claim_calendar_def take_up_def report_result_def complete_run_def fail_run_def close_run_if_owned_def
      held_elsewhere [OF assms] split: sum.splits)

text \<open>While a run holds the claim, no step of another worker or of another request that has yet to
  take it changes the claim, the document or what was pushed: its own run is over and it wrote nothing.\<close>

theorem a_live_claim_is_left_alone:
  assumes "moves cn s (Some r) s'" "cache_get (wall (office s)) (claims (office s)) cn = Some r'" "r' \<noteq> r"
    and "\<And>week. runs s r \<noteq> Checking week"
  shows "office s' = office s \<and> runs s' r = Ended \<and> (\<forall>q. q \<noteq> r \<longrightarrow> runs s' q = runs s q)"
  using assms(1,4) over_a_live_run [OF assms(2,3)]
  by (cases rule: moves.cases) (auto simp: put_run_def)

section \<open>How long a claim lasts\<close>

definition tame :: "uuid \<Rightarrow> payroll_office \<Rightarrow> payroll_office \<Rightarrow> bool" where
  "tame cn s s' \<longleftrightarrow> wall s' = wall s \<and>
     (claims s' cn = claims s cn \<or> claims s' cn = None \<or> (\<exists>v. claims s' cn = Some (v, wall s + claim_ttl)))"

lemma tame_refl: "tame cn s s"
  by (simp add: tame_def)

lemma tame_trans: "tame cn s s1 \<Longrightarrow> tame cn s1 s2 \<Longrightarrow> tame cn s s2"
  by (auto simp: tame_def)

lemma tame_write: "tame cn s s1 \<Longrightarrow> tame cn s (write_run cn run s1)"
  by (simp add: tame_def)

lemma tame_release: "tame cn s s1 \<Longrightarrow> tame cn s (release_run_claim cn r s1)"
  by (auto simp: tame_def release_run_claim_def cache_delete_def)

lemma tame_pay_runs: "tame cn s s1 \<Longrightarrow> tame cn s (s1\<lparr>pay_runs := ps\<rparr>)"
  by (simp add: tame_def)

lemma tame_claims:
  "acquire_run_claim cn r s = (h, s') \<Longrightarrow> tame cn s s'"
  "renew_run_claim cn r s = (b, s') \<Longrightarrow> tame cn s s'"
  "reclaim_or_refuse cn r s = (b, s') \<Longrightarrow> tame cn s s'"
  by (auto simp: tame_def acquire_run_claim_def renew_run_claim_def reclaim_or_refuse_def cache_add_def cache_touch_def
      cache_set_def split: if_splits option.splits prod.splits)

lemma tame_running: "running cn r week n s1 = (run, s2) \<Longrightarrow> tame cn s s1 \<Longrightarrow> tame cn s s2"
  by (auto simp: running_def Let_def intro: tame_write)

lemma tame_close:
  assumes "tame cn s s1" "\<And>s s1 doc s2. build s1 = (doc, s2) \<Longrightarrow> tame cn s s1 \<Longrightarrow> tame cn s s2"
  shows "tame cn s (close_run_if_owned cn r build s1)"
proof -
  obtain b s2 doc s3 where c: "reclaim_or_refuse cn r s1 = (b, s2)" "build s2 = (doc, s3)" by fastforce
  have "tame cn s s2" by (rule tame_trans [OF assms(1) tame_claims(3) [OF c(1)]])
  then show ?thesis using assms(2) [OF c(2)] by (cases b) (auto simp: close_run_if_owned_def c intro: tame_write)
qed

lemma tame_end:
  assumes "tame cn s s1" "\<And>s s1 doc s2. build s1 = (doc, s2) \<Longrightarrow> tame cn s s1 \<Longrightarrow> tame cn s s2"
  shows "tame cn s (release_run_claim cn r (close_run_if_owned cn r build s1))"
  by (rule tame_release, rule tame_close [OF assms(1)], rule assms(2))

lemma tame_claim_calendar: "claim_calendar cn r week s = (x, s') \<Longrightarrow> tame cn s s'"
  by (auto simp: claim_calendar_def intro: tame_refl dest: tame_claims(1) split: sum.splits prod.splits option.splits)

lemma tame_dispatch: "dispatch_posting cn r week ps anchor broker s = (y, s') \<Longrightarrow> tame cn s s'"
  by (cases ps; cases broker)
    (auto simp: dispatch_posting_def running_def Let_def split: sum.splits prod.splits
      intro!: tame_write tame_release tame_pay_runs tame_refl)

lemma tame_take_up:
  assumes "take_up cn r week n s = (z, s')"
  shows "tame cn s s'"
proof -
  obtain b s1 where b: "renew_run_claim cn r s = (b, s1)" by fastforce
  note t = tame_claims(2) [OF b]
  show ?thesis
  proof (cases b)
    case True
    with assms b t show ?thesis by (auto simp: take_up_def running_def Let_def intro!: tame_write)
  next
    case False
    with assms b have "s' = release_run_claim cn r (close_run_if_owned cn r (\<lambda>s. case running cn r week n s of
        (run, s') \<Rightarrow> (finished run Failed (Some never_started) (wall s'), s')) s1)"
      by (simp add: take_up_def)
    then show ?thesis by (simp only:) (rule tame_end [OF t], auto split: prod.splits intro: tame_running)
  qed
qed

lemma tame_report:
  assumes "report_result cn r run x s = (z, s')"
  shows "tame cn s s'"
proof -
  obtain b s1 where b: "renew_run_claim cn r s = (b, s1)" by fastforce
  note t = tame_claims(2) [OF b]
  show ?thesis
  proof (cases b)
    case True
    with assms b t show ?thesis by (auto simp: report_result_def Let_def intro!: tame_write)
  next
    case False
    with assms b have "s' = release_run_claim cn r
        (close_run_if_owned cn r (\<lambda>s. (finished run Failed (Some claim_lost) (wall s), s)) s1)"
      by (simp add: report_result_def)
    then show ?thesis by (simp only:) (rule tame_end [OF t], simp)
  qed
qed

lemma tame_outcome: "tame cn s (complete_run cn r run s)" "tame cn s (fail_run cn r run text s)"
  unfolding complete_run_def fail_run_def by (rule tame_end [OF tame_refl], simp)+

lemmas tame_calls = tame_claim_calendar tame_dispatch tame_take_up tame_report

text \<open>A step is time passing, or keeps the claim tame.\<close>

lemma moves_tame:
  assumes "moves cn s who s'"
  obtains n where "0 \<le> n" "office s' = pass_time n (office s)" | "tame cn (office s) (office s')"
  using assms
  by (cases rule: moves.cases) (auto simp: put_run_def tame_outcome intro: tame_refl dest: tame_calls)

lemma posting_claim_bound:
  assumes "posting ok cn s"
  shows "claims (office s) cn = Some (v, e) \<Longrightarrow> e \<le> wall (office s) + claim_ttl"
  using assms
proof (induction arbitrary: v e rule: posting.induct)
  case (start s)
  then show ?case by (simp add: unstarted_def)
next
  case (step s who s')
  from step.hyps(2) show ?case
  proof (cases rule: moves_tame)
    case (1 n)
    then show ?thesis using step.IH [of v e] step.prems by simp
  next
    case 2
    then consider "claims (office s) cn = Some (v, e)" | "e = wall (office s) + claim_ttl"
      using step.prems by (auto simp: tame_def)
    then show ?thesis using 2 step.IH [of v e] by cases (auto simp: tame_def)
  qed
qed

text \<open>C35: However a run died, and whatever else happened, the calendar is free again ten minutes after the
  last act on the claim: in any reachable state, when that much time has passed, a click on a Monday
  takes it.\<close>

theorem a_dead_run_blocks_ten_minutes:
  assumes "posting ok cn s" "weekday week = 0" "claim_ttl \<le> n"
  shows "\<exists>o'. claim_calendar cn r week (pass_time n (office s)) = (Inr (), o')
    \<and> cache_get (wall o') (claims o') cn = Some r"
proof -
  let ?o = "pass_time n (office s)"
  have "cache_get (wall ?o) (claims ?o) cn = None"
    unfolding cache_get_None using posting_claim_bound [OF assms(1)] assms(3) by fastforce
  then show ?thesis using assms(2)
    by (simp add: claim_calendar_def require_payroll_week_start_def acquire_run_claim_def cache_add_def claim_ttl_def)
qed

section \<open>A run from its claim to its outcome\<close>

lemma held_calls:
  assumes h: "cache_get (wall s) (claims s) cn = Some r"
  defines "c \<equiv> cache_set (wall s) cn r claim_ttl (claims s)"
  shows "report_result cn r run x s =
      (let run' = with_result run x (completed run + 1) (successful run + (if success x then 1 else 0))
         (failed run + (if success x then 0 else 1)) (wall s) in (Some run', write_run cn run' (s\<lparr>claims := c\<rparr>)))"
    "take_up cn r week n s = (let run = opening_document r week n s in (Some run, write_run cn run (s\<lparr>claims := c\<rparr>)))"
  using held [OF h]
  by (simp_all add: c_def report_result_def take_up_def running_def opening_document_def Let_def)

lemma held_outcome:
  assumes h: "cache_get (wall s) (claims s) cn = Some r" and d: "doc = finished run st msg (wall s)"
    and o': "o' = release_run_claim cn r (close_run_if_owned cn r (\<lambda>s. (finished run st msg (wall s), s)) s)"
  shows "wall o' = wall s" "claims o' cn = None" "documents o' = cache_set (wall s) cn doc run_timeout (documents s)"
proof -
  have "o' = release_run_claim cn r (write_run cn doc (s\<lparr>claims := cache_set (wall s) cn r claim_ttl (claims s)\<rparr>))"
    using held [OF h] by (simp add: o' d close_run_if_owned_def)
  then show "wall o' = wall s" "claims o' cn = None" "documents o' = cache_set (wall s) cn doc run_timeout (documents s)"
    by (simp_all add: held(3) claim_ttl_def cache_delete_def)
qed

lemma opening_fields [simp]:
  "run_id (opening_document r week n s) = r" "run_week (opening_document r week n s) = week"
  "total (opening_document r week n s) = n" "status (opening_document r week n s) = Running"
  "results (opening_document r week n s) = []" "completed (opening_document r week n s) = 0"
  "successful (opening_document r week n s) = 0" "failed (opening_document r week n s) = 0"
  by (simp_all add: opening_document_def)

definition count_success :: "(int \<times> staff_week_result) list \<Rightarrow> nat" where
  "count_success xs = length (filter (success \<circ> snd) xs)"

definition outcome_of :: "string option \<Rightarrow> run_status" where
  "outcome_of out = (case out of None \<Rightarrow> Succeeded | Some _ \<Rightarrow> Failed)"

lemma post_results_reports:
  assumes "cache_get (wall s) (claims s) cn = Some r" "claims s cn = Some (r, e)" "wall s + claim_ttl \<le> e"
    and "list_all (\<lambda>(n, x). 0 \<le> n \<and> n < claim_ttl) xs"
  shows "\<exists>doc. read_runs cn (post_results cn r run xs out s) = Some doc
    \<and> claims (post_results cn r run xs out s) cn = None
    \<and> run_id doc = run_id run \<and> run_week doc = run_week run \<and> total doc = total run \<and> status doc = outcome_of out
    \<and> message doc = out \<and> results doc = results run @ map snd xs \<and> completed doc = completed run + length xs
    \<and> successful doc = successful run + count_success xs
    \<and> failed doc = failed run + (length xs - count_success xs)"
  using assms
proof (induction xs arbitrary: run s e)
  case Nil
  show ?case
  proof (cases out)
    case None
    note o' = held_outcome [OF Nil.prems(1) refl refl, of run Succeeded None]
    then show ?thesis using None
      by (auto simp: complete_run_def read_runs_def finished_def run_timeout_def outcome_of_def count_success_def)
  next
    case (Some why)
    note o' = held_outcome [OF Nil.prems(1) refl refl, of run Failed "Some why"]
    then show ?thesis using Some
      by (auto simp: fail_run_def read_runs_def finished_def run_timeout_def outcome_of_def count_success_def)
  qed
next
  case (Cons p xs)
  obtain n x where p: "p = (n, x)" by fastforce
  have n: "0 \<le> n" "n < claim_ttl" using Cons.prems(4) by (auto simp: p)
  let ?s = "pass_time n s"
  have h: "cache_get (wall ?s) (claims ?s) cn = Some r" using Cons.prems(2,3) n by (auto simp: cache_get_Some)
  obtain run' s1 where one: "report_result cn r run x ?s = (Some run', s1)"
    and run': "run' = with_result run x (completed run + 1) (successful run + (if success x then 1 else 0))
         (failed run + (if success x then 0 else 1)) (wall ?s)"
    and s1: "s1 = write_run cn run' (?s\<lparr>claims := cache_set (wall ?s) cn r claim_ttl (claims ?s)\<rparr>)"
    using held_calls(1) [OF h] by (auto simp: Let_def)
  have "cache_get (wall s1) (claims s1) cn = Some r" "claims s1 cn = Some (r, wall s1 + claim_ttl)"
    by (simp add: s1 claim_ttl_def, simp add: s1 cache_set_def)
  from Cons.IH [OF this order_refl] Cons.prems(4) obtain doc where doc: "read_runs cn (post_results cn r run' xs out s1) = Some doc"
      "claims (post_results cn r run' xs out s1) cn = None"
      "run_id doc = run_id run'" "run_week doc = run_week run'" "total doc = total run'" "status doc = outcome_of out"
      "message doc = out" "results doc = results run' @ map snd xs" "completed doc = completed run' + length xs"
      "successful doc = successful run' + count_success xs" "failed doc = failed run' + (length xs - count_success xs)"
    by auto
  have "count_success xs \<le> length xs" "count_success ((n, x) # xs) = (if success x then Suc (count_success xs) else count_success xs)"
    by (simp_all add: count_success_def)
  with doc show ?case by (auto simp: p one run' with_result_def)
qed

text \<open>C22: A task that finds its claim held and gets each result within ten minutes of the one before reports
  all of them: its document ends as succeeded, or as failed with the provider's own words, holds every
  result in order and counts each once, and the claim is given back.\<close>

theorem a_run_reports_every_result:
  assumes "cache_get (wall s) (claims s) cn = Some r"
    and "list_all (\<lambda>(n, x). 0 \<le> n \<and> n < claim_ttl) xs"
  shows "\<exists>doc. read_runs cn (post_payroll_week_task cn r week n xs out s) = Some doc
    \<and> claims (post_payroll_week_task cn r week n xs out s) cn = None
    \<and> run_id doc = r \<and> status doc = outcome_of out \<and> message doc = out \<and> total doc = n
    \<and> results doc = map snd xs \<and> completed doc = length xs
    \<and> successful doc = count_success xs \<and> successful doc + failed doc = completed doc"
proof -
  let ?run = "opening_document r week n s"
  let ?s = "write_run cn ?run (s\<lparr>claims := cache_set (wall s) cn r claim_ttl (claims s)\<rparr>)"
  have up: "take_up cn r week n s = (Some ?run, ?s)" using held_calls(2) [OF assms(1)] by (simp add: Let_def)
  have "cache_get (wall ?s) (claims ?s) cn = Some r" "claims ?s cn = Some (r, wall ?s + claim_ttl)"
    by (simp add: claim_ttl_def, simp add: cache_set_def)
  from post_results_reports [OF this order_refl assms(2), where run = ?run and out = out]
  obtain doc where "read_runs cn (post_results cn r ?run xs out ?s) = Some doc"
      "claims (post_results cn r ?run xs out ?s) cn = None" "run_id doc = r" "status doc = outcome_of out" "message doc = out"
      "total doc = n" "results doc = map snd xs" "completed doc = length xs" "successful doc = count_success xs"
      "failed doc = length xs - count_success xs"
    by auto
  moreover have "count_success xs \<le> length xs" by (simp add: count_success_def)
  ultimately show ?thesis by (auto simp: post_payroll_week_task_def up)
qed

section \<open>Runs that act in time\<close>

definition closed_document :: "payroll_system \<Rightarrow> post_run \<Rightarrow> bool" where
  "closed_document s doc \<longleftrightarrow> (case runs s (run_id doc) of
     Unborn \<Rightarrow> False | Checking _ \<Rightarrow> False | Ended \<Rightarrow> status doc \<noteq> Running | _ \<Rightarrow> True)"

definition tidy :: "uuid \<Rightarrow> payroll_system \<Rightarrow> bool" where
  "tidy cn s \<longleftrightarrow>
     (\<forall>r. under_way (runs s r) \<and> in_time s r \<longrightarrow> claims (office s) cn = Some (r, acted s r + claim_ttl))
   \<and> (\<forall>v e. claims (office s) cn = Some (v, e) \<longrightarrow> runs s v \<noteq> Unborn \<and> runs s v \<noteq> Ended)
   \<and> (\<forall>doc e. documents (office s) cn = Some (doc, e) \<longrightarrow> closed_document s doc)
   \<and> (\<forall>r week ids run. runs s r = Working week ids run \<longrightarrow> run_id run = r)"

lemma tidy_holds:
  assumes "tidy cn s" "under_way (runs s r)" "in_time s r"
  shows "cache_get (wall (office s)) (claims (office s)) cn = Some r"
    "\<And>q. under_way (runs s q) \<Longrightarrow> in_time s q \<Longrightarrow> q = r"
proof -
  have c: "under_way (runs s q) \<Longrightarrow> in_time s q \<Longrightarrow> claims (office s) cn = Some (q, acted s q + claim_ttl)" for q
    using assms(1) by (simp add: tidy_def)
  show "cache_get (wall (office s)) (claims (office s)) cn = Some r"
    using c [OF assms(2,3)] assms(3) by (simp add: cache_get_Some in_time_def)
  show "q = r" if "under_way (runs s q)" "in_time s q" for q using c [OF that] c [OF assms(2,3)] by simp
qed

text \<open>A run that goes on, and one that ends.\<close>

lemma tidyI:
  assumes "\<And>r. under_way (runs s r) \<Longrightarrow> in_time s r \<Longrightarrow> claims (office s) cn = Some (r, acted s r + claim_ttl)"
    and "\<And>v e. claims (office s) cn = Some (v, e) \<Longrightarrow> runs s v \<noteq> Unborn \<and> runs s v \<noteq> Ended"
    and "\<And>doc e. documents (office s) cn = Some (doc, e) \<Longrightarrow> closed_document s doc"
    and "\<And>r week ids run. runs s r = Working week ids run \<Longrightarrow> run_id run = r"
  shows "tidy cn s"
  using assms by (auto simp: tidy_def)

lemma tidyD:
  assumes "tidy cn s"
  shows "claims (office s) cn = Some (v, e) \<Longrightarrow> runs s v \<noteq> Unborn \<and> runs s v \<noteq> Ended"
    "documents (office s) cn = Some (doc, e') \<Longrightarrow> closed_document s doc"
    "runs s r = Working week ids run \<Longrightarrow> run_id run = r"
  using assms by (auto simp: tidy_def)

lemma put_run_simps [simp]:
  "office (put_run r p o' s) = o'" "runs (put_run r p o' s) = (runs s)(r := p)"
  "acted (put_run r p o' s) = (acted s)(r := wall (office s))"
  by (simp_all add: put_run_def)

lemma tidy_goes_on:
  assumes t: "tidy cn s" and r: "\<And>q. q \<noteq> r \<Longrightarrow> under_way (runs s q) \<Longrightarrow> \<not> in_time s q"
    and o': "wall o' = wall (office s)" "claims o' cn = Some (r, wall (office s) + claim_ttl)"
    and d: "documents o' cn = documents (office s) cn \<or> (\<exists>doc e. documents o' cn = Some (doc, e) \<and> run_id doc = r)"
    and p: "p \<noteq> Unborn" "p \<noteq> Ended" "\<And>week ids run. p = Working week ids run \<Longrightarrow> run_id run = r"
      "\<And>week. p = Checking week \<Longrightarrow> runs s r = Unborn \<and> documents o' cn = documents (office s) cn"
  shows "tidy cn (put_run r p o' s)"
proof (rule tidyI)
  fix q assume q: "under_way (runs (put_run r p o' s) q)" "in_time (put_run r p o' s) q"
  show "claims (office (put_run r p o' s)) cn = Some (q, acted (put_run r p o' s) q + claim_ttl)"
  proof (cases "q = r")
    case False
    then have "in_time s q" using q(2) o'(1) by (simp add: in_time_def)
    with r [OF False] q(1) False show ?thesis by simp
  qed (simp add: o')
next
  fix v e assume "claims (office (put_run r p o' s)) cn = Some (v, e)"
  then show "runs (put_run r p o' s) v \<noteq> Unborn \<and> runs (put_run r p o' s) v \<noteq> Ended" using o' p by simp
next
  fix doc e assume doc: "documents (office (put_run r p o' s)) cn = Some (doc, e)"
  show "closed_document (put_run r p o' s) doc"
  proof (cases "run_id doc = r")
    case False
    then have "documents (office s) cn = Some (doc, e)" using doc d by auto
    then have "closed_document s doc" by (rule tidyD(2) [OF t])
    with False show ?thesis by (simp add: closed_document_def)
  next
    case True
    have "\<not> (\<exists>week. p = Checking week)"
    proof
      assume "\<exists>week. p = Checking week"
      then have "documents (office s) cn = Some (doc, e)" "runs s r = Unborn" using doc p(4) by auto
      then have "closed_document s doc" "runs s r = Unborn" using tidyD(2) [OF t] by blast+
      then show False using True by (simp add: closed_document_def)
    qed
    then show ?thesis using True p(1,2) by (cases p) (auto simp: closed_document_def)
  qed
next
  fix q week ids run assume "runs (put_run r p o' s) q = Working week ids run"
  then show "run_id run = q" using p(3) tidyD(3) [OF t] by (cases "q = r") auto
qed

lemma tidy_ends:
  assumes t: "tidy cn s" and r: "\<And>q. q \<noteq> r \<Longrightarrow> under_way (runs s q) \<Longrightarrow> \<not> in_time s q"
    and o': "wall o' = wall (office s)" "claims o' cn = None"
    and d: "(documents o' cn = documents (office s) cn \<and> (\<exists>week. runs s r = Checking week))
      \<or> (\<exists>doc e. documents o' cn = Some (doc, e) \<and> run_id doc = r \<and> status doc \<noteq> Running)"
  shows "tidy cn (put_run r Ended o' s)"
proof (rule tidyI)
  fix q assume q: "under_way (runs (put_run r Ended o' s) q)" "in_time (put_run r Ended o' s) q"
  then have "q \<noteq> r" by (auto simp: under_way_def)
  moreover from this q have "under_way (runs s q)" "in_time s q" using o'(1) by (simp_all add: in_time_def)
  ultimately show "claims (office (put_run r Ended o' s)) cn = Some (q, acted (put_run r Ended o' s) q + claim_ttl)"
    using r by blast
next
  fix doc e assume doc: "documents (office (put_run r Ended o' s)) cn = Some (doc, e)"
  show "closed_document (put_run r Ended o' s) doc"
  proof (cases "run_id doc = r")
    case False
    then have "documents (office s) cn = Some (doc, e)" using doc d by auto
    then have "closed_document s doc" by (rule tidyD(2) [OF t])
    with False show ?thesis by (simp add: closed_document_def)
  next
    case True
    have "status doc \<noteq> Running"
    proof (cases "documents o' cn = documents (office s) cn \<and> (\<exists>week. runs s r = Checking week)")
      case same: True
      then have "documents (office s) cn = Some (doc, e)" using doc by simp
      then have "closed_document s doc" by (rule tidyD(2) [OF t])
      with same True show ?thesis by (auto simp: closed_document_def)
    qed (use d doc in auto)
    then show ?thesis using True by (simp add: closed_document_def)
  qed
next
  fix q week ids run assume "runs (put_run r Ended o' s) q = Working week ids run"
  then show "run_id run = q" using tidyD(3) [OF t] by (cases "q = r") auto
qed (use o' in simp)

text \<open>The steps that only let time pass, change the phase of a run, or write its opening document.\<close>

lemma tidy_frame:
  assumes t: "tidy cn s" and o': "wall (office s) \<le> wall (office s')" "claims (office s') cn = claims (office s) cn"
    and a: "acted s' = acted s"
    and live: "\<And>r. under_way (runs s' r) \<Longrightarrow> under_way (runs s r)"
    and ended: "\<And>r. runs s' r = Unborn \<or> runs s' r = Ended \<Longrightarrow> runs s r = runs s' r \<or> runs s r = Unborn"
    and doc: "\<And>doc e. documents (office s') cn = Some (doc, e) \<Longrightarrow> closed_document s' doc"
    and w: "\<And>r week ids run. runs s' r = Working week ids run \<Longrightarrow> runs s r = Working week ids run"
  shows "tidy cn s'"
proof (rule tidyI)
  fix r assume r: "under_way (runs s' r)" "in_time s' r"
  then have "in_time s r" using o'(1) a by (simp add: in_time_def)
  with live [OF r(1)] t show "claims (office s') cn = Some (r, acted s' r + claim_ttl)"
    by (simp add: tidy_def o'(2) a)
next
  fix v e assume "claims (office s') cn = Some (v, e)"
  then have "runs s v \<noteq> Unborn \<and> runs s v \<noteq> Ended" using tidyD(1) [OF t] o'(2) by simp
  then show "runs s' v \<noteq> Unborn \<and> runs s' v \<noteq> Ended" using ended [of v] by auto
next
  fix r week ids run assume "runs s' r = Working week ids run"
  then show "run_id run = r" by (rule tidyD(3) [OF t w])
qed (rule doc)

lemma closed_after:
  assumes "closed_document s doc" "runs s' (run_id doc) = runs s (run_id doc)
    \<or> runs s' (run_id doc) \<noteq> Ended \<and> under_way (runs s (run_id doc)) \<and> runs s' (run_id doc) \<noteq> Unborn
      \<and> (\<forall>week. runs s' (run_id doc) \<noteq> Checking week)"
  shows "closed_document s' doc"
  using assms by (auto simp: closed_document_def under_way_def split: phase.splits)

lemma dispatched:
  assumes "dispatch_posting cn r week ps anchor broker s = (Inr (run, ids), s')"
  shows "wall s' = wall s" "claims s' = claims s" "\<exists>doc e. documents s' cn = Some (doc, e) \<and> run_id doc = r"
  using assms
  by (auto simp: dispatch_posting_def running_def Let_def cache_set_def split: sum.splits option.splits)

lemma dispatch_refusal:
  assumes "dispatch_posting cn r week ps anchor broker s = (Inl e, s')" "cache_get (wall s) (claims s) cn = Some r"
  shows "wall s' = wall s \<and> claims s' cn = None \<and> (documents s' cn = documents s cn
    \<or> (\<exists>doc e. documents s' cn = Some (doc, e) \<and> run_id doc = r \<and> status doc \<noteq> Running))"
  using assms
  by (auto simp: dispatch_posting_def running_def finished_def Let_def cache_set_def release_run_claim_def cache_delete_def
      write_run_def publish_def split: sum.splits option.splits)

lemma claimed:
  assumes "claim_calendar cn r week s = (Inr (), s')"
  shows "cache_get (wall s) (claims s) cn = None" "wall s' = wall s" "documents s' = documents s"
    "claims s' cn = Some (r, wall s + claim_ttl)"
  using assms
  by (auto simp: claim_calendar_def acquire_run_claim_def cache_add_def cache_set_def split: sum.splits if_splits)

lemma not_claimed: "claim_calendar cn r week s = (Inl e, s') \<Longrightarrow> s' = s"
  by (auto simp: claim_calendar_def acquire_run_claim_def cache_add_def split: sum.splits if_splits)

lemma moves_tidy:
  assumes m: "moves cn s who s'" and t: "tidy cn s" and ok: "\<And>r. who = Some r \<Longrightarrow> prompt s r"
  shows "tidy cn s'"
  using m
proof (cases rule: moves.cases)
  case (pass n)
  show ?thesis using tidyD(2) [OF t] pass
    by (intro tidy_frame [OF t]) (auto intro: closed_after)
next
  case (click r week o')
  note c = claimed [OF click(4)]
  have "\<not> in_time s q" if "under_way (runs s q)" for q using tidy_holds(1) [OF t that] c(1) by auto
  with click c show ?thesis by (simp only:) (rule tidy_goes_on [OF t], auto)
next
  case (click_refused r week e o')
  have "run_id doc \<noteq> r" if "documents (office s) cn = Some (doc, x)" for doc x
    using tidyD(2) [OF t that] click_refused(3) by (auto simp: closed_document_def)
  moreover have "o' = office s" by (rule not_claimed [OF click_refused(4)])
  ultimately have doc: "closed_document s' doc" if "documents (office s') cn = Some (doc, x)" for doc x
    using that tidyD(2) [OF t] click_refused(2) by (auto intro: closed_after [of s])
  show ?thesis
  proof (rule tidyI)
    fix q assume q: "under_way (runs s' q)" "in_time s' q"
    then have "q \<noteq> r" using click_refused(2) by (auto simp: under_way_def)
    then show "claims (office s') cn = Some (q, acted s' q + claim_ttl)"
      using q t click_refused(2) \<open>o' = office s\<close> by (simp add: tidy_def in_time_def)
  next
    fix v y assume "claims (office s') cn = Some (v, y)"
    then have "runs s v \<noteq> Unborn \<and> runs s v \<noteq> Ended" using tidyD(1) [OF t] click_refused(2) \<open>o' = office s\<close> by simp
    then show "runs s' v \<noteq> Unborn \<and> runs s' v \<noteq> Ended" using click_refused(2,3) by auto
  next
    fix q w ids run assume "runs s' q = Working w ids run"
    then show "run_id run = q" using tidyD(3) [OF t] click_refused(2) by (cases "q = r") auto
  qed (rule doc)
next
  case (dispatch r week ps anchor broker run ids o')
  note d = dispatched [OF dispatch(4)]
  show ?thesis using d dispatch
    by (intro tidy_frame [OF t]) (auto simp: under_way_def closed_document_def split: if_splits)
next
  case (dispatch_refused r week ps anchor broker e o')
  then have u: "under_way (runs s r)" "in_time s r" using ok by (auto simp: under_way_def prompt_def)
  note h = tidy_holds [OF t u] note d = dispatch_refusal [OF dispatch_refused(4) h(1)]
  show ?thesis using dispatch_refused d h(2) by (simp only:) (rule tidy_ends [OF t], auto)
next
  case (taken_up r week ids run o')
  then have u: "under_way (runs s r)" "in_time s r" using ok by (auto simp: under_way_def prompt_def)
  note h = tidy_holds [OF t u]
  show ?thesis using taken_up held_calls(2) [OF h(1), of week "length ids"] h(2)
    by (simp only: Let_def prod.inject option.inject) (rule tidy_goes_on [OF t], auto simp: cache_set_def)
next
  case (stale r week ids o')
  then have u: "under_way (runs s r)" "in_time s r" using ok by (auto simp: under_way_def prompt_def)
  show ?thesis using stale held_calls(2) [OF tidy_holds(1) [OF t u]] by (simp add: Let_def)
next
  case (reported r week ids run x run' o')
  then have u: "under_way (runs s r)" "in_time s r" using ok by (auto simp: under_way_def prompt_def)
  note h = tidy_holds [OF t u] have r: "run_id run = r" by (rule tidyD(3) [OF t reported(3)])
  show ?thesis using reported held_calls(1) [OF h(1), of run x] h(2) r
    by (simp only: Let_def prod.inject option.inject) (rule tidy_goes_on [OF t], auto simp: cache_set_def with_result_def)
next
  case (cut_short r week ids run x o')
  then have u: "under_way (runs s r)" "in_time s r" using ok by (auto simp: under_way_def prompt_def)
  show ?thesis using cut_short held_calls(1) [OF tidy_holds(1) [OF t u]] by (simp add: Let_def)
next
  case (completed r week ids run)
  then have u: "under_way (runs s r)" "in_time s r" using ok by (auto simp: under_way_def prompt_def)
  note h = tidy_holds [OF t u] have r: "run_id run = r" by (rule tidyD(3) [OF t completed(3)])
  note o' = held_outcome [OF h(1) refl complete_run_def]
  show ?thesis using completed h(2) r o' by (simp only:) (rule tidy_ends [OF t], auto simp: cache_set_def finished_def)
next
  case (broken r week ids run msg)
  then have u: "under_way (runs s r)" "in_time s r" using ok by (auto simp: under_way_def prompt_def)
  note h = tidy_holds [OF t u] have r: "run_id run = r" by (rule tidyD(3) [OF t broken(3)])
  note o' = held_outcome [OF h(1) refl fail_run_def]
  show ?thesis using broken h(2) r o' by (simp only:) (rule tidy_ends [OF t], auto simp: cache_set_def finished_def)
next
  case (killed r week ids run)
  show ?thesis using tidyD(2) [OF t] killed
    by (intro tidy_frame [OF t]) (auto simp: under_way_def split: if_splits intro: closed_after [of s])
next
  case (request_died r week)
  show ?thesis using tidyD(2) [OF t] request_died
    by (intro tidy_frame [OF t]) (auto simp: under_way_def split: if_splits intro: closed_after [of s])
qed

lemma posting_tidy: "posting prompt cn s \<Longrightarrow> tidy cn s"
proof (induction rule: posting.induct)
  case (start s)
  then show ?case by (auto simp: tidy_def unstarted_def under_way_def)
next
  case (step s who s')
  then show ?case using moves_tidy by blast
qed

text \<open>C17: When every run acts within ten minutes of its last act on the claim, at most one run is under way
  that can still act, and it is the one that holds the claim: no two runs ever post side by side.\<close>

theorem one_run_at_a_time:
  assumes "posting prompt cn s" "under_way (runs s r)" "in_time s r"
  shows "cache_get (wall (office s)) (claims (office s)) cn = Some r
    \<and> (\<forall>q. under_way (runs s q) \<and> in_time s q \<longrightarrow> q = r)"
  using tidy_holds [OF posting_tidy [OF assms(1)] assms(2,3)] by blast

text \<open>C21: Under the same bound, a run that ended holds no claim, and a document it left says how it ended:
  the screen is never left showing a run that nobody is working on.\<close>

theorem an_ended_run_is_closed:
  assumes "posting prompt cn s" "runs s r = Ended"
  shows "cache_get (wall (office s)) (claims (office s)) cn \<noteq> Some r
    \<and> (\<forall>doc. read_runs cn (office s) = Some doc \<and> run_id doc = r \<longrightarrow> status doc \<noteq> Running)"
proof -
  note t = posting_tidy [OF assms(1)]
  have "cache_get (wall (office s)) (claims (office s)) cn \<noteq> Some r"
    using tidyD(1) [OF t] assms(2) by (auto simp: cache_get_Some)
  moreover have "status doc \<noteq> Running" if "read_runs cn (office s) = Some doc" "run_id doc = r" for doc
    using tidyD(2) [OF t] that assms(2) by (auto simp: read_runs_def cache_get_Some closed_document_def split: phase.splits)
  ultimately show ?thesis by blast
qed

section \<open>A sample calendar\<close>

definition sample_office :: payroll_office where
  "sample_office = \<lparr>wall = 1000, claims = (\<lambda>_. None), documents = (\<lambda>_. None), pushed = [], pay_runs = [],
     calendar_id = Some 7, payroll_start = None, shortcode = Some ''dw'', people = sample_db\<rparr>"

definition sample_result :: "bool \<Rightarrow> staff_week_result" where
  "sample_result won = \<lparr>sr_staff = 1, sr_name = ''Ari'', success = won, timesheet_id = None, entries_posted = 5,
     sr_work_hours = 40, other_leave_hours = 0, sr_leave_hours = 0, skipped = False, sr_reason = None, has_entries = True,
     sr_error = None, by_salary = False, salary_timesheet_removed = False\<rparr>"

abbreviation monday :: date where "monday \<equiv> 738998"

definition sample_start :: payroll_system where
  "sample_start = \<lparr>office = sample_office, runs = (\<lambda>_. Unborn), acted = (\<lambda>_. 0)\<rparr>"

definition sample_clicked :: payroll_office where
  "sample_clicked = snd (claim_calendar 9 1 monday sample_office)"

definition sample_opening :: post_run where
  "sample_opening = opening_document 1 monday 3 sample_office"

definition sample_dispatched :: payroll_office where
  "sample_dispatched = write_run 9 sample_opening (sample_clicked\<lparr>pay_runs := []\<rparr>)"

definition sample_taken :: payroll_office where
  "sample_taken = snd (take_up 9 1 monday 3 sample_dispatched)"

lemma sample_preflight: "preflight monday (Inr None) (sample_office\<lparr>claims := c, pay_runs := []\<rparr>) = Inr [1, 2, 3]"
proof -
  have "preflight monday (Inr None) sample_office = Inr [1, 2, 3]" by code_simp
  then show ?thesis
    by (simp add: preflight_def get_payroll_calendar_id_def next_postable_payroll_week_def on_calendar_def latest_by_def
        postable_staff_def sample_office_def)
qed

lemma sample_clicked_parts: "sample_clicked = sample_office\<lparr>claims := cache_set 1000 9 1 claim_ttl (\<lambda>_. None)\<rparr>"
  "wall sample_office = 1000"
  by (simp_all add: sample_clicked_def claim_calendar_def require_payroll_week_start_def weekday_def acquire_run_claim_def
      cache_add_def cache_get_def sample_office_def)

lemma sample_walls:
  "wall sample_clicked = 1000" "wall sample_dispatched = 1000" "wall sample_taken = 1000"
  "cache_get 1000 (claims sample_dispatched) 9 = Some 1" "claims sample_taken 9 = Some (1, 1600)"
  "cache_get 1000 (claims sample_taken) 9 = Some 1" "documents sample_taken 9 = Some (sample_opening, 4600)"
  "take_up 9 1 monday 3 sample_dispatched = (Some sample_opening, sample_taken)"
proof -
  show w: "wall sample_clicked = 1000" "wall sample_dispatched = 1000"
    and h: "cache_get 1000 (claims sample_dispatched) 9 = Some 1"
    by (simp_all add: sample_clicked_parts sample_dispatched_def claim_ttl_def)
  then have "cache_get (wall sample_dispatched) (claims sample_dispatched) 9 = Some 1" by simp
  note up = held_calls(2) [OF this, of monday 3]
  have o: "opening_document 1 monday 3 sample_dispatched = sample_opening"
    by (simp add: opening_document_def sample_opening_def w sample_clicked_parts)
  show "take_up 9 1 monday 3 sample_dispatched = (Some sample_opening, sample_taken)"
    unfolding sample_taken_def up o Let_def by simp
  show "wall sample_taken = 1000" "claims sample_taken 9 = Some (1, 1600)" "cache_get 1000 (claims sample_taken) 9 = Some 1"
    "documents sample_taken 9 = Some (sample_opening, 4600)"
    unfolding sample_taken_def up o Let_def by (simp_all add: w claim_ttl_def run_timeout_def, simp_all add: cache_set_def)
qed

lemma sample_calls:
  "claim_calendar 9 1 monday sample_office = (Inr (), sample_clicked)"
  "dispatch_posting 9 1 monday (Inr []) (Inr None) None sample_clicked = (Inr (sample_opening, [1, 2, 3]), sample_dispatched)"
proof -
  show "claim_calendar 9 1 monday sample_office = (Inr (), sample_clicked)"
    by (simp add: sample_clicked_def claim_calendar_def require_payroll_week_start_def weekday_def acquire_run_claim_def
      cache_add_def cache_get_def sample_office_def)
  have "opening_document 1 monday 3 (sample_clicked\<lparr>pay_runs := []\<rparr>) = sample_opening"
    by (simp add: opening_document_def sample_opening_def sample_clicked_parts)
  then show "dispatch_posting 9 1 monday (Inr []) (Inr None) None sample_clicked = (Inr (sample_opening, [1, 2, 3]), sample_dispatched)"
    using sample_preflight
    by (simp add: dispatch_posting_def running_def sample_dispatched_def sample_clicked_parts eval_nat_numeral Let_def)
qed

definition sample_working :: payroll_system where
  "sample_working = \<lparr>office = sample_taken, runs = (\<lambda>_. Unborn)(1 := Working monday [1, 2, 3] sample_opening),
     acted = (\<lambda>_. 0)(1 := 1000)\<rparr>"

lemma sample_posting: "posting prompt 9 sample_working"
proof -
  have u: "unstarted 9 sample_start" by (simp add: unstarted_def sample_start_def sample_office_def)
  let ?clicked = "put_run 1 (Checking monday) sample_clicked sample_start"
  have "moves 9 sample_start (Some 1) ?clicked"
    by (rule moves.click) (simp_all add: sample_start_def sample_calls del: One_nat_def)
  then have 1: "posting prompt 9 ?clicked"
    by (rule posting.step [OF posting.start [OF u]]) (auto simp: prompt_def sample_start_def)
  let ?queued = "?clicked\<lparr>office := sample_dispatched, runs := (runs ?clicked)(1 := Queued monday [1, 2, 3])\<rparr>"
  have "moves 9 ?clicked (Some 1) ?queued" using sample_calls(2) by (intro moves.dispatch) simp_all
  then have 2: "posting prompt 9 ?queued"
    by (rule posting.step [OF 1]) (auto simp: prompt_def in_time_def sample_walls sample_clicked_parts(2) claim_ttl_def sample_start_def)
  have "moves 9 ?queued (Some 1) (put_run 1 (Working monday [1, 2, 3] sample_opening) sample_taken ?queued)"
    by (rule moves.taken_up) (use sample_walls(8) in \<open>simp_all add: numeral_3_eq_3\<close>)
  then have "posting prompt 9 (put_run 1 (Working monday [1, 2, 3] sample_opening) sample_taken ?queued)"
    by (rule posting.step [OF 2]) (auto simp: prompt_def in_time_def sample_walls sample_clicked_parts(2) claim_ttl_def sample_start_def)
  moreover have "put_run 1 (Working monday [1, 2, 3] sample_opening) sample_taken ?queued = sample_working"
    by (simp add: sample_working_def put_run_def sample_walls sample_start_def fun_upd_upd)
  ultimately show ?thesis by simp
qed

theorem a_live_claim_is_left_alone_witness:
  "\<exists>s'. moves 9 sample_working (Some 2) s' \<and> office s' = sample_taken"
proof -
  have held: "cache_get (wall (office sample_working)) (claims (office sample_working)) 9 = Some 1"
    by (simp add: sample_working_def sample_walls)
  have "claim_calendar 9 2 monday sample_taken = (Inl (Conflict ''A payroll posting run is already in progress''), sample_taken)"
    using sample_walls(3,6) held_elsewhere(4) [of sample_taken 9 1 2]
    by (simp add: claim_calendar_def require_payroll_week_start_def weekday_def)
  then have "moves 9 sample_working (Some 2) (put_run 2 Ended sample_taken sample_working)"
    by (intro moves.click_refused) (simp_all add: sample_working_def)
  with a_live_claim_is_left_alone [OF this held] show ?thesis by (auto simp: sample_working_def)
qed

theorem a_dead_run_blocks_ten_minutes_witness:
  "\<exists>o'. claim_calendar 9 2 monday (pass_time 600 sample_taken) = (Inr (), o')"
  using a_dead_run_blocks_ten_minutes [OF sample_posting, of monday 600 2]
  by (auto simp: weekday_def claim_ttl_def sample_working_def)

theorem a_run_reports_every_result_witness:
  "\<exists>doc. read_runs 9 (post_payroll_week_task 9 1 monday 3 [(5, sample_result True), (5, sample_result False)] None sample_dispatched)
      = Some doc \<and> status doc = Succeeded \<and> completed doc = 2 \<and> successful doc = 1"
  using a_run_reports_every_result [of sample_dispatched 9 1 "[(5, sample_result True), (5, sample_result False)]" monday 3 None]
  by (auto simp: sample_walls claim_ttl_def outcome_of_def count_success_def sample_result_def)

theorem one_run_at_a_time_witness:
  "posting prompt 9 sample_working \<and> cache_get (wall (office sample_working)) (claims (office sample_working)) 9 = Some 1"
  using one_run_at_a_time [OF sample_posting, of 1] sample_posting
  by (simp add: sample_working_def under_way_def in_time_def sample_walls claim_ttl_def)

theorem an_ended_run_is_closed_witness:
  "\<exists>s doc. posting prompt 9 s \<and> read_runs 9 (office s) = Some doc \<and> run_id doc = 1 \<and> status doc \<noteq> Running"
proof -
  let ?s = "put_run 1 Ended (complete_run 9 1 sample_opening sample_taken) sample_working"
  have "moves 9 sample_working (Some 1) ?s"
    using moves.completed [of sample_working 1 monday "[1, 2, 3]" sample_opening 9] by (simp add: sample_working_def)
  then have s: "posting prompt 9 ?s"
    by (rule posting.step [OF sample_posting]) (auto simp: prompt_def in_time_def sample_working_def sample_walls claim_ttl_def)
  have "cache_get (wall sample_taken) (claims sample_taken) 9 = Some 1" by (simp add: sample_walls)
  note o' = held_outcome [OF this refl complete_run_def, of sample_opening]
  obtain doc where doc: "read_runs 9 (office ?s) = Some doc" "run_id doc = 1"
    using o' by (auto simp: read_runs_def run_timeout_def finished_def sample_opening_def)
  with an_ended_run_is_closed [OF s, of 1] have "status doc \<noteq> Running" by auto
  with s doc show ?thesis by blast
qed

section \<open>When a run is not in time\<close>

text \<open>
  The bound is needed. A run whose provider hangs for ten minutes loses the calendar to a second
  click; it must then write nothing. When that click is refused after its claim (the week is not the
  next one), it releases the claim and writes no document either: the first run's document stays on
  the screen as running, with both runs over and the claim free, until the document itself runs out.
\<close>

lemma posting_any: "posting ok cn s \<Longrightarrow> posting (\<lambda>_ _. True) cn s"
  by (induction rule: posting.induct) (auto intro: posting.intros)

theorem a_refused_click_leaves_a_dead_run_on_the_screen:
  "\<exists>s doc. posting (\<lambda>_ _. True) 9 s \<and> runs s 1 = Ended \<and> runs s 2 = Ended
    \<and> cache_get (wall (office s)) (claims (office s)) 9 = None
    \<and> read_runs 9 (office s) = Some doc \<and> run_id doc = 1 \<and> status doc = Running"
proof -
  define late where "late = pass_time 600 sample_taken"
  define stolen where "stolen = snd (claim_calendar 9 2 monday late)"
  define lost where "lost = snd (report_result 9 1 sample_opening (sample_result True) stolen)"
  define over where "over = snd (dispatch_posting 9 2 monday (Inl (ValueErr ''unreachable'')) (Inr None) None lost)"
  have late: "wall late = 1600" "claims late 9 = Some (1, 1600)" "documents late 9 = Some (sample_opening, 4600)"
    by (simp_all add: late_def sample_walls)
  have stolen: "claim_calendar 9 2 monday late = (Inr (), stolen)" "wall stolen = 1600"
      "cache_get (wall stolen) (claims stolen) 9 = Some 2" "documents stolen = documents late"
    using late by (simp_all add: stolen_def claim_calendar_def require_payroll_week_start_def weekday_def
      acquire_run_claim_def cache_add_def cache_get_None claim_ttl_def)
  have lost: "report_result 9 1 sample_opening (sample_result True) stolen = (None, lost)" "lost = stolen"
    using over_a_live_run(4) [OF stolen(3)] by (simp_all add: lost_def)
  have over: "dispatch_posting 9 2 monday (Inl (ValueErr ''unreachable'')) (Inr None) None lost = (Inl (ValueErr ''unreachable''), over)"
      "over = release_run_claim 9 2 stolen"
    by (simp_all add: over_def dispatch_posting_def lost(2))
  note calls = stolen(1) lost(1) over(1)
  let ?s1 = "sample_working\<lparr>office := late\<rparr>"
  let ?s2 = "put_run 2 (Checking monday) stolen ?s1"
  let ?s3 = "put_run 1 Ended lost ?s2"
  let ?s4 = "put_run 2 Ended over ?s3"
  have m1: "moves 9 sample_working None ?s1" using moves.pass [of 600 9 sample_working] by (simp add: late_def sample_working_def)
  have m2: "moves 9 ?s1 (Some 2) ?s2" by (rule moves.click) (simp_all add: calls sample_working_def)
  have m3: "moves 9 ?s2 (Some 1) ?s3" by (rule moves.cut_short [where x = "sample_result True"]) (use calls(2) in \<open>simp_all add: sample_working_def\<close>)
  have m4: "moves 9 ?s3 (Some 2) ?s4" by (rule moves.dispatch_refused [where ps = "Inl (ValueErr ''unreachable'')" and anchor = "Inr None" and broker = None and e = "ValueErr ''unreachable''"]) (use calls(3) in simp_all)
  have "posting (\<lambda>_ _. True) 9 ?s4"
    by (rule posting.step [OF posting.step [OF posting.step [OF posting.step [OF posting_any [OF sample_posting] m1]
      m2] m3] m4]) simp_all
  moreover have "read_runs 9 over = Some sample_opening" "cache_get (wall over) (claims over) 9 = None"
    using late stolen by (simp_all add: over held(3) read_runs_def cache_get_Some)
  ultimately show ?thesis by (intro exI [of _ ?s4]) (auto simp: sample_opening_def)
qed

end
