(* ===== verification/Calendar.thy ===== *)
theory Calendar
  imports Payroll_Terms
begin

text \<open>
  The text of dates and moments: \<open>date.isoformat\<close> and \<open>fromisoformat\<close> of the standard library, on
  the ordinals dates are kept as. A moment with a zone is the reading of the clock there and the
  minutes that zone is ahead of UTC.
\<close>

section \<open>The calendar\<close>

definition days_before_year :: "int \<Rightarrow> int" where
  "days_before_year y = (y - 1) * 365 + (y - 1) div 4 - (y - 1) div 100 + (y - 1) div 400"

definition leap_year :: "int \<Rightarrow> bool" where
  "leap_year y \<longleftrightarrow> y mod 4 = 0 \<and> (y mod 100 \<noteq> 0 \<or> y mod 400 = 0)"

definition month_days :: "int \<Rightarrow> int list" where
  "month_days y = [31, if leap_year y then 29 else 28, 31, 30, 31, 30, 31, 31, 30, 31, 30, 31]"

fun month_walk :: "int list \<Rightarrow> int \<Rightarrow> nat \<times> int" where
  "month_walk [] n = (0, n)"
| "month_walk (l # ls) n = (if n \<le> l then (0, n) else case month_walk ls (n - l) of (m, d) \<Rightarrow> (Suc m, d))"

definition year_of :: "date \<Rightarrow> int" where
  "year_of d = (let y = d * 400 div 146097 + 1
     in if d \<le> days_before_year y then y - 1 else if days_before_year (y + 1) < d then y + 1 else y)"

definition date_of :: "int \<Rightarrow> nat \<Rightarrow> int \<Rightarrow> date" where
  "date_of y m d = days_before_year y + sum_list (take m (month_days y)) + d"

section \<open>Text of dates and moments\<close>

definition digit :: "int \<Rightarrow> char" where
  "digit n = char_of (48 + nat n)"

text \<open>The ten digits by a table, which evaluates faster than \<open>char_of\<close>.\<close>

lemma digit_table: "list_all (\<lambda>n. digit n = ''0123456789'' ! nat n) [0..9]"
  by code_simp

lemma digit_code [code]: "digit n = (if 0 \<le> n \<and> n \<le> 9 then ''0123456789'' ! nat n else char_of (48 + nat n))"
proof (cases "0 \<le> n \<and> n \<le> 9")
  case True
  then have "n \<in> set [0..9]" by simp
  then have "digit n = ''0123456789'' ! nat n" using digit_table by (simp only: list_all_iff)
  then show ?thesis using True by simp
qed (auto simp: digit_def)

lemma show_digits_code [code]:
  "show_digits n = (if n < 10 then [digit (int n)] else show_digits (n div 10) @ [digit (int (n mod 10))])"
  by (subst show_digits.simps) (simp only: digit_def nat_int)

definition two :: "int \<Rightarrow> string" where
  "two n = [digit (n div 10), digit (n mod 10)]"

definition four :: "int \<Rightarrow> string" where
  "four n = two (n div 100) @ two (n mod 100)"

definition date_iso :: "date \<Rightarrow> string" where
  "date_iso d = (let y = year_of d in case month_walk (month_days y) (d - days_before_year y) of
     (m, n) \<Rightarrow> four y @ ''-'' @ two (int m + 1) @ ''-'' @ two n)"

definition read_two :: "string \<Rightarrow> int option" where
  "read_two t = (if length t = 2 then map_option int (digits_value t 0) else None)"

definition parse_date :: "string \<Rightarrow> date option" where
  "parse_date t =
     (if length t = 10 \<and> t ! 4 = CHR ''-'' \<and> t ! 7 = CHR ''-''
      then case (read_two (take 2 t), read_two (take 2 (drop 2 t)), read_two (take 2 (drop 5 t)), read_two (drop 8 t)) of
        (Some a, Some b, Some m, Some d) \<Rightarrow>
          let y = a * 100 + b
          in if 1 \<le> y \<and> 1 \<le> m \<and> m \<le> 12 \<and> 1 \<le> d \<and> d \<le> month_days y ! nat (m - 1)
             then Some (date_of y (nat (m - 1)) d) else None
      | _ \<Rightarrow> None
      else None)"

definition dates_have_text :: "date \<Rightarrow> bool" where
  "dates_have_text d \<longleftrightarrow> 1 \<le> d \<and> d \<le> days_before_year 10000"

lemma year_of_bounds:
  "days_before_year (year_of d) < d" "d \<le> days_before_year (year_of d + 1)"
proof -
  define q where "q = d * 400 div 146097"
  have near: "146097 * y - 800 \<le> 400 * (days_before_year (y + 1)) \<and> 400 * days_before_year (y + 1) \<le> 146097 * y + 800" for y
    unfolding days_before_year_def by simp linarith
  have q: "146097 * q \<le> d * 400" "d * 400 < 146097 * q + 146097"
    unfolding q_def using div_mult_mod_eq [of "d * 400" 146097] pos_mod_bound [of 146097 "d * 400"] pos_mod_sign [of 146097 "d * 400"]
    by linarith+
  have "days_before_year q < d" using near [of "q - 1"] q by simp
  moreover have "d \<le> days_before_year (q + 3)" using near [of "q + 2"] q by (simp add: add.commute)
  ultimately show "days_before_year (year_of d) < d" "d \<le> days_before_year (year_of d + 1)"
    unfolding year_of_def Let_def q_def [symmetric] by (auto simp: add.commute)
qed

lemma div_before:
  fixes y k :: int
  assumes "0 < k"
  shows "(y - 1) div k = (if y mod k = 0 then y div k - 1 else y div k)"
proof -
  have e: "y = k * (y div k) + y mod k" by simp
  have r: "0 \<le> y mod k" "y mod k < k" using assms by simp_all
  show ?thesis
  proof (cases "y mod k = 0")
    case True
    have "(y - 1) div k = y div k - 1"
      by (rule int_div_pos_eq [where r = "k - 1"]) (use e True assms in \<open>auto simp: algebra_simps\<close>)
    then show ?thesis using True by simp
  next
    case False
    have "(y - 1) div k = y div k"
      by (rule int_div_pos_eq [where r = "y mod k - 1"]) (use e False r in \<open>auto simp: algebra_simps\<close>)
    then show ?thesis using False by simp
  qed
qed

lemma year_length: "days_before_year (y + 1) = days_before_year y + sum_list (month_days y)"
proof -
  have "4 dvd (100 :: int)" "100 dvd (400 :: int)" by simp_all
  then have "y mod 400 = 0 \<Longrightarrow> y mod 100 = 0" "y mod 100 = 0 \<Longrightarrow> y mod 4 = 0" by (meson mod_0_imp_dvd dvd_trans dvd_imp_mod_0)+
  then show ?thesis by (auto simp: days_before_year_def month_days_def leap_year_def div_before)
qed

lemma month_walk_spec:
  assumes "0 < n" "n \<le> sum_list ls" "month_walk ls n = (m, d)"
  shows "m < length ls \<and> 0 < d \<and> d \<le> ls ! m \<and> sum_list (take m ls) + d = n"
  using assms
proof (induction ls arbitrary: n m d)
  case (Cons l ls)
  show ?case
  proof (cases "n \<le> l")
    case True
    then show ?thesis using Cons.prems by auto
  next
    case False
    obtain m' d' where r: "month_walk ls (n - l) = (m', d')" by fastforce
    with Cons.IH [of "n - l" m' d'] Cons.prems False show ?thesis by auto
  qed
qed simp

lemma month_days_shape: "length (month_days y) = 12" "\<forall>x \<in> set (month_days y). x \<le> 31"
  by (auto simp: month_days_def)

text \<open>The year, month and day of a date name it.\<close>

lemma date_parts:
  assumes "month_walk (month_days (year_of d)) (d - days_before_year (year_of d)) = (m, n)"
  shows "m < 12" "0 < n" "n \<le> month_days (year_of d) ! m" "n \<le> 31" "date_of (year_of d) m n = d"
proof -
  have "0 < d - days_before_year (year_of d)" "d - days_before_year (year_of d) \<le> sum_list (month_days (year_of d))"
    using year_of_bounds [of d] year_length [of "year_of d"] by auto
  from month_walk_spec [OF this assms]
  show "m < 12" "0 < n" "n \<le> month_days (year_of d) ! m" "date_of (year_of d) m n = d"
    using month_days_shape by (auto simp: date_of_def)
  then show "n \<le> 31" using month_days_shape(2) [of "year_of d"] nth_mem [of m "month_days (year_of d)"]
    by (fastforce simp: month_days_shape(1))
qed

lemma dates_mono: "y < y' \<Longrightarrow> days_before_year (y + 1) \<le> days_before_year y'"
proof -
  assume "y < y'"
  then have "y + 1 \<le> y'" by simp
  then show ?thesis
  proof (induction rule: int_ge_induct)
    case (step i)
    have "0 \<le> sum_list (month_days i)" by (simp add: month_days_def)
    with step year_length [of i] show ?case by simp
  qed simp
qed

lemma year_of_range:
  assumes "dates_have_text d"
  shows "1 \<le> year_of d" "year_of d < 10000"
proof -
  have "days_before_year 1 = 0" by (simp add: days_before_year_def)
  then show "1 \<le> year_of d"
    using assms year_of_bounds(2) [of d] dates_mono [of "year_of d" 1] by (force simp: dates_have_text_def)
  show "year_of d < 10000"
    using assms year_of_bounds(1) [of d] dates_mono [of 9999 "year_of d"] by (force simp: dates_have_text_def)
qed

lemma digit_value: "0 \<le> n \<Longrightarrow> n < 10 \<Longrightarrow> of_char (digit n) = (48 + nat n :: nat)"
  by (simp add: digit_def of_char_of take_bit_eq_mod)

lemma read_two_two [simp]:
  assumes "0 \<le> n" "n < 100"
  shows "read_two (two n) = Some n"
proof -
  have "0 \<le> n div 10" "n div 10 < 10" "0 \<le> n mod 10" "n mod 10 < 10" using assms by auto
  note d = digit_value [OF this(1,2)] digit_value [OF this(3,4)]
  have "n = (n div 10) * 10 + n mod 10" by simp
  then have "int (nat (n div 10) * 10 + nat (n mod 10)) = n"
    using \<open>0 \<le> n div 10\<close> \<open>0 \<le> n mod 10\<close> by simp
  moreover have "nat (n div 10) \<le> 9" "nat (n mod 10) \<le> 9" using \<open>n div 10 < 10\<close> \<open>n mod 10 < 10\<close> by linarith+
  ultimately show ?thesis using d by (simp add: read_two_def two_def)
qed

lemma length_two [simp]: "length (two n) = 2" by (simp add: two_def)

text \<open>\<open>date.fromisoformat(d.isoformat()) == d\<close>.\<close>

lemma parse_date_iso:
  assumes "dates_have_text d"
  shows "parse_date (date_iso d) = Some d"
proof -
  let ?y = "year_of d"
  obtain m n where w: "month_walk (month_days ?y) (d - days_before_year ?y) = (m, n)" by fastforce
  note p = date_parts [OF w] and y = year_of_range [OF assms]
  have t: "date_iso d = two (?y div 100) @ two (?y mod 100) @ CHR ''-'' # two (int m + 1) @ CHR ''-'' # two n"
    by (simp add: date_iso_def Let_def w four_def)
  have "?y div 100 < 100" using y by linarith
  then have r: "read_two (two (?y div 100)) = Some (?y div 100)" "read_two (two (?y mod 100)) = Some (?y mod 100)"
      "read_two (two (int m + 1)) = Some (int m + 1)" "read_two (two n) = Some n"
    using y p by simp_all
  have c: "?y div 100 * 100 + ?y mod 100 = ?y" by simp
  show ?thesis
    using y p(1-3,5) r c unfolding t parse_date_def
    by (simp add: nth_append Let_def two_def [of "?y div 100"] two_def [of "?y mod 100"] two_def [of "int m + 1"])
qed

section \<open>Moments\<close>

definition three :: "int \<Rightarrow> string" where
  "three n = digit (n div 100) # two (n mod 100)"

text \<open>A moment \<open>k\<close> minutes later.\<close>

definition shift_moment :: "int \<Rightarrow> moment \<Rightarrow> moment" where
  "shift_moment k m = (let n = minutes (m_time m) + k in
     \<lparr>m_date = m_date m + n div 1440,
      m_time = Clock (n mod 1440 div 60) (n mod 60) (sec (m_time m)) (micro (m_time m))\<rparr>)"

definition in_utc :: "moment \<Rightarrow> int \<Rightarrow> moment" where
  "in_utc m ahead = shift_moment (- ahead) m"

definition clock_text :: "clock \<Rightarrow> string" where
  "clock_text t = two (hour t) @ '':'' @ two (minute t) @ '':'' @ two (sec t)"

text \<open>\<open>isoformat()\<close>; \<open>isoformat(timespec="milliseconds")\<close> in UTC with its \<open>+00:00\<close> written \<open>Z\<close>.\<close>

definition moment_iso :: "moment \<Rightarrow> int \<Rightarrow> string" where
  "moment_iso m ahead =
     date_iso (m_date m) @ ''T'' @ clock_text (m_time m)
       @ (let u = micro (m_time m) in if u = 0 then [] else CHR ''.'' # three (u div 1000) @ three (u mod 1000))
       @ (if ahead < 0 then ''-'' else ''+'') @ two (\<bar>ahead\<bar> div 60) @ '':'' @ two (\<bar>ahead\<bar> mod 60)"

definition millis_iso :: "moment \<Rightarrow> int \<Rightarrow> string" where
  "millis_iso m ahead = (let u = in_utc m ahead in
     date_iso (m_date u) @ ''T'' @ clock_text (m_time u) @ CHR ''.'' # three (micro (m_time u) div 1000) @ ''Z'')"

definition stamp_iso :: "moment \<Rightarrow> int \<Rightarrow> string" where
  "stamp_iso m ahead = (let u = in_utc m ahead in
     date_iso (m_date u) @ ''T'' @ clock_text (m_time u)
       @ CHR ''.'' # three (micro (m_time u) div 1000) @ three (micro (m_time u) mod 1000) @ ''Z'')"

text \<open>
  \<open>datetime.fromisoformat\<close> in its extended form: a date, then any separator and \<open>HH\<close>, \<open>HH:MM\<close> or
  \<open>HH:MM:SS\<close> with a fraction, then \<open>+HH:MM\<close> or \<open>-HH:MM\<close>. None for a missing zone.
\<close>

definition read_fraction :: "string option \<Rightarrow> int option" where
  "read_fraction f = (case f of None \<Rightarrow> Some 0 | Some t \<Rightarrow>
     if t = [] \<or> digits_value t 0 = None then None
     else map_option int (digits_value (take 6 (t @ ''000000'')) 0))"

definition parse_clock :: "string \<Rightarrow> clock option" where
  "parse_clock t = (case split_at_char (CHR ''.'') t of (hms, fraction) \<Rightarrow>
     let part = (\<lambda>i. if length hms \<le> i then Some 0 else if i = 0 \<or> hms ! (i - 1) = CHR '':'' then read_two (take 2 (drop i hms)) else None)
     in if length hms \<in> {2, 5, 8} \<and> (fraction = None \<or> length hms = 8)
        then case (part 0, part 3, part 6, read_fraction fraction) of
          (Some h, Some m, Some s, Some u) \<Rightarrow> if clock_ok (Clock h m s u) then Some (Clock h m s u) else None
        | _ \<Rightarrow> None
        else None)"

definition parse_zone :: "string \<Rightarrow> int option option" where
  "parse_zone t = (case t of
     [] \<Rightarrow> Some None
   | c # r \<Rightarrow>
       if length r = 5 \<and> r ! 2 = CHR '':''
       then case (read_two (take 2 r), read_two (drop 3 r)) of
         (Some h, Some m) \<Rightarrow> if h < 24 \<and> m < 60 then Some (Some ((if c = CHR ''-'' then -1 else 1) * (h * 60 + m))) else None
       | _ \<Rightarrow> None
       else None)"

definition parse_moment :: "string \<Rightarrow> (moment \<times> int option) option" where
  "parse_moment t =
     (case parse_date (take 10 t) of
        None \<Rightarrow> None
      | Some d \<Rightarrow>
          if length t = 10 then Some (\<lparr>m_date = d, m_time = Clock 0 0 0 0\<rparr>, None)
          else let r = drop 11 t; signs = (\<lambda>c. c = CHR ''+'' \<or> c = CHR ''-'') in
            (case (parse_clock (takeWhile (\<lambda>c. \<not> signs c) r), parse_zone (dropWhile (\<lambda>c. \<not> signs c) r)) of
               (Some k, Some z) \<Rightarrow> Some (\<lparr>m_date = d, m_time = k\<rparr>, z)
             | _ \<Rightarrow> None))"

end
