(* ===== verification/Job_Values.thy ===== *)
theory Job_Values
  imports Calendar Staff_Directory "HOL-Library.List_Lexorder" "HOL-Library.Char_ord"
begin

text \<open>
  The values of a job's columns: what a client may send for one, its JSON form (\<open>json_safe\<close> of
  \<open>core/audit.py\<close>) and the canonical text two writers compare
  (\<open>job/services/delta_checksum.py\<close>). A Decimal is its coefficient and exponent, since its text
  keeps the zeros it was given; a float is the number its shortest text names, up to seventeen
  places; a UUID's text is the digits of the number it is here. A JSON object is no value of a column and has no term.
\<close>

datatype cell =
    VNone | VText string | VBool bool | VInt int | VFloat rat | VDec int int
  | VDate date | VMoment moment int | VUuid uuid | VList "cell list"

section \<open>Text of numbers\<close>

definition int_text :: "int \<Rightarrow> string" where
  "int_text n = (if n < 0 then ''-'' else []) @ show_digits (nat \<bar>n\<bar>)"

text \<open>The digits of a coefficient with the point \<open>p\<close> places after their start.\<close>

definition pointed :: "string \<Rightarrow> int \<Rightarrow> string" where
  "pointed ds p =
     (if p \<le> 0 then ''0.'' @ replicate (nat (- p)) CHR ''0'' @ ds
      else if int (length ds) \<le> p then ds @ replicate (nat p - length ds) CHR ''0''
      else take (nat p) ds @ ''.'' @ drop (nat p) ds)"

text \<open>\<open>str(d)\<close> and \<open>format(d, "f")\<close>.\<close>

definition dec_text :: "int \<Rightarrow> int \<Rightarrow> string" where
  "dec_text c e =
     (let ds = show_digits (nat \<bar>c\<bar>); left = int (length ds) + e; p = (if e \<le> 0 \<and> -6 < left then left else 1)
      in (if c < 0 then ''-'' else []) @ pointed ds p
         @ (if left = p then [] else ''E'' @ (if left < p then ''-'' else ''+'') @ show_digits (nat \<bar>left - p\<bar>)))"

definition plain_text :: "int \<Rightarrow> int \<Rightarrow> string" where
  "plain_text c e = (let ds = show_digits (nat \<bar>c\<bar>); left = int (length ds) + e in
     if c = 0 \<and> 0 < e then ''0'' else (if c < 0 then ''-'' else []) @ pointed ds left)"

definition dec_value :: "int \<Rightarrow> int \<Rightarrow> rat" where
  "dec_value c e = scale_ten (of_int c) e"

text \<open>\<open>d.normalize()\<close>: no zeros at the end of the coefficient.\<close>

fun strip_zeros :: "nat \<Rightarrow> int \<Rightarrow> nat \<times> int" where
  "strip_zeros n e = (if n = 0 then (0, 0) else if n mod 10 = 0 then strip_zeros (n div 10) (e + 1) else (n, e))"

declare strip_zeros.simps [simp del]

definition normalize :: "int \<Rightarrow> int \<Rightarrow> int \<times> int" where
  "normalize c e = (case strip_zeros (nat \<bar>c\<bar>) e of (n, e') \<Rightarrow> ((if c < 0 then - int n else int n), e'))"

definition float_places :: "rat \<Rightarrow> nat" where
  "float_places x = (case find (\<lambda>k. of_int \<lfloor>x * 10 ^ k\<rfloor> = x * 10 ^ k) [0..<17] of None \<Rightarrow> 17 | Some k \<Rightarrow> k)"

definition float_coefficient :: "rat \<Rightarrow> int" where
  "float_coefficient x = round_half_even (x * 10 ^ float_places x)"

definition float_text :: "rat \<Rightarrow> string" where
  "float_text x = (if float_places x = 0 then int_text (float_coefficient x) @ ''.0''
     else plain_text (float_coefficient x) (- int (float_places x)))"

text \<open>\<open>Decimal(text)\<close> with its coefficient: what \<open>read_decimal\<close> reads as a finite number.\<close>

definition decimal_parts :: "string \<Rightarrow> (int \<times> int) option" where
  "decimal_parts text =
     (case read_sign (map lower_char (filter (\<lambda>c. c \<noteq> CHR ''_'') (strip text))) of (sign, body) \<Rightarrow>
       case split_at_char (CHR ''e'') body of (mantissa, ex) \<Rightarrow>
       case split_at_char (CHR ''.'') mantissa of (whole, fraction) \<Rightarrow>
         let places = (case fraction of None \<Rightarrow> [] | Some f \<Rightarrow> f)
         in if whole = [] \<and> places = [] then None
            else case (digits_value (whole @ places) 0, read_exponent ex) of
              (Some n, Some e) \<Rightarrow> Some (sign * int n, e - int (length places))
            | _ \<Rightarrow> None)"

section \<open>Comparing and writing values\<close>

text \<open>\<open>a == b\<close>: numbers of any kind by their value, moments by the instant.\<close>

fun number_of :: "cell \<Rightarrow> rat option" where
  "number_of (VBool b) = Some (if b then 1 else 0)"
| "number_of (VInt n) = Some (of_int n)"
| "number_of (VFloat x) = Some x"
| "number_of (VDec c e) = Some (dec_value c e)"
| "number_of _ = None"

definition py_eq :: "cell \<Rightarrow> cell \<Rightarrow> bool" where
  "py_eq a b =
     (case (number_of a, number_of b) of
        (Some x, Some y) \<Rightarrow> x = y
      | _ \<Rightarrow> (case (a, b) of (VMoment m k, VMoment n l) \<Rightarrow> in_utc m k = in_utc n l | _ \<Rightarrow> a = b))"

definition falsy :: "cell \<Rightarrow> bool" where
  "falsy v \<longleftrightarrow> v = VNone \<or> v = VText [] \<or> v = VList [] \<or> number_of v = Some 0"

fun json_safe :: "cell \<Rightarrow> cell" where
  "json_safe (VUuid u) = VText (show_digits u)"
| "json_safe (VDate d) = VText (date_iso d)"
| "json_safe (VMoment m k) = VText (moment_iso m k)"
| "json_safe (VDec c e) = VText (dec_text c e)"
| "json_safe v = v"

text \<open>\<open>str(v)\<close> of what a JSON column holds.\<close>

fun value_text :: "cell \<Rightarrow> string" where
  "value_text VNone = ''None''"
| "value_text (VText t) = t"
| "value_text (VBool b) = (if b then ''True'' else ''False'')"
| "value_text (VInt n) = int_text n"
| "value_text (VFloat x) = float_text x"
| "value_text (VDec c e) = dec_text c e"
| "value_text (VDate d) = date_iso d"
| "value_text (VUuid u) = show_digits u"
| "value_text _ = []"

text \<open>\<open>_to_json_safe\<close> of \<open>job_service.py\<close>: unlike \<open>json_safe\<close> it writes a Decimal without exponent.\<close>

fun to_json :: "cell \<Rightarrow> cell" where
  "to_json (VUuid u) = VText (show_digits u)"
| "to_json (VDate d) = VText (date_iso d)"
| "to_json (VMoment m k) = VText (moment_iso m k)"
| "to_json (VDec c e) = VText (plain_text c e)"
| "to_json (VList vs) = VList (map to_json vs)"
| "to_json v = v"

section \<open>The checksum of a set of fields\<close>

definition null_sentinel :: string where "null_sentinel = ''__NULL__''"

fun join :: "string \<Rightarrow> string list \<Rightarrow> string" where
  "join sep [] = []"
| "join sep [t] = t"
| "join sep (t # u # ts) = t @ sep @ join sep (u # ts)"

fun normalise_value :: "cell \<Rightarrow> string" where
  "normalise_value VNone = null_sentinel"
| "normalise_value (VText t) = strip t"
| "normalise_value (VBool b) = (if b then ''true'' else ''false'')"
| "normalise_value (VInt n) = int_text n"
| "normalise_value (VFloat x) = plain_text (round_half_even (x * 10 ^ 6)) (-6)"
| "normalise_value (VDec c e) = (case normalize c e of (n, k) \<Rightarrow> plain_text n k)"
| "normalise_value (VDate d) = date_iso d"
| "normalise_value (VMoment m k) = millis_iso m k"
| "normalise_value (VUuid u) = show_digits u"
| "normalise_value (VList vs) = ''['' @ join '','' (map normalise_value vs) @ '']''"

definition serialise :: "string \<Rightarrow> (string \<times> string) list \<Rightarrow> string" where
  "serialise i cs = join ''|'' (i # map (\<lambda>(f, v). f @ ''='' @ v) cs)"

text \<open>The hash function is an argument.\<close>

definition compute_job_delta_checksum ::
  "(string \<Rightarrow> string) \<Rightarrow> uuid \<Rightarrow> (string \<times> cell) list \<Rightarrow> string list \<Rightarrow> string res" where
  "compute_job_delta_checksum sha i values names =
     bindR (mapR (\<lambda>f. case map_of values f of
         None \<Rightarrow> Inl (ValueErr ''missing from provided values'') | Some v \<Rightarrow> Inr (f, normalise_value v)) (sort names))
       (\<lambda>cs. Inr (sha (serialise (show_digits i) cs)))"

section \<open>Reading back what was written\<close>

lemma show_digits_value: "digits_value (show_digits n) a = Some (a * 10 ^ length (show_digits n) + n)"
proof (induction n arbitrary: a rule: show_digits.induct)
  case (1 n)
  show ?case
  proof (cases "n < 10")
    case True
    have c: "(48 + n) mod 256 = 48 + n" "n \<le> 9" using True by simp_all
    show ?thesis by (subst (1 2) show_digits.simps) (simp add: True c)
  next
    case False
    have split: "digits_value (t @ u) b = Option.bind (digits_value t b) (digits_value u)" for t u :: string and b
      by (induction t arbitrary: b) auto
    have m: "n mod 10 \<le> 9" by (simp add: less_Suc_eq_le [symmetric])
    then have c: "(48 + n mod 10) mod 256 = 48 + n mod 10" by simp
    have e: "show_digits n = show_digits (n div 10) @ [char_of (48 + n mod 10)]" using False by (subst show_digits.simps) simp
    have "digits_value (show_digits n) a = Some ((a * 10 ^ length (show_digits (n div 10)) + n div 10) * 10 + n mod 10)"
      unfolding e split using 1 [OF False, of a] m c by simp
    also have "(a * 10 ^ length (show_digits (n div 10)) + n div 10) * 10 + n mod 10 = a * 10 ^ length (show_digits n) + n"
      using div_mult_mod_eq [of n 10] by (simp add: e algebra_simps)
    finally show ?thesis .
  qed
qed

lemma show_digits_read [simp]: "digits_value (show_digits n) 0 = Some n"
  by (simp add: show_digits_value)

lemma show_digits_inj [simp]: "show_digits m = show_digits n \<longleftrightarrow> m = n"
  by (metis show_digits_read option.inject)

definition digit_char :: "char \<Rightarrow> bool" where
  "digit_char c \<longleftrightarrow> 48 \<le> (of_char c :: nat) \<and> of_char c \<le> (57 :: nat)"

lemma digits_are_digits: "digits_value t a \<noteq> None \<longleftrightarrow> list_all digit_char t"
  by (induction t arbitrary: a) (auto simp: digit_char_def)

lemma strip_ends:
  assumes "t \<noteq> []" "digit_char (hd t)" "digit_char (last t)"
  shows "strip t = t"
proof -
  let ?blank = "\<lambda>c :: char. c = CHR '' '' \<or> (9 \<le> (of_char c :: nat) \<and> of_char c \<le> (13 :: nat))"
  have b: "\<not> ?blank (hd t)" "\<not> ?blank (last t)" using assms by (auto simp: digit_char_def)
  then have "dropWhile ?blank t = t" using assms(1) by (cases t) auto
  moreover have "hd (rev t) = last t" using assms(1) by (simp add: hd_rev)
  moreover obtain x xs where x: "rev t = x # xs" using assms(1) by (cases "rev t") auto
  ultimately have "\<not> ?blank x" "dropWhile ?blank t = t" using b(2) by simp_all
  then have "dropWhile ?blank (rev t) = rev t" unfolding x by auto
  with \<open>dropWhile ?blank t = t\<close> show ?thesis by (simp add: strip_def Let_def)
qed

lemma strip_show_digits [simp]: "strip (show_digits n) = show_digits n"
proof -
  have "list_all digit_char (show_digits n)" using digits_are_digits [of "show_digits n" 0] by simp
  moreover have "show_digits n \<noteq> []" by (subst show_digits.simps) simp
  ultimately show ?thesis by (intro strip_ends) (auto simp: list_all_iff)
qed

lemma digit_is_digit: "0 \<le> n \<Longrightarrow> n < 10 \<Longrightarrow> digit_char (digit n)"
  by (simp add: digit_char_def digit_value)

lemma strip_date_iso: "dates_have_text d \<Longrightarrow> strip (date_iso d) = date_iso d"
proof -
  assume d: "dates_have_text d"
  let ?y = "year_of d"
  obtain m n where w: "month_walk (month_days ?y) (d - days_before_year ?y) = (m, n)" by fastforce
  have "?y div 100 div 10 < 10" "0 \<le> ?y div 100 div 10" "0 \<le> n mod 10" "n mod 10 < 10"
    using year_of_range [OF d] date_parts [OF w] by auto
  then show ?thesis
    by (intro strip_ends) (simp_all add: date_iso_def Let_def w four_def two_def digit_is_digit)
qed

end
