(* ===== verification/Floats.thy ===== *)
theory Floats
  imports Decimals
begin

text \<open>
  Python's floats as the rationals they are, and the rounding of an exact result to the nearest of
  them, ties to even: 53 binary digits, the exponent unbounded.
\<close>

fun bit_length :: "int \<Rightarrow> nat" where
  "bit_length n = (if n \<le> 0 then 0 else Suc (bit_length (n div 2)))"

declare bit_length.simps [simp del]

text \<open>The weight of the last of the 53 digits of a positive number.\<close>

definition float_exponent :: "rat \<Rightarrow> int" where
  "float_exponent x =
     (case quotient_of x of (a, b) \<Rightarrow>
        let k = int (bit_length a) - int (bit_length b) in if x < 2 powi k then k - 53 else k - 52)"

definition float_near :: "rat \<Rightarrow> rat" where
  "float_near x = (let u = 2 powi float_exponent x in of_int (round_half_even (x / u)) * u)"

definition float_round :: "rat \<Rightarrow> rat" where
  "float_round x = (if x = 0 then 0 else if x < 0 then - float_near (- x) else float_near x)"

definition is_float :: "rat \<Rightarrow> bool" where
  "is_float x \<longleftrightarrow> float_round x = x"

section \<open>Rounding never passes a float\<close>

lemma bit_length_bounds: "0 < n \<Longrightarrow> 2 ^ (bit_length n - 1) \<le> n \<and> n < 2 ^ bit_length n"
proof (induction n rule: bit_length.induct)
  case (1 n)
  show ?case
  proof (cases "n div 2 \<le> 0")
    case True
    then have "n = 1" using 1 by simp
    then show ?thesis by (simp add: bit_length.simps)
  next
    case False
    then have IH: "2 ^ (bit_length (n div 2) - 1) \<le> n div 2" "n div 2 < 2 ^ bit_length (n div 2)" using 1 by simp_all
    moreover have p: "bit_length (n div 2) = Suc (bit_length (n div 2) - 1)" using False by (simp add: bit_length.simps [of "n div 2"])
    moreover have "bit_length n = Suc (bit_length (n div 2))" using 1 by (subst bit_length.simps) simp
    moreover have "2 * 2 ^ (bit_length (n div 2) - 1) = (2 :: int) ^ bit_length (n div 2)" by (subst (2) p) simp
    moreover have "2 * (n div 2) \<le> n" "n \<le> 2 * (n div 2) + 1" by presburger+
    ultimately show ?thesis by simp
  qed
qed

lemma float_exponent_bounds:
  assumes "0 < x"
  shows "2 powi (float_exponent x + 52) \<le> x \<and> x < 2 powi (float_exponent x + 53)"
proof -
  obtain a b where q: "quotient_of x = (a, b)" by fastforce
  have ab: "0 < a" "0 < b" "x = of_int a / of_int b"
    using quotient_of_denom_pos [OF q] quotient_of_div [OF q] assms by (simp_all add: zero_less_divide_iff)
  define l m where "l = int (bit_length a)" and "m = int (bit_length b)"
  have bits: "(2 :: rat) powi (int (bit_length n) - 1) \<le> of_int n \<and> of_int n < (2 :: rat) powi int (bit_length n)" if "0 < n" for n
  proof -
    have p: "0 < bit_length n" using that by (subst bit_length.simps) simp
    have "(of_int (2 ^ (bit_length n - 1)) :: rat) \<le> of_int n" "(of_int n :: rat) < of_int (2 ^ bit_length n)"
      using bit_length_bounds [OF that] by (simp_all only: of_int_le_iff of_int_less_iff)
    moreover have "int (bit_length n) - 1 = int (bit_length n - 1)" using p by simp
    ultimately show ?thesis by (simp only: power_int_of_nat of_int_power of_int_numeral)
  qed
  have up: "x < 2 powi (l - m + 1)"
  proof -
    have "x < 2 powi l / 2 powi (m - 1)"
      unfolding ab(3) using bits [OF ab(1)] bits [OF ab(2)] ab by (intro frac_less) (simp_all add: l_def m_def)
    then show ?thesis by (simp add: power_int_diff [symmetric] algebra_simps)
  qed
  have low: "2 powi (l - m - 1) \<le> x"
  proof -
    have "2 powi (l - 1) / 2 powi m \<le> x"
      unfolding ab(3) using bits [OF ab(1)] bits [OF ab(2)] ab by (intro frac_le) (simp_all add: l_def m_def)
    then show ?thesis by (simp add: power_int_diff [symmetric] algebra_simps)
  qed
  show ?thesis using up low by (auto simp: float_exponent_def q Let_def l_def m_def algebra_simps)
qed

lemma float_exponent_mono: "0 < x \<Longrightarrow> x \<le> y \<Longrightarrow> float_exponent x \<le> float_exponent y"
proof (rule ccontr)
  assume a: "0 < x" "x \<le> y" "\<not> float_exponent x \<le> float_exponent y"
  then have "(2 :: rat) powi (float_exponent y + 53) \<le> 2 powi (float_exponent x + 52)" by (intro power_int_increasing) auto
  then show False using float_exponent_bounds [of x] float_exponent_bounds [of y] a by auto
qed

text \<open>A float is a multiple of its last digit, and so of that of every smaller number.\<close>

lemma float_multiple:
  assumes "0 < x" "float_near x = x" "k \<le> float_exponent x"
  shows "\<exists>n. x = of_int n * 2 powi k"
proof -
  let ?e = "float_exponent x"
  let ?n = "round_half_even (x / 2 powi ?e)"
  obtain m where "?e - k = int m" using assms(3) zero_le_imp_eq_int [of "?e - k"] by auto
  then have "?e = int m + k" by simp
  then have "(2 :: rat) powi ?e = of_int (2 ^ m) * 2 powi k" by (simp add: power_int_add)
  then have "of_int ?n * 2 powi ?e = of_int (?n * 2 ^ m) * (2 :: rat) powi k" by simp
  moreover have "x = of_int ?n * 2 powi ?e" using assms(2) by (simp add: float_near_def Let_def)
  ultimately show ?thesis by (intro exI) (rule trans)
qed

lemma float_near_le:
  assumes "0 < x" "x \<le> b" "float_near b = b"
  shows "float_near x \<le> b"
proof -
  let ?u = "(2 :: rat) powi float_exponent x"
  obtain n where n: "b = of_int n * ?u" using float_multiple [of b] assms float_exponent_mono by force
  then have "x / ?u \<le> of_int n" using assms(2) by (simp add: divide_le_eq)
  then have "round_half_even (x / ?u) \<le> n" using round_half_even_mono [of "x / ?u" "of_int n"] half_even.of_int_id [of n] by simp
  then have "(of_int (round_half_even (x / ?u)) :: rat) \<le> of_int n" by simp
  then show ?thesis unfolding n float_near_def Let_def by (intro mult_right_mono) simp_all
qed

lemma float_near_ge:
  assumes "0 < a" "a \<le> x" "float_near a = a"
  shows "a \<le> float_near x"
proof -
  let ?e = "float_exponent x"
  let ?u = "(2 :: rat) powi ?e"
  have "\<exists>n. a \<le> of_int n * ?u \<and> of_int n * ?u \<le> x"
  proof (cases "?e \<le> float_exponent a")
    case True
    then show ?thesis using float_multiple [OF assms(1,3) True] assms(2) by auto
  next
    case False
    then have "(2 :: rat) powi (float_exponent a + 53) \<le> 2 powi (?e + 52)" by (intro power_int_increasing) auto
    then have "a \<le> 2 powi (?e + 52)" using float_exponent_bounds [OF assms(1)] by simp
    moreover have "2 powi (?e + 52) \<le> x" using float_exponent_bounds [of x] assms by simp
    moreover have "(2 :: rat) powi (?e + 52) = of_int (2 ^ 52) * ?u" by (simp add: power_int_add)
    ultimately show ?thesis by metis
  qed
  then obtain n where n: "a \<le> of_int n * ?u" "of_int n * ?u \<le> x" by blast
  then have "of_int n \<le> x / ?u" by (simp add: le_divide_eq)
  then have "n \<le> round_half_even (x / ?u)" using round_half_even_mono [of "of_int n" "x / ?u"] half_even.of_int_id [of n] by simp
  then have "(of_int n :: rat) * ?u \<le> of_int (round_half_even (x / ?u)) * ?u" by (intro mult_right_mono) simp_all
  with n(1) show ?thesis unfolding float_near_def Let_def by (rule order_trans)
qed

lemma float_near_pos: "0 < x \<Longrightarrow> 0 < float_near x"
proof -
  assume x: "0 < x"
  let ?u = "(2 :: rat) powi float_exponent x"
  have "(2 :: rat) powi (float_exponent x + 52) = of_int (2 ^ 52) * ?u" by (simp add: power_int_add)
  then have "of_int (2 ^ 52) \<le> x / ?u" using float_exponent_bounds [OF x] by (simp add: le_divide_eq)
  then have "2 ^ 52 \<le> round_half_even (x / ?u)"
    using round_half_even_mono [of "of_int (2 ^ 52)" "x / ?u"] half_even.of_int_id [of "2 ^ 52"] by simp
  then have "0 < round_half_even (x / ?u)" by (rule less_le_trans [rotated]) simp
  then show ?thesis by (simp add: float_near_def Let_def)
qed

lemma float_round_le: "is_float b \<Longrightarrow> x \<le> b \<Longrightarrow> float_round x \<le> b"
  using float_near_le [of x b] float_near_ge [of "- b" "- x"] float_near_pos [of "- x"] float_near_pos [of b]
  by (auto simp: is_float_def float_round_def split: if_splits)

lemma float_round_ge: "is_float a \<Longrightarrow> a \<le> x \<Longrightarrow> a \<le> float_round x"
  using float_near_ge [of a x] float_near_le [of "- x" "- a"] float_near_pos [of x] float_near_pos [of "- a"]
  by (auto simp: is_float_def float_round_def split: if_splits)

section \<open>What rounding gives is a float\<close>

lemma float_of_multiple:
  assumes "0 < n" "n < 2 ^ 53"
  shows "float_near (of_int n * 2 powi e) = of_int n * 2 powi e"
proof -
  let ?y = "of_int n * (2 :: rat) powi e"
  have y: "0 < ?y" using assms by simp
  have "of_int n < (of_int (2 ^ 53) :: rat)" using assms(2) by (simp only: of_int_less_iff)
  then have "?y < 2 powi (e + 53)" by (simp add: power_int_add)
  have "float_exponent ?y \<le> e"
  proof (rule ccontr)
    assume "\<not> float_exponent ?y \<le> e"
    then have "(2 :: rat) powi (e + 53) \<le> 2 powi (float_exponent ?y + 52)" by (intro power_int_increasing) auto
    then show False using float_exponent_bounds [OF y] \<open>?y < 2 powi (e + 53)\<close> by simp
  qed
  then obtain m where m: "e - float_exponent ?y = int m" using zero_le_imp_eq_int [of "e - float_exponent ?y"] by auto
  have "?y / 2 powi float_exponent ?y = of_int n * 2 powi (e - float_exponent ?y)" by (simp add: power_int_diff)
  also have "\<dots> = of_int (n * 2 ^ m)" unfolding m by simp
  finally have "?y / 2 powi float_exponent ?y = of_int (n * 2 ^ m)" .
  moreover from this have "?y = of_int (n * 2 ^ m) * 2 powi float_exponent ?y" by (simp add: divide_eq_eq)
  ultimately show ?thesis unfolding float_near_def Let_def by (simp only: half_even.of_int_id)
qed

lemma float_near_idem:
  assumes "0 < x"
  shows "float_near (float_near x) = float_near x"
proof -
  let ?e = "float_exponent x"
  let ?n = "round_half_even (x / 2 powi ?e)"
  have "x / 2 powi ?e \<le> of_int (2 ^ 53)" using float_exponent_bounds [OF assms] by (simp add: divide_le_eq power_int_add)
  then have "?n \<le> 2 ^ 53" using round_half_even_mono [of "x / 2 powi ?e" "of_int (2 ^ 53)"] half_even.of_int_id [of "2 ^ 53"] by simp
  moreover have "0 < ?n"
  proof -
    have "0 < of_int ?n * (2 :: rat) powi ?e" using float_near_pos [OF assms] by (simp add: float_near_def Let_def)
    then have "0 < (of_int ?n :: rat)" by (rule zero_less_mult_pos2) simp
    then show ?thesis by simp
  qed
  moreover have "float_near x = of_int ?n * 2 powi ?e" by (simp add: float_near_def Let_def)
  ultimately show ?thesis
  proof (cases "?n = 2 ^ 53")
    case True
    have "of_int ?n * (2 :: rat) powi ?e = of_int (2 ^ 52) * 2 powi (?e + 1)" unfolding True by (simp add: power_int_add)
    then have "float_near x = of_int (2 ^ 52) * 2 powi (?e + 1)" unfolding \<open>float_near x = _\<close> .
    moreover have "float_near (of_int (2 ^ 52) * 2 powi (?e + 1)) = of_int (2 ^ 52) * 2 powi (?e + 1)"
      by (rule float_of_multiple) simp_all
    ultimately show ?thesis by (simp only:)
  qed (use float_of_multiple [of ?n ?e] in auto)
qed

lemma round_is_float [simp]: "is_float (float_round x)"
  using float_near_idem [of x] float_near_idem [of "- x"] float_near_pos [of x] float_near_pos [of "- x"]
  by (auto simp: is_float_def float_round_def)

section \<open>Halfway between two floats\<close>

lemma round_nearest: "\<bar>of_int (round_half_even z) - z\<bar> \<le> \<bar>of_int n - z\<bar>"
proof (cases "n = round_half_even z")
  case False
  then have "1 \<le> \<bar>n - round_half_even z\<bar>" by linarith
  then have "(1 :: rat) \<le> of_int \<bar>n - round_half_even z\<bar>" by linarith
  then have "1 \<le> \<bar>(of_int n :: rat) - of_int (round_half_even z)\<bar>" by simp
  then show ?thesis using round_half_even_near [of z] by linarith
qed simp

lemma float_near_nearest:
  assumes x: "0 < x" and y: "0 < y" "float_near y = y"
  shows "\<bar>float_near x - x\<bar> \<le> \<bar>y - x\<bar>"
proof -
  let ?e = "float_exponent x"
  let ?u = "(2 :: rat) powi ?e"
  have u: "0 < ?u" by simp
  have grid: "\<bar>float_near x - x\<bar> \<le> \<bar>of_int n * ?u - x\<bar>" for n
  proof -
    have "\<bar>of_int (round_half_even (x / ?u)) - x / ?u\<bar> * ?u \<le> \<bar>of_int n - x / ?u\<bar> * ?u"
      by (intro mult_right_mono round_nearest) simp
    moreover have "\<bar>z - x / ?u\<bar> * ?u = \<bar>z * ?u - x\<bar>" for z
    proof -
      have "z * ?u - x = (z - x / ?u) * ?u" by (simp add: left_diff_distrib)
      then show ?thesis using u by (simp only: abs_mult abs_of_pos)
    qed
    ultimately show ?thesis by (simp add: float_near_def Let_def)
  qed
  show ?thesis
  proof (cases "?e \<le> float_exponent y")
    case True
    then show ?thesis using float_multiple [OF y True] grid by metis
  next
    case False
    then have "(2 :: rat) powi (float_exponent y + 53) \<le> 2 powi (?e + 52)" by (intro power_int_increasing) auto
    then have "y \<le> of_int (2 ^ 52) * ?u" "of_int (2 ^ 52) * ?u \<le> x"
      using float_exponent_bounds [OF x] float_exponent_bounds [OF y(1)] by (simp_all add: power_int_add)
    then show ?thesis using grid [of "2 ^ 52"] by linarith
  qed
qed

lemma float_round_nearest:
  assumes "is_float y"
  shows "\<bar>float_round x - x\<bar> \<le> \<bar>y - x\<bar>"
proof -
  have pos: "\<bar>float_round x - x\<bar> \<le> \<bar>y - x\<bar>" if x: "0 < x" and y: "is_float y" for x y
  proof (cases "0 < y")
    case True
    then show ?thesis using x y float_near_nearest [OF x, of y] by (simp add: is_float_def float_round_def)
  next
    case False
    let ?t = "(2 :: rat) powi (float_exponent x + 52)"
    have "float_near ?t = ?t"
      using float_of_multiple [of 1 "float_exponent x + 52"] by simp
    then have "\<bar>float_near x - x\<bar> \<le> \<bar>?t - x\<bar>" "0 < ?t" "?t \<le> x"
      using float_near_nearest [OF x, of ?t] float_exponent_bounds [OF x] by simp_all
    then have "\<bar>float_near x - x\<bar> \<le> \<bar>y - x\<bar>" using False by linarith
    then show ?thesis using x by (simp add: float_round_def)
  qed
  have neg: "float_round (- z) = - float_round z" for z by (simp add: float_round_def)
  consider "0 < x" | "x = 0" | "x < 0" by linarith
  then show ?thesis
  proof cases
    case 3
    then have "\<bar>float_round (- x) - - x\<bar> \<le> \<bar>- y - - x\<bar>" using assms by (intro pos) (simp_all add: is_float_def neg)
    then show ?thesis by (simp add: neg abs_minus_commute)
  qed (use pos assms in \<open>simp_all add: float_round_def\<close>)
qed

text \<open>\<open>(a + b) / 2\<close> as the program computes it: each result rounded.\<close>

definition float_half :: "rat \<Rightarrow> rat \<Rightarrow> rat" where
  "float_half a b = float_round (float_round (a + b) / 2)"

lemma float_scale: "is_float a \<Longrightarrow> is_float (a * 2 powi k)"
proof -
  have pos: "is_float (a * 2 powi k)" if "0 < a" "is_float a" for a
  proof -
    let ?u = "(2 :: rat) powi float_exponent a"
    have near: "float_near a = a" using that by (simp add: is_float_def float_round_def)
    obtain n where n: "a = of_int n * ?u" using float_multiple [OF \<open>0 < a\<close> near] by auto
    have "0 < of_int n * ?u" using \<open>0 < a\<close> n by simp
    then have "(0 :: rat) < of_int n" by (rule zero_less_mult_pos2) simp
    moreover have "of_int n * ?u < of_int (2 ^ 53) * ?u"
      using float_exponent_bounds [OF \<open>0 < a\<close>] n by (simp add: power_int_add)
    then have "(of_int n :: rat) < of_int (2 ^ 53)" by (rule mult_right_less_imp_less) simp
    ultimately have "float_near (of_int n * 2 powi (float_exponent a + k)) = of_int n * 2 powi (float_exponent a + k)"
      by (intro float_of_multiple) (simp_all only: of_int_less_iff of_int_0_less_iff)
    moreover have "a * 2 powi k = of_int n * 2 powi (float_exponent a + k)" by (subst n) (simp add: power_int_add)
    moreover have "0 < a * 2 powi k" using \<open>0 < a\<close> by simp
    ultimately show ?thesis by (simp add: is_float_def float_round_def del: zero_less_power_int)
  qed
  have neg: "is_float (- z) = is_float z" for z :: rat by (auto simp: is_float_def float_round_def)
  assume a: "is_float a"
  consider "0 < a" | "a = 0" | "a < 0" by linarith
  then show ?thesis
  proof cases
    case 3
    then have "is_float (- a * 2 powi k)" using a neg by (intro pos) simp_all
    then show ?thesis by (simp only: neg mult_minus_left)
  qed (use pos a in \<open>simp_all add: is_float_def float_round_def\<close>)
qed

lemma float_half_exact: "float_half a b = float_round (a + b) / 2"
proof -
  have "(2 :: rat) powi (-1) = 1 / 2" by simp
  then have "is_float (float_round (a + b) * (1 / 2))" using float_scale [OF round_is_float [of "a + b"], of "-1"] by (simp only:)
  then show ?thesis by (simp only: float_half_def is_float_def times_divide_eq_right mult_1_right)
qed

text \<open>It is between them, and strictly between as long as a float is.\<close>

lemma float_half_between:
  assumes "is_float a" "is_float b" "a \<le> b"
  shows "a \<le> float_half a b" "float_half a b \<le> b"
proof -
  have "2 * a \<le> float_round (a + b)" "float_round (a + b) \<le> 2 * b"
    using assms float_scale [of a 1] float_scale [of b 1]
    by (auto intro!: float_round_ge float_round_le simp: mult.commute)
  then show "a \<le> float_half a b" "float_half a b \<le> b" by (simp_all add: float_half_exact)
qed

lemma float_half_strict:
  assumes "is_float y" "a < y" "y < b"
  shows "a < float_half a b" "float_half a b < b"
  using float_round_nearest [of "2 * y" "a + b"] float_scale [of y 1] assms
  by (auto simp: float_half_exact mult.commute)

end
