(* ===== verification/Job_Cards.thy ===== *)
theory Job_Cards
  imports Job_Values Entries Floats
begin

text \<open>
  \<open>Job.save\<close> of \<open>job/models/job.py\<close> for a job that exists: which columns changed, what a change
  brings with it, the constraints of the row and the one event that records it. A job is a card, a
  map from its columns to values; the columns the timesheets read are copied to its row of the
  database, which also keeps its number and \<open>updated_at\<close>. Nullable relations that nothing here
  reads, the creator and the Xero columns are left out.
\<close>

section \<open>Columns\<close>

datatype attr =
    AName | ACompany | AOrderNumber | APerson | ADescription | AQuoteAcceptance | ADelivery | AStatus | ARejected
  | ARdti | APricing | APriceCap | ATradeoff | AValid | APaid | AForeman | ATimesheets | AMaterials | ACustomerCalled
  | AReleased | AComplex | AUrgent | ANotes | APriority | AMinPeople | AMaxPeople | APayItem

text \<open>Django's name of the column, which is the client's too except for the status.\<close>

fun attr_name :: "attr \<Rightarrow> string" where
  "attr_name AName = ''name''" | "attr_name ACompany = ''company_id''" | "attr_name AOrderNumber = ''order_number''"
| "attr_name APerson = ''person_id''" | "attr_name ADescription = ''description''"
| "attr_name AQuoteAcceptance = ''quote_acceptance_date''" | "attr_name ADelivery = ''delivery_date''"
| "attr_name AStatus = ''status''" | "attr_name ARejected = ''rejected_flag''" | "attr_name ARdti = ''rdti_type''"
| "attr_name APricing = ''pricing_methodology''" | "attr_name APriceCap = ''price_cap''"
| "attr_name ATradeoff = ''speed_quality_tradeoff''" | "attr_name AValid = ''job_is_valid''" | "attr_name APaid = ''paid''"
| "attr_name AForeman = ''foreman_signed_off''" | "attr_name ATimesheets = ''timesheets_collected''"
| "attr_name AMaterials = ''materials_checked''" | "attr_name ACustomerCalled = ''customer_called''"
| "attr_name AReleased = ''released''" | "attr_name AComplex = ''complex_job''" | "attr_name AUrgent = ''is_urgent''"
| "attr_name ANotes = ''notes''" | "attr_name APriority = ''priority''" | "attr_name AMinPeople = ''min_people''"
| "attr_name AMaxPeople = ''max_people''" | "attr_name APayItem = ''default_xero_pay_item_id''"

text \<open>The columns in the order the model declares them; all but \<open>job_is_valid\<close> are tracked.\<close>

definition columns :: "attr list" where
  "columns = [AName, ACompany, AOrderNumber, APerson, ADescription, AQuoteAcceptance, ADelivery, AStatus, ARejected,
     ARdti, APricing, APriceCap, ATradeoff, AValid, APaid, AForeman, ATimesheets, AMaterials, ACustomerCalled,
     AReleased, AComplex, AUrgent, ANotes, APriority, AMinPeople, AMaxPeople, APayItem]"

definition tracked :: "attr list" where
  "tracked = filter (\<lambda>a. a \<noteq> AValid) columns"

definition job_statuses :: "(string \<times> string) list" where
  "job_statuses = [(''draft'', ''Draft''), (''awaiting_approval'', ''Awaiting Approval''), (''approved'', ''Approved''),
     (''in_progress'', ''In Progress''), (''unusual'', ''Unusual''), (''recently_completed'', ''Recently Completed''),
     (''special'', ''Special''), (''archived'', ''Archived'')]"

definition pricing_methodologies :: "(string \<times> string) list" where
  "pricing_methodologies = [(''time_materials'', ''Time & Materials''), (''fixed_price'', ''Fixed Price'')]"

section \<open>Rows\<close>

record job_card =
  jc_id :: uuid
  cols :: "attr \<Rightarrow> cell"
  completed_at :: "moment option"
  jc_people :: "uuid list"
  jc_created :: moment
  latest_estimate :: "uuid option"
  latest_quote :: "uuid option"

record change_meta =
  mt_fields :: "string list"
  mt_actor :: "string option"
  mt_made_at :: "string option"
  mt_etag :: "string option"
  mt_undo_of :: "string option"

record rank_move =
  old_position :: nat
  new_position :: nat
  old_status :: string
  new_status :: string
  old_total :: nat
  new_total :: nat

text \<open>One change as a person reads it.\<close>

type_synonym shown_change = "string \<times> string \<times> string"

record job_event =
  je_id :: uuid
  je_job :: uuid
  je_at :: moment
  je_type :: string
  je_staff :: uuid
  delta_before :: "(string \<times> cell) list"
  delta_after :: "(string \<times> cell) list"
  je_changes :: "shown_change list"
  je_position :: "rank_move option"
  schema_version :: int
  change_id :: "uuid option"
  delta_meta :: "change_meta option"
  delta_checksum :: "string option"

text \<open>What a caller of \<open>save\<close> adds to the event.\<close>

record enrichment =
  en_schema :: int
  en_change :: "uuid option"
  en_meta :: "change_meta option"
  en_checksum :: "string option"
  en_type :: "string option"
  en_position :: "rank_move option"

definition plain_save :: enrichment where
  "plain_save = \<lparr>en_schema = 0, en_change = None, en_meta = None, en_checksum = None, en_type = None, en_position = None\<rparr>"

record job_desk =
  desk :: db
  cards :: "job_card list"
  job_events :: "job_event list"
  company_names :: "(uuid \<times> string) list"
  person_names :: "(uuid \<times> string) list"

definition get_card :: "job_desk \<Rightarrow> uuid \<Rightarrow> job_card option" where
  "get_card s i = row_get jc_id i (cards s)"

definition set_col :: "attr \<Rightarrow> cell \<Rightarrow> job_card \<Rightarrow> job_card" where
  "set_col a v c = c\<lparr>cols := (cols c)(a := v)\<rparr>"

definition cell_string :: "cell \<Rightarrow> string" where
  "cell_string v = (case v of VText t \<Rightarrow> t | _ \<Rightarrow> [])"

text \<open>\<open>UUIDField.to_python\<close>: an id, its text, or the number it is.\<close>

definition cell_uuid :: "cell \<Rightarrow> uuid option" where
  "cell_uuid v = (case v of VUuid u \<Rightarrow> Some u | VText t \<Rightarrow> digits_value t 0
     | VInt n \<Rightarrow> if n < 0 then None else Some (nat n) | VBool b \<Rightarrow> Some (if b then 1 else 0) | _ \<Rightarrow> None)"

definition card_priority :: "job_card \<Rightarrow> rat" where
  "card_priority c = (case number_of (cols c APriority) of Some x \<Rightarrow> x | None \<Rightarrow> 0)"

definition card_status :: "job_card \<Rightarrow> string" where
  "card_status c = cell_string (cols c AStatus)"

section \<open>What a change is called\<close>

definition display :: "(string \<times> string) list \<Rightarrow> cell \<Rightarrow> string" where
  "display choices v = (case map_of choices (cell_string v) of Some t \<Rightarrow> t | None \<Rightarrow> value_text v)"

definition yes_no_change :: "string \<Rightarrow> string \<Rightarrow> string \<Rightarrow> cell \<Rightarrow> cell \<Rightarrow> (string \<times> shown_change) option" where
  "yes_no_change on_event off_event label was becomes =
     (if \<not> falsy becomes \<and> falsy was then Some (on_event, label, ''No'', ''Yes'')
      else if \<not> falsy was \<and> falsy becomes then Some (off_event, label, ''Yes'', ''No'') else None)"

definition text_change :: "string \<Rightarrow> string \<Rightarrow> cell \<Rightarrow> cell \<Rightarrow> (string \<times> shown_change) option" where
  "text_change event label was becomes =
     (if falsy was \<and> falsy becomes then None
      else Some (event, label, (if falsy was then [] else value_text was), (if falsy becomes then [] else value_text becomes)))"

definition or_none :: "cell \<Rightarrow> string" where
  "or_none v = (if falsy v then ''None'' else value_text v)"

definition looked_up :: "string \<Rightarrow> string \<Rightarrow> (uuid \<times> string) list \<Rightarrow> cell \<Rightarrow> string" where
  "looked_up nobody unknown names v =
     (case cell_uuid v of None \<Rightarrow> nobody | Some u \<Rightarrow> (case map_of names u of None \<Rightarrow> unknown | Some t \<Rightarrow> t))"

definition day_text :: "cell \<Rightarrow> string" where
  "day_text v = (case v of VDate d \<Rightarrow> date_iso d | VMoment m k \<Rightarrow> date_iso (m_date m) | _ \<Rightarrow> ''None'')"

definition minute_text :: "cell \<Rightarrow> string" where
  "minute_text v = (case v of
     VMoment m k \<Rightarrow> date_iso (m_date m) @ '' at '' @ two (hour (m_time m)) @ '':'' @ two (minute (m_time m)) | _ \<Rightarrow> ''None'')"

definition quote_acceptance_change :: "cell \<Rightarrow> cell \<Rightarrow> (string \<times> shown_change) option" where
  "quote_acceptance_change was becomes =
     (if falsy was \<and> \<not> falsy becomes then Some (''quote_accepted'', ''Quote acceptance date'', ''None'', minute_text becomes)
      else if \<not> falsy was \<and> falsy becomes then Some (''job_updated'', ''Quote acceptance date'', day_text was, ''None'')
      else None)"

definition tradeoffs :: "(string \<times> string) list" where
  "tradeoffs = [(''fast'', ''Fast - Prioritize Speed''), (''normal'', ''Normal - Balanced''), (''quality'', ''Quality - Prioritize Quality'')]"

definition rdti_types :: "(string \<times> string) list" where
  "rdti_types = [(''non_rd'', ''Non-R&D''), (''core_rd'', ''Core R&D''), (''supporting_rd'', ''Supporting R&D'')]"

definition pay_item_names :: "job_desk \<Rightarrow> (uuid \<times> string) list" where
  "pay_item_names s = map (\<lambda>p. (pi_id p, pi_name p)) (pay_items (desk s))"

fun change_detail :: "job_desk \<Rightarrow> attr \<Rightarrow> cell \<Rightarrow> cell \<Rightarrow> (string \<times> shown_change) option" where
  "change_detail s AStatus a b = Some (''status_changed'', ''Status'', display job_statuses a, display job_statuses b)"
| "change_detail s AName a b = Some (''job_updated'', ''Job name'', value_text a, value_text b)"
| "change_detail s ACompany a b = Some (''company_changed'', ''Company'',
     looked_up ''Shop Job'' ''Unknown Company'' (company_names s) a, looked_up ''Shop Job'' ''Unknown Company'' (company_names s) b)"
| "change_detail s APerson a b = Some (''person_changed'', ''Person'',
     looked_up ''None'' ''Unknown Person'' (person_names s) a, looked_up ''None'' ''Unknown Person'' (person_names s) b)"
| "change_detail s AOrderNumber a b = Some (''job_updated'', ''Order number'', or_none a, or_none b)"
| "change_detail s ADescription a b = text_change ''job_updated'' ''Job description'' a b"
| "change_detail s ANotes a b = text_change ''notes_updated'' ''Internal notes'' a b"
| "change_detail s ADelivery a b = Some (''delivery_date_changed'', ''Delivery date'', day_text a, day_text b)"
| "change_detail s AQuoteAcceptance a b = quote_acceptance_change a b"
| "change_detail s APricing a b = Some (''pricing_changed'', ''Pricing methodology'',
     display pricing_methodologies a, display pricing_methodologies b)"
| "change_detail s ATradeoff a b = Some (''job_updated'', ''Speed/quality tradeoff'', display tradeoffs a, display tradeoffs b)"
| "change_detail s APriceCap a b = Some (''pricing_changed'', ''Price cap'', CHR ''$'' # or_none a, CHR ''$'' # or_none b)"
| "change_detail s APriority a b = Some (''priority_changed'', ''Job priority'', value_text a, value_text b)"
| "change_detail s APaid a b = yes_no_change ''payment_received'' ''payment_updated'' ''Paid'' a b"
| "change_detail s ARejected a b = yes_no_change ''job_rejected'' ''job_updated'' ''Rejected'' a b"
| "change_detail s AForeman a b = yes_no_change ''completion_checklist_updated'' ''completion_checklist_updated'' ''Foreman sign-off'' a b"
| "change_detail s ATimesheets a b = yes_no_change ''completion_checklist_updated'' ''completion_checklist_updated'' ''Timesheets collected'' a b"
| "change_detail s AMaterials a b = yes_no_change ''completion_checklist_updated'' ''completion_checklist_updated'' ''Materials checked'' a b"
| "change_detail s ACustomerCalled a b = yes_no_change ''completion_checklist_updated'' ''completion_checklist_updated'' ''Customer called'' a b"
| "change_detail s AReleased a b = yes_no_change ''completion_checklist_updated'' ''completion_checklist_updated'' ''Job released'' a b"
| "change_detail s AComplex a b = yes_no_change ''job_updated'' ''job_updated'' ''Complex job'' a b"
| "change_detail s AUrgent a b = yes_no_change ''urgent_flagged'' ''urgent_cleared'' ''Urgent job'' a b"
| "change_detail s ARdti a b = Some (''job_updated'', ''RDTI classification'',
     (if falsy a then ''None'' else display rdti_types a), (if falsy b then ''None'' else display rdti_types b))"
| "change_detail s APayItem a b = Some (''job_updated'', ''Xero pay item'',
     looked_up ''None'' ''Unknown'' (pay_item_names s) a, looked_up ''None'' ''Unknown'' (pay_item_names s) b)"
| "change_detail s AMinPeople a b = Some (''job_updated'', ''min people'', value_text (json_safe a), value_text (json_safe b))"
| "change_detail s AMaxPeople a b = Some (''job_updated'', ''max people'', value_text (json_safe a), value_text (json_safe b))"
| "change_detail s AValid a b = None"

section \<open>Which columns changed\<close>

record change_set =
  changed :: "attr list"
  was :: "(string \<times> cell) list"
  becomes :: "(string \<times> cell) list"
  shown_changes :: "(string \<times> shown_change) list"

definition detect_field_changes :: "job_desk \<Rightarrow> job_card \<Rightarrow> job_card \<Rightarrow> attr list option \<Rightarrow> bool \<Rightarrow> change_set" where
  "detect_field_changes s old new restricted track_priority =
     (let as = filter (\<lambda>a. (a \<noteq> APriority \<or> track_priority)
                 \<and> (case restricted of None \<Rightarrow> True | Some fs \<Rightarrow> a \<in> set fs)
                 \<and> \<not> py_eq (cols old a) (cols new a)) tracked
      in \<lparr>changed = as, was = map (\<lambda>a. (attr_name a, json_safe (cols old a))) as,
          becomes = map (\<lambda>a. (attr_name a, json_safe (cols new a))) as,
          shown_changes = List.map_filter (\<lambda>a. change_detail s a (cols old a) (cols new a)) as\<rparr>)"

definition infer_event_type :: "string list \<Rightarrow> (string \<times> cell) list \<Rightarrow> string" where
  "infer_event_type types after =
     (if map_of after ''rejected_flag'' = Some (VBool True) \<and> map_of after ''status'' = Some (VText ''archived'') then ''job_rejected''
      else if ''status_changed'' \<in> set types then ''status_changed''
      else if length types = 1 then hd types else ''job_updated'')"

section \<open>What a change brings with it\<close>

definition priority_increment :: rat where "priority_increment = 200"

text \<open>The highest priority, or 0 of no job.\<close>

definition max_priority :: "job_card list \<Rightarrow> rat" where
  "max_priority cs = (case map card_priority cs of [] \<Rightarrow> 0 | p # ps \<Rightarrow> foldl max p ps)"

definition next_priority_for_status :: "job_desk \<Rightarrow> string \<Rightarrow> rat" where
  "next_priority_for_status s st =
     float_round (max_priority (filter (\<lambda>c. card_status c = st) (cards s)) + priority_increment)"

definition is_completed_status :: "string \<Rightarrow> bool" where
  "is_completed_status st \<longleftrightarrow> st = ''recently_completed'' \<or> st = ''archived''"

text \<open>Which of priority and \<open>completed_at\<close> it sets, and the card with them set.\<close>

definition apply_change_side_effects :: "job_desk \<Rightarrow> (string \<times> cell) list \<Rightarrow> job_card \<Rightarrow> (bool \<times> bool) \<times> job_card" where
  "apply_change_side_effects s after c =
     (let urgent = map_of after ''is_urgent'' = Some (VBool True);
          c1 = (if urgent then set_col APriority (VFloat (float_round (max_priority (cards s) + priority_increment))) c else c)
      in case map_of after ''status'' of
           None \<Rightarrow> ((urgent, False), c1)
         | Some v \<Rightarrow>
             if is_completed_status (cell_string v) \<and> completed_at c1 = None
             then ((urgent, True), c1\<lparr>completed_at := Some (now (desk s))\<rparr>)
             else if \<not> is_completed_status (cell_string v) \<and> completed_at c1 \<noteq> None
             then ((urgent, True), c1\<lparr>completed_at := None\<rparr>)
             else ((urgent, False), c1))"

section \<open>Writing the row\<close>

text \<open>What the column holds when it is read back: ids, two places, UTC.\<close>

fun stored :: "attr \<Rightarrow> cell \<Rightarrow> cell" where
  "stored ACompany v = (case cell_uuid v of None \<Rightarrow> VNone | Some u \<Rightarrow> VUuid u)"
| "stored APerson v = (case cell_uuid v of None \<Rightarrow> VNone | Some u \<Rightarrow> VUuid u)"
| "stored APayItem v = (case cell_uuid v of None \<Rightarrow> VNone | Some u \<Rightarrow> VUuid u)"
| "stored APriceCap (VDec c e) = VDec (round_half_even (dec_value c e * 100)) (-2)"
| "stored AQuoteAcceptance (VMoment m k) = VMoment (in_utc m k) 0"
| "stored a v = v"

text \<open>The columns a restricted save writes; the others keep what the row had.\<close>

definition written :: "job_card \<Rightarrow> job_card \<Rightarrow> attr list option \<Rightarrow> bool \<times> bool \<Rightarrow> job_card" where
  "written old new restricted effects =
     (case restricted of
        None \<Rightarrow> new\<lparr>cols := (\<lambda>a. stored a (cols new a))\<rparr>
      | Some fs \<Rightarrow>
          old\<lparr>cols := (\<lambda>a. if a \<in> set fs \<or> fst effects \<and> a = APriority then stored a (cols new a) else cols old a),
            completed_at := (if snd effects then completed_at new else completed_at old)\<rparr>)"

definition max_length :: "nat \<Rightarrow> cell \<Rightarrow> bool" where
  "max_length n v \<longleftrightarrow> length (cell_string v) \<le> n"

definition fits_integer :: "cell \<Rightarrow> bool" where
  "fits_integer v \<longleftrightarrow> (case v of VInt n \<Rightarrow> -2147483648 \<le> n \<and> n \<le> 2147483647 | _ \<Rightarrow> False)"

text \<open>The constraints of the table and the widths of its columns.\<close>

definition check_card :: "job_card \<Rightarrow> unit res" where
  "check_card c =
     bindR (requireR (cols c ADescription \<noteq> VText []) (Integrity ''job_job_description_not_blank'')) (\<lambda>_.
     bindR (requireR (cols c ANotes \<noteq> VText []) (Integrity ''job_job_notes_not_blank'')) (\<lambda>_.
     bindR (requireR (cols c AOrderNumber \<noteq> VText []) (Integrity ''order_number_not_blank'')) (\<lambda>_.
     bindR (requireR (cols c ARdti \<noteq> VText []) (Integrity ''rdti_type_not_blank'')) (\<lambda>_.
     bindR (requireR (card_status c \<in> set (map fst job_statuses)) (Integrity ''job_job_status_valid'')) (\<lambda>_.
     bindR (requireR (max_length 100 (cols c AName) \<and> max_length 100 (cols c AOrderNumber)) (Integrity ''value too long'')) (\<lambda>_.
     requireR (fits_integer (cols c AMinPeople) \<and> fits_integer (cols c AMaxPeople)) (Integrity ''integer out of range'')))))))"

text \<open>The columns of the database's row that other parts read.\<close>

definition row_of_card :: "moment \<Rightarrow> job_card \<Rightarrow> job_row \<Rightarrow> job_row" where
  "row_of_card t c r =
     r\<lparr>job_name := cell_string (cols c AName), job_company := cell_uuid (cols c ACompany), job_status := card_status c,
       is_urgent := (cols c AUrgent = VBool True), default_xero_pay_item := cell_uuid (cols c APayItem), job_updated_at := t\<rparr>"

definition write_card :: "job_card \<Rightarrow> (job_desk, unit) tx" where
  "write_card c =
     seqT (readT (\<lambda>s. check_card c))
       (putT (\<lambda>s. s\<lparr>cards := row_put jc_id c (cards s),
          desk := (desk s)\<lparr>jobs := map (\<lambda>r. if job_id r = jc_id c then row_of_card (now (desk s)) c r else r) (jobs (desk s))\<rparr>\<rparr>))"

section \<open>The event of a save\<close>

definition event_of ::
  "uuid \<Rightarrow> uuid \<Rightarrow> uuid \<Rightarrow> moment \<Rightarrow> enrichment \<Rightarrow> change_set \<Rightarrow> job_event" where
  "event_of i j who t en ch =
     (let ty = (case en_type en of Some x \<Rightarrow> x | None \<Rightarrow> infer_event_type (map fst (shown_changes ch)) (becomes ch))
      in \<lparr>je_id = i, je_job = j, je_at = t, je_type = ty, je_staff = who, delta_before = was ch, delta_after = becomes ch,
          je_changes = map snd (shown_changes ch),
          je_position = (if ty = ''priority_changed'' \<or> ty = ''status_changed'' then en_position en else None),
          schema_version = en_schema en, change_id = en_change en,
          delta_meta = map_option (\<lambda>m. m\<lparr>mt_fields := filter (\<lambda>f. f \<in> fst ` set (was ch)) (mt_fields m)\<rparr>) (en_meta en),
          delta_checksum = en_checksum en\<rparr>)"

text \<open>A drag that left the card at its rank leaves no event.\<close>

definition is_no_op_drag :: "job_event \<Rightarrow> bool" where
  "is_no_op_drag e \<longleftrightarrow> je_type e = ''priority_changed''
     \<and> (case je_position e of None \<Rightarrow> False | Some p \<Rightarrow> old_position p = new_position p)"

definition on_desk :: "(db, 'a) tx \<Rightarrow> (job_desk, 'a) tx" where
  "on_desk m = (\<lambda>s. case m (desk s) of Inl e \<Rightarrow> Inl e | Inr (x, d) \<Rightarrow> Inr (x, s\<lparr>desk := d\<rparr>))"

definition record_change_event :: "uuid \<Rightarrow> uuid \<Rightarrow> enrichment \<Rightarrow> change_set \<Rightarrow> (job_desk, unit) tx" where
  "record_change_event j who en ch =
     bindT (on_desk fresh_id) (\<lambda>i.
     bindT (getT (\<lambda>s. event_of i j who (now (desk s)) en ch)) (\<lambda>e.
     whenT (\<not> is_no_op_drag e) (putT (\<lambda>s. s\<lparr>job_events := job_events s @ [e]\<rparr>))))"

definition clear_assigned_staff_on_archive :: "uuid \<Rightarrow> change_set \<Rightarrow> (job_desk, unit) tx" where
  "clear_assigned_staff_on_archive j ch =
     whenT (map_of (becomes ch) ''status'' = Some (VText ''archived''))
       (putT (\<lambda>s. s\<lparr>cards := map (\<lambda>c. if jc_id c = j then c\<lparr>jc_people := []\<rparr> else c) (cards s)\<rparr>))"

section \<open>Saving\<close>

definition get_ordinary_time :: "db \<Rightarrow> uuid option" where
  "get_ordinary_time s = map_option pi_id (find (\<lambda>p. pi_name p = ''Ordinary Time'' \<and> \<not> uses_leave_api p) (pay_items s))"

definition default_pay_item :: "job_desk \<Rightarrow> job_card \<Rightarrow> job_card res" where
  "default_pay_item s c =
     (if cols c APayItem \<noteq> VNone then Inr c
      else case get_ordinary_time (desk s) of
        None \<Rightarrow> Inl (ValueErr ''Ordinary Time'')
      | Some u \<Rightarrow> Inr (set_col APayItem (VUuid u) c))"

definition request_pdf_refresh :: "(job_desk, unit) tx" where
  "request_pdf_refresh = putT (\<lambda>s. s\<lparr>desk := (desk s)\<lparr>pdf_refresh := True\<rparr>\<rparr>)"

text \<open>An empty list of columns writes nothing.\<close>

definition save_job :: "uuid \<Rightarrow> enrichment \<Rightarrow> attr list option \<Rightarrow> job_card \<Rightarrow> (job_desk, unit) tx" where
  "save_job who en restricted given =
     bindT (readT (\<lambda>s. of_option (DoesNotExist ''Job'') (get_card s (jc_id given)))) (\<lambda>old.
     bindT (readT (\<lambda>s. default_pay_item s given)) (\<lambda>new.
     bindT (getT (\<lambda>s. detect_field_changes s old new restricted (en_position en \<noteq> None))) (\<lambda>ch.
     bindT (getT (\<lambda>s. if was ch = [] then ((False, False), new) else apply_change_side_effects s (becomes ch) new)) (\<lambda>(effects, c).
     seqT (whenT (restricted \<noteq> Some []) (write_card (written old c restricted effects)))
     (seqT (whenT (was ch \<noteq> [])
             (seqT (record_change_event (jc_id given) who en ch) (clear_assigned_staff_on_archive (jc_id given) ch)))
       request_pdf_refresh)))))"

definition update_completion_checklist :: "uuid \<Rightarrow> (attr \<times> bool) list \<Rightarrow> uuid \<Rightarrow> (job_desk, unit) tx" where
  "update_completion_checklist j updates who =
     bindT (readT (\<lambda>s. of_option (DoesNotExist ''Job'') (get_card s j))) (\<lambda>c.
     save_job who plain_save (Some (map fst updates)) (fold (\<lambda>(a, b). set_col a (VBool b)) updates c))"

definition touch_card :: "uuid \<Rightarrow> (job_desk, unit) tx" where
  "touch_card j = putT (\<lambda>s. s\<lparr>desk := (desk s)\<lparr>jobs := map (\<lambda>r. if job_id r = j then r\<lparr>job_updated_at := now (desk s)\<rparr> else r) (jobs (desk s))\<rparr>\<rparr>)"

text \<open>The answer is the message of what was not found.\<close>

definition change_job_assignment :: "uuid \<Rightarrow> uuid \<Rightarrow> bool \<Rightarrow> (job_desk, string option) tx" where
  "change_job_assignment j who attach =
     bindT (getT (\<lambda>s. get_card s j)) (\<lambda>found. case found of
       None \<Rightarrow> ret (Some ''Job not found'')
     | Some c \<Rightarrow>
         bindT (getT (\<lambda>s. row_get st_id who (staffs (desk s)))) (\<lambda>st. case st of
           None \<Rightarrow> ret (Some ''Staff member not found'')
         | Some _ \<Rightarrow>
             let assigned = who \<in> set (jc_people c) in
             if attach \<noteq> assigned
             then seqT (putT (\<lambda>s. s\<lparr>cards := row_put jc_id
                     (c\<lparr>jc_people := (if attach then jc_people c @ [who] else filter (\<lambda>x. x \<noteq> who) (jc_people c))\<rparr>) (cards s)\<rparr>))
                    (seqT (touch_card j) (ret None))
             else ret None))"

end
