(* ===== verification/Job_Deltas.thy ===== *)
theory Job_Deltas
  imports Job_Cards
begin

text \<open>
  Changing a job under two preconditions (\<open>job/services/job_service.py\<close>): the \<open>ETag\<close> of the row
  and, per field, the value the client last saw, with a checksum over them. A refused change is
  kept as a rejection. It is written outside the transaction that failed, so \<open>update_job\<close> takes the
  office to a result and the office after it. The hash function \<open>sha\<close>, Django's reading \<open>tags\<close> of a
  header of tags and \<open>zone\<close>, the minutes the clock here is ahead of UTC, are arguments. A field name that is no modelled column is
  refused as unknown; ISO dates are read in their extended form.
\<close>

section \<open>Tags in headers\<close>

definition header_satisfied :: "(string \<Rightarrow> string list) \<Rightarrow> string \<Rightarrow> string \<Rightarrow> bool" where
  "header_satisfied tags header current \<longleftrightarrow> current \<in> set (tags header)"

definition updated_at_etag_value :: "(moment \<Rightarrow> int) \<Rightarrow> string \<Rightarrow> uuid \<Rightarrow> moment \<Rightarrow> string" where
  "updated_at_etag_value zone resource i t = resource @ '':'' @ show_digits i @ '':'' @ stamp_iso t (zone t)"

definition generate_updated_at_etag :: "(moment \<Rightarrow> int) \<Rightarrow> string \<Rightarrow> uuid \<Rightarrow> moment \<Rightarrow> string" where
  "generate_updated_at_etag zone resource i t = [CHR 0x22] @ updated_at_etag_value zone resource i t @ [CHR 0x22]"

definition job_updated :: "job_desk \<Rightarrow> uuid \<Rightarrow> moment" where
  "job_updated s i = (case row_get job_id i (jobs (desk s)) of Some r \<Rightarrow> job_updated_at r | None \<Rightarrow> now (desk s))"

definition job_etag :: "(moment \<Rightarrow> int) \<Rightarrow> job_desk \<Rightarrow> uuid \<Rightarrow> string" where
  "job_etag zone s i = generate_updated_at_etag zone ''job'' i (job_updated s i)"

section \<open>The envelope and its rejection\<close>

record delta =
  d_change :: uuid
  d_fields :: "string list"
  d_before :: "(string \<times> cell) list"
  d_after :: "(string \<times> cell) list"
  d_checksum :: string
  d_actor :: "uuid option"
  d_made_at :: "string option"
  d_job :: "uuid option"
  d_etag :: "string option"
  d_undo_of :: "uuid option"

datatype envelope = Envelope delta | EventAfter "(string \<times> cell) list"

datatype rejection_detail =
    ServerState "string option" "(string \<times> cell) list"
  | BadPayload string
  | OtherJob uuid uuid
  | UndoMismatch "string list" "(string \<times> cell) list" "(string \<times> cell) list"

record rejection =
  rj_job :: uuid
  rj_staff :: uuid
  rj_change :: uuid
  rj_reason :: string
  rj_detail :: rejection_detail
  rj_envelope :: envelope
  rj_checksum :: "string option"
  rj_etag :: "string option"
  rj_ip :: "string option"
  rj_created :: moment
  rj_resolved :: bool

record job_office =
  board :: job_desk
  rejections :: "rejection list"
  job_delta_soft_fail :: bool

definition json_values :: "(string \<times> cell) list \<Rightarrow> (string \<times> cell) list" where
  "json_values vs = map (\<lambda>(f, v). (f, to_json v)) vs"

definition to_dict :: "delta \<Rightarrow> envelope" where
  "to_dict d = Envelope (d\<lparr>d_before := json_values (d_before d), d_after := json_values (d_after d)\<rparr>)"

definition nonempty_text :: "string option \<Rightarrow> string option" where
  "nonempty_text t = (case t of Some x \<Rightarrow> if x = [] then None else Some x | None \<Rightarrow> None)"

text \<open>One rejection per job and change: a second one replaces what the first said.\<close>

definition record_delta_rejection ::
  "uuid \<Rightarrow> uuid \<Rightarrow> string \<Rightarrow> rejection_detail \<Rightarrow> envelope \<Rightarrow> uuid \<Rightarrow> string option \<Rightarrow> string option \<Rightarrow> string option
    \<Rightarrow> job_office \<Rightarrow> job_office" where
  "record_delta_rejection j who reason detail env change checksum etag ip s =
     (let same = (\<lambda>r. rj_job r = j \<and> rj_change r = change);
          filled = (\<lambda>t settled. \<lparr>rj_job = j, rj_staff = who, rj_change = change, rj_reason = take 255 reason, rj_detail = detail,
             rj_envelope = env, rj_checksum = nonempty_text checksum, rj_etag = map_option (take 128) (nonempty_text etag),
             rj_ip = ip, rj_created = t, rj_resolved = settled\<rparr>)
      in s\<lparr>rejections :=
             (if list_ex same (rejections s)
              then map (\<lambda>r. if same r then filled (rj_created r) (rj_resolved r) else r) (rejections s)
              else rejections s @ [filled (now (desk (board s))) False])\<rparr>)"

section \<open>Fields a client may send\<close>

text \<open>\<open>_FIELD_ATTRIBUTE_MAP\<close> and its inverse.\<close>

definition field_attr :: "string \<Rightarrow> attr option" where
  "field_attr f = (if f = ''job_status'' then Some AStatus else find (\<lambda>a. attr_name a = f) columns)"

definition attribute_text :: "string \<Rightarrow> string" where
  "attribute_text f = (if f = ''job_status'' then ''status'' else f)"

definition wire_text :: "string \<Rightarrow> string" where
  "wire_text f = (if f = ''status'' then ''job_status'' else f)"

definition fk_fields :: "attr list" where "fk_fields = [ACompany, APerson, APayItem]"
definition int_fields :: "attr list" where "int_fields = [AMinPeople, AMaxPeople]"
definition bool_fields :: "attr list" where "bool_fields = [APaid, AValid, ARejected, AUrgent]"
definition nullable_text_fields :: "attr list" where "nullable_text_fields = [ADescription, ANotes, AOrderNumber, ARdti]"

definition choices_of :: "attr \<Rightarrow> string list option" where
  "choices_of a = (case a of AStatus \<Rightarrow> Some (map fst job_statuses) | APricing \<Rightarrow> Some (map fst pricing_methodologies)
     | ATradeoff \<Rightarrow> Some (map fst tradeoffs) | ARdti \<Rightarrow> Some (map fst rdti_types) | _ \<Rightarrow> None)"

definition updatable_columns :: "attr list" where
  "updatable_columns = fk_fields @ [ADelivery, AQuoteAcceptance, APriceCap] @ int_fields @ bool_fields
     @ nullable_text_fields @ [AName, AStatus, APricing, ATradeoff]"

text \<open>The client's name of the status is the only one it is known by.\<close>

definition updatable :: "string \<Rightarrow> attr option" where
  "updatable f = (case field_attr f of
     None \<Rightarrow> None | Some a \<Rightarrow> if a \<in> set updatable_columns \<and> f \<noteq> ''status'' then Some a else None)"

definition get_field_value :: "job_card \<Rightarrow> string \<Rightarrow> cell res" where
  "get_field_value c f = (case field_attr f of None \<Rightarrow> Inl (ValueErr ''Unsupported field'') | Some a \<Rightarrow> Inr (cols c a))"

section \<open>Reading a sent value\<close>

definition parse_delta_date :: "cell \<Rightarrow> cell res" where
  "parse_delta_date v = (case v of
     VNone \<Rightarrow> Inr VNone
   | VDate d \<Rightarrow> Inr (VDate d)
   | VText t \<Rightarrow> (case parse_date t of Some d \<Rightarrow> Inr (VDate d) | None \<Rightarrow> Inl (ValueErr ''Invalid date''))
   | _ \<Rightarrow> Inl (ValueErr ''Invalid date''))"

definition zulu :: "string \<Rightarrow> string" where
  "zulu t = concat (map (\<lambda>c. if c = CHR ''Z'' then ''+00:00'' else [c]) t)"

definition parse_delta_datetime :: "(moment \<Rightarrow> int) \<Rightarrow> cell \<Rightarrow> cell res" where
  "parse_delta_datetime zone v = (case v of
     VNone \<Rightarrow> Inr VNone
   | VMoment m k \<Rightarrow> Inr (VMoment m k)
   | VText t \<Rightarrow> (case parse_moment (zulu t) of
         None \<Rightarrow> Inl (ValueErr ''Invalid datetime'')
       | Some (m, Some k) \<Rightarrow> Inr (VMoment m k)
       | Some (m, None) \<Rightarrow> Inr (VMoment m (zone m)))
   | _ \<Rightarrow> Inl (ValueErr ''Invalid datetime''))"

definition price_cap_max_abs :: rat where "price_cap_max_abs = 100000000"

text \<open>Quantizing beyond 28 digits raises \<open>InvalidOperation\<close>, which is no \<open>ValueError\<close>.\<close>

definition bounded_decimal :: "int \<times> int \<Rightarrow> cell res" where
  "bounded_decimal p = (case p of (c, e) \<Rightarrow>
     let x = dec_value c e; cents = round_half_even (x * 100)
     in bindR (requireR (\<bar>cents\<bar> < 10 ^ 28) (DecimalInvalid ''quantize'')) (\<lambda>_.
        bindR (requireR (x * 100 = of_int cents) (ValueErr ''allows at most 2 decimal places'')) (\<lambda>_.
        bindR (requireR (\<bar>x\<bar> < price_cap_max_abs) (ValueErr ''exceeds the allowed magnitude'')) (\<lambda>_.
        Inr (VDec c e)))))"

definition parse_delta_decimal :: "cell \<Rightarrow> cell res" where
  "parse_delta_decimal v =
     (let text = (\<lambda>t. case decimal_parts t of None \<Rightarrow> Inl (ValueErr ''Invalid decimal'') | Some p \<Rightarrow> bounded_decimal p)
      in case v of
           VNone \<Rightarrow> Inr VNone
         | VText t \<Rightarrow> text t
         | VInt n \<Rightarrow> bounded_decimal (n, 0)
         | VFloat x \<Rightarrow> text (float_text x)
         | VDec c e \<Rightarrow> bounded_decimal (c, e)
         | _ \<Rightarrow> Inl (ValueErr ''Invalid decimal''))"

text \<open>A related row is looked up by its key; text that is no id raises Django's own error.\<close>

definition related_ids :: "job_desk \<Rightarrow> attr \<Rightarrow> uuid list" where
  "related_ids s a = (case a of ACompany \<Rightarrow> map fst (company_names s) | APerson \<Rightarrow> map fst (person_names s)
     | _ \<Rightarrow> map pi_id (pay_items (desk s)))"

definition check_related :: "job_desk \<Rightarrow> attr \<Rightarrow> cell \<Rightarrow> unit res" where
  "check_related s a v =
     (if v = VNone then Inr ()
      else case cell_uuid v of
        None \<Rightarrow> Inl (Validation ''is not a valid UUID'')
      | Some u \<Rightarrow> requireR (u \<in> set (related_ids s a)) (ValueErr ''not found''))"

definition check_choice :: "attr \<Rightarrow> cell \<Rightarrow> unit res" where
  "check_choice a v =
     (case choices_of a of
        None \<Rightarrow> Inr ()
      | Some cs \<Rightarrow> requireR (v = VNone \<or> (case v of VText t \<Rightarrow> t \<in> set cs | _ \<Rightarrow> False)) (ValueErr ''Invalid value''))"

definition parsed_field :: "(moment \<Rightarrow> int) \<Rightarrow> job_desk \<Rightarrow> attr \<Rightarrow> cell \<Rightarrow> cell res" where
  "parsed_field zone s a v =
     (if a \<in> set fk_fields then bindR (check_related s a v) (\<lambda>_. Inr v)
      else if a = ADelivery then parse_delta_date v
      else if a = AQuoteAcceptance then parse_delta_datetime zone v
      else if a = APriceCap then parse_delta_decimal v
      else if a \<in> set int_fields
      then (case v of VInt n \<Rightarrow> if n < 0 then Inl (ValueErr ''cannot be negative'') else Inr v
            | _ \<Rightarrow> Inl (ValueErr ''Invalid integer''))
      else if a \<in> set bool_fields
      then (case v of VBool b \<Rightarrow> Inr v | _ \<Rightarrow> Inl (ValueErr ''Invalid boolean''))
      else if a \<in> set nullable_text_fields
      then (case v of VNone \<Rightarrow> Inr v | VText t \<Rightarrow> if t = [] then Inl (ValueErr ''cannot be blank'') else Inr v
            | _ \<Rightarrow> Inl (ValueErr ''Invalid value''))
      else (case v of VText t \<Rightarrow> if t = [] then Inl (ValueErr ''Invalid value'') else Inr v
            | _ \<Rightarrow> Inl (ValueErr ''Invalid value'')))"

definition apply_delta_field :: "(moment \<Rightarrow> int) \<Rightarrow> job_desk \<Rightarrow> string \<Rightarrow> cell \<Rightarrow> job_card \<Rightarrow> job_card res" where
  "apply_delta_field zone s f v c =
     (case updatable f of
        None \<Rightarrow> Inl (ValueErr ''Unsupported field'')
      | Some a \<Rightarrow>
          bindR (check_choice a v) (\<lambda>_.
          bindR (parsed_field zone s a v) (\<lambda>x. Inr (set_col a x c))))"

fun apply_delta_fields :: "(moment \<Rightarrow> int) \<Rightarrow> job_desk \<Rightarrow> (string \<times> cell) list \<Rightarrow> job_card \<Rightarrow> job_card res" where
  "apply_delta_fields zone s [] c = Inr c"
| "apply_delta_fields zone s ((f, v) # rest) c = bindR (apply_delta_field zone s f v c) (apply_delta_fields zone s rest)"

section \<open>Checking the envelope\<close>

datatype verdict = Malformed string | Stale string string | Passed string

definition current_values :: "job_card \<Rightarrow> string list \<Rightarrow> (string \<times> cell) list res" where
  "current_values c names = mapR (\<lambda>f. bindR (get_field_value c f) (\<lambda>v. Inr (f, v))) names"

definition value_in :: "(string \<times> cell) list \<Rightarrow> string \<Rightarrow> cell" where
  "value_in vs f = (case map_of vs f of Some v \<Rightarrow> v | None \<Rightarrow> VNone)"

definition validate_delta_payload :: "(string \<Rightarrow> string) \<Rightarrow> job_card \<Rightarrow> delta \<Rightarrow> bool \<Rightarrow> verdict" where
  "validate_delta_payload sha c d soft =
     (let names = remdups (d_fields d) in
      if names = [] then Malformed ''Delta payload must specify at least one field''
      else if \<not> set names \<subseteq> fst ` set (d_before d) \<or> \<not> set names \<subseteq> fst ` set (d_after d)
      then Malformed ''Delta payload is inconsistent''
      else case bindR (current_values c names) (\<lambda>vs. compute_job_delta_checksum sha (jc_id c) vs names) of
        Inl e \<Rightarrow> Malformed ''Unsupported field''
      | Inr server \<Rightarrow>
          if \<not> soft \<and> server \<noteq> d_checksum d then Stale ''Delta checksum mismatch'' server
          else if \<not> soft \<and> \<not> list_all (\<lambda>f. case field_attr f of None \<Rightarrow> True
              | Some a \<Rightarrow> normalise_value (cols c a) = normalise_value (value_in (d_before d) f)) names
          then Stale ''Delta before state mismatch'' server
          else Passed server)"

section \<open>Changing a job\<close>

definition meta_of :: "delta \<Rightarrow> change_meta" where
  "meta_of d = \<lparr>mt_fields = map attribute_text (d_fields d), mt_actor = map_option show_digits (d_actor d),
     mt_made_at = d_made_at d, mt_etag = d_etag d, mt_undo_of = map_option show_digits (d_undo_of d)\<rparr>"

definition enrichment_of :: "delta \<Rightarrow> enrichment" where
  "enrichment_of d = plain_save\<lparr>en_schema := 1, en_change := Some (d_change d), en_meta := Some (meta_of d),
     en_checksum := (if d_checksum d = [] then None else Some (d_checksum d))\<rparr>"

text \<open>What the transaction writes: the fields of \<open>after\<close>, then the top of the new column.\<close>

definition apply_delta :: "(moment \<Rightarrow> int) \<Rightarrow> uuid \<Rightarrow> delta \<Rightarrow> job_card \<Rightarrow> (job_desk, unit) tx" where
  "apply_delta zone who d c =
     bindT (readT (\<lambda>s. apply_delta_fields zone s (d_after d) c)) (\<lambda>c'.
     seqT (save_job who (enrichment_of d) None c')
       (whenT (''job_status'' \<in> set (d_fields d) \<and> card_status c' \<noteq> card_status c)
          (bindT (getT (\<lambda>s. next_priority_for_status s (card_status c'))) (\<lambda>p.
           save_job who plain_save (Some [APriority]) (set_col APriority (VFloat p) c')))))"

definition rejected_values :: "job_card \<Rightarrow> delta \<Rightarrow> (string \<times> cell) list" where
  "rejected_values c d = (case current_values c (remdups (d_fields d)) of Inr vs \<Rightarrow> json_values vs | Inl _ \<Rightarrow> [])"

definition rejected_etag :: "delta \<Rightarrow> string \<Rightarrow> string option" where
  "rejected_etag d header = (case nonempty_text (d_etag d) of Some t \<Rightarrow> Some t | None \<Rightarrow> nonempty_text (Some header))"

text \<open>What a soft failure keeps although the change goes through.\<close>

definition keep_soft_failure ::
  "bool \<Rightarrow> string \<Rightarrow> job_card \<Rightarrow> uuid \<Rightarrow> delta \<Rightarrow> string \<Rightarrow> string option \<Rightarrow> job_office \<Rightarrow> job_office" where
  "keep_soft_failure soft server c who d header ip s =
     (if soft \<and> server \<noteq> [] \<and> server \<noteq> d_checksum d
      then record_delta_rejection (jc_id c) who ''Delta checksum mismatch (soft-fail)''
             (ServerState (Some server) (rejected_values c d)) (to_dict d) (d_change d) (Some (d_checksum d))
             (case nonempty_text (d_etag d) of Some t \<Rightarrow> Some t | None \<Rightarrow> Some header) ip s
      else s)"

definition update_job ::
  "(string \<Rightarrow> string) \<Rightarrow> (string \<Rightarrow> string list) \<Rightarrow> (moment \<Rightarrow> int) \<Rightarrow> uuid \<Rightarrow> delta \<Rightarrow> uuid \<Rightarrow> string \<Rightarrow> string option \<Rightarrow> job_office
    \<Rightarrow> unit res \<times> job_office" where
  "update_job sha tags zone j d who header ip s =
     (if d_fields d = [] then (Inl (ValueErr ''Invalid delta payload''), s)
      else case get_card (board s) j of
        None \<Rightarrow> (Inl (HttpErr 404 ''Job''), s)
      | Some c \<Rightarrow>
          let soft = job_delta_soft_fail s;
              refuse = (\<lambda>reason detail. record_delta_rejection j who reason detail (to_dict d) (d_change d)
                          (Some (d_checksum d)) (rejected_etag d header) ip s)
          in case validate_delta_payload sha c d soft of
               Malformed why \<Rightarrow> (Inl (ValueErr why), refuse ''Invalid delta payload'' (BadPayload why))
             | Stale why server \<Rightarrow> (Inl (HttpErr 412 why), refuse why (ServerState (Some server) (rejected_values c d)))
             | Passed server \<Rightarrow>
                 if \<not> header_satisfied tags header (job_etag zone (board s) j)
                 then (Inl (HttpErr 412 ''ETag mismatch''), keep_soft_failure soft server c who d header ip s)
                 else case d_job d of
                   Some i \<Rightarrow> if i \<noteq> j then (Inl (ValueErr ''Delta job_id does not match''), refuse ''Delta job_id mismatch'' (OtherJob i j))
                     else (case apply_delta zone who d c (board s) of
                        Inl e \<Rightarrow> (Inl e, s)
                      | Inr (_, b) \<Rightarrow> (Inr (), keep_soft_failure soft server c who d header ip (s\<lparr>board := b\<rparr>)))
                 | None \<Rightarrow> (case apply_delta zone who d c (board s) of
                        Inl e \<Rightarrow> (Inl e, s)
                      | Inr (_, b) \<Rightarrow> (Inr (), keep_soft_failure soft server c who d header ip (s\<lparr>board := b\<rparr>))))"

section \<open>Undoing a change\<close>

definition later :: "moment \<Rightarrow> moment \<Rightarrow> bool" where
  "later a b \<longleftrightarrow> m_date b < m_date a \<or> m_date a = m_date b \<and> m_time b < m_time a"

text \<open>The latest event of a change; of two at one instant, the first written.\<close>

definition latest_change :: "job_desk \<Rightarrow> uuid \<Rightarrow> uuid \<Rightarrow> job_event option" where
  "latest_change s j change =
     (case filter (\<lambda>e. je_job e = j \<and> change_id e = Some change) (job_events s) of
        [] \<Rightarrow> None | e # es \<Rightarrow> Some (foldl (\<lambda>best x. if later (je_at x) (je_at best) then x else best) e es))"

text \<open>The client's names of the fields to put back.\<close>

definition undo_fields :: "job_event \<Rightarrow> string list" where
  "undo_fields e =
     (let raw = (case delta_meta e of None \<Rightarrow> [] | Some m \<Rightarrow> mt_fields m)
      in map wire_text (if raw = [] then map fst (delta_before e) else raw))"

definition event_values :: "(string \<times> cell) list \<Rightarrow> string list \<Rightarrow> (string \<times> cell) list res" where
  "event_values vs names =
     mapR (\<lambda>f. bindR (of_option (DoesNotExist ''KeyError'') (map_of vs (attribute_text f))) (\<lambda>v. Inr (f, v))) names"

definition undo_envelope ::
  "(moment \<Rightarrow> int) \<Rightarrow> job_desk \<Rightarrow> uuid \<Rightarrow> uuid \<Rightarrow> uuid \<Rightarrow> uuid \<Rightarrow> string list \<Rightarrow> (string \<times> cell) list \<Rightarrow> (string \<times> cell) list
    \<Rightarrow> string \<Rightarrow> delta" where
  "undo_envelope zone s j change new who names current before checksum =
     \<lparr>d_change = new, d_fields = names, d_before = current, d_after = before, d_checksum = checksum, d_actor = Some who,
      d_made_at = Some (moment_iso (in_utc (now (desk s)) (zone (now (desk s)))) 0), d_job = Some j,
      d_etag = Some (updated_at_etag_value zone ''job'' j (job_updated s j)), d_undo_of = Some change\<rparr>"

definition undo_job_change ::
  "(string \<Rightarrow> string) \<Rightarrow> (string \<Rightarrow> string list) \<Rightarrow> (moment \<Rightarrow> int) \<Rightarrow> uuid \<Rightarrow> uuid \<Rightarrow> uuid \<Rightarrow> uuid \<Rightarrow> string \<Rightarrow> string option \<Rightarrow> job_office
    \<Rightarrow> unit res \<times> job_office" where
  "undo_job_change sha tags zone j change new who header ip s =
     (case get_card (board s) j of
        None \<Rightarrow> (Inl (HttpErr 404 ''Job''), s)
      | Some c \<Rightarrow>
     case latest_change (board s) j change of
        None \<Rightarrow> (Inl (ValueErr ''Job event not found''), s)
      | Some e \<Rightarrow>
     if schema_version e \<noteq> 1 then (Inl (ValueErr ''Undo is only supported for schema_version=1''), s)
     else if delta_before e = [] \<or> delta_after e = [] then (Inl (ValueErr ''Stored event does not contain deltas''), s)
     else let names = undo_fields e in
     case bindR (event_values (delta_before e) names) (\<lambda>before.
          bindR (event_values (delta_after e) names) (\<lambda>after.
          bindR (current_values c names) (\<lambda>current. Inr (before, after, current)))) of
        Inl err \<Rightarrow> (Inl err, s)
      | Inr (before, after, current) \<Rightarrow>
     let moved = filter (\<lambda>f. normalise_value (value_in current f) \<noteq> normalise_value (value_in after f)) names in
     if moved \<noteq> []
     then (Inl (HttpErr 412 ''Cannot undo change''),
           record_delta_rejection j who ''Undo delta mismatch'' (UndoMismatch moved (delta_after e) (json_values current))
             (EventAfter (delta_after e)) change (delta_checksum e) None ip s)
     else case compute_job_delta_checksum sha j current names of
        Inl err \<Rightarrow> (Inl err, s)
      | Inr code \<Rightarrow> update_job sha tags zone j (undo_envelope zone (board s) j change new who names current before code) who header ip s)"

end
