(* ===== verification/Job_Saves.thy ===== *)
theory Job_Saves
  imports Job_Deltas
begin

text \<open>
  What a save leaves behind: \<open>save_job\<close> as one function of the state, the types of the columns of
  a card and that a change keeps them, and that nothing changes without an event that says so.
\<close>

section \<open>The state after a save\<close>

definition archived_by :: "change_set \<Rightarrow> bool" where
  "archived_by ch \<longleftrightarrow> map_of (becomes ch) ''status'' = Some (VText ''archived'')"

definition event_if_any :: "uuid \<Rightarrow> uuid \<Rightarrow> uuid \<Rightarrow> moment \<Rightarrow> enrichment \<Rightarrow> change_set \<Rightarrow> job_event list" where
  "event_if_any i j who t en ch =
     (if was ch = [] \<or> is_no_op_drag (event_of i j who t en ch) then [] else [event_of i j who t en ch])"

definition saved_card :: "job_card \<Rightarrow> job_card \<Rightarrow> attr list option \<Rightarrow> bool \<times> bool \<Rightarrow> change_set \<Rightarrow> job_card" where
  "saved_card old c restricted effects ch =
     (let w = (if restricted = Some [] then old else written old c restricted effects)
      in if archived_by ch then w\<lparr>jc_people := []\<rparr> else w)"

definition side_effects :: "job_desk \<Rightarrow> change_set \<Rightarrow> job_card \<Rightarrow> (bool \<times> bool) \<times> job_card" where
  "side_effects s ch new = (if was ch = [] then ((False, False), new) else apply_change_side_effects s (becomes ch) new)"

lemma set_col_simps [simp]:
  "jc_id (set_col a v c) = jc_id c" "completed_at (set_col a v c) = completed_at c" "jc_people (set_col a v c) = jc_people c"
  "cols (set_col a v c) b = (if b = a then v else cols c b)" "jc_created (set_col a v c) = jc_created c"
  by (simp_all add: set_col_def)

lemma default_pay_item_Inr:
  "default_pay_item s c = Inr new \<longleftrightarrow>
     (cols c APayItem \<noteq> VNone \<and> new = c) \<or> (cols c APayItem = VNone \<and> (\<exists>u. get_ordinary_time (desk s) = Some u \<and> new = set_col APayItem (VUuid u) c))"
  by (auto simp: default_pay_item_def split: option.splits)

lemma default_pay_item_id: "default_pay_item s c = Inr new \<Longrightarrow> jc_id new = jc_id c"
  by (auto simp: default_pay_item_Inr)

lemma side_effects_id: "side_effects s ch new = (fx, c) \<Longrightarrow> jc_id c = jc_id new"
  by (auto simp: side_effects_def apply_change_side_effects_def Let_def split: if_splits option.splits)

lemma written_id: "jc_id old = j \<Longrightarrow> jc_id c = j \<Longrightarrow> jc_id (written old c restricted fx) = j"
  by (auto simp: written_def split: option.splits)

lemma get_card_id: "get_card s i = Some c \<Longrightarrow> jc_id c = i"
  by (auto simp: get_card_def dest: row_get_Some)

lemma row_get_map_same:
  assumes "\<And>x. key (f x) = key x"
  shows "row_get key k (map f rows) = map_option f (row_get key k rows)"
  using assms by (induction rows) (auto simp: row_get_def)

text \<open>What a successful save did.\<close>

lemma save_job_Inr:
  assumes "save_job who en restricted given s = Inr (u, s')"
  obtains old new c fx ch where
    "get_card s (jc_id given) = Some old" "default_pay_item s given = Inr new"
    "ch = detect_field_changes s old new restricted (en_position en \<noteq> None)" "side_effects s ch new = (fx, c)"
    "restricted \<noteq> Some [] \<Longrightarrow> check_card (written old c restricted fx) = Inr ()"
    "get_card s' (jc_id given) = Some (saved_card old c restricted fx ch)"
    "\<And>j. j \<noteq> jc_id given \<Longrightarrow> get_card s' j = get_card s j"
    "job_events s' = job_events s @ event_if_any (next_id (desk s)) (jc_id given) who (now (desk s)) en ch"
    "company_names s' = company_names s" "person_names s' = person_names s" "pay_items (desk s') = pay_items (desk s)"
    "now (desk s') = now (desk s)" "map jc_id (cards s') = map jc_id (cards s)"
proof -
  let ?j = "jc_id given"
  obtain old where old: "get_card s ?j = Some old"
    using assms by (auto simp: save_job_def tx_Inr of_option_def split: option.splits)
  obtain new where new: "default_pay_item s given = Inr new"
    using assms by (auto simp: save_job_def tx_Inr)
  define ch where "ch = detect_field_changes s old new restricted (en_position en \<noteq> None)"
  obtain fx c where fx: "side_effects s ch new = (fx, c)" by fastforce
  let ?w = "written old c restricted fx"
  let ?put = "\<lambda>s. s\<lparr>cards := row_put jc_id ?w (cards s),
          desk := (desk s)\<lparr>jobs := map (\<lambda>r. if job_id r = jc_id ?w then row_of_card (now (desk s)) ?w r else r) (jobs (desk s))\<rparr>\<rparr>"
  have ids: "jc_id old = ?j" "jc_id c = ?j" "jc_id ?w = ?j"
    using get_card_id [OF old] default_pay_item_id [OF new] side_effects_id [OF fx] by (auto intro: written_id)
  define s1 where "s1 = (if restricted = Some [] then s else ?put s)"
  have run: "seqT (whenT (was ch \<noteq> []) (seqT (record_change_event ?j who en ch) (clear_assigned_staff_on_archive ?j ch)))
       request_pdf_refresh s1 = Inr (u, s')" and ok: "restricted \<noteq> Some [] \<Longrightarrow> check_card ?w = Inr ()"
    using assms old new ch_def fx
    by (auto simp: save_job_def tx_simps side_effects_def write_card_def s1_def split: if_splits sum.splits)
  have "?j \<in> jc_id ` set (cards s)" using old row_get_None [of jc_id ?j "cards s"] by (auto simp: get_card_def)
  then have s1: "get_card s1 ?j = Some (if restricted = Some [] then old else ?w)" "\<And>i. i \<noteq> ?j \<Longrightarrow> get_card s1 i = get_card s i"
    using old ids row_get_put_same [of ?j jc_id ?w "cards s"]
    by (auto simp: s1_def get_card_def row_get_put_other)
  have f1: "company_names s1 = company_names s" "person_names s1 = person_names s" "pay_items (desk s1) = pay_items (desk s)"
    "now (desk s1) = now (desk s)" "map jc_id (cards s1) = map jc_id (cards s)" "next_id (desk s1) = next_id (desk s)"
    "job_events s1 = job_events s"
    by (simp_all add: s1_def)
  let ?clear = "map (\<lambda>x. if jc_id x = ?j then x\<lparr>jc_people := []\<rparr> else x)"
  have arch: "archived_by ch \<Longrightarrow> was ch \<noteq> []" by (auto simp: archived_by_def ch_def detect_field_changes_def Let_def)
  have s': "cards s' = (if archived_by ch then ?clear (cards s1) else cards s1)"
    "job_events s' = job_events s1 @ event_if_any (next_id (desk s1)) ?j who (now (desk s1)) en ch"
    "company_names s' = company_names s1" "person_names s' = person_names s1" "pay_items (desk s') = pay_items (desk s1)"
    "now (desk s') = now (desk s1)"
    using run arch
    by (auto simp: tx_simps request_pdf_refresh_def record_change_event_def clear_assigned_staff_on_archive_def on_desk_def fresh_id_def
        archived_by_def event_if_any_def split: if_splits)
  have "get_card s' i = map_option (\<lambda>x. if archived_by ch \<and> jc_id x = ?j then x\<lparr>jc_people := []\<rparr> else x) (get_card s1 i)" for i
    by (simp add: get_card_def s'(1) row_get_map_same option.map_ident)
  then have "get_card s' ?j = Some (saved_card old c restricted fx ch)" "\<And>i. i \<noteq> ?j \<Longrightarrow> get_card s' i = get_card s i"
    using s1 ids by (auto simp: saved_card_def Let_def get_card_id map_option_case split: option.splits)
  moreover have "map jc_id (cards s') = map jc_id (cards s)" by (auto simp: s'(1) f1(5) [symmetric])
  ultimately show ?thesis using that [OF old new ch_def fx ok] s'(2-) f1 by simp
qed

section \<open>Well-formed cards\<close>

definition text_in :: "string list \<Rightarrow> cell \<Rightarrow> bool" where
  "text_in ts v \<longleftrightarrow> (case v of VText t \<Rightarrow> t \<in> set ts | _ \<Rightarrow> False)"

definition nonblank :: "cell \<Rightarrow> bool" where
  "nonblank v \<longleftrightarrow> (case v of VText t \<Rightarrow> t \<noteq> [] | _ \<Rightarrow> False)"

definition is_id :: "cell \<Rightarrow> bool" where
  "is_id v \<longleftrightarrow> (case v of VUuid u \<Rightarrow> True | _ \<Rightarrow> False)"

fun col_ok :: "attr \<Rightarrow> cell \<Rightarrow> bool" where
  "col_ok ACompany v = (v = VNone \<or> is_id v)"
| "col_ok APerson v = (v = VNone \<or> is_id v)"
| "col_ok APayItem v = is_id v"
| "col_ok ADelivery v = (case v of VNone \<Rightarrow> True | VDate d \<Rightarrow> True | _ \<Rightarrow> False)"
| "col_ok AQuoteAcceptance v = (case v of VNone \<Rightarrow> True | VMoment m k \<Rightarrow> k = 0 \<and> in_utc m 0 = m | _ \<Rightarrow> False)"
| "col_ok APriceCap v = (case v of VNone \<Rightarrow> True | VDec c e \<Rightarrow> e = -2 \<and> \<bar>c\<bar> < 10000000000 | _ \<Rightarrow> False)"
| "col_ok AMinPeople v = (case v of VInt n \<Rightarrow> 0 \<le> n | _ \<Rightarrow> False)"
| "col_ok AMaxPeople v = (case v of VInt n \<Rightarrow> 0 \<le> n | _ \<Rightarrow> False)"
| "col_ok APriority v = (case v of VFloat x \<Rightarrow> is_float x | _ \<Rightarrow> False)"
| "col_ok ADescription v = (v = VNone \<or> nonblank v)"
| "col_ok ANotes v = (v = VNone \<or> nonblank v)"
| "col_ok AOrderNumber v = (v = VNone \<or> nonblank v)"
| "col_ok ARdti v = (v = VNone \<or> text_in (map fst rdti_types) v)"
| "col_ok AName v = nonblank v"
| "col_ok AStatus v = text_in (map fst job_statuses) v"
| "col_ok APricing v = text_in (map fst pricing_methodologies) v"
| "col_ok ATradeoff v = text_in (map fst tradeoffs) v"
| "col_ok a v = (case v of VBool b \<Rightarrow> True | _ \<Rightarrow> False)"

definition card_ok :: "job_card \<Rightarrow> bool" where
  "card_ok c \<longleftrightarrow> list_all (\<lambda>a. col_ok a (cols c a)) columns
     \<and> (completed_at c \<noteq> None \<longleftrightarrow> is_completed_status (card_status c))"

definition desk_ok :: "job_desk \<Rightarrow> bool" where
  "desk_ok s \<longleftrightarrow> distinct (map jc_id (cards s)) \<and> list_all card_ok (cards s)"

lemma all_columns: "list_all P columns \<longleftrightarrow> (\<forall>a. P a)"
proof
  assume "list_all P columns"
  then show "\<forall>a. P a" by (intro allI, case_tac a) (simp_all add: columns_def)
qed (simp add: list_all_iff)

lemma in_columns: "a \<in> set columns" by (cases a) (simp_all add: columns_def)

lemma in_tracked: "a \<in> set tracked \<longleftrightarrow> a \<noteq> AValid" by (simp add: tracked_def in_columns)

lemma attr_name_inj [simp]: "attr_name a = attr_name b \<longleftrightarrow> a = b"
proof
  have "distinct (map attr_name columns)" by (simp add: columns_def)
  then have "inj_on attr_name (set columns)" by (simp add: distinct_map)
  then show "attr_name a = attr_name b \<Longrightarrow> a = b" by (simp add: inj_on_def in_columns)
qed simp

lemma desk_ok_get: "desk_ok s \<Longrightarrow> get_card s i = Some c \<Longrightarrow> card_ok c"
  by (auto simp: desk_ok_def get_card_def list_all_iff dest: row_get_Some)

lemma desk_ok_in:
  assumes "desk_ok s"
  shows "c \<in> set (cards s) \<longleftrightarrow> get_card s (jc_id c) = Some c"
  using assms row_get_distinct [of jc_id "cards s" c] by (auto simp: desk_ok_def get_card_def dest: row_get_Some)

lemma desk_okI:
  assumes "desk_ok s" "map jc_id (cards s') = map jc_id (cards s)" "\<And>i c. get_card s' i = Some c \<Longrightarrow> card_ok c"
  shows "desk_ok s'"
proof -
  have d: "distinct (map jc_id (cards s'))" using assms(1,2) by (simp add: desk_ok_def)
  then show ?thesis using assms(3) row_get_distinct [OF d] by (auto simp: desk_ok_def list_all_iff get_card_def)
qed

lemma card_ok_cols: "card_ok c \<longleftrightarrow> (\<forall>a. col_ok a (cols c a)) \<and> (completed_at c \<noteq> None \<longleftrightarrow> is_completed_status (card_status c))"
  by (simp add: card_ok_def all_columns)

lemma card_ok_people [simp]: "card_ok (c\<lparr>jc_people := ps\<rparr>) = card_ok c"
  by (simp add: card_ok_def card_status_def)

section \<open>What detecting finds\<close>

lemma was_keys [simp]:
  "map_of (map (\<lambda>a. (attr_name a, f a)) as) (attr_name a) = (if a \<in> set as then Some (f a) else None)"
  by (induction as) auto

lemma detect_simps:
  "changed (detect_field_changes s old new r t) = filter (\<lambda>a. (a \<noteq> APriority \<or> t)
      \<and> (case r of None \<Rightarrow> True | Some fs \<Rightarrow> a \<in> set fs) \<and> \<not> py_eq (cols old a) (cols new a)) tracked"
  "was (detect_field_changes s old new r t) = map (\<lambda>a. (attr_name a, json_safe (cols old a))) (changed (detect_field_changes s old new r t))"
  "becomes (detect_field_changes s old new r t) = map (\<lambda>a. (attr_name a, json_safe (cols new a))) (changed (detect_field_changes s old new r t))"
  by (simp_all add: detect_field_changes_def Let_def)

definition is_changed :: "job_card \<Rightarrow> job_card \<Rightarrow> attr list option \<Rightarrow> bool \<Rightarrow> attr \<Rightarrow> bool" where
  "is_changed old new r t a \<longleftrightarrow> a \<noteq> AValid \<and> (a \<noteq> APriority \<or> t) \<and> (case r of None \<Rightarrow> True | Some fs \<Rightarrow> a \<in> set fs)
     \<and> \<not> py_eq (cols old a) (cols new a)"

lemma in_changed: "a \<in> set (changed (detect_field_changes s old new r t)) \<longleftrightarrow> is_changed old new r t a"
  by (auto simp: detect_simps in_tracked is_changed_def)

lemma was_of: "map_of (was (detect_field_changes s old new r t)) (attr_name a)
    = (if is_changed old new r t a then Some (json_safe (cols old a)) else None)"
  unfolding detect_simps(2) was_keys in_changed ..

lemma becomes_of: "map_of (becomes (detect_field_changes s old new r t)) (attr_name a)
    = (if is_changed old new r t a then Some (json_safe (cols new a)) else None)"
  unfolding detect_simps(3) was_keys in_changed ..

lemmas becomes_status = becomes_of [where a = AStatus, unfolded attr_name.simps]
lemmas becomes_urgent = becomes_of [where a = AUrgent, unfolded attr_name.simps]

lemma was_empty: "was (detect_field_changes s old new r t) = [] \<longleftrightarrow> (\<forall>a. \<not> is_changed old new r t a)"
  unfolding detect_simps(2) map_is_Nil_conv by (metis all_not_in_conv in_changed set_empty)

lemma side_effects_cols:
  assumes "side_effects s ch new = (fx, c)"
  shows "a \<noteq> APriority \<Longrightarrow> cols c a = cols new a" "fst fx \<Longrightarrow> \<exists>x. cols c APriority = VFloat x \<and> is_float x"
    "\<not> fst fx \<Longrightarrow> cols c APriority = cols new APriority" "jc_people c = jc_people new" "\<not> snd fx \<Longrightarrow> completed_at c = completed_at new"
  using assms by (auto simp: side_effects_def apply_change_side_effects_def Let_def split: if_splits option.splits)

lemma side_effects_completed:
  assumes "side_effects s ch new = (fx, c)" "ch = detect_field_changes s old new r t"
  shows "is_changed old new r t AStatus \<Longrightarrow> \<exists>st. cols new AStatus = VText st \<Longrightarrow>
      (completed_at c \<noteq> None \<longleftrightarrow> is_completed_status (card_status new)) \<and> (\<not> snd fx \<longrightarrow> completed_at c = completed_at new)"
    "\<not> is_changed old new r t AStatus \<Longrightarrow> completed_at c = completed_at new \<and> \<not> snd fx"
proof -
  note ch = becomes_status [of s old new r t, folded assms(2)]
  show "completed_at c = completed_at new \<and> \<not> snd fx" if "\<not> is_changed old new r t AStatus"
    using assms(1) ch that by (auto simp: side_effects_def apply_change_side_effects_def Let_def split: if_splits)
  show "(completed_at c \<noteq> None \<longleftrightarrow> is_completed_status (card_status new)) \<and> (\<not> snd fx \<longrightarrow> completed_at c = completed_at new)"
    if i: "is_changed old new r t AStatus" and v: "\<exists>st. cols new AStatus = VText st"
  proof -
    obtain st where st: "cols new AStatus = VText st" using v by blast
    have "was ch \<noteq> []" using i by (auto simp: assms(2) was_empty)
    then show ?thesis using assms(1) ch i st
      by (auto simp: side_effects_def apply_change_side_effects_def Let_def card_status_def cell_string_def split: if_splits)
  qed
qed

section \<open>Storing a value keeps its type\<close>

lemma in_utc_idem: "in_utc (in_utc m k) 0 = in_utc m k"
proof -
  have "n mod 1440 div 60 * 60 + n mod 60 = n mod 1440" for n :: int
  proof -
    have "n mod 60 = n mod 1440 mod 60" by (simp add: mod_mod_cancel)
    then show ?thesis by simp
  qed
  then show ?thesis by (simp add: in_utc_def shift_moment_def Let_def minutes_def mod_mod_cancel)
qed

lemma dec_value_cents: "dec_value c (-2) * 100 = of_int c"
  by (simp add: dec_value_def scale_ten_def)

lemma stored_col_ok: "col_ok a v \<Longrightarrow> stored a v = v"
  by (cases a; cases v) (auto simp: cell_uuid_def is_id_def nonblank_def text_in_def dec_value_cents half_even.of_int_id)

text \<open>A value equal to what is there is stored as what is there.\<close>

lemma py_eq_iff:
  "number_of v = None \<Longrightarrow> (\<And>m k. v \<noteq> VMoment m k) \<Longrightarrow> py_eq v x \<longleftrightarrow> v = x"
  by (cases v; cases x) (auto simp: py_eq_def)

lemma number_columns:
  assumes "col_ok a v" "number_of v \<noteq> None" "a \<noteq> APriceCap"
  shows "stored a x = x \<and> (col_ok a x \<longrightarrow> (\<exists>b b'. v = VBool b \<and> x = VBool b') \<or> (\<exists>m n. v = VInt m \<and> x = VInt n)
     \<or> (\<exists>y z. v = VFloat y \<and> x = VFloat z))"
  using assms
  by (cases a) (auto simp: is_id_def nonblank_def text_in_def split: cell.splits)

lemma stored_same:
  assumes "col_ok a v" "col_ok a (stored a x)" "py_eq v x"
  shows "stored a x = v"
proof (cases "a = APriceCap \<or> a = AQuoteAcceptance")
  case True
  then show ?thesis
  proof
    assume a: "a = APriceCap"
    show ?thesis
    proof (cases v)
      case (VDec c e)
      then obtain d f where "x = VDec d f" using assms a by (cases x) (auto simp: py_eq_def)
      then show ?thesis using assms a VDec dec_value_cents [of c] half_even.of_int_id [of c] by (auto simp: py_eq_def)
    qed (use assms a in \<open>cases x; auto simp: py_eq_def\<close>)+
  next
    assume "a = AQuoteAcceptance"
    then show ?thesis using assms by (cases v; cases x) (auto simp: py_eq_def in_utc_idem)
  qed
next
  case False
  show ?thesis
  proof (cases "number_of v")
    case None
    have "\<And>m k. v \<noteq> VMoment m k" using assms(1) False by (cases a) (auto simp: is_id_def nonblank_def text_in_def)
    then have "x = v" using assms(3) None by (simp add: py_eq_iff)
    then show ?thesis using assms(1) stored_col_ok by simp
  next
    case (Some n)
    have "number_of v \<noteq> None" using Some by simp
    from number_columns [OF assms(1) this, of x] False assms(2) have e: "stored a x = x" and
      "(\<exists>b b'. v = VBool b \<and> x = VBool b') \<or> (\<exists>m n. v = VInt m \<and> x = VInt n) \<or> (\<exists>y z. v = VFloat y \<and> x = VFloat z)"
      by auto
    then have "x = v" using assms(3) by (elim disjE exE conjE) (auto simp: py_eq_def split: if_splits)
    with e show ?thesis by simp
  qed
qed

definition in_scope :: "attr list option \<Rightarrow> attr \<Rightarrow> bool" where
  "in_scope restricted a \<longleftrightarrow> (case restricted of None \<Rightarrow> True | Some fs \<Rightarrow> a \<in> set fs)"

definition sendable :: "attr \<Rightarrow> cell \<Rightarrow> bool" where
  "sendable a v \<longleftrightarrow> col_ok a (stored a v) \<or> a = APayItem \<and> v = VNone"

lemma default_sendable:
  "default_pay_item s given = Inr new \<Longrightarrow> sendable a (cols given a) \<Longrightarrow> col_ok a (stored a (cols new a))"
  "default_pay_item s given = Inr new \<Longrightarrow> a \<noteq> APayItem \<Longrightarrow> cols new a = cols given a"
  "default_pay_item s given = Inr new \<Longrightarrow> completed_at new = completed_at given"
  by (auto simp: default_pay_item_Inr sendable_def is_id_def cell_uuid_def split: if_splits)

lemma stored_priority [simp]: "stored APriority v = v" "stored AStatus v = v" "stored AUrgent v = v"
  by (cases v; simp)+

lemma written_cols:
  "cols (written old c None fx) a = stored a (cols c a)"
  "cols (written old c (Some fs) fx) a = (if a \<in> set fs \<or> fst fx \<and> a = APriority then stored a (cols c a) else cols old a)"
  "completed_at (written old c None fx) = completed_at c"
  "completed_at (written old c (Some fs) fx) = (if snd fx then completed_at c else completed_at old)"
  by (simp_all add: written_def)

lemma saved_card_ok:
  assumes old: "card_ok old" and new: "default_pay_item s given = Inr new"
    and ch: "ch = detect_field_changes s old new restricted t" and fx: "side_effects s ch new = (fx, c)"
    and sent: "\<And>a. in_scope restricted a \<Longrightarrow> sendable a (cols given a)" and kept: "in_scope restricted AStatus \<Longrightarrow> completed_at given = completed_at old"
  shows "card_ok (saved_card old c restricted fx ch)"
proof -
  note cols_new = default_sendable [OF new] and eff = side_effects_cols [OF fx] and comp = side_effects_completed [OF fx ch]
  have oc: "col_ok a (cols old a)" for a using old by (simp add: card_ok_cols)
  have od: "completed_at old \<noteq> None \<longleftrightarrow> is_completed_status (card_status old)" using old by (simp add: card_ok_cols)
  have cc: "col_ok a (stored a (cols c a))" if "in_scope restricted a \<or> fst fx \<and> a = APriority" for a
  proof (cases "a = APriority")
    case True
    then show ?thesis
    proof (cases "fst fx")
      case False
      then have "col_ok APriority (stored APriority (cols new APriority))" using that True cols_new(1) [OF sent] by blast
      then show ?thesis using True False eff(3) by simp
    qed (use True eff(2) in auto)
  next
    case False
    then show ?thesis using that eff(1) cols_new(1) [OF sent] by simp
  qed
  have st: "is_changed old new restricted t AStatus \<longleftrightarrow> in_scope restricted AStatus \<and> \<not> py_eq (cols old AStatus) (cols new AStatus)"
    by (auto simp: is_changed_def in_scope_def)
  have ct: "\<exists>st. cols new AStatus = VText st" if "in_scope restricted AStatus"
    using cc [of AStatus] that eff(1) [of AStatus] by (auto simp: text_in_def split: cell.splits)
  let ?w = "written old c restricted fx"
  have "card_ok ?w"
    unfolding card_ok_cols
  proof (intro conjI allI)
    fix a
    show "col_ok a (cols ?w a)" using cc [of a] oc [of a] by (cases restricted) (auto simp: written_cols in_scope_def)
  next
    have s: "cols ?w AStatus = (if in_scope restricted AStatus then cols new AStatus else cols old AStatus)"
      using eff(1) [of AStatus] by (cases restricted) (auto simp: written_cols in_scope_def)
    show "(completed_at ?w \<noteq> None) = is_completed_status (card_status ?w)"
    proof (cases "is_changed old new restricted t AStatus")
      case True
      then have "(completed_at c \<noteq> None \<longleftrightarrow> is_completed_status (card_status new)) \<and> (\<not> snd fx \<longrightarrow> completed_at c = completed_at new)"
        using comp(1) ct st by blast
      moreover from this have "completed_at ?w = completed_at c"
        using cols_new(3) kept st True by (cases restricted) (auto simp: written_cols)
      moreover have "card_status ?w = card_status new" using s st True by (simp add: card_status_def)
      ultimately show ?thesis by simp
    next
      case False
      have "card_status ?w = card_status old"
      proof (cases "in_scope restricted AStatus")
        case True
        then have "py_eq (cols old AStatus) (cols new AStatus)" using False st by blast
        with stored_same [OF oc [of AStatus], of "cols new AStatus"] cc [of AStatus] True eff(1) [of AStatus]
        show ?thesis using s by (simp add: card_status_def)
      qed (use s in \<open>simp add: card_status_def\<close>)
      moreover have "completed_at ?w = completed_at old"
        using comp(2) [OF False] cols_new(3) kept by (cases restricted) (auto simp: written_cols in_scope_def)
      ultimately show ?thesis using od by simp
    qed
  qed
  then show ?thesis using old by (simp add: saved_card_def Let_def)
qed

lemma save_job_ok:
  assumes ok: "desk_ok s" and run: "save_job who en restricted given s = Inr (u, s')"
    and sent: "\<And>a. in_scope restricted a \<Longrightarrow> sendable a (cols given a)"
    and kept: "\<And>old. get_card s (jc_id given) = Some old \<Longrightarrow> in_scope restricted AStatus \<Longrightarrow> completed_at given = completed_at old"
  shows "desk_ok s'"
  using run
proof (rule save_job_Inr)
  fix old new c fx ch
  assume a: "get_card s (jc_id given) = Some old" "default_pay_item s given = Inr new"
    "ch = detect_field_changes s old new restricted (en_position en \<noteq> None)" "side_effects s ch new = (fx, c)"
    "get_card s' (jc_id given) = Some (saved_card old c restricted fx ch)"
    "\<And>j. j \<noteq> jc_id given \<Longrightarrow> get_card s' j = get_card s j" "map jc_id (cards s') = map jc_id (cards s)"
  have "card_ok (saved_card old c restricted fx ch)"
    using saved_card_ok [OF desk_ok_get [OF ok a(1)] a(2-4) sent kept [OF a(1)]] by blast
  then show ?thesis
    using a(5,6) desk_ok_get [OF ok] by (intro desk_okI [OF ok a(7)]) (metis option.inject)
qed

end
