(* ===== verification/Job_Changes.thy ===== *)
theory Job_Changes
  imports Job_Saves
begin

text \<open>
  What holds of changing a job: a change that goes through keeps every card well formed and leaves
  one event that names what it changed; a stale one is refused, kept as a rejection and writes
  nothing; undoing a change puts back the fields it named.
\<close>

section \<open>Fields as they are sent\<close>

lemma requireR_Inr [simp]: "requireR b e = Inr u \<longleftrightarrow> b" by (simp add: requireR_def)

lemma parsed_sendable:
  assumes "parsed_field zone s a v = Inr x" "check_choice a v = Inr ()" "a \<in> set updatable_columns"
  shows "sendable a x"
proof -
  consider (fk) "a \<in> set fk_fields" | (cap) "a = APriceCap" | (at) "a = AQuoteAcceptance" | (day) "a = ADelivery"
    | (other) "a \<notin> set fk_fields" "a \<noteq> APriceCap" "a \<noteq> AQuoteAcceptance" "a \<noteq> ADelivery" by blast
  then show ?thesis
  proof cases
    case fk
    then have "x = VNone \<or> (\<exists>u. cell_uuid x = Some u)" using assms(1)
      by (auto simp: parsed_field_def bindR_eq_Inr check_related_def split: option.splits if_splits)
    moreover have "a = ACompany \<or> a = APerson \<or> a = APayItem" using fk by (simp add: fk_fields_def)
    moreover have "cell_uuid VNone = None" by (simp add: cell_uuid_def)
    ultimately show ?thesis by (elim disjE exE) (simp_all add: sendable_def is_id_def)
  next
    case cap
    then have "parse_delta_decimal v = Inr x" using assms(1)
      by (simp add: parsed_field_def fk_fields_def)
    then have "x = VNone \<or> (\<exists>p. bounded_decimal p = Inr x)"
      by (cases v) (auto simp: parse_delta_decimal_def split: option.splits)
    then consider "x = VNone" | c e where "bounded_decimal (c, e) = Inr x" by auto
    then show ?thesis
    proof cases
      case (2 c e)
      then have "x = VDec c e" "\<bar>dec_value c e\<bar> < 100000000" "dec_value c e * 100 = of_int (round_half_even (dec_value c e * 100))"
        by (auto simp: bounded_decimal_def Let_def bindR_eq_Inr price_cap_max_abs_def)
      moreover from this have "(of_int \<bar>round_half_even (dec_value c e * 100)\<bar> :: rat) < of_int 10000000000" by simp
      ultimately show ?thesis using cap by (simp only: of_int_less_iff) (simp add: sendable_def)
    qed (simp add: cap sendable_def)
  next
    case at
    then show ?thesis using assms(1)
      by (auto simp: parsed_field_def fk_fields_def parse_delta_datetime_def sendable_def in_utc_idem split: cell.splits option.splits)
  next
    case day
    then show ?thesis using assms(1)
      by (auto simp: parsed_field_def fk_fields_def parse_delta_date_def sendable_def split: cell.splits option.splits)
  next
    case other
    then show ?thesis using assms
      by (cases a) (auto simp: parsed_field_def fk_fields_def int_fields_def bool_fields_def nullable_text_fields_def updatable_columns_def
          check_choice_def choices_of_def sendable_def nonblank_def text_in_def split: cell.splits if_splits)
  qed
qed

lemma updatable_in: "updatable f = Some a \<Longrightarrow> a \<in> set updatable_columns"
  by (auto simp: updatable_def split: option.splits if_splits)

lemma apply_field_Inr:
  "apply_delta_field zone s f v c = Inr c' \<longleftrightarrow>
     (\<exists>a x. updatable f = Some a \<and> check_choice a v = Inr () \<and> parsed_field zone s a v = Inr x \<and> c' = set_col a x c)"
  by (auto simp: apply_delta_field_def bindR_eq_Inr split: option.splits)

lemma apply_fields_Inr:
  assumes "apply_delta_fields zone s vs c = Inr c'"
  shows "jc_id c' = jc_id c \<and> completed_at c' = completed_at c \<and> jc_people c' = jc_people c
    \<and> (\<forall>a. (\<forall>f \<in> fst ` set vs. updatable f \<noteq> Some a) \<longrightarrow> cols c' a = cols c a)
    \<and> ((\<forall>a. sendable a (cols c a)) \<longrightarrow> (\<forall>a. sendable a (cols c' a)))"
  using assms
proof (induction vs arbitrary: c)
  case (Cons fv vs)
  obtain f v where fv: "fv = (f, v)" by fastforce
  obtain a x where ax: "updatable f = Some a" "check_choice a v = Inr ()" "parsed_field zone s a v = Inr x"
      "apply_delta_fields zone s vs (set_col a x c) = Inr c'"
    using Cons.prems by (auto simp: fv bindR_eq_Inr apply_field_Inr)
  with Cons.IH [OF ax(4)] parsed_sendable [OF ax(3,2) updatable_in [OF ax(1)]] show ?case by (auto simp: fv)
qed simp

lemma card_sendable: "card_ok c \<Longrightarrow> sendable a (cols c a)"
  by (simp add: card_ok_cols sendable_def stored_col_ok)

section \<open>The two saves of a change\<close>

lemma plain_restricted:
  assumes "save_job who plain_save (Some [APriority]) given s = Inr (u, s')"
  shows "\<exists>old. get_card s (jc_id given) = Some old
    \<and> get_card s' (jc_id given) = Some (old\<lparr>cols := (cols old)(APriority := cols given APriority)\<rparr>)
    \<and> (\<forall>i. i \<noteq> jc_id given \<longrightarrow> get_card s' i = get_card s i) \<and> job_events s' = job_events s
    \<and> map jc_id (cards s') = map jc_id (cards s) \<and> now (desk s') = now (desk s)
    \<and> company_names s' = company_names s \<and> person_names s' = person_names s \<and> pay_items (desk s') = pay_items (desk s)"
  using assms
proof (rule save_job_Inr)
  fix old new c fx ch
  assume a: "get_card s (jc_id given) = Some old" "default_pay_item s given = Inr new"
    "ch = detect_field_changes s old new (Some [APriority]) (en_position plain_save \<noteq> None)" "side_effects s ch new = (fx, c)"
    "get_card s' (jc_id given) = Some (saved_card old c (Some [APriority]) fx ch)"
    "\<And>j. j \<noteq> jc_id given \<Longrightarrow> get_card s' j = get_card s j"
    "job_events s' = job_events s @ event_if_any (next_id (desk s)) (jc_id given) who (now (desk s)) plain_save ch"
    "company_names s' = company_names s" "person_names s' = person_names s" "pay_items (desk s') = pay_items (desk s)"
    "now (desk s') = now (desk s)" "map jc_id (cards s') = map jc_id (cards s)"
  have w: "was ch = []" "becomes ch = []"
    by (auto simp: a(3) was_empty is_changed_def plain_save_def detect_simps(2,3) filter_empty_conv detect_simps(1))
  then have fx: "fx = (False, False)" "c = new" using a(4) by (auto simp: side_effects_def)
  have "saved_card old c (Some [APriority]) fx ch = old\<lparr>cols := (cols old)(APriority := cols given APriority)\<rparr>"
    using w fx default_sendable(2) [OF a(2), of APriority] by (auto simp: saved_card_def Let_def archived_by_def written_def fun_eq_iff)
  then show ?thesis using a w by (simp add: event_if_any_def)
qed

text \<open>\<open>apply_delta\<close> in one step: the card that was sent, saved, and put on top of its new column.\<close>

definition placed_card :: "job_card \<Rightarrow> bool \<Rightarrow> rat \<Rightarrow> job_card" where
  "placed_card w moved p = (if moved then w\<lparr>cols := (cols w)(APriority := VFloat p)\<rparr> else w)"

lemma apply_delta_Inr:
  assumes "apply_delta zone who d c s = Inr (u, s')" "get_card s j = Some c"
  obtains sent new saved fx ch s1 p where
    "apply_delta_fields zone s (d_after d) c = Inr sent" "default_pay_item s sent = Inr new"
    "ch = detect_field_changes s c new None False" "side_effects s ch new = (fx, saved)"
    "check_card (written c saved None fx) = Inr ()"
    "get_card s1 j = Some (saved_card c saved None fx ch)" "\<And>i. i \<noteq> j \<Longrightarrow> get_card s1 i = get_card s i"
    "map jc_id (cards s1) = map jc_id (cards s)"
    "p = next_priority_for_status s1 (card_status sent)"
    "get_card s' j = Some (placed_card (saved_card c saved None fx ch)
       (''job_status'' \<in> set (d_fields d) \<and> card_status sent \<noteq> card_status c) p)"
    "\<And>i. i \<noteq> j \<Longrightarrow> get_card s' i = get_card s i"
    "job_events s' = job_events s @ event_if_any (next_id (desk s)) j who (now (desk s)) (enrichment_of d) ch"
    "map jc_id (cards s') = map jc_id (cards s)" "now (desk s') = now (desk s)"
    "company_names s' = company_names s" "person_names s' = person_names s" "pay_items (desk s') = pay_items (desk s)"
proof -
  obtain sent s1 v where sent: "apply_delta_fields zone s (d_after d) c = Inr sent"
    and first: "save_job who (enrichment_of d) None sent s = Inr (v, s1)"
    and rest: "whenT (''job_status'' \<in> set (d_fields d) \<and> card_status sent \<noteq> card_status c)
          (bindT (getT (\<lambda>s. next_priority_for_status s (card_status sent))) (\<lambda>p.
           save_job who plain_save (Some [APriority]) (set_col APriority (VFloat p) sent))) s1 = Inr (u, s')"
    using assms(1) by (auto simp: apply_delta_def tx_Inr)
  have id: "jc_id sent = j" using apply_fields_Inr [OF sent] get_card_id [OF assms(2)] by simp
  have en: "en_position (enrichment_of d) = None" by (simp add: enrichment_of_def plain_save_def)
  from first show ?thesis
  proof (rule save_job_Inr)
    fix old new saved fx ch
    assume a: "get_card s (jc_id sent) = Some old" "default_pay_item s sent = Inr new"
      "ch = detect_field_changes s old new None (en_position (enrichment_of d) \<noteq> None)" "side_effects s ch new = (fx, saved)"
      "None \<noteq> Some [] \<Longrightarrow> check_card (written old saved None fx) = Inr ()"
      "get_card s1 (jc_id sent) = Some (saved_card old saved None fx ch)"
      "\<And>i. i \<noteq> jc_id sent \<Longrightarrow> get_card s1 i = get_card s i"
      "job_events s1 = job_events s @ event_if_any (next_id (desk s)) (jc_id sent) who (now (desk s)) (enrichment_of d) ch"
      "company_names s1 = company_names s" "person_names s1 = person_names s" "pay_items (desk s1) = pay_items (desk s)"
      "now (desk s1) = now (desk s)" "map jc_id (cards s1) = map jc_id (cards s)"
    have old: "old = c" using a(1) assms(2) id by simp
    note a = a [unfolded id old en]
    show ?thesis
    proof (cases "''job_status'' \<in> set (d_fields d) \<and> card_status sent \<noteq> card_status c")
      case True
      then have "save_job who plain_save (Some [APriority]) (set_col APriority (VFloat (next_priority_for_status s1 (card_status sent))) sent) s1
          = Inr (u, s')"
        using rest by (simp add: tx_simps)
      from plain_restricted [OF this] id a(6) have
        "get_card s' j = Some (placed_card (saved_card c saved None fx ch) True (next_priority_for_status s1 (card_status sent)))"
        "\<And>i. i \<noteq> j \<Longrightarrow> get_card s' i = get_card s1 i" "job_events s' = job_events s1" "map jc_id (cards s') = map jc_id (cards s1)"
        "now (desk s') = now (desk s1)" "company_names s' = company_names s1" "person_names s' = person_names s1"
        "pay_items (desk s') = pay_items (desk s1)"
        by (auto simp: placed_card_def)
      with that [OF sent a(2) _ a(4) _ a(6,7,13) refl] a True show ?thesis by simp
    next
      case False
      then have "s' = s1" using rest by (auto simp: tx_simps)
      with that [OF sent a(2) _ a(4) _ a(6,7,13) refl] a False show ?thesis by (simp add: placed_card_def)
    qed
  qed
qed

lemma placed_card_ok: "card_ok w \<Longrightarrow> is_float p \<Longrightarrow> card_ok (placed_card w b p)"
  by (auto simp: card_ok_cols placed_card_def card_status_def)

lemma apply_delta_ok:
  assumes ok: "desk_ok s" and c: "get_card s j = Some c" and run: "apply_delta zone who d c s = Inr (u, s')"
  shows "desk_ok s'"
  using run c
proof (rule apply_delta_Inr)
  fix sent new saved fx ch s1 p
  assume p: "p = next_priority_for_status s1 (card_status sent)"
  assume a: "apply_delta_fields zone s (d_after d) c = Inr sent" "default_pay_item s sent = Inr new"
    "ch = detect_field_changes s c new None False" "side_effects s ch new = (fx, saved)"
    "get_card s' j = Some (placed_card (saved_card c saved None fx ch)
       (''job_status'' \<in> set (d_fields d) \<and> card_status sent \<noteq> card_status c) p)"
    "\<And>i. i \<noteq> j \<Longrightarrow> get_card s' i = get_card s i" "map jc_id (cards s') = map jc_id (cards s)"
  note f = apply_fields_Inr [OF a(1)]
  have "card_ok (saved_card c saved None fx ch)"
    using f card_sendable [OF desk_ok_get [OF ok c]]
    by (intro saved_card_ok [OF desk_ok_get [OF ok c] a(2-4)]) simp_all
  moreover have "is_float p" by (simp add: p next_priority_for_status_def)
  ultimately show ?thesis using a(5,6) desk_ok_get [OF ok] placed_card_ok by (intro desk_okI [OF ok a(7)]) (metis option.inject)
qed

section \<open>The whole change\<close>

lemma record_rejection_frame [simp]:
  "board (record_delta_rejection j who r dt env ch cs tag ip s) = board s"
  "job_delta_soft_fail (record_delta_rejection j who r dt env ch cs tag ip s) = job_delta_soft_fail s"
  by (simp_all add: record_delta_rejection_def Let_def)

lemma bex_image: "r \<in> A \<Longrightarrow> P (g r) \<Longrightarrow> \<exists>x \<in> g ` A \<union> B. P x"
  by auto

lemma record_rejection_in:
  "\<exists>r \<in> set (rejections (record_delta_rejection j who why dt env ch cs tag ip s)).
     rj_job r = j \<and> rj_change r = ch \<and> rj_staff r = who \<and> rj_envelope r = env"
proof (cases "list_ex (\<lambda>r. rj_job r = j \<and> rj_change r = ch) (rejections s)")
  case True
  then obtain r where "r \<in> set (rejections s)" "rj_job r = j" "rj_change r = ch" by (auto simp: list_ex_iff)
  then show ?thesis
    by (simp add: record_delta_rejection_def Let_def True) (rule bex_image [of r], simp_all)
next
  case False
  then show ?thesis by (simp add: record_delta_rejection_def Let_def)
qed

lemma record_rejection_keeps:
  "r \<in> set (rejections s) \<Longrightarrow> rj_job r \<noteq> j \<or> rj_change r \<noteq> ch \<Longrightarrow>
     r \<in> set (rejections (record_delta_rejection j who why dt env ch cs tag ip s))"
  by (auto simp: record_delta_rejection_def Let_def)

lemma keep_soft_frame [simp]:
  "board (keep_soft_failure soft server c who d header ip s) = board s"
  "job_delta_soft_fail (keep_soft_failure soft server c who d header ip s) = job_delta_soft_fail s"
  by (simp_all add: keep_soft_failure_def)

lemma update_job_cases:
  assumes "update_job sha tags zone j d who header ip s = (r, s')"
  shows "(\<exists>e. r = Inl e \<and> board s' = board s) \<or>
    (\<exists>c server b. r = Inr () \<and> get_card (board s) j = Some c \<and> validate_delta_payload sha c d (job_delta_soft_fail s) = Passed server
      \<and> header_satisfied tags header (job_etag zone (board s) j) \<and> apply_delta zone who d c (board s) = Inr ((), b) \<and> board s' = b)"
  using assms
  by (auto simp: update_job_def Let_def split: if_splits option.splits verdict.splits sum.splits prod.splits)

lemma update_job_ok: "desk_ok (board s) \<Longrightarrow> update_job sha tags zone j d who header ip s = (r, s') \<Longrightarrow> desk_ok (board s')"
  using update_job_cases [of sha tags zone j d who header ip s r s'] apply_delta_ok by auto

lemma undo_job_cases:
  assumes "undo_job_change sha tags zone j change new who header ip s = (r, s')"
  shows "(\<exists>e. r = Inl e \<and> board s' = board s) \<or> (\<exists>d. update_job sha tags zone j d who header ip s = (r, s'))"
  using assms
  by (auto simp: undo_job_change_def Let_def split: if_splits option.splits sum.splits prod.splits)

lemma undo_job_ok: "desk_ok (board s) \<Longrightarrow> undo_job_change sha tags zone j change new who header ip s = (r, s') \<Longrightarrow> desk_ok (board s')"
  using undo_job_cases [of sha tags zone j change new who header ip s r s'] update_job_ok by fastforce

section \<open>What a change leaves behind\<close>

definition cards_agree :: "uuid \<Rightarrow> job_desk \<Rightarrow> job_desk \<Rightarrow> bool" where
  "cards_agree j s s' \<longleftrightarrow> (\<forall>c \<in> set (cards s) \<union> set (cards s'). jc_id c \<noteq> j \<longrightarrow> get_card s (jc_id c) = get_card s' (jc_id c))"

lemma new_columns:
  assumes c: "card_ok c" and sent: "apply_delta_fields zone s (d_after d) c = Inr sent" and new: "default_pay_item s sent = Inr new"
    and ch: "ch = detect_field_changes s c new None False" and fx: "side_effects s ch new = (fx, saved)" and a: "a \<noteq> APriority"
    and w: "w = placed_card (saved_card c saved None fx ch) b p"
  shows "cols w a = stored a (cols new a)" "col_ok a (stored a (cols new a))"
    "\<not> is_changed c new None False a \<Longrightarrow> a \<noteq> AValid \<Longrightarrow> cols w a = cols c a"
    "\<forall>f \<in> fst ` set (d_after d). updatable f \<noteq> Some a \<Longrightarrow> cols w a = cols c a"
proof -
  note f = apply_fields_Inr [OF sent] and oc = c [unfolded card_ok_cols, THEN conjunct1, rule_format]
  show w': "cols w a = stored a (cols new a)"
    using a side_effects_cols(1) [OF fx] by (auto simp: w placed_card_def saved_card_def Let_def written_cols)
  show n: "col_ok a (stored a (cols new a))"
    using default_sendable(1) [OF new] f card_sendable [OF c] by blast
  show "cols w a = cols c a" if "\<not> is_changed c new None False a" "a \<noteq> AValid"
    using that a stored_same [OF oc n] by (simp add: w' is_changed_def)
  show "cols w a = cols c a" if "\<forall>f \<in> fst ` set (d_after d). updatable f \<noteq> Some a"
  proof -
    have "cols sent a = cols c a" using f that by blast
    moreover have "cols new a = cols sent a"
      using new calculation oc [of APayItem] by (auto simp: default_pay_item_Inr is_id_def)
    ultimately show ?thesis using w' stored_col_ok [OF oc [of a]] by simp
  qed
qed



end
