(* ===== verification/Job_Undo.thy ===== *)
theory Job_Undo
  imports Job_Changes
begin

text \<open>
  Undoing a change to a job: the event of the change holds what is needed to read every field it
  named back into its column, so the reversing envelope goes through and the fields are as they were.
\<close>

section \<open>Saving goes through\<close>

definition check_columns :: "(attr \<Rightarrow> cell) \<Rightarrow> bool" where
  "check_columns f \<longleftrightarrow> f ADescription \<noteq> VText [] \<and> f ANotes \<noteq> VText [] \<and> f AOrderNumber \<noteq> VText [] \<and> f ARdti \<noteq> VText []
     \<and> cell_string (f AStatus) \<in> set (map fst job_statuses) \<and> max_length 100 (f AName) \<and> max_length 100 (f AOrderNumber)
     \<and> fits_integer (f AMinPeople) \<and> fits_integer (f AMaxPeople)"

lemma check_card_columns: "check_card c = Inr () \<longleftrightarrow> check_columns (cols c)"
  by (auto simp: check_card_def check_columns_def bindR_eq_Inr card_status_def)

text \<open>Each check looks at one column, so it passes on columns taken from rows that pass.\<close>

lemma check_mixed:
  assumes "check_columns f" "check_columns g" "\<And>a. a \<noteq> APriority \<Longrightarrow> h a = f a \<or> h a = g a"
  shows "check_columns h"
proof -
  have m: "P (f a) \<Longrightarrow> P (g a) \<Longrightarrow> a \<noteq> APriority \<Longrightarrow> P (h a)" for P a using assms(3) by metis
  show ?thesis
    using assms(1,2) m [of "\<lambda>v. v \<noteq> VText []" ADescription] m [of "\<lambda>v. v \<noteq> VText []" ANotes] m [of "\<lambda>v. v \<noteq> VText []" AOrderNumber]
      m [of "\<lambda>v. v \<noteq> VText []" ARdti] m [of "\<lambda>v. cell_string v \<in> set (map fst job_statuses)" AStatus] m [of "max_length 100" AName]
      m [of "max_length 100" AOrderNumber] m [of fits_integer AMinPeople] m [of fits_integer AMaxPeople]
    unfolding check_columns_def by simp
qed

lemma event_goes_through:
  "\<forall>s. \<exists>s'. seqT (whenT b (seqT (record_change_event j who en ch) (clear_assigned_staff_on_archive j ch))) request_pdf_refresh s = Inr ((), s')"
  by (simp add: tx_simps request_pdf_refresh_def record_change_event_def clear_assigned_staff_on_archive_def on_desk_def fresh_id_def)

lemma save_job_succeeds:
  assumes "get_card s (jc_id given) = Some old" "cols given APayItem \<noteq> VNone"
    and "\<And>fx c. side_effects s (detect_field_changes s old given restricted (en_position en \<noteq> None)) given = (fx, c) \<Longrightarrow>
      check_card (written old c restricted fx) = Inr ()"
  shows "\<exists>s'. save_job who en restricted given s = Inr ((), s')"
proof -
  obtain fx c where fx: "side_effects s (detect_field_changes s old given restricted (en_position en \<noteq> None)) given = (fx, c)" by fastforce
  have "\<exists>s1. whenT (restricted \<noteq> Some []) (write_card (written old c restricted fx)) s = Inr ((), s1)"
    using assms(3) [OF fx] by (simp add: tx_simps write_card_def)
  then obtain s1 where s1: "whenT (restricted \<noteq> Some []) (write_card (written old c restricted fx)) s = Inr ((), s1)" by blast
  let ?ch = "detect_field_changes s old given restricted (en_position en \<noteq> None)"
  let ?rest = "seqT (whenT (was ?ch \<noteq> []) (seqT (record_change_event (jc_id given) who en ?ch) (clear_assigned_staff_on_archive (jc_id given) ?ch)))
    request_pdf_refresh"
  obtain s2 where "?rest s1 = Inr ((), s2)" using event_goes_through by blast
  then have "seqT (whenT (restricted \<noteq> Some []) (write_card (written old c restricted fx))) ?rest s = Inr ((), s2)"
    unfolding seqT_run [of "whenT (restricted \<noteq> Some []) (write_card (written old c restricted fx))"] s1 by simp
  then show ?thesis
    using assms(1,2) fx by (simp add: save_job_def bindT_run readT_run getT_run default_pay_item_def side_effects_def)
qed

lemma apply_delta_succeeds:
  assumes c: "get_card s j = Some c" and sent: "apply_delta_fields zone s (d_after d) c = Inr sent"
    and pay: "cols sent APayItem \<noteq> VNone" and ok: "check_columns (\<lambda>a. stored a (cols sent a))"
  shows "\<exists>s'. apply_delta zone who d c s = Inr ((), s')"
proof -
  have id: "jc_id sent = j" using apply_fields_Inr [OF sent] get_card_id [OF c] by simp
  have "\<exists>s1. save_job who (enrichment_of d) None sent s = Inr ((), s1)"
  proof (rule save_job_succeeds)
    fix fx w
    assume "side_effects s (detect_field_changes s c sent None (en_position (enrichment_of d) \<noteq> None)) sent = (fx, w)"
    from side_effects_cols(1) [OF this] show "check_card (written c w None fx) = Inr ()"
      unfolding check_card_columns by (intro check_mixed [OF ok ok]) (simp add: written_cols)
  qed (use c id pay in simp_all)
  then obtain s1 where s1: "save_job who (enrichment_of d) None sent s = Inr ((), s1)" by blast
  have "\<exists>s2. save_job who plain_save (Some [APriority]) (set_col APriority (VFloat p) sent) s1 = Inr ((), s2)" for p
    using s1
  proof (rule save_job_Inr)
    fix old new saved fx ch
    assume a: "get_card s (jc_id sent) = Some old" "None \<noteq> Some [] \<Longrightarrow> check_card (written old saved None fx) = Inr ()"
      "get_card s1 (jc_id sent) = Some (saved_card old saved None fx ch)"
    have "check_columns (cols (saved_card old saved None fx ch))"
      using a(2) by (auto simp: check_card_columns saved_card_def Let_def)
    then show ?thesis
      using a(3) pay by (intro save_job_succeeds [where old = "saved_card old saved None fx ch"])
        (auto simp: check_card_columns written_cols intro: check_mixed)
  qed
  then show ?thesis using s1 sent by (fastforce simp: apply_delta_def tx_simps)
qed

section \<open>Reading back what an event holds\<close>

definition has_text :: "cell \<Rightarrow> bool" where
  "has_text v \<longleftrightarrow> (case v of VDate d \<Rightarrow> dates_have_text d | _ \<Rightarrow> True)"

definition related_ok :: "job_desk \<Rightarrow> (attr \<Rightarrow> cell) \<Rightarrow> bool" where
  "related_ok s f \<longleftrightarrow> list_all (\<lambda>a. case f a of VUuid u \<Rightarrow> u \<in> set (related_ids s a) | _ \<Rightarrow> True) fk_fields"

definition restorable :: "attr list" where
  "restorable = filter (\<lambda>a. a \<noteq> APriceCap \<and> a \<noteq> AQuoteAcceptance) updatable_columns"

lemma reparse:
  assumes "col_ok a v" "a \<in> set restorable" "has_text v" "related_ok s f" "f a = v"
  shows "check_choice a (json_safe v) = Inr () \<and> (\<exists>x. parsed_field zone s a (json_safe v) = Inr x \<and> stored a x = v \<and> (a = APayItem \<longrightarrow> x \<noteq> VNone))"
proof -
  consider (fk) "a \<in> set fk_fields" | (day) "a = ADelivery" | (other) "a \<notin> set fk_fields" "a \<noteq> ADelivery" by blast
  then show ?thesis
  proof cases
    case fk
    have r: "u \<in> set (related_ids s a)" if "v = VUuid u" for u
      using assms(4,5) fk that by (auto simp: related_ok_def list_all_iff)
    have "v = VNone \<and> a \<noteq> APayItem \<or> (\<exists>u. v = VUuid u)" using assms(1) fk by (auto simp: fk_fields_def is_id_def split: cell.splits)
    then show ?thesis
    proof (elim disjE exE conjE)
      fix u assume "v = VUuid u"
      then show ?thesis using fk r
        by (auto simp: parsed_field_def check_related_def cell_uuid_def check_choice_def choices_of_def fk_fields_def)
    qed (use fk in \<open>auto simp: parsed_field_def check_related_def cell_uuid_def check_choice_def choices_of_def fk_fields_def\<close>)
  next
    case day
    then show ?thesis using assms(1,3)
      by (cases v) (auto simp: parsed_field_def parse_delta_date_def check_choice_def choices_of_def fk_fields_def has_text_def parse_date_iso)
  next
    case other
    then show ?thesis using assms(1,2)
      by (cases a) (auto simp: restorable_def updatable_columns_def fk_fields_def parsed_field_def int_fields_def bool_fields_def
          nullable_text_fields_def check_choice_def choices_of_def nonblank_def text_in_def job_statuses_def rdti_types_def
          pricing_methodologies_def tradeoffs_def split: cell.splits)
  qed
qed

text \<open>The canonical text of what is stored is that of what the event says.\<close>

definition canonical :: "attr \<Rightarrow> cell \<Rightarrow> bool" where
  "canonical a v \<longleftrightarrow> a \<notin> set fk_fields \<or> (case v of VNone \<Rightarrow> True | VUuid u \<Rightarrow> True
     | VText t \<Rightarrow> (case digits_value t 0 of Some u \<Rightarrow> t = show_digits u | None \<Rightarrow> False) | _ \<Rightarrow> False)"

lemma int_text_id: "normalise_value (VInt n) = int_text n" by simp

lemma normalise_stored:
  assumes "col_ok a (stored a v)" "a \<in> set restorable" "canonical a v" "has_text (stored a v)"
  shows "normalise_value (json_safe v) = normalise_value (stored a v)"
proof -
  consider (fk) "a \<in> set fk_fields" | (day) "a = ADelivery" | (other) "a \<notin> set fk_fields" "a \<noteq> ADelivery" by blast
  then show ?thesis
  proof cases
    case fk
    then show ?thesis using assms(3)
      by (cases v) (auto simp: canonical_def fk_fields_def cell_uuid_def split: option.splits)
  next
    case day
    then show ?thesis using assms(1,4) by (cases v) (auto simp: has_text_def strip_date_iso)
  next
    case other
    then have "stored a v = v" using assms(2) by (cases a) (auto simp: restorable_def fk_fields_def)
    moreover have "json_safe v = v" using assms(1,2) other calculation
      by (cases a) (auto simp: restorable_def updatable_columns_def fk_fields_def int_fields_def bool_fields_def nullable_text_fields_def
          nonblank_def text_in_def split: cell.splits)
    ultimately show ?thesis by simp
  qed
qed

section \<open>Names of fields\<close>

definition column_of :: "string \<Rightarrow> attr" where
  "column_of f = the (field_attr f)"

lemma updatable_names:
  assumes "updatable f = Some a"
  shows "column_of f = a" "field_attr f = Some a" "attribute_text f = attr_name a" "wire_text (attr_name a) = f" "a \<in> set updatable_columns"
proof -
  have fa: "field_attr f = Some a" and up: "a \<in> set updatable_columns" and n: "f \<noteq> ''status''"
    using assms by (auto simp: updatable_def split: option.splits if_splits)
  have eq: "f = ''job_status'' \<and> a = AStatus \<or> f \<noteq> ''job_status'' \<and> attr_name a = f"
    using fa by (auto simp: field_attr_def find_Some_iff split: if_splits)
  show "column_of f = a" using fa by (simp add: column_of_def)
  show "field_attr f = Some a" by (rule fa)
  show "a \<in> set updatable_columns" by (rule up)
  show "attribute_text f = attr_name a" "wire_text (attr_name a) = f" using eq n by (auto simp: attribute_text_def wire_text_def)
qed

lemma applied_updatable: "apply_delta_fields zone s vs c = Inr c' \<Longrightarrow> f \<in> fst ` set vs \<Longrightarrow> updatable f \<noteq> None"
proof (induction vs arbitrary: c)
  case (Cons gv vs)
  obtain g v where gv: "gv = (g, v)" by fastforce
  obtain b x where bx: "updatable g = Some b" "apply_delta_fields zone s vs (set_col b x c) = Inr c'"
    using Cons.prems(1) by (auto simp: gv bindR_eq_Inr apply_field_Inr)
  show ?case using Cons.IH [OF bx(2)] Cons.prems(2) bx(1) by (auto simp: gv)
qed simp

lemma applied_value:
  "apply_delta_fields zone s vs c = Inr c' \<Longrightarrow> a \<in> set fk_fields \<Longrightarrow>
     cols c' a = cols c a \<or> (\<exists>f. (f, cols c' a) \<in> set vs \<and> updatable f = Some a)"
proof (induction vs arbitrary: c)
  case (Cons fv vs)
  obtain f v where fv: "fv = (f, v)" by fastforce
  obtain b x where bx: "updatable f = Some b" "parsed_field zone s b v = Inr x" "apply_delta_fields zone s vs (set_col b x c) = Inr c'"
    using Cons.prems by (auto simp: fv bindR_eq_Inr apply_field_Inr)
  have x: "a = b \<Longrightarrow> x = v" using bx(2) Cons.prems(2) by (auto simp: parsed_field_def bindR_eq_Inr)
  from Cons.IH [OF bx(3) Cons.prems(2)] show ?case
  proof
    assume u: "cols c' a = cols (set_col b x c) a"
    show ?thesis
    proof (cases "a = b")
      case True
      then have "cols c' a = v" using u x by simp
      then show ?thesis using bx(1) True by (intro disjI2 exI [of _ f]) (simp add: fv)
    qed (use u in simp)
  qed (auto simp: fv)
qed simp

lemma fields_run:
  assumes "\<forall>f \<in> set names. updatable f = Some (column_of f) \<and> check_choice (column_of f) (v (column_of f)) = Inr ()
    \<and> parsed_field zone s (column_of f) (v (column_of f)) = Inr (x (column_of f))"
  shows "\<exists>c'. apply_delta_fields zone s (map (\<lambda>f. (f, v (column_of f))) names) c = Inr c'
    \<and> (\<forall>a. cols c' a = (if a \<in> column_of ` set names then x a else cols c a))"
  using assms
proof (induction names arbitrary: c)
  case (Cons f names)
  have one: "apply_delta_field zone s f (v (column_of f)) c = Inr (set_col (column_of f) (x (column_of f)) c)"
    using Cons.prems by (auto simp: apply_field_Inr)
  have "\<forall>f \<in> set names. updatable f = Some (column_of f) \<and> check_choice (column_of f) (v (column_of f)) = Inr ()
      \<and> parsed_field zone s (column_of f) (v (column_of f)) = Inr (x (column_of f))"
    using Cons.prems by simp
  from Cons.IH [OF this, of "set_col (column_of f) (x (column_of f)) c"] one show ?case by auto
qed simp

lemma look_up: "map_of (map (\<lambda>f. (f, g f)) xs) x = (if x \<in> set xs then Some (g x) else None)" for xs :: "string list"
  by (induction xs) auto

lemma values_of: "f \<in> set names \<Longrightarrow> value_in (map (\<lambda>f. (f, g f)) names) f = g f"
  by (simp add: value_in_def look_up)

lemma current_values_run:
  "\<forall>f \<in> set names. field_attr f = Some (column_of f) \<Longrightarrow> current_values c names = Inr (map (\<lambda>f. (f, cols c (column_of f))) names)"
  unfolding current_values_def by (intro mapR_total) (auto simp: get_field_value_def)

lemma checksum_run: "\<exists>code. compute_job_delta_checksum sha j (map (\<lambda>f. (f, g f)) names) names = Inr code"
  unfolding compute_job_delta_checksum_def
  by (subst mapR_total [where g = "\<lambda>f. (f, normalise_value (g f))"]) (auto simp: look_up)

section \<open>The reversing envelope\<close>

text \<open>What the event of a change of the fields \<open>names\<close> from \<open>old\<close> to \<open>new\<close> holds.\<close>

definition event_holds :: "job_event \<Rightarrow> string list \<Rightarrow> (attr \<Rightarrow> cell) \<Rightarrow> (attr \<Rightarrow> cell) \<Rightarrow> bool" where
  "event_holds e names old new \<longleftrightarrow> schema_version e = 1 \<and> undo_fields e = names \<and> names \<noteq> [] \<and> distinct names
     \<and> (\<forall>f \<in> set names. updatable f = Some (column_of f)
          \<and> map_of (delta_before e) (attribute_text f) = Some (json_safe (old (column_of f)))
          \<and> map_of (delta_after e) (attribute_text f) = Some (json_safe (new (column_of f))))"

lemma undo_is_the_reverse:
  assumes w: "get_card (board s) j = Some w" and e: "latest_change (board s) j change = Some e" "event_holds e names old new"
    and same: "\<forall>f \<in> set names. normalise_value (cols w (column_of f)) = normalise_value (json_safe (new (column_of f)))"
    and tag: "header_satisfied tags header (job_etag zone (board s) j)"
    and goes: "\<And>code. apply_delta zone who (undo_envelope zone (board s) j change x who names
        (map (\<lambda>f. (f, cols w (column_of f))) names) (map (\<lambda>f. (f, json_safe (old (column_of f)))) names) code) w (board s) = Inr ((), b code)"
  shows "\<exists>s' code. undo_job_change sha tags zone j change x who header ip s = (Inr (), s') \<and> board s' = b code"
proof -
  note h = e(2) [unfolded event_holds_def]
  let ?current = "map (\<lambda>f. (f, cols w (column_of f))) names" and ?before = "map (\<lambda>f. (f, json_safe (old (column_of f)))) names"
  have fa: "\<forall>f \<in> set names. field_attr f = Some (column_of f)" using h updatable_names(2) by blast
  have ev: "event_values (delta_before e) names = Inr ?before"
    "event_values (delta_after e) names = Inr (map (\<lambda>f. (f, json_safe (new (column_of f)))) names)"
    unfolding event_values_def using h by (auto intro!: mapR_total)
  obtain code where code: "compute_job_delta_checksum sha j ?current names = Inr code"
    using checksum_run [of sha j "\<lambda>f. cols w (column_of f)" names] by blast
  let ?d = "undo_envelope zone (board s) j change x who names ?current ?before code"
  have d: "d_fields ?d = names" "d_before ?d = ?current" "d_after ?d = ?before" "d_checksum ?d = code" "d_job ?d = Some j"
    by (simp_all add: undo_envelope_def)
  have names: "remdups names = names" using h by (simp add: distinct_remdups_id)
  have same_now: "list_all (\<lambda>f. case field_attr f of None \<Rightarrow> True
      | Some a \<Rightarrow> normalise_value (cols w a) = normalise_value (value_in (d_before ?d) f)) names"
    unfolding d using fa values_of [of _ names "\<lambda>f. cols w (column_of f)"] by (auto simp: list_all_iff)
  have "bindR (current_values w names) (\<lambda>vs. compute_job_delta_checksum sha (jc_id w) vs names) = Inr code"
    using current_values_run [OF fa] code get_card_id [OF w] by simp
  then have "validate_delta_payload sha w ?d (job_delta_soft_fail s) = Passed code"
    using h same_now by (simp add: validate_delta_payload_def d Let_def image_image names del: remdups_id_iff_distinct)
  then have "\<exists>s'. update_job sha tags zone j ?d who header ip s = (Inr (), s') \<and> board s' = b code"
    using w tag goes [of code] h by (simp add: update_job_def d Let_def)
  moreover have "undo_job_change sha tags zone j change x who header ip s = update_job sha tags zone j ?d who header ip s"
  proof -
    obtain f where "f \<in> set names" using h by (cases names) auto
    then have "delta_before e \<noteq> []" "delta_after e \<noteq> []" using h by fastforce+
    moreover have "filter (\<lambda>f. normalise_value (value_in ?current f)
        \<noteq> normalise_value (value_in (map (\<lambda>f. (f, json_safe (new (column_of f)))) names) f)) names = []"
      using same values_of [of _ names "\<lambda>f. cols w (column_of f)"] values_of [of _ names "\<lambda>f. json_safe (new (column_of f))"]
      by (simp add: filter_empty_conv)
    ultimately show ?thesis
      using w e(1) h ev current_values_run [OF fa, of w] code by (simp add: undo_job_change_def Let_def)
  qed
  ultimately show ?thesis by auto
qed

section \<open>What a change and its undo leave\<close>

text \<open>
  The event keeps the text of a price as it was sent and of a quote's acceptance to the second, and
  the check compares their canonical forms; \<open>job_is_valid\<close> leaves no event. Changes of these
  three are not undoable.
\<close>

definition undoable :: "delta \<Rightarrow> bool" where
  "undoable d \<longleftrightarrow> distinct (d_fields d)
     \<and> list_all (\<lambda>f. column_of f \<in> set restorable \<and> column_of f \<noteq> AValid) (d_fields d)
     \<and> list_all (\<lambda>(f, v). canonical (column_of f) v) (d_after d)"

lemma in_was: "attr_name a \<in> fst ` set (was (detect_field_changes s old new r t)) \<longleftrightarrow> is_changed old new r t a"
  using was_of [of s old new r t a] map_of_eq_None_iff [of "was (detect_field_changes s old new r t)" "attr_name a"]
  by (auto split: if_splits)

lemma event_of_change:
  assumes up: "\<forall>f \<in> set (d_fields d). updatable f = Some (column_of f)" and d: "distinct (d_fields d)"
    and ch: "ch = detect_field_changes s c new None False"
    and names: "names = filter (\<lambda>f. is_changed c new None False (column_of f)) (d_fields d)" "names \<noteq> []"
  shows "event_holds (event_of i j who t (enrichment_of d) ch) names (cols c) (cols new)"
proof -
  have keep: "filter (\<lambda>f. f \<in> fst ` set (was ch)) (map attribute_text (d_fields d)) = map attribute_text names"
    using up unfolding names(1) filter_map comp_def
    by (intro arg_cong [where f = "map attribute_text"] filter_cong refl) (simp add: ch updatable_names(3) in_was)
  have wire: "map (wire_text \<circ> attribute_text) names = names"
    using up unfolding names(1) by (intro map_idI) (simp add: updatable_names(3,4))
  have "undo_fields (event_of i j who t (enrichment_of d) ch) = names"
    using names(2) keep wire by (simp add: undo_fields_def event_of_def enrichment_of_def meta_of_def plain_save_def Let_def)
  then show ?thesis
    using up d names by (auto simp: event_holds_def event_of_def enrichment_of_def plain_save_def Let_def updatable_names(3) ch was_of becomes_of)
qed

lemma latest_of_one:
  assumes "job_events s' = job_events s @ [e]" "je_job e = j" "change_id e = Some x"
    and "\<forall>e \<in> set (job_events s). je_job e \<noteq> j \<or> change_id e \<noteq> Some x"
  shows "latest_change s' j x = Some e"
proof -
  have "filter (\<lambda>e. je_job e = j \<and> change_id e = Some x) (job_events s) = []" using assms(4) by (auto simp: filter_empty_conv)
  then show ?thesis using assms(1-3) by (simp add: latest_change_def)
qed

lemma has_text_all:
  assumes "\<And>a. col_ok a (f a)" "has_text (f ADelivery)"
  shows "has_text (f a)"
proof (cases "f a")
  case (VDate n)
  then have "a = ADelivery" using assms(1) [of a] by (cases a) (auto simp: is_id_def nonblank_def text_in_def)
  then show ?thesis using assms(2) by simp
qed (simp_all add: has_text_def)

lemma sent_canonical:
  assumes "card_ok c" "apply_delta_fields zone s vs c = Inr sent" "default_pay_item s sent = Inr new"
    and "list_all (\<lambda>(f, v). canonical (column_of f) v) vs"
  shows "canonical a (cols new a)"
proof (cases "a \<in> set fk_fields")
  case True
  have "canonical a (cols sent a)"
  proof (rule disjE [OF applied_value [OF assms(2) True]])
    assume "cols sent a = cols c a"
    moreover have "col_ok a (cols c a)" using assms(1) by (simp add: card_ok_cols)
    then have "cols c a = VNone \<or> (\<exists>u. cols c a = VUuid u)" using True by (cases "cols c a") (auto simp: fk_fields_def is_id_def)
    ultimately show ?thesis by (auto simp: canonical_def)
  next
    assume "\<exists>f. (f, cols sent a) \<in> set vs \<and> updatable f = Some a"
    then show ?thesis using assms(4) by (auto simp: list_all_iff dest: updatable_names(1))
  qed
  then show ?thesis using assms(3) by (auto simp: default_pay_item_Inr canonical_def)
qed (simp add: canonical_def)

text \<open>The envelope that puts the fields \<open>names\<close> of \<open>w\<close> back to what they are in \<open>c\<close>.\<close>

lemma reverse_goes:
  assumes w: "get_card s j = Some w" "card_ok w" "check_columns (cols w)" and c: "card_ok c" "check_columns (cols c)"
    and rel: "related_ok s (cols c)" and day: "has_text (cols c ADelivery)"
    and names: "\<forall>f \<in> set names. updatable f = Some (column_of f) \<and> column_of f \<in> set restorable"
    and d: "d_after d = map (\<lambda>f. (f, json_safe (cols c (column_of f)))) names"
  shows "\<exists>s' w'. apply_delta zone who d w s = Inr ((), s') \<and> get_card s' j = Some w'
    \<and> (\<forall>a. a \<noteq> APriority \<longrightarrow> cols w' a = (if a \<in> column_of ` set names then cols c a else cols w a))"
proof -
  define x where "x a = projr (parsed_field zone s a (json_safe (cols c a)))" for a
  have oc: "col_ok a (cols c a)" and ow: "col_ok a (cols w a)" for a using c(1) w(2) by (simp_all add: card_ok_cols)
  have has: "has_text (cols c a)" for a by (rule has_text_all [where f = "cols c"]) (use oc day in simp_all)
  have read: "check_choice (column_of f) (json_safe (cols c (column_of f))) = Inr ()"
      "parsed_field zone s (column_of f) (json_safe (cols c (column_of f))) = Inr (x (column_of f))"
      "stored (column_of f) (x (column_of f)) = cols c (column_of f)" "column_of f = APayItem \<Longrightarrow> x (column_of f) \<noteq> VNone"
    if "f \<in> set names" for f
  proof -
    have "column_of f \<in> set restorable" using names that by blast
    from reparse [OF oc this has rel refl, of zone] obtain y where y:
      "check_choice (column_of f) (json_safe (cols c (column_of f))) = Inr ()"
      "parsed_field zone s (column_of f) (json_safe (cols c (column_of f))) = Inr y"
      "stored (column_of f) y = cols c (column_of f)" "column_of f = APayItem \<longrightarrow> y \<noteq> VNone" by blast
    then have "x (column_of f) = y" by (simp add: x_def)
    with y show "check_choice (column_of f) (json_safe (cols c (column_of f))) = Inr ()"
      "parsed_field zone s (column_of f) (json_safe (cols c (column_of f))) = Inr (x (column_of f))"
      "stored (column_of f) (x (column_of f)) = cols c (column_of f)" "column_of f = APayItem \<Longrightarrow> x (column_of f) \<noteq> VNone"
      by simp_all
  qed
  then obtain sent where sent: "apply_delta_fields zone s (d_after d) w = Inr sent"
    and cs: "\<And>a. cols sent a = (if a \<in> column_of ` set names then x a else cols w a)"
    using fields_run [of names "\<lambda>a. json_safe (cols c a)" zone s x w] names unfolding d by auto
  have st: "stored a (cols sent a) = (if a \<in> column_of ` set names then cols c a else cols w a)" for a
    using read(3) stored_col_ok [OF ow] by (auto simp: cs)
  have pay: "cols sent APayItem \<noteq> VNone"
  proof (cases "APayItem \<in> column_of ` set names")
    case True
    then obtain f where "f \<in> set names" "column_of f = APayItem" by force
    then show ?thesis using read(4) [of f] by (simp add: cs True)
  qed (use ow [of APayItem] in \<open>auto simp: cs is_id_def\<close>)
  have "check_columns (\<lambda>a. stored a (cols sent a))" by (rule check_mixed [OF c(2) w(3)]) (simp add: st)
  then obtain s' where run: "apply_delta zone who d w s = Inr ((), s')" using apply_delta_succeeds [OF w(1) sent pay] by blast
  from run w(1) show ?thesis
  proof (rule apply_delta_Inr)
    fix sent' new saved fx ch s1 p
    assume a: "apply_delta_fields zone s (d_after d) w = Inr sent'" "default_pay_item s sent' = Inr new"
      "ch = detect_field_changes s w new None False" "side_effects s ch new = (fx, saved)"
      "get_card s' j = Some (placed_card (saved_card w saved None fx ch)
         (''job_status'' \<in> set (d_fields d) \<and> card_status sent' \<noteq> card_status w) p)"
    have "new = sent" using a(1,2) sent pay by (auto simp: default_pay_item_Inr)
    then show ?thesis
      using run a(5) new_columns(1) [OF w(2) a(1-4) _ refl] st
      by (intro exI [of _ s'] exI [of _ "placed_card (saved_card w saved None fx ch)
        (''job_status'' \<in> set (d_fields d) \<and> card_status sent' \<noteq> card_status w) p"] conjI allI impI) auto
  qed
qed

text \<open>What a change that goes through recorded, and what undoing it needs of the board.\<close>

lemma undoable_column:
  assumes "undoable d" "f \<in> set (d_fields d)"
  shows "column_of f \<in> set restorable" "column_of f \<noteq> AValid" "column_of f \<noteq> APriority"
  using assms by (auto simp: undoable_def list_all_iff restorable_def updatable_columns_def fk_fields_def int_fields_def
      bool_fields_def nullable_text_fields_def)

lemma recorded_change:
  assumes cok: "card_ok c" and c: "get_card s j = Some c" and run: "apply_delta zone who d c s = Inr (u, b)" and d: "undoable d"
    and up: "\<forall>f \<in> set (d_fields d). updatable f = Some (column_of f)"
    and fresh: "\<forall>e \<in> set (job_events s). je_job e \<noteq> j \<or> change_id e \<noteq> Some (d_change d)"
    and c': "get_card b j = Some c'" "card_ok c'" "has_text (cols c' ADelivery)" "\<exists>f \<in> set (d_fields d). cols c' (column_of f) \<noteq> cols c (column_of f)"
  obtains e names and new :: job_card where "latest_change b j (d_change d) = Some e" "event_holds e names (cols c) (cols new)"
    "set names \<subseteq> set (d_fields d)" "\<And>f. f \<in> set (d_fields d) \<Longrightarrow> f \<notin> set names \<Longrightarrow> cols c' (column_of f) = cols c (column_of f)"
    "\<forall>f \<in> set names. normalise_value (cols c' (column_of f)) = normalise_value (json_safe (cols new (column_of f)))"
    "check_columns (cols c')" "related_ids b = related_ids s"
  using run c
proof (rule apply_delta_Inr)
  fix sent new saved fx ch s1 p
  assume a: "apply_delta_fields zone s (d_after d) c = Inr sent" "default_pay_item s sent = Inr new"
    "ch = detect_field_changes s c new None False" "side_effects s ch new = (fx, saved)"
    "check_card (written c saved None fx) = Inr ()"
    "get_card b j = Some (placed_card (saved_card c saved None fx ch)
       (''job_status'' \<in> set (d_fields d) \<and> card_status sent \<noteq> card_status c) p)"
    "job_events b = job_events s @ event_if_any (next_id (desk s)) j who (now (desk s)) (enrichment_of d) ch"
    "company_names b = company_names s" "person_names b = person_names s" "pay_items (desk b) = pay_items (desk s)"
  have w: "c' = placed_card (saved_card c saved None fx ch) (''job_status'' \<in> set (d_fields d) \<and> card_status sent \<noteq> card_status c) p"
    using a(6) c'(1) by simp
  note nc = new_columns [OF cok a(1-4) _ w] and un = undoable_column [OF d]
  define names where "names = filter (\<lambda>f. is_changed c new None False (column_of f)) (d_fields d)"
  have unmoved: "cols c' (column_of f) = cols c (column_of f)" if "f \<in> set (d_fields d)" "f \<notin> set names" for f
    using nc(3) un that by (simp add: names_def)
  have ne: "names \<noteq> []" using c'(4) unmoved by force
  let ?e = "event_of (next_id (desk s)) j who (now (desk s)) (enrichment_of d) ch"
  have e: "event_holds ?e names (cols c) (cols new)"
    using event_of_change [OF _ _ a(3) names_def ne] up d by (simp add: undoable_def)
  have "was ch \<noteq> []" using ne by (auto simp: a(3) was_empty names_def filter_empty_conv)
  then have "job_events b = job_events s @ [?e]"
    by (simp add: a(7) event_if_any_def is_no_op_drag_def event_of_def enrichment_of_def plain_save_def Let_def)
  then have latest: "latest_change b j (d_change d) = Some ?e"
    by (rule latest_of_one) (use fresh in \<open>simp_all add: event_of_def enrichment_of_def plain_save_def Let_def\<close>)
  have same: "\<forall>f \<in> set names. normalise_value (cols c' (column_of f)) = normalise_value (json_safe (cols new (column_of f)))"
  proof
    fix f assume f: "f \<in> set names"
    have v: "column_of f \<noteq> APriority" "column_of f \<in> set restorable" using un f by (simp_all add: names_def)
    have "has_text (cols c' (column_of f))" by (rule has_text_all [where f = "cols c'"]) (use c'(2,3) in \<open>simp_all add: card_ok_cols\<close>)
    moreover have "canonical (column_of f) (cols new (column_of f))"
      by (rule sent_canonical [OF cok a(1,2)]) (use d in \<open>simp add: undoable_def\<close>)
    ultimately show "normalise_value (cols c' (column_of f)) = normalise_value (json_safe (cols new (column_of f)))"
      using normalise_stored [OF nc(2) [OF v(1)] v(2)] by (simp add: nc(1) [OF v(1)])
  qed
  have "check_columns (cols c')"
    by (rule check_mixed [OF a(5) [unfolded check_card_columns] a(5) [unfolded check_card_columns]])
      (auto simp: w placed_card_def saved_card_def Let_def)
  moreover have "related_ids b = related_ids s" using a(8-10) by (simp add: related_ids_def fun_eq_iff split: attr.split)
  moreover have "set names \<subseteq> set (d_fields d)" by (simp add: names_def)
  ultimately show ?thesis using unmoved same by (intro that [OF latest e])
qed


end
