(* ===== verification/Job_Sample.thy ===== *)
theory Job_Sample
  imports Job_Undo
begin

text \<open>
  An office the witnesses run on: the customer's job 10 in progress and the shop's jobs 11 and 14,
  and a change that puts a delivery date and an order number on job 10.
\<close>

fun sample_columns :: "string \<Rightarrow> rat \<Rightarrow> attr \<Rightarrow> cell" where
  "sample_columns st p AName = VText ''job''"
| "sample_columns st p ACompany = VUuid 901"
| "sample_columns st p AOrderNumber = VNone"
| "sample_columns st p APerson = VNone"
| "sample_columns st p ADescription = VText ''gate''"
| "sample_columns st p AQuoteAcceptance = VNone"
| "sample_columns st p ADelivery = VNone"
| "sample_columns st p AStatus = VText st"
| "sample_columns st p ARdti = VNone"
| "sample_columns st p APricing = VText ''time_materials''"
| "sample_columns st p APriceCap = VNone"
| "sample_columns st p ATradeoff = VText ''normal''"
| "sample_columns st p ANotes = VNone"
| "sample_columns st p APriority = VFloat p"
| "sample_columns st p AMinPeople = VInt 1"
| "sample_columns st p AMaxPeople = VInt 1"
| "sample_columns st p APayItem = VUuid 60"
| "sample_columns st p a = VBool False"

definition sample_card :: "uuid \<Rightarrow> string \<Rightarrow> rat \<Rightarrow> job_card" where
  "sample_card i st p = \<lparr>jc_id = i, cols = sample_columns st p, completed_at = None, jc_people = [1],
     jc_created = \<lparr>m_date = 738000, m_time = Clock 9 0 0 0\<rparr>, latest_estimate = None, latest_quote = None\<rparr>"

definition sample_office :: job_office where
  "sample_office = \<lparr>board = \<lparr>desk = sample_db, cards = [sample_card 10 ''in_progress'' 200, sample_card 11 ''special'' 200,
       sample_card 14 ''special'' 400], job_events = [], company_names = [(900, ''Shop''), (901, ''Smith'')], person_names = []\<rparr>,
     rejections = [], job_delta_soft_fail = False\<rparr>"

definition sample_delta :: delta where
  "sample_delta = \<lparr>d_change = 77, d_fields = [''delivery_date'', ''order_number''],
     d_before = [(''delivery_date'', VNone), (''order_number'', VNone)],
     d_after = [(''delivery_date'', VText ''2024-05-01''), (''order_number'', VText ''A1'')],
     d_checksum = ''10|delivery_date=__NULL__|order_number=__NULL__'',
     d_actor = Some 3, d_made_at = None, d_job = Some 10, d_etag = None, d_undo_of = None\<rparr>"

definition sample_tag :: string where
  "sample_tag = job_etag (\<lambda>m. 720) (board sample_office) 10"

lemmas office_defs = sample_card_def sample_office_def sample_delta_def

definition sample_after :: job_office where
  "sample_after = snd (update_job (\<lambda>t. t) (\<lambda>h. [h]) (\<lambda>m. 720) 10 sample_delta 3 sample_tag None sample_office)"


lemma small_floats: "is_float 200" "is_float 400" by code_simp+

lemma sample_office_ok: "desk_ok (board sample_office)"
  by (simp add: desk_ok_def card_ok_def columns_def office_defs small_floats card_status_def cell_string_def is_completed_status_def
      nonblank_def is_id_def text_in_def job_statuses_def pricing_methodologies_def tradeoffs_def)

lemma sample_card_there: "get_card (board sample_office) 10 = Some (sample_card 10 ''in_progress'' 200)"
  by (simp add: get_card_def row_get_def office_defs)

text \<open>What the change gave, evaluated once.\<close>

definition went_through :: "unit res \<times> job_office \<Rightarrow> bool" where
  "went_through p = (case p of (r, s') \<Rightarrow> r = Inr () \<and> (case get_card (board s') 10 of None \<Rightarrow> False | Some c \<Rightarrow>
     has_text (cols c ADelivery) \<and> cols c AOrderNumber = VText ''A1''
       \<and> (let tag = job_etag (\<lambda>m. 720) (board s') 10 in header_satisfied (\<lambda>h. [h]) tag tag)))"

lemma sample_went_through: "went_through (update_job (\<lambda>t. t) (\<lambda>h. [h]) (\<lambda>m. 720) 10 sample_delta 3 sample_tag None sample_office)"
  by code_simp

lemma sample_change_runs:
  "update_job (\<lambda>t. t) (\<lambda>h. [h]) (\<lambda>m. 720) 10 sample_delta 3 sample_tag None sample_office = (Inr (), sample_after)"
  "\<exists>c. get_card (board sample_after) 10 = Some c \<and> has_text (cols c ADelivery) \<and> cols c AOrderNumber = VText ''A1''"
  "header_satisfied (\<lambda>h. [h]) (job_etag (\<lambda>m. 720) (board sample_after) 10) (job_etag (\<lambda>m. 720) (board sample_after) 10)"
  using sample_went_through
  by (auto simp: went_through_def sample_after_def prod_eq_iff Let_def split: prod.splits option.splits)

lemma sample_columns_of: "column_of ''delivery_date'' = ADelivery" "column_of ''order_number'' = AOrderNumber" by code_simp+




end
