(* ===== verification/Spec2Isabelle.thy ===== *)
theory Spec2Isabelle
  imports Timesheet_Safety Stock_Properties Payroll_Posting Job_Sample
begin

text \<open>
  Docketworks: timesheets, job costing, purchasing and stock.

  Docketworks runs a job shop: jobs on a board, time and materials costed to them, payroll and
  invoicing beside Xero. This development models the core of the backend under \<open>src/apps/\<close>
  that turns a person's day into money: clocking in and out, breaks, the entries of the day, what
  they cost and what the customer is charged, the ledger of costs of a job, sending the day to the
  office, its approval, leave, and the requests of the timesheet API over all of it.

  \<^bold>\<open>Theories and the code they model.\<close>
  \<^item> \<open>Prelude\<close>: the exceptions (\<open>core/errors.py\<close>, Django's, the API's), reads that may raise
    (\<open>res\<close>), transactions (\<open>tx\<close>: a state to an error or a value and a state), Hoare triples and
    \<open>keeps\<close> over them, tables as lists of rows.
  \<^item> \<open>Decimals\<close>: \<open>Decimal.quantize\<close> with the two rounding modes the code uses, as an
    interpreted interface \<open>rounding\<close>.
  \<^item> \<open>Clock\<close>, \<open>Placement\<close>: times of the day and the arithmetic of \<open>attendance.py\<close> on them:
    joining windows, stepping past breaks, hours from times and times from hours.
  \<^item> \<open>Records\<close>, \<open>Sample\<close>: one record per Django model, the database, and the small workshop
    the examples run on.
  \<^item> \<open>Costing\<close>: \<open>job/models/costing.py\<close> and \<open>costline_validators.py\<close>: what a line must be, its
    number in the day, and the cached summary of a cost set (interface \<open>ledger\<close>).
  \<^item> \<open>Payroll_Terms\<close>, \<open>Pricing\<close>: \<open>accounts/services/payroll_terms.py\<close> and
    \<open>job/services/time_entry_rates.py\<close>: contracted hours, a salary's hourly cost, the rates
    and the pay item of a time entry.
  \<^item> \<open>Hour_Categories\<close>: \<open>timesheet/services/hour_categories.py\<close>, the split of hours into
    worked, overtime and leave.
  \<^item> \<open>Day\<close>: the reads of \<open>attendance.py\<close>: the standard day, breaks, what is still to fill.
  \<^item> \<open>Events\<close>: \<open>timesheet_events.py\<close>, \<open>location.py\<close> and \<open>core/audit.py\<close>: the audit trail.
  \<^item> \<open>Entry_Rules\<close>, \<open>Entries\<close>: \<open>workshop_timesheet_service.py\<close>: the rules of an entry, and
    making, changing and deleting one, with the General work that fills a day.
  \<^item> \<open>Attendance\<close>: the writes of \<open>attendance.py\<close>: clocking in and out, setting the times by
    hand, settling a day nobody clocked, breaks. \<open>Invariants\<close> interprets the interfaces of
    \<open>Entries\<close> and \<open>Attendance\<close> on the facts that stay true of the ledger and the days.
  \<^item> \<open>Staff_Directory\<close>, \<open>Day_View\<close>: \<open>accounts/staff_directory.py\<close> and the day and week a
    worker or the office reads.
  \<^item> \<open>Submission\<close>, \<open>Clocking\<close>, \<open>Approval\<close>: \<open>day_submission.py\<close>; how a day moves on
    (\<open>day_progress\<close>, the step relation every write refines); \<open>approval.py\<close>: approving, the
    screen of a day, the sweep.
  \<^item> \<open>Leave\<close>, \<open>Leave_Lines\<close>: \<open>leave_service.py\<close> and the reads of \<open>leave_settings.py\<close>; every
    day of leave stands on an entry of its own.
  \<^item> \<open>Timesheet_Api\<close>, \<open>Timesheet_Safety\<close>: the requests of \<open>timesheet/api.py\<close> and
    \<open>leave_api.py\<close> behind the policies of \<open>core/auth.py\<close>, and what holds over any history of
    them.
  \<^item> \<open>Stockroom\<close>: the rows of \<open>purchasing/models.py\<close> as the record \<open>stockroom\<close>, which holds the
    database of the timesheets as its field \<open>books\<close>, and the inventory audit of
    \<open>stock_movement_service.py\<close>, query by query.
  \<^item> \<open>Stock_Moves\<close>: \<open>stock_movement_service.py\<close> and \<open>stock_service.py\<close>: \<open>move_stock\<close>, the only
    writer of balances, issues, returns and the items themselves. \<open>Stock_Counts\<close>:
    \<open>stocktake_service.py\<close> and the tags of \<open>core/etag.py\<close>. \<open>Receipts\<close>: \<open>allocation_service.py\<close>,
    \<open>delivery_receipt_service.py\<close> and \<open>accounting_mirror.py\<close>. \<open>Purchase_Orders\<close>:
    \<open>purchase_order_service.py\<close> and the numbers of orders.
  \<^item> \<open>Stock_Invariants\<close>: the contract of a write of the stockroom (\<open>stock_invariant\<close>) and its
    interpretations: balances are sums of movements, movements are only added, nothing is named
    twice, the summaries of cost sets stay current. \<open>Stock_Audit\<close>: the invariant under which the
    audit finds nothing, with room for the steps in the middle of a call; \<open>Stock_Operations\<close>,
    \<open>Stock_Counting\<close>, \<open>Stock_Receiving\<close> prove that every operation keeps it. \<open>Stock_Sample\<close> is the
    storeroom of the examples; \<open>Stock_History\<close> and \<open>Stock_Properties\<close> hold what is true of any
    history of calls and of single operations.

  \<^item> \<open>Payroll_Runs\<close>: \<open>payroll_runs.py\<close>, \<open>payroll_service.py\<close> and \<open>timesheet/tasks.py\<close>: the claim
    and the document of a run that posts a week to payroll, in a shared cache whose entries run
    out. No step of it is a transaction; the task is cut where it waits for the provider, whose
    answers are arguments. \<open>Payroll_Posting\<close>: any number of runs, requests and workers interleaved
    as the step relation \<open>moves\<close>, with any time passing and workers dying in between; \<open>prompt\<close> is
    the bound the code's comment states, that a live run acts within ten minutes of its last act.

  \<^item> \<open>Calendar\<close>, \<open>Floats\<close>: the standard library's text of dates and moments, and its floats: rationals
    with an executable rounding to the nearest float, ties to even.
  \<^item> \<open>Job_Values\<close>: what a column of a job may hold (\<open>cell\<close>), its JSON form and its canonical text
    (\<open>core/audit.py\<close>, \<open>delta_checksum.py\<close>). \<open>Job_Cards\<close>: \<open>Job.save\<close> of a job that exists
    (\<open>job/models/job.py\<close>): a job as a map from its columns to cells, the columns a save changed,
    what a change brings with it, the constraints of the row and the one event that records it.
    \<open>Job_Deltas\<close>: changing and undoing under two preconditions (\<open>job_service.py\<close>, \<open>core/etag.py\<close>);
    a rejection is written outside the transaction that failed, so these take the office to a
    result and an office. Arguments stand for what is not the program's own: \<open>sha\<close>, the hash of the
    checksum, \<open>tags\<close>, Django's reading of an \<open>If-Match\<close> header, and \<open>zone\<close>, how far the clock is
    ahead of UTC. \<open>Job_Saves\<close> has the types of the columns and that saving keeps them,
    \<open>Job_Changes\<close> and \<open>Job_Undo\<close> what a change leaves behind and that its undo takes it back;
    \<open>Job_Sample\<close> is the office of the examples.

  \<^bold>\<open>State.\<close> The database is the record \<open>db\<close>: one list of rows per table, the clock \<open>now\<close>, the
  company settings and a counter for fresh ids. A request handler is a transaction on it; one
  that raises leaves nothing behind. Locks order concurrent requests and have no term here: a
  history is a sequence of requests.

  \<^bold>\<open>Interfaces.\<close> \<open>ledger\<close> (saving, approving and deleting lines) is what \<open>Costing\<close> provides.
  \<open>entry_base\<close>, \<open>entry_creation\<close>, \<open>entry_writes\<close>, \<open>day_writes\<close> and \<open>leave_writes\<close> say what a
  predicate on the database must survive to be kept by the entries, the attendance and the leave
  built on them: each operation is proved to keep such a predicate once, inside the locale.
  \<open>entry_invariant\<close>, \<open>write_invariant\<close>, \<open>leave_invariant\<close> and \<open>api_invariant\<close> give these
  contracts from a weaker list of laws; each is interpreted on the model's own invariants.
  \<open>stock_invariant\<close> does the same for the stockroom.

  \<^bold>\<open>The audit's invariant.\<close> \<open>sound_stock\<close> says that balances follow movements, rows are keyed, counts
  are consistent and every order line has received what its movements delivered. In the middle
  of a call some of this is owed: \<open>audited sheet due owed\<close> allows a sheet being posted, amounts
  per order line received but not yet moved, and cost lines written before their movement.
  The answer of the accounting system is the parameter \<open>push\<close>, an arbitrary function of the
  order. Two conditions make a history \<open>admissible\<close>: quantities received have two decimals (a
  third is accepted by the code and breaks the audit, \<open>inexact_receipt_found\<close>), and the ids a
  client sends for new count lines were drawn before.

  \<^bold>\<open>Properties.\<close> Over any history of requests the tables stay sound and a sent day stays sent;
  a request moves days on or is a setting of times by somebody who may; sums of hours are kept by
  splitting, laying out, placing, categorising and booking; summaries of cost sets equal their
  recomputation; a line is stored exactly when every check passes; approvals come off changed
  entries, as stored, and are put on whole days; a sweep finishes exactly the days that can be read,
  and a day reads complete exactly when everyone expected is dealt with; entries are their owner's;
  rounding is bounded. Stock balances follow their movements and nothing is returned or reversed
  twice. At most one payroll run can act at a time, a run that ended is closed and one that died
  gives the calendar back. A change to a job is recorded whole and its undo restores what it named.

  \<^bold>\<open>Bounds.\<close> There is no fuel: loops are structural recursions over lists of rows. Decimals are
  rationals with the code's own quantisations; dates and minutes are integers.

  \<^bold>\<open>Not modelled.\<close> Cookies and tokens (a request carries the id its valid token names), the JSON
  of the answers, translation of messages and rendering of text (messages are abbreviated);
  changing the leave settings, which saves jobs through their own audit; the provider's leave
  balances (a parameter); Xero calls; PDF and file storage; setting up the stocktake job, the
  metadata parser's queue, searches, notes and documents of orders; creating jobs, their screens,
  quotes and cost grids; the scheduling, quoting and CRM applications. A time zone is the argument \<open>z\<close> of the functions that ask how far the
  clock was put forward or back in a day.
\<close>

end
